(* ===== verification/Prelude.thy ===== *)
theory Prelude
  imports
    Complex_Main
    "HOL-Library.AList"
    "HOL-Library.Char_ord"
    "HOL-Library.List_Lexorder"
    "HOL-Library.Product_Lexorder"
begin

section \<open>Prelude: results, dictionaries and strings\<close>

text \<open>
  What every component shares: the result type of code that may raise, Python's insertion-ordered
  dictionary as an association list, and the string functions the sources call.

  \<^item> An exception is a value: a computation that may raise has type \<open>exn + 'a\<close> with \<open>Inl\<close> for the
    exception; \<open>rbind\<close> sequences two of them.
  \<^item> A \<open>dict\<close> (and an \<open>OrderedDict\<close>) is an association list in insertion order with distinct keys.
    Storing under an existing key keeps its place, storing under a new key appends, as in Python;
    these are \<open>AList.update\<close> and \<open>AList.delete\<close> of the library.
  \<^item> A \<open>str\<close> is a list of code points below 256 (\<open>string\<close>); the case, strip and split functions are
    exact on that range.
\<close>

named_theorems res_simps \<open>evaluation of the result type\<close>
named_theorems dict_simps \<open>lookup after dictionary updates\<close>
named_theorems inv_intros \<open>introduction rules for the invariants of the components\<close>

subsection \<open>Exceptions and results\<close>

datatype exn =
    ValueError string
  | TypeError string
  | KeyError string
  | AttributeError string
  | OverflowError
  | IndexError
  | ConnectionError string
  | PermissionError string
  | RuntimeError string
  | HTTPException nat string
  | OtherError string string

type_synonym 'a result = "exn + 'a"

definition rbind :: "'a result \<Rightarrow> ('a \<Rightarrow> 'b result) \<Rightarrow> 'b result" where
  "rbind r f = (case r of Inl e \<Rightarrow> Inl e | Inr x \<Rightarrow> f x)"

text \<open>A list comprehension whose element may raise.\<close>

fun seq_results :: "'a result list \<Rightarrow> 'a list result" where
  "seq_results [] = Inr []"
| "seq_results (r # rs) = rbind r (\<lambda>x. rbind (seq_results rs) (\<lambda>xs. Inr (x # xs)))"

lemma rbind_simps [simp, res_simps]:
  "rbind (Inl e) f = Inl e" "rbind (Inr x) f = f x"
  by (simp_all add: rbind_def)

lemma rbind_eq_Inr [simp]: "rbind r f = Inr y \<longleftrightarrow> (\<exists>x. r = Inr x \<and> f x = Inr y)"
  by (cases r) auto

lemma rbind_eq_Inl: "rbind r f = Inl e \<longleftrightarrow> r = Inl e \<or> (\<exists>x. r = Inr x \<and> f x = Inl e)"
  by (cases r) auto

lemma rbind_cong [fundef_cong]:
  "r = r' \<Longrightarrow> (\<And>x. r' = Inr x \<Longrightarrow> f x = g x) \<Longrightarrow> rbind r f = rbind r' g"
  by (cases r') auto

lemma rbind_assoc: "rbind (rbind r f) g = rbind r (\<lambda>x. rbind (f x) g)"
  by (cases r) auto

definition is_ok :: "'a result \<Rightarrow> bool" where
  "is_ok r = (case r of Inl _ \<Rightarrow> False | Inr _ \<Rightarrow> True)"

lemma is_ok_simps [simp, res_simps]: "is_ok (Inl e) = False" "is_ok (Inr x) = True"
  by (simp_all add: is_ok_def)

subsection \<open>Insertion-ordered dictionaries\<close>

type_synonym ('k, 'v) dict = "('k \<times> 'v) list"

abbreviation dict_set :: "'k \<Rightarrow> 'v \<Rightarrow> ('k, 'v) dict \<Rightarrow> ('k, 'v) dict" where
  "dict_set k v d \<equiv> AList.update k v d"

abbreviation dict_del :: "'k \<Rightarrow> ('k, 'v) dict \<Rightarrow> ('k, 'v) dict" where
  "dict_del k d \<equiv> AList.delete k d"

definition dict_has :: "'k \<Rightarrow> ('k, 'v) dict \<Rightarrow> bool" where
  "dict_has k d = (map_of d k \<noteq> None)"

definition dict_wf :: "('k, 'v) dict \<Rightarrow> bool" where
  "dict_wf d = distinct (map fst d)"

text \<open>\<open>OrderedDict.move_to_end(k)\<close> and \<open>popitem(last=False)\<close> on a non-empty dictionary.\<close>

definition move_to_end :: "'k \<Rightarrow> ('k, 'v) dict \<Rightarrow> ('k, 'v) dict" where
  "move_to_end k d = (case map_of d k of None \<Rightarrow> d | Some v \<Rightarrow> dict_del k d @ [(k, v)])"

definition popitem_first :: "('k, 'v) dict \<Rightarrow> ('k, 'v) dict" where
  "popitem_first d = tl d"

text \<open>\<open>d.update(e)\<close>: the pairs of \<open>e\<close> stored one after the other.\<close>

definition dict_update :: "('k, 'v) dict \<Rightarrow> ('k, 'v) dict \<Rightarrow> ('k, 'v) dict" where
  "dict_update d e = fold (\<lambda>(k, v) acc. dict_set k v acc) e d"

lemma dict_has_iff: "dict_has k d \<longleftrightarrow> k \<in> fst ` set d"
  by (simp add: dict_has_def map_of_eq_None_iff)

lemma map_of_dict_set [simp, dict_simps]: "map_of (dict_set k v d) k' = (if k' = k then Some v else map_of d k')"
  by (simp add: update_conv')

lemma map_of_dict_del [simp, dict_simps]: "map_of (dict_del k d) k' = (if k' = k then None else map_of d k')"
  by (simp add: delete_conv')

lemma dict_has_set [simp, dict_simps]: "dict_has k' (dict_set k v d) \<longleftrightarrow> k' = k \<or> dict_has k' d"
  by (simp add: dict_has_def)

lemma dict_wf_Nil [simp, inv_intros]: "dict_wf []"
  by (simp add: dict_wf_def)

lemma dict_wf_set [simp, inv_intros]: "dict_wf d \<Longrightarrow> dict_wf (dict_set k v d)"
  by (simp add: dict_wf_def distinct_update)

lemma dict_wf_del [simp, inv_intros]: "dict_wf d \<Longrightarrow> dict_wf (dict_del k d)"
  by (simp add: dict_wf_def distinct_delete)

lemma dict_set_new: "\<not> dict_has k d \<Longrightarrow> dict_set k v d = d @ [(k, v)]"
  by (induction d) (auto simp: dict_has_def split: if_splits)

lemma length_dict_set: "length (dict_set k v d) = (if dict_has k d then length d else Suc (length d))"
  by (induction d) (auto simp: dict_has_def split: if_splits)

lemma length_dict_del:
  "dict_wf d \<Longrightarrow> length (dict_del k d) = (if dict_has k d then length d - 1 else length d)"
proof (induction d)
  case Nil
  then show ?case by (simp add: dict_has_def)
next
  case (Cons p d)
  obtain a b where p: "p = (a, b)" by (cases p)
  show ?case
  proof (cases "a = k")
    case True
    with Cons.prems p have "\<not> dict_has k d" by (auto simp: dict_has_iff dict_wf_def)
    with Cons p True show ?thesis by (simp add: dict_wf_def dict_has_def)
  next
    case False
    have "dict_has k d \<Longrightarrow> 0 < length d" by (cases d) (simp_all add: dict_has_def)
    with Cons p False show ?thesis by (auto simp: dict_wf_def dict_has_def)
  qed
qed

lemma length_dict_del_le: "length (dict_del k d) \<le> length d"
  by (induction d) (auto split: if_splits)

lemma map_of_move_to_end [simp, dict_simps]: "dict_wf d \<Longrightarrow> map_of (move_to_end k d) = map_of d"
  by (rule ext) (auto simp: move_to_end_def map_add_Some_iff map_of_append map_add_def
      split: option.splits)

lemma dict_wf_move_to_end [simp, inv_intros]: "dict_wf d \<Longrightarrow> dict_wf (move_to_end k d)"
  by (auto simp: move_to_end_def dict_wf_def distinct_removeAll delete_keys split: option.splits)

lemma set_move_to_end_length [simp]: "dict_wf d \<Longrightarrow> length (move_to_end k d) = length d"
proof (cases "map_of d k")
  case None
  then show ?thesis by (simp add: move_to_end_def)
next
  case (Some v)
  assume "dict_wf d"
  moreover from Some have "d \<noteq> []" by auto
  ultimately show ?thesis using Some
    by (simp add: move_to_end_def length_dict_del dict_has_def Suc_diff_le Suc_le_eq)
qed

lemma dict_wf_popitem [simp, inv_intros]: "dict_wf d \<Longrightarrow> dict_wf (popitem_first d)"
  by (cases d) (simp_all add: popitem_first_def dict_wf_def)

lemma map_of_popitem_first:
  "dict_wf d \<Longrightarrow> map_of (popitem_first d) k = (if d \<noteq> [] \<and> k = fst (hd d) then None else map_of d k)"
  by (cases d) (auto simp: popitem_first_def dict_wf_def map_of_eq_None_iff)

lemma map_of_dict_update_notin: "k \<notin> fst ` set e \<Longrightarrow> map_of (dict_update d e) k = map_of d k"
  by (induction e arbitrary: d) (auto simp: dict_update_def)

lemma dict_wf_update [simp, inv_intros]: "dict_wf d \<Longrightarrow> dict_wf (dict_update d e)"
  by (induction e arbitrary: d) (auto simp: dict_update_def)

lemma map_of_dict_update:
  "dict_wf e \<Longrightarrow> map_of (dict_update d e) k = (case map_of e k of None \<Rightarrow> map_of d k | Some v \<Rightarrow> Some v)"
proof (induction e arbitrary: d)
  case Nil
  then show ?case by (simp add: dict_update_def)
next
  case (Cons p e)
  obtain a b where p: "p = (a, b)" by (cases p)
  have "map_of (dict_update d (p # e)) k = map_of (dict_update (dict_set a b d) e) k"
    by (simp add: p dict_update_def)
  moreover have "dict_wf e" and "map_of e a = None"
    using Cons.prems p by (simp_all add: dict_wf_def map_of_eq_None_iff)
  ultimately show ?case
    using Cons.IH [of "dict_set a b d"] by (cases "map_of e k") (auto simp: p)
qed

subsection \<open>Pages of a list\<close>

lemma pages_concat:
  "0 < l \<Longrightarrow> concat (map (\<lambda>k. take l (drop (k * l) xs)) [0..<n]) = take (n * l) xs"
proof (induction n)
  case (Suc n)
  then show ?case using take_add [of "n * l" l xs] by (simp add: add.commute [of l])
qed simp

end
