(* ===== verification/Py_Float.thy ===== *)
theory Py_Float
  imports Py_Str
begin

section \<open>Floating point\<close>

text \<open>
  Python's \<open>float\<close> is an IEEE 754 double. A finite double is its exact rational value (so \<open>-0.0\<close> is
  not told apart from \<open>0.0\<close>); \<open>round_double\<close> rounds a rational to the nearest double, ties to even,
  with gradual underflow and overflow to infinity. \<open>float_of_str\<close> is the constructor \<open>float(s)\<close> on
  strings, \<open>float_repr\<close> the shortest decimal that reads back as the same double, which is what
  \<open>str\<close> prints.
\<close>

datatype pyfloat = FFin rat | FPosInf | FNegInf | FNaN

subsection \<open>Rounding\<close>

fun bitlen :: "nat \<Rightarrow> nat" where
  "bitlen n = (if n = 0 then 0 else Suc (bitlen (n div 2)))"

declare bitlen.simps [simp del]

definition pow2 :: "int \<Rightarrow> rat" where
  "pow2 e = (if 0 \<le> e then 2 ^ nat e else 1 / 2 ^ nat (- e))"

text \<open>The exponent \<open>e\<close> with \<open>2 ^ e \<le> x < 2 ^ (e + 1)\<close>, for positive \<open>x\<close>.\<close>

definition flog2 :: "rat \<Rightarrow> int" where
  "flog2 x =
     (let (n, d) = quotient_of x; e = int (bitlen (nat n)) - int (bitlen (nat d))
      in if pow2 e \<le> x then e else e - 1)"

definition round_half_even :: "rat \<Rightarrow> int" where
  "round_half_even x =
     (let f = \<lfloor>x\<rfloor>; r = x - of_int f
      in if r < 1 / 2 then f else if 1 / 2 < r then f + 1 else if even f then f else f + 1)"

definition round_double :: "rat \<Rightarrow> pyfloat" where
  "round_double x =
     (if x = 0 then FFin 0
      else
        let a = \<bar>x\<bar>; q = max (flog2 a) (- 1022) - 52;
            v = of_int (round_half_even (a / pow2 q)) * pow2 q
        in if pow2 1024 \<le> v then (if 0 < x then FPosInf else FNegInf)
           else FFin (if 0 < x then v else - v))"

subsection \<open>Comparison\<close>

fun float_eq :: "pyfloat \<Rightarrow> pyfloat \<Rightarrow> bool" where
  "float_eq (FFin a) (FFin b) = (a = b)"
| "float_eq FPosInf FPosInf = True"
| "float_eq FNegInf FNegInf = True"
| "float_eq _ _ = False"

fun float_lt :: "pyfloat \<Rightarrow> pyfloat \<Rightarrow> bool" where
  "float_lt (FFin a) (FFin b) = (a < b)"
| "float_lt (FFin _) FPosInf = True"
| "float_lt FNegInf (FFin _) = True"
| "float_lt FNegInf FPosInf = True"
| "float_lt _ _ = False"

definition float_le :: "pyfloat \<Rightarrow> pyfloat \<Rightarrow> bool" where
  "float_le a b = (float_lt a b \<or> float_eq a b)"

subsection \<open>Reading and printing\<close>

definition pow10 :: "int \<Rightarrow> rat" where
  "pow10 e = (if 0 \<le> e then 10 ^ nat e else 1 / 10 ^ nat (- e))"

text \<open>
  \<open>digits [. digits] [e sign digits]\<close> with at least one digit in the mantissa: the value, or
  \<open>None\<close> when the string has another form.
\<close>

definition opt_digits :: "string \<Rightarrow> bool" where
  "opt_digits s = (s = [] \<or> digit_run s)"

definition mantissa_val :: "string \<Rightarrow> rat option" where
  "mantissa_val s =
     (case split_on CHR ''.'' s of
        [i] \<Rightarrow> if digit_run i then Some (of_nat (digits_val (no_underscore i))) else None
      | [i, f] \<Rightarrow>
          if opt_digits i \<and> opt_digits f \<and> (i \<noteq> [] \<or> f \<noteq> []) then
            (let f' = no_underscore f in
             Some (of_nat (digits_val (no_underscore i)) +
                   of_nat (digits_val f') / 10 ^ length f'))
          else None
      | _ \<Rightarrow> None)"

definition exponent_val :: "string \<Rightarrow> int option" where
  "exponent_val s = (let (neg, r) = split_sign s in
     if digit_run r then Some ((if neg then - 1 else 1) * int (digits_val (no_underscore r))) else None)"

definition decimal_val :: "string \<Rightarrow> rat option" where
  "decimal_val s =
     (case split_on CHR ''e'' s of
        [m] \<Rightarrow> mantissa_val m
      | [m, x] \<Rightarrow>
          (case (mantissa_val m, exponent_val x) of
             (Some v, Some e) \<Rightarrow> Some (v * pow10 e)
           | _ \<Rightarrow> None)
      | _ \<Rightarrow> None)"

definition float_of_str :: "string \<Rightarrow> pyfloat option" where
  "float_of_str s =
     (let (neg, r) = split_sign (lower (strip s)) in
      if r = ''inf'' \<or> r = ''infinity'' then Some (if neg then FNegInf else FPosInf)
      else if r = ''nan'' then Some FNaN
      else map_option (\<lambda>v. round_double (if neg then - v else v)) (decimal_val r))"

text \<open>The decimal exponent of a positive rational, searched from an estimate downwards.\<close>

definition dec_exp :: "rat \<Rightarrow> int" where
  "dec_exp x =
     (let (n, d) = quotient_of x;
          e = int (length (nat_str (nat n))) - int (length (nat_str (nat d)))
      in if pow10 e \<le> x then e else e - 1)"

text \<open>\<open>x\<close> rounded to \<open>p\<close> significant digits: the digits and the exponent of the first one.\<close>

definition round_dec :: "nat \<Rightarrow> rat \<Rightarrow> nat \<times> int" where
  "round_dec p x =
     (let e = dec_exp x; m = round_half_even (x / pow10 (e - int p + 1))
      in if m = 10 ^ p then (10 ^ (p - 1), e + 1) else (nat m, e))"

fun shortest_from :: "nat \<Rightarrow> nat \<Rightarrow> rat \<Rightarrow> nat \<times> int" where
  "shortest_from 0 p x = round_dec p x"
| "shortest_from (Suc k) p x =
     (let (m, e) = round_dec p x in
      if round_double (of_nat m * pow10 (e - int p + 1)) = FFin x then (m, e)
      else shortest_from k (Suc p) x)"

definition rstrip_zeros :: "string \<Rightarrow> string" where
  "rstrip_zeros s = rstrip_by (\<lambda>c. c = CHR ''0'') s"

definition exp_str :: "int \<Rightarrow> string" where
  "exp_str e = (let s = nat_str (nat \<bar>e\<bar>) in
     (if e < 0 then ''-'' else ''+'') @ (if length s < 2 then ''0'' @ s else s))"

definition pos_repr :: "rat \<Rightarrow> string" where
  "pos_repr x =
     (let (m, e) = shortest_from 16 1 x;
          ds = (let z = rstrip_zeros (nat_str m) in if z = [] then ''0'' else z)
      in if - 4 \<le> e \<and> e < 16 then
           (if e < 0 then ''0.'' @ replicate (nat (- e) - 1) CHR ''0'' @ ds
            else if length ds \<le> nat e + 1
              then ds @ replicate (nat e + 1 - length ds) CHR ''0'' @ ''.0''
            else take (nat e + 1) ds @ ''.'' @ drop (nat e + 1) ds)
         else (if length ds = 1 then ds else take 1 ds @ ''.'' @ drop 1 ds) @ ''e'' @ exp_str e)"

fun float_repr :: "pyfloat \<Rightarrow> string" where
  "float_repr (FFin x) = (if x = 0 then ''0.0'' else if x < 0 then CHR ''-'' # pos_repr (- x) else pos_repr x)"
| "float_repr FPosInf = ''inf''"
| "float_repr FNegInf = ''-inf''"
| "float_repr FNaN = ''nan''"

subsection \<open>Integers up to 2 to the 53 are exact\<close>

lemma pow2_pos [simp]: "0 < pow2 e"
  by (simp add: pow2_def)

lemma bitlen_bounds: "0 < n \<Longrightarrow> 2 ^ (bitlen n - 1) \<le> n \<and> n < 2 ^ bitlen n"
proof (induction n rule: bitlen.induct)
  case (1 n)
  show ?case
  proof (cases "n div 2 = 0")
    case True
    with 1 have "n = 1" by auto
    then show ?thesis by (simp add: bitlen.simps)
  next
    case False
    let ?h = "n div 2"
    have "0 < bitlen ?h" using False by (subst bitlen.simps) simp
    then obtain b where b: "bitlen ?h = Suc b" using gr0_conv_Suc by blast
    have "bitlen n = Suc (Suc b)" using 1(2) b by (subst bitlen.simps) simp
    moreover from 1(1) False 1(2) b have "2 ^ b \<le> ?h \<and> ?h < 2 ^ Suc b" by simp
    ultimately show ?thesis by auto
  qed
qed

lemma bitlen_le: "n < 2 ^ k \<Longrightarrow> bitlen n \<le> k"
proof (cases "n = 0")
  case True
  then show ?thesis by (simp add: bitlen.simps)
next
  case False
  assume "n < 2 ^ k"
  with bitlen_bounds [of n] False have "(2::nat) ^ (bitlen n - 1) < 2 ^ k" by linarith
  then have "bitlen n - 1 < k" by (rule power_less_imp_less_exp [rotated]) simp
  then show ?thesis by simp
qed

lemma flog2_of_nat_less: "0 < n \<Longrightarrow> n < 2 ^ k \<Longrightarrow> flog2 (of_nat n) < int k"
proof -
  assume n: "0 < n" "n < 2 ^ k"
  have q: "quotient_of (rat_of_nat n) = (int n, 1)"
    using quotient_of_int [of "int n"] by simp
  have b1: "bitlen (Suc 0) = 1" by (simp add: bitlen.simps)
  have le: "bitlen n \<le> k" using n bitlen_le by blast
  show ?thesis
  proof (cases "pow2 (int (bitlen n) - 1) \<le> rat_of_nat n")
    case True
    then show ?thesis using le by (simp add: flog2_def q b1 Let_def)
  next
    case False
    then show ?thesis using le by (simp add: flog2_def q b1 Let_def)
  qed
qed

lemma round_half_even_of_int [simp]: "round_half_even (of_int i) = i"
  by (simp add: round_half_even_def)

lemma of_nat_div_pow2: "q \<le> 0 \<Longrightarrow> rat_of_nat n / pow2 q = of_int (int n * 2 ^ nat (- q))"
  by (cases "q = 0") (simp_all add: pow2_def)

lemma pow2_nat: "0 \<le> e \<Longrightarrow> pow2 e = 2 ^ nat e"
  by (simp add: pow2_def)

lemma round_double_of_nat: "n < 2 ^ 53 \<Longrightarrow> round_double (of_nat n) = FFin (of_nat n)"
proof (cases "n = 0")
  case True
  then show ?thesis by (simp add: round_double_def)
next
  case False
  assume n: "n < 2 ^ 53"
  define q where "q = max (flog2 (rat_of_nat n)) (- 1022) - 52"
  have "flog2 (rat_of_nat n) < int 53" using flog2_of_nat_less False n by blast
  then have q0: "q \<le> 0" by (simp add: q_def)
  have v: "of_int (round_half_even (rat_of_nat n / pow2 q)) * pow2 q = rat_of_nat n"
  proof -
    have "round_half_even (rat_of_nat n / pow2 q) = int n * 2 ^ nat (- q)"
      by (simp only: of_nat_div_pow2 [OF q0] round_half_even_of_int)
    then have "of_int (round_half_even (rat_of_nat n / pow2 q)) = rat_of_nat n / pow2 q"
      using of_nat_div_pow2 [OF q0] by metis
    moreover have "pow2 q \<noteq> 0" by (metis less_irrefl pow2_pos)
    ultimately show ?thesis by simp
  qed
  have "rat_of_nat n < rat_of_nat (2 ^ 53)" using n by (simp only: of_nat_less_iff)
  also have "\<dots> \<le> pow2 1024" by (simp add: pow2_nat)
  finally have small: "\<not> pow2 1024 \<le> rat_of_nat n" by simp
  show ?thesis using False v small
    by (simp add: round_double_def Let_def flip: q_def)
qed

lemma round_double_uminus: "round_double (- x) = (case round_double x of
    FFin v \<Rightarrow> FFin (- v) | FPosInf \<Rightarrow> FNegInf | FNegInf \<Rightarrow> FPosInf | FNaN \<Rightarrow> FNaN)"
  by (simp add: round_double_def Let_def)

lemma round_double_of_int: "\<bar>i\<bar> < 2 ^ 53 \<Longrightarrow> round_double (of_int i) = FFin (of_int i)"
proof -
  assume b: "\<bar>i\<bar> < 2 ^ 53"
  define n where "n = nat \<bar>i\<bar>"
  have n: "n < 2 ^ 53" using b by (simp add: n_def nat_less_iff)
  have "rat_of_int i = of_nat n \<or> rat_of_int i = - of_nat n"
    by (simp add: n_def abs_if)
  then show ?thesis
    using round_double_of_nat [OF n] round_double_uminus [of "rat_of_nat n"] by auto
qed

subsection \<open>Rounding stays in the unit interval\<close>

lemma bitlen_mono: "m \<le> n \<Longrightarrow> bitlen m \<le> bitlen n"
proof (cases "m = 0")
  case True
  then show ?thesis by (simp add: bitlen.simps)
next
  case False
  assume "m \<le> n"
  then have "m < 2 ^ bitlen n" using bitlen_bounds [of n] False by simp
  then show ?thesis by (rule bitlen_le)
qed

lemma flog2_le_zero: "0 < x \<Longrightarrow> x \<le> 1 \<Longrightarrow> flog2 x \<le> 0"
proof -
  assume x: "0 < x" "x \<le> 1"
  obtain n d where q: "quotient_of x = (n, d)" by (cases "quotient_of x")
  have d: "0 < d" by (rule quotient_of_denom_pos [OF q])
  have "x = of_int n / of_int d" by (rule quotient_of_div [OF q])
  then have "rat_of_int n \<le> of_int d" using x d by (simp add: divide_le_eq)
  then have "bitlen (nat n) \<le> bitlen (nat d)" by (intro bitlen_mono nat_mono) simp
  then show ?thesis by (simp add: flog2_def q Let_def)
qed

lemma round_half_even_bounds: "0 \<le> y \<Longrightarrow> y \<le> of_int k \<Longrightarrow> 0 \<le> round_half_even y \<and> round_half_even y \<le> k"
proof -
  assume y: "0 \<le> y" "y \<le> of_int k"
  have f: "0 \<le> \<lfloor>y\<rfloor>" "\<lfloor>y\<rfloor> \<le> k" using y by (simp_all add: floor_le_iff)
  have "\<lfloor>y\<rfloor> + 1 \<le> k" if "\<not> y - of_int \<lfloor>y\<rfloor> < 1 / 2"
  proof -
    have "of_int \<lfloor>y\<rfloor> < y" using that by linarith
    then have "of_int \<lfloor>y\<rfloor> < rat_of_int k" using y(2) by linarith
    then show ?thesis by simp
  qed
  then show ?thesis using f by (auto simp: round_half_even_def Let_def)
qed

lemma round_double_unit: "0 \<le> x \<Longrightarrow> x \<le> 1 \<Longrightarrow> \<exists>v. round_double x = FFin v \<and> 0 \<le> v \<and> v \<le> 1"
proof (cases "x = 0")
  case True
  then show ?thesis by (simp add: round_double_def)
next
  case False
  assume x: "0 \<le> x" "x \<le> 1"
  define q where "q = max (flog2 x) (- 1022) - 52"
  define r where "r = round_half_even (x / pow2 q)"
  have q: "q \<le> 0" using flog2_le_zero [of x] x False by (simp add: q_def)
  define N where "N = (2::int) ^ nat (- q)"
  have inv: "1 / pow2 q = of_int N"
    using q by (cases "q = 0") (simp_all add: pow2_def N_def)
  have pos: "0 < pow2 q" by simp
  have "x / pow2 q \<le> 1 / pow2 q" using x pos by (simp add: divide_right_mono less_imp_le)
  then have r: "0 \<le> r" "r \<le> N"
    using round_half_even_bounds [of "x / pow2 q" N] x pos by (simp_all add: r_def inv)
  have "of_int r * pow2 q \<le> of_int N * pow2 q" using r pos by simp
  also have "\<dots> = 1" using inv pos by (simp add: field_simps)
  finally have v: "of_int r * pow2 q \<le> 1" "0 \<le> of_int r * pow2 q"
    using r pos by (simp_all add: less_imp_le)
  moreover have "(1::rat) < pow2 1024" by (simp add: pow2_nat)
  ultimately have "\<not> pow2 1024 \<le> of_int r * pow2 q" by linarith
  then have "round_double x = FFin (of_int r * pow2 q)"
    using x False by (simp add: round_double_def Let_def flip: q_def r_def)
  with v show ?thesis by blast
qed

lemma round_half_even_near: "of_int (round_half_even y) \<le> y + 1 / 2"
proof -
  have f: "of_int \<lfloor>y\<rfloor> \<le> y" by simp
  consider "round_half_even y = \<lfloor>y\<rfloor>" | "1 / 2 \<le> y - of_int \<lfloor>y\<rfloor>" "round_half_even y = \<lfloor>y\<rfloor> + 1"
    by (fastforce simp: round_half_even_def Let_def split: if_splits)
  then show ?thesis by cases (use f in linarith, simp)
qed

lemma pow2_small: "q \<le> - 52 \<Longrightarrow> pow2 q \<le> 1 / 500"
proof -
  assume q: "q \<le> - 52"
  then have "(500 :: rat) \<le> 2 ^ 52" "(2 :: rat) ^ 52 \<le> 2 ^ nat (- q)" by (simp, intro power_increasing) auto
  then have "(500 :: rat) \<le> 2 ^ nat (- q)" by linarith
  then show ?thesis using q by (simp add: pow2_def field_simps)
qed

lemma round_double_near: "0 \<le> x \<Longrightarrow> x \<le> 1 \<Longrightarrow> \<exists>v. round_double x = FFin v \<and> v \<le> x + 1 / 1000"
proof (cases "x = 0")
  case True
  then show ?thesis by (simp add: round_double_def)
next
  case False
  assume x: "0 \<le> x" "x \<le> 1"
  define q where "q = max (flog2 x) (- 1022) - 52"
  define r where "r = round_half_even (x / pow2 q)"
  have q: "pow2 q \<le> 1 / 500" using flog2_le_zero [of x] x False by (intro pow2_small) (simp add: q_def)
  have pos: "0 < pow2 q" by simp
  have "of_int r * pow2 q \<le> (x / pow2 q + 1 / 2) * pow2 q"
    using round_half_even_near pos by (simp add: r_def mult_right_mono)
  also have "\<dots> = x + pow2 q / 2" using pos by (simp add: field_simps del: pow2_pos)
  also have "\<dots> \<le> x + 1 / 1000" using q by simp
  finally have "of_int r * pow2 q \<le> x + 1 / 1000" .
  moreover from round_double_unit [OF x] obtain v where "round_double x = FFin v" by blast
  then have "round_double x = FFin (of_int r * pow2 q)"
    using x False by (simp add: round_double_def Let_def flip: q_def r_def split: if_splits)
  ultimately show ?thesis by blast
qed

end
