(* ===== verification/Py_Value.thy ===== *)
theory Py_Value
  imports Py_Float
begin

section \<open>JSON-shaped Python values\<close>

text \<open>
  Events, conditions and payloads are Python values built from \<open>None\<close>, \<open>bool\<close>, \<open>int\<close>, \<open>float\<close>, \<open>str\<close>,
  \<open>list\<close> and \<open>dict\<close> with string keys: what \<open>json.loads\<close> and \<open>yaml.safe_load\<close> produce. This theory
  holds the built-in operations the modules apply to them: truth value, \<open>a or b\<close>, \<open>d.get(k)\<close>, \<open>==\<close>,
  \<open>str\<close>, \<open>repr\<close>, \<open>float\<close>, \<open>int\<close>, and the dotted path lookup that M5 and the integration layer share.
  \<open>py_eq\<close> compares two \<open>NaN\<close> inside containers as unequal (CPython's identity shortcut is not modelled).
\<close>

datatype pyval =
    PNone
  | PBool bool
  | PInt int
  | PFloat pyfloat
  | PStr string
  | PList "pyval list"
  | PDict "(string \<times> pyval) list"

type_synonym pydict = "(string, pyval) dict"

subsection \<open>Truth, lookup, conversion\<close>

fun py_truthy :: "pyval \<Rightarrow> bool" where
  "py_truthy PNone = False"
| "py_truthy (PBool b) = b"
| "py_truthy (PInt i) = (i \<noteq> 0)"
| "py_truthy (PFloat f) = (f \<noteq> FFin 0)"
| "py_truthy (PStr s) = (s \<noteq> [])"
| "py_truthy (PList xs) = (xs \<noteq> [])"
| "py_truthy (PDict d) = (d \<noteq> [])"

text \<open>\<open>a or b\<close>\<close>

definition por :: "pyval \<Rightarrow> pyval \<Rightarrow> pyval" where
  "por a b = (if py_truthy a then a else b)"

text \<open>\<open>d.get(k)\<close> and \<open>d.get(k, v)\<close>\<close>

definition pget :: "pydict \<Rightarrow> string \<Rightarrow> pyval" where
  "pget d k = (case map_of d k of None \<Rightarrow> PNone | Some v \<Rightarrow> v)"

definition pget_default :: "pydict \<Rightarrow> string \<Rightarrow> pyval \<Rightarrow> pyval" where
  "pget_default d k v = (case map_of d k of None \<Rightarrow> v | Some w \<Rightarrow> w)"

fun is_dict :: "pyval \<Rightarrow> bool" where
  "is_dict (PDict _) = True"
| "is_dict _ = False"

fun is_str :: "pyval \<Rightarrow> bool" where
  "is_str (PStr _) = True"
| "is_str _ = False"

fun is_bool :: "pyval \<Rightarrow> bool" where
  "is_bool (PBool _) = True"
| "is_bool _ = False"

fun is_list :: "pyval \<Rightarrow> bool" where
  "is_list (PList _) = True"
| "is_list _ = False"

lemma por_truthy [simp]: "py_truthy a \<Longrightarrow> por a b = a"
  by (simp add: por_def)

lemma por_falsy [simp]: "\<not> py_truthy a \<Longrightarrow> por a b = b"
  by (simp add: por_def)

lemma por_None [simp]: "por PNone b = b"
  by simp

lemma py_truthy_por: "py_truthy (por a b) \<longleftrightarrow> py_truthy a \<or> py_truthy b"
  by (simp add: por_def)

lemma pget_dict_set [simp, dict_simps]: "pget (dict_set k v d) k' = (if k' = k then v else pget d k')"
  by (simp add: pget_def)

lemma pget_Some: "map_of d k = Some v \<Longrightarrow> pget d k = v"
  by (simp add: pget_def)

lemma pget_truthy_has: "py_truthy (pget d k) \<Longrightarrow> \<exists>v. map_of d k = Some v"
  by (cases "map_of d k") (simp_all add: pget_def)

subsection \<open>Equality\<close>

text \<open>The numeric value of a \<open>bool\<close>, an \<open>int\<close> or a \<open>float\<close>: Python compares them exactly.\<close>

fun num_val :: "pyval \<Rightarrow> pyfloat option" where
  "num_val (PBool b) = Some (FFin (if b then 1 else 0))"
| "num_val (PInt i) = Some (FFin (of_int i))"
| "num_val (PFloat f) = Some f"
| "num_val _ = None"

fun py_eq :: "pyval \<Rightarrow> pyval \<Rightarrow> bool"
  and py_eqs :: "pyval list \<Rightarrow> pyval list \<Rightarrow> bool"
  and py_eqd :: "(string \<times> pyval) list \<Rightarrow> (string \<times> pyval) list \<Rightarrow> bool" where
  "py_eq PNone b = (b = PNone)"
| "py_eq (PStr s) b = (b = PStr s)"
| "py_eq (PList xs) b = (case b of PList ys \<Rightarrow> py_eqs xs ys | _ \<Rightarrow> False)"
| "py_eq (PDict d) b = (case b of PDict e \<Rightarrow> length d = length e \<and> py_eqd d e | _ \<Rightarrow> False)"
| "py_eq (PBool x) b = (case num_val b of None \<Rightarrow> False | Some y \<Rightarrow> float_eq (FFin (if x then 1 else 0)) y)"
| "py_eq (PInt x) b = (case num_val b of None \<Rightarrow> False | Some y \<Rightarrow> float_eq (FFin (of_int x)) y)"
| "py_eq (PFloat x) b = (case num_val b of None \<Rightarrow> False | Some y \<Rightarrow> float_eq x y)"
| "py_eqs [] ys = (ys = [])"
| "py_eqs (x # xs) ys = (case ys of [] \<Rightarrow> False | y # ys' \<Rightarrow> py_eq x y \<and> py_eqs xs ys')"
| "py_eqd [] e = True"
| "py_eqd ((k, v) # d) e = ((case map_of e k of None \<Rightarrow> False | Some w \<Rightarrow> py_eq v w) \<and> py_eqd d e)"

lemma py_eq_str [simp]: "py_eq a (PStr s) \<longleftrightarrow> a = PStr s"
  by (cases a) auto

lemma py_eq_None [simp]: "py_eq a PNone \<longleftrightarrow> a = PNone"
  by (cases a) auto

subsection \<open>Printing\<close>

definition hex_digit :: "nat \<Rightarrow> char" where
  "hex_digit n = ''0123456789abcdef'' ! n"

definition hex2 :: "nat \<Rightarrow> string" where
  "hex2 n = [hex_digit (n div 16), hex_digit (n mod 16)]"

definition repr_char :: "char \<Rightarrow> char \<Rightarrow> string" where
  "repr_char q c =
     (let n = code c in
      if c = q \<or> n = 92 then [CHR 0x5C, c]
      else if n = 10 then CHR 0x5C # ''n''
      else if n = 13 then CHR 0x5C # ''r''
      else if n = 9 then CHR 0x5C # ''t''
      else if n < 32 \<or> (127 \<le> n \<and> n \<le> 160) \<or> n = 173 then CHR 0x5C # ''x'' @ hex2 n
      else [c])"

definition str_repr :: "string \<Rightarrow> string" where
  "str_repr s =
     (let q = (if CHR 0x27 \<in> set s \<and> CHR 0x22 \<notin> set s then CHR 0x22 else CHR 0x27)
      in q # concat (map (repr_char q) s) @ [q])"

fun py_repr :: "pyval \<Rightarrow> string" where
  "py_repr PNone = ''None''"
| "py_repr (PBool b) = (if b then ''True'' else ''False'')"
| "py_repr (PInt i) = int_str i"
| "py_repr (PFloat f) = float_repr f"
| "py_repr (PStr s) = str_repr s"
| "py_repr (PList xs) = ''['' @ join '', '' (map py_repr xs) @ '']''"
| "py_repr (PDict d) = ''{'' @ join '', '' (map (\<lambda>(k, v). str_repr k @ '': '' @ py_repr v) d) @ ''}''"

definition py_str :: "pyval \<Rightarrow> string" where
  "py_str v = (case v of PStr s \<Rightarrow> s | _ \<Rightarrow> py_repr v)"

lemma py_str_PStr [simp]: "py_str (PStr s) = s"
  by (simp add: py_str_def)

text \<open>\<open>str(e)\<close> of an exception.\<close>

fun exn_str :: "exn \<Rightarrow> string" where
  "exn_str (ValueError m) = m"
| "exn_str (TypeError m) = m"
| "exn_str (KeyError m) = str_repr m"
| "exn_str (AttributeError m) = m"
| "exn_str OverflowError = ''int too large to convert to float''"
| "exn_str IndexError = ''list index out of range''"
| "exn_str (ConnectionError m) = m"
| "exn_str (PermissionError m) = m"
| "exn_str (RuntimeError m) = m"
| "exn_str (HTTPException c m) = nat_str c @ '': '' @ m"
| "exn_str (OtherError k m) = m"

text \<open>\<open>type(e).__name__\<close>\<close>

definition exn_name :: "exn \<Rightarrow> string" where
  "exn_name e = (case e of
     ValueError _ \<Rightarrow> ''ValueError'' | TypeError _ \<Rightarrow> ''TypeError'' | KeyError _ \<Rightarrow> ''KeyError''
   | AttributeError _ \<Rightarrow> ''AttributeError'' | OverflowError \<Rightarrow> ''OverflowError'' | IndexError \<Rightarrow> ''IndexError''
   | ConnectionError _ \<Rightarrow> ''ConnectionError'' | PermissionError _ \<Rightarrow> ''PermissionError''
   | RuntimeError _ \<Rightarrow> ''RuntimeError'' | HTTPException _ _ \<Rightarrow> ''HTTPException'' | OtherError k _ \<Rightarrow> k)"

subsection \<open>Numeric constructors\<close>

fun py_float :: "pyval \<Rightarrow> pyfloat result" where
  "py_float (PBool b) = Inr (FFin (if b then 1 else 0))"
| "py_float (PInt i) = (case round_double (of_int i) of FFin v \<Rightarrow> Inr (FFin v) | _ \<Rightarrow> Inl OverflowError)"
| "py_float (PFloat f) = Inr f"
| "py_float (PStr s) = (case float_of_str s of None \<Rightarrow> Inl (ValueError ''could not convert string to float'')
     | Some f \<Rightarrow> Inr f)"
| "py_float _ = Inl (TypeError ''float() argument must be a string or a real number'')"

definition trunc :: "rat \<Rightarrow> int" where
  "trunc x = (if x < 0 then - \<lfloor>- x\<rfloor> else \<lfloor>x\<rfloor>)"

fun py_int :: "pyval \<Rightarrow> int result" where
  "py_int (PBool b) = Inr (if b then 1 else 0)"
| "py_int (PInt i) = Inr i"
| "py_int (PFloat (FFin x)) = Inr (trunc x)"
| "py_int (PFloat FNaN) = Inl (ValueError ''cannot convert float NaN to integer'')"
| "py_int (PFloat _) = Inl OverflowError"
| "py_int (PStr s) = (case int_of_str s of None \<Rightarrow> Inl (ValueError ''invalid literal for int()'')
     | Some i \<Rightarrow> Inr i)"
| "py_int _ = Inl (TypeError ''int() argument must be a string or a real number'')"

lemma py_float_int: "\<bar>i\<bar> < 2 ^ 53 \<Longrightarrow> py_float (PInt i) = Inr (FFin (of_int i))"
  by (simp add: round_double_of_int)

end
