(* ===== verification/M5_Evaluator.thy ===== *)
theory M5_Evaluator
  imports Py_Value
begin

section \<open>M5: condition evaluator\<close>

text \<open>
  \<open>M5/app/router/evaluator.py\<close> with the \<open>Condition\<close> model of \<open>M5/app/router/rules.py\<close>: the dotted path
  lookup, the type-aware comparison of an extracted value with a target, and the evaluation of
  condition trees with \<open>all\<close> and \<open>any\<close>. The regular expression engine is a parameter:
  \<open>re_search p s\<close> is \<open>None\<close> when \<open>re.search\<close> raises \<open>re.error\<close> for the pattern, otherwise whether it
  finds a match. An exception that the evaluator does not catch is an \<open>Inl\<close> result.
\<close>

type_synonym re_engine = "string \<Rightarrow> string \<Rightarrow> bool option"

subsection \<open>Path lookup\<close>

fun lookup_path :: "pyval \<Rightarrow> string list \<Rightarrow> pyval" where
  "lookup_path current [] = current"
| "lookup_path current (part # parts) =
     (case current of
        PDict d \<Rightarrow> (case map_of d part of Some v \<Rightarrow> lookup_path v parts | None \<Rightarrow> PNone)
      | _ \<Rightarrow> PNone)"

definition extract_field_value :: "pyval \<Rightarrow> string \<Rightarrow> pyval" where
  "extract_field_value event path =
     (if path = [] \<or> \<not> is_dict event then PNone else lookup_path event (split_on CHR ''.'' path))"

subsection \<open>Comparison\<close>

fun to_bool :: "pyval \<Rightarrow> bool option" where
  "to_bool (PBool b) = Some b"
| "to_bool (PStr s) =
     (if lower s \<in> {''true'', ''1'', ''yes''} then Some True
      else if lower s \<in> {''false'', ''0'', ''no''} then Some False
      else None)"
| "to_bool (PInt i) = Some (i \<noteq> 0)"
| "to_bool (PFloat f) = Some (f \<noteq> FFin 0)"
| "to_bool _ = None"

text \<open>
  \<open>try: return cmp(float(a), float(b)) except (ValueError, TypeError): other\<close>: any other exception,
  that is \<open>OverflowError\<close>, escapes.
\<close>

definition caught :: "exn \<Rightarrow> bool" where
  "caught e = (case e of ValueError _ \<Rightarrow> True | TypeError _ \<Rightarrow> True | _ \<Rightarrow> False)"

definition try_floats :: "(pyfloat \<Rightarrow> pyfloat \<Rightarrow> bool) \<Rightarrow> pyval \<Rightarrow> pyval \<Rightarrow> bool \<Rightarrow> bool result" where
  "try_floats cmp a b other =
     (case rbind (py_float a) (\<lambda>x. rbind (py_float b) (\<lambda>y. Inr (cmp x y))) of
        Inr r \<Rightarrow> Inr r
      | Inl e \<Rightarrow> if caught e then Inr other else Inl e)"

definition eq_values :: "pyval \<Rightarrow> pyval \<Rightarrow> bool result" where
  "eq_values actual target =
     (if actual = PNone \<and> target = PNone then Inr True
      else if actual = PNone \<or> target = PNone then Inr False
      else
        let actual_bool = (if is_bool actual \<or> (is_bool target \<and> is_str actual) then to_bool actual else None);
            target_bool = (if is_bool target \<or> (is_bool actual \<and> is_str target) then to_bool target else None)
        in case (actual_bool, target_bool) of
             (Some p, Some q) \<Rightarrow> Inr (p = q)
           | _ \<Rightarrow> try_floats float_eq actual target
                    (py_eq actual target \<or> py_str actual = py_str target))"

definition order_values :: "(pyfloat \<Rightarrow> pyfloat \<Rightarrow> bool) \<Rightarrow> pyval \<Rightarrow> pyval \<Rightarrow> bool result" where
  "order_values cmp actual target =
     (if actual = PNone \<or> target = PNone then Inr False else try_floats cmp actual target False)"

text \<open>\<open>any(p x for x in xs)\<close> and \<open>all(p x for x in xs)\<close>: left to right, stopping early.\<close>

fun any_result :: "('a \<Rightarrow> bool result) \<Rightarrow> 'a list \<Rightarrow> bool result" where
  "any_result p [] = Inr False"
| "any_result p (x # xs) = rbind (p x) (\<lambda>b. if b then Inr True else any_result p xs)"

definition in_values :: "pyval \<Rightarrow> pyval \<Rightarrow> bool result" where
  "in_values actual target =
     (if target = PNone \<or> actual = PNone then Inr False
      else case target of
        PList items \<Rightarrow> any_result (eq_values actual) items
      | PStr t \<Rightarrow> Inr (contains (py_str actual) t)
      | _ \<Rightarrow> Inr False)"

definition contains_values :: "pyval \<Rightarrow> pyval \<Rightarrow> bool result" where
  "contains_values actual target =
     (if actual = PNone \<or> target = PNone then Inr False
      else case actual of
        PList items \<Rightarrow> any_result (\<lambda>item. eq_values item target) items
      | PStr s \<Rightarrow> Inr (contains (py_str target) s)
      | _ \<Rightarrow> Inr False)"

definition matches_values :: "re_engine \<Rightarrow> pyval \<Rightarrow> pyval \<Rightarrow> bool result" where
  "matches_values re_search actual target =
     (if actual = PNone \<or> target = PNone then Inr False
      else case re_search (py_str target) (py_str actual) of None \<Rightarrow> Inr False | Some b \<Rightarrow> Inr b)"

definition compare_values :: "re_engine \<Rightarrow> pyval \<Rightarrow> string \<Rightarrow> pyval \<Rightarrow> bool result" where
  "compare_values re_search actual operator target =
     (if operator \<in> {''=='', ''eq''} then eq_values actual target
      else if operator \<in> {''!='', ''neq''} then rbind (eq_values actual target) (\<lambda>b. Inr (\<not> b))
      else if operator \<in> {''>='', ''gte''} then order_values (\<lambda>x y. float_le y x) actual target
      else if operator \<in> {''<='', ''lte''} then order_values float_le actual target
      else if operator \<in> {''>'', ''gt''} then order_values (\<lambda>x y. float_lt y x) actual target
      else if operator \<in> {''<'', ''lt''} then order_values float_lt actual target
      else if operator = ''in'' then in_values actual target
      else if operator = ''contains'' then contains_values actual target
      else if operator \<in> {''matches'', ''regex''} then matches_values re_search actual target
      else Inr False)"

subsection \<open>Condition trees\<close>

text \<open>
  The part of \<open>evaluate_condition\<close> below the two nested cases. A truthy \<open>field\<close> that is not a string
  has no \<open>split\<close>; an \<open>operator\<close> that is not a string equals none of the names.
\<close>

definition eval_leaf :: "re_engine \<Rightarrow> pyval \<Rightarrow> pydict \<Rightarrow> bool result" where
  "eval_leaf re_search event cond =
     (let field = pget cond ''field''; operator = pget cond ''operator''; target_value = pget cond ''value''
      in if \<not> py_truthy field \<or> \<not> py_truthy operator then Inr False
         else case field of
           PStr path \<Rightarrow>
             (let actual_value = extract_field_value event path
              in case operator of PStr opr \<Rightarrow> compare_values re_search actual_value opr target_value
                 | _ \<Rightarrow> Inr False)
         | _ \<Rightarrow> if is_dict event then Inl (AttributeError ''split'') else
             (case operator of PStr opr \<Rightarrow> compare_values re_search PNone opr target_value
                 | _ \<Rightarrow> Inr False))"

lemma size_pget_PList: "pget d k = PList xs \<Longrightarrow> size_list size xs < size_list (size_prod (\<lambda>x. 0) size) d"
proof -
  assume "pget d k = PList xs"
  then have "map_of d k = Some (PList xs)"
    by (auto simp: pget_def split: option.splits)
  then have "(k, PList xs) \<in> set d" by (rule map_of_SomeD)
  then show ?thesis
  proof (induction d)
    case (Cons p d)
    then show ?case by auto
  qed simp
qed

text \<open>
  Iterating a non-empty string or dictionary visits strings, and a string is no condition; a truthy
  number is not iterable.
\<close>

function evaluate_condition :: "re_engine \<Rightarrow> pyval \<Rightarrow> pyval \<Rightarrow> bool result"
  and evaluate_all :: "re_engine \<Rightarrow> pyval \<Rightarrow> pyval list \<Rightarrow> bool result"
  and evaluate_any :: "re_engine \<Rightarrow> pyval \<Rightarrow> pyval list \<Rightarrow> bool result" where
  "evaluate_condition re event (PList items) = evaluate_all re event items"
| "evaluate_condition re event (PDict cond) =
     (if py_truthy (pget cond ''all'') then
        (case pget cond ''all'' of
           PList items \<Rightarrow> evaluate_all re event items
         | PStr _ \<Rightarrow> Inr False
         | PDict _ \<Rightarrow> Inr False
         | _ \<Rightarrow> Inl (TypeError ''object is not iterable''))
      else if py_truthy (pget cond ''any'') then
        (case pget cond ''any'' of
           PList items \<Rightarrow> evaluate_any re event items
         | PStr _ \<Rightarrow> Inr False
         | PDict _ \<Rightarrow> Inr False
         | _ \<Rightarrow> Inl (TypeError ''object is not iterable''))
      else eval_leaf re event cond)"
| "evaluate_condition re event PNone = Inr False"
| "evaluate_condition re event (PBool b) = Inr False"
| "evaluate_condition re event (PInt i) = Inr False"
| "evaluate_condition re event (PFloat f) = Inr False"
| "evaluate_condition re event (PStr s) = Inr False"
| "evaluate_all re event [] = Inr True"
| "evaluate_all re event (c # cs) =
     rbind (evaluate_condition re event c) (\<lambda>b. if b then evaluate_all re event cs else Inr False)"
| "evaluate_any re event [] = Inr False"
| "evaluate_any re event (c # cs) =
     rbind (evaluate_condition re event c) (\<lambda>b. if b then Inr True else evaluate_any re event cs)"
  by pat_completeness auto
termination
  by (relation "measure (\<lambda>x. case x of
        Inl (_, _, c) \<Rightarrow> size c
      | Inr (Inl (_, _, cs)) \<Rightarrow> size_list size cs
      | Inr (Inr (_, _, cs)) \<Rightarrow> size_list size cs)")
     (auto dest: size_pget_PList)

text \<open>The \<open>Condition\<close> model and its \<open>model_dump(exclude_none=True)\<close>.\<close>

datatype condition =
  Condition (cond_field: "string option") (cond_operator: "string option") (cond_value: pyval)
    (cond_all: "condition list option") (cond_any: "condition list option")

fun model_dump :: "condition \<Rightarrow> pyval" where
  "model_dump (Condition f opr v a y) = PDict (
     (case f of None \<Rightarrow> [] | Some s \<Rightarrow> [(''field'', PStr s)]) @
     (case opr of None \<Rightarrow> [] | Some s \<Rightarrow> [(''operator'', PStr s)]) @
     (if v = PNone then [] else [(''value'', v)]) @
     (case map_option (map model_dump) a of None \<Rightarrow> [] | Some cs \<Rightarrow> [(''all'', PList cs)]) @
     (case map_option (map model_dump) y of None \<Rightarrow> [] | Some cs \<Rightarrow> [(''any'', PList cs)]))"

datatype when_cond = WhenModel condition | WhenValue pyval

definition evaluate_when :: "re_engine \<Rightarrow> pyval \<Rightarrow> when_cond \<Rightarrow> bool result" where
  "evaluate_when re event w =
     (case w of WhenModel c \<Rightarrow> evaluate_condition re event (model_dump c)
      | WhenValue v \<Rightarrow> evaluate_condition re event v)"


subsection \<open>Path lookup facts\<close>

lemma lookup_path_None [simp]: "lookup_path PNone qs = PNone"
  by (cases qs) simp_all

lemma lookup_path_append: "lookup_path v (ps @ qs) = lookup_path (lookup_path v ps) qs"
  by (induction ps arbitrary: v) (auto split: pyval.splits option.splits)

lemma extract_one:
  "CHR ''.'' \<notin> set k \<Longrightarrow> k \<noteq> [] \<Longrightarrow> extract_field_value (PDict d) k = pget d k"
  by (simp add: extract_field_value_def split_on_nosep pget_def split: option.splits)

lemma extract_two:
  "CHR ''.'' \<notin> set a \<Longrightarrow> CHR ''.'' \<notin> set b \<Longrightarrow> a \<noteq> [] \<Longrightarrow>
   extract_field_value (PDict d) (a @ CHR ''.'' # b) =
     (case pget d a of PDict e \<Rightarrow> pget e b | _ \<Rightarrow> PNone)"
  by (simp add: extract_field_value_def split_on_append_sep split_on_nosep pget_def
      split: option.splits pyval.splits)

subsection \<open>Which comparisons raise\<close>

text \<open>No integer of the value is too large for a double.\<close>

fun no_overflow :: "pyval \<Rightarrow> bool" where
  "no_overflow (PInt i) = is_ok (py_float (PInt i))"
| "no_overflow (PList xs) = list_all no_overflow xs"
| "no_overflow (PDict d) = list_all (\<lambda>(k, v). no_overflow v) d"
| "no_overflow _ = True"

lemma no_overflow_small: "\<bar>i\<bar> < 2 ^ 53 \<Longrightarrow> no_overflow (PInt i)"
  by (simp add: round_double_of_int)

lemma no_overflow_lookup: "no_overflow v \<Longrightarrow> no_overflow (lookup_path v ps)"
proof (induction ps arbitrary: v)
  case (Cons p ps)
  show ?case
  proof (cases v)
    case (PDict d)
    then show ?thesis using Cons
      by (auto simp: list_all_iff dest!: map_of_SomeD split: option.splits)
  qed simp_all
qed simp

lemma no_overflow_extract: "no_overflow v \<Longrightarrow> no_overflow (extract_field_value v p)"
  by (simp add: extract_field_value_def no_overflow_lookup)

lemma py_float_caught: "no_overflow v \<Longrightarrow> py_float v = Inl e \<Longrightarrow> caught e"
  by (cases v) (auto simp: caught_def split: option.splits)

lemma try_floats_ok: "no_overflow a \<Longrightarrow> no_overflow b \<Longrightarrow> is_ok (try_floats cmp a b r)"
  by (cases "py_float a"; cases "py_float b")
     (auto simp: try_floats_def dest: py_float_caught)

lemma eq_values_ok: "no_overflow a \<Longrightarrow> no_overflow b \<Longrightarrow> is_ok (eq_values a b)"
  by (auto simp: eq_values_def Let_def try_floats_ok split: option.splits)

lemma order_values_ok: "no_overflow a \<Longrightarrow> no_overflow b \<Longrightarrow> is_ok (order_values cmp a b)"
  by (simp add: order_values_def try_floats_ok)

lemma any_result_ok: "(\<And>x. x \<in> set xs \<Longrightarrow> is_ok (p x)) \<Longrightarrow> is_ok (any_result p xs)"
proof (induction xs)
  case (Cons x xs)
  then obtain b where "p x = Inr b" by (cases "p x") force+
  with Cons show ?case by simp
qed simp

lemma is_okE: "is_ok r \<Longrightarrow> (\<And>x. r = Inr x \<Longrightarrow> P) \<Longrightarrow> P"
  by (cases r) auto

lemma compare_values_ok: "no_overflow a \<Longrightarrow> no_overflow b \<Longrightarrow> is_ok (compare_values re a opr b)"
proof -
  assume a: "no_overflow a" and b: "no_overflow b"
  have "is_ok (in_values a b)"
    using a b by (cases b) (auto simp: in_values_def list_all_iff intro!: any_result_ok eq_values_ok)
  moreover have "is_ok (contains_values a b)"
    using a b by (cases a) (auto simp: contains_values_def list_all_iff intro!: any_result_ok eq_values_ok)
  moreover have "is_ok (matches_values re a b)"
    by (simp add: matches_values_def split: option.splits)
  moreover have "is_ok (rbind (eq_values a b) (\<lambda>b. Inr (\<not> b)))"
    using eq_values_ok [OF a b] by (elim is_okE) simp
  ultimately show ?thesis
    using a b by (simp add: compare_values_def eq_values_ok order_values_ok)
qed

subsection \<open>The logical meaning of a condition\<close>

text \<open>
  The specification the evaluator implements: a non-empty \<open>all\<close> is a conjunction, otherwise a
  non-empty \<open>any\<close> is a disjunction, otherwise the comparison holds.
\<close>

definition sat_leaf :: "re_engine \<Rightarrow> pyval \<Rightarrow> string option \<Rightarrow> string option \<Rightarrow> pyval \<Rightarrow> bool" where
  "sat_leaf re event f opr v =
     (case (f, opr) of
        (Some f', Some o') \<Rightarrow>
          f' \<noteq> [] \<and> o' \<noteq> [] \<and> compare_values re (extract_field_value event f') o' v = Inr True
      | _ \<Rightarrow> False)"

fun sat :: "re_engine \<Rightarrow> pyval \<Rightarrow> condition \<Rightarrow> bool" where
  "sat re event (Condition f opr v a y) =
     (case map_option (map (sat re event)) a of
        Some (b # bs) \<Rightarrow> list_all id (b # bs)
      | _ \<Rightarrow>
        (case map_option (map (sat re event)) y of
           Some (b # bs) \<Rightarrow> list_ex id (b # bs)
         | _ \<Rightarrow> sat_leaf re event f opr v))"

lemma size_item: "x \<in> set items \<Longrightarrow> size x \<le> size_list size items" for items :: "pyval list"
  by (induction items) auto

text \<open>The same for a condition that is given as a value: a list is a conjunction, and a value that is no list and no dictionary never holds.\<close>

function satv :: "re_engine \<Rightarrow> pyval \<Rightarrow> pyval \<Rightarrow> bool" where
  "satv re event (PList items) = list_all (satv re event) items"
| "satv re event (PDict cond) =
     (if py_truthy (pget cond ''all'') then
        (case pget cond ''all'' of PList items \<Rightarrow> list_all (satv re event) items | _ \<Rightarrow> False)
      else if py_truthy (pget cond ''any'') then
        (case pget cond ''any'' of PList items \<Rightarrow> list_ex (satv re event) items | _ \<Rightarrow> False)
      else
        (case (pget cond ''field'', pget cond ''operator'') of
           (PStr f, PStr opr) \<Rightarrow> sat_leaf re event (Some f) (Some opr) (pget cond ''value'')
         | _ \<Rightarrow> False))"
| "satv re event PNone = False"
| "satv re event (PBool b) = False"
| "satv re event (PInt i) = False"
| "satv re event (PFloat f) = False"
| "satv re event (PStr s) = False"
  by pat_completeness auto
termination
proof (relation "measure (\<lambda>(_, _, v). size v)", goal_cases)
  case (2 re event items x)
  then show ?case by (induction items) auto
next
  case (3 re event cond items x)
  then have "size x \<le> size_list size items" using size_item by blast
  then show ?case using size_pget_PList [OF 3(2)] by simp
next
  case (4 re event cond items x)
  then have "size x \<le> size_list size items" using size_item by blast
  then show ?case using size_pget_PList [OF 4(3)] by simp
qed simp

text \<open>A value that the evaluator can walk through: what stands under \<open>all\<close> and \<open>any\<close> can be iterated, and a field is a string.\<close>

function well_formed :: "pyval \<Rightarrow> bool" where
  "well_formed (PList items) = list_all well_formed items"
| "well_formed (PDict cond) =
     (if py_truthy (pget cond ''all'') then
        (case pget cond ''all'' of PList items \<Rightarrow> list_all well_formed items | PStr _ \<Rightarrow> True | PDict _ \<Rightarrow> True | _ \<Rightarrow> False)
      else if py_truthy (pget cond ''any'') then
        (case pget cond ''any'' of PList items \<Rightarrow> list_all well_formed items | PStr _ \<Rightarrow> True | PDict _ \<Rightarrow> True | _ \<Rightarrow> False)
      else \<not> py_truthy (pget cond ''field'') \<or> \<not> py_truthy (pget cond ''operator'') \<or> is_str (pget cond ''field''))"
| "well_formed PNone = True"
| "well_formed (PBool b) = True"
| "well_formed (PInt i) = True"
| "well_formed (PFloat f) = True"
| "well_formed (PStr s) = True"
  by pat_completeness auto
termination
proof (relation "measure size", goal_cases)
  case (2 items x)
  then show ?case by (induction items) auto
next
  case (3 cond items x)
  then have "size x \<le> size_list size items" using size_item by blast
  then show ?case using size_pget_PList [OF 3(2)] by simp
next
  case (4 cond items x)
  then have "size x \<le> size_list size items" using size_item by blast
  then show ?case using size_pget_PList [OF 4(3)] by simp
qed simp

text \<open>What an exception of the evaluator is due to.\<close>

definition blames :: "pyval \<Rightarrow> pyval \<Rightarrow> exn \<Rightarrow> bool" where
  "blames event v e \<longleftrightarrow> (e = OverflowError \<and> \<not> (no_overflow event \<and> no_overflow v)) \<or> \<not> well_formed v"

lemma try_floats_error: "try_floats cmp a b r = Inl e \<Longrightarrow> e = OverflowError"
proof -
  have f: "py_float v = Inl e' \<Longrightarrow> caught e' \<or> e' = OverflowError" for v e'
    by (cases v) (auto simp: caught_def split: option.splits pyfloat.splits)
  show "try_floats cmp a b r = Inl e \<Longrightarrow> e = OverflowError"
    by (cases "py_float a"; cases "py_float b") (auto simp: try_floats_def dest: f split: if_splits)
qed

lemma eq_values_error: "eq_values a b = Inl e \<Longrightarrow> e = OverflowError"
  by (auto simp: eq_values_def Let_def dest: try_floats_error split: if_splits option.splits)

lemma any_result_error: "any_result p xs = Inl e \<Longrightarrow> \<exists>x \<in> set xs. p x = Inl e"
proof (induction xs)
  case (Cons x xs)
  then show ?case by (cases "p x") (auto split: if_splits)
qed simp

lemma compare_values_error:
  assumes "compare_values re a opr b = Inl e"
  shows "e = OverflowError \<and> \<not> (no_overflow a \<and> no_overflow b)"
proof -
  have "order_values cmp a b = Inl e \<Longrightarrow> e = OverflowError" for cmp
    by (auto simp: order_values_def dest: try_floats_error split: if_splits)
  moreover have "in_values a b = Inl e \<Longrightarrow> e = OverflowError"
    by (auto simp: in_values_def dest!: any_result_error dest: eq_values_error split: if_splits pyval.splits)
  moreover have "contains_values a b = Inl e \<Longrightarrow> e = OverflowError"
    by (auto simp: contains_values_def dest!: any_result_error dest: eq_values_error split: if_splits pyval.splits)
  moreover have "matches_values re a b \<noteq> Inl e" by (simp add: matches_values_def split: option.splits)
  moreover have "rbind (eq_values a b) (\<lambda>b. Inr (\<not> b)) = Inl e \<Longrightarrow> e = OverflowError"
    by (cases "eq_values a b") (auto dest: eq_values_error)
  ultimately have "e = OverflowError"
    using assms by (auto simp: compare_values_def dest: eq_values_error split: if_splits)
  then show ?thesis using compare_values_ok [of a b re opr] assms by auto
qed

lemma no_overflow_pget: "no_overflow (PDict d) \<Longrightarrow> no_overflow (pget d k)"
  by (auto simp: pget_def list_all_iff split: option.splits dest!: map_of_SomeD)

lemma eval_leaf_value:
  assumes "is_dict event" "\<not> py_truthy (pget cond ''all'')" "\<not> py_truthy (pget cond ''any'')"
  shows "case eval_leaf re event cond of Inr b \<Rightarrow> b = satv re event (PDict cond) | Inl e \<Rightarrow> blames event (PDict cond) e"
proof (cases "py_truthy (pget cond ''field'') \<and> py_truthy (pget cond ''operator'') \<and> is_str (pget cond ''field'')")
  case True
  then obtain f where f: "pget cond ''field'' = PStr f" "f \<noteq> []" by (cases "pget cond ''field''") auto
  show ?thesis
  proof (cases "pget cond ''operator''")
    case (PStr opr)
    then have o: "opr \<noteq> []" using True by simp
    let ?cmp = "compare_values re (extract_field_value event f) opr (pget cond ''value'')"
    have leaf: "eval_leaf re event cond = ?cmp" using f o PStr by (simp add: eval_leaf_def Let_def)
    have "satv re event (PDict cond) \<longleftrightarrow> ?cmp = Inr True" using assms f o PStr by (simp add: sat_leaf_def)
    moreover have "blames event (PDict cond) e" if "?cmp = Inl e" for e
      using compare_values_error [OF that] no_overflow_extract [of event f] no_overflow_pget [of cond "''value''"] by (auto simp: blames_def)
    ultimately show ?thesis unfolding leaf by (cases ?cmp) auto
  qed (use assms f True in \<open>simp_all add: eval_leaf_def Let_def\<close>)
next
  case False
  show ?thesis
  proof (cases "py_truthy (pget cond ''field'') \<and> py_truthy (pget cond ''operator'')")
    case True
    with False have "\<not> is_str (pget cond ''field'')" by blast
    with True assms show ?thesis by (cases "pget cond ''field''") (simp_all add: eval_leaf_def Let_def blames_def)
  next
    case no: False
    then have "eval_leaf re event cond = Inr False" by (auto simp: eval_leaf_def Let_def)
    moreover have "\<not> satv re event (PDict cond)"
      using no assms by (auto simp: sat_leaf_def split: pyval.splits)
    ultimately show ?thesis by simp
  qed
qed

lemma blames_item:
  assumes "blames event v e" "v \<in> set items"
  shows "blames event (PList items) e"
  using assms by (auto simp: blames_def list_all_iff)

lemma blames_dict:
  assumes "blames event (PList items) e" "pget cond k = PList items"
    and "k = ''all'' \<or> k = ''any'' \<and> \<not> py_truthy (pget cond ''all'')" "items \<noteq> []"
  shows "blames event (PDict cond) e"
  using assms no_overflow_pget [of cond k] by (auto simp: blames_def)

lemma evaluate_value:
  "is_dict event \<Longrightarrow> case evaluate_condition re event v of Inr b \<Rightarrow> b = satv re event v | Inl e \<Rightarrow> blames event v e"
  "is_dict event \<Longrightarrow> case evaluate_all re event vs of Inr b \<Rightarrow> b = list_all (satv re event) vs | Inl e \<Rightarrow> blames event (PList vs) e"
  "is_dict event \<Longrightarrow> case evaluate_any re event vs of Inr b \<Rightarrow> b = list_ex (satv re event) vs | Inl e \<Rightarrow> blames event (PList vs) e"
proof (induction re event v and re event vs and re event vs rule: evaluate_condition_evaluate_all_evaluate_any.induct)
  case (2 re event cond)
  show ?case
  proof (cases "py_truthy (pget cond ''all'')")
    case True
    show ?thesis
    proof (cases "pget cond ''all''")
      case (PList items)
      then have "items \<noteq> []" using True by auto
      then show ?thesis using 2(1) [OF True PList 2(3)] True PList blames_dict [OF _ PList]
        by (cases "evaluate_all re event items") auto
    qed (use True in \<open>simp_all add: blames_def\<close>)
  next
    case no_all: False
    show ?thesis
    proof (cases "py_truthy (pget cond ''any'')")
      case True
      show ?thesis
      proof (cases "pget cond ''any''")
        case (PList items)
        then have "items \<noteq> []" using True by auto
        then show ?thesis using 2(2) [OF no_all True PList 2(3)] no_all True PList blames_dict [OF _ PList]
          by (cases "evaluate_any re event items") auto
      qed (use no_all True in \<open>simp_all add: blames_def\<close>)
    next
      case False
      then show ?thesis using eval_leaf_value [OF 2(3) no_all False] no_all by simp
    qed
  qed
next
  case (9 re event c cs)
  show ?case
  proof (cases "evaluate_condition re event c")
    case (Inl e)
    then show ?thesis using 9(1) [OF 9(3)] blames_item [of event c e "c # cs"] by simp
  next
    case (Inr b)
    then have b: "b = satv re event c" using 9(1) [OF 9(3)] by simp
    have "blames event (PList (c # cs)) e" if "blames event (PList cs) e" for e using that by (auto simp: blames_def)
    then show ?thesis using 9(2,3) Inr b by (cases "evaluate_all re event cs") auto
  qed
next
  case (11 re event c cs)
  show ?case
  proof (cases "evaluate_condition re event c")
    case (Inl e)
    then show ?thesis using 11(1) [OF 11(3)] blames_item [of event c e "c # cs"] by simp
  next
    case (Inr b)
    then have b: "b = satv re event c" using 11(1) [OF 11(3)] by simp
    have "blames event (PList (c # cs)) e" if "blames event (PList cs) e" for e using that by (auto simp: blames_def)
    then show ?thesis using 11(2,3) Inr b by (cases "evaluate_any re event cs") auto
  qed
qed (auto simp: blames_def split: sum.splits)

lemma pget_append: "pget (d @ e) k = (case map_of d k of None \<Rightarrow> pget e k | Some v \<Rightarrow> v)"
  by (simp add: pget_def map_add_def split: option.splits)

lemma model_dump_fields:
  assumes "model_dump (Condition f opr v a y) = PDict d"
  shows "pget d ''field'' = (case f of None \<Rightarrow> PNone | Some s \<Rightarrow> PStr s)"
    and "pget d ''operator'' = (case opr of None \<Rightarrow> PNone | Some s \<Rightarrow> PStr s)"
    and "pget d ''value'' = v"
    and "pget d ''all'' = (case a of None \<Rightarrow> PNone | Some cs \<Rightarrow> PList (map model_dump cs))"
    and "pget d ''any'' = (case y of None \<Rightarrow> PNone | Some cs \<Rightarrow> PList (map model_dump cs))"
  unfolding pyval.inject(6) [THEN iffD1, OF assms [unfolded model_dump.simps], symmetric]
  by (cases f; cases opr; cases a; cases y; simp add: pget_append; simp add: pget_def)+

lemma satv_model_dump: "satv re event (model_dump c) = sat re event c"
proof (induction c)
  case (Condition f opr v a y)
  obtain d where d: "model_dump (Condition f opr v a y) = PDict d" by simp
  note fields = model_dump_fields [OF d]
  have all: "list_all (satv re event) (map model_dump cs) = list_all id (map (sat re event) cs)" if "a = Some cs" for cs
    using Condition.IH(1) that by (auto simp: list_all_iff)
  have any: "list_ex (satv re event) (map model_dump cs) = list_ex id (map (sat re event) cs)" if "y = Some cs" for cs
    using Condition.IH(2) that by (auto simp: list_ex_iff)
  have leaf: "(case (pget d ''field'', pget d ''operator'') of
      (PStr f, PStr opr) \<Rightarrow> sat_leaf re event (Some f) (Some opr) (pget d ''value'') | _ \<Rightarrow> False) = sat_leaf re event f opr v"
    unfolding fields by (cases f; cases opr) (simp_all add: sat_leaf_def)
  show ?case unfolding d satv.simps leaf fields(4,5) using all any
    by (cases a; cases y; cases "the a"; cases "the y") simp_all
qed

lemma well_formed_model_dump: "well_formed (model_dump c)"
proof (induction c)
  case (Condition f opr v a y)
  obtain d where d: "model_dump (Condition f opr v a y) = PDict d" by simp
  have "well_formed (PDict d)" unfolding well_formed.simps model_dump_fields [OF d]
    using Condition.IH by (auto simp: list_all_iff split: option.splits)
  then show ?case unfolding d .
qed

subsection \<open>Properties\<close>

text \<open>The meaning of a condition of a rule, and its value.\<close>

fun when_sat :: "re_engine \<Rightarrow> pyval \<Rightarrow> when_cond \<Rightarrow> bool" where
  "when_sat re event (WhenModel c) = sat re event c"
| "when_sat re event (WhenValue v) = satv re event v"

fun when_value :: "when_cond \<Rightarrow> pyval" where
  "when_value (WhenModel c) = model_dump c"
| "when_value (WhenValue v) = v"

text \<open>An exception of the evaluation of a condition is an overflow, and then some integer of the event or of the condition is too large for a
  double, or the condition is a dictionary or a list that is not well formed.\<close>

definition when_blames :: "pydict \<Rightarrow> when_cond \<Rightarrow> exn \<Rightarrow> bool" where
  "when_blames event w e \<longleftrightarrow>
     (e = OverflowError \<and> \<not> (no_overflow (PDict event) \<and> no_overflow (when_value w))) \<or> (\<exists>v. w = WhenValue v \<and> \<not> well_formed v)"

lemma evaluate_when_meaning:
  "case evaluate_when re (PDict event) w of Inr b \<Rightarrow> b = when_sat re (PDict event) w | Inl e \<Rightarrow> when_blames event w e"
proof (cases w)
  case (WhenModel c)
  then show ?thesis using evaluate_value(1) [where event = "PDict event" and re = re and v = "model_dump c"] well_formed_model_dump [of c]
    by (cases "evaluate_condition re (PDict event) (model_dump c)")
       (auto simp: evaluate_when_def when_blames_def blames_def satv_model_dump)
next
  case (WhenValue v)
  then show ?thesis using evaluate_value(1) [where event = "PDict event" and re = re and v = v]
    by (cases "evaluate_condition re (PDict event) v") (auto simp: evaluate_when_def when_blames_def blames_def)
qed

text \<open>(C29) Conditions evaluate to their logical meaning: for every event and every condition, a model or a raw dictionary or list, the evaluation either
  returns whether the condition holds (conjunction of a non-empty \<open>all\<close>, else disjunction of a non-empty \<open>any\<close>, else the comparison), or
  it raises, and then either an integer of the event or the condition is too large for a double, or a raw condition is not well formed.\<close>

theorem evaluate_when_sat:
  "case evaluate_when re (PDict event) w of Inr b \<Rightarrow> b = when_sat re (PDict event) w | Inl e \<Rightarrow> when_blames event w e"
  by (rule evaluate_when_meaning)

text \<open>On integers below 2 to the 53 in absolute value the six order and equality operators decide
  the order of the integers: the conversion to double loses nothing there.\<close>

theorem compare_values_int:
  assumes "\<bar>a\<bar> < 2 ^ 53" and "\<bar>b\<bar> < 2 ^ 53"
  shows "compare_values re (PInt a) ''>='' (PInt b) = Inr (b \<le> a) \<and>
         compare_values re (PInt a) ''<='' (PInt b) = Inr (a \<le> b) \<and>
         compare_values re (PInt a) ''>'' (PInt b) = Inr (b < a) \<and>
         compare_values re (PInt a) ''<'' (PInt b) = Inr (a < b) \<and>
         compare_values re (PInt a) ''=='' (PInt b) = Inr (a = b) \<and>
         compare_values re (PInt a) ''!='' (PInt b) = Inr (a \<noteq> b)"
proof -
  have "try_floats cmp (PInt a) (PInt b) r = Inr (cmp (FFin (of_int a)) (FFin (of_int b)))" for cmp r
    using py_float_int [OF assms(1)] py_float_int [OF assms(2)] by (simp add: try_floats_def)
  then show ?thesis
    by (simp add: compare_values_def order_values_def eq_values_def Let_def float_le_def) linarith
qed

theorem compare_values_int_witness:
  "compare_values (\<lambda>_ _. None) (PInt 7) ''>='' (PInt 5) = Inr (5 \<le> (7::int))"
  using compare_values_int [of 7 5 "\<lambda>_ _. None"] by simp

text \<open>\<open>!=\<close> is the negation of \<open>==\<close> on every pair of values, and raises exactly when \<open>==\<close> does.\<close>

theorem compare_values_neq:
  "compare_values re a ''!='' b =
     (case compare_values re a ''=='' b of Inl e \<Rightarrow> Inl e | Inr r \<Rightarrow> Inr (\<not> r))"
  by (simp add: compare_values_def rbind_def)

end
