(* ===== verification/M5_Router.thy ===== *)
theory M5_Router
  imports M5_Evaluator "HOL-Library.Multiset"
begin

section \<open>M5: smart router\<close>

text \<open>
  \<open>M5/app/router/router.py\<close> and the \<open>PolicyRule\<close> and \<open>RoutingDecision\<close> models of
  \<open>M5/app/router/rules.py\<close>. An event is a dictionary. A rule's \<open>tenant_id\<close> is a value and not a string,
  because the policy loader assigns it unchecked. The clock is the argument \<open>now\<close>.
\<close>

record policy_rule =
  rule_id :: string
  priority :: int
  enabled :: bool
  description :: "string option"
  rule_tenant :: pyval
  rule_when :: "when_cond option"
  destinations :: "string list"

record routing_decision =
  decision_event_id :: string
  matched_policies :: "string list"
  decision_destinations :: "string list"
  evaluated_at :: string
  decision_tenant :: "string option"
  delivery_status :: "(string, pyval) dict option"

subsection \<open>Operations\<close>

definition rule_key :: "policy_rule \<Rightarrow> int \<times> string" where
  "rule_key r = (- priority r, rule_id r)"

definition set_rules :: "policy_rule list \<Rightarrow> policy_rule list" where
  "set_rules rules = sort_key rule_key rules"

definition extract_event_id :: "pydict \<Rightarrow> string" where
  "extract_event_id event =
     (let event_id = extract_field_value (PDict event) ''event.id'' in
      py_str (if py_truthy event_id then event_id
              else por (por (pget event ''event_id'') (pget event ''id'')) (PStr ''unknown_event_id'')))"

definition extract_tenant_id :: "pydict \<Rightarrow> string option" where
  "extract_tenant_id event =
     (let t = extract_field_value (PDict event) ''tenant.id'';
          tenant_id = (if py_truthy t then t
            else por (pget event ''tenant_id'') (extract_field_value (PDict event) ''tenant_id''))
      in if py_truthy tenant_id then Some (py_str tenant_id) else None)"

definition opt_str :: "string option \<Rightarrow> pyval" where
  "opt_str s = (case s of None \<Rightarrow> PNone | Some t \<Rightarrow> PStr t)"

fun append_new :: "string list \<Rightarrow> string list \<Rightarrow> string list" where
  "append_new acc [] = acc"
| "append_new acc (dest # dests) =
     append_new (if dest \<in> set acc then acc else acc @ [dest]) dests"

definition tenant_skips :: "policy_rule \<Rightarrow> string option \<Rightarrow> bool" where
  "tenant_skips rule tenant_id =
     (py_truthy (rule_tenant rule) \<and> \<not> py_eq (rule_tenant rule) (opt_str tenant_id))"

definition rule_matches :: "re_engine \<Rightarrow> pydict \<Rightarrow> policy_rule \<Rightarrow> bool result" where
  "rule_matches re event rule =
     (case rule_when rule of None \<Rightarrow> Inr True | Some w \<Rightarrow> evaluate_when re (PDict event) w)"

fun route_loop :: "re_engine \<Rightarrow> pydict \<Rightarrow> string option \<Rightarrow> policy_rule list \<Rightarrow>
    string list \<Rightarrow> string list \<Rightarrow> (string list \<times> string list) result" where
  "route_loop re event tenant_id [] matched targets = Inr (matched, targets)"
| "route_loop re event tenant_id (rule # rules) matched targets =
     (if \<not> enabled rule then route_loop re event tenant_id rules matched targets
      else if tenant_skips rule tenant_id then route_loop re event tenant_id rules matched targets
      else rbind (rule_matches re event rule) (\<lambda>is_match.
        if is_match then
          route_loop re event tenant_id rules (matched @ [rule_id rule])
            (append_new targets (destinations rule))
        else route_loop re event tenant_id rules matched targets))"

definition route :: "re_engine \<Rightarrow> policy_rule list \<Rightarrow> pydict \<Rightarrow> string \<Rightarrow>
    (string list \<times> routing_decision) result" where
  "route re rules event now =
     (let event_id = extract_event_id event; tenant_id = extract_tenant_id event
      in rbind (route_loop re event tenant_id rules [] []) (\<lambda>(matched, targets).
           Inr (targets,
             \<lparr> decision_event_id = event_id, matched_policies = matched,
               decision_destinations = targets, evaluated_at = now,
               decision_tenant = tenant_id, delivery_status = None \<rparr>)))"

subsection \<open>Specification\<close>

text \<open>
  The rules that apply to an event, and the list of their destinations without repetitions in the
  order of first occurrence.
\<close>

definition applies :: "re_engine \<Rightarrow> pydict \<Rightarrow> policy_rule \<Rightarrow> bool" where
  "applies re event rule \<longleftrightarrow>
     enabled rule \<and> \<not> tenant_skips rule (extract_tenant_id event) \<and> rule_matches re event rule = Inr True"

definition dedup_first :: "'a list \<Rightarrow> 'a list" where
  "dedup_first xs = rev (remdups (rev xs))"

lemma dedup_first_snoc: "dedup_first (xs @ [x]) = (if x \<in> set xs then dedup_first xs else dedup_first xs @ [x])"
  by (simp add: dedup_first_def)

lemma set_dedup_first [simp]: "set (dedup_first xs) = set xs"
  by (simp add: dedup_first_def)

lemma distinct_dedup_first [simp]: "distinct (dedup_first xs)"
  by (simp add: dedup_first_def)

lemma append_new_dedup: "append_new (dedup_first xs) ys = dedup_first (xs @ ys)"
proof (induction ys arbitrary: xs)
  case (Cons y ys)
  have "append_new (dedup_first xs) (y # ys) = append_new (dedup_first (xs @ [y])) ys"
    by (simp add: dedup_first_snoc)
  also have "\<dots> = dedup_first (xs @ y # ys)" using Cons [of "xs @ [y]"] by simp
  finally show ?case .
qed simp

lemma route_loop_spec:
  assumes "route_loop re event (extract_tenant_id event) rules m (dedup_first xs) = Inr (ms, ds)"
  shows "ms = m @ map rule_id (filter (applies re event) rules) \<and>
         ds = dedup_first (xs @ concat (map destinations (filter (applies re event) rules)))"
  using assms
proof (induction rules arbitrary: m xs)
  case (Cons rule rules)
  show ?case
  proof (cases "enabled rule \<and> \<not> tenant_skips rule (extract_tenant_id event)")
    case False
    then have "\<not> applies re event rule" by (auto simp: applies_def)
    moreover have "route_loop re event (extract_tenant_id event) rules m (dedup_first xs) = Inr (ms, ds)"
      using Cons.prems False by (auto split: if_splits)
    ultimately show ?thesis using Cons.IH by simp
  next
    case True
    with Cons.prems obtain b where b: "rule_matches re event rule = Inr b" by auto
    show ?thesis
    proof (cases b)
      case True': True
      with True b Cons.prems have "route_loop re event (extract_tenant_id event) rules (m @ [rule_id rule])
          (dedup_first (xs @ destinations rule)) = Inr (ms, ds)" by (simp add: append_new_dedup)
      from Cons.IH [OF this] True True' b show ?thesis by (simp add: applies_def)
    next
      case False
      with True b Cons show ?thesis by (simp add: applies_def)
    qed
  qed
qed simp

lemma dedup_first_Nil [simp]: "dedup_first [] = []"
  by (simp add: dedup_first_def)

lemma route_spec:
  assumes "route re rules event now = Inr (ds, dec)"
  shows "ds = dedup_first (concat (map destinations (filter (applies re event) rules)))"
    and "matched_policies dec = map rule_id (filter (applies re event) rules)"
    and "decision_destinations dec = ds"
    and "decision_tenant dec = extract_tenant_id event"
    and "decision_event_id dec = extract_event_id event"
proof -
  obtain ms where l: "route_loop re event (extract_tenant_id event) rules [] [] = Inr (ms, ds)"
    and dec: "dec = \<lparr> decision_event_id = extract_event_id event, matched_policies = ms,
      decision_destinations = ds, evaluated_at = now, decision_tenant = extract_tenant_id event,
      delivery_status = None \<rparr>"
    using assms by (auto simp: route_def Let_def)
  from route_loop_spec [of re event rules "[]" "[]" ms ds] l
  have "ms = map rule_id (filter (applies re event) rules) \<and>
        ds = dedup_first (concat (map destinations (filter (applies re event) rules)))" by simp
  then show "ds = dedup_first (concat (map destinations (filter (applies re event) rules)))"
    and "matched_policies dec = map rule_id (filter (applies re event) rules)"
    and "decision_destinations dec = ds" and "decision_tenant dec = extract_tenant_id event"
    and "decision_event_id dec = extract_event_id event"
    using dec by simp_all
qed

subsection \<open>Meaning of a rule and causes of errors\<close>

text \<open>The rule concerns the event: it is enabled and not for another tenant. It fits when its condition holds.\<close>

definition concerns :: "pydict \<Rightarrow> policy_rule \<Rightarrow> bool" where
  "concerns event rule \<longleftrightarrow> enabled rule \<and> \<not> tenant_skips rule (extract_tenant_id event)"

definition fits :: "re_engine \<Rightarrow> pydict \<Rightarrow> policy_rule \<Rightarrow> bool" where
  "fits re event rule \<longleftrightarrow>
     concerns event rule \<and> (case rule_when rule of None \<Rightarrow> True | Some w \<Rightarrow> when_sat re (PDict event) w)"

lemma rule_matches_meaning:
  "case rule_matches re event rule of
     Inr b \<Rightarrow> b = (case rule_when rule of None \<Rightarrow> True | Some w \<Rightarrow> when_sat re (PDict event) w)
   | Inl e \<Rightarrow> \<exists>w. rule_when rule = Some w \<and> when_blames event w e"
proof (cases "rule_when rule")
  case (Some w)
  then show ?thesis using evaluate_when_meaning [where re = re and event = event and w = w] by (simp add: rule_matches_def split: sum.splits)
qed (simp add: rule_matches_def)

lemma route_loop_meaning:
  "case route_loop re event (extract_tenant_id event) rules m ds of
     Inr _ \<Rightarrow> \<forall>r \<in> set rules. applies re event r \<longleftrightarrow> fits re event r
   | Inl e \<Rightarrow> \<exists>r \<in> set rules. \<exists>w. concerns event r \<and> rule_when r = Some w \<and> when_blames event w e"
proof (induction rules arbitrary: m ds)
  case (Cons r rules)
  show ?case
  proof (cases "concerns event r")
    case False
    then have skip: "route_loop re event (extract_tenant_id event) (r # rules) m ds = route_loop re event (extract_tenant_id event) rules m ds"
      by (auto simp: concerns_def)
    show ?thesis using Cons.IH [of m ds] False unfolding skip by (auto simp: applies_def fits_def concerns_def split: sum.splits)
  next
    case True
    show ?thesis
    proof (cases "rule_matches re event r")
      case (Inl e)
      then show ?thesis using True rule_matches_meaning [where re = re and event = event and rule = r] by (auto simp: concerns_def)
    next
      case (Inr b)
      obtain m' ds' where step: "route_loop re event (extract_tenant_id event) (r # rules) m ds = route_loop re event (extract_tenant_id event) rules m' ds'"
        using True Inr by (cases b) (auto simp: concerns_def)
      have "applies re event r \<longleftrightarrow> fits re event r"
        using True Inr rule_matches_meaning [where re = re and event = event and rule = r] by (auto simp: applies_def fits_def concerns_def)
      then show ?thesis using Cons.IH [where m = m' and ds = ds'] unfolding step by (auto split: sum.splits)
    qed
  qed
qed simp

subsection \<open>Rule order\<close>

lemma set_rules_perm_eq:
  assumes "mset rules = mset rules'" and "inj_on rule_key (set rules)"
  shows "set_rules rules = set_rules rules'"
  unfolding set_rules_def by (rule sort_key_inj_key_eq) (use assms in simp_all)

lemma py_eq_opt_str: "py_eq v (opt_str t) \<longleftrightarrow> v = opt_str t"
  by (cases t) (simp_all add: opt_str_def)

subsection \<open>Properties\<close>

text \<open>A rule for one tenant and one destination, used in the examples.\<close>

definition example_rule :: "string \<Rightarrow> string \<Rightarrow> string \<Rightarrow> policy_rule" where
  "example_rule i t dest = \<lparr> rule_id = i, priority = 1, enabled = True, description = None,
     rule_tenant = PStr t, rule_when = None, destinations = [dest] \<rparr>"

text \<open>(C8) Routing implements its specification, for all rules and events: either \<open>route\<close> returns, and then the destinations are those of the enabled
  rules whose tenant fits and whose condition, a model or a raw dictionary or list, holds, without repetition in order of first occurrence, and
  the decision names exactly those rules in rule order; or it raises, and then an enabled rule for the tenant of the event has a condition that
  cannot be decided: an integer of it or of the event is too large for a double, or the raw condition is not well formed.\<close>

theorem route_implements_spec:
  "case route re rules event now of
     Inr (ds, dec) \<Rightarrow>
       ds = dedup_first (concat (map destinations (filter (fits re event) rules))) \<and>
       matched_policies dec = map rule_id (filter (fits re event) rules) \<and> decision_destinations dec = ds \<and>
       decision_tenant dec = extract_tenant_id event \<and> decision_event_id dec = extract_event_id event
   | Inl e \<Rightarrow> \<exists>r \<in> set rules. \<exists>w. concerns event r \<and> rule_when r = Some w \<and> when_blames event w e"
proof (cases "route re rules event now")
  case (Inl e)
  then have "route_loop re event (extract_tenant_id event) rules [] [] = Inl e"
    by (cases "route_loop re event (extract_tenant_id event) rules [] []") (auto simp: route_def Let_def)
  then show ?thesis using Inl route_loop_meaning [where re = re and event = event and rules = rules and m = "[]" and ds = "[]"] by simp
next
  case (Inr r)
  then obtain ds dec where r: "route re rules event now = Inr (ds, dec)" by (cases r) simp
  then obtain l where "route_loop re event (extract_tenant_id event) rules [] [] = Inr l"
    by (cases "route_loop re event (extract_tenant_id event) rules [] []") (auto simp: route_def Let_def)
  then have "filter (applies re event) rules = filter (fits re event) rules"
    using route_loop_meaning [where re = re and event = event and rules = rules and m = "[]" and ds = "[]"] by (intro filter_cong) simp_all
  then show ?thesis using route_spec [OF r] r by simp
qed

text \<open>Tenant isolation of routing: each destination of an event comes from an enabled rule that is
  either global or bound to the tenant of the event.\<close>

theorem route_tenant_isolation:
  assumes "route re rules event now = Inr (ds, dec)" and "dest \<in> set ds"
  shows "\<exists>r \<in> set rules. enabled r \<and> dest \<in> set (destinations r) \<and> rule_id r \<in> set (matched_policies dec) \<and>
           (\<not> py_truthy (rule_tenant r) \<or> rule_tenant r = opt_str (extract_tenant_id event))"
proof -
  from route_spec(1) [OF assms(1)] assms(2)
  obtain r where r: "r \<in> set rules" "applies re event r" "dest \<in> set (destinations r)" by auto
  then have "rule_id r \<in> set (matched_policies dec)" using route_spec(2) [OF assms(1)] by auto
  with r show ?thesis by (auto simp: applies_def tenant_skips_def py_eq_opt_str)
qed

theorem route_tenant_isolation_witness:
  "\<exists>r \<in> set [example_rule ''q'' ''u'' ''kafka'', example_rule ''r'' ''t'' ''siem''].
     enabled r \<and> ''siem'' \<in> set (destinations r) \<and> rule_id r \<in> set [''r''] \<and>
     (\<not> py_truthy (rule_tenant r) \<or> rule_tenant r = opt_str (extract_tenant_id [(''tenant_id'', PStr ''t'')]))"
proof -
  have "route (\<lambda>_ _. None) [example_rule ''q'' ''u'' ''kafka'', example_rule ''r'' ''t'' ''siem'']
      [(''tenant_id'', PStr ''t'')] ''now'' = Inr ([''siem''],
      \<lparr> decision_event_id = ''unknown_event_id'', matched_policies = [''r''], decision_destinations = [''siem''],
        evaluated_at = ''now'', decision_tenant = Some ''t'', delivery_status = None \<rparr>)"
    by (simp add: example_rule_def route_def tenant_skips_def rule_matches_def extract_tenant_id_def
        extract_event_id_def extract_field_value_def opt_str_def pget_def Let_def)
  from route_tenant_isolation [OF this, of "''siem''"] show ?thesis by simp
qed

text \<open>The order in which rules are loaded is immaterial: two permutations of the same rules, with
  no two rules of the same priority and identifier, give the same routing of every event.\<close>

theorem route_order_independent:
  assumes "mset rules = mset rules'" and "inj_on rule_key (set rules)"
  shows "route re (set_rules rules) event now = route re (set_rules rules') event now"
  using set_rules_perm_eq [OF assms] by simp

theorem route_order_independent_witness:
  "route (\<lambda>_ _. None) (set_rules [example_rule ''a'' ''t'' ''x'', example_rule ''b'' ''t'' ''y'']) [] ''n'' =
   route (\<lambda>_ _. None) (set_rules [example_rule ''b'' ''t'' ''y'', example_rule ''a'' ''t'' ''x'']) [] ''n''"
  by (rule route_order_independent) (simp_all add: rule_key_def example_rule_def)

text \<open>The rules are evaluated from the highest priority down, equal priorities by identifier, and
  sorting neither drops nor adds a rule.\<close>

theorem set_rules_sorted:
  "mset (set_rules rules) = mset rules \<and>
   sorted_wrt (\<lambda>r r'. priority r' < priority r \<or> priority r = priority r' \<and> rule_id r \<le> rule_id r')
     (set_rules rules)"
proof -
  have "sorted_wrt (\<lambda>r r'. rule_key r \<le> rule_key r') (set_rules rules)"
    using sorted_sort_key [of rule_key rules] by (simp add: set_rules_def sorted_map)
  then have "sorted_wrt (\<lambda>r r'. priority r' < priority r \<or> priority r = priority r' \<and> rule_id r \<le> rule_id r')
     (set_rules rules)"
    by (rule sorted_wrt_mono_rel [rotated]) (auto simp: rule_key_def less_eq_prod_def)
  then show ?thesis by (simp add: set_rules_def)
qed

end
