(* ===== verification/M5_Delivery.thy ===== *)
theory M5_Delivery
  imports M5_Router
begin

section \<open>M5: acknowledgement tracker, dead-letter queue and retry engine\<close>

text \<open>
  \<open>M5/app/delivery/ack.py\<close>, \<open>dlq.py\<close> and \<open>retry.py\<close>. The connector is its state with an operation
  \<open>send\<close> that returns the new state and the exception raised, if any. The write to the DLQ file may
  raise: \<open>io\<close> is the exception, \<open>None\<close> when the write succeeds. Backoff values are the rationals of the
  doubles (doubling is exact). \<open>deliver_to_all\<close> runs one coroutine per connector under
  \<open>asyncio.gather\<close>: \<open>task_step\<close> is what a coroutine does between two awaits, and a schedule is an
  arbitrary sequence of coroutine indices. Metrics and log lines are left out.
\<close>

subsection \<open>Acknowledgement tracker\<close>

datatype delivery_state = PENDING | ACKNOWLEDGED | RETRIABLE_FAILURE | DLQ_PROMOTED

record delivery_record =
  st_event_id :: string
  st_destination :: string
  st_status :: delivery_state
  st_attempts :: int
  st_last_error :: "string option"

type_synonym ack_tracker = "(string, delivery_record) dict"

definition ack_key :: "string \<Rightarrow> string \<Rightarrow> string" where
  "ack_key event_id dest = event_id @ ''::'' @ dest"

definition new_status :: "string \<Rightarrow> string \<Rightarrow> delivery_state \<Rightarrow> delivery_record" where
  "new_status event_id dest st =
     \<lparr> st_event_id = event_id, st_destination = dest, st_status = st, st_attempts = 1, st_last_error = None \<rparr>"

definition record_attempt :: "string \<Rightarrow> string \<Rightarrow> ack_tracker \<Rightarrow> ack_tracker" where
  "record_attempt event_id dest tr =
     (let key = ack_key event_id dest in
      case map_of tr key of
        None \<Rightarrow> dict_set key (new_status event_id dest PENDING) tr
      | Some s \<Rightarrow> dict_set key (s\<lparr>st_attempts := st_attempts s + 1\<rparr>) tr)"

definition record_ack :: "string \<Rightarrow> string \<Rightarrow> ack_tracker \<Rightarrow> ack_tracker" where
  "record_ack event_id dest tr =
     (let key = ack_key event_id dest;
          s = (case map_of tr key of None \<Rightarrow> new_status event_id dest ACKNOWLEDGED | Some s \<Rightarrow> s)
      in dict_set key (s\<lparr>st_status := ACKNOWLEDGED\<rparr>) tr)"

definition record_failure :: "string \<Rightarrow> string \<Rightarrow> string \<Rightarrow> bool \<Rightarrow> ack_tracker \<Rightarrow> ack_tracker" where
  "record_failure event_id dest err is_dlq tr =
     (let key = ack_key event_id dest;
          s = (case map_of tr key of None \<Rightarrow> new_status event_id dest RETRIABLE_FAILURE | Some s \<Rightarrow> s)
      in dict_set key (s\<lparr>st_status := (if is_dlq then DLQ_PROMOTED else RETRIABLE_FAILURE),
                        st_last_error := Some err\<rparr>) tr)"

definition get_status :: "string \<Rightarrow> string \<Rightarrow> ack_tracker \<Rightarrow> delivery_record option" where
  "get_status event_id dest tr = map_of tr (ack_key event_id dest)"

subsection \<open>Dead-letter queue\<close>

record dlq_record =
  dlq_event_id :: string
  dlq_destination :: string
  dlq_attempts :: int
  failure_code :: string
  error_message :: string
  failed_at :: string
  dlq_event :: pydict

record dead_letter_queue =
  dlq_records :: "dlq_record list"
  dlq_lines :: "dlq_record list"

definition delivery_event_id :: "pydict \<Rightarrow> string" where
  "delivery_event_id event =
     py_str (por (por (por (extract_field_value (PDict event) ''event.id'') (pget event ''event_id''))
       (pget event ''id'')) (PStr ''unknown''))"

definition push :: "exn option \<Rightarrow> string \<Rightarrow> pydict \<Rightarrow> string \<Rightarrow> int \<Rightarrow> string \<Rightarrow> string \<Rightarrow>
    dead_letter_queue \<Rightarrow> dead_letter_queue \<times> dlq_record result" where
  "push io now event dest attempts fcode err dlq =
     (let r = \<lparr> dlq_event_id = delivery_event_id event, dlq_destination = dest, dlq_attempts = attempts,
                failure_code = fcode, error_message = err, failed_at = now, dlq_event = event \<rparr>;
          dlq' = dlq\<lparr>dlq_records := dlq_records dlq @ [r]\<rparr>
      in case io of
           Some e \<Rightarrow> (dlq', Inl e)
         | None \<Rightarrow> (dlq'\<lparr>dlq_lines := dlq_lines dlq @ [r]\<rparr>, Inr r))"

subsection \<open>Retry engine\<close>

record retry_config =
  max_retries :: int
  initial_backoff :: rat
  max_backoff :: rat

type_synonym 'c sender = "'c \<Rightarrow> pydict \<Rightarrow> 'c \<times> exn option"

record 'c delivery =
  d_conn :: 'c
  d_tracker :: ack_tracker
  d_dlq :: dead_letter_queue
  d_sleeps :: "rat list"

definition to_dlq :: "exn option \<Rightarrow> string \<Rightarrow> string \<Rightarrow> string \<Rightarrow> pydict \<Rightarrow> string \<Rightarrow> int \<Rightarrow> string \<Rightarrow> string \<Rightarrow>
    ack_tracker \<Rightarrow> dead_letter_queue \<Rightarrow> ack_tracker \<times> dead_letter_queue \<times> bool result" where
  "to_dlq io now event_id dest event last_err attempts fcode msg tr dlq =
     (let tr' = record_failure event_id dest last_err True tr;
          (dlq', r) = push io now event dest attempts fcode msg dlq
      in (tr', dlq', rbind r (\<lambda>_. Inr False)))"

definition exhausted_msg :: "int \<Rightarrow> string \<Rightarrow> string" where
  "exhausted_msg n last_err = ''Exhausted '' @ int_str n @ '' retries. Last error: '' @ last_err"

function deliver_loop :: "retry_config \<Rightarrow> exn option \<Rightarrow> string \<Rightarrow> 'c sender \<Rightarrow> string \<Rightarrow> pydict \<Rightarrow>
    int \<Rightarrow> rat \<Rightarrow> string \<Rightarrow> 'c delivery \<Rightarrow> 'c delivery \<times> bool result" where
  "deliver_loop cfg io now send dest event attempt backoff last_err st =
     (let event_id = delivery_event_id event in
      if max_retries cfg < attempt then
        (let (tr, dlq, r) = to_dlq io now event_id dest event last_err (max_retries cfg)
               ''DESTINATION_UNAVAILABLE'' (exhausted_msg (max_retries cfg) last_err) (d_tracker st) (d_dlq st)
         in (st\<lparr>d_tracker := tr, d_dlq := dlq\<rparr>, r))
      else
        (let tr1 = record_attempt event_id dest (d_tracker st); (conn, raised) = send (d_conn st) event
         in case raised of
              None \<Rightarrow> (st\<lparr>d_conn := conn, d_tracker := record_ack event_id dest tr1\<rparr>, Inr True)
            | Some (ValueError m) \<Rightarrow>
                (let (tr, dlq, r) = to_dlq io now event_id dest event m attempt
                       ''PERMANENT_SCHEMA_ERROR'' m tr1 (d_dlq st)
                 in (st\<lparr>d_conn := conn, d_tracker := tr, d_dlq := dlq\<rparr>, r))
            | Some e \<Rightarrow>
                (let tr = record_failure event_id dest (exn_str e) False tr1;
                     waits = attempt < max_retries cfg
                 in deliver_loop cfg io now send dest event (attempt + 1)
                      (if waits then min (backoff * 2) (max_backoff cfg) else backoff) (exn_str e)
                      (st\<lparr>d_conn := conn, d_tracker := tr,
                          d_sleeps := d_sleeps st @ (if waits then [backoff] else [])\<rparr>))))"
  by pat_completeness auto
termination
  by (relation "measure (\<lambda>(cfg, _, _, _, _, _, attempt, _). nat (max_retries cfg + 1 - attempt))") auto

declare deliver_loop.simps [simp del]

definition deliver_to_connector :: "retry_config \<Rightarrow> exn option \<Rightarrow> string \<Rightarrow> 'c sender \<Rightarrow> string \<Rightarrow> pydict \<Rightarrow>
    'c delivery \<Rightarrow> 'c delivery \<times> bool result" where
  "deliver_to_connector cfg io now send dest event st =
     deliver_loop cfg io now send dest event 1 (initial_backoff cfg) [] st"

subsection \<open>Concurrent delivery\<close>

datatype phase =
    Attempting int rat string
  | Sending int rat "exn option"
  | Finished "bool result"

record 'c task =
  t_dest :: string
  t_conn :: 'c
  t_phase :: phase

definition task_step :: "retry_config \<Rightarrow> exn option \<Rightarrow> string \<Rightarrow> 'c sender \<Rightarrow> pydict \<Rightarrow>
    'c task \<Rightarrow> ack_tracker \<times> dead_letter_queue \<Rightarrow> 'c task \<times> ack_tracker \<times> dead_letter_queue" where
  "task_step cfg io now send event t sh =
     (let event_id = delivery_event_id event; dest = t_dest t; (tr, dlq) = sh in
      case t_phase t of
        Attempting attempt backoff last_err \<Rightarrow>
          if max_retries cfg < attempt then
            (let (tr', dlq', r) = to_dlq io now event_id dest event last_err (max_retries cfg)
                   ''DESTINATION_UNAVAILABLE'' (exhausted_msg (max_retries cfg) last_err) tr dlq
             in (t\<lparr>t_phase := Finished r\<rparr>, tr', dlq'))
          else
            (let (conn, raised) = send (t_conn t) event
             in (t\<lparr>t_conn := conn, t_phase := Sending attempt backoff raised\<rparr>,
                 record_attempt event_id dest tr, dlq))
      | Sending attempt backoff raised \<Rightarrow>
          (case raised of
             None \<Rightarrow> (t\<lparr>t_phase := Finished (Inr True)\<rparr>, record_ack event_id dest tr, dlq)
           | Some (ValueError m) \<Rightarrow>
               (let (tr', dlq', r) = to_dlq io now event_id dest event m attempt
                      ''PERMANENT_SCHEMA_ERROR'' m tr dlq
                in (t\<lparr>t_phase := Finished r\<rparr>, tr', dlq'))
           | Some e \<Rightarrow>
               (t\<lparr>t_phase := Attempting (attempt + 1)
                   (if attempt < max_retries cfg then min (backoff * 2) (max_backoff cfg) else backoff)
                   (exn_str e)\<rparr>,
                record_failure event_id dest (exn_str e) False tr, dlq))
      | Finished r \<Rightarrow> (t, tr, dlq))"

text \<open>One scheduling decision: coroutine \<open>i\<close> runs to its next await.\<close>

definition sched_step :: "('t \<Rightarrow> 's \<Rightarrow> 't \<times> 's) \<Rightarrow> nat \<Rightarrow> 't list \<times> 's \<Rightarrow> 't list \<times> 's" where
  "sched_step step i c =
     (case c of (ts, s) \<Rightarrow>
        if i < length ts then (let (t', s') = step (ts ! i) s in (ts[i := t'], s')) else (ts, s))"

definition sched_run :: "('t \<Rightarrow> 's \<Rightarrow> 't \<times> 's) \<Rightarrow> nat list \<Rightarrow> 't list \<times> 's \<Rightarrow> 't list \<times> 's" where
  "sched_run step is c = fold (sched_step step) is c"

definition start_task :: "retry_config \<Rightarrow> string \<times> 'c \<Rightarrow> 'c task" where
  "start_task cfg p = \<lparr> t_dest = fst p, t_conn = snd p, t_phase = Attempting 1 (initial_backoff cfg) [] \<rparr>"

fun task_result :: "'c task \<Rightarrow> bool result option" where
  "task_result t = (case t_phase t of Finished r \<Rightarrow> Some r | _ \<Rightarrow> None)"

text \<open>
  \<open>deliver_to_all\<close> under the schedule \<open>is\<close>: the tasks and the shared state at its end. The result
  dictionary maps the connector names to the results once every task has finished.
\<close>

definition deliver_to_all :: "retry_config \<Rightarrow> exn option \<Rightarrow> string \<Rightarrow> 'c sender \<Rightarrow> nat list \<Rightarrow>
    (string \<times> 'c) list \<Rightarrow> pydict \<Rightarrow> ack_tracker \<times> dead_letter_queue \<Rightarrow>
    'c task list \<times> ack_tracker \<times> dead_letter_queue" where
  "deliver_to_all cfg io now send is conns event sh =
     sched_run (task_step cfg io now send event) is (map (start_task cfg) conns, sh)"

definition all_finished :: "'c task list \<Rightarrow> bool" where
  "all_finished ts = list_all (\<lambda>t. task_result t \<noteq> None) ts"

fun gather_results :: "'c task list \<Rightarrow> (string, bool) dict \<Rightarrow> (string, bool) dict result" where
  "gather_results [] acc = Inr acc"
| "gather_results (t # ts) acc =
     (case t_phase t of
        Finished r \<Rightarrow> rbind r (\<lambda>b. gather_results ts (dict_set (t_dest t) b acc))
      | _ \<Rightarrow> Inl (RuntimeError ''task not finished''))"

subsection \<open>Tracker facts\<close>

lemma ack_key_dest [simp]: "ack_key e d = ack_key e d' \<longleftrightarrow> d = d'"
  by (simp add: ack_key_def)

lemma get_status_record [dict_simps]:
  "get_status e d (record_attempt e d tr) = Some (case get_status e d tr of
     None \<Rightarrow> new_status e d PENDING | Some s \<Rightarrow> s\<lparr>st_attempts := st_attempts s + 1\<rparr>)"
  "get_status e d (record_ack e d tr) = Some ((case get_status e d tr of
     None \<Rightarrow> new_status e d ACKNOWLEDGED | Some s \<Rightarrow> s)\<lparr>st_status := ACKNOWLEDGED\<rparr>)"
  "get_status e d (record_failure e d err q tr) = Some ((case get_status e d tr of
     None \<Rightarrow> new_status e d RETRIABLE_FAILURE | Some s \<Rightarrow> s)
       \<lparr>st_status := (if q then DLQ_PROMOTED else RETRIABLE_FAILURE), st_last_error := Some err\<rparr>)"
  by (simp_all add: get_status_def record_attempt_def record_ack_def record_failure_def Let_def
      split: option.splits)

lemma get_status_other [dict_simps]:
  "d' \<noteq> d \<Longrightarrow> get_status e d' (record_attempt e d tr) = get_status e d' tr"
  "d' \<noteq> d \<Longrightarrow> get_status e d' (record_ack e d tr) = get_status e d' tr"
  "d' \<noteq> d \<Longrightarrow> get_status e d' (record_failure e d err q tr) = get_status e d' tr"
  by (simp_all add: get_status_def record_attempt_def record_ack_def record_failure_def Let_def
      split: option.splits)

subsection \<open>One delivery\<close>

definition transient :: "exn option \<Rightarrow> bool" where
  "transient raised = (case raised of None \<Rightarrow> False | Some (ValueError _) \<Rightarrow> False | Some _ \<Rightarrow> True)"

text \<open>What the first \<open>n\<close> sends of an event to a connector raise.\<close>

fun outcomes :: "'c sender \<Rightarrow> pydict \<Rightarrow> nat \<Rightarrow> 'c \<Rightarrow> exn option list" where
  "outcomes send event 0 conn = []"
| "outcomes send event (Suc n) conn =
     (let (conn', raised) = send conn event in raised # outcomes send event n conn')"

definition delivered :: "exn option list \<Rightarrow> bool" where
  "delivered outs = (case dropWhile transient outs of None # _ \<Rightarrow> True | _ \<Rightarrow> False)"

text \<open>The backoff of the attempts that follow one waiting time \<open>b\<close>.\<close>

definition next_backoff :: "retry_config \<Rightarrow> int \<Rightarrow> rat \<Rightarrow> rat" where
  "next_backoff cfg attempt b = (if attempt < max_retries cfg then min (b * 2) (max_backoff cfg) else b)"

lemma deliver_loop_exhausted:
  "max_retries cfg < attempt \<Longrightarrow>
   deliver_loop cfg io now send dest event attempt b le st =
     (let (tr, dlq, r) = to_dlq io now (delivery_event_id event) dest event le (max_retries cfg)
        ''DESTINATION_UNAVAILABLE'' (exhausted_msg (max_retries cfg) le) (d_tracker st) (d_dlq st)
      in (st\<lparr>d_tracker := tr, d_dlq := dlq\<rparr>, r))"
  by (subst deliver_loop.simps) (simp add: Let_def)

lemma deliver_loop_ack:
  "\<not> max_retries cfg < attempt \<Longrightarrow> send (d_conn st) event = (conn, None) \<Longrightarrow>
   deliver_loop cfg io now send dest event attempt b le st =
     (st\<lparr>d_conn := conn, d_tracker := record_ack (delivery_event_id event) dest
        (record_attempt (delivery_event_id event) dest (d_tracker st))\<rparr>, Inr True)"
  by (subst deliver_loop.simps) (simp add: Let_def)

lemma deliver_loop_permanent:
  "\<not> max_retries cfg < attempt \<Longrightarrow> send (d_conn st) event = (conn, Some (ValueError m)) \<Longrightarrow>
   deliver_loop cfg io now send dest event attempt b le st =
     (let (tr, dlq, r) = to_dlq io now (delivery_event_id event) dest event m attempt
        ''PERMANENT_SCHEMA_ERROR'' m (record_attempt (delivery_event_id event) dest (d_tracker st)) (d_dlq st)
      in (st\<lparr>d_conn := conn, d_tracker := tr, d_dlq := dlq\<rparr>, r))"
  by (subst deliver_loop.simps) (simp add: Let_def)

lemma deliver_loop_retry:
  "\<not> max_retries cfg < attempt \<Longrightarrow> send (d_conn st) event = (conn, Some e) \<Longrightarrow> transient (Some e) \<Longrightarrow>
   deliver_loop cfg io now send dest event attempt b le st =
     deliver_loop cfg io now send dest event (attempt + 1) (next_backoff cfg attempt b) (exn_str e)
       (st\<lparr>d_conn := conn,
           d_tracker := record_failure (delivery_event_id event) dest (exn_str e) False
             (record_attempt (delivery_event_id event) dest (d_tracker st)),
           d_sleeps := d_sleeps st @ (if attempt < max_retries cfg then [b] else [])\<rparr>)"
  by (subst deliver_loop.simps)
     (simp add: Let_def transient_def next_backoff_def split: exn.splits)

lemmas deliver_loop_cases = deliver_loop_exhausted deliver_loop_ack deliver_loop_permanent deliver_loop_retry

text \<open>Induction over the remaining attempts: one case per outcome of the send.\<close>

lemma deliver_induct [consumes 0, case_names exhausted ack permanent retry]:
  assumes exhausted: "\<And>attempt b le st. max_retries cfg < attempt \<Longrightarrow> P attempt b le st"
    and ack: "\<And>attempt b le st conn. \<not> max_retries cfg < attempt \<Longrightarrow> send (d_conn st) event = (conn, None) \<Longrightarrow>
          P attempt b le st"
    and permanent: "\<And>attempt b le st conn m. \<not> max_retries cfg < attempt \<Longrightarrow>
          send (d_conn st) event = (conn, Some (ValueError m)) \<Longrightarrow> P attempt b le st"
    and retry: "\<And>attempt b le st conn e. \<not> max_retries cfg < attempt \<Longrightarrow>
          send (d_conn st) event = (conn, Some e) \<Longrightarrow> transient (Some e) \<Longrightarrow>
          P (attempt + 1) (next_backoff cfg attempt b) (exn_str e)
            (st\<lparr>d_conn := conn,
                d_tracker := record_failure (delivery_event_id event) dest (exn_str e) False
                  (record_attempt (delivery_event_id event) dest (d_tracker st)),
                d_sleeps := d_sleeps st @ (if attempt < max_retries cfg then [b] else [])\<rparr>) \<Longrightarrow>
          P attempt b le st"
  shows "P attempt b le st"
proof (induction "nat (max_retries cfg + 1 - attempt)" arbitrary: attempt b le st)
  case 0
  then show ?case by (intro exhausted) simp
next
  case (Suc n attempt b le st)
  then have lt: "\<not> max_retries cfg < attempt" and n: "n = nat (max_retries cfg + 1 - (attempt + 1))" by simp_all
  obtain conn raised where s: "send (d_conn st) event = (conn, raised)" by (cases "send (d_conn st) event")
  consider "raised = None" | m where "raised = Some (ValueError m)" | e where "raised = Some e" "transient (Some e)"
    by (cases raised; cases "the raised") (auto simp: transient_def)
  then show ?case
  proof cases
    case 1
    then show ?thesis using ack [OF lt] s by simp
  next
    case 2
    then show ?thesis using permanent [OF lt] s by simp
  next
    case 3
    then show ?thesis using retry [OF lt] s Suc.hyps(1) [OF n] by simp
  qed
qed

text \<open>The result of a promotion: the error of the file, if it cannot be appended.\<close>

definition promoted :: "exn option \<Rightarrow> bool result" where
  "promoted io = (case io of None \<Rightarrow> Inr False | Some e \<Rightarrow> Inl e)"

lemma promoted_simps [simp]: "promoted None = Inr False" "promoted (Some e) = Inl e" "promoted io \<noteq> Inr True" "Inr True \<noteq> promoted io"
  by (simp_all add: promoted_def split: option.splits)

lemma to_dlq_ok:
  "to_dlq io now e d event le n fcode msg tr dlq = (tr', dlq', r) \<Longrightarrow>
   tr' = record_failure e d le True tr \<and> r = promoted io \<and>
   (\<exists>rec. dlq_records dlq' = dlq_records dlq @ [rec] \<and> dlq_lines dlq' = dlq_lines dlq @ (if io = None then [rec] else []) \<and>
      dlq_event rec = event \<and> dlq_destination rec = d \<and> failure_code rec = fcode \<and> dlq_attempts rec = n)"
  by (cases io) (auto simp: to_dlq_def push_def Let_def)

text \<open>How a delivery may end: acknowledged, with the queue as it was, or promoted, with one more record of the unchanged event in the queue, and
  in its file unless that could not be appended.\<close>

definition preserved :: "exn option \<Rightarrow> pydict \<Rightarrow> string \<Rightarrow> 'c delivery \<Rightarrow> 'c delivery \<Rightarrow> bool result \<Rightarrow> bool" where
  "preserved io event dest st st' r \<longleftrightarrow>
     (\<exists>s. get_status (delivery_event_id event) dest (d_tracker st') = Some s \<and>
        st_status s = (if r = Inr True then ACKNOWLEDGED else DLQ_PROMOTED)) \<and>
     (if r = Inr True then d_dlq st' = d_dlq st
      else r = promoted io \<and>
        (\<exists>rec. dlq_records (d_dlq st') = dlq_records (d_dlq st) @ [rec] \<and>
           dlq_lines (d_dlq st') = dlq_lines (d_dlq st) @ (if io = None then [rec] else []) \<and>
           dlq_event rec = event \<and> dlq_destination rec = dest))"

lemma preserved_frame:
  "preserved io event dest (st\<lparr>d_conn := c, d_tracker := t, d_sleeps := w\<rparr>) st' r = preserved io event dest st st' r"
  by (simp add: preserved_def)

lemma deliver_loop_preserved:
  "\<exists>st' r. deliver_loop cfg io now send dest event attempt bo le st = (st', r) \<and> preserved io event dest st st' r"
proof (induction attempt bo le st rule: deliver_induct [where cfg = cfg and send = send and event = event and dest = dest])
  case (exhausted attempt b le st)
  obtain tr dlq r where q: "to_dlq io now (delivery_event_id event) dest event le (max_retries cfg)
      ''DESTINATION_UNAVAILABLE'' (exhausted_msg (max_retries cfg) le) (d_tracker st) (d_dlq st) = (tr, dlq, r)"
    by (metis surj_pair)
  then show ?case using to_dlq_ok [OF q] exhausted
    by (auto simp: deliver_loop_exhausted preserved_def dict_simps)
next
  case (ack attempt b le st conn)
  then show ?case by (auto simp: deliver_loop_ack preserved_def dict_simps)
next
  case (permanent attempt b le st conn m)
  obtain tr dlq r where q: "to_dlq io now (delivery_event_id event) dest event m attempt
      ''PERMANENT_SCHEMA_ERROR'' m (record_attempt (delivery_event_id event) dest (d_tracker st)) (d_dlq st)
      = (tr, dlq, r)"
    by (metis surj_pair)
  then show ?case using to_dlq_ok [OF q] permanent
    by (auto simp: deliver_loop_permanent preserved_def dict_simps)
next
  case (retry attempt b le st conn e)
  then show ?case by (simp add: deliver_loop_retry preserved_frame)
qed

lemma outcomes_step:
  "\<not> max_retries cfg < attempt \<Longrightarrow> send conn event = (conn', raised) \<Longrightarrow>
   outcomes send event (nat (max_retries cfg + 1 - attempt)) conn =
     raised # outcomes send event (nat (max_retries cfg + 1 - (attempt + 1))) conn'"
proof -
  assume a: "\<not> max_retries cfg < attempt" "send conn event = (conn', raised)"
  then have "nat (max_retries cfg + 1 - attempt) = Suc (nat (max_retries cfg + 1 - (attempt + 1)))" by simp
  with a show ?thesis by simp
qed

lemma deliver_loop_verdict:
  "snd (deliver_loop cfg None now send dest event attempt bo le st) =
     Inr (delivered (outcomes send event (nat (max_retries cfg + 1 - attempt)) (d_conn st)))"
proof (induction attempt bo le st rule: deliver_induct [where cfg = cfg and send = send and event = event and dest = dest])
  case (exhausted attempt b le st)
  then show ?case
    by (auto simp: deliver_loop_exhausted delivered_def to_dlq_def push_def Let_def)
next
  case (ack attempt b le st conn)
  then show ?case
    by (simp add: deliver_loop_ack outcomes_step delivered_def transient_def)
next
  case (permanent attempt b le st conn m)
  then show ?case
    by (simp add: deliver_loop_permanent outcomes_step delivered_def transient_def to_dlq_def push_def Let_def)
next
  case (retry attempt b le st conn e)
  then show ?case by (simp add: deliver_loop_retry outcomes_step delivered_def)
qed

text \<open>How many sends a list of outcomes leads to: up to and including the first that is final.\<close>

fun sends_made :: "exn option list \<Rightarrow> nat" where
  "sends_made [] = 0"
| "sends_made (raised # outs) = (if transient raised then Suc (sends_made outs) else 1)"

lemma sends_made_le: "sends_made outs \<le> length outs"
  by (induction outs) auto

lemma length_outcomes [simp]: "length (outcomes send event n conn) = n"
  by (induction n arbitrary: conn) (auto simp: Let_def split: prod.splits)

definition attempts_of :: "delivery_record option \<Rightarrow> int" where
  "attempts_of s = (case s of None \<Rightarrow> 0 | Some r \<Rightarrow> st_attempts r)"

lemma attempts_of_record [simp]:
  "attempts_of (get_status e d (record_attempt e d tr)) = attempts_of (get_status e d tr) + 1"
  "attempts_of (get_status e d (record_ack e d (record_attempt e d tr))) = attempts_of (get_status e d tr) + 1"
  "attempts_of (get_status e d (record_failure e d err q (record_attempt e d tr))) =
     attempts_of (get_status e d tr) + 1"
  by (simp_all add: dict_simps attempts_of_def new_status_def split: option.splits)

lemma get_status_failure_ne: "\<exists>s. get_status e d (record_failure e d err q tr) = Some s"
  by (simp add: dict_simps)

lemma attempts_of_failure:
  "get_status e d tr \<noteq> None \<Longrightarrow> attempts_of (get_status e d (record_failure e d err q tr)) = attempts_of (get_status e d tr)"
  by (auto simp: dict_simps attempts_of_def)

lemma deliver_loop_attempts:
  "(max_retries cfg < attempt \<longrightarrow> get_status (delivery_event_id event) dest (d_tracker st) \<noteq> None) \<Longrightarrow>
   attempts_of (get_status (delivery_event_id event) dest
       (d_tracker (fst (deliver_loop cfg None now send dest event attempt bo le st)))) =
     attempts_of (get_status (delivery_event_id event) dest (d_tracker st)) +
     int (sends_made (outcomes send event (nat (max_retries cfg + 1 - attempt)) (d_conn st)))"
proof (induction attempt bo le st rule: deliver_induct [where cfg = cfg and send = send and event = event and dest = dest])
  case (exhausted attempt b le st)
  then show ?case
    by (auto simp: deliver_loop_exhausted to_dlq_def push_def Let_def attempts_of_failure)
next
  case (ack attempt b le st conn)
  then show ?case by (simp add: deliver_loop_ack outcomes_step transient_def)
next
  case (permanent attempt b le st conn m)
  then show ?case
    by (simp add: deliver_loop_permanent outcomes_step transient_def to_dlq_def push_def Let_def)
next
  case (retry attempt b le st conn e)
  then show ?case by (simp add: deliver_loop_retry outcomes_step get_status_failure_ne)
qed

text \<open>The waiting time before attempt \<open>k + 2\<close>.\<close>

definition backoff_at :: "retry_config \<Rightarrow> nat \<Rightarrow> rat" where
  "backoff_at cfg k = min (initial_backoff cfg * 2 ^ k) (max_backoff cfg)"

lemma min_double: "0 \<le> (b::rat) \<Longrightarrow> 0 \<le> m \<Longrightarrow> min (min b m * 2) m = min (2 * b) m"
  by (auto simp: min_def)

lemma next_backoff_at:
  "0 \<le> initial_backoff cfg \<Longrightarrow> 0 \<le> max_backoff cfg \<Longrightarrow> attempt < max_retries cfg \<Longrightarrow>
   next_backoff cfg attempt (backoff_at cfg k) = backoff_at cfg (Suc k)"
  using min_double [of "initial_backoff cfg * 2 ^ k" "max_backoff cfg"]
  by (simp add: next_backoff_def backoff_at_def mult.commute mult.left_commute)

lemma deliver_loop_sleeps:
  assumes "0 \<le> initial_backoff cfg" and "0 \<le> max_backoff cfg"
  shows "(attempt \<le> max_retries cfg \<longrightarrow> bo = backoff_at cfg k) \<Longrightarrow>
    \<exists>m. m \<le> nat (max_retries cfg - attempt) \<and>
     d_sleeps (fst (deliver_loop cfg None now send dest event attempt bo le st)) =
       d_sleeps st @ map (backoff_at cfg) [k..<k + m]"
proof (induction attempt bo le st arbitrary: k
    rule: deliver_induct [where cfg = cfg and send = send and event = event and dest = dest])
  case (exhausted attempt b le st)
  then show ?case by (simp add: deliver_loop_exhausted to_dlq_def push_def Let_def)
next
  case (ack attempt b le st conn)
  then show ?case by (intro exI [of _ 0]) (simp add: deliver_loop_ack)
next
  case (permanent attempt b le st conn m)
  then show ?case
    by (intro exI [of _ 0]) (simp add: deliver_loop_permanent to_dlq_def push_def Let_def)
next
  case (retry attempt b le st conn e)
  show ?case
  proof (cases "attempt < max_retries cfg")
    case True
    then have b: "b = backoff_at cfg k" using retry.prems by simp
    then obtain m where m: "m \<le> nat (max_retries cfg - (attempt + 1))"
      "d_sleeps (fst (deliver_loop cfg None now send dest event attempt b le st)) =
         (d_sleeps st @ [b]) @ map (backoff_at cfg) [Suc k..<Suc k + m]"
      using retry.IH [of "Suc k"] next_backoff_at [OF assms True] True retry.hyps
      by (auto simp: deliver_loop_retry)
    have "[b] @ map (backoff_at cfg) [Suc k..<Suc k + m] = map (backoff_at cfg) [k..<k + Suc m]"
      using b by (simp add: upt_conv_Cons del: upt_Suc)
    with m True show ?thesis
      by (intro exI [of _ "Suc m"]) (simp del: upt_Suc)
  next
    case False
    then show ?thesis using retry.IH [of k] retry.hyps by (auto simp: deliver_loop_retry)
  qed
qed

subsection \<open>Interleaving: an interface for tasks that share a state\<close>

text \<open>
  A task sees only its own view of the shared state, and leaves the views of the others alone. Then
  each task of an interleaving ends where it ends when it runs alone.
\<close>

fun solo_run :: "('t \<Rightarrow> 's \<Rightarrow> 't \<times> 's) \<Rightarrow> nat \<Rightarrow> 't \<Rightarrow> 's \<Rightarrow> 't \<times> 's" where
  "solo_run step 0 t s = (t, s)"
| "solo_run step (Suc n) t s = (let (t', s') = step t s in solo_run step n t' s')"

lemma solo_run_add:
  "solo_run step (m + n) t s = (let (t', s') = solo_run step m t s in solo_run step n t' s')"
  by (induction m arbitrary: t s) (auto simp: Let_def split: prod.splits)

locale local_tasks =
  fixes step :: "'t \<Rightarrow> 's \<Rightarrow> 't \<times> 's"
    and tid :: "'t \<Rightarrow> 'k"
    and view :: "'k \<Rightarrow> 's \<Rightarrow> 'v"
  assumes tid_step: "tid (fst (step t s)) = tid t"
    and step_local: "view (tid t) s = view (tid t) s' \<Longrightarrow>
      fst (step t s) = fst (step t s') \<and> view (tid t) (snd (step t s)) = view (tid t) (snd (step t s'))"
    and step_frame: "k \<noteq> tid t \<Longrightarrow> view k (snd (step t s)) = view k s"
begin

lemma solo_local:
  "view (tid t) s = view (tid t) s' \<Longrightarrow>
   fst (solo_run step n t s) = fst (solo_run step n t s') \<and>
   view (tid t) (snd (solo_run step n t s)) = view (tid t) (snd (solo_run step n t s'))"
proof (induction n arbitrary: t s s')
  case (Suc n)
  obtain t1 s1 where a: "step t s = (t1, s1)" by (cases "step t s")
  obtain t2 s2 where b: "step t s' = (t2, s2)" by (cases "step t s'")
  have "t1 = t2" "view (tid t) s1 = view (tid t) s2" "tid t1 = tid t"
    using step_local [OF Suc.prems] tid_step [of t s] a b by simp_all
  then show ?case using Suc.IH [of t1 s1 s2] a b by simp
qed simp

lemma interleaving_solo:
  "distinct (map tid ts) \<Longrightarrow> i < length ts \<Longrightarrow>
   fst (sched_run step is (ts, s)) ! i = fst (solo_run step (count_list is i) (ts ! i) s) \<and>
   view (tid (ts ! i)) (snd (sched_run step is (ts, s))) =
     view (tid (ts ! i)) (snd (solo_run step (count_list is i) (ts ! i) s)) \<and>
   length (fst (sched_run step is (ts, s))) = length ts"
proof (induction "is" arbitrary: ts s)
  case Nil
  then show ?case by (simp add: sched_run_def)
next
  case (Cons j js)
  show ?case
  proof (cases "j < length ts")
    case False
    then show ?thesis using Cons by (auto simp: sched_run_def sched_step_def)
  next
    case True
    obtain t' s' where st: "step (ts ! j) s = (t', s')" by (cases "step (ts ! j) s")
    let ?ts = "ts[j := t']"
    have tid': "tid t' = tid (ts ! j)" using tid_step [of "ts ! j" s] st by simp
    then have ids: "map tid ?ts = map tid ts" using True by (metis list_update_id map_update)
    have run: "sched_run step (j # js) (ts, s) = sched_run step js (?ts, s')"
      using True st by (simp add: sched_run_def sched_step_def)
    have ih: "fst (sched_run step js (?ts, s')) ! i = fst (solo_run step (count_list js i) (?ts ! i) s') \<and>
        view (tid (?ts ! i)) (snd (sched_run step js (?ts, s'))) =
          view (tid (?ts ! i)) (snd (solo_run step (count_list js i) (?ts ! i) s')) \<and>
        length (fst (sched_run step js (?ts, s'))) = length ?ts"
      using Cons.IH [of ?ts s'] Cons.prems ids by simp
    show ?thesis
    proof (cases "i = j")
      case True
      then show ?thesis using run ih st tid' \<open>j < length ts\<close> by simp
    next
      case False
      then have "tid (ts ! i) \<noteq> tid (ts ! j)"
        using Cons.prems True by (simp add: distinct_conv_nth)
      then have "view (tid (ts ! i)) s' = view (tid (ts ! i)) s"
        using step_frame [of "tid (ts ! i)" "ts ! j" s] st by simp
      from solo_local [OF this] run ih False show ?thesis by simp
    qed
  qed
qed

end

text \<open>The view of a destination: its tracker entry and its records in the dead-letter queue.\<close>

definition delivery_view :: "pydict \<Rightarrow> string \<Rightarrow> ack_tracker \<times> dead_letter_queue \<Rightarrow>
    delivery_record option \<times> dlq_record list \<times> dlq_record list" where
  "delivery_view event dest sh =
     (get_status (delivery_event_id event) dest (fst sh),
      filter (\<lambda>r. dlq_destination r = dest) (dlq_records (snd sh)),
      filter (\<lambda>r. dlq_destination r = dest) (dlq_lines (snd sh)))"

lemma to_dlq_view:
  "to_dlq io now (delivery_event_id event) dest event le n fcode msg tr dlq = (tr', dlq', r) \<Longrightarrow>
   (k \<noteq> dest \<longrightarrow> delivery_view event k (tr', dlq') = delivery_view event k (tr, dlq)) \<and>
   (\<forall>tr2 dlq2 tr2' dlq2' r2. delivery_view event dest (tr, dlq) = delivery_view event dest (tr2, dlq2) \<longrightarrow>
      to_dlq io now (delivery_event_id event) dest event le n fcode msg tr2 dlq2 = (tr2', dlq2', r2) \<longrightarrow>
      r2 = r \<and> delivery_view event dest (tr', dlq') = delivery_view event dest (tr2', dlq2'))"
  by (cases io)
     (auto simp: to_dlq_def push_def Let_def delivery_view_def dict_simps)

lemma delivery_view_tracker [simp]:
  "k \<noteq> d \<Longrightarrow> delivery_view event k (record_attempt (delivery_event_id event) d tr, dlq) = delivery_view event k (tr, dlq)"
  "k \<noteq> d \<Longrightarrow> delivery_view event k (record_ack (delivery_event_id event) d tr, dlq) = delivery_view event k (tr, dlq)"
  "k \<noteq> d \<Longrightarrow> delivery_view event k (record_failure (delivery_event_id event) d err q tr, dlq) = delivery_view event k (tr, dlq)"
  by (simp_all add: delivery_view_def dict_simps)

lemma delivery_view_local:
  assumes "delivery_view event d (tr, dlq) = delivery_view event d (tr', dlq')"
  shows "delivery_view event d (record_attempt (delivery_event_id event) d tr, dlq) =
         delivery_view event d (record_attempt (delivery_event_id event) d tr', dlq')"
    and "delivery_view event d (record_ack (delivery_event_id event) d tr, dlq) =
         delivery_view event d (record_ack (delivery_event_id event) d tr', dlq')"
    and "delivery_view event d (record_failure (delivery_event_id event) d err q tr, dlq) =
         delivery_view event d (record_failure (delivery_event_id event) d err q tr', dlq')"
  using assms by (simp_all add: delivery_view_def dict_simps)

lemma task_step_frame:
  "k \<noteq> t_dest t \<Longrightarrow>
   delivery_view event k (snd (task_step cfg io now send event t sh)) = delivery_view event k sh"
  by (cases sh)
     (auto simp: task_step_def Let_def to_dlq_view split: phase.splits option.splits exn.splits prod.splits)

lemma task_step_dest: "t_dest (fst (task_step cfg io now send event t sh)) = t_dest t"
  by (cases sh)
     (auto simp: task_step_def Let_def split: phase.splits option.splits exn.splits prod.splits)

lemma to_dlq_view_local:
  assumes "delivery_view event d (tr, dlq) = delivery_view event d (tr2, dlq2)"
  shows "snd (snd (to_dlq io now (delivery_event_id event) d event le n fcode msg tr dlq)) =
         snd (snd (to_dlq io now (delivery_event_id event) d event le n fcode msg tr2 dlq2))"
    and "delivery_view event d (fst (to_dlq io now (delivery_event_id event) d event le n fcode msg tr dlq),
           fst (snd (to_dlq io now (delivery_event_id event) d event le n fcode msg tr dlq))) =
         delivery_view event d (fst (to_dlq io now (delivery_event_id event) d event le n fcode msg tr2 dlq2),
           fst (snd (to_dlq io now (delivery_event_id event) d event le n fcode msg tr2 dlq2)))"
  using assms by (cases io; simp add: to_dlq_def push_def Let_def delivery_view_def dict_simps)+

lemma task_step_local:
  assumes "delivery_view event (t_dest t) sh = delivery_view event (t_dest t) sh'"
  shows "fst (task_step cfg io now send event t sh) = fst (task_step cfg io now send event t sh') \<and>
    delivery_view event (t_dest t) (snd (task_step cfg io now send event t sh)) =
    delivery_view event (t_dest t) (snd (task_step cfg io now send event t sh'))"
proof -
  obtain tr dlq where sh: "sh = (tr, dlq)" by (cases sh)
  obtain tr' dlq' where sh': "sh' = (tr', dlq')" by (cases sh')
  note v = assms [unfolded sh sh']
  note q = to_dlq_view_local [OF v]
  show ?thesis
  proof (cases "t_phase t")
    case (Attempting a b le)
    then show ?thesis
      using q delivery_view_local(1) [OF v]
      by (simp add: sh sh' task_step_def Let_def case_prod_beta)
  next
    case (Sending a b raised)
    show ?thesis
    proof (cases raised)
      case None
      then show ?thesis using Sending delivery_view_local(2) [OF v]
        by (simp add: sh sh' task_step_def Let_def)
    next
      case (Some e)
      then show ?thesis using Sending q delivery_view_local(3) [OF v]
        by (cases e) (simp_all add: sh sh' task_step_def Let_def case_prod_beta)
    qed
  next
    case (Finished r)
    then show ?thesis using v by (simp add: sh sh' task_step_def)
  qed
qed

interpretation delivery: local_tasks "task_step cfg io now send event" t_dest "delivery_view event"
  for cfg io now send event
  by unfold_locales (rule task_step_dest, rule task_step_local, assumption, rule task_step_frame)

subsection \<open>A task alone is the sequential delivery\<close>

definition loop_task :: "string \<Rightarrow> 'c delivery \<Rightarrow> phase \<Rightarrow> 'c task" where
  "loop_task dest st ph = \<lparr> t_dest = dest, t_conn = d_conn st, t_phase = ph \<rparr>"

lemma solo_deliver_loop:
  "\<exists>n \<le> 2 * nat (max_retries cfg + 1 - attempt) + 1.
     solo_run (task_step cfg io now send event) n (loop_task dest st (Attempting attempt b le))
       (d_tracker st, d_dlq st) =
     (case deliver_loop cfg io now send dest event attempt b le st of
        (st', r) \<Rightarrow> (loop_task dest st' (Finished r), d_tracker st', d_dlq st'))"
proof (induction attempt b le st
    rule: deliver_induct [where cfg = cfg and send = send and event = event and dest = dest])
  case (exhausted attempt b le st)
  then show ?case
    by (intro exI [of _ 1])
       (simp add: deliver_loop_exhausted task_step_def loop_task_def Let_def case_prod_beta)
next
  case (ack attempt b le st conn)
  have "2 \<le> 2 * nat (max_retries cfg + 1 - attempt) + 1" using ack by simp
  then show ?case using ack
    by (intro exI [of _ 2])
       (simp add: deliver_loop_ack task_step_def loop_task_def Let_def case_prod_beta numeral_2_eq_2)
next
  case (permanent attempt b le st conn m)
  have "2 \<le> 2 * nat (max_retries cfg + 1 - attempt) + 1" using permanent by simp
  then show ?case using permanent
    by (intro exI [of _ 2])
       (simp add: deliver_loop_permanent task_step_def loop_task_def Let_def case_prod_beta numeral_2_eq_2)
next
  case (retry attempt b le st conn e)
  let ?st = "st\<lparr>d_conn := conn, d_tracker := record_failure (delivery_event_id event) dest (exn_str e) False
      (record_attempt (delivery_event_id event) dest (d_tracker st)),
      d_sleeps := d_sleeps st @ (if attempt < max_retries cfg then [b] else [])\<rparr>"
  let ?step = "task_step cfg io now send event"
  have two: "solo_run ?step 2 (loop_task dest st (Attempting attempt b le)) (d_tracker st, d_dlq st) =
      (loop_task dest ?st (Attempting (attempt + 1) (next_backoff cfg attempt b) (exn_str e)),
       d_tracker ?st, d_dlq ?st)"
    using retry.hyps
    by (cases e) (simp_all add: task_step_def loop_task_def Let_def numeral_2_eq_2 transient_def next_backoff_def)
  from retry.IH obtain n where n: "n \<le> 2 * nat (max_retries cfg + 1 - (attempt + 1)) + 1"
    "solo_run ?step n (loop_task dest ?st (Attempting (attempt + 1) (next_backoff cfg attempt b) (exn_str e)))
       (d_tracker ?st, d_dlq ?st) =
     (case deliver_loop cfg io now send dest event (attempt + 1) (next_backoff cfg attempt b) (exn_str e) ?st of
        (st', r) \<Rightarrow> (loop_task dest st' (Finished r), d_tracker st', d_dlq st'))" by blast
  have le: "2 + n \<le> 2 * nat (max_retries cfg + 1 - attempt) + 1" using n(1) retry.hyps by simp
  have "solo_run ?step (2 + n) (loop_task dest st (Attempting attempt b le)) (d_tracker st, d_dlq st) =
     (case deliver_loop cfg io now send dest event attempt b le st of
        (st', r) \<Rightarrow> (loop_task dest st' (Finished r), d_tracker st', d_dlq st'))"
    using two n(2) deliver_loop_retry [where send = send and event = event and st = st, OF retry.hyps]
    unfolding solo_run_add by simp
  with le show ?case by blast
qed

lemma solo_finished:
  "t_phase t = Finished r \<Longrightarrow> solo_run (task_step cfg io now send event) n t sh = (t, sh)"
  by (induction n) (simp_all add: task_step_def Let_def case_prod_beta)

lemma solo_deliver:
  fixes st :: "'c delivery"
  assumes "deliver_loop cfg io now send dest event attempt b le st = (st', r)"
    and "solo_run (task_step cfg io now send event) m (loop_task dest st (Attempting attempt b le))
       (d_tracker st, d_dlq st) = (t, sh)"
    and "task_result t \<noteq> None \<or> 2 * nat (max_retries cfg + 1 - attempt) + 1 \<le> m"
  shows "t = loop_task dest st' (Finished r) \<and> sh = (d_tracker st', d_dlq st')"
proof -
  let ?run = "\<lambda>n. solo_run (task_step cfg io now send event) n (loop_task dest st (Attempting attempt b le))
       (d_tracker st, d_dlq st)"
  obtain n where n: "n \<le> 2 * nat (max_retries cfg + 1 - attempt) + 1"
    "?run n = (loop_task dest st' (Finished r), d_tracker st', d_dlq st')"
    using solo_deliver_loop [of cfg attempt io now send event dest st b le] assms(1) by auto
  show ?thesis
  proof (cases "n \<le> m")
    case True
    then have "?run m = solo_run (task_step cfg io now send event) (m - n)
        (loop_task dest st' (Finished r)) (d_tracker st', d_dlq st')"
      using solo_run_add [of "task_step cfg io now send event" n "m - n"
          "loop_task dest st (Attempting attempt b le)" "(d_tracker st, d_dlq st)"] n(2) by simp
    then show ?thesis using assms(2) by (simp add: solo_finished loop_task_def)
  next
    case False
    then obtain r' where fin: "t_phase t = Finished r'"
      using assms(3) n(1) by (auto split: phase.splits)
    have "?run n = solo_run (task_step cfg io now send event) (n - m) t sh"
      using solo_run_add [of "task_step cfg io now send event" m "n - m"
          "loop_task dest st (Attempting attempt b le)" "(d_tracker st, d_dlq st)"] False assms(2) by simp
    then show ?thesis using n(2) solo_finished [OF fin] by simp
  qed
qed

definition alone :: "string \<times> 'c \<Rightarrow> ack_tracker \<times> dead_letter_queue \<Rightarrow> 'c delivery" where
  "alone p sh = \<lparr> d_conn = snd p, d_tracker = fst sh, d_dlq = snd sh, d_sleeps = [] \<rparr>"

lemma start_task_loop: "start_task cfg p = loop_task (fst p) (alone p sh) (Attempting 1 (initial_backoff cfg) [])"
  by (simp add: start_task_def loop_task_def alone_def)

lemma sched_run_Nil: "sched_run f js ([], s) = ([], s)"
  by (induction js arbitrary: s) (simp_all add: sched_run_def sched_step_def)

lemma deliver_to_all_solo:
  assumes names: "distinct (map fst conns)" and i: "i < length conns"
    and run: "deliver_to_all cfg io now send is conns event sh = (ts, sh')"
    and seq: "deliver_to_connector cfg io now send (fst (conns ! i)) event (alone (conns ! i) sh) = (st', r)"
    and enough: "task_result (ts ! i) \<noteq> None \<or> 2 * nat (max_retries cfg) + 1 \<le> count_list is i"
  shows "length ts = length conns \<and> ts ! i = loop_task (fst (conns ! i)) st' (Finished r) \<and>
         delivery_view event (fst (conns ! i)) sh' = delivery_view event (fst (conns ! i)) (d_tracker st', d_dlq st')"
proof -
  let ?step = "task_step cfg io now send event"
  let ?ts = "map (start_task cfg) conns"
  let ?t = "loop_task (fst (conns ! i)) (alone (conns ! i) sh) (Attempting 1 (initial_backoff cfg) [])"
  have ti: "?ts ! i = ?t" using i start_task_loop by simp
  have "map t_dest ?ts = map fst conns" by (simp add: start_task_def)
  then have dist: "distinct (map t_dest ?ts)" using names by (simp only:)
  obtain t s where solo: "solo_run ?step (count_list is i) ?t
      (d_tracker (alone (conns ! i) sh), d_dlq (alone (conns ! i) sh)) = (t, s)" by (metis surj_pair)
  have sh: "(d_tracker (alone (conns ! i) sh), d_dlq (alone (conns ! i) sh)) = sh" by (simp add: alone_def)
  have dest: "t_dest ?t = fst (conns ! i)" by (simp add: loop_task_def)
  from delivery.interleaving_solo [OF dist, of i cfg io now send event "is" sh] run solo sh ti i dest
  have *: "ts ! i = t" "delivery_view event (fst (conns ! i)) sh' = delivery_view event (fst (conns ! i)) s"
    "length ts = length conns"
    by (simp_all add: deliver_to_all_def)
  have "t = loop_task (fst (conns ! i)) st' (Finished r) \<and> s = (d_tracker st', d_dlq st')"
    using seq enough * by (intro solo_deliver [OF _ solo]) (simp_all add: deliver_to_connector_def)
  with * show ?thesis by simp
qed

subsection \<open>Properties\<close>

text \<open>(C6) No event is lost, whether or not the file of the queue can be appended: a delivery to a connector always ends with a result. If that is
  success, the tracker says \<open>ACKNOWLEDGED\<close> and the dead-letter queue is untouched. Otherwise the tracker says \<open>DLQ_PROMOTED\<close>, exactly one
  record with the unchanged event is appended to the queue, and either it is also appended to the file and the result is failure, or the file
  cannot be appended, the error of the file is raised and the file is unchanged.\<close>

theorem deliver_never_loses:
  "\<exists>st' r. deliver_to_connector cfg io now send dest event st = (st', r) \<and> preserved io event dest st st' r"
  using deliver_loop_preserved by (simp add: deliver_to_connector_def)

text \<open>Delivery succeeds exactly when, among the first \<open>max_retries\<close> sends, the first one that is not
  a transient failure succeeds: a \<open>ValueError\<close> ends the retries at once.\<close>

theorem deliver_verdict:
  "snd (deliver_to_connector cfg None now send dest event st) =
     Inr (delivered (outcomes send event (nat (max_retries cfg)) (d_conn st)))"
  using deliver_loop_verdict [of cfg now send dest event 1] by (simp add: deliver_to_connector_def)

text \<open>The tracker counts every send, and no delivery makes more than \<open>max_retries\<close> of them.\<close>

theorem deliver_attempts:
  assumes "1 \<le> max_retries cfg"
  shows "attempts_of (get_status (delivery_event_id event) dest
           (d_tracker (fst (deliver_to_connector cfg None now send dest event st)))) =
         attempts_of (get_status (delivery_event_id event) dest (d_tracker st)) +
         int (sends_made (outcomes send event (nat (max_retries cfg)) (d_conn st))) \<and>
         int (sends_made (outcomes send event (nat (max_retries cfg)) (d_conn st))) \<le> max_retries cfg"
proof -
  have "sends_made (outcomes send event (nat (max_retries cfg)) (d_conn st)) \<le> nat (max_retries cfg)"
    using sends_made_le [of "outcomes send event (nat (max_retries cfg)) (d_conn st)"] by simp
  then show ?thesis
    using assms deliver_loop_attempts [of cfg 1 event dest st now send] by (simp add: deliver_to_connector_def)
qed

theorem deliver_attempts_witness:
  "attempts_of (get_status ''unknown'' ''siem''
     (d_tracker (fst (deliver_to_connector \<lparr>max_retries = 2, initial_backoff = 1, max_backoff = 3\<rparr> None ''now''
        (\<lambda>c e. (c, Some (ConnectionError ''down''))) ''siem'' [] (alone (''siem'', ()) ([], \<lparr>dlq_records = [], dlq_lines = []\<rparr>)))))) = 2"
  using deliver_attempts [of "\<lparr>max_retries = 2, initial_backoff = 1, max_backoff = 3\<rparr>" "[]" "''siem''" "''now''"
      "\<lambda>c e. (c, Some (ConnectionError ''down''))" "alone (''siem'', ()) ([], \<lparr>dlq_records = [], dlq_lines = []\<rparr>)"]
  by (simp add: delivery_event_id_def extract_field_value_def pget_def numeral_2_eq_2 transient_def
      attempts_of_def get_status_def alone_def)

text \<open>The waiting times of a delivery are the initial backoff doubled again and again and capped at
  the maximum, and there are fewer of them than attempts.\<close>

theorem deliver_backoff:
  assumes "0 \<le> initial_backoff cfg" and "initial_backoff cfg \<le> max_backoff cfg" and "d_sleeps st = []"
  shows "\<exists>m. m \<le> nat (max_retries cfg - 1) \<and>
    d_sleeps (fst (deliver_to_connector cfg None now send dest event st)) =
      map (\<lambda>k. min (initial_backoff cfg * 2 ^ k) (max_backoff cfg)) [0..<m]"
proof -
  have f: "(\<lambda>k. min (initial_backoff cfg * 2 ^ k) (max_backoff cfg)) = backoff_at cfg"
    by (rule ext) (simp add: backoff_at_def)
  have "initial_backoff cfg = backoff_at cfg 0" using assms by (simp add: backoff_at_def min_def)
  then show ?thesis
    using deliver_loop_sleeps [of cfg 1 "initial_backoff cfg" 0 now send dest event "[]" st] assms
    unfolding f by (simp add: deliver_to_connector_def)
qed

theorem deliver_backoff_witness:
  "\<exists>m \<le> nat (3 - 1). d_sleeps (fst (deliver_to_connector \<lparr>max_retries = 3, initial_backoff = 1, max_backoff = 5\<rparr> None ''now''
     (\<lambda>c e. (c, Some (ConnectionError ''down''))) ''siem'' [] (alone (''siem'', ()) ([], \<lparr>dlq_records = [], dlq_lines = []\<rparr>)))) =
     map (\<lambda>k. min (1 * 2 ^ k) 5) [0..<m]"
  using deliver_backoff [of "\<lparr>max_retries = 3, initial_backoff = 1, max_backoff = 5\<rparr>"
      "alone (''siem'', ()) ([], \<lparr>dlq_records = [], dlq_lines = []\<rparr>)" "''now''"
      "\<lambda>c e. (c, Some (ConnectionError ''down''))" "''siem''" "[]"]
  by (simp add: alone_def)

text \<open>(C9) Concurrent delivery is independent of the schedule: when all coroutines of \<open>deliver_to_all\<close>
  have finished, each has the result, the connector state, the tracker entry and the dead-letter
  records of the delivery to that connector alone.\<close>

theorem deliver_to_all_schedule_independent:
  assumes "distinct (map fst conns)" and "i < length conns"
    and "deliver_to_all cfg io now send is conns event sh = (ts, sh')" and "all_finished ts"
    and "deliver_to_connector cfg io now send (fst (conns ! i)) event (alone (conns ! i) sh) = (st', r)"
  shows "ts ! i = \<lparr> t_dest = fst (conns ! i), t_conn = d_conn st', t_phase = Finished r \<rparr> \<and>
         delivery_view event (fst (conns ! i)) sh' = delivery_view event (fst (conns ! i)) (d_tracker st', d_dlq st')"
proof -
  have "length ts = length conns"
    using delivery.interleaving_solo [of "map (start_task cfg) conns" i cfg io now send event "is" sh] assms(1-3)
    by (simp add: deliver_to_all_def start_task_def comp_def)
  then have "task_result (ts ! i) \<noteq> None"
    using assms(2,4) by (simp add: all_finished_def list_all_length)
  then show ?thesis using deliver_to_all_solo [OF assms(1,2,3,5)] by (simp add: loop_task_def)
qed

theorem deliver_to_all_schedule_independent_witness:
  "fst (deliver_to_all \<lparr>max_retries = 1, initial_backoff = 1, max_backoff = 5\<rparr> None ''now'' (\<lambda>c e. (c, None)) [1, 0, 0, 1]
      [(''a'', ()), (''b'', ())] [] ([], \<lparr>dlq_records = [], dlq_lines = []\<rparr>)) ! 1 =
   \<lparr> t_dest = ''b'', t_conn = (), t_phase = Finished (Inr True) \<rparr>"
proof -
  let ?cfg = "\<lparr>max_retries = 1, initial_backoff = 1, max_backoff = 5\<rparr>"
  let ?sh = "([], \<lparr>dlq_records = [], dlq_lines = []\<rparr>)"
  let ?send = "\<lambda>(c::unit) e. (c, None)"
  let ?run = "deliver_to_all ?cfg None ''now'' ?send [1, 0, 0, 1] [(''a'', ()), (''b'', ())] [] ?sh"
  have r: "?run = (fst ?run, snd ?run)" by simp
  have fin: "all_finished (fst ?run)"
    by (simp add: deliver_to_all_def sched_run_def sched_step_def start_task_def task_step_def all_finished_def
        Let_def)
  have seq: "deliver_to_connector ?cfg None ''now'' ?send ''b'' [] (alone (''b'', ()) ?sh) =
      (fst (deliver_to_connector ?cfg None ''now'' ?send ''b'' [] (alone (''b'', ()) ?sh)), Inr True)"
    by (simp add: deliver_to_connector_def deliver_loop_ack alone_def)
  show ?thesis
    using deliver_to_all_schedule_independent [OF _ _ r fin, of 1] seq by simp
qed

text \<open>(C27) \<open>deliver_to_all\<close> ends: under every schedule that runs each coroutine at least
  \<open>2 * max_retries + 1\<close> times, all coroutines finish.\<close>

theorem deliver_to_all_terminates:
  assumes "distinct (map fst conns)"
    and "\<forall>i < length conns. 2 * nat (max_retries cfg) + 1 \<le> count_list is i"
  shows "all_finished (fst (deliver_to_all cfg io now send is conns event sh))"
proof (cases "conns = []")
  case True
  then show ?thesis by (simp add: deliver_to_all_def all_finished_def sched_run_Nil)
next
  case False
  obtain ts sh' where run: "deliver_to_all cfg io now send is conns event sh = (ts, sh')" by (metis surj_pair)
  have each: "length ts = length conns \<and> (\<exists>r. t_phase (ts ! i) = Finished r)" if "i < length conns" for i
  proof -
    obtain st' r where "deliver_to_connector cfg io now send (fst (conns ! i)) event (alone (conns ! i) sh) = (st', r)"
      by (metis surj_pair)
    from deliver_to_all_solo [OF assms(1) that run this] assms(2) that show ?thesis
      by (auto simp: loop_task_def)
  qed
  then have "length ts = length conns" using False by blast
  with each run show ?thesis by (force simp: all_finished_def list_all_length)
qed

theorem deliver_to_all_terminates_witness:
  "all_finished (fst (deliver_to_all \<lparr>max_retries = 1, initial_backoff = 1, max_backoff = 5\<rparr> None ''now''
     (\<lambda>c e. (c, Some (RuntimeError ''x''))) [1, 0, 1, 0, 0, 1] [(''a'', ()), (''b'', ())] [] ([], \<lparr>dlq_records = [], dlq_lines = []\<rparr>)))"
  by (rule deliver_to_all_terminates) (auto simp: less_Suc_eq)

end
