(* ===== verification/Py_Json.thy ===== *)
theory Py_Json
  imports Py_Value
begin

section \<open>JSON text\<close>

text \<open>
  \<open>json.dumps\<close> of the standard library on JSON-shaped values: string escaping with and without
  \<open>ensure_ascii\<close>, \<open>sort_keys\<close> and the separators. Numbers print as \<open>str\<close> prints them, except the three
  special floats.
\<close>

definition json_char :: "bool \<Rightarrow> char \<Rightarrow> string" where
  "json_char ensure_ascii c =
     (let n = code c in
      if n = 34 \<or> n = 92 then [CHR 0x5C, c]
      else if n = 10 then CHR 0x5C # ''n''
      else if n = 13 then CHR 0x5C # ''r''
      else if n = 9 then CHR 0x5C # ''t''
      else if n = 8 then CHR 0x5C # ''b''
      else if n = 12 then CHR 0x5C # ''f''
      else if n < 32 \<or> (ensure_ascii \<and> 127 < n) then CHR 0x5C # ''u00'' @ hex2 n
      else [c])"

definition json_string :: "bool \<Rightarrow> string \<Rightarrow> string" where
  "json_string ensure_ascii s = CHR 0x22 # concat (map (json_char ensure_ascii) s) @ [CHR 0x22]"

fun json_float :: "pyfloat \<Rightarrow> string" where
  "json_float FPosInf = ''Infinity''"
| "json_float FNegInf = ''-Infinity''"
| "json_float FNaN = ''NaN''"
| "json_float f = float_repr f"

record json_opts =
  jo_ascii :: bool
  jo_sort :: bool
  jo_item_sep :: string
  jo_key_sep :: string

definition default_opts :: json_opts where
  "default_opts = \<lparr> jo_ascii = True, jo_sort = False, jo_item_sep = '', '', jo_key_sep = '': '' \<rparr>"

fun json_dumps :: "json_opts \<Rightarrow> pyval \<Rightarrow> string" where
  "json_dumps opts PNone = ''null''"
| "json_dumps opts (PBool b) = (if b then ''true'' else ''false'')"
| "json_dumps opts (PInt i) = int_str i"
| "json_dumps opts (PFloat f) = json_float f"
| "json_dumps opts (PStr s) = json_string (jo_ascii opts) s"
| "json_dumps opts (PList xs) = ''['' @ join (jo_item_sep opts) (map (json_dumps opts) xs) @ '']''"
| "json_dumps opts (PDict d) =
     (let kvs = map (\<lambda>(k, v). (k, json_dumps opts v)) d;
          kvs' = (if jo_sort opts then sort_key fst kvs else kvs)
      in ''{'' @ join (jo_item_sep opts)
           (map (\<lambda>(k, t). json_string (jo_ascii opts) k @ jo_key_sep opts @ t) kvs') @ ''}'')"

end
