(* ===== verification/M5_Connectors.thy ===== *)
theory M5_Connectors
  imports M5_Delivery Py_Json
begin

section \<open>M5: destination connectors\<close>

text \<open>
  \<open>M5/app/connectors/opensearch.py\<close>, \<open>kafka.py\<close>, \<open>http.py\<close>, \<open>filesystem.py\<close>, \<open>M5/app/datalake/writer.py\<close>
  and \<open>iceberg.py\<close>. Each connector is a record with the fields of its class; \<open>send\<close> returns the new
  state and the exception raised. What lies outside the program is the record \<open>world\<close>: the answers of
  the HTTP client and of the Kafka producer, the outcome of a file write, and the date.
\<close>

record world =
  http_put :: "string \<Rightarrow> (string \<times> string) option \<Rightarrow> pyval \<Rightarrow> (nat \<times> string) result"
  http_post :: "string \<Rightarrow> pyval \<Rightarrow> (string, string) dict \<Rightarrow> (nat \<times> string) result"
  kafka_send :: "string \<Rightarrow> string \<Rightarrow> string option \<Rightarrow> exn option"
  file_error :: "exn option"
  today :: string

subsection \<open>Fields shared by the connectors\<close>

definition event_id_of :: "pydict \<Rightarrow> pyval" where
  "event_id_of event =
     por (por (extract_field_value (PDict event) ''event.id'') (pget event ''event_id'')) (pget event ''id'')"

definition tenant_of :: "pydict \<Rightarrow> pyval" where
  "tenant_of event =
     por (por (extract_field_value (PDict event) ''tenant.id'') (pget event ''tenant_id'')) (PStr ''default_tenant'')"

subsection \<open>OpenSearch\<close>

record opensearch =
  os_name :: string
  os_host :: string
  os_index_prefix :: string
  os_user :: "string option"
  os_password :: "string option"
  os_mock :: bool
  mock_storage :: "(string, pydict) dict"
  os_healthy :: bool

definition get_auth :: "opensearch \<Rightarrow> (string \<times> string) option" where
  "get_auth c =
     (case (os_user c, os_password c) of
        (Some u, Some p) \<Rightarrow> if u \<noteq> [] \<and> p \<noteq> [] then Some (u, p) else None
      | _ \<Rightarrow> None)"

definition sanitize_for_indexing :: "pydict \<Rightarrow> pydict" where
  "sanitize_for_indexing event =
     (let ev = PDict event in
      [(''event_id'', event_id_of event),
       (''timestamp'', por (extract_field_value ev ''event.timestamp'') (pget event ''timestamp'')),
       (''event_type'', extract_field_value ev ''event.type''),
       (''event_action'', extract_field_value ev ''event.action''),
       (''severity_value'', extract_field_value ev ''event.severity.value''),
       (''tenant_id'', tenant_of event),
       (''source_ip'', extract_field_value ev ''source.ip''),
       (''destination_ip'', extract_field_value ev ''destination.ip''),
       (''is_security_event'', extract_field_value ev ''security.is_security_event''),
       (''canonical_ues'', ev)])"

definition opensearch_send :: "world \<Rightarrow> opensearch sender" where
  "opensearch_send w c event =
     (if \<not> os_healthy c then
        (c, Some (ConnectionError (''OpenSearch connector '' @ quoted (os_name c) @ '' is in an unhealthy state'')))
      else
        let event_id = event_id_of event in
        if \<not> py_truthy event_id then
          (c, Some (ValueError ''Event is missing required event.id for OpenSearch indexing''))
        else
          let doc = sanitize_for_indexing event in
          if os_mock c then (c\<lparr>mock_storage := dict_set (py_str event_id) doc (mock_storage c)\<rparr>, None)
          else
            let index_name = os_index_prefix c @ ''-v1'';
                url = os_host c @ ''/'' @ index_name @ ''/_doc/'' @ py_str event_id
            in case http_put w url (get_auth c) (PDict doc) of
                 Inl e \<Rightarrow> (c, Some e)
               | Inr (status, text) \<Rightarrow>
                   if status \<in> {401, 403} then
                     (c, Some (PermissionError (''OpenSearch authentication failed: HTTP '' @ nat_str status)))
                   else if status \<notin> {200, 201} then
                     (c, Some (RuntimeError (''OpenSearch indexing failed HTTP '' @ nat_str status @ '': '' @ text)))
                   else (c, None))"

definition get_mock_document :: "opensearch \<Rightarrow> string \<Rightarrow> pydict option" where
  "get_mock_document c event_id = map_of (mock_storage c) event_id"

text \<open>\<open>health\<close>: the status code of the cluster endpoint, or \<open>None\<close> when the request raises.\<close>

definition opensearch_health :: "nat option \<Rightarrow> opensearch \<Rightarrow> bool" where
  "opensearch_health answer c = (if os_mock c then os_healthy c else answer = Some 200)"

subsection \<open>Kafka\<close>

record kafka =
  k_name :: string
  k_topic :: string
  k_mock :: bool
  mock_topics :: "(string, pydict list) dict"
  k_healthy :: bool

definition kafka_send_event :: "world \<Rightarrow> kafka sender" where
  "kafka_send_event w c event =
     (if \<not> k_healthy c then
        (c, Some (ConnectionError (''Kafka connector '' @ quoted (k_name c) @ '' is in an unhealthy state'')))
      else
        let event_id = event_id_of event in
        if k_mock c then
          (let topics = (if dict_has (k_topic c) (mock_topics c) then mock_topics c
                         else dict_set (k_topic c) [] (mock_topics c));
               old = (case map_of topics (k_topic c) of None \<Rightarrow> [] | Some es \<Rightarrow> es)
           in (c\<lparr>mock_topics := dict_set (k_topic c) (old @ [event]) topics\<rparr>, None))
        else
          let payload = json_dumps default_opts (PDict event);
              key = (if py_truthy event_id then Some (py_str event_id) else None)
          in (c, kafka_send w (k_topic c) payload key))"

definition get_mock_events :: "kafka \<Rightarrow> string option \<Rightarrow> pydict list" where
  "get_mock_events c topic =
     (let t = (case topic of Some (x # xs) \<Rightarrow> x # xs | _ \<Rightarrow> k_topic c)
      in case map_of (mock_topics c) t of None \<Rightarrow> [] | Some es \<Rightarrow> es)"

subsection \<open>HTTP webhook\<close>

record webhook =
  h_name :: string
  h_url :: string
  h_mock :: bool
  sent_events :: "pydict list"
  h_healthy :: bool

definition webhook_send :: "world \<Rightarrow> webhook sender" where
  "webhook_send w c event =
     (if \<not> h_healthy c then
        (c, Some (ConnectionError (''HTTP connector '' @ quoted (h_name c) @ '' is in an unhealthy state'')))
      else
        let event_id = event_id_of event in
        if h_mock c then (c\<lparr>sent_events := sent_events c @ [event]\<rparr>, None)
        else
          let tenant_id = por (por (extract_field_value (PDict event) ''tenant.id'') (pget event ''tenant_id'')) (PStr []);
              headers = [(''Content-Type'', ''application/json''), (''X-ULPF-Event-ID'', py_str event_id),
                         (''X-Tenant-ID'', py_str tenant_id)]
          in case http_post w (h_url c) (PDict event) headers of
               Inl e \<Rightarrow> (c, Some e)
             | Inr (status, text) \<Rightarrow>
                 if status \<notin> {200, 201, 202, 204} then
                   (c, Some (RuntimeError (''HTTP POST delivery failed ('' @ nat_str status @ ''): '' @ text)))
                 else (c, None))"

subsection \<open>Filesystem and data lake\<close>

record filesystem =
  fs_name :: string
  fs_base_dir :: string
  fs_files :: "(string, string) dict"
  fs_healthy :: bool

definition partition_file :: "string \<Rightarrow> string \<Rightarrow> string \<Rightarrow> string" where
  "partition_file base date tenant =
     path_join (path_join (path_join base (''date='' @ date)) (''tenant='' @ tenant)) ''events.jsonl''"

definition filesystem_send :: "world \<Rightarrow> filesystem sender" where
  "filesystem_send w c event =
     (if \<not> fs_healthy c then
        (c, Some (ConnectionError (''Filesystem connector '' @ quoted (fs_name c) @ '' is in an unhealthy state'')))
      else
        let file_path = partition_file (fs_base_dir c) (today w) (py_str (tenant_of event));
            line = json_dumps default_opts (PDict event) @ [CHR 0x0A];
            old = (case map_of (fs_files c) file_path of None \<Rightarrow> [] | Some t \<Rightarrow> t)
        in case file_error w of
             Some e \<Rightarrow> (c, Some e)
           | None \<Rightarrow> (c\<lparr>fs_files := dict_set file_path (old @ line) (fs_files c)\<rparr>, None))"

record iceberg =
  table_name :: string
  committed_count :: nat

definition commit_record :: "iceberg \<Rightarrow> iceberg" where
  "commit_record i = i\<lparr>committed_count := committed_count i + 1\<rparr>"

record datalake =
  dl_name :: string
  dl_mock :: bool
  dl_bucket :: string
  fs_fallback :: filesystem
  iceberg_catalog :: iceberg
  max_processed_cache :: nat
  processed_event_ids :: "string set"
  processed_order :: "string list"
  dl_healthy :: bool

definition remember :: "datalake \<Rightarrow> string \<Rightarrow> datalake \<times> exn option" where
  "remember c event_id =
     (let add = (\<lambda>c. c\<lparr>processed_event_ids := insert event_id (processed_event_ids c),
                       processed_order := processed_order c @ [event_id]\<rparr>)
      in if max_processed_cache c \<le> card (processed_event_ids c) then
           (case processed_order c of
              [] \<Rightarrow> (c, Some IndexError)
            | oldest # rest \<Rightarrow>
                (add (c\<lparr>processed_event_ids := processed_event_ids c - {oldest}, processed_order := rest\<rparr>), None))
         else (add c, None))"

definition datalake_send :: "world \<Rightarrow> datalake sender" where
  "datalake_send w c event =
     (if \<not> dl_healthy c then
        (c, Some (ConnectionError (''Data Lake connector '' @ quoted (dl_name c) @ '' is in an unhealthy state'')))
      else
        let event_id = py_str (event_id_of event) in
        if event_id \<in> processed_event_ids c then (c, None)
        else
          case filesystem_send w (fs_fallback c) event of
            (fs, Some e) \<Rightarrow> (c\<lparr>fs_fallback := fs\<rparr>, Some e)
          | (fs, None) \<Rightarrow>
              remember (c\<lparr>fs_fallback := fs, iceberg_catalog := commit_record (iceberg_catalog c)\<rparr>) event_id)"

subsection \<open>The pool\<close>

datatype connector = OpenSearch opensearch | Kafka kafka | Webhook webhook | DataLake datalake | Filesystem filesystem

fun connector_send :: "world \<Rightarrow> connector sender" where
  "connector_send w (OpenSearch c) event = (case opensearch_send w c event of (c', r) \<Rightarrow> (OpenSearch c', r))"
| "connector_send w (Kafka c) event = (case kafka_send_event w c event of (c', r) \<Rightarrow> (Kafka c', r))"
| "connector_send w (Webhook c) event = (case webhook_send w c event of (c', r) \<Rightarrow> (Webhook c', r))"
| "connector_send w (DataLake c) event = (case datalake_send w c event of (c', r) \<Rightarrow> (DataLake c', r))"
| "connector_send w (Filesystem c) event = (case filesystem_send w c event of (c', r) \<Rightarrow> (Filesystem c', r))"

fun connector_name :: "connector \<Rightarrow> string" where
  "connector_name (OpenSearch c) = os_name c"
| "connector_name (Kafka c) = k_name c"
| "connector_name (Webhook c) = h_name c"
| "connector_name (DataLake c) = dl_name c"
| "connector_name (Filesystem c) = fs_name c"

subsection \<open>Sinks that tolerate redelivery\<close>

text \<open>
  The retry engine and its callers deliver at least once. A sink whose successful send, repeated,
  succeeds again and changes nothing stores each event once.
\<close>

fun send_times :: "'c sender \<Rightarrow> nat \<Rightarrow> 'c \<Rightarrow> pydict \<Rightarrow> 'c" where
  "send_times send 0 c event = c"
| "send_times send (Suc n) c event = send_times send n (fst (send c event)) event"

locale idempotent_sink =
  fixes send :: "'c sender" and content :: "'c \<Rightarrow> 'd" and ready :: "'c \<Rightarrow> bool"
  assumes send_ready: "ready c \<Longrightarrow> send c event = (c', r) \<Longrightarrow> ready c'"
    and resend: "ready c \<Longrightarrow> send c event = (c', None) \<Longrightarrow>
      \<exists>c''. send c' event = (c'', None) \<and> content c'' = content c'"
    and send_content: "ready c \<Longrightarrow> ready d \<Longrightarrow> content c = content d \<Longrightarrow>
      content (fst (send c event)) = content (fst (send d event)) \<and> snd (send c event) = snd (send d event)"
begin

lemma send_times_once:
  assumes "ready c" and "send c event = (c', None)"
  shows "content (send_times send (Suc n) c event) = content c'"
proof -
  have "content (send_times send n d event) = content c'"
    if "content d = content c'" and "ready d" for d
    using that
  proof (induction n arbitrary: d)
    case (Suc n)
    obtain c'' where again: "send c' event = (c'', None)" "content c'' = content c'"
      using resend [OF assms] by blast
    have "ready c'" using send_ready [OF assms] .
    then have "content (fst (send d event)) = content c'"
      using send_content [of d c' event] Suc.prems again by simp
    moreover have "ready (fst (send d event))" using send_ready Suc.prems(2) by (metis surjective_pairing)
    ultimately show ?case using Suc.IH by simp
  qed simp
  from this [OF refl send_ready [OF assms]] show ?thesis using assms(2) by simp
qed

end

definition os_ready :: "opensearch \<Rightarrow> bool" where
  "os_ready c \<longleftrightarrow> os_mock c \<and> os_healthy c"

interpretation os_sink: idempotent_sink "opensearch_send w" mock_storage os_ready for w
proof unfold_locales
  fix c c' :: opensearch and event r
  assume a: "os_ready c" "opensearch_send w c event = (c', r)"
  show "os_ready c'" using a by (auto simp: os_ready_def opensearch_send_def Let_def split: if_splits)
next
  fix c c' :: opensearch and event
  assume a: "os_ready c" "opensearch_send w c event = (c', None)"
  have upd: "AList.update k v (AList.update k v d) = AList.update k v d" for k :: string and v :: pydict and d
    by (induction d) auto
  show "\<exists>c''. opensearch_send w c' event = (c'', None) \<and> mock_storage c'' = mock_storage c'"
    using a by (auto simp: os_ready_def opensearch_send_def Let_def upd split: if_splits)
next
  fix c d :: opensearch and event
  assume "os_ready c" "os_ready d" "mock_storage c = mock_storage d"
  then show "mock_storage (fst (opensearch_send w c event)) = mock_storage (fst (opensearch_send w d event)) \<and>
      snd (opensearch_send w c event) = snd (opensearch_send w d event)"
    by (simp add: os_ready_def opensearch_send_def Let_def)
qed

subsection \<open>The cache of the data lake writer\<close>

definition cache_ok :: "datalake \<Rightarrow> bool" where
  "cache_ok c \<longleftrightarrow> distinct (processed_order c) \<and> processed_event_ids c = set (processed_order c) \<and>
     length (processed_order c) \<le> max_processed_cache c \<and> 0 < max_processed_cache c"

lemma remember_ok:
  assumes "cache_ok c" and "e \<notin> processed_event_ids c"
  shows "\<exists>c'. remember c e = (c', None) \<and> cache_ok c' \<and> e \<in> processed_event_ids c' \<and>
    fs_fallback c' = fs_fallback c \<and> dl_healthy c' = dl_healthy c \<and> iceberg_catalog c' = iceberg_catalog c \<and>
    max_processed_cache c' = max_processed_cache c"
proof (cases "max_processed_cache c \<le> card (processed_event_ids c)")
  case False
  then show ?thesis using assms by (auto simp: remember_def cache_ok_def distinct_card)
next
  case True
  then obtain x xs where o: "processed_order c = x # xs"
    using assms(1) by (cases "processed_order c") (auto simp: cache_ok_def)
  then show ?thesis using assms True by (auto simp: remember_def cache_ok_def)
qed

lemma datalake_send_cases:
  assumes "cache_ok c"
  shows "\<exists>c' r. datalake_send w c event = (c', r) \<and> cache_ok c' \<and> dl_healthy c' = dl_healthy c \<and>
     (r = None \<longrightarrow> py_str (event_id_of event) \<in> processed_event_ids c' \<and>
        fs_fallback c' = (if py_str (event_id_of event) \<in> processed_event_ids c then fs_fallback c
          else fst (filesystem_send w (fs_fallback c) event)))"
proof (cases "dl_healthy c \<and> py_str (event_id_of event) \<notin> processed_event_ids c")
  case False
  then show ?thesis using assms by (auto simp: datalake_send_def)
next
  case True
  obtain fs r where fs: "filesystem_send w (fs_fallback c) event = (fs, r)" by (metis surj_pair)
  show ?thesis
  proof (cases r)
    case None
    let ?c = "c\<lparr>fs_fallback := fs, iceberg_catalog := commit_record (iceberg_catalog c)\<rparr>"
    have "cache_ok ?c" "py_str (event_id_of event) \<notin> processed_event_ids ?c"
      using assms True by (simp_all add: cache_ok_def)
    from remember_ok [OF this] show ?thesis using True fs None
      by (auto simp: datalake_send_def Let_def)
  next
    case (Some e)
    then show ?thesis using assms True fs by (auto simp: datalake_send_def Let_def cache_ok_def)
  qed
qed

definition dl_ready :: "datalake \<Rightarrow> bool" where
  "dl_ready c \<longleftrightarrow> cache_ok c \<and> dl_healthy c"

interpretation dl_sink: idempotent_sink "datalake_send w" "\<lambda>c. c" dl_ready for w
proof unfold_locales
  fix c c' :: datalake and event r
  assume "dl_ready c" "datalake_send w c event = (c', r)"
  then show "dl_ready c'" using datalake_send_cases [of c w event] by (auto simp: dl_ready_def)
next
  fix c c' :: datalake and event
  assume "dl_ready c" "datalake_send w c event = (c', None)"
  then show "\<exists>c''. datalake_send w c' event = (c'', None) \<and> c'' = c'"
    using datalake_send_cases [of c w event] by (auto simp: dl_ready_def datalake_send_def)
qed simp

subsection \<open>Partitions\<close>

lemma partition_file_eq:
  assumes "base \<noteq> []" and "last base \<noteq> CHR ''/''" and "CHR ''/'' \<notin> set date" and "CHR ''/'' \<notin> set tenant"
  shows "partition_file base date tenant = base @ ''/date='' @ date @ ''/tenant='' @ tenant @ ''/events.jsonl''"
proof -
  have "last (base @ ''/date='' @ date) \<noteq> CHR ''/''"
    using assms(3) by (cases date rule: rev_cases) auto
  moreover have "last (base @ ''/date='' @ date @ ''/tenant='' @ tenant) \<noteq> CHR ''/''"
    using assms(4) by (cases tenant rule: rev_cases) auto
  ultimately show ?thesis
    using assms(1,2) by (simp add: partition_file_def path_join_def starts_with_def)
qed

subsection \<open>Properties\<close>

text \<open>A data lake writer with a full cache of two, and a world in which everything succeeds.\<close>

definition example_lake :: datalake where
  "example_lake = \<lparr> dl_name = ''data_lake'', dl_mock = True, dl_bucket = ''ulpf-datalake'',
     fs_fallback = \<lparr> fs_name = ''data_lake_fs_backup'', fs_base_dir = ''./data'', fs_files = [], fs_healthy = True \<rparr>,
     iceberg_catalog = \<lparr> table_name = ''ulpf_events_v1'', committed_count = 0 \<rparr>,
     max_processed_cache = 2, processed_event_ids = {''a'', ''b''}, processed_order = [''a'', ''b''], dl_healthy = True \<rparr>"

definition example_world :: world where
  "example_world = \<lparr> http_put = (\<lambda>_ _ _. Inr (200, [])), http_post = (\<lambda>_ _ _. Inr (200, [])),
     kafka_send = (\<lambda>_ _ _. None), file_error = None, today = ''2026-01-01'' \<rparr>"

text \<open>Redelivery to the SIEM store is idempotent: sending an event any positive number of times
  stores what sending it once stores, one document under the event's identifier.\<close>

theorem opensearch_idempotent:
  assumes "os_ready c" and "py_truthy (event_id_of event)"
  shows "mock_storage (send_times (opensearch_send w) (Suc n) c event) =
     dict_set (py_str (event_id_of event)) (sanitize_for_indexing event) (mock_storage c)"
proof -
  have "opensearch_send w c event =
      (c\<lparr>mock_storage := dict_set (py_str (event_id_of event)) (sanitize_for_indexing event) (mock_storage c)\<rparr>, None)"
    using assms by (simp add: opensearch_send_def os_ready_def Let_def)
  from os_sink.send_times_once [OF assms(1) this] show ?thesis by simp
qed

theorem opensearch_idempotent_witness:
  "mock_storage (send_times (opensearch_send example_world) (Suc 4)
     \<lparr>os_name = ''siem'', os_host = [], os_index_prefix = [], os_user = None, os_password = None, os_mock = True,
       mock_storage = [], os_healthy = True\<rparr> [(''id'', PStr ''e1'')]) =
   [(''e1'', sanitize_for_indexing [(''id'', PStr ''e1'')])]"
  using opensearch_idempotent [of "\<lparr>os_name = ''siem'', os_host = [], os_index_prefix = [], os_user = None,
      os_password = None, os_mock = True, mock_storage = [], os_healthy = True\<rparr>" "[(''id'', PStr ''e1'')]" example_world 4]
  by (simp add: os_ready_def event_id_of_def extract_field_value_def pget_def)

text \<open>The data lake writer keeps its bounded cache consistent (the set is the set of the list, without
  repetitions, at most \<open>max_processed_cache\<close> entries) through every send, and a second send of an event
  it remembers writes nothing.\<close>

theorem datalake_cache_invariant:
  assumes "cache_ok c" and "datalake_send w c event = (c', r)"
  shows "cache_ok c' \<and>
    (r = None \<longrightarrow> py_str (event_id_of event) \<in> processed_event_ids c' \<and>
       fs_fallback (fst (datalake_send w c' event)) = fs_fallback c')"
  using datalake_send_cases [OF assms(1), of w event] assms(2) datalake_send_cases [of c' w event]
  by (auto simp: datalake_send_def)

theorem datalake_cache_invariant_witness:
  "cache_ok (fst (datalake_send example_world example_lake [(''id'', PStr ''e1'')])) \<and>
   processed_order (fst (datalake_send example_world example_lake [(''id'', PStr ''e1'')])) = [''b'', ''e1'']"
  using datalake_cache_invariant [of example_lake example_world "[(''id'', PStr ''e1'')]"
      "fst (datalake_send example_world example_lake [(''id'', PStr ''e1'')])"
      "snd (datalake_send example_world example_lake [(''id'', PStr ''e1'')])"]
  by (simp add: cache_ok_def example_lake_def example_world_def datalake_send_def filesystem_send_def remember_def
      event_id_of_def extract_field_value_def pget_def Let_def)

text \<open>Partition isolation: writing an event of one tenant leaves the partition file of every other
  tenant as it was, for tenant identifiers without a slash.\<close>

theorem filesystem_partition_isolation:
  assumes "filesystem_send w c event = (c', r)"
    and "fs_base_dir c \<noteq> []" and "last (fs_base_dir c) \<noteq> CHR ''/''" and "CHR ''/'' \<notin> set (today w)"
    and "CHR ''/'' \<notin> set (py_str (tenant_of event))" and "CHR ''/'' \<notin> set tenant"
    and "tenant \<noteq> py_str (tenant_of event)"
  shows "map_of (fs_files c') (partition_file (fs_base_dir c) (today w) tenant) =
         map_of (fs_files c) (partition_file (fs_base_dir c) (today w) tenant)"
proof -
  have "partition_file (fs_base_dir c) (today w) tenant \<noteq>
        partition_file (fs_base_dir c) (today w) (py_str (tenant_of event))"
    using assms(2-7) by (simp add: partition_file_eq)
  then show ?thesis using assms(1)
    by (auto simp: filesystem_send_def Let_def split: if_splits option.splits)
qed

theorem filesystem_partition_isolation_witness:
  "map_of (fs_files (fst (filesystem_send example_world (fs_fallback example_lake) [(''tenant_id'', PStr ''acme'')])))
     (partition_file ''./data'' ''2026-01-01'' ''other'') = None"
  using filesystem_partition_isolation [of example_world "fs_fallback example_lake" "[(''tenant_id'', PStr ''acme'')]"
      "fst (filesystem_send example_world (fs_fallback example_lake) [(''tenant_id'', PStr ''acme'')])"
      "snd (filesystem_send example_world (fs_fallback example_lake) [(''tenant_id'', PStr ''acme'')])" "''other''"]
  by (simp add: example_lake_def example_world_def tenant_of_def extract_field_value_def pget_def)

end
