(* ===== verification/M5_Policy.thy ===== *)
theory M5_Policy
  imports M5_Router
begin

section \<open>M5: policy loader and policy engine\<close>

text \<open>
  \<open>M5/app/policy/loader.py\<close>, \<open>M5/app/policy/engine.py\<close> and the constructor of \<open>PolicyRule\<close> in
  \<open>M5/app/router/rules.py\<close>. The validation of the pydantic base class is the parameter \<open>mk\<close>: it takes
  the keyword arguments that \<open>PolicyRule.__init__\<close> hands on and returns the rule or raises. The
  policy file is a parameter too: \<open>None\<close> when the path does not exist, otherwise what
  \<open>yaml.safe_load\<close> returns or raises. Raw data are YAML values, so the branches for items that are
  already \<open>PolicyRule\<close> objects do not arise.
\<close>

type_synonym rule_init = "pydict \<Rightarrow> policy_rule result"
type_synonym policy_file = "pyval result option"

subsection \<open>Constructor\<close>

definition rule_init_data :: "pydict \<Rightarrow> pydict" where
  "rule_init_data d0 =
     (let d1 = (if dict_has ''policy_id'' d0 \<and> \<not> dict_has ''id'' d0
                then dict_set ''id'' (pget d0 ''policy_id'') d0
                else if \<not> dict_has ''id'' d0 \<and> \<not> dict_has ''policy_id'' d0
                then dict_set ''id'' (PStr ''policy_unnamed'') d0 else d0);
          d2 = (if dict_has ''conditions'' d1 \<and> \<not> dict_has ''when'' d1
                then dict_set ''when'' (pget d1 ''conditions'') d1 else d1)
      in if is_list (pget d2 ''when'') then dict_set ''when'' (PDict [(''all'', pget d2 ''when'')]) d2 else d2)"

definition PolicyRule :: "rule_init \<Rightarrow> pydict \<Rightarrow> policy_rule result" where
  "PolicyRule mk data = mk (rule_init_data data)"

subsection \<open>Loader\<close>

text \<open>
  \<open>for item in items\<close> over a YAML value: a list gives its items, a string or a dictionary gives strings,
  anything else is not iterable.
\<close>

fun py_iter :: "pyval \<Rightarrow> pyval list result" where
  "py_iter (PList xs) = Inr xs"
| "py_iter (PStr s) = Inr (map (\<lambda>c. PStr [c]) s)"
| "py_iter (PDict d) = Inr (map (\<lambda>(k, _). PStr k) d)"
| "py_iter _ = Inl (TypeError ''object is not iterable'')"

fun load_rules_from :: "rule_init \<Rightarrow> (policy_rule \<Rightarrow> policy_rule) \<Rightarrow> pyval list \<Rightarrow> policy_rule list" where
  "load_rules_from mk f [] = []"
| "load_rules_from mk f (item # items) =
     (case item of
        PDict d \<Rightarrow>
          (case PolicyRule mk d of
             Inr r \<Rightarrow> f r # load_rules_from mk f items
           | Inl _ \<Rightarrow> load_rules_from mk f items)
      | _ \<Rightarrow> load_rules_from mk f items)"

definition with_tenant :: "pyval \<Rightarrow> policy_rule \<Rightarrow> policy_rule" where
  "with_tenant t_id r = (if py_truthy (rule_tenant r) then r else r\<lparr>rule_tenant := t_id\<rparr>)"

fun load_overrides :: "rule_init \<Rightarrow> pyval list \<Rightarrow> policy_rule list result" where
  "load_overrides mk [] = Inr []"
| "load_overrides mk (tenant_override # rest) =
     (case tenant_override of
        PDict d \<Rightarrow>
          rbind (py_iter (por (pget d ''policies'') (PList []))) (\<lambda>t_rules.
          rbind (load_overrides mk rest) (\<lambda>rules.
            Inr (load_rules_from mk (with_tenant (pget d ''tenant_id'')) t_rules @ rules)))
      | _ \<Rightarrow> load_overrides mk rest)"

definition load_from_dict :: "rule_init \<Rightarrow> pyval \<Rightarrow> policy_rule list result" where
  "load_from_dict mk raw_data =
     (case raw_data of
        PList items \<Rightarrow> Inr (load_rules_from mk id items)
      | PDict d \<Rightarrow>
          rbind (py_iter (por (por (pget d ''policies'') (pget d ''rules'')) (PList []))) (\<lambda>policy_list.
          rbind (py_iter (por (pget d ''tenant_policies'') (PList []))) (\<lambda>tenant_policies.
          rbind (load_overrides mk tenant_policies) (\<lambda>overrides.
            Inr (load_rules_from mk id policy_list @ overrides))))
      | _ \<Rightarrow> Inr [])"

definition load_from_file :: "rule_init \<Rightarrow> policy_file \<Rightarrow> policy_rule list result" where
  "load_from_file mk file =
     (case file of
        None \<Rightarrow> Inl (OtherError ''FileNotFoundError'' ''Policy file not found'')
      | Some raw \<Rightarrow> rbind raw (load_from_dict mk))"

subsection \<open>Engine\<close>

record policy_engine =
  policy_file_path :: "string option"
  router_rules :: "policy_rule list"

definition load_rules :: "policy_engine \<Rightarrow> policy_rule list \<Rightarrow> policy_engine" where
  "load_rules eng rules = eng\<lparr>router_rules := set_rules rules\<rparr>"

definition fallback_data :: pydict where
  "fallback_data = [(''id'', PStr ''default_fallback_policy''), (''priority'', PInt 1),
     (''destinations'', PList [PStr ''siem'', PStr ''data_lake''])]"

definition reload_policies :: "rule_init \<Rightarrow> policy_file \<Rightarrow> policy_engine \<Rightarrow>
    (policy_engine \<times> policy_rule list) result" where
  "reload_policies mk file eng =
     (case policy_file_path eng of
        None \<Rightarrow> Inl (ValueError ''No policy file path specified for reload'')
      | Some [] \<Rightarrow> Inl (ValueError ''No policy file path specified for reload'')
      | Some (_ # _) \<Rightarrow>
          if file = None then
            rbind (PolicyRule mk fallback_data) (\<lambda>fallback_rule.
              Inr (load_rules eng [fallback_rule], [fallback_rule]))
          else rbind (load_from_file mk file) (\<lambda>rules. Inr (load_rules eng rules, rules)))"

definition engine_init :: "rule_init \<Rightarrow> policy_file \<Rightarrow> string option \<Rightarrow> policy_engine result" where
  "engine_init mk file path =
     (let eng = \<lparr>policy_file_path = path, router_rules = []\<rparr>
      in if path = None \<or> path = Some [] then Inr eng
         else rbind (reload_policies mk file eng) (\<lambda>(eng', _). Inr eng'))"

definition engine_evaluate :: "re_engine \<Rightarrow> policy_engine \<Rightarrow> pydict \<Rightarrow> string \<Rightarrow>
    (string list \<times> routing_decision) result" where
  "engine_evaluate re eng event now = route re (router_rules eng) event now"

definition list_policies :: "policy_engine \<Rightarrow> policy_rule list" where
  "list_policies eng = router_rules eng"

subsection \<open>Loader facts\<close>

text \<open>The rules a list of raw items stands for: the items that are dictionaries and validate.\<close>

definition valid_rule :: "rule_init \<Rightarrow> pyval \<Rightarrow> policy_rule option" where
  "valid_rule mk item =
     (case item of PDict d \<Rightarrow> (case PolicyRule mk d of Inr r \<Rightarrow> Some r | Inl _ \<Rightarrow> None) | _ \<Rightarrow> None)"

lemma load_rules_from_eq: "load_rules_from mk f items = map f (List.map_filter (valid_rule mk) items)"
  by (induction items)
     (auto simp: valid_rule_def map_filter_simps split: pyval.splits sum.splits)

lemma load_rules_from_append:
  "load_rules_from mk f (xs @ ys) = load_rules_from mk f xs @ load_rules_from mk f ys"
  by (induction xs) (auto split: pyval.splits sum.splits)

lemma with_tenant_truthy: "py_truthy t \<Longrightarrow> py_truthy (rule_tenant (with_tenant t r))"
  by (simp add: with_tenant_def)

definition override_tenant_ok :: "pyval \<Rightarrow> bool" where
  "override_tenant_ok v = (case v of PDict d \<Rightarrow> py_truthy (pget d ''tenant_id'') | _ \<Rightarrow> True)"

lemma load_overrides_bound:
  "load_overrides mk os = Inr rules \<Longrightarrow> \<forall>v \<in> set os. override_tenant_ok v \<Longrightarrow> r \<in> set rules \<Longrightarrow>
   py_truthy (rule_tenant r)"
proof (induction os arbitrary: rules)
  case (Cons v os)
  show ?case
  proof (cases v)
    case (PDict d)
    then have t: "py_truthy (pget d ''tenant_id'')" using Cons.prems(2) by (simp add: override_tenant_ok_def)
    from Cons.prems(1) PDict obtain ts rs where
      rs: "load_overrides mk os = Inr rs"
      "rules = load_rules_from mk (with_tenant (pget d ''tenant_id'')) ts @ rs" by auto
    then show ?thesis using Cons.IH [OF rs(1)] Cons.prems with_tenant_truthy [OF t]
      by (auto simp: load_rules_from_eq)
  qed (use Cons in auto)
qed simp

lemma tenant_skips_bound: "py_truthy (rule_tenant r) \<Longrightarrow> \<not> tenant_skips r t \<Longrightarrow> rule_tenant r = opt_str t"
  by (simp add: tenant_skips_def py_eq_opt_str)

subsection \<open>Properties\<close>

text \<open>A policy list is loaded rule by rule: an item that is no dictionary or does not validate is
  skipped, and changes nothing about the items before and after it.\<close>

theorem load_skips_invalid:
  "load_from_dict mk (PList items) = Inr (List.map_filter (valid_rule mk) items) \<and>
   (valid_rule mk item = None \<longrightarrow>
     load_from_dict mk (PList (xs @ item # ys)) = load_from_dict mk (PList (xs @ ys)))"
  by (simp add: load_from_dict_def load_rules_from_eq List.map_filter_def)

theorem load_skips_invalid_witness:
  "load_from_dict (\<lambda>d. Inr (example_rule ''r'' ''t'' ''siem'')) (PList ([PDict []] @ PInt 3 # [])) =
   load_from_dict (\<lambda>d. Inr (example_rule ''r'' ''t'' ''siem'')) (PList ([PDict []] @ []))"
  using load_skips_invalid [of "\<lambda>d. Inr (example_rule ''r'' ''t'' ''siem'')" "[]" "PInt 3" "[PDict []]" "[]"]
  by (simp add: valid_rule_def)

text \<open>Tenant policies stay with their tenant: when a policy document has only tenant overrides and
  each of them names its tenant, the loaded engine routes an event of tenant \<open>t\<close> by rules of tenant \<open>t\<close>
  alone.\<close>

theorem tenant_policies_bound:
  assumes "load_from_dict mk (PDict d) = Inr rules"
    and "\<not> py_truthy (pget d ''policies'')" and "\<not> py_truthy (pget d ''rules'')"
    and "pget d ''tenant_policies'' = PList os" and "\<forall>v \<in> set os. override_tenant_ok v"
    and "engine_evaluate re (load_rules eng rules) event now = Inr (ds, dec)" and "dest \<in> set ds"
  shows "\<exists>r \<in> set rules. dest \<in> set (destinations r) \<and> extract_tenant_id event \<noteq> None \<and>
           rule_tenant r = opt_str (extract_tenant_id event)"
proof -
  have "load_overrides mk os = Inr rules"
    using assms(1-4) by (auto simp: load_from_dict_def por_def split: if_splits)
  then have truthy: "\<And>r. r \<in> set rules \<Longrightarrow> py_truthy (rule_tenant r)"
    using load_overrides_bound assms(5) by blast
  have rt: "route re (set_rules rules) event now = Inr (ds, dec)"
    using assms(6) by (simp add: engine_evaluate_def load_rules_def)
  from route_spec(1) [OF rt] assms(7) obtain r where r: "r \<in> set rules" "applies re event r" "dest \<in> set (destinations r)"
    by (auto simp: set_rules_def)
  then have "rule_tenant r = opt_str (extract_tenant_id event)"
    using truthy tenant_skips_bound by (auto simp: applies_def)
  moreover from this truthy [OF r(1)] have "extract_tenant_id event \<noteq> None"
    by (auto simp: opt_str_def split: option.splits)
  ultimately show ?thesis using r by blast
qed

definition example_mk :: rule_init where
  "example_mk d = Inr \<lparr> rule_id = ''r'', priority = 1, enabled = True, description = None,
     rule_tenant = PNone, rule_when = None, destinations = [''siem''] \<rparr>"

theorem tenant_policies_bound_witness:
  "extract_tenant_id [(''tenant_id'', PStr ''t'')] \<noteq> None"
proof -
  let ?os = "[PDict [(''tenant_id'', PStr ''t''), (''policies'', PList [PDict []])]]"
  let ?r = "\<lparr> rule_id = ''r'', priority = 1, enabled = True, description = None,
     rule_tenant = PStr ''t'', rule_when = None, destinations = [''siem''] \<rparr>"
  have load: "load_from_dict example_mk (PDict [(''tenant_policies'', PList ?os)]) = Inr [?r]"
    by (simp add: load_from_dict_def pget_def PolicyRule_def example_mk_def with_tenant_def)
  have run: "engine_evaluate (\<lambda>_ _. None) (load_rules \<lparr>policy_file_path = None, router_rules = []\<rparr> [?r])
      [(''tenant_id'', PStr ''t'')] ''now'' = Inr ([''siem''],
      \<lparr> decision_event_id = ''unknown_event_id'', matched_policies = [''r''], decision_destinations = [''siem''],
        evaluated_at = ''now'', decision_tenant = Some ''t'', delivery_status = None \<rparr>)"
    by (simp add: engine_evaluate_def load_rules_def set_rules_def route_def tenant_skips_def rule_matches_def
        extract_tenant_id_def extract_event_id_def extract_field_value_def opt_str_def pget_def Let_def)
  from tenant_policies_bound [OF load _ _ _ _ run, of ?os "''siem''"] show ?thesis
    by (auto simp: pget_def override_tenant_ok_def)
qed

end
