(* ===== verification/M5_Api.thy ===== *)
theory M5_Api
  imports M5_Connectors M5_Policy
begin

section \<open>M5: authentication, event queries and policy endpoints\<close>

text \<open>
  \<open>M5/app/api/auth.py\<close>, \<open>events.py\<close> and \<open>search.py\<close>. The key registry maps a token to the tenant and the
  admin flag of its owner; \<open>env_keys\<close> is what the variable \<open>M5_API_KEYS\<close> parses to, \<open>None\<close> when it is
  unset or does not parse. The store behind the query endpoints is the mock storage of the OpenSearch
  connector, as in the code; \<open>None\<close> is the uninitialised connector.
\<close>

subsection \<open>Authentication\<close>

record tenant_context =
  ctx_tenant :: string
  ctx_admin :: bool
  ctx_authenticated :: bool

record client_info =
  ci_tenant :: string
  ci_admin :: bool

definition client :: "string \<Rightarrow> bool \<Rightarrow> client_info" where
  "client t a = \<lparr> ci_tenant = t, ci_admin = a \<rparr>"

definition DEFAULT_KEY_REGISTRY :: "(string, client_info) dict" where
  "DEFAULT_KEY_REGISTRY =
     [(''admin-key-secret'', client ''admin'' True),
      (''alpha-key-secret'', client ''tenant_alpha'' False),
      (''beta-key-secret'', client ''tenant_beta'' False),
      (''gamma-key-secret'', client ''tenant_gamma'' False),
      (''default-key-secret'', client ''default_tenant'' False),
      (''tenant-0-key'', client ''tenant_0'' False),
      (''tenant-1-key'', client ''tenant_1'' False),
      (''tenant-2-key'', client ''tenant_2'' False),
      (''tenant-3-key'', client ''tenant_3'' False)]"

definition get_key_registry :: "(string, client_info) dict option \<Rightarrow> (string, client_info) dict" where
  "get_key_registry env_keys =
     (case env_keys of None \<Rightarrow> DEFAULT_KEY_REGISTRY | Some parsed \<Rightarrow> dict_update DEFAULT_KEY_REGISTRY parsed)"

record request_headers =
  authorization :: "string option"
  x_api_key :: "string option"
  x_tenant_id :: "string option"

definition nonempty :: "string option \<Rightarrow> bool" where
  "nonempty s = (s \<noteq> None \<and> s \<noteq> Some [])"

definition request_token :: "request_headers \<Rightarrow> string" where
  "request_token h =
     (if nonempty (authorization h) then strip (the (authorization h))
      else if nonempty (x_api_key h) then strip (the (x_api_key h))
      else [])"

definition get_current_tenant_context :: "bool \<Rightarrow> (string, client_info) dict option \<Rightarrow> request_headers \<Rightarrow>
    tenant_context result" where
  "get_current_tenant_context allow_anonymous env_keys h =
     (let token = request_token h in
      if token = [] then
        (if allow_anonymous then
           Inr \<lparr> ctx_tenant = (if nonempty (x_tenant_id h) then the (x_tenant_id h) else ''default_tenant''),
                 ctx_admin = False, ctx_authenticated = False \<rparr>
         else Inl (HTTPException 401 ''Authentication required: Provide Authorization Bearer token or X-API-Key header''))
      else
        case map_of (get_key_registry env_keys) token of
          None \<Rightarrow> Inl (HTTPException 401 ''Invalid authentication credentials'')
        | Some info \<Rightarrow>
            let auth_tenant = ci_tenant info; is_admin = ci_admin info in
            if nonempty (x_tenant_id h) then
              (let x = the (x_tenant_id h) in
               if \<not> is_admin \<and> x \<noteq> auth_tenant then
                 Inl (HTTPException 403 (''Access denied: Authenticated tenant '' @ quoted auth_tenant @
                   '' cannot access tenant '' @ quoted x))
               else Inr \<lparr> ctx_tenant = (if is_admin then x else auth_tenant), ctx_admin = is_admin,
                          ctx_authenticated = True \<rparr>)
            else Inr \<lparr> ctx_tenant = auth_tenant, ctx_admin = is_admin, ctx_authenticated = True \<rparr>)"

definition resolve_effective_tenant :: "string option \<Rightarrow> tenant_context option \<Rightarrow> string \<times> bool" where
  "resolve_effective_tenant x_tenant context =
     (case context of
        Some ctx \<Rightarrow> (ctx_tenant ctx, ctx_admin ctx)
      | None \<Rightarrow> if nonempty x_tenant then (the x_tenant, the x_tenant = ''admin'') else (''default_tenant'', False))"

subsection \<open>Event queries\<close>

text \<open>\<open>doc.get("canonical_ues", {})\<close>, whose \<open>get\<close> the code calls next.\<close>

definition canonical_event :: "pydict \<Rightarrow> pydict result" where
  "canonical_event doc =
     (case pget_default doc ''canonical_ues'' (PDict []) of
        PDict e \<Rightarrow> Inr e
      | _ \<Rightarrow> Inl (AttributeError ''get''))"

definition event_tenant :: "pydict \<Rightarrow> string" where
  "event_tenant event = py_str (tenant_of event)"

definition may_see :: "string \<Rightarrow> bool \<Rightarrow> pydict \<Rightarrow> bool" where
  "may_see req_tenant is_admin event = (is_admin \<or> req_tenant = event_tenant event)"

definition get_event_by_id :: "opensearch option \<Rightarrow> string \<Rightarrow> string option \<Rightarrow> tenant_context option \<Rightarrow> pydict result" where
  "get_event_by_id store event_id x_tenant context =
     (case store of
        None \<Rightarrow> Inl (HTTPException 503 ''Storage connector uninitialized'')
      | Some conn \<Rightarrow>
          let (req_tenant, is_admin) = resolve_effective_tenant x_tenant context in
          case get_mock_document conn event_id of
            None \<Rightarrow> Inl (HTTPException 404 (''Event '' @ quoted event_id @ '' not found''))
          | Some [] \<Rightarrow> Inl (HTTPException 404 (''Event '' @ quoted event_id @ '' not found''))
          | Some doc \<Rightarrow>
              rbind (canonical_event doc) (\<lambda>event.
                if \<not> may_see req_tenant is_admin event then
                  Inl (HTTPException 403 ''Access denied: Tenant isolation policy violation'')
                else Inr [(''event_id'', PStr event_id), (''schema_version'', PStr ''1.0.0''),
                          (''status'', PStr ''found''), (''event'', PDict event)]))"

definition get_raw_event_ref :: "opensearch option \<Rightarrow> string \<Rightarrow> string option \<Rightarrow> tenant_context option \<Rightarrow> pydict result" where
  "get_raw_event_ref store event_id x_tenant context =
     rbind (get_event_by_id store event_id x_tenant context) (\<lambda>res.
       let event = pget res ''event'';
           raw_event_id = por (por (extract_field_value event ''raw.id'') (extract_field_value event ''raw_event_id''))
             (PStr (''raw_'' @ event_id));
           storage_ref = por (extract_field_value event ''raw.storage_ref'')
             (PStr (''s3://ulpf-raw-vault/raw/'' @ py_str raw_event_id @ ''.dat''))
       in Inr [(''event_id'', PStr event_id), (''raw_event_id'', raw_event_id), (''storage_ref'', storage_ref),
               (''status'', PStr ''found'')])"

record event_page =
  pg_total :: nat
  pg_count :: nat
  pg_limit :: nat
  pg_offset :: nat
  pg_tenant :: string
  pg_events :: "pydict list"

definition type_filter :: "string option \<Rightarrow> pydict \<Rightarrow> bool" where
  "type_filter ty event =
     (nonempty ty \<longrightarrow> py_eq (extract_field_value (PDict event) ''event.type'') (PStr (the ty)))"

definition severity_filter :: "int option \<Rightarrow> pydict \<Rightarrow> bool result" where
  "severity_filter severity event =
     (case severity of
        None \<Rightarrow> Inr True
      | Some n \<Rightarrow>
          let ev_sev = extract_field_value (PDict event) ''event.severity.value'' in
          if ev_sev = PNone then Inr False else rbind (py_int ev_sev) (\<lambda>i. Inr (i = n)))"

fun collect_events :: "string \<Rightarrow> bool \<Rightarrow> string option \<Rightarrow> int option \<Rightarrow> (string, pydict) dict \<Rightarrow> pydict list result" where
  "collect_events req_tenant is_admin ty severity [] = Inr []"
| "collect_events req_tenant is_admin ty severity ((doc_id, doc) # docs) =
     rbind (canonical_event doc) (\<lambda>event.
       if \<not> may_see req_tenant is_admin event then collect_events req_tenant is_admin ty severity docs
       else if \<not> type_filter ty event then collect_events req_tenant is_admin ty severity docs
       else rbind (severity_filter severity event) (\<lambda>ok.
         if \<not> ok then collect_events req_tenant is_admin ty severity docs
         else rbind (collect_events req_tenant is_admin ty severity docs) (\<lambda>es. Inr (event # es))))"

definition list_events :: "opensearch option \<Rightarrow> string option \<Rightarrow> int option \<Rightarrow> nat \<Rightarrow> nat \<Rightarrow> string option \<Rightarrow>
    tenant_context option \<Rightarrow> event_page result" where
  "list_events store ty severity limit offset x_tenant context =
     (case store of
        None \<Rightarrow> Inl (HTTPException 503 ''Storage connector uninitialized'')
      | Some conn \<Rightarrow>
          let (req_tenant, is_admin) = resolve_effective_tenant x_tenant context in
          rbind (collect_events req_tenant is_admin ty severity (mock_storage conn)) (\<lambda>all_matches.
            let paged_results = take limit (drop offset all_matches) in
            Inr \<lparr> pg_total = length all_matches, pg_count = length paged_results, pg_limit = limit,
                  pg_offset = offset, pg_tenant = req_tenant, pg_events = paged_results \<rparr>))"

subsection \<open>Search\<close>

record event_search_query =
  sq_event_type :: "string option"
  sq_min_severity :: "int option"
  sq_max_severity :: "int option"
  sq_is_security :: "bool option"
  sq_query_string :: "string option"
  sq_limit :: nat

definition float_filter :: "(pyfloat \<Rightarrow> pyfloat \<Rightarrow> bool) \<Rightarrow> int option \<Rightarrow> pydict \<Rightarrow> bool result" where
  "float_filter bad bound event =
     (case bound of
        None \<Rightarrow> Inr True
      | Some n \<Rightarrow>
          let sev = extract_field_value (PDict event) ''event.severity.value'' in
          if sev = PNone then Inr False
          else rbind (py_float sev) (\<lambda>x. rbind (py_float (PInt n)) (\<lambda>y. Inr (\<not> bad x y))))"

definition security_filter :: "bool option \<Rightarrow> pydict \<Rightarrow> bool" where
  "security_filter want event =
     (case want of None \<Rightarrow> True
      | Some b \<Rightarrow> py_truthy (extract_field_value (PDict event) ''security.is_security_event'') = b)"

definition search_match :: "event_search_query \<Rightarrow> pydict \<Rightarrow> bool result" where
  "search_match q event =
     (if \<not> type_filter (sq_event_type q) event then Inr False
      else rbind (float_filter float_lt (sq_min_severity q) event) (\<lambda>ok1.
        if \<not> ok1 then Inr False
        else rbind (float_filter (\<lambda>x y. float_lt y x) (sq_max_severity q) event) (\<lambda>ok2.
          Inr (ok2 \<and> security_filter (sq_is_security q) event))))"

text \<open>The loop stops once \<open>limit\<close> events are found; \<open>n\<close> is the number found so far.\<close>

fun search_loop :: "string \<Rightarrow> bool \<Rightarrow> event_search_query \<Rightarrow> nat \<Rightarrow> (string, pydict) dict \<Rightarrow> pydict list result" where
  "search_loop req_tenant is_admin q n [] = Inr []"
| "search_loop req_tenant is_admin q n ((doc_id, doc) # docs) =
     rbind (canonical_event doc) (\<lambda>event.
       if \<not> may_see req_tenant is_admin event then search_loop req_tenant is_admin q n docs
       else rbind (search_match q event) (\<lambda>ok.
         if \<not> ok then search_loop req_tenant is_admin q n docs
         else if sq_limit q \<le> n + 1 then Inr [event]
         else rbind (search_loop req_tenant is_admin q (n + 1) docs) (\<lambda>es. Inr (event # es))))"

definition search_events :: "opensearch option \<Rightarrow> event_search_query \<Rightarrow> string option \<Rightarrow> tenant_context option \<Rightarrow>
    (nat \<times> string \<times> pydict list) result" where
  "search_events store q x_tenant context =
     (case store of
        None \<Rightarrow> Inl (HTTPException 503 ''Storage connector uninitialized'')
      | Some conn \<Rightarrow>
          let (req_tenant, is_admin) = resolve_effective_tenant x_tenant context in
          rbind (search_loop req_tenant is_admin q 0 (mock_storage conn)) (\<lambda>matches.
            Inr (length matches, req_tenant, matches)))"

subsection \<open>Policy endpoints\<close>

definition get_policies :: "policy_engine option \<Rightarrow> (nat \<times> policy_rule list) result" where
  "get_policies engine =
     (case engine of
        None \<Rightarrow> Inl (HTTPException 503 ''Policy engine uninitialized'')
      | Some eng \<Rightarrow> Inr (length (list_policies eng), list_policies eng))"

definition get_routes :: "policy_engine option \<Rightarrow> (string list \<times> nat) result" where
  "get_routes engine =
     (case engine of
        None \<Rightarrow> Inl (HTTPException 503 ''Policy engine uninitialized'')
      | Some eng \<Rightarrow>
          Inr (sort (remdups (concat (map destinations (list_policies eng)))), length (list_policies eng)))"

subsection \<open>Authentication facts\<close>

lemma auth_token:
  assumes "get_current_tenant_context False env_keys h = Inr ctx"
  shows "\<exists>info. map_of (get_key_registry env_keys) (request_token h) = Some info \<and>
    ctx_admin ctx = ci_admin info \<and> ctx_authenticated ctx \<and>
    (\<not> ci_admin info \<longrightarrow> ctx_tenant ctx = ci_tenant info \<and>
       (nonempty (x_tenant_id h) \<longrightarrow> x_tenant_id h = Some (ci_tenant info)))"
  using assms
  by (auto simp: get_current_tenant_context_def Let_def nonempty_def split: if_splits option.splits)

subsection \<open>Queries are scoped to the tenant\<close>

text \<open>
  The interface of a query endpoint: whatever it returns for an authenticated context, the context
  may see. Its client is the deployed endpoint, authentication followed by the query.
\<close>

locale tenant_query =
  fixes query :: "opensearch option \<Rightarrow> string option \<Rightarrow> tenant_context option \<Rightarrow> pydict list result"
  assumes scoped: "query store x (Some ctx) = Inr es \<Longrightarrow> e \<in> set es \<Longrightarrow>
    may_see (ctx_tenant ctx) (ctx_admin ctx) e"
begin

lemma endpoint_isolated:
  assumes "get_current_tenant_context False env_keys h = Inr ctx"
    and "map_of (get_key_registry env_keys) (request_token h) = Some info" and "\<not> ci_admin info"
    and "query store x (Some ctx) = Inr es" and "e \<in> set es"
  shows "event_tenant e = ci_tenant info"
  using auth_token [OF assms(1)] assms(2,3) scoped [OF assms(4,5)] by (auto simp: may_see_def)

end

definition by_id_query :: "string \<Rightarrow> opensearch option \<Rightarrow> string option \<Rightarrow> tenant_context option \<Rightarrow> pydict list result" where
  "by_id_query event_id store x context =
     rbind (get_event_by_id store event_id x context) (\<lambda>res.
       case pget res ''event'' of PDict e \<Rightarrow> Inr [e] | _ \<Rightarrow> Inr [])"

definition list_query :: "string option \<Rightarrow> int option \<Rightarrow> nat \<Rightarrow> nat \<Rightarrow> opensearch option \<Rightarrow> string option \<Rightarrow>
    tenant_context option \<Rightarrow> pydict list result" where
  "list_query ty sev limit offset store x context =
     rbind (list_events store ty sev limit offset x context) (\<lambda>p. Inr (pg_events p))"

definition search_query :: "event_search_query \<Rightarrow> opensearch option \<Rightarrow> string option \<Rightarrow> tenant_context option \<Rightarrow>
    pydict list result" where
  "search_query q store x context = rbind (search_events store q x context) (\<lambda>(_, _, es). Inr es)"

lemma collect_events_visible:
  "collect_events t a ty sev docs = Inr es \<Longrightarrow> e \<in> set es \<Longrightarrow> may_see t a e"
proof (induction docs arbitrary: es)
  case (Cons p docs)
  then show ?case by (cases p) (fastforce split: if_splits)
qed simp

lemma search_loop_visible:
  "search_loop t a q n docs = Inr es \<Longrightarrow> e \<in> set es \<Longrightarrow> may_see t a e"
proof (induction docs arbitrary: n es)
  case (Cons p docs)
  then show ?case by (cases p) (fastforce split: if_splits)
qed simp

interpretation by_id: tenant_query "by_id_query event_id" for event_id
  by unfold_locales
     (auto simp: by_id_query_def get_event_by_id_def resolve_effective_tenant_def pget_def
       split: option.splits list.splits if_splits)

interpretation listing: tenant_query "list_query ty sev limit offset" for ty sev limit offset
  by unfold_locales
     (auto simp: list_query_def list_events_def resolve_effective_tenant_def Let_def
       dest!: in_set_takeD in_set_dropD collect_events_visible split: option.splits)

interpretation searching: tenant_query "search_query q" for q
  by unfold_locales
     (auto simp: search_query_def search_events_def resolve_effective_tenant_def Let_def
       dest: search_loop_visible split: option.splits)

subsection \<open>What a listing contains\<close>

definition event_of :: "string \<times> pydict \<Rightarrow> pydict" where
  "event_of p = (case canonical_event (snd p) of Inr e \<Rightarrow> e | Inl _ \<Rightarrow> [])"

definition readable :: "(pydict \<Rightarrow> bool result) \<Rightarrow> (string, pydict) dict \<Rightarrow> bool" where
  "readable f docs = list_all (\<lambda>p. is_ok (canonical_event (snd p)) \<and> is_ok (f (event_of p))) docs"

definition selected :: "string \<Rightarrow> bool \<Rightarrow> (pydict \<Rightarrow> bool result) \<Rightarrow> (string, pydict) dict \<Rightarrow> pydict list" where
  "selected t a f docs = filter (\<lambda>e. may_see t a e \<and> f e = Inr True) (map event_of docs)"

definition list_match :: "string option \<Rightarrow> int option \<Rightarrow> pydict \<Rightarrow> bool result" where
  "list_match ty sev e = rbind (severity_filter sev e) (\<lambda>ok. Inr (type_filter ty e \<and> ok))"

lemma readable_Cons:
  "readable f (p # docs) \<longleftrightarrow> (\<exists>e b. canonical_event (snd p) = Inr e \<and> f e = Inr b) \<and> readable f docs"
  by (cases "canonical_event (snd p)"; cases "f (event_of p)")
     (auto simp: readable_def event_of_def)

lemma collect_events_spec:
  "readable (list_match ty sev) docs \<Longrightarrow>
   collect_events t a ty sev docs = Inr (selected t a (list_match ty sev) docs)"
proof (induction docs)
  case Nil
  then show ?case by (simp add: selected_def)
next
  case (Cons p docs)
  obtain k d where p: "p = (k, d)" by (cases p)
  from Cons.prems p obtain e b where e: "canonical_event d = Inr e" "severity_filter sev e = Inr b"
    by (auto simp: readable_Cons list_match_def)
  have "selected t a (list_match ty sev) (p # docs) =
      (if may_see t a e \<and> type_filter ty e \<and> b then e # selected t a (list_match ty sev) docs
       else selected t a (list_match ty sev) docs)"
    using p e by (simp add: selected_def event_of_def list_match_def)
  then show ?case using Cons p e by (simp add: readable_Cons)
qed

lemma search_loop_spec:
  "readable (search_match q) docs \<Longrightarrow> n < sq_limit q \<Longrightarrow>
   search_loop t a q n docs = Inr (take (sq_limit q - n) (selected t a (search_match q) docs))"
proof (induction docs arbitrary: n)
  case Nil
  then show ?case by (simp add: selected_def)
next
  case (Cons p docs)
  obtain k d where p: "p = (k, d)" by (cases p)
  from Cons.prems p obtain e b where e: "canonical_event d = Inr e" "search_match q e = Inr b"
    by (auto simp: readable_Cons)
  have sel: "selected t a (search_match q) (p # docs) =
      (if may_see t a e \<and> b then e # selected t a (search_match q) docs else selected t a (search_match q) docs)"
    using p e by (simp add: selected_def event_of_def)
  show ?case
  proof (cases "may_see t a e \<and> b \<and> \<not> sq_limit q \<le> n + 1")
    case True
    then have "sq_limit q - n = Suc (sq_limit q - Suc n)" by linarith
    with True Cons.IH [of "n + 1"] Cons.prems p e sel show ?thesis by (simp add: readable_Cons)
  next
    case False
    have "may_see t a e \<and> b \<Longrightarrow> sq_limit q - n = Suc 0" using False Cons.prems(2) by simp
    with False Cons p e sel show ?thesis by (auto simp: readable_Cons)
  qed
qed

subsection \<open>Properties\<close>

text \<open>No impersonation: without anonymous access every accepted request carries the token of a
  registered client, the context takes the admin flag of that client, and a client that is no admin
  gets its own tenant whatever the \<open>X-Tenant-ID\<close> header says (a different header is refused).\<close>

theorem auth_no_impersonation:
  assumes "get_current_tenant_context False env_keys h = Inr ctx"
  shows "\<exists>info. map_of (get_key_registry env_keys) (request_token h) = Some info \<and>
    ctx_admin ctx = ci_admin info \<and> ctx_authenticated ctx \<and>
    (\<not> ci_admin info \<longrightarrow> ctx_tenant ctx = ci_tenant info \<and>
       (nonempty (x_tenant_id h) \<longrightarrow> x_tenant_id h = Some (ci_tenant info)))"
  using auth_token [OF assms] .

theorem auth_no_impersonation_witness:
  "\<exists>info. map_of (get_key_registry None) ''tenant-0-key'' = Some info \<and> False = ci_admin info"
  using auth_no_impersonation [of None "\<lparr>authorization = Some '' tenant-0-key '', x_api_key = None, x_tenant_id = None\<rparr>"
      "\<lparr>ctx_tenant = ''tenant_0'', ctx_admin = False, ctx_authenticated = True\<rparr>"]
  by (auto simp: get_current_tenant_context_def request_token_def nonempty_def get_key_registry_def
      DEFAULT_KEY_REGISTRY_def client_def strip_def lstrip_by_def rstrip_by_def is_space_def code_def Let_def)

text \<open>(C28) Tenant isolation of the query endpoints: an event that a client which is no admin gets by
  identifier, by listing or by search belongs to the tenant of the client's token.\<close>

theorem api_tenant_isolation:
  assumes "get_current_tenant_context False env_keys h = Inr ctx"
    and "map_of (get_key_registry env_keys) (request_token h) = Some info" and "\<not> ci_admin info"
    and "by_id_query event_id store x (Some ctx) = Inr es \<or>
         list_query ty sev limit offset store x (Some ctx) = Inr es \<or>
         search_query q store x (Some ctx) = Inr es"
    and "e \<in> set es"
  shows "event_tenant e = ci_tenant info"
  using assms(4) by_id.endpoint_isolated [OF assms(1-3) _ assms(5)]
    listing.endpoint_isolated [OF assms(1-3) _ assms(5)]
    searching.endpoint_isolated [OF assms(1-3) _ assms(5)]
  by blast

definition example_store :: opensearch where
  "example_store = \<lparr>os_name = ''siem'', os_host = [], os_index_prefix = [], os_user = None, os_password = None,
     os_mock = True,
     mock_storage = [(''e1'', [(''canonical_ues'', PDict [(''tenant_id'', PStr ''tenant_0'')])]),
                     (''e2'', [(''canonical_ues'', PDict [(''tenant_id'', PStr ''tenant_1'')])])],
     os_healthy = True\<rparr>"

definition example_query :: event_search_query where
  "example_query = \<lparr> sq_event_type = None, sq_min_severity = None, sq_max_severity = None,
     sq_is_security = None, sq_query_string = None, sq_limit = 1 \<rparr>"

definition example_headers :: request_headers where
  "example_headers = \<lparr>authorization = Some ''tenant-0-key'', x_api_key = None, x_tenant_id = None\<rparr>"

lemma example_context:
  "get_current_tenant_context False None example_headers =
     Inr \<lparr>ctx_tenant = ''tenant_0'', ctx_admin = False, ctx_authenticated = True\<rparr>"
  "map_of (get_key_registry None) (request_token example_headers) = Some (client ''tenant_0'' False)"
  by (simp_all add: example_headers_def get_current_tenant_context_def request_token_def nonempty_def
      get_key_registry_def DEFAULT_KEY_REGISTRY_def client_def strip_def lstrip_by_def rstrip_by_def
      is_space_def code_def Let_def)

lemma example_list:
  "list_query None None 10 0 (Some example_store) None
     (Some \<lparr>ctx_tenant = ''tenant_0'', ctx_admin = False, ctx_authenticated = True\<rparr>) =
   Inr [[(''tenant_id'', PStr ''tenant_0'')]]"
  by (simp add: list_query_def list_events_def resolve_effective_tenant_def example_store_def canonical_event_def
      pget_default_def may_see_def event_tenant_def tenant_of_def extract_field_value_def pget_def
      type_filter_def nonempty_def severity_filter_def Let_def)

theorem api_tenant_isolation_witness:
  "event_tenant [(''tenant_id'', PStr ''tenant_0'')] = ''tenant_0''"
  using api_tenant_isolation [where event_id = "[]" and q = example_query, OF example_context _
      disjI2 [OF disjI1, OF example_list]]
  by (simp add: client_def)

text \<open>A listing is complete and its pages fit together: the pages of size \<open>limit\<close> in order are, up to
  the last one, the list of all events that the caller may see and that pass the filters, and each
  page reports the total number of those.\<close>

theorem list_events_pages:
  assumes "readable (list_match ty sev) (mock_storage conn)" and "0 < limit"
    and "length (selected (ctx_tenant ctx) (ctx_admin ctx) (list_match ty sev) (mock_storage conn)) \<le> n * limit"
  shows "concat (map (\<lambda>k. case list_events (Some conn) ty sev limit (k * limit) x (Some ctx) of
            Inr p \<Rightarrow> pg_events p | Inl _ \<Rightarrow> []) [0..<n]) =
         selected (ctx_tenant ctx) (ctx_admin ctx) (list_match ty sev) (mock_storage conn) \<and>
         (\<exists>p. list_events (Some conn) ty sev limit offset x (Some ctx) = Inr p \<and>
            pg_total p = length (selected (ctx_tenant ctx) (ctx_admin ctx) (list_match ty sev) (mock_storage conn)) \<and>
            pg_count p = min limit (pg_total p - offset))"
proof -
  let ?sel = "selected (ctx_tenant ctx) (ctx_admin ctx) (list_match ty sev) (mock_storage conn)"
  have "list_events (Some conn) ty sev limit off x (Some ctx) =
      Inr \<lparr> pg_total = length ?sel, pg_count = length (take limit (drop off ?sel)), pg_limit = limit,
            pg_offset = off, pg_tenant = ctx_tenant ctx, pg_events = take limit (drop off ?sel) \<rparr>" for off
    using collect_events_spec [OF assms(1)]
    by (simp add: list_events_def resolve_effective_tenant_def Let_def)
  then show ?thesis using pages_concat [OF assms(2), of ?sel n] assms(3) by simp
qed

lemma example_readable:
  "readable (list_match None None) (mock_storage example_store)"
  "selected ''tenant_0'' False (list_match None None) (mock_storage example_store) =
     [[(''tenant_id'', PStr ''tenant_0'')]]"
  by (simp_all add: readable_def selected_def list_match_def example_store_def event_of_def canonical_event_def
      pget_default_def may_see_def event_tenant_def tenant_of_def extract_field_value_def pget_def
      type_filter_def nonempty_def severity_filter_def)

theorem list_events_pages_witness:
  "concat (map (\<lambda>k. case list_events (Some example_store) None None 1 (k * 1) None
        (Some \<lparr>ctx_tenant = ''tenant_0'', ctx_admin = False, ctx_authenticated = True\<rparr>) of
            Inr p \<Rightarrow> pg_events p | Inl _ \<Rightarrow> []) [0..<2]) = [[(''tenant_id'', PStr ''tenant_0'')]]"
  using list_events_pages [OF example_readable(1), of 1
      "\<lparr>ctx_tenant = ''tenant_0'', ctx_admin = False, ctx_authenticated = True\<rparr>" 2 None 0] example_readable(2)
  by simp

text \<open>The search that stops early returns the first \<open>limit\<close> of all visible matching events, in
  storage order.\<close>

theorem search_events_take:
  assumes "readable (search_match q) (mock_storage conn)" and "1 \<le> sq_limit q"
  shows "search_events (Some conn) q x (Some ctx) =
    (let es = take (sq_limit q) (selected (ctx_tenant ctx) (ctx_admin ctx) (search_match q) (mock_storage conn))
     in Inr (length es, ctx_tenant ctx, es))"
  using search_loop_spec [OF assms(1), of 0] assms(2)
  by (simp add: search_events_def resolve_effective_tenant_def Let_def)

theorem search_events_take_witness:
  "search_events (Some example_store) example_query None
     (Some \<lparr>ctx_tenant = ''admin'', ctx_admin = True, ctx_authenticated = True\<rparr>) =
   Inr (1, ''admin'', [[(''tenant_id'', PStr ''tenant_0'')]])"
proof -
  have "readable (search_match example_query) (mock_storage example_store)"
    and "selected ''admin'' True (search_match example_query) (mock_storage example_store) =
      [[(''tenant_id'', PStr ''tenant_0'')], [(''tenant_id'', PStr ''tenant_1'')]]"
    by (simp_all add: readable_def selected_def search_match_def example_query_def example_store_def event_of_def
        canonical_event_def pget_default_def may_see_def type_filter_def nonempty_def float_filter_def
        security_filter_def)
  with search_events_take [of example_query example_store None
      "\<lparr>ctx_tenant = ''admin'', ctx_admin = True, ctx_authenticated = True\<rparr>"]
  show ?thesis by (simp add: example_query_def)
qed

end
