(* ===== verification/M5_App.thy ===== *)
theory M5_App
  imports M5_Api
begin

section \<open>M5: the processing endpoint and the health service\<close>

text \<open>
  \<open>M5/app/main.py\<close> (\<open>initialize_m5_components\<close>, \<open>process_event\<close>) and \<open>M5/app/health/health.py\<close>. The pool is a
  dictionary from destination names to connectors. \<open>process_event\<close> is the whole handler: validation,
  routing, resolution of the connectors, concurrent delivery under a schedule, and the status
  breakdown read back from the tracker. The mutable globals of the module are the record \<open>m5_app\<close>.
\<close>

record m5_app =
  app_engine :: "policy_engine option"
  app_pool :: "(string, connector) dict"
  app_retry :: "retry_config option"
  app_tracker :: ack_tracker
  app_dlq :: dead_letter_queue

datatype process_response =
    Unrouted string routing_decision
  | Processed string routing_decision "(string, delivery_record) dict" "(string, bool) dict"

subsection \<open>Initialisation\<close>

definition new_opensearch :: "string \<Rightarrow> opensearch" where
  "new_opensearch nm = \<lparr> os_name = nm, os_host = ''http://localhost:9200'', os_index_prefix = ''ulpf-events'',
     os_user = None, os_password = None, os_mock = True, mock_storage = [], os_healthy = True \<rparr>"

definition new_kafka :: "string \<Rightarrow> string \<Rightarrow> kafka" where
  "new_kafka nm topic = \<lparr> k_name = nm, k_topic = topic, k_mock = True, mock_topics = [(topic, [])], k_healthy = True \<rparr>"

definition new_webhook :: "string \<Rightarrow> webhook" where
  "new_webhook nm = \<lparr> h_name = nm, h_url = ''http://localhost:9090/webhook'', h_mock = True, sent_events = [], h_healthy = True \<rparr>"

definition new_filesystem :: "string \<Rightarrow> filesystem" where
  "new_filesystem nm = \<lparr> fs_name = nm, fs_base_dir = ''./data/datalake'', fs_files = [], fs_healthy = True \<rparr>"

definition new_datalake :: "string \<Rightarrow> datalake" where
  "new_datalake nm = \<lparr> dl_name = nm, dl_mock = True, dl_bucket = ''ulpf-datalake'',
     fs_fallback = new_filesystem ''data_lake_fs_backup'',
     iceberg_catalog = \<lparr> table_name = ''ulpf_events_v1'', committed_count = 0 \<rparr>,
     max_processed_cache = 50000, processed_event_ids = {}, processed_order = [], dl_healthy = True \<rparr>"

definition initial_pool :: "(string, connector) dict" where
  "initial_pool =
     [(''siem'', OpenSearch (new_opensearch ''siem'')),
      (''data_lake'', DataLake (new_datalake ''data_lake'')),
      (''ai_stream'', Kafka (new_kafka ''ai_stream'' ''ulpf.ai.events'')),
      (''http_webhook'', Webhook (new_webhook ''http_webhook''))]"

text \<open>The retry configuration comes from the environment; the path is the resolved policy path.\<close>

definition initialize_m5_components :: "rule_init \<Rightarrow> policy_file \<Rightarrow> string \<Rightarrow> retry_config \<Rightarrow> m5_app \<Rightarrow> m5_app result" where
  "initialize_m5_components mk file path cfg app =
     rbind (engine_init mk file (Some path)) (\<lambda>eng.
       Inr (app\<lparr>app_engine := Some eng, app_pool := initial_pool, app_retry := Some cfg\<rparr>))"

subsection \<open>Processing\<close>

definition submitted_event_id :: "pydict \<Rightarrow> pyval" where
  "submitted_event_id event =
     (let nested = (case map_of event ''event'' of Some (PDict d) \<Rightarrow> pget d ''id'' | _ \<Rightarrow> PNone)
      in if py_truthy nested then nested else por (pget event ''event_id'') (pget event ''id''))"

definition resolve_connectors :: "(string, connector) dict \<Rightarrow> string list \<Rightarrow> (string \<times> connector) list" where
  "resolve_connectors pool dests =
     List.map_filter (\<lambda>dest. map_option (\<lambda>c. (connector_name c, c)) (map_of pool dest)) dests"

definition put_back :: "(string, connector) dict \<Rightarrow> connector task list \<Rightarrow> (string, connector) dict" where
  "put_back pool ts = dict_update pool (map (\<lambda>t. (t_dest t, t_conn t)) ts)"

definition status_breakdown :: "string \<Rightarrow> connector task list \<Rightarrow> ack_tracker \<Rightarrow> (string, delivery_record) dict" where
  "status_breakdown event_id ts tr =
     dict_update [] (List.map_filter (\<lambda>t. map_option (Pair (t_dest t)) (get_status event_id (t_dest t) tr)) ts)"

definition process_event :: "re_engine \<Rightarrow> world \<Rightarrow> exn option \<Rightarrow> string \<Rightarrow> nat list \<Rightarrow> m5_app \<Rightarrow> pydict \<Rightarrow>
    m5_app \<times> process_response result" where
  "process_event re w io now sched app event =
     (case (app_engine app, app_retry app) of
        (Some eng, Some cfg) \<Rightarrow>
          if event = [] then (app, Inl (HTTPException 422 ''Malformed payload: Expected JSON object''))
          else if \<not> py_truthy (submitted_event_id event) then
            (app, Inl (HTTPException 422 ''Malformed UES event: Missing required event.id''))
          else
            (case engine_evaluate re eng event now of
               Inl e \<Rightarrow> (app, Inl e)
             | Inr (dests, decision) \<Rightarrow>
                 if dests = [] then (app, Inr (Unrouted (decision_event_id decision) decision))
                 else
                   let targets = resolve_connectors (app_pool app) dests;
                       (ts, tr, dlq) = deliver_to_all cfg io now (connector_send w) sched targets event
                         (app_tracker app, app_dlq app);
                       app' = app\<lparr>app_pool := put_back (app_pool app) ts, app_tracker := tr, app_dlq := dlq\<rparr>
                   in (app',
                       rbind (gather_results ts []) (\<lambda>results.
                         Inr (Processed (decision_event_id decision) decision
                                (status_breakdown (decision_event_id decision) ts tr) results))))
      | _ \<Rightarrow> (app, Inl (HTTPException 503 ''M5 application component not initialized'')))"

subsection \<open>Health service\<close>

definition register_connector :: "connector \<Rightarrow> (string, connector) dict \<Rightarrow> (string, connector) dict" where
  "register_connector c pool = dict_set (connector_name c) c pool"

fun connector_health :: "nat option \<Rightarrow> connector \<Rightarrow> bool" where
  "connector_health answer (OpenSearch c) = opensearch_health answer c"
| "connector_health answer (Kafka c) = k_healthy c"
| "connector_health answer (Webhook c) = h_healthy c"
| "connector_health answer (DataLake c) = dl_healthy c"
| "connector_health answer (Filesystem c) = fs_healthy c"

definition health_word :: "bool \<Rightarrow> string" where
  "health_word b = (if b then ''healthy'' else ''unhealthy'')"

definition get_all_health :: "nat option \<Rightarrow> (string, connector) dict \<Rightarrow> string \<times> (string, string) dict" where
  "get_all_health answer pool =
     (if list_all (\<lambda>(_, c). connector_health answer c) pool then ''healthy'' else ''degraded'',
      map (\<lambda>(n, c). (n, health_word (connector_health answer c))) pool)"

definition get_destination_health :: "nat option \<Rightarrow> (string, connector) dict \<Rightarrow> string \<Rightarrow> (string \<times> string) result" where
  "get_destination_health answer pool dest_id =
     (case map_of pool dest_id of
        None \<Rightarrow> Inl (HTTPException 404 (''Destination connector '' @ quoted dest_id @ '' not found''))
      | Some c \<Rightarrow> Inr (dest_id, health_word (connector_health answer c)))"

definition readiness_check :: "nat option \<Rightarrow> (string, connector) dict \<Rightarrow> nat" where
  "readiness_check answer pool = (if fst (get_all_health answer pool) = ''degraded'' then 503 else 200)"

subsection \<open>The identifier of an event is the same everywhere\<close>

lemma submitted_event_id_nested: "submitted_event_id event = event_id_of event"
  using extract_two [of "''event''" "''id''" event]
  by (auto simp: submitted_event_id_def event_id_of_def por_def pget_def split: option.splits pyval.splits)

lemma delivery_event_id_eq: "py_truthy (event_id_of event) \<Longrightarrow> delivery_event_id event = extract_event_id event"
  by (auto simp: delivery_event_id_def extract_event_id_def event_id_of_def por_def Let_def)

subsection \<open>Pool\<close>

definition pool_ok :: "(string, connector) dict \<Rightarrow> bool" where
  "pool_ok pool \<longleftrightarrow> dict_wf pool \<and> (\<forall>(n, c) \<in> set pool. connector_name c = n)"

lemma initial_pool_ok: "pool_ok initial_pool"
  by (simp add: pool_ok_def initial_pool_def dict_wf_def new_opensearch_def new_datalake_def new_kafka_def new_webhook_def)

lemma pool_ok_lookup: "pool_ok pool \<Longrightarrow> map_of pool d = Some c \<Longrightarrow> connector_name c = d"
  by (auto simp: pool_ok_def dest: map_of_SomeD)

lemma connector_send_name: "connector_name (fst (connector_send w c event)) = connector_name c"
proof (cases c)
  case (DataLake x)
  have "dl_name (fst (remember y e)) = dl_name y" for y e
    by (simp add: remember_def Let_def split: list.splits)
  then show ?thesis using DataLake
    by (auto simp: datalake_send_def Let_def case_prod_beta split: option.splits prod.splits)
qed (auto simp: opensearch_send_def kafka_send_event_def webhook_send_def filesystem_send_def Let_def
    split: option.splits sum.splits prod.splits)

lemma map_fst_resolve:
  "pool_ok pool \<Longrightarrow> map fst (resolve_connectors pool dests) = filter (\<lambda>d. map_of pool d \<noteq> None) dests"
  by (induction dests)
     (auto simp: resolve_connectors_def map_filter_simps pool_ok_lookup split: option.splits)

lemma length_resolve: "length (resolve_connectors pool dests) \<le> length dests"
  by (induction dests) (auto simp: resolve_connectors_def map_filter_simps split: option.splits)

subsection \<open>Concurrent delivery loses nothing\<close>

definition settled :: "exn option \<Rightarrow> pydict \<Rightarrow> ack_tracker \<Rightarrow> dead_letter_queue \<Rightarrow> string \<Rightarrow> bool result \<Rightarrow> bool" where
  "settled io event tr dlq dest r \<longleftrightarrow>
     (\<exists>s. get_status (delivery_event_id event) dest tr = Some s \<and>
        st_status s = (if r = Inr True then ACKNOWLEDGED else DLQ_PROMOTED)) \<and>
     (r \<noteq> Inr True \<longrightarrow> r = promoted io \<and>
        (\<exists>rec \<in> set (dlq_records dlq). dlq_event rec = event \<and> dlq_destination rec = dest \<and> (io = None \<longrightarrow> rec \<in> set (dlq_lines dlq))))"

lemma settled_view:
  assumes "preserved io event dest st st' r" and "delivery_view event dest (tr, dlq) = delivery_view event dest (d_tracker st', d_dlq st')"
  shows "settled io event tr dlq dest r"
proof -
  have same: "filter (\<lambda>r. dlq_destination r = dest) (dlq_records dlq) = filter (\<lambda>r. dlq_destination r = dest) (dlq_records (d_dlq st'))"
    "filter (\<lambda>r. dlq_destination r = dest) (dlq_lines dlq) = filter (\<lambda>r. dlq_destination r = dest) (dlq_lines (d_dlq st'))"
    using assms(2) by (simp_all add: delivery_view_def)
  have here: "rec \<in> set xs \<longleftrightarrow> rec \<in> set ys"
    if "dlq_destination rec = dest" "filter (\<lambda>r. dlq_destination r = dest) xs = filter (\<lambda>r. dlq_destination r = dest) ys" for rec xs ys
    using that(1) arg_cong [OF that(2), of set] by auto
  have rec: "r = promoted io \<and> (\<exists>rec \<in> set (dlq_records dlq). dlq_event rec = event \<and> dlq_destination rec = dest \<and> (io = None \<longrightarrow> rec \<in> set (dlq_lines dlq)))"
    if "r \<noteq> Inr True"
  proof -
    from assms(1) that obtain rec where r: "r = promoted io" "dlq_records (d_dlq st') = dlq_records (d_dlq st) @ [rec]"
      "dlq_lines (d_dlq st') = dlq_lines (d_dlq st) @ (if io = None then [rec] else [])" "dlq_event rec = event" "dlq_destination rec = dest"
      unfolding preserved_def by auto
    have "rec \<in> set (dlq_records dlq)" using here [OF r(5) same(1)] r(2) by simp
    moreover have "io = None \<longrightarrow> rec \<in> set (dlq_lines dlq)" using here [OF r(5) same(2)] r(3) by simp
    ultimately show ?thesis using r by blast
  qed
  have "get_status (delivery_event_id event) dest tr = get_status (delivery_event_id event) dest (d_tracker st')"
    using assms(2) by (simp add: delivery_view_def)
  with assms(1) rec show ?thesis by (auto simp: settled_def preserved_def)
qed

lemma deliver_to_all_settled:
  assumes "distinct (map fst conns)" and "deliver_to_all cfg io now send is conns event sh = (ts, tr, dlq)"
    and "\<forall>i < length conns. 2 * nat (max_retries cfg) + 1 \<le> count_list is i" and "i < length conns"
  shows "length ts = length conns \<and> t_dest (ts ! i) = fst (conns ! i) \<and>
    (\<exists>r. t_phase (ts ! i) = Finished r \<and> settled io event tr dlq (fst (conns ! i)) r)"
proof -
  obtain st' r where seq: "deliver_to_connector cfg io now send (fst (conns ! i)) event (alone (conns ! i) sh) = (st', r)"
    and pres: "preserved io event (fst (conns ! i)) (alone (conns ! i) sh) st' r"
    using deliver_loop_preserved [of cfg io now send "fst (conns ! i)" event 1 "initial_backoff cfg" "[]" "alone (conns ! i) sh"]
    by (auto simp: deliver_to_connector_def)
  from deliver_to_all_solo [OF assms(1,4,2) seq] assms(3,4) settled_view [OF pres]
  show ?thesis by (auto simp: loop_task_def)
qed

text \<open>Gathering the results: all of them when none is an error, and else an error of one of the tasks.\<close>

lemma gather_results_error:
  "\<forall>t \<in> set ts. \<exists>r. t_phase t = Finished r \<Longrightarrow> \<exists>t \<in> set ts. \<exists>e. t_phase t = Finished (Inl e) \<Longrightarrow>
   \<exists>e. gather_results ts acc = Inl e \<and> (\<exists>t \<in> set ts. t_phase t = Finished (Inl e))"
proof (induction ts arbitrary: acc)
  case (Cons t ts)
  then obtain r where r: "t_phase t = Finished r" by auto
  show ?case
  proof (cases r)
    case (Inl e)
    then show ?thesis using r by auto
  next
    case (Inr b)
    then have "\<exists>t \<in> set ts. \<exists>e. t_phase t = Finished (Inl e)" using Cons.prems(2) r by auto
    then show ?thesis using Cons.IH [of "dict_set (t_dest t) b acc"] Cons.prems(1) r Inr by auto
  qed
qed simp

lemma gather_results_ok:
  assumes "\<forall>t \<in> set ts. \<exists>b. t_phase t = Finished (Inr b)" and "distinct (map t_dest ts)"
  shows "\<exists>res. gather_results ts acc = Inr res \<and>
    (\<forall>t \<in> set ts. \<forall>b. t_phase t = Finished (Inr b) \<longrightarrow> map_of res (t_dest t) = Some b) \<and>
    (\<forall>d. d \<notin> t_dest ` set ts \<longrightarrow> map_of res d = map_of acc d)"
  using assms
proof (induction ts arbitrary: acc)
  case (Cons t ts)
  then obtain b where b: "t_phase t = Finished (Inr b)" by auto
  from Cons obtain res where res: "gather_results ts (dict_set (t_dest t) b acc) = Inr res"
    "\<forall>t \<in> set ts. \<forall>b. t_phase t = Finished (Inr b) \<longrightarrow> map_of res (t_dest t) = Some b"
    "\<forall>d. d \<notin> t_dest ` set ts \<longrightarrow> map_of res d = map_of (dict_set (t_dest t) b acc) d"
    by force
  with b Cons.prems show ?case by (intro exI [of _ res]) auto
qed simp

lemma gathered:
  assumes fin: "\<And>t. t \<in> set ts \<Longrightarrow> \<exists>r. t_phase t = Finished r \<and> (r = Inr True \<or> r = promoted io)"
    and "distinct (map t_dest ts)" and t: "t \<in> set ts" "t_phase t = Finished r" "t_dest t = dest"
  shows "case gather_results ts [] of Inr results \<Rightarrow> (r = Inr True \<or> io = None) \<and> map_of results dest = Some (r = Inr True) | Inl e \<Rightarrow> io = Some e"
proof (cases "\<exists>t \<in> set ts. \<exists>e. t_phase t = Finished (Inl e)")
  case True
  then obtain e t' where e: "gather_results ts [] = Inl e" "t' \<in> set ts" "t_phase t' = Finished (Inl e)"
    using gather_results_error [of ts "[]"] fin by blast
  from fin [OF e(2)] e(3) have "promoted io = Inl e" by auto
  then show ?thesis using e(1) by (cases io) simp_all
next
  case False
  then have "\<forall>t \<in> set ts. \<exists>b. t_phase t = Finished (Inr b)" using fin by (metis sum.exhaust)
  from gather_results_ok [OF this assms(2), of "[]"] obtain results where res: "gather_results ts [] = Inr results"
    "\<forall>t \<in> set ts. \<forall>b. t_phase t = Finished (Inr b) \<longrightarrow> map_of results (t_dest t) = Some b" by blast
  obtain b where b: "r = Inr b" using False t by (cases r) auto
  then have "b \<or> io = None" using fin [OF t(1)] t(2) by (cases io) auto
  then show ?thesis using res t b by auto
qed

lemma status_breakdown_lookup:
  assumes "distinct (map t_dest ts)" and "t \<in> set ts" and "get_status e (t_dest t) tr = Some s"
  shows "map_of (status_breakdown e ts tr) (t_dest t) = Some s"
proof -
  let ?f = "\<lambda>t. map_option (Pair (t_dest t)) (get_status e (t_dest t) tr)"
  let ?l = "List.map_filter ?f ts"
  have fst: "map fst ?l = map t_dest (filter (\<lambda>t. get_status e (t_dest t) tr \<noteq> None) ts)"
    by (induction ts) (auto simp: map_filter_simps split: option.splits)
  have wf: "dict_wf ?l"
    unfolding dict_wf_def fst using assms(1) by (simp add: distinct_map_filter)
  have "(t_dest t, s) \<in> set ?l" using assms(2,3) by (force simp: List.map_filter_def)
  then have "map_of ?l (t_dest t) = Some s" using wf by (simp add: dict_wf_def)
  then show ?thesis by (simp add: status_breakdown_def map_of_dict_update [OF wf])
qed

lemma process_event_eq:
  assumes "app_engine app = Some eng" and "app_retry app = Some cfg" and "py_truthy (submitted_event_id event)"
    and "engine_evaluate re eng event now = Inr (dests, decision)" and "dests \<noteq> []"
    and "deliver_to_all cfg io now (connector_send w) sched (resolve_connectors (app_pool app) dests) event
      (app_tracker app, app_dlq app) = (ts, tr, dlq)"
  shows "process_event re w io now sched app event =
    (app\<lparr>app_pool := put_back (app_pool app) ts, app_tracker := tr, app_dlq := dlq\<rparr>,
     rbind (gather_results ts []) (\<lambda>results. Inr (Processed (decision_event_id decision) decision
       (status_breakdown (decision_event_id decision) ts tr) results)))"
proof -
  have "event \<noteq> []" using assms(3) by (auto simp: submitted_event_id_def pget_def)
  then show ?thesis using assms by (simp add: process_event_def Let_def)
qed

subsection \<open>Properties\<close>

text \<open>(C3) End to end, M5 loses no routed event, whether or not the file of the dead-letter queue can be appended: when a submitted event with an
  identifier is routed, then for each routed destination with a connector in the pool the tracker ends in a final state, acknowledged or promoted, and
  a promoted event is in the dead-letter queue unchanged, and in its file if that can be appended. The handler then answers with
  exactly these states; it raises only the error of the file, and that whenever an event was promoted while the file could not be appended. It holds
  for every schedule that runs each delivery \<open>2 * max_retries + 1\<close> times.\<close>

theorem process_event_settles:
  assumes app: "app_engine app = Some eng" "app_retry app = Some cfg" "pool_ok (app_pool app)"
    and id: "py_truthy (submitted_event_id event)"
    and rt: "engine_evaluate re eng event now = Inr (dests, decision)"
    and fair: "\<forall>i < length dests. 2 * nat (max_retries cfg) + 1 \<le> count_list sched i"
    and dest: "dest \<in> set dests" "map_of (app_pool app) dest = Some c"
  shows "\<exists>app' answer s b. process_event re w io now sched app event = (app', answer) \<and>
    get_status (extract_event_id event) dest (app_tracker app') = Some s \<and> st_status s = (if b then ACKNOWLEDGED else DLQ_PROMOTED) \<and>
    (b \<or> (\<exists>rec \<in> set (dlq_records (app_dlq app')). dlq_event rec = event \<and> dlq_destination rec = dest \<and>
       (io = None \<longrightarrow> rec \<in> set (dlq_lines (app_dlq app'))))) \<and>
    (case answer of
       Inr response \<Rightarrow> (b \<or> io = None) \<and> (\<exists>statuses results. response = Processed (extract_event_id event) decision statuses results \<and>
         map_of results dest = Some b \<and> map_of statuses dest = Some s)
     | Inl e \<Rightarrow> io = Some e)"
proof -
  let ?conns = "resolve_connectors (app_pool app) dests"
  obtain ts tr dlq where run: "deliver_to_all cfg io now (connector_send w) sched ?conns event
      (app_tracker app, app_dlq app) = (ts, tr, dlq)" by (metis surj_pair)
  have route: "route re (router_rules eng) event now = Inr (dests, decision)"
    using rt by (simp add: engine_evaluate_def)
  have eid: "decision_event_id decision = delivery_event_id event" "extract_event_id event = delivery_event_id event"
    using route_spec(5) [OF route] delivery_event_id_eq id by (simp_all add: submitted_event_id_nested)
  have names: "map fst ?conns = filter (\<lambda>d. map_of (app_pool app) d \<noteq> None) dests"
    by (rule map_fst_resolve [OF app(3)])
  moreover have "distinct dests" using route_spec(1) [OF route] by simp
  ultimately have dist: "distinct (map fst ?conns)" by (simp only: distinct_filter)
  have each: "length ts = length ?conns \<and> t_dest (ts ! i) = fst (?conns ! i) \<and>
      (\<exists>r. t_phase (ts ! i) = Finished r \<and> settled io event tr dlq (fst (?conns ! i)) r)"
    if "i < length ?conns" for i
    using deliver_to_all_settled [OF dist run _ that] fair length_resolve [of "app_pool app" dests] by simp
  have "dest \<in> set (map fst ?conns)" unfolding names using dest by simp
  then obtain i where i: "i < length ?conns" "fst (?conns ! i) = dest" by (auto simp: in_set_conv_nth)
  then have len: "length ts = length ?conns" using each by blast
  have "map t_dest ts = map fst ?conns"
    using each len by (intro nth_equalityI) simp_all
  then have dist': "distinct (map t_dest ts)" using dist by (simp only:)
  have fin: "\<exists>r. t_phase t = Finished r \<and> (r = Inr True \<or> r = promoted io)" if "t \<in> set ts" for t
    using each len that by (metis in_set_conv_nth settled_def)
  obtain r where r: "t_phase (ts ! i) = Finished r" "settled io event tr dlq dest r" "t_dest (ts ! i) = dest" "ts ! i \<in> set ts"
    using each [OF i(1)] i len by auto
  define b where "b = (r = Inr True)"
  obtain s where s: "get_status (delivery_event_id event) dest tr = Some s" "st_status s = (if b then ACKNOWLEDGED else DLQ_PROMOTED)"
    using r(2) by (auto simp: settled_def b_def)
  have rec: "b \<or> (\<exists>rec \<in> set (dlq_records dlq). dlq_event rec = event \<and> dlq_destination rec = dest \<and> (io = None \<longrightarrow> rec \<in> set (dlq_lines dlq)))"
    using r(2) by (auto simp: settled_def b_def)
  have st: "map_of (status_breakdown (delivery_event_id event) ts tr) dest = Some s"
    using status_breakdown_lookup [OF dist' r(4)] s r(3) by simp
  have answer: "case gather_results ts [] of Inr results \<Rightarrow> (b \<or> io = None) \<and> map_of results dest = Some b | Inl e \<Rightarrow> io = Some e"
    using gathered [OF fin dist' r(4,1,3)] unfolding b_def .
  have "dests \<noteq> []" using dest by auto
  from process_event_eq [OF app(1,2) id rt this run] answer s rec st eid show ?thesis
    by (cases "gather_results ts []") auto
qed

definition example_app :: m5_app where
  "example_app = \<lparr> app_engine = Some \<lparr> policy_file_path = None, router_rules = [example_rule ''r'' ''t'' ''siem''] \<rparr>,
     app_pool = initial_pool, app_retry = Some \<lparr> max_retries = 1, initial_backoff = 1, max_backoff = 5 \<rparr>,
     app_tracker = [], app_dlq = \<lparr> dlq_records = [], dlq_lines = [] \<rparr> \<rparr>"

definition example_event :: pydict where
  "example_event = [(''tenant_id'', PStr ''t''), (''id'', PStr ''e1'')]"

lemma example_evaluate:
  "engine_evaluate (\<lambda>_ _. None) \<lparr> policy_file_path = None, router_rules = [example_rule ''r'' ''t'' ''siem''] \<rparr> example_event ''now'' =
     Inr ([''siem''], \<lparr> decision_event_id = ''e1'', matched_policies = [''r''], decision_destinations = [''siem''],
        evaluated_at = ''now'', decision_tenant = Some ''t'', delivery_status = None \<rparr>)"
  by (simp add: engine_evaluate_def example_event_def example_rule_def route_def tenant_skips_def rule_matches_def
      extract_tenant_id_def extract_event_id_def extract_field_value_def opt_str_def pget_def Let_def)

theorem process_event_settles_witness:
  "\<exists>app' answer s b. process_event (\<lambda>_ _. None) example_world (Some (PermissionError ''denied'')) ''now'' [0, 0, 0] example_app example_event = (app', answer) \<and>
     get_status ''e1'' ''siem'' (app_tracker app') = Some s \<and> st_status s = (if b then ACKNOWLEDGED else DLQ_PROMOTED)"
proof -
  have eid: "extract_event_id example_event = ''e1''" and id: "py_truthy (submitted_event_id example_event)"
    by (simp_all add: example_event_def extract_event_id_def extract_field_value_def submitted_event_id_def pget_def)
  have app: "app_engine example_app = Some \<lparr> policy_file_path = None, router_rules = [example_rule ''r'' ''t'' ''siem''] \<rparr>"
    "app_retry example_app = Some \<lparr> max_retries = 1, initial_backoff = 1, max_backoff = 5 \<rparr>"
    "pool_ok (app_pool example_app)" "map_of (app_pool example_app) ''siem'' = Some (OpenSearch (new_opensearch ''siem''))"
    using initial_pool_ok by (simp_all add: example_app_def) (simp add: initial_pool_def)
  have fair: "\<forall>i < length [''siem'']. 2 * nat (max_retries \<lparr> max_retries = 1, initial_backoff = 1, max_backoff = 5 \<rparr>) + 1 \<le> count_list [0, 0, 0] i" by simp
  from process_event_settles [OF app(1-3) id example_evaluate fair _ app(4), of example_world "Some (PermissionError ''denied'')"]
  obtain app' answer s b where
    "process_event (\<lambda>_ _. None) example_world (Some (PermissionError ''denied'')) ''now'' [0, 0, 0] example_app example_event = (app', answer)"
    "get_status (extract_event_id example_event) ''siem'' (app_tracker app') = Some s" "st_status s = (if b then ACKNOWLEDGED else DLQ_PROMOTED)" by auto
  then show ?thesis unfolding eid by blast
qed

text \<open>A submission without identifier is refused with 422 and an uninitialised service answers 503,
  and both leave the state of the service as it was.\<close>

theorem process_event_rejects:
  "(app_engine app = None \<or> app_retry app = None \<longrightarrow>
      process_event re w io now sched app event =
        (app, Inl (HTTPException 503 ''M5 application component not initialized''))) \<and>
   (app_engine app \<noteq> None \<and> app_retry app \<noteq> None \<and> \<not> py_truthy (event_id_of event) \<longrightarrow>
      (\<exists>m. process_event re w io now sched app event = (app, Inl (HTTPException 422 m))))"
  by (auto simp: process_event_def submitted_event_id_nested split: option.splits)

theorem process_event_rejects_witness:
  "\<exists>m. process_event (\<lambda>_ _. None) example_world None ''now'' [] example_app [(''x'', PNone)] =
     (example_app, Inl (HTTPException 422 m))"
  using process_event_rejects [of example_app "\<lambda>_ _. None" example_world None "''now''" "[]" "[(''x'', PNone)]"]
  by (simp add: example_app_def event_id_of_def extract_field_value_def pget_def)

end
