(* ===== verification/M4_Config.thy ===== *)
theory M4_Config
  imports Py_Value
begin

section \<open>M4: versioned configurations and their lifecycle\<close>

text \<open>
  \<open>M4/app/config/enrichment_config.py\<close> and \<open>M4/app/config/lifecycle.py\<close>. The configuration manager is a
  dictionary of versions and the active version; its operations return the new manager or raise
  \<open>InvalidConfigurationError\<close>. \<open>lifecycle\<close> is the step relation of the manager, and \<open>manager_reach\<close> its
  reachable states.
\<close>

datatype config_state = DRAFT | ACTIVE | DEPRECATED | ROLLED_BACK

record condition_rule =
  cr_field :: string
  cr_operator :: string
  cr_value :: pyval

definition validate_operator :: "string \<Rightarrow> string result" where
  "validate_operator v =
     (if v \<notin> {''exists'', ''not_exists'', ''equals'', ''in_list'', ''regex_match''}
      then Inl (ValueError (''Invalid condition operator '' @ quoted v)) else Inr v)"

record enrichment_rule =
  er_rule_id :: string
  er_description :: string
  er_enabled :: bool
  er_priority :: int
  er_tenant_scope :: "string list"
  er_conditions :: "condition_rule list"
  er_providers :: "string list"
  er_target_namespace :: "string option"

record enrichment_config =
  cfg_version :: string
  cfg_description :: string
  cfg_state :: config_state
  cfg_enabled_providers :: "string list"
  cfg_provider_priorities :: "(string, int) dict"
  cfg_provider_timeouts :: "(string, rat) dict"
  cfg_cache_enabled :: bool
  cfg_cache_ttl_seconds :: int
  cfg_rules :: "enrichment_rule list"
  cfg_tenant_scopes :: "string list"
  cfg_max_concurrency :: int

text \<open>\<open>^\d+\.\d+\.\d+$\<close> on the stripped version, on strings below 256.\<close>

definition version_format :: "string \<Rightarrow> bool" where
  "version_format s =
     (case split_on CHR ''.'' s of
        [a, b, c] \<Rightarrow> a \<noteq> [] \<and> b \<noteq> [] \<and> c \<noteq> [] \<and> list_all is_digit (a @ b @ c)
      | _ \<Rightarrow> False)"

definition validate_version_format :: "string \<Rightarrow> string result" where
  "validate_version_format v =
     (if \<not> version_format (strip v) then Inl (ValueError (''Version must follow semantic versioning (X.Y.Z): '' @ v))
      else Inr (strip v))"

definition default_config :: enrichment_config where
  "default_config = \<lparr> cfg_version = ''1.0.0'', cfg_description = ''Initial Default Active Configuration'', cfg_state = ACTIVE,
     cfg_enabled_providers = [''asset-local-cmdb'', ''geoip-local-db'', ''threat-intel-local''],
     cfg_provider_priorities = [], cfg_provider_timeouts = [], cfg_cache_enabled = True, cfg_cache_ttl_seconds = 300,
     cfg_rules = [], cfg_tenant_scopes = [''*''], cfg_max_concurrency = 8 \<rparr>"

subsection \<open>The manager\<close>

record config_manager =
  m_configs :: "(string, enrichment_config) dict"
  m_active_version :: "string option"

abbreviation invalid_config :: "string \<Rightarrow> exn" where
  "invalid_config \<equiv> OtherError ''InvalidConfigurationError''"

definition new_manager :: config_manager where
  "new_manager = \<lparr> m_configs = [(cfg_version default_config, default_config)],
     m_active_version = Some (cfg_version default_config) \<rparr>"

definition register_draft :: "enrichment_config \<Rightarrow> config_manager \<Rightarrow> config_manager result" where
  "register_draft config m =
     (if dict_has (cfg_version config) (m_configs m) then
        Inl (invalid_config (''Configuration version '' @ cfg_version config @ '' already exists''))
      else if cfg_state config \<noteq> DRAFT then
        Inl (invalid_config ''New configurations must start in DRAFT state'')
      else Inr (m\<lparr>m_configs := dict_set (cfg_version config) config (m_configs m)\<rparr>))"

definition deprecate_current :: "string \<Rightarrow> config_manager \<Rightarrow> (string, enrichment_config) dict" where
  "deprecate_current version m =
     (case m_active_version m of
        None \<Rightarrow> m_configs m
      | Some a \<Rightarrow>
          (case map_of (m_configs m) a of
             None \<Rightarrow> m_configs m
           | Some current \<Rightarrow>
               if a \<noteq> [] \<and> a \<noteq> version then dict_set a (current\<lparr>cfg_state := DEPRECATED\<rparr>) (m_configs m)
               else m_configs m))"

definition activate :: "string \<Rightarrow> config_manager \<Rightarrow> (config_manager \<times> enrichment_config) result" where
  "activate version m =
     (case map_of (m_configs m) version of
        None \<Rightarrow> Inl (invalid_config (''Configuration version '' @ version @ '' not found''))
      | Some target \<Rightarrow>
          if cfg_state target \<notin> {DRAFT, ROLLED_BACK} then
            Inl (invalid_config ''Cannot activate configuration currently in state'')
          else
            let activated = target\<lparr>cfg_state := ACTIVE\<rparr>
            in Inr (m\<lparr>m_configs := dict_set version activated (deprecate_current version m),
                      m_active_version := Some version\<rparr>, activated))"

definition get_active :: "config_manager \<Rightarrow> enrichment_config result" where
  "get_active m =
     (case m_active_version m of
        None \<Rightarrow> Inl (invalid_config ''No active configuration available'')
      | Some a \<Rightarrow>
          (case map_of (m_configs m) a of
             None \<Rightarrow> Inl (invalid_config ''No active configuration available'')
           | Some c \<Rightarrow> if a = [] then Inl (invalid_config ''No active configuration available'') else Inr c))"

definition rollback :: "string \<Rightarrow> config_manager \<Rightarrow> (config_manager \<times> enrichment_config) result" where
  "rollback target_version m =
     (if \<not> dict_has target_version (m_configs m) then
        Inl (invalid_config (''Configuration version '' @ target_version @ '' not found''))
      else
        rbind (get_active m) (\<lambda>current_active.
          if cfg_version current_active = target_version then
            Inl (invalid_config (''Cannot rollback: version '' @ target_version @ '' is already the active version''))
          else
            let configs = dict_set (cfg_version current_active) (current_active\<lparr>cfg_state := ROLLED_BACK\<rparr>) (m_configs m)
            in case map_of configs target_version of
                 None \<Rightarrow> Inl (KeyError target_version)
               | Some target \<Rightarrow>
                   let activated = target\<lparr>cfg_state := ACTIVE\<rparr>
                   in Inr (m\<lparr>m_configs := dict_set target_version activated configs,
                             m_active_version := Some target_version\<rparr>, activated)))"

definition get_version :: "string \<Rightarrow> config_manager \<Rightarrow> enrichment_config option" where
  "get_version version m = map_of (m_configs m) version"

definition list_configurations :: "config_manager \<Rightarrow> enrichment_config list" where
  "list_configurations m = map snd (m_configs m)"

subsection \<open>Lifecycle\<close>

text \<open>A registered configuration has a version that passed its validator.\<close>

inductive lifecycle :: "config_manager \<Rightarrow> config_manager \<Rightarrow> bool" where
  register: "version_format (cfg_version c) \<Longrightarrow> register_draft c m = Inr m' \<Longrightarrow> lifecycle m m'"
| activate: "activate v m = Inr (m', c) \<Longrightarrow> lifecycle m m'"
| rollback: "rollback v m = Inr (m', c) \<Longrightarrow> lifecycle m m'"

inductive_cases lifecycleE: "lifecycle m m'"

inductive manager_reach :: "config_manager \<Rightarrow> bool" where
  start: "manager_reach new_manager"
| step: "manager_reach m \<Longrightarrow> lifecycle m m' \<Longrightarrow> manager_reach m'"

definition manager_ok :: "config_manager \<Rightarrow> bool" where
  "manager_ok m \<longleftrightarrow>
     (\<forall>v c. map_of (m_configs m) v = Some c \<longrightarrow> cfg_version c = v \<and> v \<noteq> []) \<and>
     (\<exists>a c. m_active_version m = Some a \<and> map_of (m_configs m) a = Some c \<and> cfg_state c = ACTIVE) \<and>
     (\<forall>v c. map_of (m_configs m) v = Some c \<longrightarrow> cfg_state c = ACTIVE \<longrightarrow> m_active_version m = Some v)"

lemma version_format_ne: "version_format v \<Longrightarrow> v \<noteq> []"
  by (auto simp: version_format_def)

lemma new_manager_ok: "manager_ok new_manager"
  by (auto simp: manager_ok_def new_manager_def default_config_def)

lemma manager_okD:
  assumes "manager_ok m" and "map_of (m_configs m) v = Some c"
  shows "cfg_version c = v" and "v \<noteq> []" and "cfg_state c = ACTIVE \<Longrightarrow> m_active_version m = Some v"
  using assms unfolding manager_ok_def by blast+

lemma manager_okI:
  assumes "\<And>v c. map_of (m_configs m) v = Some c \<Longrightarrow> cfg_version c = v \<and> v \<noteq> [] \<and> (cfg_state c = ACTIVE \<longrightarrow> v = a)"
    and "m_active_version m = Some a" and "map_of (m_configs m) a = Some d" and "cfg_state d = ACTIVE"
  shows "manager_ok m"
  unfolding manager_ok_def using assms by blast

lemma manager_okE:
  assumes "manager_ok m"
  obtains a c where "m_active_version m = Some a" "map_of (m_configs m) a = Some c" "cfg_state c = ACTIVE"
    "a \<noteq> []" "cfg_version c = a" "get_active m = Inr c"
proof -
  obtain a c where ac: "m_active_version m = Some a" "map_of (m_configs m) a = Some c" "cfg_state c = ACTIVE"
    using assms unfolding manager_ok_def by blast
  moreover note ne = manager_okD(1,2) [OF assms ac(2)]
  moreover from ac ne have "get_active m = Inr c" by (simp add: get_active_def)
  ultimately show thesis using that by blast
qed

text \<open>Replacing the active version: the old one loses the state \<open>ACTIVE\<close>, another one gets it.\<close>

lemma switch_ok:
  assumes ok: "manager_ok m" and a: "m_active_version m = Some a" and ca: "map_of (m_configs m) a = Some c"
    and v: "map_of (m_configs m) v = Some d" and ne: "v \<noteq> a" and st: "s \<noteq> ACTIVE"
  shows "manager_ok (m\<lparr>m_configs := dict_set v (d\<lparr>cfg_state := ACTIVE\<rparr>) (dict_set a (c\<lparr>cfg_state := s\<rparr>) (m_configs m)),
      m_active_version := Some v\<rparr>)" (is "manager_ok ?m")
proof (rule manager_okI [of _ v "d\<lparr>cfg_state := ACTIVE\<rparr>"])
  fix w x assume x: "map_of (m_configs ?m) w = Some x"
  consider "w = v" | "w = a" "w \<noteq> v" | "w \<noteq> v" "w \<noteq> a" by blast
  then show "cfg_version x = w \<and> w \<noteq> [] \<and> (cfg_state x = ACTIVE \<longrightarrow> w = v)"
  proof cases
    case 1
    then show ?thesis using x manager_okD [OF ok v] by auto
  next
    case 2
    then show ?thesis using x st manager_okD(1,2) [OF ok ca] by auto
  next
    case 3
    then have "map_of (m_configs m) w = Some x" using x by simp
    from manager_okD [OF ok this] 3 a show ?thesis by auto
  qed
qed simp_all

lemma activate_ok: "manager_ok m \<Longrightarrow> activate v m = Inr (m', c) \<Longrightarrow> manager_ok m' \<and> get_active m' = Inr c \<and> cfg_version c = v"
proof -
  assume ok: "manager_ok m" and act: "activate v m = Inr (m', c)"
  obtain a d where a: "m_active_version m = Some a" "map_of (m_configs m) a = Some d" "cfg_state d = ACTIVE" "a \<noteq> []"
    using ok by (rule manager_okE)
  from act obtain t where t: "map_of (m_configs m) v = Some t" "cfg_state t \<in> {DRAFT, ROLLED_BACK}"
    by (auto simp: activate_def split: option.splits if_splits)
  have ne: "v \<noteq> a" using t a by auto
  have m': "m' = m\<lparr>m_configs := dict_set v (t\<lparr>cfg_state := ACTIVE\<rparr>) (dict_set a (d\<lparr>cfg_state := DEPRECATED\<rparr>) (m_configs m)),
      m_active_version := Some v\<rparr>" and c: "c = t\<lparr>cfg_state := ACTIVE\<rparr>"
    using act t a ne by (auto simp: activate_def deprecate_current_def Let_def)
  note manager_okD(1,2) [OF ok t(1)]
  then show ?thesis using switch_ok [OF ok a(1,2) t(1) ne] m' c by (simp add: get_active_def)
qed

lemma rollback_ok: "manager_ok m \<Longrightarrow> rollback v m = Inr (m', c) \<Longrightarrow> manager_ok m' \<and> get_active m' = Inr c \<and> cfg_version c = v"
proof -
  assume ok: "manager_ok m" and rb: "rollback v m = Inr (m', c)"
  obtain a d where a: "m_active_version m = Some a" "map_of (m_configs m) a = Some d" "cfg_version d = a" "get_active m = Inr d"
    using ok by (rule manager_okE)
  have ne: "v \<noteq> a" using rb a by (auto simp: rollback_def split: if_splits)
  from rb obtain t where t: "map_of (m_configs m) v = Some t"
    by (auto simp: rollback_def dict_has_def split: if_splits)
  have m': "m' = m\<lparr>m_configs := dict_set v (t\<lparr>cfg_state := ACTIVE\<rparr>) (dict_set a (d\<lparr>cfg_state := ROLLED_BACK\<rparr>) (m_configs m)),
      m_active_version := Some v\<rparr>" and c: "c = t\<lparr>cfg_state := ACTIVE\<rparr>"
    using rb t a ne by (auto simp: rollback_def dict_has_def Let_def)
  note manager_okD(1,2) [OF ok t]
  then show ?thesis using switch_ok [OF ok a(1,2) t ne] m' c by (simp add: get_active_def)
qed

lemma register_ok: "manager_ok m \<Longrightarrow> version_format (cfg_version c) \<Longrightarrow> register_draft c m = Inr m' \<Longrightarrow> manager_ok m'"
proof -
  assume ok: "manager_ok m" and f: "version_format (cfg_version c)" and r: "register_draft c m = Inr m'"
  have new: "map_of (m_configs m) (cfg_version c) = None" "cfg_state c = DRAFT"
    and m': "m' = m\<lparr>m_configs := dict_set (cfg_version c) c (m_configs m)\<rparr>"
    using r by (auto simp: register_draft_def dict_has_def split: if_splits)
  obtain a d where a: "m_active_version m = Some a" "map_of (m_configs m) a = Some d" "cfg_state d = ACTIVE"
    using ok by (rule manager_okE)
  have ne: "a \<noteq> cfg_version c" using new a by auto
  show ?thesis unfolding m'
  proof (rule manager_okI [of _ a d])
    fix w x assume x: "map_of (m_configs (m\<lparr>m_configs := dict_set (cfg_version c) c (m_configs m)\<rparr>)) w = Some x"
    show "cfg_version x = w \<and> w \<noteq> [] \<and> (cfg_state x = ACTIVE \<longrightarrow> w = a)"
    proof (cases "w = cfg_version c")
      case True
      then show ?thesis using x new version_format_ne [OF f] by simp
    next
      case False
      then have "map_of (m_configs m) w = Some x" using x by simp
      from manager_okD [OF ok this] a(1) show ?thesis by auto
    qed
  qed (use a ne in simp_all)
qed

lemma lifecycle_ok: "lifecycle m m' \<Longrightarrow> manager_ok m \<Longrightarrow> manager_ok m'"
  by (cases rule: lifecycle.cases) (auto dest: register_ok activate_ok rollback_ok)

lemma manager_reach_ok: "manager_reach m \<Longrightarrow> manager_ok m"
  by (induction rule: manager_reach.induct) (auto intro: new_manager_ok lifecycle_ok)

subsection \<open>Properties\<close>

text \<open>(C32) In every reachable state of the configuration manager exactly one version is active, it is the
  recorded active version, and \<open>get_active\<close> returns it.\<close>

theorem one_active_version:
  assumes "manager_reach m"
  shows "\<exists>a c. m_active_version m = Some a \<and> get_active m = Inr c \<and> cfg_version c = a \<and>
    (\<forall>v d. get_version v m = Some d \<longrightarrow> (cfg_state d = ACTIVE \<longleftrightarrow> v = a))"
proof -
  have ok: "manager_ok m" by (rule manager_reach_ok [OF assms])
  obtain a c where a: "m_active_version m = Some a" "map_of (m_configs m) a = Some c" "cfg_state c = ACTIVE"
    "cfg_version c = a" "get_active m = Inr c" using ok by (rule manager_okE)
  have "cfg_state d = ACTIVE \<longleftrightarrow> v = a" if "get_version v m = Some d" for v d
  proof
    assume "cfg_state d = ACTIVE"
    then show "v = a" using manager_okD(3) [OF ok, of v d] that a(1) by (simp add: get_version_def)
  next
    assume "v = a"
    then show "cfg_state d = ACTIVE" using that a(2,3) by (simp add: get_version_def)
  qed
  then show ?thesis using a(1,4,5) by (intro exI [of _ a] exI [of _ c]) simp
qed

definition example_draft :: enrichment_config where
  "example_draft = default_config\<lparr>cfg_version := ''1.1.0'', cfg_state := DRAFT\<rparr>"

lemma example_draft_reach:
  "manager_reach \<lparr> m_configs = [(''1.0.0'', default_config), (''1.1.0'', example_draft)], m_active_version = Some ''1.0.0'' \<rparr>"
proof (rule manager_reach.step [OF manager_reach.start])
  show "lifecycle new_manager \<lparr> m_configs = [(''1.0.0'', default_config), (''1.1.0'', example_draft)], m_active_version = Some ''1.0.0'' \<rparr>"
    by (rule lifecycle.register [of example_draft])
       (simp_all add: example_draft_def default_config_def version_format_def is_digit_def code_def register_draft_def
         new_manager_def dict_has_def)
qed

theorem one_active_version_witness:
  "\<exists>a c. m_active_version \<lparr> m_configs = [(''1.0.0'', default_config), (''1.1.0'', example_draft)], m_active_version = Some ''1.0.0'' \<rparr> = Some a \<and>
     get_active \<lparr> m_configs = [(''1.0.0'', default_config), (''1.1.0'', example_draft)], m_active_version = Some ''1.0.0'' \<rparr> = Inr c \<and>
     cfg_version c = a"
  using one_active_version [OF example_draft_reach] by blast

text \<open>Activation and rollback make exactly the requested version active and keep every other
  configuration except that the previous active one becomes deprecated or rolled back.\<close>

theorem switch_version:
  assumes "manager_reach m" and "get_active m = Inr cur"
    and "activate v m = Inr (m', c) \<and> s = DEPRECATED \<or> rollback v m = Inr (m', c) \<and> s = ROLLED_BACK"
  shows "get_active m' = Inr c \<and> cfg_version c = v \<and> v \<noteq> cfg_version cur \<and>
    get_version (cfg_version cur) m' = Some (cur\<lparr>cfg_state := s\<rparr>) \<and>
    (\<forall>w. w \<noteq> v \<longrightarrow> w \<noteq> cfg_version cur \<longrightarrow> get_version w m' = get_version w m)"
proof -
  have ok: "manager_ok m" by (rule manager_reach_ok [OF assms(1)])
  obtain a d where a: "m_active_version m = Some a" "map_of (m_configs m) a = Some d" "cfg_state d = ACTIVE"
    "a \<noteq> []" "cfg_version d = a" "get_active m = Inr d" using ok by (rule manager_okE)
  then have cur: "cur = d" using assms(2) by simp
  have ne: "v \<noteq> a"
    using assms(3) a by (auto simp: activate_def rollback_def split: option.splits if_splits)
  have "get_active m' = Inr c \<and> cfg_version c = v"
    using assms(3) activate_ok [OF ok] rollback_ok [OF ok] by blast
  moreover have "\<exists>x. m_configs m' = dict_set v x (dict_set a (d\<lparr>cfg_state := s\<rparr>) (m_configs m))"
    using assms(3) a ne
    by (auto simp: activate_def rollback_def deprecate_current_def Let_def split: option.splits if_splits)
  ultimately show ?thesis using cur ne a(5) by (auto simp: get_version_def)
qed

theorem switch_version_witness:
  "\<exists>m' c. activate ''1.1.0'' \<lparr> m_configs = [(''1.0.0'', default_config), (''1.1.0'', example_draft)], m_active_version = Some ''1.0.0'' \<rparr> = Inr (m', c) \<and>
     get_version ''1.0.0'' m' = Some (default_config\<lparr>cfg_state := DEPRECATED\<rparr>)"
proof -
  let ?m = "\<lparr> m_configs = [(''1.0.0'', default_config), (''1.1.0'', example_draft)], m_active_version = Some ''1.0.0'' \<rparr>"
  have act: "get_active ?m = Inr default_config" by (simp add: get_active_def)
  obtain m' c where run: "activate ''1.1.0'' ?m = Inr (m', c)"
    by (simp add: activate_def example_draft_def default_config_def Let_def)
  from switch_version [OF example_draft_reach act, of "''1.1.0''" m' c DEPRECATED] run
  show ?thesis by (auto simp: default_config_def)
qed

text \<open>\<open>rollback\<close> accepts a version that was never active: a draft becomes active by rollback,
  although its contract speaks of a previously active or deprecated version.\<close>

theorem rollback_activates_draft:
  "\<exists>m m' c. manager_reach m \<and> get_version ''1.1.0'' m = Some example_draft \<and> cfg_state example_draft = DRAFT \<and>
     rollback ''1.1.0'' m = Inr (m', c) \<and> get_active m' = Inr (example_draft\<lparr>cfg_state := ACTIVE\<rparr>)"
proof -
  let ?m = "\<lparr> m_configs = [(''1.0.0'', default_config), (''1.1.0'', example_draft)], m_active_version = Some ''1.0.0'' \<rparr>"
  have "\<exists>m' c. rollback ''1.1.0'' ?m = Inr (m', c) \<and> get_active m' = Inr (example_draft\<lparr>cfg_state := ACTIVE\<rparr>)"
    by (simp add: rollback_def dict_has_def get_active_def default_config_def Let_def)
  moreover have "get_version ''1.1.0'' ?m = Some example_draft" "cfg_state example_draft = DRAFT"
    by (simp_all add: get_version_def example_draft_def)
  ultimately show ?thesis using example_draft_reach by blast
qed

end
