(* ===== verification/Bounded_Map.thy ===== *)
theory Bounded_Map
  imports Prelude
begin

section \<open>Bounded stores\<close>

text \<open>
  What a client of a bounded store relies on: a stored value is found at once, storing never changes
  the value of another key except to forget it, and the number of entries stays below the capacity. The
  enrichment cache of M4 and the duplicate tracker of the integration layer are instances.
\<close>

locale bounded_map =
  fixes ok :: "'s \<Rightarrow> bool"
    and look :: "'s \<Rightarrow> 'k \<Rightarrow> 'v option"
    and store :: "'k \<Rightarrow> 'v \<Rightarrow> 's \<Rightarrow> 's"
    and entries :: "'s \<Rightarrow> nat"
    and capacity :: "'s \<Rightarrow> nat"
  assumes store_ok: "ok s \<Longrightarrow> ok (store k v s)"
    and store_same: "ok s \<Longrightarrow> look (store k v s) k = Some v"
    and store_other: "ok s \<Longrightarrow> k' \<noteq> k \<Longrightarrow> look (store k v s) k' = look s k' \<or> look (store k v s) k' = None"
    and store_bound: "ok s \<Longrightarrow> entries (store k v s) \<le> capacity s"
    and store_capacity: "capacity (store k v s) = capacity s"
begin

definition store_all :: "('k \<times> 'v) list \<Rightarrow> 's \<Rightarrow> 's" where
  "store_all kvs s = fold (\<lambda>(k, v). store k v) kvs s"

lemma store_all_ok: "ok s \<Longrightarrow> ok (store_all kvs s)"
  by (induction kvs arbitrary: s) (auto simp: store_all_def store_ok)

lemma store_all_bound: "ok s \<Longrightarrow> kvs \<noteq> [] \<Longrightarrow> entries (store_all kvs s) \<le> capacity s"
proof (induction kvs arbitrary: s)
  case (Cons p kvs)
  obtain k v where p: "p = (k, v)" by (cases p)
  show ?case
  proof (cases "kvs = []")
    case True
    then show ?thesis using Cons.prems p by (simp add: store_all_def store_bound)
  next
    case False
    then show ?thesis using Cons.IH [of "store k v s"] Cons.prems p
      by (simp add: store_all_def store_ok store_capacity)
  qed
qed simp

text \<open>The store never lies: a value found after any sequence of stores is the last one stored.\<close>

lemma store_all_sound:
  "ok s \<Longrightarrow> look (store_all kvs s) k = Some v \<Longrightarrow> map_of (rev kvs) k = Some v \<or> map_of (rev kvs) k = None \<and> look s k = Some v"
proof (induction kvs arbitrary: s)
  case (Cons p kvs)
  obtain a b where p: "p = (a, b)" by (cases p)
  from Cons.prems p have "look (store_all kvs (store a b s)) k = Some v" by (simp add: store_all_def)
  from Cons.IH [OF store_ok [OF Cons.prems(1)] this]
  show ?case using store_same [OF Cons.prems(1), of a b] store_other [OF Cons.prems(1), of k a b] p
    by (cases "k = a") (auto simp: map_add_Some_iff map_add_None)
qed (simp add: store_all_def)

end

end
