(* ===== verification/M4_Cache.thy ===== *)
theory M4_Cache
  imports Py_Value Bounded_Map
begin

section \<open>M4: tenants, provenance records and the enrichment cache\<close>

text \<open>
  \<open>M4/app/models/common.py\<close>, \<open>models/tenant.py\<close>, \<open>contracts/provenance_contract.py\<close>,
  \<open>security/tenant_guard.py\<close>, \<open>cache/base.py\<close> and \<open>cache/memory_lru.py\<close>. Points in time are seconds since an
  epoch (rationals); the ISO strings the code stores stand for them. The interface \<open>bounded_map\<close> states
  what a client of a bounded store may rely on, and \<open>MemoryLRUCache\<close> provides it.
\<close>

subsection \<open>Enumerations\<close>

datatype enrichment_status = SUCCESS | PARTIAL | FAILED | SKIPPED | TIMEOUT | NOT_FOUND

datatype cache_status = HIT | MISS | BYPASS

fun status_value :: "enrichment_status \<Rightarrow> string" where
  "status_value SUCCESS = ''SUCCESS''"
| "status_value PARTIAL = ''PARTIAL''"
| "status_value FAILED = ''FAILED''"
| "status_value SKIPPED = ''SKIPPED''"
| "status_value TIMEOUT = ''TIMEOUT''"
| "status_value NOT_FOUND = ''NOT_FOUND''"

fun cache_status_value :: "cache_status \<Rightarrow> string" where
  "cache_status_value HIT = ''HIT''"
| "cache_status_value MISS = ''MISS''"
| "cache_status_value BYPASS = ''BYPASS''"

subsection \<open>Tenants\<close>

definition id_char :: "char \<Rightarrow> bool" where
  "id_char c = (let n = code c in (97 \<le> n \<and> n \<le> 122) \<or> (65 \<le> n \<and> n \<le> 90) \<or> is_digit c \<or>
     c = CHR ''_'' \<or> c = CHR ''-'' \<or> c = CHR ''.'')"

text \<open>The expression \<open>[a-zA-Z0-9_.-]{1,128}\<close>, anchored; \<open>$\<close> would also accept a final newline, which the
  preceding \<open>strip\<close> removes.\<close>

definition id_format :: "string \<Rightarrow> bool" where
  "id_format s = (1 \<le> length s \<and> length s \<le> 128 \<and> list_all id_char s)"

definition validate_tenant_id :: "string \<Rightarrow> string result" where
  "validate_tenant_id v =
     (if v = [] \<or> strip v = [] then Inl (ValueError ''tenant_id cannot be empty'')
      else let v_clean = strip v in
        if \<not> id_format v_clean then Inl (ValueError (''Invalid tenant_id format: '' @ v_clean))
        else Inr v_clean)"

record m4_tenant_context =
  tc_tenant_id :: string
  tc_scope :: pydict
  tc_configuration_version :: string

definition new_tenant_context :: "string \<Rightarrow> pydict \<Rightarrow> string \<Rightarrow> m4_tenant_context result" where
  "new_tenant_context t scope version =
     rbind (validate_tenant_id t) (\<lambda>t'.
       Inr \<lparr> tc_tenant_id = t', tc_scope = scope, tc_configuration_version = version \<rparr>)"

definition build_tenant_cache_key :: "string \<Rightarrow> string \<Rightarrow> string \<Rightarrow> string \<Rightarrow> bool \<Rightarrow> string" where
  "build_tenant_cache_key tenant_id provider_id lookup_type lookup_key is_global =
     (let effective_tenant = (if is_global then ''__global__'' else tenant_id)
      in effective_tenant @ '':'' @ provider_id @ '':'' @ lookup_type @ '':'' @ lookup_key)"

subsection \<open>Provenance records\<close>

record enrichment_provenance =
  pr_provider_id :: string
  pr_provider_version :: string
  pr_enrichment_type :: string
  pr_lookup_timestamp :: string
  pr_confidence :: rat
  pr_result_status :: enrichment_status
  pr_source_reference :: "string option"
  pr_configuration_version :: string
  pr_cache_status :: cache_status

text \<open>\<open>round(v, 4)\<close>: the double nearest to the decimal with four places nearest to \<open>v\<close>.\<close>

definition round4 :: "rat \<Rightarrow> rat" where
  "round4 v = (case round_double (of_int (round_half_even (v * 10000)) / 10000) of FFin x \<Rightarrow> x | _ \<Rightarrow> v)"

definition validate_confidence :: "rat \<Rightarrow> rat result" where
  "validate_confidence v =
     (if \<not> (0 \<le> v \<and> v \<le> 1) then Inl (ValueError ''Confidence must be between 0.0 and 1.0'') else Inr (round4 v))"

definition provenance_dump :: "enrichment_provenance \<Rightarrow> pyval" where
  "provenance_dump r = PDict
     [(''provider_id'', PStr (pr_provider_id r)), (''provider_version'', PStr (pr_provider_version r)),
      (''enrichment_type'', PStr (pr_enrichment_type r)), (''lookup_timestamp'', PStr (pr_lookup_timestamp r)),
      (''confidence'', PFloat (FFin (pr_confidence r))), (''result_status'', PStr (status_value (pr_result_status r))),
      (''source_reference'', (case pr_source_reference r of None \<Rightarrow> PNone | Some s \<Rightarrow> PStr s)),
      (''configuration_version'', PStr (pr_configuration_version r)),
      (''cache_status'', PStr (cache_status_value (pr_cache_status r)))]"

subsection \<open>Cache entries and the LRU cache\<close>

record cache_entry =
  ce_provider_id :: string
  ce_provider_version :: string
  ce_tenant_id :: string
  ce_lookup_type :: string
  ce_lookup_key :: string
  ce_cached_at :: rat
  ce_ttl_seconds :: int
  ce_data :: pydict
  ce_provenance :: enrichment_provenance
  ce_is_global :: bool

definition is_expired :: "rat \<Rightarrow> cache_entry \<Rightarrow> bool" where
  "is_expired now e = (of_int (ce_ttl_seconds e) < now - ce_cached_at e)"

record lru_cache =
  lru_max_size :: nat
  lru_entries :: "(string, cache_entry) dict"

definition cache_get :: "rat \<Rightarrow> string \<Rightarrow> string \<Rightarrow> string \<Rightarrow> string \<Rightarrow> bool \<Rightarrow> lru_cache \<Rightarrow>
    lru_cache \<times> cache_entry option" where
  "cache_get now tenant_id provider_id lookup_type lookup_key is_global c =
     (let key = build_tenant_cache_key tenant_id provider_id lookup_type lookup_key is_global in
      case map_of (lru_entries c) key of
        None \<Rightarrow> (c, None)
      | Some entry \<Rightarrow>
          if is_expired now entry then (c\<lparr>lru_entries := dict_del key (lru_entries c)\<rparr>, None)
          else (c\<lparr>lru_entries := move_to_end key (lru_entries c)\<rparr>, Some entry))"

text \<open>The body of \<open>set\<close> under the lock; \<open>popitem\<close> on the empty dictionary raises \<open>KeyError\<close>.\<close>

definition lru_store :: "string \<Rightarrow> cache_entry \<Rightarrow> lru_cache \<Rightarrow> lru_cache result" where
  "lru_store key entry c =
     (if dict_has key (lru_entries c) then
        Inr (c\<lparr>lru_entries := dict_set key entry (move_to_end key (lru_entries c))\<rparr>)
      else if lru_max_size c \<le> length (lru_entries c) then
        (if lru_entries c = [] then Inl (KeyError ''dictionary is empty'')
         else Inr (c\<lparr>lru_entries := dict_set key entry (popitem_first (lru_entries c))\<rparr>))
      else Inr (c\<lparr>lru_entries := dict_set key entry (lru_entries c)\<rparr>))"

definition new_entry :: "rat \<Rightarrow> string \<Rightarrow> string \<Rightarrow> string \<Rightarrow> string \<Rightarrow> pydict \<Rightarrow> enrichment_provenance \<Rightarrow> int \<Rightarrow> bool \<Rightarrow>
    cache_entry" where
  "new_entry now tenant_id provider_id lookup_type lookup_key data prov ttl is_global =
     \<lparr> ce_provider_id = provider_id, ce_provider_version = pr_provider_version prov, ce_tenant_id = tenant_id,
       ce_lookup_type = lookup_type, ce_lookup_key = lookup_key, ce_cached_at = now, ce_ttl_seconds = ttl,
       ce_data = data, ce_provenance = prov, ce_is_global = is_global \<rparr>"

definition cache_set :: "rat \<Rightarrow> string \<Rightarrow> string \<Rightarrow> string \<Rightarrow> string \<Rightarrow> pydict \<Rightarrow> enrichment_provenance \<Rightarrow> int \<Rightarrow> bool \<Rightarrow>
    lru_cache \<Rightarrow> lru_cache result" where
  "cache_set now tenant_id provider_id lookup_type lookup_key data prov ttl is_global c =
     lru_store (build_tenant_cache_key tenant_id provider_id lookup_type lookup_key is_global)
       (new_entry now tenant_id provider_id lookup_type lookup_key data prov ttl is_global) c"

definition cache_invalidate :: "string \<Rightarrow> string \<Rightarrow> string \<Rightarrow> string \<Rightarrow> bool \<Rightarrow> lru_cache \<Rightarrow> lru_cache \<times> bool" where
  "cache_invalidate tenant_id provider_id lookup_type lookup_key is_global c =
     (let key = build_tenant_cache_key tenant_id provider_id lookup_type lookup_key is_global in
      if dict_has key (lru_entries c) then (c\<lparr>lru_entries := dict_del key (lru_entries c)\<rparr>, True) else (c, False))"

definition cache_clear :: "lru_cache \<Rightarrow> lru_cache" where
  "cache_clear c = c\<lparr>lru_entries := []\<rparr>"

definition cache_size :: "lru_cache \<Rightarrow> nat" where
  "cache_size c = length (lru_entries c)"

subsection \<open>Key isolation\<close>

lemma id_format_no_colon: "id_format t \<Longrightarrow> CHR '':'' \<notin> set t"
  by (auto simp: id_format_def list_all_iff id_char_def is_digit_def code_def Let_def)

lemma validate_tenant_id_format: "validate_tenant_id v = Inr t \<Longrightarrow> id_format t \<and> strip t = t"
  by (auto simp: validate_tenant_id_def Let_def split: if_splits)

lemma key_tenant_inj:
  assumes "CHR '':'' \<notin> set t" and "CHR '':'' \<notin> set t'"
    and "t @ '':'' @ r = t' @ '':'' @ r'"
  shows "t = t'"
proof -
  have "split_on CHR '':'' (t @ '':'' @ r) = t # split_on CHR '':'' r"
    and "split_on CHR '':'' (t' @ '':'' @ r') = t' # split_on CHR '':'' r'"
    using assms(1,2) by (simp_all add: split_on_append_sep)
  then show ?thesis using assms(3) by (metis list.inject)
qed

subsection \<open>The LRU cache is a bounded store\<close>

definition lru_ok :: "lru_cache \<Rightarrow> bool" where
  "lru_ok c \<longleftrightarrow> dict_wf (lru_entries c) \<and> length (lru_entries c) \<le> lru_max_size c \<and> 0 < lru_max_size c"

definition lru_put :: "string \<Rightarrow> cache_entry \<Rightarrow> lru_cache \<Rightarrow> lru_cache" where
  "lru_put key entry c = (case lru_store key entry c of Inr c' \<Rightarrow> c' | Inl _ \<Rightarrow> c)"

lemma dict_has_popitem: "dict_wf d \<Longrightarrow> dict_has k (popitem_first d) \<Longrightarrow> dict_has k d"
  by (auto simp: dict_has_def map_of_popitem_first split: if_splits)

lemma lru_store_total: "lru_ok c \<Longrightarrow> \<exists>c'. lru_store key entry c = Inr c'"
  by (cases "lru_entries c") (auto simp: lru_store_def lru_ok_def)

lemma lru_replace:
  assumes "lru_ok c" and "dict_wf d" and "length (dict_set key entry d) \<le> lru_max_size c"
    and "\<And>k. map_of d k = map_of (lru_entries c) k \<or> map_of d k = None"
  shows "lru_ok (c\<lparr>lru_entries := dict_set key entry d\<rparr>) \<and>
    (\<forall>k. k \<noteq> key \<longrightarrow> map_of (dict_set key entry d) k = map_of (lru_entries c) k \<or> map_of (dict_set key entry d) k = None)"
  using assms by (simp add: lru_ok_def)

lemma lru_store_cases:
  assumes "lru_ok c" and "lru_store key entry c = Inr c'"
  shows "lru_ok c' \<and> lru_max_size c' = lru_max_size c \<and> map_of (lru_entries c') key = Some entry \<and>
    (\<forall>k. k \<noteq> key \<longrightarrow> map_of (lru_entries c') k = map_of (lru_entries c) k \<or> map_of (lru_entries c') k = None)"
proof -
  have wf: "dict_wf (lru_entries c)" and len: "length (lru_entries c) \<le> lru_max_size c" and pos: "0 < lru_max_size c"
    using assms(1) by (simp_all add: lru_ok_def)
  obtain d where d: "c' = c\<lparr>lru_entries := dict_set key entry d\<rparr>" "dict_wf d" "length (dict_set key entry d) \<le> lru_max_size c"
    "\<And>k. map_of d k = map_of (lru_entries c) k \<or> map_of d k = None"
  proof (cases "dict_has key (lru_entries c)")
    case True
    then have "dict_has key (move_to_end key (lru_entries c))" using wf by (simp add: dict_has_def)
    with True that [of "move_to_end key (lru_entries c)"] assms(2) wf len show ?thesis
      by (simp add: lru_store_def length_dict_set)
  next
    case False
    show ?thesis
    proof (cases "lru_max_size c \<le> length (lru_entries c)")
      case True
      have "\<not> dict_has key (popitem_first (lru_entries c))" using False dict_has_popitem [OF wf] by blast
      moreover have "length (popitem_first (lru_entries c)) = length (lru_entries c) - 1"
        by (simp add: popitem_first_def)
      moreover have "lru_entries c \<noteq> []" using True pos by auto
      ultimately show ?thesis
        using that [of "popitem_first (lru_entries c)"] False True assms(2) wf len pos
        by (simp add: lru_store_def length_dict_set map_of_popitem_first)
    next
      case F: False
      with False that [of "lru_entries c"] assms(2) wf show ?thesis
        by (simp add: lru_store_def length_dict_set)
    qed
  qed
  from lru_replace [OF assms(1) d(2-4)] d(1) show ?thesis by simp
qed

interpretation lru: bounded_map lru_ok "\<lambda>c. map_of (lru_entries c)" lru_put cache_size lru_max_size
proof unfold_locales
  fix c key entry
  have st: "lru_store key entry c = Inr (lru_put key entry c)" if "lru_ok c"
    using lru_store_total [OF that, of key entry] by (auto simp: lru_put_def)
  note c = lru_store_cases [OF _ st]
  show "lru_ok (lru_put key entry c)" if "lru_ok c" using c [OF that that] by simp
  show "map_of (lru_entries (lru_put key entry c)) key = Some entry" if "lru_ok c"
    using c [OF that that] by simp
  show "map_of (lru_entries (lru_put key entry c)) k' = map_of (lru_entries c) k' \<or>
      map_of (lru_entries (lru_put key entry c)) k' = None" if "lru_ok c" "k' \<noteq> key" for k'
    using c [OF that(1) that(1)] that(2) by simp
  show "cache_size (lru_put key entry c) \<le> lru_max_size c" if "lru_ok c"
    using c [OF that that] by (simp add: cache_size_def lru_ok_def)
  show "lru_max_size (lru_put key entry c) = lru_max_size c"
    by (auto simp: lru_put_def lru_store_def split: sum.splits if_splits)
qed

subsection \<open>Reachable caches\<close>

definition entry_key :: "cache_entry \<Rightarrow> string" where
  "entry_key e = build_tenant_cache_key (ce_tenant_id e) (ce_provider_id e) (ce_lookup_type e) (ce_lookup_key e) (ce_is_global e)"

inductive cache_reach :: "nat \<Rightarrow> lru_cache \<Rightarrow> bool" for n where
  init: "cache_reach n \<lparr> lru_max_size = n, lru_entries = [] \<rparr>"
| get: "cache_reach n c \<Longrightarrow> cache_reach n (fst (cache_get now t p lt lk g c))"
| set: "cache_reach n c \<Longrightarrow> id_format t \<Longrightarrow> cache_set now t p lt lk data prov ttl g c = Inr c' \<Longrightarrow> cache_reach n c'"
| invalidate: "cache_reach n c \<Longrightarrow> cache_reach n (fst (cache_invalidate t p lt lk g c))"
| clear: "cache_reach n c \<Longrightarrow> cache_reach n (cache_clear c)"

definition tagged :: "lru_cache \<Rightarrow> bool" where
  "tagged c \<longleftrightarrow> (\<forall>k e. map_of (lru_entries c) k = Some e \<longrightarrow> k = entry_key e \<and> id_format (ce_tenant_id e))"

lemma cache_get_ok: "lru_ok c \<Longrightarrow> lru_ok (fst (cache_get now t p lt lk g c))"
  by (auto simp: cache_get_def lru_ok_def Let_def le_trans [OF length_dict_del_le] split: option.splits)

lemma cache_get_sub:
  "lru_ok c \<Longrightarrow> map_of (lru_entries (fst (cache_get now t p lt lk g c))) k = Some e \<Longrightarrow> map_of (lru_entries c) k = Some e"
  by (auto simp: cache_get_def lru_ok_def Let_def split: option.splits if_splits)

lemma cache_invalidate_ok: "lru_ok c \<Longrightarrow> lru_ok (fst (cache_invalidate t p lt lk g c))"
  by (auto simp: cache_invalidate_def lru_ok_def Let_def le_trans [OF length_dict_del_le])

lemma cache_reach_inv: "cache_reach n c \<Longrightarrow> 0 < n \<Longrightarrow> lru_ok c \<and> tagged c \<and> lru_max_size c = n"
proof (induction rule: cache_reach.induct)
  case init
  then show ?case by (simp add: lru_ok_def tagged_def)
next
  case (get c now t p lt lk g)
  moreover have "lru_max_size (fst (cache_get now t p lt lk g c)) = lru_max_size c"
    by (simp add: cache_get_def Let_def split: option.splits)
  moreover have "tagged (fst (cache_get now t p lt lk g c))"
    unfolding tagged_def using get cache_get_sub by (metis tagged_def)
  ultimately show ?case using cache_get_ok by simp
next
  case (set c t now p lt lk data prov ttl g c')
  then have ok: "lru_ok c" and tag: "tagged c" and n: "lru_max_size c = n" by simp_all
  let ?e = "new_entry now t p lt lk data prov ttl g"
  let ?k = "build_tenant_cache_key t p lt lk g"
  have e: "entry_key ?e = ?k" "ce_tenant_id ?e = t" by (simp_all add: entry_key_def new_entry_def)
  note c = lru_store_cases [OF ok set.hyps(3) [unfolded cache_set_def]]
  have "k = entry_key x \<and> id_format (ce_tenant_id x)" if x: "map_of (lru_entries c') k = Some x" for k x
  proof (cases "k = ?k")
    case True
    then show ?thesis using c x e set.hyps(2) by simp
  next
    case False
    then have "map_of (lru_entries c) k = Some x" using c x by fastforce
    then show ?thesis using tag by (simp add: tagged_def)
  qed
  then show ?case using c n by (simp add: tagged_def)
next
  case (invalidate c t p lt lk g)
  then have "lru_ok (fst (cache_invalidate t p lt lk g c))" using cache_invalidate_ok by simp
  moreover have "tagged (fst (cache_invalidate t p lt lk g c))" "lru_max_size (fst (cache_invalidate t p lt lk g c)) = n"
    using invalidate by (simp_all add: tagged_def cache_invalidate_def Let_def)
  ultimately show ?case by simp
next
  case (clear c)
  then show ?case by (simp add: cache_clear_def lru_ok_def tagged_def)
qed

subsection \<open>Properties\<close>

text \<open>(C12) In every cache that its operations reach from an empty one of positive capacity, for tenants of the accepted format: a lookup of a tenant returns
  only an entry that was stored for that tenant and not as a global one, and a global lookup only a global one. The one exception is the tenant
  with the reserved name \<open>__global__\<close>, which the format accepts: it shares the entries of the global lookups.\<close>

theorem cache_tenant_isolation:
  assumes "cache_reach n c" and "0 < n" and "id_format t" and "snd (cache_get now t p lt lk g c) = Some e"
  shows "if g then ce_is_global e \<or> ce_tenant_id e = ''__global__''
    else (ce_tenant_id e = t \<and> \<not> ce_is_global e) \<or> (t = ''__global__'' \<and> ce_is_global e)"
proof -
  let ?own = "if g then ''__global__'' else t" and ?its = "if ce_is_global e then ''__global__'' else ce_tenant_id e"
  have "map_of (lru_entries c) (build_tenant_cache_key t p lt lk g) = Some e"
    using assms(4) by (auto simp: cache_get_def Let_def split: option.splits if_splits)
  then have key: "build_tenant_cache_key t p lt lk g = entry_key e" and f: "id_format (ce_tenant_id e)"
    using cache_reach_inv [OF assms(1,2)] by (auto simp: tagged_def)
  have "?own = ?its"
  proof (rule key_tenant_inj)
    show "CHR '':'' \<notin> set ?own" using id_format_no_colon [OF assms(3)] by simp
    show "CHR '':'' \<notin> set ?its" using id_format_no_colon [OF f] by simp
    show "?own @ '':'' @ p @ '':'' @ lt @ '':'' @ lk =
      ?its @ '':'' @ ce_provider_id e @ '':'' @ ce_lookup_type e @ '':'' @ ce_lookup_key e"
      using key by (simp add: entry_key_def build_tenant_cache_key_def)
  qed
  then show ?thesis by (auto split: if_splits)
qed

definition example_prov :: enrichment_provenance where
  "example_prov = \<lparr> pr_provider_id = ''p'', pr_provider_version = ''1'', pr_enrichment_type = ''geo'',
     pr_lookup_timestamp = ''now'', pr_confidence = 1, pr_result_status = SUCCESS, pr_source_reference = None,
     pr_configuration_version = ''1.0.0'', pr_cache_status = MISS \<rparr>"

lemma example_cache_reach:
  "cache_reach 1 \<lparr> lru_max_size = 1, lru_entries =
     [(build_tenant_cache_key t ''p'' ''geo'' ''k'' g, new_entry 0 t ''p'' ''geo'' ''k'' [] example_prov 60 g)] \<rparr>"
  if "id_format t"
  by (rule cache_reach.set [OF cache_reach.init that, of 0 "''p''" "''geo''" "''k''" "[]" example_prov 60 g])
     (simp add: cache_set_def lru_store_def dict_has_def)

theorem cache_tenant_isolation_witness:
  "ce_tenant_id (new_entry 0 ''acme'' ''p'' ''geo'' ''k'' [] example_prov 60 False) = ''acme'' \<and>
   \<not> ce_is_global (new_entry 0 ''acme'' ''p'' ''geo'' ''k'' [] example_prov 60 False)"
proof -
  have f: "id_format ''acme''" by (simp add: id_format_def id_char_def code_def is_digit_def Let_def)
  have "snd (cache_get 1 ''acme'' ''p'' ''geo'' ''k'' False \<lparr> lru_max_size = 1, lru_entries =
     [(build_tenant_cache_key ''acme'' ''p'' ''geo'' ''k'' False, new_entry 0 ''acme'' ''p'' ''geo'' ''k'' [] example_prov 60 False)] \<rparr>) =
     Some (new_entry 0 ''acme'' ''p'' ''geo'' ''k'' [] example_prov 60 False)"
    by (simp add: cache_get_def is_expired_def new_entry_def Let_def)
  from cache_tenant_isolation [OF example_cache_reach [OF f, of False] _ f this] show ?thesis by simp
qed

text \<open>The reserved word is not excluded by the validation of tenant identifiers: the tenant
  \<open>__global__\<close> is accepted, and its lookups return entries that were stored as global.\<close>

theorem cache_global_collision:
  "validate_tenant_id ''__global__'' = Inr ''__global__'' \<and>
   (\<exists>c e. cache_reach 1 c \<and> snd (cache_get 1 ''__global__'' ''p'' ''geo'' ''k'' False c) = Some e \<and>
      ce_tenant_id e = ''acme'' \<and> ce_is_global e)"
proof -
  have f: "id_format ''acme''" by (simp add: id_format_def id_char_def code_def is_digit_def Let_def)
  have "validate_tenant_id ''__global__'' = Inr ''__global__''"
    by (simp add: validate_tenant_id_def strip_def lstrip_by_def rstrip_by_def is_space_def code_def id_format_def
        id_char_def is_digit_def Let_def)
  moreover have "snd (cache_get 1 ''__global__'' ''p'' ''geo'' ''k'' False \<lparr> lru_max_size = 1, lru_entries =
     [(build_tenant_cache_key ''acme'' ''p'' ''geo'' ''k'' True, new_entry 0 ''acme'' ''p'' ''geo'' ''k'' [] example_prov 60 True)] \<rparr>) =
     Some (new_entry 0 ''acme'' ''p'' ''geo'' ''k'' [] example_prov 60 True)"
    by (simp add: cache_get_def build_tenant_cache_key_def is_expired_def new_entry_def Let_def)
  moreover have "ce_tenant_id (new_entry 0 ''acme'' ''p'' ''geo'' ''k'' [] example_prov 60 True) = ''acme''"
    "ce_is_global (new_entry 0 ''acme'' ''p'' ''geo'' ''k'' [] example_prov 60 True)"
    by (simp_all add: new_entry_def)
  ultimately show ?thesis using example_cache_reach [OF f, of True] by blast
qed

text \<open>Storing and finding: a value stored in a reachable cache is what the next lookup with the same
  arguments returns until its time to live has passed, the cache never holds more than its capacity,
  and no other key changes its value except by eviction.\<close>

theorem cache_set_get:
  assumes "cache_reach n c" and "0 < n" and "cache_set now t p lt lk data prov ttl g c = Inr c'"
  shows "cache_size c' \<le> n \<and>
    (\<forall>now'. snd (cache_get now' t p lt lk g c') =
       (if of_int ttl < now' - now then None else Some (new_entry now t p lt lk data prov ttl g))) \<and>
    (\<forall>k. k \<noteq> build_tenant_cache_key t p lt lk g \<longrightarrow>
       map_of (lru_entries c') k = map_of (lru_entries c) k \<or> map_of (lru_entries c') k = None)"
proof -
  have inv: "lru_ok c" "lru_max_size c = n" using cache_reach_inv [OF assms(1,2)] by simp_all
  have put: "c' = lru_put (build_tenant_cache_key t p lt lk g) (new_entry now t p lt lk data prov ttl g) c"
    using assms(3) by (simp add: cache_set_def lru_put_def)
  have "map_of (lru_entries c') (build_tenant_cache_key t p lt lk g) = Some (new_entry now t p lt lk data prov ttl g)"
    unfolding put by (rule lru.store_same [OF inv(1)])
  then have "snd (cache_get now' t p lt lk g c') =
       (if of_int ttl < now' - now then None else Some (new_entry now t p lt lk data prov ttl g))" for now'
    by (simp add: cache_get_def Let_def is_expired_def new_entry_def)
  moreover have "cache_size c' \<le> n" unfolding put using lru.store_bound [OF inv(1)] inv(2) by metis
  moreover have "k \<noteq> build_tenant_cache_key t p lt lk g \<Longrightarrow>
       map_of (lru_entries c') k = map_of (lru_entries c) k \<or> map_of (lru_entries c') k = None" for k
    unfolding put by (rule lru.store_other [OF inv(1)])
  ultimately show ?thesis by blast
qed

theorem cache_set_get_witness:
  "cache_size \<lparr> lru_max_size = 1, lru_entries =
     [(build_tenant_cache_key ''acme'' ''p'' ''geo'' ''k'' False, new_entry 0 ''acme'' ''p'' ''geo'' ''k'' [] example_prov 60 False)] \<rparr> \<le> 1"
  using cache_set_get [OF cache_reach.init, of 1 0 "''acme''" "''p''" "''geo''" "''k''" "[]" example_prov 60 False]
  by (simp add: cache_set_def lru_store_def dict_has_def)

end
