(* ===== verification/Py_Bytes.thy ===== *)
theory Py_Bytes
  imports Py_Value "HOL-Library.Word"
begin

section \<open>Bytes, UTF-8 and base64\<close>

text \<open>
  Python's \<open>bytes\<close> as a list of 8-bit words, the strict UTF-8 codec on full code points
  (\<open>bytes.decode("utf-8")\<close>: no overlong forms, no surrogates, nothing above \<open>0x10FFFF\<close>) and
  \<open>base64.b64encode\<close>, with the inverses that show that neither loses information.
\<close>

type_synonym byte = "8 word"
type_synonym hash_fun = "byte list \<Rightarrow> string"

text \<open>Text as its code points.\<close>

type_synonym code_points = "nat list"

subsection \<open>UTF-8\<close>

definition utf8_encode_cp :: "nat \<Rightarrow> nat list" where
  "utf8_encode_cp n =
     (if n < 0x80 then [n]
      else if n < 0x800 then [0xC0 + n div 64, 0x80 + n mod 64]
      else if n < 0x10000 then [0xE0 + n div 4096, 0x80 + n div 64 mod 64, 0x80 + n mod 64]
      else [0xF0 + n div 262144, 0x80 + n div 4096 mod 64, 0x80 + n div 64 mod 64, 0x80 + n mod 64])"

definition cont :: "nat \<Rightarrow> bool" where
  "cont b \<longleftrightarrow> 0x80 \<le> b \<and> b \<le> 0xBF"

text \<open>The second byte of a sequence of three or four.\<close>

definition second_ok :: "nat \<Rightarrow> nat \<Rightarrow> bool" where
  "second_ok a b \<longleftrightarrow> cont b \<and> (a = 0xE0 \<longrightarrow> 0xA0 \<le> b) \<and> (a = 0xED \<longrightarrow> b \<le> 0x9F) \<and>
     (a = 0xF0 \<longrightarrow> 0x90 \<le> b) \<and> (a = 0xF4 \<longrightarrow> b \<le> 0x8F)"

fun utf8_decode :: "nat list \<Rightarrow> code_points option" where
  "utf8_decode [] = Some []"
| "utf8_decode (a # r) =
     (if a < 0x80 then map_option (Cons a) (utf8_decode r)
      else if 0xC2 \<le> a \<and> a \<le> 0xDF then
        (case r of
           b # r' \<Rightarrow> if cont b then map_option (Cons ((a - 0xC0) * 64 + (b - 0x80))) (utf8_decode r') else None
         | _ \<Rightarrow> None)
      else if 0xE0 \<le> a \<and> a \<le> 0xEF then
        (case r of
           b # c # r' \<Rightarrow>
             if second_ok a b \<and> cont c then
               map_option (Cons ((a - 0xE0) * 4096 + (b - 0x80) * 64 + (c - 0x80))) (utf8_decode r')
             else None
         | _ \<Rightarrow> None)
      else if 0xF0 \<le> a \<and> a \<le> 0xF4 then
        (case r of
           b # c # d # r' \<Rightarrow>
             if second_ok a b \<and> cont c \<and> cont d then
               map_option (Cons ((a - 0xF0) * 262144 + (b - 0x80) * 4096 + (c - 0x80) * 64 + (d - 0x80))) (utf8_decode r')
             else None
         | _ \<Rightarrow> None)
      else None)"

definition decode_utf8 :: "byte list \<Rightarrow> code_points option" where
  "decode_utf8 bs = utf8_decode (map unat bs)"

definition encode_utf8 :: "code_points \<Rightarrow> byte list" where
  "encode_utf8 cs = map of_nat (concat (map utf8_encode_cp cs))"

subsection \<open>Base64\<close>

definition b64_alphabet :: string where
  "b64_alphabet = ''ABCDEFGHIJKLMNOPQRSTUVWXYZabcdefghijklmnopqrstuvwxyz0123456789+/''"

definition b64_char :: "nat \<Rightarrow> char" where
  "b64_char n = b64_alphabet ! n"

fun b64_encode :: "nat list \<Rightarrow> string" where
  "b64_encode [] = []"
| "b64_encode [a] = [b64_char (a div 4), b64_char (a mod 4 * 16), CHR ''='', CHR ''='']"
| "b64_encode [a, b] = [b64_char (a div 4), b64_char (a mod 4 * 16 + b div 16), b64_char (b mod 16 * 4), CHR ''='']"
| "b64_encode (a # b # c # r) =
     b64_char (a div 4) # b64_char (a mod 4 * 16 + b div 16) # b64_char (b mod 16 * 4 + c div 64) # b64_char (c mod 64) #
     b64_encode r"

definition b64encode :: "byte list \<Rightarrow> string" where
  "b64encode bs = b64_encode (map unat bs)"

definition b64_val :: "char \<Rightarrow> nat" where
  "b64_val c = length (takeWhile (\<lambda>d. d \<noteq> c) b64_alphabet)"

fun b64_decode :: "string \<Rightarrow> nat list" where
  "b64_decode (p # q # r # s # rest) =
     (if s = CHR ''='' then
        (if r = CHR ''='' then [b64_val p * 4 + b64_val q div 16]
         else [b64_val p * 4 + b64_val q div 16, b64_val q mod 16 * 16 + b64_val r div 4])
      else (b64_val p * 4 + b64_val q div 16) # (b64_val q mod 16 * 16 + b64_val r div 4) #
           (b64_val r mod 4 * 64 + b64_val s) # b64_decode rest)"
| "b64_decode _ = []"

subsection \<open>Round trips\<close>

lemma b64_val_char: "n < 64 \<Longrightarrow> b64_val (b64_char n) = n \<and> b64_char n \<noteq> CHR ''=''"
proof -
  have "\<forall>n \<in> set [0..<64]. b64_val (b64_char n) = n \<and> b64_char n \<noteq> CHR ''=''" by code_simp
  then show "n < 64 \<Longrightarrow> ?thesis" by simp
qed

lemma b64_decode_encode: "\<forall>b \<in> set bs. b < 256 \<Longrightarrow> b64_decode (b64_encode bs) = bs"
proof (induction bs rule: b64_encode.induct)
  case (2 a)
  then have "a div 4 < 64" "a mod 4 * 16 < 64" "(a mod 4 * 16) div 16 = a mod 4" by auto
  then show ?case using b64_val_char by simp
next
  case (3 a b)
  then have "a div 4 < 64" "a mod 4 * 16 + b div 16 < 64" "b mod 16 * 4 < 64" "(a mod 4 * 16 + b div 16) div 16 = a mod 4"
    "(a mod 4 * 16 + b div 16) mod 16 = b div 16" by auto
  then show ?case using b64_val_char by simp
next
  case (4 a b c r)
  then have "a div 4 < 64" "a mod 4 * 16 + b div 16 < 64" "b mod 16 * 4 + c div 64 < 64" "c mod 64 < 64"
    "(a mod 4 * 16 + b div 16) div 16 = a mod 4" "(a mod 4 * 16 + b div 16) mod 16 = b div 16"
    "(b mod 16 * 4 + c div 64) div 4 = b mod 16" "(b mod 16 * 4 + c div 64) mod 4 = c div 64" by auto
  then show ?case using b64_val_char 4 by simp
qed simp

lemma digit64: "(z :: nat) < 64 \<Longrightarrow> (x * 64 + z) div 64 = x" "(z :: nat) < 64 \<Longrightarrow> (x * 64 + z) mod 64 = z"
  by simp_all

lemma div_4096: "(n :: nat) div 4096 = n div 64 div 64" "(n :: nat) div 262144 = n div 64 div 64 div 64"
  by (simp_all add: div_mult2_eq [symmetric])

lemma utf8_two:
  assumes "0xC2 \<le> a" "a \<le> 0xDF" "cont b"
  shows "utf8_encode_cp ((a - 0xC0) * 64 + (b - 0x80)) = [a, b]"
proof -
  define x y where xy: "x = a - 0xC0" "y = b - 0x80"
  have a: "a = x + 0xC0" "b = y + 0x80" and r: "2 \<le> x" "x < 32" "y < 64" using assms xy by (auto simp: cont_def)
  have "\<not> x * 64 + y < 0x80" "x * 64 + y < 0x800" using r by simp_all
  then show ?thesis using r by (simp add: a utf8_encode_cp_def digit64)
qed

lemma utf8_three:
  assumes "0xE0 \<le> a" "a \<le> 0xEF" "second_ok a b" "cont c"
  shows "utf8_encode_cp ((a - 0xE0) * 4096 + (b - 0x80) * 64 + (c - 0x80)) = [a, b, c]"
proof -
  define x y z where xyz: "x = a - 0xE0" "y = b - 0x80" "z = c - 0x80"
  have a: "a = x + 0xE0" "b = y + 0x80" "c = z + 0x80" and r: "x < 16" "y < 64" "z < 64" "x = 0 \<longrightarrow> 32 \<le> y"
    using assms xyz by (auto simp: second_ok_def cont_def)
  have n: "x * 4096 + y * 64 + z = (x * 64 + y) * 64 + z" by simp
  have "\<not> (x * 64 + y) * 64 + z < 0x800" "(x * 64 + y) * 64 + z < 0x10000" using r by (cases x; simp)+
  then have "utf8_encode_cp ((x * 64 + y) * 64 + z) = [0xE0 + x, 0x80 + y, 0x80 + z]"
    unfolding utf8_encode_cp_def div_4096 using r by (simp only: digit64 if_False if_True) simp
  then show ?thesis unfolding xyz [symmetric] n by (simp add: a)
qed

lemma utf8_four:
  assumes "0xF0 \<le> a" "a \<le> 0xF4" "second_ok a b" "cont c" "cont d"
  shows "utf8_encode_cp ((a - 0xF0) * 262144 + (b - 0x80) * 4096 + (c - 0x80) * 64 + (d - 0x80)) = [a, b, c, d]"
proof -
  define w x y z where xyz: "w = a - 0xF0" "x = b - 0x80" "y = c - 0x80" "z = d - 0x80"
  have a: "a = w + 0xF0" "b = x + 0x80" "c = y + 0x80" "d = z + 0x80"
    and r: "w < 5" "x < 64" "y < 64" "z < 64" "w = 0 \<longrightarrow> 16 \<le> x"
    using assms xyz by (auto simp: second_ok_def cont_def)
  have n: "w * 262144 + x * 4096 + y * 64 + z = ((w * 64 + x) * 64 + y) * 64 + z" by simp
  have "\<not> ((w * 64 + x) * 64 + y) * 64 + z < 0x10000" using r by (cases w; simp)
  then have "utf8_encode_cp (((w * 64 + x) * 64 + y) * 64 + z) = [0xF0 + w, 0x80 + x, 0x80 + y, 0x80 + z]"
    unfolding utf8_encode_cp_def div_4096 using r by (simp only: digit64 if_False if_True) simp
  then show ?thesis unfolding xyz [symmetric] n by (simp add: a)
qed

lemma utf8_encode_decode: "utf8_decode bs = Some cs \<Longrightarrow> concat (map utf8_encode_cp cs) = bs"
proof (induction bs arbitrary: cs rule: utf8_decode.induct)
  case (2 a r)
  consider "a < 0x80" | "0xC2 \<le> a" "a \<le> 0xDF" | "0xE0 \<le> a" "a \<le> 0xEF" | "0xF0 \<le> a" "a \<le> 0xF4"
    using "2.prems" by (fastforce split: if_splits)
  then show ?case
  proof cases
    case 1
    then show ?thesis using 2 by (auto simp: utf8_encode_cp_def)
  next
    case a: 2
    then obtain b r' cs' where "r = b # r'" "cont b" "utf8_decode r' = Some cs'" "cs = ((a - 0xC0) * 64 + (b - 0x80)) # cs'"
      using "2.prems" by (auto split: list.splits if_splits)
    then show ?thesis using "2.IH"(2) a utf8_two [OF a] by simp
  next
    case a: 3
    then obtain b c r' cs' where "r = b # c # r'" "second_ok a b" "cont c" "utf8_decode r' = Some cs'"
      "cs = ((a - 0xE0) * 4096 + (b - 0x80) * 64 + (c - 0x80)) # cs'"
      using "2.prems" by (auto split: list.splits if_splits)
    then show ?thesis using "2.IH"(3) a utf8_three [OF a] by simp
  next
    case a: 4
    then obtain b c d r' cs' where "r = b # c # d # r'" "second_ok a b" "cont c" "cont d" "utf8_decode r' = Some cs'"
      "cs = ((a - 0xF0) * 262144 + (b - 0x80) * 4096 + (c - 0x80) * 64 + (d - 0x80)) # cs'"
      using "2.prems" by (auto split: list.splits if_splits)
    then show ?thesis using "2.IH"(4) a utf8_four [OF a] by simp
  qed
qed simp

lemma encode_decode_utf8: "decode_utf8 bs = Some cs \<Longrightarrow> encode_utf8 cs = bs"
  by (simp add: decode_utf8_def encode_utf8_def utf8_encode_decode comp_def)

lemma unat_byte: "unat (b :: byte) < 256"
  using unsigned_less [of b] by simp

lemma b64_roundtrip: "map of_nat (b64_decode (b64encode bs)) = bs"
proof -
  have "b64_decode (b64encode bs) = map unat bs"
    unfolding b64encode_def by (rule b64_decode_encode) (auto simp: unat_byte)
  then show ?thesis by (simp add: comp_def)
qed

end
