(* ===== verification/M4_Integrity.thy ===== *)
theory M4_Integrity
  imports Py_Bytes "HOL-Library.Multiset"
begin

section \<open>M4: canonical JSON, hashing and integrity verification\<close>

text \<open>
  \<open>M4/app/integrity/canonicalizer.py\<close>, \<open>hasher.py\<close>, \<open>verifier.py\<close> and the integrity contract. SHA-256 is the
  parameter \<open>sha256\<close>, from bytes to the hexadecimal digest. Strings are below 256, where NFC
  normalisation is the identity and the UTF-16 code units are the code points.
\<close>


subsection \<open>Canonical JSON\<close>

definition encode_char :: "char \<Rightarrow> string" where
  "encode_char c =
     (let cp = code c in
      if cp = 34 then [CHR 0x5C, CHR 0x22]
      else if cp = 92 then [CHR 0x5C, CHR 0x5C]
      else if cp = 8 then CHR 0x5C # ''b''
      else if cp = 12 then CHR 0x5C # ''f''
      else if cp = 10 then CHR 0x5C # ''n''
      else if cp = 13 then CHR 0x5C # ''r''
      else if cp = 9 then CHR 0x5C # ''t''
      else if cp < 32 then CHR 0x5C # ''u00'' @ hex2 cp
      else [c])"

definition encode_string :: "string \<Rightarrow> string" where
  "encode_string s = CHR 0x22 # concat (map encode_char s) @ [CHR 0x22]"

text \<open>\<open>f"{n:.16g}"\<close> of a positive double, with the exponent written as the code rewrites it.\<close>

definition format_g16 :: "rat \<Rightarrow> string" where
  "format_g16 x =
     (let (m, e) = round_dec 16 x; ds = rstrip_zeros (nat_str m)
      in if - 4 \<le> e \<and> e < 16 then
           (if e < 0 then ''0.'' @ replicate (nat (- e) - 1) CHR ''0'' @ ds
            else if length ds \<le> nat e + 1 then ds @ replicate (nat e + 1 - length ds) CHR ''0''
            else take (nat e + 1) ds @ ''.'' @ drop (nat e + 1) ds)
         else (if length ds = 1 then ds else take 1 ds @ ''.'' @ drop 1 ds) @ ''e'' @ int_str e)"

fun encode_float :: "pyfloat \<Rightarrow> string result" where
  "encode_float (FFin x) =
     (if x = 0 then Inr ''0''
      else if x = of_int \<lfloor>x\<rfloor> \<and> \<bar>x\<bar> < 10 ^ 21 then Inr (int_str \<lfloor>x\<rfloor>)
      else Inr (if x < 0 then CHR ''-'' # format_g16 (- x) else format_g16 x))"
| "encode_float _ = Inl (ValueError ''NaN and Infinity are not permitted in RFC 8785 canonical JSON'')"

definition utf16_sort_key :: "string \<Rightarrow> nat list" where
  "utf16_sort_key s = map code s"

definition encode_pair :: "string \<times> string result \<Rightarrow> string result" where
  "encode_pair p = rbind (snd p) (\<lambda>v. Inr (encode_string (fst p) @ '':'' @ v))"

fun canonicalize_to_str :: "pyval \<Rightarrow> string result" where
  "canonicalize_to_str PNone = Inr ''null''"
| "canonicalize_to_str (PBool b) = Inr (if b then ''true'' else ''false'')"
| "canonicalize_to_str (PInt i) = Inr (int_str i)"
| "canonicalize_to_str (PFloat f) = encode_float f"
| "canonicalize_to_str (PStr s) = Inr (encode_string s)"
| "canonicalize_to_str (PList xs) =
     rbind (seq_results (map canonicalize_to_str xs)) (\<lambda>items. Inr (''['' @ join '','' items @ '']''))"
| "canonicalize_to_str (PDict d) =
     rbind (seq_results (map encode_pair
         (sort_key (\<lambda>p. utf16_sort_key (fst p)) (map (\<lambda>(k, v). (k, canonicalize_to_str v)) d))))
       (\<lambda>pairs. Inr (''{'' @ join '','' pairs @ ''}''))"

definition utf8_char :: "char \<Rightarrow> byte list" where
  "utf8_char c = (let n = code c in
     if n < 128 then [of_nat n] else [of_nat (192 + n div 64), of_nat (128 + n mod 64)])"

definition utf8 :: "string \<Rightarrow> byte list" where
  "utf8 s = concat (map utf8_char s)"

definition canonicalize :: "pyval \<Rightarrow> byte list result" where
  "canonicalize v = rbind (canonicalize_to_str v) (\<lambda>s. Inr (utf8 s))"

subsection \<open>Hashing and verification\<close>

definition hash_bytes_sha256 :: "hash_fun \<Rightarrow> byte list \<Rightarrow> string" where
  "hash_bytes_sha256 sha256 data = lower (sha256 data)"

definition hash_canonical_sha256 :: "hash_fun \<Rightarrow> pyval \<Rightarrow> string result" where
  "hash_canonical_sha256 sha256 v = rbind (canonicalize v) (\<lambda>b. Inr (hash_bytes_sha256 sha256 b))"

record integrity_metadata =
  im_digest :: string
  im_generated_at :: string
  im_phase :: string

definition hex_char :: "char \<Rightarrow> bool" where
  "hex_char c = (is_digit c \<or> (97 \<le> code c \<and> code c \<le> 102))"

definition validate_digest_hex :: "string \<Rightarrow> string result" where
  "validate_digest_hex v =
     (let v_clean = lower (strip v) in
      if length v_clean = 64 \<and> list_all hex_char v_clean then Inr v_clean
      else Inl (ValueError (''Invalid SHA-256 hex digest: '' @ v)))"

definition integrity_dump :: "integrity_metadata \<Rightarrow> pyval" where
  "integrity_dump i = PDict
     [(''algorithm'', PStr ''sha256''), (''digest'', PStr (im_digest i)), (''canonicalization'', PStr ''rfc8785''),
      (''generated_at'', PStr (im_generated_at i)), (''phase'', PStr (im_phase i))]"

definition strip_integrity :: "pydict \<Rightarrow> pydict" where
  "strip_integrity data = dict_del ''integrity'' data"

definition calculate_integrity :: "hash_fun \<Rightarrow> string \<Rightarrow> pydict \<Rightarrow> string \<Rightarrow> integrity_metadata result" where
  "calculate_integrity sha256 now event ph =
     rbind (hash_canonical_sha256 sha256 (PDict (strip_integrity event))) (\<lambda>digest.
     rbind (validate_digest_hex digest) (\<lambda>d.
       Inr \<lparr> im_digest = d, im_generated_at = now, im_phase = ph \<rparr>))"

text \<open>The branch for dictionaries; \<open>hmac.compare_digest\<close> is equality.\<close>

definition verify_integrity :: "hash_fun \<Rightarrow> string \<Rightarrow> pydict \<Rightarrow> string option \<Rightarrow> string \<Rightarrow> bool result" where
  "verify_integrity sha256 now event expected_digest ph =
     (let target =
        (case expected_digest of
           Some t \<Rightarrow> Some t
         | None \<Rightarrow>
             (case pget event ''integrity'' of
                PDict meta \<Rightarrow> map_option py_str (map_of meta ''digest'')
              | _ \<Rightarrow> None))
      in case target of
           None \<Rightarrow> Inr False
         | Some t \<Rightarrow>
             rbind (calculate_integrity sha256 now event ph) (\<lambda>computed.
               Inr (lower (im_digest computed) = strip (lower t))))"

subsection \<open>Key order\<close>

lemma seq_results_cong: "map f xs = map g ys \<Longrightarrow> seq_results (map f xs) = seq_results (map g ys)"
  by simp

lemma utf16_sort_key_inj: "utf16_sort_key s = utf16_sort_key t \<longleftrightarrow> s = t"
proof -
  have "inj code" by (auto simp: inj_def code_def)
  then show ?thesis by (simp add: utf16_sort_key_def inj_map_eq_map)
qed

text \<open>Values that differ only in the order of dictionary entries, at any depth.\<close>

inductive reordered :: "pyval \<Rightarrow> pyval \<Rightarrow> bool" where
  same: "reordered v v"
| list: "list_all2 reordered xs ys \<Longrightarrow> reordered (PList xs) (PList ys)"
| dict: "list_all2 (\<lambda>p q. fst p = fst q \<and> reordered (snd p) (snd q)) d e \<Longrightarrow> reordered (PDict d) (PDict e)"
| swap: "dict_wf d \<Longrightarrow> set d = set e \<Longrightarrow> length d = length e \<Longrightarrow> reordered (PDict d) (PDict e)"
| trans: "reordered u v \<Longrightarrow> reordered v w \<Longrightarrow> reordered u w"

lemma encode_dict_swap:
  assumes "dict_wf d" and "set d = set e" and "length d = length e"
  shows "sort_key (\<lambda>p. utf16_sort_key (fst p)) (map (\<lambda>(k, v). (k, f v)) d) =
         sort_key (\<lambda>p. utf16_sort_key (fst p)) (map (\<lambda>(k, v). (k, f v)) e)"
proof (rule sort_key_inj_key_eq)
  have "distinct d" using assms(1) by (simp add: dict_wf_def distinct_map)
  moreover have "distinct e" using \<open>distinct d\<close> assms(2,3) by (metis card_distinct distinct_card)
  ultimately have "mset d = mset e" using assms(2) by (simp add: set_eq_iff_mset_eq_distinct)
  then show "mset (map (\<lambda>(k, v). (k, f v)) d) =
      mset (sort_key (\<lambda>p. utf16_sort_key (fst p)) (map (\<lambda>(k, v). (k, f v)) e))"
    by simp
  have keys: "inj_on fst (set d)" using assms(1) by (simp add: dict_wf_def distinct_map)
  show "inj_on (\<lambda>p. utf16_sort_key (fst p)) (set (map (\<lambda>(k, v). (k, f v)) d))"
  proof (rule inj_onI)
    fix p q assume p: "p \<in> set (map (\<lambda>(k, v). (k, f v)) d)" and q: "q \<in> set (map (\<lambda>(k, v). (k, f v)) d)"
      and eq: "utf16_sort_key (fst p) = utf16_sort_key (fst q)"
    obtain k v where kv: "(k, v) \<in> set d" "p = (k, f v)" using p by auto
    obtain k' w where kw: "(k', w) \<in> set d" "q = (k', f w)" using q by auto
    have k: "k' = k" using eq kv(2) kw(2) by (simp add: utf16_sort_key_inj)
    have "(k, v) = (k', w)" by (rule inj_onD [OF keys _ kv(1) kw(1)]) (simp add: k)
    with kv kw show "p = q" by simp
  qed
qed simp

lemma map_list_all2_eq: "list_all2 (\<lambda>p q. f p = f q) xs ys \<Longrightarrow> map f xs = map f ys"
  by (simp add: list_all2_conv_all_nth list_eq_iff_nth_eq)

lemma reordered_canonical: "reordered u v \<Longrightarrow> canonicalize_to_str u = canonicalize_to_str v"
proof (induction rule: reordered.induct)
  case (list xs ys)
  then have "map canonicalize_to_str xs = map canonicalize_to_str ys"
    by (intro map_list_all2_eq) (auto elim: list_all2_mono)
  then show ?case by simp
next
  case (dict d e)
  have "map (\<lambda>(k, v). (k, canonicalize_to_str v)) d = map (\<lambda>(k, v). (k, canonicalize_to_str v)) e"
    using dict by (intro map_list_all2_eq) (auto elim!: list_all2_mono simp: case_prod_beta)
  then show ?case by simp
next
  case (swap d e)
  show ?case
    unfolding canonicalize_to_str.simps encode_dict_swap [OF swap.hyps, of canonicalize_to_str] ..
qed simp_all

text \<open>Only a float that is no number makes the encoding fail.\<close>

fun finite_floats :: "pyval \<Rightarrow> bool" where
  "finite_floats (PFloat f) = (case f of FFin _ \<Rightarrow> True | _ \<Rightarrow> False)"
| "finite_floats (PList xs) = list_all finite_floats xs"
| "finite_floats (PDict d) = list_all (\<lambda>(k, v). finite_floats v) d"
| "finite_floats _ = True"

definition succeeds :: "'a result \<Rightarrow> bool" where
  "succeeds r = (case r of Inr _ \<Rightarrow> True | Inl _ \<Rightarrow> False)"

lemma succeeds_simps [simp]: "succeeds (Inr x)" "\<not> succeeds (Inl e)" "succeeds (rbind r (\<lambda>x. Inr (f x))) = succeeds r"
  by (auto simp: succeeds_def rbind_def split: sum.splits)

lemma succeeds_seq: "succeeds (seq_results rs) \<longleftrightarrow> list_all succeeds rs"
proof (induction rs)
  case (Cons r rs)
  then show ?case by (cases r) auto
qed simp

lemma succeeds_pair: "succeeds (encode_pair p) = succeeds (snd p)"
  by (simp add: encode_pair_def)

lemma canonicalize_succeeds: "succeeds (canonicalize_to_str v) \<longleftrightarrow> finite_floats v"
proof (induction v rule: canonicalize_to_str.induct)
  case (4 f)
  then show ?case by (cases f) auto
next
  case (6 xs)
  then show ?case by (auto simp: succeeds_seq list_all_iff)
next
  case (7 d)
  have "list_all succeeds (map encode_pair (sort_key (\<lambda>p. utf16_sort_key (fst p)) (map (\<lambda>(k, v). (k, canonicalize_to_str v)) d))) \<longleftrightarrow>
      (\<forall>(k, v) \<in> set d. succeeds (canonicalize_to_str v))"
    by (auto simp: list_all_iff succeeds_pair)
  then show ?case using 7 by (auto simp: succeeds_seq list_all_iff)
qed simp_all

lemma strip_integrity_set [simp]: "strip_integrity (dict_set ''integrity'' v d) = strip_integrity d"
  by (induction d) (auto simp: strip_integrity_def)

lemma validate_digest_hex_fixed:
  assumes "validate_digest_hex v = Inr d"
  shows "lower d = d" and "strip d = d" and "d \<noteq> []"
proof -
  have d: "d = lower (strip v)" "length d = 64" "list_all hex_char d"
    using assms by (auto simp: validate_digest_hex_def Let_def split: if_splits)
  show "lower d = d" using d(1) by simp
  show "d \<noteq> []" using d(2) by auto
  have ns: "\<not> is_space c" if "hex_char c" for c
    using that by (auto simp: hex_char_def is_space_def is_digit_def Let_def)
  have "hex_char (hd d)" "hex_char (last d)" using d(2,3) by (cases d; auto simp: list_all_iff)+
  then show "strip d = d" using ns by (intro strip_eq) blast
qed

lemma sealed_verifies:
  assumes "calculate_integrity sha256 now event ph = Inr meta"
  shows "verify_integrity sha256 now' (dict_set ''integrity'' (integrity_dump meta) event) None ph' = Inr True"
proof -
  obtain h where h: "hash_canonical_sha256 sha256 (PDict (strip_integrity event)) = Inr h"
    and d: "validate_digest_hex h = Inr (im_digest meta)"
    using assms by (auto simp: calculate_integrity_def)
  show ?thesis
    using h d validate_digest_hex_fixed [OF d]
    by (simp add: verify_integrity_def calculate_integrity_def integrity_dump_def Let_def)
qed

subsection \<open>Properties\<close>

text \<open>Canonical serialisation does not depend on the order of dictionary entries, at any depth of the
  value: equal content gives the same text, and so the same digest.\<close>

theorem canonical_order_independent:
  assumes "reordered u v"
  shows "canonicalize_to_str u = canonicalize_to_str v \<and> hash_canonical_sha256 sha256 u = hash_canonical_sha256 sha256 v"
  using reordered_canonical [OF assms] by (simp add: hash_canonical_sha256_def canonicalize_def)

theorem canonical_order_independent_witness:
  "canonicalize_to_str (PList [PDict [(''b'', PInt 1), (''a'', PNone)]]) =
   canonicalize_to_str (PList [PDict [(''a'', PNone), (''b'', PInt 1)]])"
proof -
  have "reordered (PList [PDict [(''b'', PInt 1), (''a'', PNone)]]) (PList [PDict [(''a'', PNone), (''b'', PInt 1)]])"
    by (intro reordered.list) (auto intro!: reordered.swap simp: dict_wf_def)
  from canonical_order_independent [OF this, of "\<lambda>_. []"] show ?thesis by blast
qed

text \<open>Sealing and verifying fit together: an event that carries the metadata calculated for it
  verifies, whatever integrity field it had before.\<close>

theorem integrity_roundtrip:
  assumes "calculate_integrity sha256 now event ph = Inr meta"
  shows "verify_integrity sha256 now' (dict_set ''integrity'' (integrity_dump meta) event) None ph' = Inr True"
  using sealed_verifies [OF assms] .

definition example_hash :: hash_fun where
  "example_hash b = replicate 64 CHR ''a''"

theorem integrity_roundtrip_witness:
  "verify_integrity example_hash ''later'' (dict_set ''integrity''
     (integrity_dump \<lparr> im_digest = replicate 64 CHR ''a'', im_generated_at = ''now'', im_phase = ''enriched'' \<rparr>)
     [(''x'', PInt 1)]) None ''enriched'' = Inr True"
proof (rule integrity_roundtrip)
  have "lower (replicate 64 CHR ''a'') = replicate 64 CHR ''a''"
    by (simp add: lower_def lower_char_def code_def map_replicate_const)
  moreover have "strip (replicate 64 CHR ''a'') = replicate 64 CHR ''a''"
    by (rule strip_eq) (simp add: is_space_def code_def Let_def)
  ultimately show "calculate_integrity example_hash ''now'' [(''x'', PInt 1)] ''enriched'' =
      Inr \<lparr> im_digest = replicate 64 CHR ''a'', im_generated_at = ''now'', im_phase = ''enriched'' \<rparr>"
    by (simp add: calculate_integrity_def hash_canonical_sha256_def canonicalize_def strip_integrity_def
        hash_bytes_sha256_def example_hash_def validate_digest_hex_def hex_char_def code_def encode_pair_def list_all_iff)
qed

text \<open>A digest that was made for one event, held against another, in a call or as the seal that the other carries.\<close>

lemma verify_against:
  "verify_integrity sha256 now event (Some t) ph = rbind (calculate_integrity sha256 now event ph) (\<lambda>c. Inr (lower (im_digest c) = strip (lower t)))"
  by (simp add: verify_integrity_def)

lemma verify_kept_seal:
  assumes "im_digest meta \<noteq> []"
  shows "verify_integrity sha256 now (dict_set ''integrity'' (integrity_dump meta) event) None ph = verify_integrity sha256 now event (Some (im_digest meta)) ph"
  using assms by (simp add: verify_integrity_def calculate_integrity_def integrity_dump_def Let_def)

lemma calculated_digest:
  "calculate_integrity sha256 now event ph = Inr meta \<Longrightarrow>
   \<exists>a. canonicalize (PDict (strip_integrity event)) = Inr a \<and> validate_digest_hex (lower (sha256 a)) = Inr (im_digest meta)"
  by (auto simp: calculate_integrity_def hash_canonical_sha256_def hash_bytes_sha256_def)

lemma verify_against_exact:
  assumes "calculate_integrity sha256 now event ph = Inr meta"
    and "\<And>a b. canonicalize (PDict (strip_integrity event)) = Inr a \<Longrightarrow>
           canonicalize (PDict (strip_integrity event')) = Inr b \<Longrightarrow>
           lower (strip (lower (sha256 a))) = lower (strip (lower (sha256 b))) \<Longrightarrow> a = b"
  shows "verify_integrity sha256 now' event' (Some (im_digest meta)) ph' = Inr True \<longleftrightarrow>
    canonicalize (PDict (strip_integrity event')) = canonicalize (PDict (strip_integrity event))"
proof
  obtain a where a: "canonicalize (PDict (strip_integrity event)) = Inr a" "validate_digest_hex (lower (sha256 a)) = Inr (im_digest meta)"
    using calculated_digest [OF assms(1)] by blast
  note fixed = validate_digest_hex_fixed [OF a(2)]
  {
    assume "verify_integrity sha256 now' event' (Some (im_digest meta)) ph' = Inr True"
    then obtain c where c: "calculate_integrity sha256 now' event' ph' = Inr c" "lower (im_digest c) = im_digest meta"
      using fixed by (auto simp: verify_against)
    obtain b where b: "canonicalize (PDict (strip_integrity event')) = Inr b" "validate_digest_hex (lower (sha256 b)) = Inr (im_digest c)"
      using calculated_digest [OF c(1)] by blast
    have "im_digest c = im_digest meta" using c(2) validate_digest_hex_fixed(1) [OF b(2)] by simp
    then have "lower (strip (lower (sha256 a))) = lower (strip (lower (sha256 b)))"
      using a(2) b(2) by (auto simp: validate_digest_hex_def Let_def split: if_splits)
    with assms(2) [OF a(1) b(1)] a(1) b(1)
    show "canonicalize (PDict (strip_integrity event')) = canonicalize (PDict (strip_integrity event))" by simp
  next
    assume "canonicalize (PDict (strip_integrity event')) = canonicalize (PDict (strip_integrity event))"
    then show "verify_integrity sha256 now' event' (Some (im_digest meta)) ph' = Inr True"
      using a fixed by (simp add: verify_against calculate_integrity_def hash_canonical_sha256_def hash_bytes_sha256_def)
  }
qed

text \<open>(C31) Verification against the digest of the original accepts exactly the events with the canonical text of the original, when the
  hash function does not collide on the two texts: whether the digest is given by the caller, who kept it elsewhere, or is read
  from the seal that a changed event still carries. The seal has no key: who changes the event and seals it anew is not detected
  without the caller's digest (\<open>forged_seal_verifies\<close>).\<close>

theorem tampering_detected:
  assumes "calculate_integrity sha256 now event ph = Inr meta"
    and "\<And>a b. canonicalize (PDict (strip_integrity event)) = Inr a \<Longrightarrow>
           canonicalize (PDict (strip_integrity event')) = Inr b \<Longrightarrow>
           lower (strip (lower (sha256 a))) = lower (strip (lower (sha256 b))) \<Longrightarrow> a = b"
  shows "(verify_integrity sha256 now' event' (Some (im_digest meta)) ph' = Inr True \<longleftrightarrow>
      canonicalize (PDict (strip_integrity event')) = canonicalize (PDict (strip_integrity event))) \<and>
    (verify_integrity sha256 now' (dict_set ''integrity'' (integrity_dump meta) event') None ph' = Inr True \<longleftrightarrow>
      canonicalize (PDict (strip_integrity event')) = canonicalize (PDict (strip_integrity event)))"
proof -
  have "im_digest meta \<noteq> []" using calculated_digest [OF assms(1)] validate_digest_hex_fixed(3) by blast
  note kept = verify_kept_seal [OF this]
  show ?thesis unfolding kept using verify_against_exact [OF assms(1), of event' now' ph'] assms(2) by metis
qed

text \<open>A changed event with a seal of its own verifies, whatever was sealed before.\<close>

lemma forged_seal_verifies:
  assumes "calculate_integrity sha256 now event' ph = Inr forged"
  shows "verify_integrity sha256 now' (dict_set ''integrity'' (integrity_dump forged) event') None ph' = Inr True"
  by (rule sealed_verifies [OF assms])

definition parity_hash :: hash_fun where
  "parity_hash b = replicate 64 (if even (length b) then CHR ''a'' else CHR ''b'')"

lemma parity_digest:
  "lower (parity_hash b) = parity_hash b" "strip (parity_hash b) = parity_hash b" "validate_digest_hex (parity_hash b) = Inr (parity_hash b)"
proof -
  show l: "lower (parity_hash b) = parity_hash b" by (simp add: parity_hash_def lower_def lower_char_def code_def map_replicate_const)
  show s: "strip (parity_hash b) = parity_hash b" by (rule strip_eq) (simp add: parity_hash_def is_space_def code_def Let_def)
  show "validate_digest_hex (parity_hash b) = Inr (parity_hash b)"
    using l s by (simp add: validate_digest_hex_def Let_def) (simp add: parity_hash_def list_all_iff hex_char_def code_def)
qed

lemma parity_texts:
  "canonicalize (PDict (strip_integrity [(''x'', PInt 1)])) = Inr [0x7B, 0x22, 0x78, 0x22, 0x3A, 0x31, 0x7D]"
  "canonicalize (PDict (strip_integrity [(''x'', PInt 10)])) = Inr [0x7B, 0x22, 0x78, 0x22, 0x3A, 0x31, 0x30, 0x7D]"
  by code_simp+

theorem tampering_detected_witness:
  "\<exists>meta. calculate_integrity parity_hash ''now'' [(''x'', PInt 1)] ''enriched'' = Inr meta \<and>
     verify_integrity parity_hash ''later'' [(''x'', PInt 10)] (Some (im_digest meta)) ''enriched'' \<noteq> Inr True \<and>
     verify_integrity parity_hash ''later'' (dict_set ''integrity'' (integrity_dump meta) [(''x'', PInt 10)]) None ''enriched'' \<noteq> Inr True"
proof -
  obtain meta where calc: "calculate_integrity parity_hash ''now'' [(''x'', PInt 1)] ''enriched'' = Inr meta"
    by (simp add: calculate_integrity_def hash_canonical_sha256_def parity_texts hash_bytes_sha256_def parity_digest)
  have "parity_hash [0x7B, 0x22, 0x78, 0x22, 0x3A, 0x31, 0x7D] \<noteq> parity_hash [0x7B, 0x22, 0x78, 0x22, 0x3A, 0x31, 0x30, 0x7D]"
    by (simp add: parity_hash_def)
  then have "a = b" if "canonicalize (PDict (strip_integrity [(''x'', PInt 1)])) = Inr a" "canonicalize (PDict (strip_integrity [(''x'', PInt 10)])) = Inr b"
    "lower (strip (lower (parity_hash a))) = lower (strip (lower (parity_hash b)))" for a b
    using that by (simp add: parity_texts parity_digest)
  note detected = tampering_detected [OF calc this, where now' = "''later''" and ph' = "''enriched''"]
  have "canonicalize (PDict (strip_integrity [(''x'', PInt 10)])) \<noteq> canonicalize (PDict (strip_integrity [(''x'', PInt 1)]))"
    unfolding parity_texts by simp
  then show ?thesis using detected calc by blast
qed

end
