(* ===== verification/M4_Event.thy ===== *)
theory M4_Event
  imports M4_Cache M4_Config M4_Integrity
begin

section \<open>M4: canonical events, rules, planning and merging\<close>

text \<open>
  \<open>M4/app/contracts/canonical_event.py\<close>, \<open>providers/base.py\<close>, \<open>providers/registry.py\<close>, \<open>enrichment/rules.py\<close>,
  \<open>planner.py\<close>, \<open>precedence.py\<close>, \<open>merger.py\<close>, \<open>provenance/tracker.py\<close> and the two validators. The event is a
  record with the fields of the contract; \<open>event_dump\<close> is its \<open>model_dump(mode="json")\<close>, and the dotted
  paths of the rules are looked up there (a path that names a Python attribute which is no field, or
  ends at a sub-model, is outside the model). A provider is its metadata with two functions;
  \<open>p_enrich\<close> returns the event too, since the code hands the provider the mutable event. Whether a
  timestamp parses is the parameter \<open>iso_ok\<close>.
\<close>

subsection \<open>The canonical event\<close>

record event_metadata =
  ev_id :: string
  ev_timestamp :: string
  ev_kind :: string
  ev_type :: "string list"
  ev_category :: "string list"
  ev_outcome :: string
  ev_duration :: "int option"

record endpoint =
  ep_ip :: "string option"
  ep_port :: "int option"
  ep_mac :: "string option"
  ep_nat_ip :: "string option"
  ep_domain :: "string option"
  ep_user :: "string option"

record network =
  nw_transport :: "string option"
  nw_protocol :: "string option"
  nw_direction :: "string option"
  nw_bytes_in :: "int option"
  nw_bytes_out :: "int option"

record observer =
  ob_hostname :: "string option"
  ob_ip :: "string option"
  ob_type :: "string option"
  ob_version :: "string option"

record host =
  ho_id :: "string option"
  ho_name :: "string option"
  ho_hostname :: "string option"
  ho_os :: "string option"
  ho_architecture :: "string option"

record identity =
  idn_user_id :: "string option"
  idn_username :: "string option"
  idn_email :: "string option"
  idn_domain :: "string option"
  idn_groups :: "string list"

record application =
  ap_name :: "string option"
  ap_version :: "string option"

record process_info =
  ps_pid :: "int option"
  ps_name :: "string option"
  ps_executable :: "string option"
  ps_command_line :: "string option"

record security =
  se_severity :: string
  se_risk_score :: "rat option"
  se_threat_indicator :: "string option"

record parser_metadata =
  pm_name :: string
  pm_version :: string
  pm_parsed_at :: string

record normalization_metadata =
  nm_schema_target :: string
  nm_normalized_at :: string
  nm_rule_version :: string

record provenance_metadata =
  pv_raw_event_id :: string
  pv_ingestion_timestamp :: string
  pv_pipeline_id :: string

record vendor_metadata =
  vm_name :: string
  vm_product :: string
  vm_version :: "string option"

record tenant_metadata =
  tm_tenant_id :: string
  tm_scope :: pydict

record canonical_event_rec =
  c_schema_version :: string
  c_event :: event_metadata
  c_observer :: observer
  c_source :: endpoint
  c_destination :: endpoint
  c_network :: network
  c_host :: host
  c_identity :: identity
  c_application :: application
  c_process :: process_info
  c_security :: security
  c_parser :: parser_metadata
  c_normalization :: normalization_metadata
  c_provenance :: provenance_metadata
  c_integrity :: "integrity_metadata option"
  c_raw :: "string option"
  c_vendor :: vendor_metadata
  c_extensions :: pydict
  c_tenant :: tenant_metadata

definition validate_event_id :: "string \<Rightarrow> string result" where
  "validate_event_id v =
     (if v = [] \<or> strip v = [] then Inl (ValueError ''event.id cannot be empty'')
      else if \<not> id_format (strip v) then Inl (ValueError (''Invalid event.id format: '' @ strip v))
      else Inr (strip v))"

definition validate_raw_id :: "string \<Rightarrow> string result" where
  "validate_raw_id v =
     (if v = [] \<or> strip v = [] then Inl (ValueError ''provenance.raw_event_id cannot be empty'') else Inr (strip v))"

subsection \<open>Dumping\<close>

definition ostr :: "string option \<Rightarrow> pyval" where
  "ostr s = (case s of None \<Rightarrow> PNone | Some t \<Rightarrow> PStr t)"

definition oint :: "int option \<Rightarrow> pyval" where
  "oint i = (case i of None \<Rightarrow> PNone | Some n \<Rightarrow> PInt n)"

definition strs :: "string list \<Rightarrow> pyval" where
  "strs xs = PList (map PStr xs)"

definition endpoint_dump :: "endpoint \<Rightarrow> pyval" where
  "endpoint_dump e = PDict [(''ip'', ostr (ep_ip e)), (''port'', oint (ep_port e)), (''mac'', ostr (ep_mac e)),
     (''nat_ip'', ostr (ep_nat_ip e)), (''domain'', ostr (ep_domain e)), (''user'', ostr (ep_user e))]"

definition event_dump :: "canonical_event_rec \<Rightarrow> pydict" where
  "event_dump c =
    [(''schema_version'', PStr (c_schema_version c)),
     (''event'', (let e = c_event c in PDict [(''id'', PStr (ev_id e)), (''timestamp'', PStr (ev_timestamp e)), (''kind'', PStr (ev_kind e)),
        (''type'', strs (ev_type e)), (''category'', strs (ev_category e)), (''outcome'', PStr (ev_outcome e)),
        (''duration'', oint (ev_duration e))])),
     (''observer'', (let b = c_observer c in PDict [(''hostname'', ostr (ob_hostname b)), (''ip'', ostr (ob_ip b)),
        (''type'', ostr (ob_type b)), (''version'', ostr (ob_version b))])),
     (''source'', endpoint_dump (c_source c)),
     (''destination'', endpoint_dump (c_destination c)),
     (''network'', (let n = c_network c in PDict [(''transport'', ostr (nw_transport n)), (''protocol'', ostr (nw_protocol n)),
        (''direction'', ostr (nw_direction n)), (''bytes_in'', oint (nw_bytes_in n)), (''bytes_out'', oint (nw_bytes_out n))])),
     (''host'', (let h = c_host c in PDict [(''id'', ostr (ho_id h)), (''name'', ostr (ho_name h)), (''hostname'', ostr (ho_hostname h)),
        (''os'', ostr (ho_os h)), (''architecture'', ostr (ho_architecture h))])),
     (''identity'', (let i = c_identity c in PDict [(''user_id'', ostr (idn_user_id i)), (''username'', ostr (idn_username i)),
        (''email'', ostr (idn_email i)), (''domain'', ostr (idn_domain i)), (''groups'', strs (idn_groups i))])),
     (''application'', (let a = c_application c in PDict [(''name'', ostr (ap_name a)), (''version'', ostr (ap_version a))])),
     (''process'', (let p = c_process c in PDict [(''pid'', oint (ps_pid p)), (''name'', ostr (ps_name p)),
        (''executable'', ostr (ps_executable p)), (''command_line'', ostr (ps_command_line p))])),
     (''security'', (let s = c_security c in PDict [(''severity'', PStr (se_severity s)),
        (''risk_score'', (case se_risk_score s of None \<Rightarrow> PNone | Some r \<Rightarrow> PFloat (FFin r))),
        (''threat_indicator'', ostr (se_threat_indicator s))])),
     (''parser'', (let p = c_parser c in PDict [(''name'', PStr (pm_name p)), (''version'', PStr (pm_version p)), (''parsed_at'', PStr (pm_parsed_at p))])),
     (''normalization'', (let n = c_normalization c in PDict [(''schema_target'', PStr (nm_schema_target n)),
        (''normalized_at'', PStr (nm_normalized_at n)), (''rule_version'', PStr (nm_rule_version n))])),
     (''provenance'', (let p = c_provenance c in PDict [(''raw_event_id'', PStr (pv_raw_event_id p)),
        (''ingestion_timestamp'', PStr (pv_ingestion_timestamp p)), (''pipeline_id'', PStr (pv_pipeline_id p))])),
     (''integrity'', (case c_integrity c of None \<Rightarrow> PNone | Some i \<Rightarrow> integrity_dump i)),
     (''raw'', ostr (c_raw c)),
     (''vendor'', (let v = c_vendor c in PDict [(''name'', PStr (vm_name v)), (''product'', PStr (vm_product v)), (''version'', ostr (vm_version v))])),
     (''extensions'', PDict (c_extensions c)),
     (''tenant'', (let t = c_tenant c in PDict [(''tenant_id'', PStr (tm_tenant_id t)), (''scope'', PDict (tm_scope t))]))]"

subsection \<open>Providers\<close>

record provider_output =
  po_status :: enrichment_status
  po_data :: pydict
  po_confidence :: rat
  po_source_reference :: "string option"
  po_error_message :: "string option"
  po_error_type :: "string option"

record enrichment_context =
  ec_tenant_context :: m4_tenant_context
  ec_configuration_version :: string
  ec_options :: pydict

record provider =
  p_id :: string
  p_version :: string
  p_namespace :: string
  p_priority :: int
  p_tenant_sensitive :: bool
  p_can_enrich :: "canonical_event_rec \<Rightarrow> enrichment_context \<Rightarrow> bool"
  p_enrich :: "canonical_event_rec \<Rightarrow> enrichment_context \<Rightarrow> canonical_event_rec \<times> provider_output result"

type_synonym provider_registry = "(string, provider) dict"

definition register_provider :: "provider \<Rightarrow> provider_registry \<Rightarrow> provider_registry" where
  "register_provider p reg = dict_set (p_id p) p reg"

definition unregister_provider :: "string \<Rightarrow> provider_registry \<Rightarrow> provider_registry \<times> bool" where
  "unregister_provider pid reg = (dict_del pid reg, dict_has pid reg)"

subsection \<open>Rules\<close>

fun nested_field :: "pyval \<Rightarrow> string list \<Rightarrow> pyval" where
  "nested_field v [] = v"
| "nested_field v (part # parts) = (case v of PDict d \<Rightarrow> nested_field (pget d part) parts | _ \<Rightarrow> PNone)"

definition get_nested_field :: "pyval \<Rightarrow> string \<Rightarrow> pyval" where
  "get_nested_field obj path = nested_field obj (split_on CHR ''.'' path)"

definition eval_condition_rule :: "(string \<Rightarrow> string \<Rightarrow> bool option) \<Rightarrow> canonical_event_rec \<Rightarrow> condition_rule \<Rightarrow> bool" where
  "eval_condition_rule re event cond =
     (let val = get_nested_field (PDict (event_dump event)) (cr_field cond) in
      if cr_operator cond = ''exists'' then val \<noteq> PNone \<and> val \<noteq> PStr []
      else if cr_operator cond = ''not_exists'' then val = PNone \<or> val = PStr []
      else if cr_operator cond = ''equals'' then py_eq val (cr_value cond)
      else if cr_operator cond = ''in_list'' then
        (case cr_value cond of PList items \<Rightarrow> list_ex (py_eq val) items | _ \<Rightarrow> False)
      else if cr_operator cond = ''regex_match'' then
        (if val = PNone \<or> cr_value cond = PNone then False
         else (case re (py_str (cr_value cond)) (py_str val) of None \<Rightarrow> False | Some b \<Rightarrow> b))
      else False)"

definition evaluate_rule :: "(string \<Rightarrow> string \<Rightarrow> bool option) \<Rightarrow> canonical_event_rec \<Rightarrow> enrichment_rule \<Rightarrow> string \<Rightarrow> bool" where
  "evaluate_rule re event rule tenant_id =
     (if \<not> er_enabled rule then False
      else if ''*'' \<notin> set (er_tenant_scope rule) \<and> tenant_id \<notin> set (er_tenant_scope rule) then False
      else list_all (eval_condition_rule re event) (er_conditions rule))"

subsection \<open>Planning\<close>

definition get_provider_sort_key :: "enrichment_config \<Rightarrow> provider \<Rightarrow> int \<times> int \<times> string" where
  "get_provider_sort_key config p =
     ((case map_of (cfg_provider_priorities config) (p_id p) of None \<Rightarrow> 100 | Some n \<Rightarrow> n), p_priority p, p_id p)"

definition sort_providers :: "enrichment_config \<Rightarrow> provider list \<Rightarrow> provider list" where
  "sort_providers config ps = sort_key (get_provider_sort_key config) ps"

definition targeted_ids :: "(string \<Rightarrow> string \<Rightarrow> bool option) \<Rightarrow> canonical_event_rec \<Rightarrow> enrichment_rule list \<Rightarrow> string \<Rightarrow> string list" where
  "targeted_ids re event rules tenant_id = concat (map er_providers (filter (\<lambda>r. evaluate_rule re event r tenant_id) rules))"

definition plan_execution :: "(string \<Rightarrow> string \<Rightarrow> bool option) \<Rightarrow> provider_registry \<Rightarrow> canonical_event_rec \<Rightarrow>
    enrichment_config \<Rightarrow> enrichment_context \<Rightarrow> provider list" where
  "plan_execution re reg event config ctx =
     (let tenant_id = tc_tenant_id (ec_tenant_context ctx) in
      if ''*'' \<notin> set (cfg_tenant_scopes config) \<and> tenant_id \<notin> set (cfg_tenant_scopes config) then []
      else
        let enabled_instances = List.map_filter (map_of reg) (cfg_enabled_providers config);
            active_rules = filter er_enabled (cfg_rules config);
            targeted = targeted_ids re event active_rules tenant_id;
            candidates = filter (\<lambda>p. (active_rules = [] \<or> p_id p \<in> set targeted) \<and> p_can_enrich p event ctx) enabled_instances
        in sort_providers config candidates)"

subsection \<open>Merging\<close>

fun merge_missing :: "(string \<times> pyval) list \<Rightarrow> pydict \<Rightarrow> pydict" where
  "merge_missing [] d = d"
| "merge_missing ((k, v) # kvs) d = merge_missing kvs (if dict_has k d then d else dict_set k v d)"

definition sub_dict :: "pydict \<Rightarrow> string \<Rightarrow> pydict" where
  "sub_dict d k = (case map_of d k of Some (PDict e) \<Rightarrow> e | _ \<Rightarrow> [])"

definition merge_output :: "canonical_event_rec \<Rightarrow> string \<Rightarrow> provider_output \<Rightarrow> canonical_event_rec" where
  "merge_output event ns out =
     (if po_data out = [] then event
      else
        let root = sub_dict (c_extensions event) ''enrichment'';
            namespace_dict = merge_missing (po_data out) (sub_dict root ns)
        in event\<lparr>c_extensions :=
             dict_set ''enrichment'' (PDict (dict_set ns (PDict namespace_dict) root)) (c_extensions event)\<rparr>)"

definition verify_invariants :: "canonical_event_rec \<Rightarrow> canonical_event_rec \<Rightarrow> unit result" where
  "verify_invariants original candidate =
     (if ev_id (c_event original) \<noteq> ev_id (c_event candidate) then Inl (ValueError ''Preservation invariant violated: event.id altered'')
      else if ev_timestamp (c_event original) \<noteq> ev_timestamp (c_event candidate) then
        Inl (ValueError ''Preservation invariant violated: event.timestamp altered'')
      else if pv_raw_event_id (c_provenance original) \<noteq> pv_raw_event_id (c_provenance candidate) then
        Inl (ValueError ''Preservation invariant violated: raw_event_id altered'')
      else if tm_tenant_id (c_tenant original) \<noteq> tm_tenant_id (c_tenant candidate) then
        Inl (ValueError ''Preservation invariant violated: tenant_id altered'')
      else if ep_ip (c_source original) \<noteq> ep_ip (c_source candidate) then
        Inl (ValueError ''Preservation invariant violated: source.ip altered'')
      else if ep_ip (c_destination original) \<noteq> ep_ip (c_destination candidate) then
        Inl (ValueError ''Preservation invariant violated: destination.ip altered'')
      else Inr ())"

subsection \<open>Provenance tracker and validators\<close>

record provenance_tracker =
  pt_configuration_version :: string
  pt_records :: "enrichment_provenance list"

definition record_operation :: "string \<Rightarrow> provider \<Rightarrow> provider_output \<Rightarrow> cache_status \<Rightarrow> provenance_tracker \<Rightarrow>
    (provenance_tracker \<times> enrichment_provenance) result" where
  "record_operation now p out cs tr =
     rbind (validate_confidence (if po_status out = SUCCESS then po_confidence out else 0)) (\<lambda>conf.
       let r = \<lparr> pr_provider_id = p_id p, pr_provider_version = p_version p, pr_enrichment_type = p_namespace p,
                 pr_lookup_timestamp = now, pr_confidence = conf, pr_result_status = po_status out,
                 pr_source_reference = po_source_reference out,
                 pr_configuration_version = pt_configuration_version tr, pr_cache_status = cs \<rparr>
       in Inr (tr\<lparr>pt_records := pt_records tr @ [r]\<rparr>, r))"

definition attach_to_event :: "provenance_tracker \<Rightarrow> canonical_event_rec \<Rightarrow> canonical_event_rec" where
  "attach_to_event tr event =
     event\<lparr>c_extensions := dict_set ''enrichment''
       (PDict (dict_set ''provenance'' (PList (map provenance_dump (pt_records tr)))
         (sub_dict (c_extensions event) ''enrichment''))) (c_extensions event)\<rparr>"

abbreviation invalid_event :: "string \<Rightarrow> exn" where
  "invalid_event \<equiv> OtherError ''InvalidEventError''"

definition validate_event :: "(string \<Rightarrow> bool) \<Rightarrow> canonical_event_rec \<Rightarrow> canonical_event_rec result" where
  "validate_event iso_ok c =
     (if c_schema_version c \<notin> {''ues.v1'', ''1.0.0''} then Inl (invalid_event ''Unsupported schema version'')
      else if strip (ev_id (c_event c)) = [] then Inl (invalid_event ''event.id is required and cannot be empty'')
      else if strip (pv_raw_event_id (c_provenance c)) = [] then
        Inl (invalid_event ''provenance.raw_event_id is required and cannot be empty'')
      else if strip (tm_tenant_id (c_tenant c)) = [] then Inl (invalid_event ''tenant.tenant_id is required and cannot be empty'')
      else if \<not> iso_ok (ev_timestamp (c_event c)) then Inl (invalid_event ''Invalid ISO 8601 timestamp'')
      else Inr c)"

definition FORBIDDEN_KEYS :: "string list" where
  "FORBIDDEN_KEYS = [''__proto__'', ''prototype'', ''constructor'', ''event'', ''provenance'', ''integrity'']"

definition validate_output :: "string \<Rightarrow> provider_output \<Rightarrow> unit result" where
  "validate_output pid out =
     (case filter (\<lambda>(k, _). lower k \<in> set FORBIDDEN_KEYS) (po_data out) of
        [] \<Rightarrow> Inr ()
      | (k, _) # _ \<Rightarrow> Inl (OtherError ''ProviderResponseError''
          (''Provider '' @ quoted pid @ '' returned forbidden key name: '' @ k)))"

definition validate_event_tenant :: "canonical_event_rec \<Rightarrow> m4_tenant_context option \<Rightarrow> unit result" where
  "validate_event_tenant event ctx =
     (case ctx of
        None \<Rightarrow> Inr ()
      | Some c \<Rightarrow>
          if tm_tenant_id (c_tenant event) \<noteq> tc_tenant_id c then
            Inl (OtherError ''TenantScopeError'' (''Tenant mismatch: Event tenant '' @ quoted (tm_tenant_id (c_tenant event)) @
              '' does not match authorized context tenant '' @ quoted (tc_tenant_id c)))
          else Inr ())"

subsection \<open>Facts\<close>

lemma map_of_merge_missing: "map_of (merge_missing kvs d) k = (case map_of d k of Some v \<Rightarrow> Some v | None \<Rightarrow> map_of kvs k)"
proof (induction kvs d rule: merge_missing.induct)
  case (2 k' v kvs d)
  then show ?case by (auto simp: dict_has_def split: option.splits if_splits)
qed (auto split: option.splits)

text \<open>The value that the enrichment extension of an event has for a key of a namespace.\<close>

definition enrichment_value :: "canonical_event_rec \<Rightarrow> string \<Rightarrow> string \<Rightarrow> pyval option" where
  "enrichment_value event ns k = map_of (sub_dict (sub_dict (c_extensions event) ''enrichment'') ns) k"

lemma sub_dict_set [simp]: "sub_dict (dict_set k (PDict e) d) k' = (if k' = k then e else sub_dict d k')"
  by (simp add: sub_dict_def)

lemma enrichment_value_merge:
  "enrichment_value (merge_output event ns out) ns' k =
     (if ns' = ns then (case enrichment_value event ns k of Some v \<Rightarrow> Some v | None \<Rightarrow> map_of (po_data out) k)
      else enrichment_value event ns' k)"
  by (auto simp: enrichment_value_def merge_output_def Let_def map_of_merge_missing split: option.splits)

definition core :: "canonical_event_rec \<Rightarrow> string \<times> string \<times> string \<times> string \<times> string option \<times> string option" where
  "core c = (ev_id (c_event c), ev_timestamp (c_event c), pv_raw_event_id (c_provenance c), tm_tenant_id (c_tenant c),
     ep_ip (c_source c), ep_ip (c_destination c))"

lemma verify_invariants_core: "verify_invariants a b = Inr u \<longleftrightarrow> core a = core b"
  by (auto simp: verify_invariants_def core_def)

lemma core_merge [simp]: "core (merge_output event ns out) = core event"
  by (simp add: merge_output_def core_def Let_def)

lemma core_attach [simp]: "core (attach_to_event tr event) = core event"
  by (simp add: attach_to_event_def core_def)

lemma set_map_filter: "y \<in> set (List.map_filter f xs) \<longleftrightarrow> (\<exists>x \<in> set xs. f x = Some y)"
  by (force simp: List.map_filter_def)

subsection \<open>Properties\<close>

text \<open>An event with an identifier, a raw identifier and a tenant, and no other field set.\<close>

definition empty_endpoint :: endpoint where
  "empty_endpoint = \<lparr> ep_ip = None, ep_port = None, ep_mac = None, ep_nat_ip = None, ep_domain = None, ep_user = None \<rparr>"

definition example_canonical :: canonical_event_rec where
  "example_canonical = \<lparr> c_schema_version = ''ues.v1'',
     c_event = \<lparr> ev_id = ''e1'', ev_timestamp = ''2026-01-01T00:00:00+00:00'', ev_kind = ''event'', ev_type = [''info''],
       ev_category = [''general''], ev_outcome = ''unknown'', ev_duration = None \<rparr>,
     c_observer = \<lparr> ob_hostname = None, ob_ip = None, ob_type = None, ob_version = None \<rparr>,
     c_source = empty_endpoint, c_destination = empty_endpoint,
     c_network = \<lparr> nw_transport = None, nw_protocol = None, nw_direction = None, nw_bytes_in = None, nw_bytes_out = None \<rparr>,
     c_host = \<lparr> ho_id = None, ho_name = None, ho_hostname = None, ho_os = None, ho_architecture = None \<rparr>,
     c_identity = \<lparr> idn_user_id = None, idn_username = None, idn_email = None, idn_domain = None, idn_groups = [] \<rparr>,
     c_application = \<lparr> ap_name = None, ap_version = None \<rparr>,
     c_process = \<lparr> ps_pid = None, ps_name = None, ps_executable = None, ps_command_line = None \<rparr>,
     c_security = \<lparr> se_severity = ''informational'', se_risk_score = None, se_threat_indicator = None \<rparr>,
     c_parser = \<lparr> pm_name = ''unknown'', pm_version = ''1.0.0'', pm_parsed_at = ''t'' \<rparr>,
     c_normalization = \<lparr> nm_schema_target = ''ues.v1'', nm_normalized_at = ''t'', nm_rule_version = ''1.0.0'' \<rparr>,
     c_provenance = \<lparr> pv_raw_event_id = ''raw1'', pv_ingestion_timestamp = ''t'', pv_pipeline_id = ''ulpf-pipeline'' \<rparr>,
     c_integrity = None, c_raw = None, c_vendor = \<lparr> vm_name = ''generic'', vm_product = ''generic'', vm_version = None \<rparr>,
     c_extensions = [], c_tenant = \<lparr> tm_tenant_id = ''acme'', tm_scope = [] \<rparr> \<rparr>"

text \<open>Merging is additive and the first writer wins: a field that is present keeps its value, a missing
  field takes the value of the provider, other namespaces and the identity of the event are untouched.\<close>

theorem merge_first_writer_wins:
  "enrichment_value (merge_output event ns out) ns' k =
     (if ns' = ns then (case enrichment_value event ns k of Some v \<Rightarrow> Some v | None \<Rightarrow> map_of (po_data out) k)
      else enrichment_value event ns' k) \<and>
   core (merge_output event ns out) = core event \<and> c_integrity (merge_output event ns out) = c_integrity event"
  by (simp add: enrichment_value_merge) (simp add: merge_output_def Let_def)

text \<open>The plan contains only providers that the configuration enables and the registry has, that
  consider the event theirs and that a rule targets when there are enabled rules; none at all when the
  tenant is out of scope; and it is ordered by configured priority, own priority and identifier.\<close>

theorem plan_execution_sound:
  "(\<forall>p \<in> set (plan_execution re reg event config ctx).
      (\<exists>pid \<in> set (cfg_enabled_providers config). map_of reg pid = Some p) \<and> p_can_enrich p event ctx \<and>
      (filter er_enabled (cfg_rules config) \<noteq> [] \<longrightarrow>
        (\<exists>r \<in> set (cfg_rules config). evaluate_rule re event r (tc_tenant_id (ec_tenant_context ctx)) \<and> p_id p \<in> set (er_providers r)))) \<and>
   sorted (map (get_provider_sort_key config) (plan_execution re reg event config ctx)) \<and>
   (''*'' \<notin> set (cfg_tenant_scopes config) \<and> tc_tenant_id (ec_tenant_context ctx) \<notin> set (cfg_tenant_scopes config) \<longrightarrow>
      plan_execution re reg event config ctx = [])"
  by (auto simp: plan_execution_def Let_def sort_providers_def set_map_filter targeted_ids_def)

theorem plan_execution_sound_witness:
  "plan_execution (\<lambda>_ _. None) [] example_canonical (default_config\<lparr>cfg_tenant_scopes := [''other'']\<rparr>)
     \<lparr> ec_tenant_context = \<lparr> tc_tenant_id = ''acme'', tc_scope = [], tc_configuration_version = ''1.0.0'' \<rparr>,
       ec_configuration_version = ''1.0.0'', ec_options = [] \<rparr> = []"
  using plan_execution_sound [of "\<lambda>_ _. None" "[]" example_canonical "default_config\<lparr>cfg_tenant_scopes := [''other'']\<rparr>"
      "\<lparr> ec_tenant_context = \<lparr> tc_tenant_id = ''acme'', tc_scope = [], tc_configuration_version = ''1.0.0'' \<rparr>,
       ec_configuration_version = ''1.0.0'', ec_options = [] \<rparr>"]
  by simp

end
