(* ===== verification/M4_Providers.thy ===== *)
theory M4_Providers
  imports M4_Event
begin

section \<open>M4: enrichment providers\<close>

text \<open>
  The contract that \<open>M4/app/providers/base.py\<close> states for a provider, as the locale
  \<open>enrichment_provider\<close>, and three of the providers that implement it: the local asset inventory
  (\<open>asset_provider.py\<close>), the local threat intelligence (\<open>threat_intel_provider.py\<close>) and the configurable mock
  (\<open>mock_provider.py\<close>). The constructor of \<open>ProviderOutput\<close> checks that the confidence lies between
  zero and one.
\<close>

locale enrichment_provider =
  fixes p :: provider
  assumes confidence_range: "snd (p_enrich p ev ctx) = Inr out \<Longrightarrow> 0 \<le> po_confidence out \<and> po_confidence out \<le> 1"
    and keeps_event: "fst (p_enrich p ev ctx) = ev"

definition ProviderOutput :: "enrichment_status \<Rightarrow> pydict \<Rightarrow> pyfloat \<Rightarrow> string option \<Rightarrow> string option \<Rightarrow> string option \<Rightarrow>
    provider_output result" where
  "ProviderOutput st data conf ref msg ty =
     (case conf of
        FFin c \<Rightarrow>
          if 0 \<le> c \<and> c \<le> 1 then
            Inr \<lparr> po_status = st, po_data = data, po_confidence = c, po_source_reference = ref,
                  po_error_message = msg, po_error_type = ty \<rparr>
          else Inl (ValueError ''confidence out of range'')
      | _ \<Rightarrow> Inl (ValueError ''confidence out of range''))"

lemma ProviderOutput_range: "ProviderOutput st data conf ref msg ty = Inr out \<Longrightarrow> 0 \<le> po_confidence out \<and> po_confidence out \<le> 1"
  by (auto simp: ProviderOutput_def split: pyfloat.splits if_splits)

text \<open>A decimal literal of the source.\<close>

definition lit :: "rat \<Rightarrow> pyfloat" where
  "lit x = round_double x"

definition truthy :: "string option \<Rightarrow> bool" where
  "truthy s = (s \<noteq> None \<and> s \<noteq> Some [])"

definition present :: "string option list \<Rightarrow> string list" where
  "present xs = map the (filter truthy xs)"

subsection \<open>Assets\<close>

type_synonym asset_db = "(string \<times> string, pydict) dict"

definition asset_record :: "string \<Rightarrow> string \<Rightarrow> string \<Rightarrow> string \<Rightarrow> string \<Rightarrow> string \<Rightarrow> string list \<Rightarrow> pydict" where
  "asset_record aid hostname criticality environment owner department scope =
     [(''asset_id'', PStr aid), (''hostname'', PStr hostname), (''criticality'', PStr criticality),
      (''environment'', PStr environment), (''owner'', PStr owner), (''department'', PStr department),
      (''compliance_scope'', strs scope)]"

definition DEFAULT_ASSET_DATABASE :: asset_db where
  "DEFAULT_ASSET_DATABASE =
     [((''default'', ''10.100.1.5''), asset_record ''ASSET-PROD-DB-01'' ''prod-sql-cluster-node1'' ''high'' ''production''
         ''database-reliability-team'' ''Infrastructure'' [''pci-dss'', ''soc2'']),
      ((''default'', ''10.100.2.10''), asset_record ''ASSET-PROD-APP-01'' ''checkout-service-01'' ''critical'' ''production''
         ''checkout-eng'' ''Engineering'' [''pci-dss'']),
      ((''default'', ''192.168.1.50''), asset_record ''ASSET-WKS-883'' ''corp-laptop-883'' ''low'' ''corporate''
         ''alice@corp.local'' ''Finance'' [''internal-only'']),
      ((''tenant_alpha'', ''10.200.0.5''), asset_record ''ASSET-ALPHA-GW'' ''alpha-edge-gateway'' ''high'' ''production''
         ''alpha-security'' ''DevOps'' [''iso27001''])]"

definition asset_can_enrich :: "canonical_event_rec \<Rightarrow> enrichment_context \<Rightarrow> bool" where
  "asset_can_enrich event ctx = (truthy (ep_ip (c_source event)) \<or> truthy (ho_name (c_host event)) \<or> truthy (ho_hostname (c_host event)))"

fun asset_lookup :: "asset_db \<Rightarrow> string \<Rightarrow> string list \<Rightarrow> provider_output result" where
  "asset_lookup db tenant_id [] =
     ProviderOutput NOT_FOUND [] (FFin 0) None (Some ''Asset not found in inventory for given identifiers'') None"
| "asset_lookup db tenant_id (key # keys) =
     (case map_of db (tenant_id, key) of
        Some r \<Rightarrow> ProviderOutput SUCCESS r (lit (98 / 100))
          (Some (''cmdb://tenant/'' @ tenant_id @ ''/'' @ py_str (pget r ''asset_id''))) None None
      | None \<Rightarrow>
          (case map_of db (''default'', key) of
             Some r \<Rightarrow> ProviderOutput SUCCESS r (lit (95 / 100)) (Some (''cmdb://shared/'' @ py_str (pget r ''asset_id''))) None None
           | None \<Rightarrow> asset_lookup db tenant_id keys))"

definition asset_enrich :: "asset_db \<Rightarrow> canonical_event_rec \<Rightarrow> enrichment_context \<Rightarrow> provider_output result" where
  "asset_enrich db event ctx =
     asset_lookup db (tc_tenant_id (ec_tenant_context ctx))
       (present [ep_ip (c_source event), ho_hostname (c_host event), ho_name (c_host event)])"

definition asset_provider :: "asset_db \<Rightarrow> provider" where
  "asset_provider db = \<lparr> p_id = ''asset-local-cmdb'', p_version = ''1.0.0'', p_namespace = ''asset'', p_priority = 20,
     p_tenant_sensitive = True, p_can_enrich = asset_can_enrich, p_enrich = (\<lambda>ev ctx. (ev, asset_enrich db ev ctx)) \<rparr>"

subsection \<open>Threat intelligence\<close>

type_synonym indicator_db = "(string, pydict) dict"

definition indicator :: "string \<Rightarrow> string \<Rightarrow> string \<Rightarrow> string list \<Rightarrow> string \<Rightarrow> rat \<Rightarrow> string \<Rightarrow> string \<Rightarrow> string \<times> pydict" where
  "indicator ind ty verdict threats severity conf campaign actor =
     (ind, [(''indicator'', PStr ind), (''type'', PStr ty), (''verdict'', PStr verdict), (''threat_types'', strs threats),
            (''severity'', PStr severity), (''confidence'', PFloat (lit conf)), (''campaign'', PStr campaign), (''actor'', PStr actor)])"

definition INDICATOR_DATABASE :: indicator_db where
  "INDICATOR_DATABASE =
     [indicator ''198.51.100.99'' ''ipv4'' ''malicious'' [''c2'', ''botnet''] ''high'' (95 / 100) ''CobaltStrike-2026'' ''APT-Mock-29'',
      indicator ''203.0.113.55'' ''ipv4'' ''suspicious'' [''scanner''] ''medium'' (75 / 100) ''MassScan-Probe'' ''Unknown'',
      indicator ''evil-payload.example.com'' ''domain'' ''malicious'' [''malware_distribution''] ''critical'' (98 / 100) ''Emotet-Resurgence'' ''TA542'',
      indicator ''phishing-login.example.org'' ''domain'' ''malicious'' [''credential_harvesting''] ''high'' (90 / 100) ''O365-Phish'' ''Unknown'']"

definition threat_can_enrich :: "canonical_event_rec \<Rightarrow> enrichment_context \<Rightarrow> bool" where
  "threat_can_enrich event ctx =
     (truthy (ep_ip (c_destination event)) \<or> truthy (ep_domain (c_destination event)) \<or> truthy (ep_ip (c_source event)))"

definition threat_candidates :: "canonical_event_rec \<Rightarrow> string list" where
  "threat_candidates event =
     (if truthy (ep_domain (c_destination event)) then [strip (lower (the (ep_domain (c_destination event))))] else []) @
     (if truthy (ep_ip (c_destination event)) then [strip (the (ep_ip (c_destination event)))] else []) @
     (if truthy (ep_ip (c_source event)) then [strip (the (ep_ip (c_source event)))] else [])"

definition worse_verdict :: "string \<Rightarrow> pyval \<Rightarrow> string" where
  "worse_verdict overall v =
     (if v = PStr ''malicious'' then ''malicious''
      else if v = PStr ''suspicious'' \<and> overall \<noteq> ''malicious'' then ''suspicious''
      else overall)"

fun threat_loop :: "indicator_db \<Rightarrow> string list \<Rightarrow> pydict list \<Rightarrow> string \<Rightarrow> pyfloat \<Rightarrow> (pydict list \<times> string \<times> pyfloat) result" where
  "threat_loop db [] found overall best = Inr (found, overall, best)"
| "threat_loop db (cand # cands) found overall best =
     (case map_of db cand of
        None \<Rightarrow> threat_loop db cands found overall best
      | Some r \<Rightarrow>
          rbind (py_float (pget_default r ''confidence'' (PFloat (FFin (1 / 2))))) (\<lambda>conf.
            threat_loop db cands (found @ [r]) (worse_verdict overall (pget r ''verdict''))
              (if float_lt best conf then conf else best)))"

definition threat_enrich :: "indicator_db \<Rightarrow> canonical_event_rec \<Rightarrow> enrichment_context \<Rightarrow> provider_output result" where
  "threat_enrich db event ctx =
     rbind (threat_loop db (threat_candidates event) [] ''clean'' (FFin 0)) (\<lambda>(found, overall, best).
       if found \<noteq> [] then
         ProviderOutput SUCCESS [(''verdict'', PStr overall), (''matched_count'', PInt (int (length found))),
           (''indicators'', PList (map PDict found))] best (Some ''ti-feed://v1.0.0'') None None
       else ProviderOutput NOT_FOUND [] (FFin 0) None (Some ''No matching threat indicators detected'') None)"

definition threat_provider :: "indicator_db \<Rightarrow> provider" where
  "threat_provider db = \<lparr> p_id = ''threat-intel-local'', p_version = ''1.0.0'', p_namespace = ''threat_intel'', p_priority = 10,
     p_tenant_sensitive = False, p_can_enrich = threat_can_enrich, p_enrich = (\<lambda>ev ctx. (ev, threat_enrich db ev ctx)) \<rparr>"

subsection \<open>Mock provider\<close>

record mock_config =
  mk_id :: string
  mk_namespace :: string
  mk_data :: pydict
  mk_confidence :: pyfloat
  mk_should_fail :: bool
  mk_should_timeout :: bool
  mk_should_not_found :: bool
  mk_raise :: "exn option"
  mk_applicable :: bool

definition mock_enrich :: "mock_config \<Rightarrow> provider_output result" where
  "mock_enrich m =
     (if mk_should_timeout m then
        Inl (OtherError ''ProviderTimeoutError'' (''Provider '' @ quoted (mk_id m) @ '' exceeded timeout limit of 1.0s''))
      else case mk_raise m of
        Some e \<Rightarrow> Inl e
      | None \<Rightarrow>
          if mk_should_fail m then ProviderOutput FAILED [] (FFin 0) None (Some ''Simulated provider failure'') (Some ''MockFailure'')
          else if mk_should_not_found m then ProviderOutput NOT_FOUND [] (FFin 0) None (Some ''Entity not found in mock store'') None
          else ProviderOutput SUCCESS (mk_data m) (mk_confidence m) (Some (''mock://'' @ mk_id m @ ''/v1.0.0'')) None None)"

definition mock_provider :: "mock_config \<Rightarrow> provider" where
  "mock_provider m = \<lparr> p_id = mk_id m, p_version = ''1.0.0'', p_namespace = mk_namespace m, p_priority = 50,
     p_tenant_sensitive = True, p_can_enrich = (\<lambda>_ _. mk_applicable m), p_enrich = (\<lambda>ev _. (ev, mock_enrich m)) \<rparr>"

subsection \<open>The providers satisfy the contract\<close>

lemma asset_lookup_range:
  "asset_lookup db t keys = Inr out \<Longrightarrow> 0 \<le> po_confidence out \<and> po_confidence out \<le> 1"
  by (induction keys) (auto dest: ProviderOutput_range split: option.splits)

interpretation asset: enrichment_provider "asset_provider db" for db
  by unfold_locales (auto simp: asset_provider_def asset_enrich_def dest: asset_lookup_range)

interpretation threat: enrichment_provider "threat_provider db" for db
  by unfold_locales
     (auto simp: threat_provider_def threat_enrich_def dest!: ProviderOutput_range split: if_splits prod.splits)

interpretation mock: enrichment_provider "mock_provider m" for m
  by unfold_locales
     (auto simp: mock_provider_def mock_enrich_def dest: ProviderOutput_range split: if_splits option.splits)

subsection \<open>Verdicts\<close>

lemma threat_loop_found:
  "threat_loop db cands found overall best = Inr (found', overall', best') \<Longrightarrow>
   found' = found @ List.map_filter (map_of db) cands"
proof (induction cands arbitrary: found overall best)
  case (Cons c cands)
  show ?case
  proof (cases "map_of db c")
    case None
    then show ?thesis using Cons by (simp add: map_filter_simps)
  next
    case (Some r)
    with Cons.prems obtain conf where "threat_loop db cands (found @ [r]) (worse_verdict overall (pget r ''verdict''))
        (if float_lt best conf then conf else best) = Inr (found', overall', best')" by auto
    from Cons.IH [OF this] Some show ?thesis by (simp add: map_filter_simps)
  qed
qed (simp add: map_filter_simps)

definition verdict_rank :: "string \<Rightarrow> nat" where
  "verdict_rank v = (if v = ''malicious'' then 2 else if v = ''suspicious'' then 1 else 0)"

definition record_rank :: "pydict \<Rightarrow> nat" where
  "record_rank r = (case pget r ''verdict'' of PStr v \<Rightarrow> verdict_rank v | _ \<Rightarrow> 0)"

lemma worse_verdict_rank: "verdict_rank (worse_verdict overall (pget r ''verdict'')) = max (verdict_rank overall) (record_rank r)"
  by (auto simp: worse_verdict_def verdict_rank_def record_rank_def split: pyval.splits)

lemma threat_loop_rank:
  "threat_loop db cands found overall best = Inr (found', overall', best') \<Longrightarrow>
   verdict_rank overall' = fold max (map record_rank (List.map_filter (map_of db) cands)) (verdict_rank overall)"
proof (induction cands arbitrary: found overall best)
  case (Cons c cands)
  then show ?case
    by (auto simp: map_filter_simps worse_verdict_rank max.commute split: option.splits)
qed (simp add: map_filter_simps)

subsection \<open>Properties\<close>

text \<open>The asset inventory never gives a tenant the record of another tenant: what it returns for a
  tenant is stored under that tenant or under the shared tenant \<open>default\<close>.\<close>

theorem asset_tenant_isolation:
  assumes "asset_enrich db event ctx = Inr out" and "po_status out = SUCCESS"
  shows "\<exists>key. map_of db (tc_tenant_id (ec_tenant_context ctx), key) = Some (po_data out) \<or>
           map_of db (''default'', key) = Some (po_data out)"
proof -
  have "asset_lookup db t keys = Inr out \<Longrightarrow>
      \<exists>key. map_of db (t, key) = Some (po_data out) \<or> map_of db (''default'', key) = Some (po_data out)" for t keys
  proof (induction keys)
    case Nil
    then show ?case using assms(2) by (auto simp: ProviderOutput_def split: pyfloat.splits if_splits)
  next
    case (Cons k keys)
    show ?case
    proof (cases "map_of db (t, k) = None \<and> map_of db (''default'', k) = None")
      case True
      then show ?thesis using Cons by simp
    next
      case False
      then show ?thesis using Cons.prems
        by (intro exI [of _ k]) (auto simp: ProviderOutput_def split: option.splits pyfloat.splits if_splits)
    qed
  qed
  then show ?thesis using assms(1) by (simp add: asset_enrich_def)
qed

definition example_ctx :: enrichment_context where
  "example_ctx = \<lparr> ec_tenant_context = \<lparr> tc_tenant_id = ''acme'', tc_scope = [], tc_configuration_version = ''1.0.0'' \<rparr>,
     ec_configuration_version = ''1.0.0'', ec_options = [] \<rparr>"

lemma lit_one: "lit 1 = FFin 1"
  using round_double_of_int [of 1] by (simp add: lit_def)

theorem asset_tenant_isolation_witness:
  "\<exists>key. map_of [((''acme'', ''h''), [(''owner'', PStr ''x'')])] (''acme'', key) = Some [(''owner'', PStr ''x'')] \<or>
         map_of [((''acme'', ''h''), [(''owner'', PStr ''x'')])] (''default'', key) = Some [(''owner'', PStr ''x'')]"
proof -
  let ?ev = "example_canonical\<lparr>c_host := (c_host example_canonical)\<lparr>ho_name := Some ''h''\<rparr>\<rparr>"
  let ?db = "[((''acme'', ''h''), [(''owner'', PStr ''x'')])]"
  obtain c where c: "lit (98 / 100) = FFin c" "0 \<le> c" "c \<le> 1"
    using round_double_unit [of "98 / 100"] by (auto simp: lit_def)
  obtain out where out: "asset_enrich ?db ?ev example_ctx = Inr out" "po_status out = SUCCESS" "po_data out = [(''owner'', PStr ''x'')]"
    using c by (simp add: asset_enrich_def present_def truthy_def example_canonical_def empty_endpoint_def example_ctx_def ProviderOutput_def)
  show ?thesis using asset_tenant_isolation [OF out(1,2)] out(3) by (simp add: example_ctx_def)
qed

text \<open>The threat verdict is the worst verdict among the matching indicators, and all of them are reported.\<close>

theorem threat_verdict_worst:
  assumes "threat_enrich db event ctx = Inr out" and "po_status out = SUCCESS"
  shows "\<exists>v. map_of (po_data out) ''verdict'' = Some (PStr v) \<and>
    verdict_rank v = fold max (map record_rank (List.map_filter (map_of db) (threat_candidates event))) 0 \<and>
    map_of (po_data out) ''indicators'' = Some (PList (map PDict (List.map_filter (map_of db) (threat_candidates event))))"
proof -
  obtain found overall best where l: "threat_loop db (threat_candidates event) [] ''clean'' (FFin 0) = Inr (found, overall, best)"
    and "found \<noteq> []" and data: "po_data out = [(''verdict'', PStr overall), (''matched_count'', PInt (int (length found))),
           (''indicators'', PList (map PDict found))]"
    using assms by (auto simp: threat_enrich_def ProviderOutput_def split: if_splits pyfloat.splits)
  have "verdict_rank ''clean'' = 0" by (simp add: verdict_rank_def)
  then show ?thesis using threat_loop_found [OF l] threat_loop_rank [OF l] data by simp
qed

theorem threat_verdict_worst_witness:
  "\<exists>v. verdict_rank v = fold max (map record_rank (List.map_filter (map_of [indicator ''bad.example'' ''domain'' ''malicious'' [] ''high'' 1 ''c'' ''a''])
       [''bad.example''])) 0"
proof -
  let ?db = "[indicator ''bad.example'' ''domain'' ''malicious'' [] ''high'' 1 ''c'' ''a'']"
  let ?ev = "example_canonical\<lparr>c_destination := empty_endpoint\<lparr>ep_domain := Some ''bad.example''\<rparr>\<rparr>"
  have cands: "threat_candidates ?ev = [''bad.example'']"
    by (simp add: threat_candidates_def truthy_def example_canonical_def empty_endpoint_def lower_def lower_char_def code_def
        strip_def lstrip_by_def rstrip_by_def is_space_def Let_def)
  have "\<exists>out. threat_enrich ?db ?ev example_ctx = Inr out \<and> po_status out = SUCCESS"
    by (simp add: threat_enrich_def cands indicator_def lit_one pget_default_def ProviderOutput_def)
  then obtain out where "threat_enrich ?db ?ev example_ctx = Inr out" "po_status out = SUCCESS" by blast
  from threat_verdict_worst [OF this] cands show ?thesis by auto
qed

end
