(* ===== verification/M4_Engine.thy ===== *)
theory M4_Engine
  imports M4_Providers
begin

section \<open>M4: the enrichment engine\<close>

text \<open>
  \<open>M4/app/enrichment/engine.py\<close>: the nine steps of \<open>process\<close> over the registry, the configuration manager
  and the cache. \<open>m4_env\<close> holds the parameters: the clock (as seconds and as text), the hash function,
  the regular expression engine and the test of timestamps. A provider may raise anything and may
  change the event it is given. Durations, metrics and log lines are left out.
\<close>

record m4_env =
  env_now :: rat
  env_now_iso :: string
  env_sha256 :: hash_fun
  env_re :: "string \<Rightarrow> string \<Rightarrow> bool option"
  env_iso_ok :: "string \<Rightarrow> bool"

record enrichment_request =
  rq_event :: canonical_event_rec
  rq_tenant_context :: "m4_tenant_context option"
  rq_configuration_version :: "string option"
  rq_options :: pydict

record provider_diagnostic =
  pd_provider_id :: string
  pd_provider_version :: string
  pd_status :: enrichment_status
  pd_error_message :: "string option"
  pd_error_type :: "string option"
  pd_cached :: bool

record enrichment_diagnostic =
  ed_attempted :: nat
  ed_succeeded :: nat
  ed_failed :: nat
  ed_timed_out :: nat
  ed_not_found :: nat
  ed_providers :: "provider_diagnostic list"

record enrichment_result =
  er_event :: canonical_event_rec
  er_status :: enrichment_status
  er_provenance :: "enrichment_provenance list"
  er_diagnostics :: enrichment_diagnostic
  er_integrity :: integrity_metadata

record m4_engine =
  eng_registry :: provider_registry
  eng_configs :: config_manager
  eng_cache :: "lru_cache option"

subsection \<open>One provider\<close>

definition first_nonempty :: "string option list \<Rightarrow> string \<Rightarrow> string" where
  "first_nonempty xs d =
     (case filter (\<lambda>x. x \<noteq> None \<and> x \<noteq> Some []) xs of [] \<Rightarrow> d | x # _ \<Rightarrow> the x)"

definition get_lookup_key :: "canonical_event_rec \<Rightarrow> provider \<Rightarrow> string" where
  "get_lookup_key event p =
     (if p_namespace p = ''asset'' then
        first_nonempty [ep_ip (c_source event), ho_hostname (c_host event), ho_name (c_host event)] ''unknown''
      else if p_namespace p = ''geo'' then
        first_nonempty [ep_ip (c_source event), ep_ip (c_destination event)] ''unknown''
      else if p_namespace p = ''threat_intel'' then
        first_nonempty [ep_domain (c_destination event), ep_ip (c_destination event), ep_ip (c_source event)] ''unknown''
      else first_nonempty [ep_ip (c_source event)] (ev_id (c_event event)))"

record enrich_loop =
  l_event :: canonical_event_rec
  l_cache :: "lru_cache option"
  l_tracker :: provenance_tracker
  l_succeeded :: nat
  l_failed :: nat
  l_timed_out :: nat
  l_not_found :: nat
  l_diagnostics :: "provider_diagnostic list"

definition add_record :: "m4_env \<Rightarrow> provider \<Rightarrow> provider_output \<Rightarrow> cache_status \<Rightarrow> enrich_loop \<Rightarrow>
    (enrich_loop \<times> enrichment_provenance) result" where
  "add_record env p out cs st =
     rbind (record_operation (env_now_iso env) p out cs (l_tracker st)) (\<lambda>(tr, r). Inr (st\<lparr>l_tracker := tr\<rparr>, r))"

definition diagnostic :: "provider \<Rightarrow> enrichment_status \<Rightarrow> string option \<Rightarrow> string option \<Rightarrow> bool \<Rightarrow> provider_diagnostic" where
  "diagnostic p st msg ty cached =
     \<lparr> pd_provider_id = p_id p, pd_provider_version = p_version p, pd_status = st, pd_error_message = msg,
       pd_error_type = ty, pd_cached = cached \<rparr>"

text \<open>A step returns the state it reaches also where it raises: the cache keeps what was written before.\<close>

definition cache_hit_step :: "m4_env \<Rightarrow> provider \<Rightarrow> cache_entry \<Rightarrow> enrich_loop \<Rightarrow> enrich_loop \<times> unit result" where
  "cache_hit_step env p entry st =
     (let out = \<lparr> po_status = SUCCESS, po_data = ce_data entry, po_confidence = pr_confidence (ce_provenance entry),
                  po_source_reference = pr_source_reference (ce_provenance entry), po_error_message = None, po_error_type = None \<rparr>;
          st1 = st\<lparr>l_event := merge_output (l_event st) (p_namespace p) out\<rparr>
      in case add_record env p out HIT st1 of
           Inl e \<Rightarrow> (st1, Inl e)
         | Inr (st2, _) \<Rightarrow>
             (st2\<lparr>l_diagnostics := l_diagnostics st2 @ [diagnostic p SUCCESS None None True],
                  l_succeeded := l_succeeded st2 + 1\<rparr>, Inr ()))"

text \<open>The body of the \<open>try\<close>: the state it reaches, and how it ends: with the error message and type of the
  diagnostic, or with an exception.\<close>

definition run_success :: "m4_env \<Rightarrow> enrichment_config \<Rightarrow> string \<Rightarrow> bool \<Rightarrow> string \<Rightarrow> provider \<Rightarrow> provider_output \<Rightarrow>
    enrich_loop \<Rightarrow> enrich_loop \<times> (string option \<times> string option) result" where
  "run_success env cfg tenant_id use_cache lookup_key p out st =
     (case validate_output (p_id p) out of
        Inl e \<Rightarrow> (st, Inl e)
      | Inr _ \<Rightarrow>
          let st1 = st\<lparr>l_event := merge_output (l_event st) (p_namespace p) out, l_succeeded := l_succeeded st + 1\<rparr>
          in if use_cache then
               (case add_record env p out MISS st1 of
                  Inl e \<Rightarrow> (st1, Inl e)
                | Inr (st2, prov_record) \<Rightarrow>
                    let ttl = (case map_of (cfg_provider_timeouts cfg) (p_id p) of
                                 None \<Rightarrow> of_int (cfg_cache_ttl_seconds cfg) | Some t \<Rightarrow> t)
                    in case l_cache st2 of
                         None \<Rightarrow> (st2, Inr (None, None))
                       | Some c \<Rightarrow>
                           (case cache_set (env_now env) tenant_id (p_id p) (p_namespace p) lookup_key (po_data out)
                              prov_record (trunc ttl) (\<not> p_tenant_sensitive p) c of
                              Inl e \<Rightarrow> (st2, Inl e)
                            | Inr c' \<Rightarrow> (st2\<lparr>l_cache := Some c'\<rparr>, Inr (None, None))))
             else
               (case add_record env p out BYPASS st1 of
                  Inl e \<Rightarrow> (st1, Inl e)
                | Inr (st2, _) \<Rightarrow> (st2, Inr (None, None))))"

definition run_provider :: "m4_env \<Rightarrow> enrichment_config \<Rightarrow> enrichment_context \<Rightarrow> bool \<Rightarrow> string \<Rightarrow> provider \<Rightarrow>
    enrich_loop \<Rightarrow> enrich_loop \<times> (enrichment_status \<times> string option \<times> string option) result" where
  "run_provider env cfg ctx use_cache lookup_key p st0 =
     (case p_enrich p (l_event st0) ctx of
        (ev, Inl e) \<Rightarrow> (st0\<lparr>l_event := ev\<rparr>, Inl e)
      | (ev, Inr out) \<Rightarrow>
          let st = st0\<lparr>l_event := ev\<rparr> in
          if po_status out = SUCCESS then
            (case run_success env cfg (tc_tenant_id (ec_tenant_context ctx)) use_cache lookup_key p out st of
               (st', Inl e) \<Rightarrow> (st', Inl e)
             | (st', Inr (msg, ty)) \<Rightarrow> (st', Inr (SUCCESS, msg, ty)))
          else if po_status out = NOT_FOUND then
            (let st1 = st\<lparr>l_not_found := l_not_found st + 1\<rparr> in
             case add_record env p out MISS st1 of
               Inl e \<Rightarrow> (st1, Inl e)
             | Inr (st2, _) \<Rightarrow> (st2, Inr (NOT_FOUND, po_error_message out, None)))
          else
            (let st1 = st\<lparr>l_failed := l_failed st + 1\<rparr>;
                 ty = (if po_error_type out \<noteq> None \<and> po_error_type out \<noteq> Some [] then po_error_type out
                       else Some ''ProviderExecutionFailure'') in
             case add_record env p out MISS st1 of
               Inl e \<Rightarrow> (st1, Inl e)
             | Inr (st2, _) \<Rightarrow> (st2, Inr (po_status out, po_error_message out, ty))))"

definition error_output :: "enrichment_status \<Rightarrow> string \<Rightarrow> string \<Rightarrow> provider_output" where
  "error_output st msg ty = \<lparr> po_status = st, po_data = [], po_confidence = 1, po_source_reference = None,
     po_error_message = Some msg, po_error_type = Some ty \<rparr>"

text \<open>The two \<open>except\<close> clauses.\<close>

definition handle_exception :: "m4_env \<Rightarrow> provider \<Rightarrow> exn \<Rightarrow> enrich_loop \<Rightarrow>
    enrich_loop \<times> (enrichment_status \<times> string \<times> string) result" where
  "handle_exception env p e st =
     (if exn_name e = ''ProviderTimeoutError'' then
        let st1 = st\<lparr>l_timed_out := l_timed_out st + 1\<rparr> in
        case add_record env p (error_output TIMEOUT (exn_str e) ''ProviderTimeoutError'') MISS st1 of
          Inl e' \<Rightarrow> (st1, Inl e')
        | Inr (st2, _) \<Rightarrow> (st2, Inr (TIMEOUT, exn_str e, ''ProviderTimeoutError''))
      else
        let st1 = st\<lparr>l_failed := l_failed st + 1\<rparr> in
        case add_record env p (error_output FAILED (exn_str e) (exn_name e)) MISS st1 of
          Inl e' \<Rightarrow> (st1, Inl e')
        | Inr (st2, _) \<Rightarrow> (st2, Inr (FAILED, exn_str e, exn_name e)))"

definition provider_step :: "m4_env \<Rightarrow> enrichment_config \<Rightarrow> enrichment_context \<Rightarrow> bool \<Rightarrow> provider \<Rightarrow> enrich_loop \<Rightarrow>
    enrich_loop \<times> unit result" where
  "provider_step env cfg ctx bypass_cache p st =
     (let lookup_key = get_lookup_key (l_event st) p;
          is_global = (\<not> p_tenant_sensitive p);
          use_cache = (l_cache st \<noteq> None \<and> cfg_cache_enabled cfg \<and> \<not> bypass_cache);
          (cache', cached_entry) =
            (case l_cache st of
               None \<Rightarrow> (None, None)
             | Some c \<Rightarrow>
                 if use_cache then
                   (case cache_get (env_now env) (tc_tenant_id (ec_tenant_context ctx)) (p_id p) (p_namespace p) lookup_key is_global c of
                      (c', hit) \<Rightarrow> (Some c', hit))
                 else (Some c, None));
          st1 = st\<lparr>l_cache := cache'\<rparr>
      in case cached_entry of
           Some entry \<Rightarrow> cache_hit_step env p entry st1
         | None \<Rightarrow>
             (case run_provider env cfg ctx use_cache lookup_key p st1 of
                (st2, Inr (status, msg, ty)) \<Rightarrow>
                  (st2\<lparr>l_diagnostics := l_diagnostics st2 @ [diagnostic p status msg ty False]\<rparr>, Inr ())
              | (st2, Inl e) \<Rightarrow>
                  (case handle_exception env p e st2 of
                     (st3, Inl e') \<Rightarrow> (st3, Inl e')
                   | (st3, Inr (status, msg, ty)) \<Rightarrow>
                       (st3\<lparr>l_diagnostics := l_diagnostics st3 @ [diagnostic p status (Some msg) (Some ty) False]\<rparr>, Inr ()))))"

fun provider_loop :: "m4_env \<Rightarrow> enrichment_config \<Rightarrow> enrichment_context \<Rightarrow> bool \<Rightarrow> provider list \<Rightarrow> enrich_loop \<Rightarrow>
    enrich_loop \<times> unit result" where
  "provider_loop env cfg ctx bypass [] st = (st, Inr ())"
| "provider_loop env cfg ctx bypass (p # ps) st =
     (case provider_step env cfg ctx bypass p st of
        (st', Inl e) \<Rightarrow> (st', Inl e)
      | (st', Inr _) \<Rightarrow> provider_loop env cfg ctx bypass ps st')"

subsection \<open>The whole request\<close>

definition overall_status :: "nat \<Rightarrow> enrich_loop \<Rightarrow> enrichment_status" where
  "overall_status attempted st =
     (if attempted = 0 then SKIPPED
      else if 0 < l_failed st \<or> 0 < l_timed_out st then
        (if 0 < l_succeeded st then PARTIAL
         else if l_timed_out st = attempted then TIMEOUT else FAILED)
      else if 0 < l_succeeded st then SUCCESS
      else if 0 < l_not_found st then NOT_FOUND
      else SKIPPED)"

definition resolve_config :: "config_manager \<Rightarrow> string option \<Rightarrow> enrichment_config result" where
  "resolve_config m version =
     (case version of
        Some (c # cs) \<Rightarrow> (case get_version (c # cs) m of Some cfg \<Rightarrow> Inr cfg | None \<Rightarrow> get_active m)
      | _ \<Rightarrow> get_active m)"

definition resolve_tenant :: "enrichment_request \<Rightarrow> canonical_event_rec \<Rightarrow> enrichment_config \<Rightarrow> m4_tenant_context result" where
  "resolve_tenant req event cfg =
     (case rq_tenant_context req of
        Some t \<Rightarrow> Inr t
      | None \<Rightarrow> new_tenant_context (tm_tenant_id (c_tenant event)) (tm_scope (c_tenant event)) (cfg_version cfg))"

definition start_loop :: "canonical_event_rec \<Rightarrow> lru_cache option \<Rightarrow> enrichment_config \<Rightarrow> enrich_loop" where
  "start_loop event cache cfg =
     \<lparr> l_event = event, l_cache = cache, l_tracker = \<lparr> pt_configuration_version = cfg_version cfg, pt_records = [] \<rparr>,
       l_succeeded = 0, l_failed = 0, l_timed_out = 0, l_not_found = 0, l_diagnostics = [] \<rparr>"

text \<open>Steps six to nine, on the state that the providers leave.\<close>

definition finish :: "m4_env \<Rightarrow> canonical_event_rec \<Rightarrow> nat \<Rightarrow> enrich_loop \<Rightarrow> enrichment_result result" where
  "finish env original attempted st =
     rbind (verify_invariants original (l_event st)) (\<lambda>_.
       let attached = attach_to_event (l_tracker st) (l_event st) in
       rbind (calculate_integrity (env_sha256 env) (env_now_iso env) (event_dump attached) ''enriched'') (\<lambda>meta.
         Inr \<lparr> er_event = attached\<lparr>c_integrity := Some meta\<rparr>,
               er_status = overall_status attempted st,
               er_provenance = pt_records (l_tracker st),
               er_diagnostics = \<lparr> ed_attempted = attempted, ed_succeeded = l_succeeded st, ed_failed = l_failed st,
                 ed_timed_out = l_timed_out st, ed_not_found = l_not_found st, ed_providers = l_diagnostics st \<rparr>,
               er_integrity = meta \<rparr>))"

definition process :: "m4_env \<Rightarrow> m4_engine \<Rightarrow> enrichment_request \<Rightarrow> m4_engine \<times> enrichment_result result" where
  "process env eng req =
     (case rbind (validate_event (env_iso_ok env) (rq_event req)) (\<lambda>event.
           rbind (resolve_config (eng_configs eng) (rq_configuration_version req)) (\<lambda>cfg.
           rbind (resolve_tenant req event cfg) (\<lambda>tctx.
           rbind (validate_event_tenant event (Some tctx)) (\<lambda>_. Inr (event, cfg, tctx))))) of
        Inl e \<Rightarrow> (eng, Inl e)
      | Inr (event, cfg, tctx) \<Rightarrow>
          let ctx = \<lparr> ec_tenant_context = tctx, ec_configuration_version = cfg_version cfg, ec_options = rq_options req \<rparr>;
              planned = plan_execution (env_re env) (eng_registry eng) event cfg ctx;
              bypass = py_truthy (pget_default (rq_options req) ''bypass_cache'' (PBool False))
          in (case provider_loop env cfg ctx bypass planned (start_loop event (eng_cache eng) cfg) of
                (st, Inl e) \<Rightarrow> (eng\<lparr>eng_cache := l_cache st\<rparr>, Inl e)
              | (st, Inr _) \<Rightarrow> (eng\<lparr>eng_cache := l_cache st\<rparr>, finish env event (length planned) st)))"

subsection \<open>Records and counters\<close>

definition conf_ok :: "rat \<Rightarrow> bool" where
  "conf_ok c \<longleftrightarrow> 0 \<le> c \<and> c \<le> 1"

lemma round4_range: "conf_ok v \<Longrightarrow> conf_ok (round4 v)"
proof -
  assume v: "conf_ok v"
  have "0 \<le> round_half_even (v * 10000) \<and> round_half_even (v * 10000) \<le> 10000"
    by (rule round_half_even_bounds) (use v in \<open>simp_all add: conf_ok_def\<close>)
  then have "\<exists>x. round_double (of_int (round_half_even (v * 10000)) / 10000) = FFin x \<and> 0 \<le> x \<and> x \<le> 1"
    by (intro round_double_unit) (simp_all add: divide_le_eq)
  then show ?thesis by (auto simp: round4_def conf_ok_def)
qed

text \<open>Whose outcome a record or a diagnostic states, and which.\<close>

type_synonym outcome_of = "string \<times> string \<times> enrichment_status"

definition outcome :: "provider \<Rightarrow> enrichment_status \<Rightarrow> outcome_of" where
  "outcome p status = (p_id p, p_version p, status)"

definition recorded_outcome :: "enrichment_provenance \<Rightarrow> outcome_of" where
  "recorded_outcome r = (pr_provider_id r, pr_provider_version r, pr_result_status r)"

definition diagnosed_outcome :: "provider_diagnostic \<Rightarrow> outcome_of" where
  "diagnosed_outcome d = (pd_provider_id d, pd_provider_version d, pd_status d)"

lemma diagnosed_outcome_diagnostic [simp]: "diagnosed_outcome (diagnostic p status msg ty cached) = outcome p status"
  by (simp add: diagnosed_outcome_def diagnostic_def outcome_def)

lemma record_operation_ok:
  assumes "po_status out = SUCCESS \<Longrightarrow> conf_ok (po_confidence out)"
  shows "\<exists>r. record_operation now p out cs tr = Inr (tr\<lparr>pt_records := pt_records tr @ [r]\<rparr>, r) \<and> conf_ok (pr_confidence r) \<and>
    recorded_outcome r = outcome p (po_status out)"
proof -
  let ?c = "if po_status out = SUCCESS then po_confidence out else 0"
  have c: "conf_ok ?c" using assms by (simp add: conf_ok_def)
  then have v: "validate_confidence ?c = Inr (round4 ?c)" by (auto simp: validate_confidence_def conf_ok_def)
  show ?thesis unfolding record_operation_def v using round4_range [OF c] by (simp add: Let_def recorded_outcome_def outcome_def)
qed

lemma add_record_ok:
  assumes "po_status out = SUCCESS \<Longrightarrow> conf_ok (po_confidence out)"
  shows "\<exists>r. add_record env p out cs st = Inr (st\<lparr>l_tracker := (l_tracker st)\<lparr>pt_records := pt_records (l_tracker st) @ [r]\<rparr>\<rparr>, r) \<and>
    conf_ok (pr_confidence r) \<and> recorded_outcome r = outcome p (po_status out)"
  using record_operation_ok [OF assms, where now = "env_now_iso env" and p = p and cs = cs and tr = "l_tracker st"]
  by (auto simp: add_record_def)

definition cache_conf :: "lru_cache \<Rightarrow> bool" where
  "cache_conf c \<longleftrightarrow> (\<forall>k e. map_of (lru_entries c) k = Some e \<longrightarrow> conf_ok (pr_confidence (ce_provenance e)))"

definition cache_good :: "lru_cache option \<Rightarrow> bool" where
  "cache_good oc = (case oc of None \<Rightarrow> True | Some c \<Rightarrow> lru_ok c \<and> cache_conf c)"

text \<open>Where \<open>n\<close> providers are counted, the outcomes \<open>r\<close> are recorded and the outcomes \<open>d\<close> diagnosed, on an event that started as \<open>ev0\<close>.\<close>

definition loop_state :: "canonical_event_rec \<Rightarrow> nat \<Rightarrow> outcome_of list \<Rightarrow> outcome_of list \<Rightarrow> enrich_loop \<Rightarrow> bool" where
  "loop_state ev0 n r d st \<longleftrightarrow> cache_good (l_cache st) \<and> core (l_event st) = core ev0 \<and>
     l_succeeded st + l_failed st + l_timed_out st + l_not_found st = n \<and>
     map recorded_outcome (pt_records (l_tracker st)) = r \<and> map diagnosed_outcome (l_diagnostics st) = d"

lemma cache_get_good:
  assumes "cache_good (Some c)" and "cache_get now t p lt lk g c = (c', hit)"
  shows "cache_good (Some c') \<and> (\<forall>e. hit = Some e \<longrightarrow> conf_ok (pr_confidence (ce_provenance e)))"
proof -
  have ok: "lru_ok c" "cache_conf c" using assms(1) by (simp_all add: cache_good_def)
  have "lru_ok c'" using cache_get_ok [OF ok(1), of now t p lt lk g] assms(2) by simp
  moreover have "cache_conf c'"
    unfolding cache_conf_def using cache_get_sub [OF ok(1), of now t p lt lk g] assms(2) ok(2)
    by (metis cache_conf_def fst_conv)
  moreover have "conf_ok (pr_confidence (ce_provenance e))" if "hit = Some e" for e
  proof -
    have "map_of (lru_entries c) (build_tenant_cache_key t p lt lk g) = Some e"
      using assms(2) that by (auto simp: cache_get_def Let_def split: option.splits if_splits)
    then show ?thesis using ok(2) by (simp add: cache_conf_def)
  qed
  ultimately show ?thesis by (simp add: cache_good_def)
qed

lemma cache_set_good:
  assumes "cache_good (Some c)" and "conf_ok (pr_confidence prov)"
  shows "\<exists>c'. cache_set now t p lt lk data prov ttl g c = Inr c' \<and> cache_good (Some c')"
proof -
  let ?k = "build_tenant_cache_key t p lt lk g" and ?e = "new_entry now t p lt lk data prov ttl g"
  have ok: "lru_ok c" "cache_conf c" using assms(1) by (simp_all add: cache_good_def)
  obtain c' where c': "lru_store ?k ?e c = Inr c'" using lru_store_total [OF ok(1)] by blast
  note st = lru_store_cases [OF ok(1) c']
  have "conf_ok (pr_confidence (ce_provenance x))" if "map_of (lru_entries c') k = Some x" for k x
  proof (cases "k = ?k")
    case True
    then have "x = ?e" using st that by simp
    then show ?thesis using assms(2) by (simp add: new_entry_def)
  next
    case False
    then have "map_of (lru_entries c) k = Some x" using st that by fastforce
    then show ?thesis using ok(2) by (simp add: cache_conf_def)
  qed
  then show ?thesis using c' st by (simp add: cache_set_def cache_good_def cache_conf_def)
qed

lemma loop_add_record:
  assumes "loop_state ev0 n r d st" and "po_status out = SUCCESS \<Longrightarrow> conf_ok (po_confidence out)"
  shows "\<exists>st' rec. add_record env p out cs st = Inr (st', rec) \<and> loop_state ev0 n (r @ [outcome p (po_status out)]) d st' \<and>
    l_cache st' = l_cache st \<and> conf_ok (pr_confidence rec)"
  using add_record_ok [OF assms(2), where env = env and p = p and cs = cs and st = st] assms(1)
  by (auto simp: loop_state_def)

lemma loop_handle_exception:
  assumes "loop_state ev0 n r d st"
  shows "\<exists>st' status msg ty. handle_exception env p e st = (st', Inr (status, msg, ty)) \<and> loop_state ev0 (Suc n) (r @ [outcome p status]) d st'"
proof -
  have t: "loop_state ev0 (Suc n) r d (st\<lparr>l_timed_out := l_timed_out st + 1\<rparr>)"
    and f: "loop_state ev0 (Suc n) r d (st\<lparr>l_failed := l_failed st + 1\<rparr>)" using assms by (auto simp: loop_state_def)
  show ?thesis
  proof (cases "exn_name e = ''ProviderTimeoutError''")
    case True
    obtain st' q where "add_record env p (error_output TIMEOUT (exn_str e) ''ProviderTimeoutError'') MISS
        (st\<lparr>l_timed_out := l_timed_out st + 1\<rparr>) = Inr (st', q)" "loop_state ev0 (Suc n) (r @ [outcome p TIMEOUT]) d st'"
      using loop_add_record [OF t, of "error_output TIMEOUT (exn_str e) ''ProviderTimeoutError''" env p MISS]
      by (auto simp: error_output_def)
    then show ?thesis using True by (simp add: handle_exception_def Let_def)
  next
    case False
    obtain st' q where "add_record env p (error_output FAILED (exn_str e) (exn_name e)) MISS
        (st\<lparr>l_failed := l_failed st + 1\<rparr>) = Inr (st', q)" "loop_state ev0 (Suc n) (r @ [outcome p FAILED]) d st'"
      using loop_add_record [OF f, of "error_output FAILED (exn_str e) (exn_name e)" env p MISS]
      by (auto simp: error_output_def)
    then show ?thesis using False by (simp add: handle_exception_def Let_def)
  qed
qed

lemma loop_run_success:
  assumes "loop_state ev0 n r d st" and "conf_ok (po_confidence out)" and "po_status out = SUCCESS"
  shows "case run_success env cfg t use_cache lk p out st of
      (st', Inl _) \<Rightarrow> loop_state ev0 n r d st'
    | (st', Inr _) \<Rightarrow> loop_state ev0 (Suc n) (r @ [outcome p SUCCESS]) d st'"
proof (cases "validate_output (p_id p) out")
  case (Inl e)
  then show ?thesis using assms(1) by (simp add: run_success_def)
next
  case (Inr u)
  let ?st1 = "st\<lparr>l_event := merge_output (l_event st) (p_namespace p) out, l_succeeded := l_succeeded st + 1\<rparr>"
  have st1: "loop_state ev0 (Suc n) r d ?st1" using assms(1) by (auto simp: loop_state_def)
  note rec = loop_add_record [OF st1 assms(2), of env p, unfolded assms(3)]
  show ?thesis
  proof (cases use_cache)
    case False
    obtain st2 q where q: "add_record env p out BYPASS ?st1 = Inr (st2, q)" "loop_state ev0 (Suc n) (r @ [outcome p SUCCESS]) d st2"
      using rec [of BYPASS] by blast
    then show ?thesis using Inr False by (simp add: run_success_def Let_def)
  next
    case True
    obtain st2 q where q: "add_record env p out MISS ?st1 = Inr (st2, q)" "loop_state ev0 (Suc n) (r @ [outcome p SUCCESS]) d st2"
        "conf_ok (pr_confidence q)"
      using rec [of MISS] by blast
    show ?thesis
    proof (cases "l_cache st2")
      case None
      then show ?thesis using q Inr True by (simp add: run_success_def Let_def)
    next
      case (Some c)
      then have "cache_good (Some c)" using q(2) by (simp add: loop_state_def)
      from cache_set_good [OF this q(3)] obtain f where
        f: "\<And>now t p lt lk data ttl g. cache_set now t p lt lk data q ttl g c = Inr (f now t p lt lk data ttl g) \<and>
              cache_good (Some (f now t p lt lk data ttl g))" by metis
      then show ?thesis using q Inr True Some by (simp add: run_success_def Let_def loop_state_def)
    qed
  qed
qed

lemma loop_run_provider:
  assumes "enrichment_provider p" and "loop_state ev0 n r d st"
  shows "case run_provider env cfg ctx use_cache lk p st of
      (st', Inl _) \<Rightarrow> loop_state ev0 n r d st'
    | (st', Inr (status, _)) \<Rightarrow> loop_state ev0 (Suc n) (r @ [outcome p status]) d st'"
proof (cases "p_enrich p (l_event st) ctx")
  case (Pair ev res)
  have ev: "ev = l_event st" using enrichment_provider.keeps_event [OF assms(1), of "l_event st" ctx] Pair by simp
  have st: "st\<lparr>l_event := ev\<rparr> = st" using ev by simp
  show ?thesis
  proof (cases res)
    case (Inl e)
    then show ?thesis using Pair assms(2) st by (simp add: run_provider_def)
  next
    case (Inr out)
    have c: "conf_ok (po_confidence out)"
      using enrichment_provider.confidence_range [OF assms(1), of "l_event st" ctx out] Pair Inr by (simp add: conf_ok_def)
    have nf: "loop_state ev0 (Suc n) r d (st\<lparr>l_not_found := l_not_found st + 1\<rparr>)"
      and fl: "loop_state ev0 (Suc n) r d (st\<lparr>l_failed := l_failed st + 1\<rparr>)"
      using assms(2) by (auto simp: loop_state_def)
    obtain nst nq where n: "add_record env p out MISS (st\<lparr>l_not_found := l_not_found st + 1\<rparr>) = Inr (nst, nq)"
      "loop_state ev0 (Suc n) (r @ [outcome p (po_status out)]) d nst" using loop_add_record [OF nf, of out env p MISS] c by blast
    obtain fst' fq where f: "add_record env p out MISS (st\<lparr>l_failed := l_failed st + 1\<rparr>) = Inr (fst', fq)"
      "loop_state ev0 (Suc n) (r @ [outcome p (po_status out)]) d fst'" using loop_add_record [OF fl, of out env p MISS] c by blast
    note s = loop_run_success [OF assms(2) c, where env = env and cfg = cfg and t = "tc_tenant_id (ec_tenant_context ctx)" and use_cache = use_cache and lk = lk and p = p]
    consider "po_status out = SUCCESS" | "po_status out = NOT_FOUND" | "po_status out \<noteq> SUCCESS" "po_status out \<noteq> NOT_FOUND" by blast
    then show ?thesis
    proof cases
      case 1
      then show ?thesis using s Pair Inr st by (auto simp: run_provider_def split: prod.splits sum.splits)
    next
      case 2
      then show ?thesis using n Pair Inr st by (simp add: run_provider_def)
    next
      case 3
      then show ?thesis using f Pair Inr st by (simp add: run_provider_def Let_def)
    qed
  qed
qed

lemma loop_cache_hit:
  assumes "loop_state ev0 n r r st" and "conf_ok (pr_confidence (ce_provenance entry))"
  shows "\<exists>st'. cache_hit_step env p entry st = (st', Inr ()) \<and> loop_state ev0 (Suc n) (r @ [outcome p SUCCESS]) (r @ [outcome p SUCCESS]) st'"
proof -
  let ?out = "\<lparr> po_status = SUCCESS, po_data = ce_data entry, po_confidence = pr_confidence (ce_provenance entry),
     po_source_reference = pr_source_reference (ce_provenance entry), po_error_message = None, po_error_type = None \<rparr>"
  have "loop_state ev0 n r r (st\<lparr>l_event := merge_output (l_event st) (p_namespace p) ?out\<rparr>)"
    using assms(1) by (simp add: loop_state_def)
  from loop_add_record [OF this, of ?out env p HIT] assms(2) show ?thesis
    by (auto simp: cache_hit_step_def Let_def loop_state_def)
qed

lemma provider_step_ok:
  assumes "enrichment_provider p" and "loop_state ev0 n r r st"
  shows "\<exists>st' status. provider_step env cfg ctx bypass p st = (st', Inr ()) \<and>
    loop_state ev0 (Suc n) (r @ [outcome p status]) (r @ [outcome p status]) st'"
proof -
  have run: "\<exists>st' status. (case run_provider env cfg ctx use_cache lk p st1 of
        (st2, Inr (status, msg, ty)) \<Rightarrow>
          (st2\<lparr>l_diagnostics := l_diagnostics st2 @ [diagnostic p status msg ty False]\<rparr>, Inr ())
      | (st2, Inl e) \<Rightarrow>
          (case handle_exception env p e st2 of
             (st3, Inl e') \<Rightarrow> (st3, Inl e')
           | (st3, Inr (status, msg, ty)) \<Rightarrow>
               (st3\<lparr>l_diagnostics := l_diagnostics st3 @ [diagnostic p status (Some msg) (Some ty) False]\<rparr>, Inr ()))) = (st', Inr ()) \<and>
      loop_state ev0 (Suc n) (r @ [outcome p status]) (r @ [outcome p status]) st'" if "loop_state ev0 n r r st1" for use_cache lk st1
  proof (cases "run_provider env cfg ctx use_cache lk p st1")
    case (Pair st2 res)
    note ok = loop_run_provider [OF assms(1) that, of env cfg ctx use_cache lk]
    show ?thesis
    proof (cases res)
      case (Inl e)
      then obtain st3 status msg ty where "handle_exception env p e st2 = (st3, Inr (status, msg, ty))"
        "loop_state ev0 (Suc n) (r @ [outcome p status]) r st3" using ok Pair loop_handle_exception [of ev0 n r r st2 env p e] by auto
      then show ?thesis using Pair Inl by (auto simp: loop_state_def)
    next
      case (Inr q)
      then show ?thesis using ok Pair by (cases q) (auto simp: loop_state_def)
    qed
  qed
  have same: "loop_state ev0 n r r (st\<lparr>l_cache := l_cache st\<rparr>)" using assms(2) by simp
  show ?thesis
  proof (cases "l_cache st")
    case None
    then show ?thesis using run [OF same] by (simp add: provider_step_def Let_def)
  next
    case (Some c)
    show ?thesis
    proof (cases "cfg_cache_enabled cfg \<and> \<not> bypass")
      case False
      then have "\<not> (l_cache st \<noteq> None \<and> cfg_cache_enabled cfg \<and> \<not> bypass)" by blast
      then show ?thesis using run [OF same, of False] Some by (simp add: provider_step_def Let_def del: de_Morgan_conj)
    next
      case True
      obtain c' hit where g: "cache_get (env_now env) (tc_tenant_id (ec_tenant_context ctx)) (p_id p) (p_namespace p)
          (get_lookup_key (l_event st) p) (\<not> p_tenant_sensitive p) c = (c', hit)" by (metis surj_pair)
      have good: "cache_good (Some c)" using assms(2) Some by (simp add: loop_state_def)
      note gg = cache_get_good [OF good g]
      have st1: "loop_state ev0 n r r (st\<lparr>l_cache := Some c'\<rparr>)" using assms(2) gg by (simp add: loop_state_def)
      show ?thesis
      proof (cases hit)
        case None
        then show ?thesis using run [OF st1] g True Some by (simp add: provider_step_def Let_def)
      next
        case hit: (Some entry)
        then show ?thesis using loop_cache_hit [OF st1, of entry env p] gg g True Some by (simp add: provider_step_def Let_def) blast
      qed
    qed
  qed
qed

text \<open>The outcomes of the providers, each once and in their order.\<close>

definition outcomes_of :: "provider list \<Rightarrow> outcome_of list \<Rightarrow> bool" where
  "outcomes_of ps os \<longleftrightarrow> map (\<lambda>(i, v, _). (i, v)) os = map (\<lambda>p. (p_id p, p_version p)) ps"

lemma provider_loop_ok:
  "list_all enrichment_provider ps \<Longrightarrow> loop_state ev0 n r r st \<Longrightarrow>
   \<exists>st' os. provider_loop env cfg ctx bypass ps st = (st', Inr ()) \<and> outcomes_of ps os \<and>
     loop_state ev0 (n + length ps) (r @ os) (r @ os) st'"
proof (induction ps arbitrary: n r st)
  case (Cons p ps)
  then obtain st1 status where step: "provider_step env cfg ctx bypass p st = (st1, Inr ())"
      "loop_state ev0 (Suc n) (r @ [outcome p status]) (r @ [outcome p status]) st1"
    using provider_step_ok [of p ev0 n r st env cfg ctx bypass] by auto
  with Cons.IH [OF _ step(2)] Cons.prems(1) obtain st' os where "provider_loop env cfg ctx bypass ps st1 = (st', Inr ())" "outcomes_of ps os"
      "loop_state ev0 (Suc n + length ps) (r @ outcome p status # os) (r @ outcome p status # os) st'" by auto
  then show ?case using step(1) by (intro exI [of _ st'] exI [of _ "outcome p status # os"]) (simp add: outcomes_of_def outcome_def)
qed (simp add: outcomes_of_def)

lemma outcomes_match:
  assumes "outcomes_of ps os" and "map recorded_outcome rs = os" and "map diagnosed_outcome ds = os"
  shows "map (\<lambda>r. (pr_provider_id r, pr_provider_version r)) rs = map (\<lambda>p. (p_id p, p_version p)) ps"
    and "map (\<lambda>x. (pd_provider_id x, pd_provider_version x)) ds = map (\<lambda>p. (p_id p, p_version p)) ps"
    and "map pd_status ds = map pr_result_status rs"
proof -
  have "map (snd \<circ> snd) (map recorded_outcome rs) = map (snd \<circ> snd) (map diagnosed_outcome ds)" using assms(2,3) by simp
  then show "map pd_status ds = map pr_result_status rs" by (simp add: recorded_outcome_def diagnosed_outcome_def comp_def)
  have "map (\<lambda>(i, v, _). (i, v)) (map recorded_outcome rs) = map (\<lambda>p. (p_id p, p_version p)) ps"
    "map (\<lambda>(i, v, _). (i, v)) (map diagnosed_outcome ds) = map (\<lambda>p. (p_id p, p_version p)) ps"
    using assms by (simp_all add: outcomes_of_def)
  then show "map (\<lambda>r. (pr_provider_id r, pr_provider_version r)) rs = map (\<lambda>p. (p_id p, p_version p)) ps"
    "map (\<lambda>x. (pd_provider_id x, pd_provider_version x)) ds = map (\<lambda>p. (p_id p, p_version p)) ps"
    by (simp_all add: recorded_outcome_def diagnosed_outcome_def comp_def)
qed

lemma plan_providers: "p \<in> set (plan_execution re reg event config ctx) \<Longrightarrow> p \<in> snd ` set reg"
  by (auto simp: plan_execution_def Let_def sort_providers_def set_map_filter intro: rev_image_eqI dest!: map_of_SomeD split: if_splits)

lemma event_dump_integrity:
  "event_dump (event\<lparr>c_integrity := Some meta\<rparr>) = dict_set ''integrity'' (integrity_dump meta) (event_dump event)"
  by (simp add: event_dump_def)

lemma finish_ok:
  assumes "finish env ev0 n st = Inr res"
  shows "core (er_event res) = core ev0" and "core (l_event st) = core ev0"
    and "verify_integrity (env_sha256 env) now' (event_dump (er_event res)) None ph = Inr True"
    and "er_provenance res = pt_records (l_tracker st)"
    and "map_of (sub_dict (c_extensions (er_event res)) ''enrichment'') ''provenance'' =
           Some (PList (map provenance_dump (er_provenance res)))"
    and "er_status res = overall_status n st"
    and "er_diagnostics res = \<lparr> ed_attempted = n, ed_succeeded = l_succeeded st, ed_failed = l_failed st,
           ed_timed_out = l_timed_out st, ed_not_found = l_not_found st, ed_providers = l_diagnostics st \<rparr>"
proof -
  let ?a = "attach_to_event (l_tracker st) (l_event st)"
  obtain meta where v: "verify_invariants ev0 (l_event st) = Inr ()"
    and m: "calculate_integrity (env_sha256 env) (env_now_iso env) (event_dump ?a) ''enriched'' = Inr meta"
    and res: "res = \<lparr> er_event = ?a\<lparr>c_integrity := Some meta\<rparr>, er_status = overall_status n st,
        er_provenance = pt_records (l_tracker st),
        er_diagnostics = \<lparr> ed_attempted = n, ed_succeeded = l_succeeded st, ed_failed = l_failed st,
          ed_timed_out = l_timed_out st, ed_not_found = l_not_found st, ed_providers = l_diagnostics st \<rparr>,
        er_integrity = meta \<rparr>"
    using assms by (auto simp: finish_def Let_def rbind_def split: sum.splits)
  have c: "core ev0 = core (l_event st)" using v verify_invariants_core by blast
  have "core (?a\<lparr>c_integrity := Some meta\<rparr>) = core ?a" by (simp add: core_def)
  then show "core (er_event res) = core ev0" "core (l_event st) = core ev0" using res c by simp_all
  show "verify_integrity (env_sha256 env) now' (event_dump (er_event res)) None ph = Inr True"
    using sealed_verifies [OF m] res by (simp add: event_dump_integrity)
  show "map_of (sub_dict (c_extensions (er_event res)) ''enrichment'') ''provenance'' =
      Some (PList (map provenance_dump (er_provenance res)))"
    using res by (simp add: attach_to_event_def)
qed (use assms in \<open>auto simp: finish_def Let_def rbind_def split: sum.splits\<close>)

lemma validate_event_same: "validate_event ok c = Inr c' \<Longrightarrow> c' = c"
  by (auto simp: validate_event_def split: if_splits)

lemma process_cases:
  obtains (invalid) e where "process env eng req = (eng, Inl e)" "validate_event (env_iso_ok env) (rq_event req) = Inl e"
  | (config) e where "process env eng req = (eng, Inl e)" "resolve_config (eng_configs eng) (rq_configuration_version req) = Inl e"
  | (tenant) cfg e where "process env eng req = (eng, Inl e)" "resolve_tenant req (rq_event req) cfg = Inl e"
  | (scope) t e where "process env eng req = (eng, Inl e)" "validate_event_tenant (rq_event req) (Some t) = Inl e"
  | (loop) cfg tctx ctx bypass ps where
      "validate_event_tenant (rq_event req) (Some tctx) = Inr ()" "resolve_tenant req (rq_event req) cfg = Inr tctx"
      "ps = plan_execution (env_re env) (eng_registry eng) (rq_event req) cfg ctx"
      "process env eng req = (case provider_loop env cfg ctx bypass ps (start_loop (rq_event req) (eng_cache eng) cfg) of
         (st, Inl e) \<Rightarrow> (eng\<lparr>eng_cache := l_cache st\<rparr>, Inl e)
       | (st, Inr _) \<Rightarrow> (eng\<lparr>eng_cache := l_cache st\<rparr>, finish env (rq_event req) (length ps) st))"
      "resolve_config (eng_configs eng) (rq_configuration_version req) = Inr cfg"
      "ctx = \<lparr> ec_tenant_context = tctx, ec_configuration_version = cfg_version cfg, ec_options = rq_options req \<rparr>"
proof (cases "validate_event (env_iso_ok env) (rq_event req)")
  case (Inl e)
  then show ?thesis by (intro invalid) (simp_all add: process_def)
next
  case v: (Inr ev)
  then have v: "validate_event (env_iso_ok env) (rq_event req) = Inr (rq_event req)" using validate_event_same by blast
  show ?thesis
  proof (cases "resolve_config (eng_configs eng) (rq_configuration_version req)")
    case (Inl e)
    then show ?thesis using v by (intro config) (simp_all add: process_def)
  next
    case c: (Inr cfg)
    show ?thesis
    proof (cases "resolve_tenant req (rq_event req) cfg")
      case (Inl e)
      then show ?thesis using v c by (intro tenant) (simp_all add: process_def)
    next
      case t: (Inr tctx)
      show ?thesis
      proof (cases "validate_event_tenant (rq_event req) (Some tctx)")
        case (Inl e)
        then show ?thesis using v c t by (intro scope) (simp_all add: process_def)
      next
        case (Inr u)
        let ?ctx = "\<lparr> ec_tenant_context = tctx, ec_configuration_version = cfg_version cfg, ec_options = rq_options req \<rparr>"
        show ?thesis
          by (rule loop [of tctx cfg "plan_execution (env_re env) (eng_registry eng) (rq_event req) cfg ?ctx" ?ctx
                "py_truthy (pget_default (rq_options req) ''bypass_cache'' (PBool False))"])
             (use v c t Inr in \<open>simp_all add: process_def Let_def\<close>)
      qed
    qed
  qed
qed

subsection \<open>Properties\<close>

text \<open>(C4) A request that succeeds, whatever its providers do (they may even change the event they are given),
  returns an event with the identifier, the timestamp, the raw identifier, the tenant and the addresses of the
  request's; the context it ran under names the tenant of the event; the event carries the provenance
  records of the result; and its seal verifies.\<close>

theorem process_preserves_and_seals:
  "case process env eng req of
     (eng', Inl _) \<Rightarrow> True
   | (eng', Inr res) \<Rightarrow>
       core (er_event res) = core (rq_event req) \<and>
       (\<exists>cfg tctx. resolve_tenant req (rq_event req) cfg = Inr tctx \<and> tc_tenant_id tctx = tm_tenant_id (c_tenant (rq_event req))) \<and>
       map_of (sub_dict (c_extensions (er_event res)) ''enrichment'') ''provenance'' =
         Some (PList (map provenance_dump (er_provenance res))) \<and>
       verify_integrity (env_sha256 env) now' (event_dump (er_event res)) None ph = Inr True"
proof (cases rule: process_cases [of env eng req])
  case (loop cfg tctx ctx bypass ps)
  have t: "tc_tenant_id tctx = tm_tenant_id (c_tenant (rq_event req))"
    using loop(1) by (simp add: validate_event_tenant_def split: if_splits)
  show ?thesis
    unfolding loop(4) using loop(2) t finish_ok by (auto split: sum.splits prod.splits)
qed simp_all


definition failing_engine :: m4_engine where
  "failing_engine =
     \<lparr> eng_registry = [(''mock'', mock_provider \<lparr> mk_id = ''mock'', mk_namespace = ''mock'', mk_data = [], mk_confidence = FFin 1,
          mk_should_fail = False, mk_should_timeout = True, mk_should_not_found = False, mk_raise = None, mk_applicable = True \<rparr>)],
       eng_configs = new_manager, eng_cache = Some \<lparr> lru_max_size = 10, lru_entries = [] \<rparr> \<rparr>"


text \<open>The status of a result says what happened: skipped exactly when nothing was planned, not found
  exactly when every provider found nothing, timed out exactly when every provider timed out, success
  exactly when some provider succeeded and none failed or timed out, partial exactly when some succeeded and
  some did not, and failed in the other cases.\<close>

theorem overall_status_meaning:
  assumes "l_succeeded st + l_failed st + l_timed_out st + l_not_found st = n"
  shows "(overall_status n st = SKIPPED \<longleftrightarrow> n = 0) \<and>
    (overall_status n st = NOT_FOUND \<longleftrightarrow> 0 < n \<and> l_not_found st = n) \<and>
    (overall_status n st = TIMEOUT \<longleftrightarrow> 0 < n \<and> l_timed_out st = n) \<and>
    (overall_status n st = SUCCESS \<longleftrightarrow> 0 < l_succeeded st \<and> l_succeeded st + l_not_found st = n) \<and>
    (overall_status n st = PARTIAL \<longleftrightarrow> 0 < l_succeeded st \<and> l_succeeded st + l_not_found st < n) \<and>
    (overall_status n st = FAILED \<longleftrightarrow> l_succeeded st = 0 \<and> l_not_found st < n \<and> l_timed_out st < n)"
  using assms unfolding overall_status_def by (cases "l_succeeded st"; cases "l_failed st"; cases "l_timed_out st") auto

theorem overall_status_meaning_witness:
  "overall_status 1 (start_loop example_canonical None default_config\<lparr>l_timed_out := 1\<rparr>) = TIMEOUT"
proof -
  have "l_succeeded (start_loop example_canonical None default_config\<lparr>l_timed_out := 1\<rparr>) +
      l_failed (start_loop example_canonical None default_config\<lparr>l_timed_out := 1\<rparr>) +
      l_timed_out (start_loop example_canonical None default_config\<lparr>l_timed_out := 1\<rparr>) +
      l_not_found (start_loop example_canonical None default_config\<lparr>l_timed_out := 1\<rparr>) = 1"
    by (simp add: start_loop_def)
  from overall_status_meaning [OF this] show ?thesis by (simp add: start_loop_def)
qed

end
