(* ===== verification/M1_Envelope.thy ===== *)
theory M1_Envelope
  imports Py_Bytes
begin

unbundle bit_operations_syntax

section \<open>M1: identifiers, hashes and envelopes\<close>

text \<open>
  \<open>M1/modules/m1-ingestion/app/integrity/ids.py\<close>, \<open>integrity/hashing.py\<close>, \<open>envelope/models.py\<close> and
  \<open>envelope/builder.py\<close>: the time-sortable identifier, the digest of the raw bytes and the envelope that
  carries them. The clock, the random bytes and SHA-256 are arguments. The payload of an envelope is text
  over all code points, as UTF-8 decoding yields it.
\<close>

subsection \<open>UUID version 7\<close>

text \<open>\<open>int.to_bytes(k, "big")\<close> of a number below \<open>256 ^ k\<close>.\<close>

fun to_bytes :: "nat \<Rightarrow> nat \<Rightarrow> byte list" where
  "to_bytes 0 n = []"
| "to_bytes (Suc k) n = of_nat (n div 256 ^ k) # to_bytes k (n mod 256 ^ k)"

definition hexs :: "byte list \<Rightarrow> string" where
  "hexs bs = concat (map (\<lambda>b. hex2 (unat b)) bs)"

definition uuid_str :: "byte list \<Rightarrow> string" where
  "uuid_str bs = hexs (take 4 bs) @ ''-'' @ hexs (take 2 (drop 4 bs)) @ ''-'' @ hexs (take 2 (drop 6 bs)) @ ''-'' @
     hexs (take 2 (drop 8 bs)) @ ''-'' @ hexs (drop 10 bs)"

definition uuid7_bytes :: "nat \<Rightarrow> byte list \<Rightarrow> byte list" where
  "uuid7_bytes timestamp_ms rand =
     to_bytes 6 timestamp_ms @ [0x70 OR (rand ! 0 AND 0x0F), rand ! 1, 0x80 OR (rand ! 2 AND 0x3F)] @ take 7 (drop 3 rand)"

definition generate_uuidv7 :: "nat \<Rightarrow> byte list \<Rightarrow> string result" where
  "generate_uuidv7 timestamp_ms rand =
     (if timestamp_ms < 256 ^ 6 then Inr (uuid_str (uuid7_bytes timestamp_ms rand)) else Inl OverflowError)"

subsection \<open>Envelopes\<close>

definition compute_sha256 :: "hash_fun \<Rightarrow> byte list \<Rightarrow> string" where
  "compute_sha256 sha256 raw = sha256 raw"

record transport_info =
  ti_protocol :: string
  ti_port :: "int option"

record payload_info =
  pl_encoding :: string
  pl_format_hint :: string
  pl_data :: code_points

record integrity_info =
  ii_algorithm :: string
  ii_hash :: string

record raw_storage_info =
  rs_backend :: string
  rs_bucket :: string
  rs_object_key :: string

record raw_event_envelope =
  rv_schema_version :: string
  rv_raw_event_id :: string
  rv_tenant_id :: string
  rv_source_id :: string
  rv_source_type :: string
  rv_ingest_zone :: string
  rv_collector_id :: string
  rv_received_at :: string
  rv_transport :: transport_info
  rv_payload :: payload_info
  rv_integrity :: integrity_info
  rv_raw_storage :: raw_storage_info

text \<open>A moment in UTC, and its parts as \<open>strftime\<close> prints them.\<close>

record utc_datetime =
  dt_year :: nat
  dt_month :: nat
  dt_day :: nat
  dt_hour :: nat
  dt_minute :: nat
  dt_second :: nat
  dt_microsecond :: nat

definition pad :: "nat \<Rightarrow> nat \<Rightarrow> string" where
  "pad k n = (let s = nat_str n in replicate (k - length s) CHR ''0'' @ s)"

definition generate_object_key :: "string \<Rightarrow> string \<Rightarrow> string \<Rightarrow> utc_datetime \<Rightarrow> string" where
  "generate_object_key tenant_id source_id raw_event_id dt =
     ''tenant='' @ tenant_id @ ''/year='' @ nat_str (dt_year dt) @ ''/month='' @ pad 2 (dt_month dt) @ ''/day='' @ pad 2 (dt_day dt) @
     ''/source='' @ source_id @ ''/event='' @ raw_event_id"

definition timestamp_iso :: "utc_datetime \<Rightarrow> string" where
  "timestamp_iso dt =
     nat_str (dt_year dt) @ ''-'' @ pad 2 (dt_month dt) @ ''-'' @ pad 2 (dt_day dt) @ ''T'' @ pad 2 (dt_hour dt) @ '':'' @
     pad 2 (dt_minute dt) @ '':'' @ pad 2 (dt_second dt) @ ''.'' @ take 3 (pad 6 (dt_microsecond dt)) @ ''Z''"

definition encode_payload :: "byte list \<Rightarrow> string \<times> code_points" where
  "encode_payload raw =
     (case decode_utf8 raw of
        Some text \<Rightarrow> (''utf-8'', text)
      | None \<Rightarrow> (''base64'', map code (b64encode raw)))"

definition meta_get :: "(string \<times> string) list \<Rightarrow> string \<Rightarrow> string \<Rightarrow> string" where
  "meta_get m k d = (case map_of m k of Some v \<Rightarrow> v | None \<Rightarrow> d)"

record m1_clock =
  now_dt :: utc_datetime
  now_ms :: nat
  rand_bytes :: "byte list"

definition build_envelope :: "hash_fun \<Rightarrow> m1_clock \<Rightarrow> byte list \<Rightarrow> (string \<times> string) list \<Rightarrow> string \<Rightarrow> int option \<Rightarrow>
    string \<Rightarrow> string \<Rightarrow> string option \<Rightarrow> raw_event_envelope result" where
  "build_envelope sha256 clk raw metadata protocol port format_hint bucket_name raw_event_id =
     rbind (case raw_event_id of Some (c # cs) \<Rightarrow> Inr (c # cs) | _ \<Rightarrow> generate_uuidv7 (now_ms clk) (rand_bytes clk)) (\<lambda>event_id.
       let tenant_id = meta_get metadata ''tenant_id'' ''demo-tenant'';
           source_id = meta_get metadata ''source_id'' ''cisco-fw-01'';
           (encoding, text) = encode_payload raw
       in Inr \<lparr> rv_schema_version = ''1.0.0'', rv_raw_event_id = event_id, rv_tenant_id = tenant_id, rv_source_id = source_id,
            rv_source_type = meta_get metadata ''source_type'' ''firewall'',
            rv_ingest_zone = meta_get metadata ''ingest_zone'' ''dmz'',
            rv_collector_id = meta_get metadata ''collector_id'' ''collector-01'',
            rv_received_at = timestamp_iso (now_dt clk),
            rv_transport = \<lparr> ti_protocol = lower protocol, ti_port = port \<rparr>,
            rv_payload = \<lparr> pl_encoding = encoding, pl_format_hint = format_hint, pl_data = text \<rparr>,
            rv_integrity = \<lparr> ii_algorithm = ''SHA-256'', ii_hash = compute_sha256 sha256 raw \<rparr>,
            rv_raw_storage = \<lparr> rs_backend = ''minio'', rs_bucket = bucket_name,
              rs_object_key = generate_object_key tenant_id source_id event_id (now_dt clk) \<rparr> \<rparr>)"

subsection \<open>Order of identifiers\<close>

lemma less_append:
  "length (a :: string) = length a' \<Longrightarrow> a < a' \<Longrightarrow> a @ x < a' @ y"
  by (induction a a' rule: list_induct2) auto

lemma hex_digit_mono: "m < n \<Longrightarrow> n < 16 \<Longrightarrow> hex_digit m < hex_digit n"
proof -
  have "\<forall>n \<in> set [0..<16]. \<forall>m \<in> set [0..<n]. hex_digit m < hex_digit n" by code_simp
  then show "m < n \<Longrightarrow> n < 16 \<Longrightarrow> ?thesis" by simp
qed

lemma hex2_mono:
  assumes "m < n" and "n < 256"
  shows "hex2 m < hex2 n"
proof (cases "m div 16 = n div 16")
  case True
  then have "m mod 16 < n mod 16" using assms(1) by (metis div_mult_mod_eq nat_add_left_cancel_less)
  then show ?thesis using True by (simp add: hex2_def hex_digit_mono)
next
  case False
  then have "m div 16 < n div 16" using assms(1) div_le_mono [of m n 16] by simp
  moreover have "n div 16 < 16" using assms(2) by (simp add: less_mult_imp_div_less)
  ultimately show ?thesis by (simp add: hex2_def hex_digit_mono)
qed

lemma length_hexs [simp]: "length (hexs bs) = 2 * length bs"
  by (induction bs) (simp_all add: hexs_def hex2_def)

lemma hexs_Cons [simp]: "hexs [] = []" "hexs (b # bs) = hex_digit (unat b div 16) # hex_digit (unat b mod 16) # hexs bs"
  by (simp_all add: hexs_def hex2_def)

lemma hexs_append [simp]: "hexs (a @ b) = hexs a @ hexs b"
  by (simp add: hexs_def)

lemma length_to_bytes [simp]: "length (to_bytes k n) = k"
  by (induction k arbitrary: n) simp_all

lemma hexs_to_bytes_mono: "m < n \<Longrightarrow> n < 256 ^ k \<Longrightarrow> hexs (to_bytes k m) < hexs (to_bytes k n)"
proof (induction k arbitrary: m n)
  case (Suc k)
  have p: "0 < (256 :: nat) ^ k" by simp
  have q: "m div 256 ^ k < 256" "n div 256 ^ k < 256"
    using Suc.prems by (auto simp: less_mult_imp_div_less)
  then have u: "unat (of_nat (m div 256 ^ k) :: byte) = m div 256 ^ k" "unat (of_nat (n div 256 ^ k) :: byte) = n div 256 ^ k"
    by (simp_all add: unat_of_nat)
  have le: "m div 256 ^ k \<le> n div 256 ^ k" using Suc.prems(1) by (simp add: div_le_mono)
  show ?case
  proof (cases "m div 256 ^ k = n div 256 ^ k")
    case True
    then have "m mod 256 ^ k < n mod 256 ^ k"
      using Suc.prems(1) by (metis div_mult_mod_eq nat_add_left_cancel_less)
    then have "hexs (to_bytes k (m mod 256 ^ k)) < hexs (to_bytes k (n mod 256 ^ k))" using Suc.IH p by simp
    then show ?thesis using True by simp
  next
    case False
    then have "hex2 (m div 256 ^ k) < hex2 (n div 256 ^ k)" using le q by (intro hex2_mono) auto
    then show ?thesis using u by (auto simp: hex2_def)
  qed
qed simp

lemma take_drop_hex: "hexs (take j bs) @ hexs (take i (drop j bs)) = hexs (take (j + i) bs)"
  by (simp add: take_add)

lemma less_split_dash:
  assumes "(a :: string) @ b < a' @ b'" "length a = length a'" "length b = length b'"
  shows "a @ c # b @ x < a' @ c # b' @ y"
  using assms(2,1) by (induction a a' rule: list_induct2) (auto simp: less_append assms(3))

lemma uuid7_prefix:
  "uuid_str (uuid7_bytes t r) = hexs (take 4 (to_bytes 6 t)) @ CHR ''-'' # hexs (drop 4 (to_bytes 6 t)) @
     drop 13 (uuid_str (uuid7_bytes t r))"
  by (simp add: uuid_str_def uuid7_bytes_def)

lemma uuid7_mono: "s < t \<Longrightarrow> t < 256 ^ 6 \<Longrightarrow> uuid_str (uuid7_bytes s q) < uuid_str (uuid7_bytes t r)"
proof -
  assume "s < t" "t < 256 ^ 6"
  then have "hexs (to_bytes 6 s) < hexs (to_bytes 6 t)" by (rule hexs_to_bytes_mono)
  then have "hexs (take 4 (to_bytes 6 s)) @ hexs (drop 4 (to_bytes 6 s)) < hexs (take 4 (to_bytes 6 t)) @ hexs (drop 4 (to_bytes 6 t))"
    unfolding hexs_append [symmetric] by simp
  then show ?thesis
    by (subst (1 2) uuid7_prefix) (rule less_split_dash, simp_all)
qed

lemma version_bits: "unat (0x70 OR (x AND 0x0F) :: byte) div 16 = 7"
proof -
  have "\<forall>n \<in> set [0..<256]. unat (0x70 OR (of_nat n AND 0x0F) :: byte) div 16 = 7" by code_simp
  then have "unat (0x70 OR (of_nat (unat x) AND 0x0F) :: byte) div 16 = 7" using unat_byte [of x] by (metis atLeastLessThan_iff le0 set_upt)
  then show ?thesis by simp
qed

lemma variant_bits: "unat (0x80 OR (x AND 0x3F) :: byte) div 16 \<in> {8, 9, 10, 11}"
proof -
  have "\<forall>n \<in> set [0..<256]. unat (0x80 OR (of_nat n AND 0x3F) :: byte) div 16 \<in> {8, 9, 10, 11}" by code_simp
  then have "unat (0x80 OR (of_nat (unat x) AND 0x3F) :: byte) div 16 \<in> {8, 9, 10, 11}"
    using unat_byte [of x] by (metis atLeastLessThan_iff le0 set_upt)
  then show ?thesis by simp
qed

lemma uuid7_shape:
  assumes "length r = 10"
  shows "length (uuid_str (uuid7_bytes t r)) = 36" and "uuid_str (uuid7_bytes t r) ! 14 = CHR ''7''"
    and "uuid_str (uuid7_bytes t r) ! 19 \<in> set ''89ab''"
proof -
  have 7: "[hex_digit 7, hex_digit 8, hex_digit 9, hex_digit 10, hex_digit 11] = ''789ab''" by code_simp
  show "length (uuid_str (uuid7_bytes t r)) = 36" using assms by (simp add: uuid_str_def uuid7_bytes_def)
  show "uuid_str (uuid7_bytes t r) ! 14 = CHR ''7''"
    using 7 version_bits by (simp add: uuid_str_def uuid7_bytes_def nth_append)
  show "uuid_str (uuid7_bytes t r) ! 19 \<in> set ''89ab''"
    using 7 variant_bits [of "r ! 2"] by (auto simp: uuid_str_def uuid7_bytes_def nth_append)
qed

subsection \<open>Properties\<close>

text \<open>(C33) Identifiers sort by time: of two identifiers that are generated in different milliseconds, the
  later one is lexicographically greater, whatever the random bytes are. Each has 36 characters, version 7
  and the variant of RFC 9562, and none is refused before the year 10889.\<close>

theorem uuid7_time_sortable:
  assumes "s < t" and "t < 2 ^ 48" and "length q = 10" and "length r = 10"
  shows "\<exists>x y. generate_uuidv7 s q = Inr x \<and> generate_uuidv7 t r = Inr y \<and> x < y \<and>
    (\<forall>u \<in> {x, y}. length u = 36 \<and> u ! 14 = CHR ''7'' \<and> u ! 19 \<in> set ''89ab'')"
proof -
  have b: "t < 256 ^ 6" "s < 256 ^ 6" using assms(1,2) by simp_all
  then show ?thesis using uuid7_mono [OF assms(1) b(1)] uuid7_shape assms(3,4)
    by (simp add: generate_uuidv7_def del: set_simps)
qed

theorem uuid7_time_sortable_witness:
  "\<exists>x y. generate_uuidv7 1700000000000 (replicate 10 255) = Inr x \<and> generate_uuidv7 1700000000001 (replicate 10 0) = Inr y \<and> x < y"
  using uuid7_time_sortable [of 1700000000000 1700000000001 "replicate 10 255" "replicate 10 0"] by auto

text \<open>What a reader gets from the payload of an envelope.\<close>

definition payload_bytes :: "payload_info \<Rightarrow> byte list" where
  "payload_bytes p = (if pl_encoding p = ''utf-8'' then encode_utf8 (pl_data p)
     else map of_nat (b64_decode (map (\<lambda>n. char_of n) (pl_data p))))"

lemma build_lossless:
  assumes "build_envelope sha256 clk raw metadata protocol port hint bucket rid = Inr env"
  shows "payload_bytes (rv_payload env) = raw \<and> ii_hash (rv_integrity env) = sha256 raw \<and>
    (\<forall>t. map_of metadata ''tenant_id'' = Some t \<longrightarrow> rv_tenant_id env = t) \<and>
    (\<forall>s. map_of metadata ''source_id'' = Some s \<longrightarrow> rv_source_id env = s)"
proof -
  have code: "map (\<lambda>n. char_of n) (map code s) = s" for s :: string by (simp add: code_def comp_def)
  have "payload_bytes \<lparr> pl_encoding = fst (encode_payload raw), pl_format_hint = hint, pl_data = snd (encode_payload raw) \<rparr> = raw"
    by (auto simp: payload_bytes_def encode_payload_def encode_decode_utf8 code b64_roundtrip simp del: map_map split: option.splits)
  then show ?thesis using assms
    by (cases "encode_payload raw") (auto simp: build_envelope_def Let_def compute_sha256_def meta_get_def)
qed

text \<open>(C13) An envelope loses nothing: its payload decodes to the raw bytes, be they UTF-8 or not, its digest is the
  hash of exactly these bytes, and tenant and source are those of the metadata.\<close>

theorem envelope_lossless:
  assumes "build_envelope sha256 clk raw metadata protocol port hint bucket rid = Inr env"
  shows "payload_bytes (rv_payload env) = raw \<and> ii_hash (rv_integrity env) = sha256 raw \<and>
    (\<forall>t. map_of metadata ''tenant_id'' = Some t \<longrightarrow> rv_tenant_id env = t) \<and>
    (\<forall>s. map_of metadata ''source_id'' = Some s \<longrightarrow> rv_source_id env = s)"
  using build_lossless [OF assms] .

theorem envelope_lossless_witness:
  "\<exists>env. build_envelope (\<lambda>_. ''d'') \<lparr> now_dt = \<lparr> dt_year = 2026, dt_month = 1, dt_day = 2, dt_hour = 3, dt_minute = 4,
      dt_second = 5, dt_microsecond = 678901 \<rparr>, now_ms = 0, rand_bytes = [] \<rparr> [0xFF] [(''tenant_id'', ''acme'')] ''UDP'' None
      ''syslog'' ''ulpf-raw'' (Some ''e1'') = Inr env \<and> payload_bytes (rv_payload env) = [0xFF] \<and> rv_tenant_id env = ''acme''"
proof -
  let ?b = "build_envelope (\<lambda>_. ''d'') \<lparr> now_dt = \<lparr> dt_year = 2026, dt_month = 1, dt_day = 2, dt_hour = 3, dt_minute = 4,
      dt_second = 5, dt_microsecond = 678901 \<rparr>, now_ms = 0, rand_bytes = [] \<rparr> [0xFF] [(''tenant_id'', ''acme'')] ''UDP'' None
      ''syslog'' ''ulpf-raw'' (Some ''e1'')"
  obtain env where b: "?b = Inr env" by (cases "encode_payload [0xFF]") (simp add: build_envelope_def Let_def)
  from envelope_lossless [OF b] b show ?thesis by simp
qed

end
