(* ===== verification/M1_Pipeline.thy ===== *)
theory M1_Pipeline
  imports M1_Envelope
begin

section \<open>M1: raw vault, Kafka producer, durable outbox and the ingestion pipeline\<close>

text \<open>
  \<open>storage/raw_vault.py\<close>, \<open>messaging/kafka.py\<close>, \<open>storage/outbox.py\<close> and \<open>transports/pipeline.py\<close> of M1. What
  MinIO, the broker and SQLite do on a call is an argument of the operation: an error or none, and for
  a send that raises whether the broker had taken the record (a lost acknowledgement). gzip is the
  pair of functions of \<open>m1_env\<close>. The table \<open>outbox_events\<close> is a list of rows in the order of their row
  numbers; the column \<open>envelope_json\<close> is represented by the envelope it encodes, on which \<open>json.loads\<close> and
  \<open>model_validate\<close> invert \<open>json.dumps\<close> and \<open>model_dump\<close>.
\<close>

record m1_env =
  me_sha256 :: hash_fun
  me_gzip :: "byte list \<Rightarrow> byte list"
  me_gunzip :: "byte list \<Rightarrow> byte list"

subsection \<open>Raw vault\<close>

type_synonym raw_vault = "(string \<times> string, byte list) dict"

definition store_raw_event :: "m1_env \<Rightarrow> exn option \<Rightarrow> string \<Rightarrow> string \<Rightarrow> byte list \<Rightarrow> raw_vault \<Rightarrow> raw_vault \<times> unit result" where
  "store_raw_event env err bucket key payload v =
     (case err of Some e \<Rightarrow> (v, Inl e) | None \<Rightarrow> (dict_set (bucket, key) (me_gzip env payload) v, Inr ()))"

definition get_raw_event :: "m1_env \<Rightarrow> string \<Rightarrow> string \<Rightarrow> raw_vault \<Rightarrow> byte list result" where
  "get_raw_event env bucket key v =
     (case map_of v (bucket, key) of None \<Rightarrow> Inl (OtherError ''S3Error'' ''NoSuchKey'') | Some d \<Rightarrow> Inr (me_gunzip env d))"

subsection \<open>Kafka producer\<close>

record kafka_record =
  kr_topic :: string
  kr_key :: string
  kr_headers :: "(string \<times> string) list"
  kr_value :: raw_event_envelope

record kafka_producer =
  kp_raw_topic :: string
  kp_created :: bool
  kp_running :: bool
  kp_log :: "kafka_record list"

datatype send_outcome = Acked | Raised exn bool

definition kafka_start :: "exn option \<Rightarrow> kafka_producer \<Rightarrow> kafka_producer \<times> unit result" where
  "kafka_start err k =
     (case err of
        None \<Rightarrow> (k\<lparr>kp_created := True, kp_running := True\<rparr>, Inr ())
      | Some e \<Rightarrow> (k\<lparr>kp_created := True, kp_running := False\<rparr>, Inl e))"

definition kafka_stop :: "kafka_producer \<Rightarrow> kafka_producer" where
  "kafka_stop k = (if kp_created k \<and> kp_running k then k\<lparr>kp_running := False\<rparr> else k)"

definition compute_partition_key :: "m1_env \<Rightarrow> string \<Rightarrow> string \<Rightarrow> string" where
  "compute_partition_key env tenant_id source_id = me_sha256 env (encode_utf8 (map code (tenant_id @ '':'' @ source_id)))"

definition envelope_headers :: "raw_event_envelope \<Rightarrow> (string \<times> string) list" where
  "envelope_headers e =
     [(''raw_event_id'', rv_raw_event_id e), (''tenant_id'', rv_tenant_id e), (''source_id'', rv_source_id e),
      (''received_at'', rv_received_at e), (''schema_version'', rv_schema_version e)]"

definition publish_envelope :: "m1_env \<Rightarrow> send_outcome \<Rightarrow> raw_event_envelope \<Rightarrow> string option \<Rightarrow> kafka_producer \<Rightarrow>
    kafka_producer \<times> unit result" where
  "publish_envelope env out envelope topic k =
     (if \<not> kp_created k \<or> \<not> kp_running k then (k, Inl (RuntimeError ''Kafka producer is not running''))
      else
        let target = (case topic of Some (c # cs) \<Rightarrow> c # cs | _ \<Rightarrow> kp_raw_topic k);
            r = \<lparr> kr_topic = target, kr_key = compute_partition_key env (rv_tenant_id envelope) (rv_source_id envelope),
                  kr_headers = envelope_headers envelope, kr_value = envelope \<rparr>
        in case out of
             Acked \<Rightarrow> (k\<lparr>kp_log := kp_log k @ [r]\<rparr>, Inr ())
           | Raised e taken \<Rightarrow> (k\<lparr>kp_log := kp_log k @ (if taken then [r] else [])\<rparr>, Inl e))"

definition kafka_is_healthy :: "exn option \<Rightarrow> kafka_producer \<Rightarrow> kafka_producer \<times> bool" where
  "kafka_is_healthy start_err k =
     (if \<not> kp_created k \<or> \<not> kp_running k then
        (case kafka_start start_err k of (k', Inl _) \<Rightarrow> (k', False) | (k', Inr _) \<Rightarrow> (k', kp_running k'))
      else (k, kp_running k))"

subsection \<open>Durable outbox\<close>

record outbox_row =
  ob_raw_event_id :: string
  ob_tenant_id :: string
  ob_source_id :: string
  ob_topic :: string
  ob_object_key :: string
  ob_envelope :: raw_event_envelope
  ob_created_at :: rat
  ob_attempts :: nat
  ob_last_error :: string

type_synonym outbox = "outbox_row list"

text \<open>\<open>INSERT OR REPLACE\<close>: the row of the same identifier goes, the new row comes last.\<close>

definition spool_envelope :: "rat \<Rightarrow> exn option \<Rightarrow> raw_event_envelope \<Rightarrow> string \<Rightarrow> string \<Rightarrow> string option \<Rightarrow> outbox \<Rightarrow>
    outbox \<times> unit result" where
  "spool_envelope now err envelope topic error raw_object_key ob =
     (let row = \<lparr> ob_raw_event_id = rv_raw_event_id envelope, ob_tenant_id = rv_tenant_id envelope,
                  ob_source_id = rv_source_id envelope, ob_topic = topic,
                  ob_object_key = (case raw_object_key of Some (c # cs) \<Rightarrow> c # cs | _ \<Rightarrow> rs_object_key (rv_raw_storage envelope)),
                  ob_envelope = envelope, ob_created_at = now, ob_attempts = 0, ob_last_error = error \<rparr>
      in case err of
           Some e \<Rightarrow> (ob, Inl e)
         | None \<Rightarrow> (filter (\<lambda>r. ob_raw_event_id r \<noteq> rv_raw_event_id envelope) ob @ [row], Inr ()))"

definition get_pending :: "nat \<Rightarrow> outbox \<Rightarrow> outbox_row list" where
  "get_pending limit ob = take limit (sort_key ob_created_at ob)"

definition mark_published :: "exn option \<Rightarrow> string \<Rightarrow> outbox \<Rightarrow> outbox \<times> unit result" where
  "mark_published err rid ob =
     (case err of Some e \<Rightarrow> (ob, Inl e) | None \<Rightarrow> (filter (\<lambda>r. ob_raw_event_id r \<noteq> rid) ob, Inr ()))"

definition outbox_record_attempt :: "exn option \<Rightarrow> string \<Rightarrow> string \<Rightarrow> outbox \<Rightarrow> outbox \<times> unit result" where
  "outbox_record_attempt err rid msg ob =
     (case err of
        Some e \<Rightarrow> (ob, Inl e)
      | None \<Rightarrow>
          (map (\<lambda>r. if ob_raw_event_id r = rid then r\<lparr>ob_attempts := ob_attempts r + 1, ob_last_error := msg\<rparr> else r) ob, Inr ()))"

definition get_pending_count :: "outbox \<Rightarrow> nat" where
  "get_pending_count ob = length ob"

text \<open>What happens to one item of a replay: the send, the deletion of the row, and the recording of a failed
  attempt where it comes to that.\<close>

record replay_io =
  ri_send :: send_outcome
  ri_mark :: "exn option"
  ri_attempt :: "exn option"

fun replay_loop :: "m1_env \<Rightarrow> (nat \<Rightarrow> replay_io) \<Rightarrow> nat \<Rightarrow> outbox_row list \<Rightarrow> kafka_producer \<Rightarrow> outbox \<Rightarrow>
    kafka_producer \<times> outbox \<times> nat result" where
  "replay_loop env io n [] k ob = (k, ob, Inr n)"
| "replay_loop env io n (item # items) k ob =
     (case publish_envelope env (ri_send (io n)) (ob_envelope item) (Some (ob_topic item)) k of
        (k', sent) \<Rightarrow>
          (case (case sent of Inl e \<Rightarrow> (ob, Inl e) | Inr _ \<Rightarrow> mark_published (ri_mark (io n)) (ob_raw_event_id item) ob) of
             (ob', Inr _) \<Rightarrow> replay_loop env io (n + 1) items k' ob'
           | (ob', Inl e) \<Rightarrow>
               (case outbox_record_attempt (ri_attempt (io n)) (ob_raw_event_id item) (exn_str e) ob' of
                  (ob'', Inr _) \<Rightarrow> (k', ob'', Inr n)
                | (ob'', Inl e') \<Rightarrow> (k', ob'', Inl e'))))"

definition replay_pending :: "m1_env \<Rightarrow> (nat \<Rightarrow> replay_io) \<Rightarrow> nat \<Rightarrow> nat option \<Rightarrow> kafka_producer \<Rightarrow> outbox \<Rightarrow>
    kafka_producer \<times> outbox \<times> nat result" where
  "replay_pending env io limit batch_size k ob =
     replay_loop env io 0 (get_pending (case batch_size of Some b \<Rightarrow> b | None \<Rightarrow> limit) ob) k ob"

text \<open>One turn of the recovery worker; errors are logged and swallowed.\<close>

definition recovery_tick :: "m1_env \<Rightarrow> exn option \<Rightarrow> (nat \<Rightarrow> replay_io) \<Rightarrow> kafka_producer \<Rightarrow> outbox \<Rightarrow> kafka_producer \<times> outbox" where
  "recovery_tick env start_err io k ob =
     (if 0 < get_pending_count ob then
        (case kafka_is_healthy start_err k of
           (k', healthy) \<Rightarrow>
             if healthy then (case replay_pending env io 100 None k' ob of (k'', ob', _) \<Rightarrow> (k'', ob')) else (k', ob))
      else (k, ob))"

subsection \<open>The pipeline\<close>

record m1_state =
  s_vault :: raw_vault
  s_kafka :: kafka_producer
  s_outbox :: "outbox option"

record ingest_io =
  in_clock :: m1_clock
  in_time :: rat
  in_put :: "exn option"
  in_send :: send_outcome
  in_spool :: "exn option"

datatype ingest_error = BuildError exn | MinIOWriteError string | KafkaPublishError string raw_event_envelope

definition process_raw_payload :: "m1_env \<Rightarrow> ingest_io \<Rightarrow> byte list \<Rightarrow> (string \<times> string) list \<Rightarrow> string \<Rightarrow> int option \<Rightarrow>
    string \<Rightarrow> string \<Rightarrow> m1_state \<Rightarrow> m1_state \<times> (ingest_error + raw_event_envelope)" where
  "process_raw_payload env io raw metadata protocol port format_hint bucket s =
     (case build_envelope (me_sha256 env) (in_clock io) raw metadata protocol port format_hint bucket None of
        Inl e \<Rightarrow> (s, Inl (BuildError e))
      | Inr envelope \<Rightarrow>
          (case store_raw_event env (in_put io) (rs_bucket (rv_raw_storage envelope)) (rs_object_key (rv_raw_storage envelope)) raw
                  (s_vault s) of
             (v, Inl e) \<Rightarrow> (s\<lparr>s_vault := v\<rparr>, Inl (MinIOWriteError (''Failed to store raw payload in MinIO: '' @ exn_str e)))
           | (v, Inr _) \<Rightarrow>
               (case publish_envelope env (in_send io) envelope None (s_kafka s) of
                  (k, Inr _) \<Rightarrow> (s\<lparr>s_vault := v, s_kafka := k\<rparr>, Inr envelope)
                | (k, Inl e) \<Rightarrow>
                    (s\<lparr>s_vault := v, s_kafka := k,
                       s_outbox := map_option (\<lambda>ob. fst (spool_envelope (in_time io) (in_spool io) envelope (kp_raw_topic k)
                                     (exn_str e) None ob)) (s_outbox s)\<rparr>,
                     Inl (KafkaPublishError (''Kafka publish failed: '' @ exn_str e) envelope)))))"

subsection \<open>Replay keeps or publishes\<close>

text \<open>No envelope of the table is lost: it stays, or it is in the log. Nothing else appears.\<close>

definition published :: "kafka_producer \<Rightarrow> raw_event_envelope set" where
  "published k = kr_value ` set (kp_log k)"

definition spooled :: "outbox \<Rightarrow> raw_event_envelope set" where
  "spooled ob = ob_envelope ` set ob"

definition ids :: "outbox \<Rightarrow> string list" where
  "ids ob = map ob_raw_event_id ob"

definition rows_ok :: "outbox \<Rightarrow> bool" where
  "rows_ok ob \<longleftrightarrow> distinct (ids ob) \<and> (\<forall>r \<in> set ob. ob_raw_event_id r = rv_raw_event_id (ob_envelope r))"

lemma publish_published:
  assumes "publish_envelope env out e t k = (k', res)"
  shows "published k \<subseteq> published k'" and "published k' \<subseteq> insert e (published k)"
    and "res = Inr () \<Longrightarrow> e \<in> published k'" and "kp_raw_topic k' = kp_raw_topic k"
    and "kp_running k' = kp_running k" "kp_created k' = kp_created k"
  using assms by (auto simp: publish_envelope_def published_def Let_def split: if_splits send_outcome.splits)

lemma attempt_keeps:
  assumes "outbox_record_attempt err rid msg ob = (ob', res)"
  shows "spooled ob' = spooled ob" and "rows_ok ob' \<longleftrightarrow> rows_ok ob"
proof -
  have e: "map ob_envelope ob' = map ob_envelope ob" and i: "ids ob' = ids ob"
    using assms by (auto simp: outbox_record_attempt_def ids_def split: option.splits)
  show "spooled ob' = spooled ob" using arg_cong [OF e, of set] by (simp add: spooled_def)
  have "rows_ok x \<longleftrightarrow> distinct (ids x) \<and> ids x = map rv_raw_event_id (map ob_envelope x)" for x
    by (auto simp: rows_ok_def ids_def)
  then show "rows_ok ob' \<longleftrightarrow> rows_ok ob" using e i by metis
qed

lemma mark_spooled:
  assumes "rows_ok ob" and "item \<in> set ob"
  shows "spooled (filter (\<lambda>r. ob_raw_event_id r \<noteq> ob_raw_event_id item) ob) \<union> {ob_envelope item} = spooled ob"
    and "rows_ok (filter (\<lambda>r. ob_raw_event_id r \<noteq> ob_raw_event_id item) ob)"
proof -
  have "r = item" if "r \<in> set ob" "ob_raw_event_id r = ob_raw_event_id item" for r
    using assms that by (metis rows_ok_def ids_def distinct_map inj_onD)
  then show "spooled (filter (\<lambda>r. ob_raw_event_id r \<noteq> ob_raw_event_id item) ob) \<union> {ob_envelope item} = spooled ob"
    using assms(2) by (fastforce simp: spooled_def)
  show "rows_ok (filter (\<lambda>r. ob_raw_event_id r \<noteq> ob_raw_event_id item) ob)"
    using assms(1) by (auto simp: rows_ok_def ids_def distinct_map_filter)
qed

lemma replay_keeps:
  assumes "replay_loop env io n items k ob = (k', ob', res)" "rows_ok ob" "set items \<subseteq> set ob" "distinct (ids items)"
  shows "rows_ok ob' \<and> published k \<subseteq> published k' \<and> published k' \<subseteq> published k \<union> spooled ob \<and>
    spooled ob' \<subseteq> spooled ob \<and> spooled ob \<subseteq> spooled ob' \<union> published k'"
  using assms
proof (induction items arbitrary: n k ob)
  case (Cons item items)
  obtain k1 sent where p: "publish_envelope env (ri_send (io n)) (ob_envelope item) (Some (ob_topic item)) k = (k1, sent)"
    by (metis surj_pair)
  note pp = publish_published [OF p]
  have item: "item \<in> set ob" "ob_envelope item \<in> spooled ob" using Cons.prems(3) by (auto simp: spooled_def)
  obtain ob1 st where m: "(case sent of Inl e \<Rightarrow> (ob, Inl e) | Inr _ \<Rightarrow> mark_published (ri_mark (io n)) (ob_raw_event_id item) ob) = (ob1, st)"
    by (metis surj_pair)
  show ?case
  proof (cases st)
    case (Inl e)
    then have o1: "ob1 = ob" using m by (auto simp: mark_published_def split: sum.splits option.splits)
    obtain ob2 ar where a: "outbox_record_attempt (ri_attempt (io n)) (ob_raw_event_id item) (exn_str e) ob = (ob2, ar)"
      by (metis surj_pair)
    have "k' = k1" "ob' = ob2" using Cons.prems(1) p m Inl a o1 by (auto split: sum.splits)
    then show ?thesis using attempt_keeps [OF a] pp Cons.prems(2) item by auto
  next
    case (Inr u)
    then have o1: "ob1 = filter (\<lambda>r. ob_raw_event_id r \<noteq> ob_raw_event_id item) ob" and s: "sent = Inr ()"
      using m by (auto simp: mark_published_def split: sum.splits option.splits)
    note mk = mark_spooled [OF Cons.prems(2) item(1), folded o1]
    have "set items \<subseteq> set ob1" using Cons.prems(3,4) o1 by (auto simp: ids_def intro: rev_image_eqI)
    moreover have "replay_loop env io (n + 1) items k1 ob1 = (k', ob', res)" using Cons.prems(1) p m Inr by simp
    ultimately have "rows_ok ob' \<and> published k1 \<subseteq> published k' \<and> published k' \<subseteq> published k1 \<union> spooled ob1 \<and>
        spooled ob' \<subseteq> spooled ob1 \<and> spooled ob1 \<subseteq> spooled ob' \<union> published k'"
      using Cons.IH mk(2) Cons.prems(4) by (simp add: ids_def)
    then show ?thesis using mk(1) pp(1,2) pp(3) [OF s] item(2) by blast
  qed
qed auto

lemma pending_items: "rows_ok ob \<Longrightarrow> set (get_pending n ob) \<subseteq> set ob \<and> distinct (ids (get_pending n ob))"
proof -
  assume "rows_ok ob"
  then have "distinct (ids (sort_key ob_created_at ob))"
    by (auto simp: rows_ok_def ids_def distinct_map)
  then show ?thesis using set_take_subset [of n "sort_key ob_created_at ob"]
    by (auto simp: get_pending_def ids_def take_map [symmetric] distinct_take simp del: take_map)
qed

lemma recovery_keeps:
  assumes "recovery_tick env err io k ob = (k', ob')" "rows_ok ob"
  shows "rows_ok ob' \<and> published k \<subseteq> published k' \<and> published k' \<subseteq> published k \<union> spooled ob \<and>
    spooled ob' \<subseteq> spooled ob \<and> spooled ob \<subseteq> spooled ob' \<union> published k'"
proof -
  obtain k1 h where h: "kafka_is_healthy err k = (k1, h)" by (metis surj_pair)
  have "kp_log k1 = kp_log k"
    using h by (auto simp: kafka_is_healthy_def kafka_start_def split: if_splits option.splits)
  then have k1: "published k1 = published k" by (simp add: published_def)
  obtain k2 ob2 res where r: "replay_pending env io 100 None k1 ob = (k2, ob2, res)" by (metis surj_pair)
  then have "replay_loop env io 0 (get_pending 100 ob) k1 ob = (k2, ob2, res)" by (simp add: replay_pending_def)
  from replay_keeps [OF this assms(2)] pending_items [OF assms(2), of 100] k1 show ?thesis
    using assms h r by (auto simp: recovery_tick_def split: if_splits)
qed

subsection \<open>The evidence of an envelope\<close>

text \<open>The vault has, under the key of the envelope, bytes with the digest and the payload of the envelope.\<close>

definition evidence :: "m1_env \<Rightarrow> raw_vault \<Rightarrow> raw_event_envelope \<Rightarrow> bool" where
  "evidence env v e \<longleftrightarrow> (\<exists>raw. get_raw_event env (rs_bucket (rv_raw_storage e)) (rs_object_key (rv_raw_storage e)) v = Inr raw \<and>
     ii_hash (rv_integrity e) = me_sha256 env raw \<and> payload_bytes (rv_payload e) = raw)"

definition key_ok :: "raw_event_envelope \<Rightarrow> bool" where
  "key_ok e \<longleftrightarrow> length (rv_raw_event_id e) = 36 \<and> (\<exists>p. rs_object_key (rv_raw_storage e) = p @ rv_raw_event_id e)"

lemma key_inj: "key_ok e \<Longrightarrow> key_ok e' \<Longrightarrow> rs_object_key (rv_raw_storage e) = rs_object_key (rv_raw_storage e') \<Longrightarrow>
  rv_raw_event_id e = rv_raw_event_id e'"
  by (auto simp: key_ok_def append_eq_append_conv)

lemma build_key_ok:
  assumes "build_envelope sha clk raw md pr po fh b None = Inr e" and "length (rand_bytes clk) = 10"
  shows "key_ok e"
proof -
  have "length (rv_raw_event_id e) = 36"
    using assms uuid7_shape(1) by (cases "encode_payload raw") (auto simp: build_envelope_def generate_uuidv7_def Let_def split: if_splits)
  moreover have "\<exists>p. rs_object_key (rv_raw_storage e) = p @ rv_raw_event_id e"
    using assms by (cases "encode_payload raw") (auto simp: build_envelope_def generate_object_key_def Let_def)
  ultimately show ?thesis by (simp add: key_ok_def)
qed

lemma store_evidence:
  assumes "build_envelope (me_sha256 env) clk raw md pr po fh b rid = Inr e" and "\<And>x. me_gunzip env (me_gzip env x) = x"
  shows "evidence env (dict_set (rs_bucket (rv_raw_storage e), rs_object_key (rv_raw_storage e)) (me_gzip env raw) v) e"
  using build_lossless [OF assms(1)] assms(2) by (simp add: evidence_def get_raw_event_def)

lemma evidence_other:
  assumes "evidence env v e" and "rs_object_key (rv_raw_storage e) \<noteq> key"
  shows "evidence env (dict_set (b, key) d v) e"
  using assms by (simp add: evidence_def get_raw_event_def)

subsection \<open>Runs\<close>

text \<open>
  Every interleaving of ingestions, recovery turns and producer restarts, with any failures. Beside the
  state, \<open>stored\<close> collects the envelopes whose raw object was written, \<open>owed\<close> those among them that were
  published or spooled. An identifier is fresh, as 74 random bits make it.
\<close>

definition spool_failed :: "ingest_io \<Rightarrow> m1_state \<Rightarrow> bool" where
  "spool_failed io s \<longleftrightarrow> in_spool io \<noteq> None \<or> s_outbox s = None"

definition new_stored :: "ingest_error + raw_event_envelope \<Rightarrow> raw_event_envelope set" where
  "new_stored r = (case r of Inr e \<Rightarrow> {e} | Inl (KafkaPublishError _ e) \<Rightarrow> {e} | _ \<Rightarrow> {})"

definition new_owed :: "ingest_io \<Rightarrow> m1_state \<Rightarrow> ingest_error + raw_event_envelope \<Rightarrow> raw_event_envelope set" where
  "new_owed io s r = (case r of Inr e \<Rightarrow> {e} | Inl (KafkaPublishError _ e) \<Rightarrow> if spool_failed io s then {} else {e} | _ \<Rightarrow> {})"

inductive m1_reach :: "m1_env \<Rightarrow> m1_state \<Rightarrow> raw_event_envelope set \<Rightarrow> raw_event_envelope set \<Rightarrow> bool" for env where
  start: "m1_reach env \<lparr> s_vault = [], s_kafka = \<lparr> kp_raw_topic = t, kp_created = False, kp_running = False, kp_log = [] \<rparr>,
            s_outbox = Some [] \<rparr> {} {}"
| ingest: "m1_reach env s stored owed \<Longrightarrow> process_raw_payload env io raw md pr po fh b s = (s', r) \<Longrightarrow>
    length (rand_bytes (in_clock io)) = 10 \<Longrightarrow>
    (\<And>e. e \<in> new_stored r \<Longrightarrow> rv_raw_event_id e \<notin> rv_raw_event_id ` stored) \<Longrightarrow>
    m1_reach env s' (stored \<union> new_stored r) (owed \<union> new_owed io s r)"
| recover: "m1_reach env s stored owed \<Longrightarrow> s_outbox s = Some ob \<Longrightarrow> recovery_tick env err rio (s_kafka s) ob = (k', ob') \<Longrightarrow>
    m1_reach env (s\<lparr>s_kafka := k', s_outbox := Some ob'\<rparr>) stored owed"
| restart: "m1_reach env s stored owed \<Longrightarrow> m1_reach env (s\<lparr>s_kafka := fst (kafka_start err (s_kafka s))\<rparr>) stored owed"
| halt: "m1_reach env s stored owed \<Longrightarrow> m1_reach env (s\<lparr>s_kafka := kafka_stop (s_kafka s)\<rparr>) stored owed"

definition m1_inv :: "m1_env \<Rightarrow> m1_state \<Rightarrow> raw_event_envelope set \<Rightarrow> raw_event_envelope set \<Rightarrow> bool" where
  "m1_inv env s stored owed \<longleftrightarrow> (\<exists>ob. s_outbox s = Some ob \<and> rows_ok ob \<and>
     owed \<subseteq> published (s_kafka s) \<union> spooled ob \<and> published (s_kafka s) \<union> spooled ob \<subseteq> stored \<and>
     (\<forall>e \<in> stored. key_ok e \<and> evidence env (s_vault s) e))"

lemma ingest_cases:
  assumes "process_raw_payload env io raw md pr po fh b s = (s', r)"
  obtains (refused) "s' = s" "new_stored r = {}" "new_owed io s r = {}"
  | (stored) e k sent where
      "build_envelope (me_sha256 env) (in_clock io) raw md pr po fh b None = Inr e"
      "publish_envelope env (in_send io) e None (s_kafka s) = (k, sent)"
      "new_stored r = {e}" "sent = Inr () \<Longrightarrow> new_owed io s r = {e}"
      "s' = s\<lparr>s_vault := dict_set (rs_bucket (rv_raw_storage e), rs_object_key (rv_raw_storage e)) (me_gzip env raw) (s_vault s),
              s_kafka := k, s_outbox := (case sent of Inr _ \<Rightarrow> s_outbox s | Inl x \<Rightarrow>
                map_option (\<lambda>ob. fst (spool_envelope (in_time io) (in_spool io) e (kp_raw_topic k) (exn_str x) None ob)) (s_outbox s))\<rparr>"
      "\<And>x. sent = Inl x \<Longrightarrow> new_owed io s r = (if spool_failed io s then {} else {e})"
proof (cases "build_envelope (me_sha256 env) (in_clock io) raw md pr po fh b None")
  case (Inl x)
  then show ?thesis using assms by (intro refused) (auto simp: process_raw_payload_def new_stored_def new_owed_def)
next
  case b: (Inr e)
  show ?thesis
  proof (cases "in_put io")
    case (Some x)
    then show ?thesis using assms b
      by (intro refused) (auto simp: process_raw_payload_def store_raw_event_def new_stored_def new_owed_def)
  next
    case None
    obtain k sent where p: "publish_envelope env (in_send io) e None (s_kafka s) = (k, sent)" by (metis surj_pair)
    show ?thesis
      by (rule stored [OF b p])
         (use assms b None p in \<open>auto simp: process_raw_payload_def store_raw_event_def new_stored_def new_owed_def split: sum.splits\<close>)
  qed
qed

lemma spool_rows:
  assumes "rows_ok ob" and "rv_raw_event_id e \<notin> rv_raw_event_id ` spooled ob"
    and "spool_envelope now err e t msg key ob = (ob', res)"
  shows "rows_ok ob' \<and> spooled ob' = spooled ob \<union> (if err = None then {e} else {})"
proof (cases err)
  case None
  have i: "rv_raw_event_id e \<notin> set (ids ob)" using assms(1,2) by (auto simp: rows_ok_def ids_def spooled_def)
  then have "filter (\<lambda>r. ob_raw_event_id r \<noteq> rv_raw_event_id e) ob = ob" by (auto simp: ids_def filter_id_conv intro: rev_image_eqI)
  then show ?thesis using assms None i by (auto simp: spool_envelope_def Let_def rows_ok_def ids_def spooled_def)
qed (use assms in \<open>auto simp: spool_envelope_def Let_def\<close>)

lemma ingest_inv:
  assumes inv: "m1_inv env s st owed" and run: "process_raw_payload env io raw md pr po fh b s = (s', r)"
    and rnd: "length (rand_bytes (in_clock io)) = 10" and gz: "\<And>x. me_gunzip env (me_gzip env x) = x"
    and fresh: "\<And>e. e \<in> new_stored r \<Longrightarrow> rv_raw_event_id e \<notin> rv_raw_event_id ` st"
  shows "m1_inv env s' (st \<union> new_stored r) (owed \<union> new_owed io s r)"
  using run
proof (cases rule: ingest_cases)
  case refused
  then show ?thesis using inv by simp
next
  case (stored e k sent)
  obtain ob where ob: "s_outbox s = Some ob" "rows_ok ob" "owed \<subseteq> published (s_kafka s) \<union> spooled ob"
      "published (s_kafka s) \<union> spooled ob \<subseteq> st" "\<forall>e \<in> st. key_ok e \<and> evidence env (s_vault s) e"
    using inv by (auto simp: m1_inv_def)
  have f: "rv_raw_event_id e \<notin> rv_raw_event_id ` st" using fresh stored(3) by simp
  have ke: "key_ok e" using build_key_ok [OF stored(1) rnd] .
  note pp = publish_published [OF stored(2)]
  have ev: "\<forall>x \<in> st \<union> {e}. key_ok x \<and> evidence env (s_vault s') x"
  proof
    fix x assume "x \<in> st \<union> {e}"
    then consider "x = e" | "x \<in> st" "rs_object_key (rv_raw_storage x) \<noteq> rs_object_key (rv_raw_storage e)"
      using f ke ob(5) key_inj by (metis Un_iff imageI singletonD)
    then show "key_ok x \<and> evidence env (s_vault s') x"
      by cases (use stored(1,5) ke ob(5) store_evidence [OF _ gz] evidence_other in auto)
  qed
  have fo: "rv_raw_event_id e \<notin> rv_raw_event_id ` spooled ob" using f ob(4) by blast
  show ?thesis
  proof (cases sent)
    case (Inr u)
    then have "s_outbox s' = Some ob" "s_kafka s' = k" using stored(5) ob(1) by simp_all
    then show ?thesis using ob ev pp(1,2) pp(3) stored(3,4) Inr by (auto simp: m1_inv_def)
  next
    case (Inl x)
    obtain ob' res where sp: "spool_envelope (in_time io) (in_spool io) e (kp_raw_topic k) (exn_str x) None ob = (ob', res)"
      by (metis surj_pair)
    note rows = spool_rows [OF ob(2) fo sp]
    have s': "s_outbox s' = Some ob'" "s_kafka s' = k" using stored(5) ob(1) Inl sp by simp_all
    moreover have "owed \<union> new_owed io s r \<subseteq> published k \<union> spooled ob'"
      using stored(6) [OF Inl] rows pp(1) ob(1,3) by (auto simp: spool_failed_def split: if_splits)
    moreover have "published k \<union> spooled ob' \<subseteq> st \<union> {e}" using rows pp(2) ob(4) by (auto split: if_splits)
    ultimately show ?thesis using rows ev stored(3) by (auto simp: m1_inv_def)
  qed
qed

lemma published_kafka [simp]: "published (fst (kafka_start err k)) = published k" "published (kafka_stop k) = published k"
  by (auto simp: published_def kafka_start_def kafka_stop_def split: option.splits)

lemma reach_inv: "m1_reach env s stored owed \<Longrightarrow> (\<And>x. me_gunzip env (me_gzip env x) = x) \<Longrightarrow> m1_inv env s stored owed"
proof (induction rule: m1_reach.induct)
  case (start t)
  then show ?case by (simp add: m1_inv_def rows_ok_def ids_def published_def spooled_def)
next
  case (ingest s stored owed io raw md pr po fh b s' r)
  then show ?case using ingest_inv by blast
next
  case (recover s stored owed ob err rio k' ob')
  obtain rows: "rows_ok ob" "owed \<subseteq> published (s_kafka s) \<union> spooled ob" "published (s_kafka s) \<union> spooled ob \<subseteq> stored"
      "\<forall>e \<in> stored. key_ok e \<and> evidence env (s_vault s) e"
    using recover by (auto simp: m1_inv_def)
  then show ?case using recovery_keeps [OF recover.hyps(3) rows(1)] by (auto simp: m1_inv_def)
qed (auto simp: m1_inv_def)

subsection \<open>Draining\<close>

definition good_io :: "nat \<Rightarrow> replay_io" where
  "good_io n = \<lparr> ri_send = Acked, ri_mark = None, ri_attempt = None \<rparr>"

lemma replay_good:
  assumes "kp_created k" "kp_running k" "distinct (ids items)"
  shows "\<exists>k'. replay_loop env good_io n items k ob =
      (k', filter (\<lambda>r. ob_raw_event_id r \<notin> set (ids items)) ob, Inr (n + length items)) \<and>
    kp_created k' \<and> kp_running k' \<and> map kr_value (kp_log k') = map kr_value (kp_log k) @ map ob_envelope items"
  using assms
proof (induction items arbitrary: n k ob)
  case Nil
  then show ?case by (simp add: ids_def)
next
  case (Cons item items)
  obtain k1 where k1: "publish_envelope env Acked (ob_envelope item) (Some (ob_topic item)) k = (k1, Inr ())"
      "kp_created k1" "kp_running k1" "map kr_value (kp_log k1) = map kr_value (kp_log k) @ [ob_envelope item]"
    using Cons.prems by (auto simp: publish_envelope_def Let_def)
  have d: "distinct (ids items)" using Cons.prems(3) by (simp add: ids_def)
  let ?ob = "filter (\<lambda>r. ob_raw_event_id r \<noteq> ob_raw_event_id item) ob"
  have f: "filter (\<lambda>r. ob_raw_event_id r \<notin> set (ids items)) ?ob = filter (\<lambda>r. ob_raw_event_id r \<notin> set (ids (item # items))) ob"
    by (simp add: ids_def conj_commute)
  show ?case
    using Cons.IH [OF k1(2,3) d, of "n + 1" ?ob] k1(1,4) f by (auto simp: good_io_def mark_published_def)
qed

lemma drop_pending:
  assumes "rows_ok ob"
  shows "length (filter (\<lambda>r. ob_raw_event_id r \<notin> set (ids (get_pending n ob))) ob) = length ob - n"
proof -
  let ?s = "sort_key ob_created_at ob" and ?P = "\<lambda>r. ob_raw_event_id r \<notin> set (ids (get_pending n ob))"
  have inj: "inj_on ob_raw_event_id (set ob)" using assms by (simp add: rows_ok_def ids_def distinct_map)
  have ds: "distinct ?s" using assms by (simp add: rows_ok_def ids_def distinct_map)
  have P: "?P r \<longleftrightarrow> r \<notin> set (take n ?s)" if "r \<in> set ob" for r
    using inj that set_take_subset [of n ?s] by (auto simp: ids_def get_pending_def dest: inj_onD)
  have "length (filter ?P ob) = length (filter ?P ?s)"
    by (simp add: filter_sort)
  also have "filter ?P ?s = filter (\<lambda>r. r \<notin> set (take n ?s)) ?s" using P by (intro filter_cong) auto
  also have "\<dots> = filter (\<lambda>r. r \<notin> set (take n ?s)) (take n ?s @ drop n ?s)" by simp
  also have "\<dots> = drop n ?s"
  proof -
    have "set (take n ?s) \<inter> set (drop n ?s) = {}" using set_take_disj_set_drop_if_distinct [OF ds] by blast
    then have "filter (\<lambda>r. r \<notin> set (take n ?s)) (drop n ?s) = drop n ?s" by (auto simp: filter_id_conv)
    then show ?thesis unfolding filter_append by simp
  qed
  finally show ?thesis by simp
qed

lemma tick_good:
  assumes "rows_ok ob" and "ob \<noteq> []"
  shows "\<exists>k' ob'. recovery_tick env None good_io k ob = (k', ob') \<and> rows_ok ob' \<and> length ob' = length ob - 100 \<and>
    published k' = published k \<union> (spooled ob - spooled ob') \<union> spooled (get_pending 100 ob)"
proof -
  obtain k1 where h: "kafka_is_healthy None k = (k1, True)" "kp_created k1" "kp_running k1" "kp_log k1 = kp_log k"
    by (cases "kp_created k \<and> kp_running k") (auto simp: kafka_is_healthy_def kafka_start_def)
  note items = pending_items [OF assms(1), of 100]
  obtain k2 where r: "replay_loop env good_io 0 (get_pending 100 ob) k1 ob =
        (k2, filter (\<lambda>r. ob_raw_event_id r \<notin> set (ids (get_pending 100 ob))) ob, Inr (0 + length (get_pending 100 ob)))"
      "map kr_value (kp_log k2) = map kr_value (kp_log k1) @ map ob_envelope (get_pending 100 ob)"
    using replay_good [OF h(2,3), of "get_pending 100 ob" env 0 ob] items by blast
  let ?ob = "filter (\<lambda>r. ob_raw_event_id r \<notin> set (ids (get_pending 100 ob))) ob"
  have "recovery_tick env None good_io k ob = (k2, ?ob)"
    using assms(2) h r by (simp add: recovery_tick_def get_pending_count_def replay_pending_def)
  moreover have keep: "rows_ok ?ob" "spooled ob \<subseteq> spooled ?ob \<union> published k2"
    using replay_keeps [OF r(1) assms(1)] items by blast+
  moreover have "published k2 = published k \<union> spooled (get_pending 100 ob)"
    using arg_cong [OF r(2), of set] h(4) by (simp add: published_def spooled_def)
  ultimately show ?thesis using drop_pending [OF assms(1), of 100] by blast
qed

lemma drain:
  "rows_ok ob \<Longrightarrow> length ob \<le> 100 * n \<Longrightarrow>
   \<exists>k'. ((\<lambda>(k, ob). recovery_tick env None good_io k ob) ^^ n) (k, ob) = (k', []) \<and> published k \<union> spooled ob \<subseteq> published k'"
proof (induction n arbitrary: k ob)
  case 0
  then show ?case by (simp add: spooled_def)
next
  case (Suc n)
  show ?case
  proof (cases "ob = []")
    case True
    then have "recovery_tick env None good_io k ob = (k, ob)" by (simp add: recovery_tick_def get_pending_count_def)
    then show ?thesis using Suc.IH [of ob k] Suc.prems True by (simp add: funpow_swap1 spooled_def)
  next
    case False
    then obtain k1 ob1 where t: "recovery_tick env None good_io k ob = (k1, ob1)" "rows_ok ob1" "length ob1 = length ob - 100"
        "published k1 = published k \<union> (spooled ob - spooled ob1) \<union> spooled (get_pending 100 ob)"
      using tick_good [OF Suc.prems(1), of env k] by blast
    obtain k' where "((\<lambda>(k, ob). recovery_tick env None good_io k ob) ^^ n) (k1, ob1) = (k', [])"
        "published k1 \<union> spooled ob1 \<subseteq> published k'"
      using Suc.IH [OF t(2), of k1] Suc.prems(2) t(3) by (metis le_diff_conv mult_Suc_right add.commute)
    then show ?thesis using t(1,4) by (auto simp: funpow_Suc_right simp del: funpow.simps)
  qed
qed

subsection \<open>Properties\<close>

text \<open>(C2) No event is orphaned. In every state that ingestions, recovery turns and restarts reach, with any
  failures of MinIO, Kafka and SQLite on the way: each envelope that was published or spooled is in the
  topic or still in the outbox; whatever is in the topic or in the outbox has its raw object in the vault,
  with the digest of the envelope and exactly the bytes of its payload; and every stored object keeps
  its content.\<close>

theorem ingestion_never_orphans:
  assumes "m1_reach env s stored owed" and "\<And>x. me_gunzip env (me_gzip env x) = x"
  shows "\<exists>ob. s_outbox s = Some ob \<and> owed \<subseteq> published (s_kafka s) \<union> spooled ob \<and>
    published (s_kafka s) \<union> spooled ob \<subseteq> stored \<and> (\<forall>e \<in> stored. evidence env (s_vault s) e)"
  using reach_inv [OF assms] by (auto simp: m1_inv_def)

definition example_env :: m1_env where
  "example_env = \<lparr> me_sha256 = (\<lambda>_. ''d''), me_gzip = (\<lambda>b. 0x1F # b), me_gunzip = tl \<rparr>"

definition example_m1 :: m1_state where
  "example_m1 = \<lparr> s_vault = [], s_kafka = \<lparr> kp_raw_topic = ''ulpf.raw'', kp_created = False, kp_running = False, kp_log = [] \<rparr>,
     s_outbox = Some [] \<rparr>"

definition example_ingest :: ingest_io where
  "example_ingest = \<lparr> in_clock = \<lparr> now_dt = \<lparr> dt_year = 2026, dt_month = 1, dt_day = 2, dt_hour = 3, dt_minute = 4, dt_second = 5,
     dt_microsecond = 0 \<rparr>, now_ms = 1, rand_bytes = replicate 10 0 \<rparr>, in_time = 0, in_put = None, in_send = Acked, in_spool = None \<rparr>"

theorem ingestion_never_orphans_witness:
  "\<exists>ob. s_outbox (fst (process_raw_payload example_env example_ingest [65] [] ''udp'' None ''syslog'' ''b'' example_m1)) = Some ob \<and>
    new_owed example_ingest example_m1 (snd (process_raw_payload example_env example_ingest [65] [] ''udp'' None ''syslog'' ''b'' example_m1)) \<subseteq>
      published (s_kafka (fst (process_raw_payload example_env example_ingest [65] [] ''udp'' None ''syslog'' ''b'' example_m1))) \<union> spooled ob"
proof -
  let ?p = "process_raw_payload example_env example_ingest [65] [] ''udp'' None ''syslog'' ''b'' example_m1"
  have "m1_reach example_env example_m1 {} {}" unfolding example_m1_def by (rule m1_reach.start)
  then have "m1_reach example_env (fst ?p) ({} \<union> new_stored (snd ?p)) ({} \<union> new_owed example_ingest example_m1 (snd ?p))"
    by (rule m1_reach.ingest [OF _ prod.collapse [symmetric]]) (simp_all add: example_ingest_def)
  from ingestion_never_orphans [OF this] show ?thesis by (auto simp: example_env_def)
qed

text \<open>(C10) The outbox drains: as soon as Kafka and SQLite work again, \<open>n\<close> turns of the recovery worker empty an
  outbox of at most \<open>100 * n\<close> rows, and every envelope of it is in the topic.\<close>

theorem outbox_drains:
  assumes "rows_ok ob" and "length ob \<le> 100 * n"
  shows "\<exists>k'. ((\<lambda>(k, ob). recovery_tick env None good_io k ob) ^^ n) (k, ob) = (k', []) \<and> spooled ob \<subseteq> published k'"
  using drain [OF assms] by blast

definition example_envelope :: raw_event_envelope where
  "example_envelope = \<lparr> rv_schema_version = ''1.0.0'', rv_raw_event_id = ''e1'', rv_tenant_id = ''acme'', rv_source_id = ''fw'',
     rv_source_type = ''firewall'', rv_ingest_zone = ''dmz'', rv_collector_id = ''c1'', rv_received_at = ''t'',
     rv_transport = \<lparr> ti_protocol = ''udp'', ti_port = None \<rparr>,
     rv_payload = \<lparr> pl_encoding = ''utf-8'', pl_format_hint = ''syslog'', pl_data = [65] \<rparr>,
     rv_integrity = \<lparr> ii_algorithm = ''SHA-256'', ii_hash = ''d'' \<rparr>,
     rv_raw_storage = \<lparr> rs_backend = ''minio'', rs_bucket = ''b'', rs_object_key = ''k/e1'' \<rparr> \<rparr>"

definition example_outbox :: outbox where
  "example_outbox = fst (spool_envelope 0 None example_envelope ''ulpf.raw'' ''down'' None [])"

theorem outbox_drains_witness:
  "\<exists>k'. ((\<lambda>(k, ob). recovery_tick example_env None good_io k ob) ^^ 1) (s_kafka example_m1, example_outbox) = (k', []) \<and>
     example_envelope \<in> published k'"
proof -
  have "rows_ok example_outbox" "length example_outbox \<le> 100 * 1" "example_envelope \<in> spooled example_outbox"
    by (simp_all add: rows_ok_def ids_def example_outbox_def spool_envelope_def spooled_def Let_def example_envelope_def)
  then show ?thesis using outbox_drains [of example_outbox 1 example_env "s_kafka example_m1"] by blast
qed

end
