(* ===== verification/M1_Transports.thy ===== *)
theory M1_Transports
  imports M1_Pipeline
begin

section \<open>M1: rate limiter, HTTP, UDP, TCP and file transports\<close>

text \<open>
  \<open>api/rate_limiter.py\<close>, \<open>transports/http.py\<close>, \<open>udp_syslog.py\<close>, \<open>tcp_syslog.py\<close>, \<open>file_replay.py\<close> and \<open>health/health.py\<close>
  of M1 over the ingestion pipeline. Times and tokens are rational numbers: the rounding of the double
  arithmetic of the limiter is not modelled. The lock of the limiter makes each call one step. A
  request or connection is given by the headers, chunks or lines it delivers.
\<close>

record m1_settings =
  cfg_api_auth_token :: string
  cfg_max_http_payload_bytes :: int
  cfg_udp_queue_size :: int
  cfg_minio_bucket_raw :: string
  cfg_http_port :: int
  cfg_udp_port :: int
  cfg_tcp_port :: int
  cfg_default_tenant_id :: string
  cfg_default_source_id :: string
  cfg_default_source_type :: string
  cfg_default_ingest_zone :: string
  cfg_default_collector_id :: string

subsection \<open>Rate limiter\<close>

record rate_limiter =
  rl_rate :: rat
  rl_capacity :: rat
  rl_tokens :: rat
  rl_last_update :: rat

definition new_limiter :: "rat \<Rightarrow> rat \<Rightarrow> rat \<Rightarrow> rate_limiter" where
  "new_limiter rate capacity now = \<lparr> rl_rate = rate, rl_capacity = capacity, rl_tokens = capacity, rl_last_update = now \<rparr>"

definition consume :: "rat \<Rightarrow> rat \<Rightarrow> rate_limiter \<Rightarrow> rate_limiter \<times> bool" where
  "consume now tokens rl =
     (let elapsed = now - rl_last_update rl;
          available = min (rl_capacity rl) (rl_tokens rl + elapsed * rl_rate rl)
      in if available \<ge> tokens then (rl\<lparr>rl_last_update := now, rl_tokens := available - tokens\<rparr>, True)
         else (rl\<lparr>rl_last_update := now, rl_tokens := available\<rparr>, False))"

definition check_limit :: "rat \<Rightarrow> rat \<Rightarrow> rate_limiter \<Rightarrow> rate_limiter \<times> unit result" where
  "check_limit now tokens rl =
     (case consume now tokens rl of
        (rl', True) \<Rightarrow> (rl', Inr ())
      | (rl', False) \<Rightarrow> (rl', Inl (HTTPException 429 ''Rate limit exceeded'')))"

subsection \<open>HTTP\<close>

definition verify_bearer_token :: "m1_settings \<Rightarrow> string option \<Rightarrow> string result" where
  "verify_bearer_token cfg authorization =
     (case authorization of
        None \<Rightarrow> Inl (HTTPException 401 ''Missing Authorization header'')
      | Some [] \<Rightarrow> Inl (HTTPException 401 ''Missing Authorization header'')
      | Some a \<Rightarrow>
          (case split_ws a of
             [scheme, token] \<Rightarrow>
               if lower scheme \<noteq> ''bearer'' then
                 Inl (HTTPException 401 ''Invalid Authorization header format. Expected Bearer token.'')
               else if token \<noteq> cfg_api_auth_token cfg then Inl (HTTPException 403 ''Invalid API bearer token'')
               else Inr token
           | _ \<Rightarrow> Inl (HTTPException 401 ''Invalid Authorization header format. Expected Bearer token.'')))"

definition too_large :: "int \<Rightarrow> exn" where
  "too_large max_bytes = HTTPException 413 (''Payload exceeds maximum allowed size of '' @ int_str max_bytes @ '' bytes'')"

fun read_chunks :: "int \<Rightarrow> int \<Rightarrow> byte list list \<Rightarrow> byte list list \<Rightarrow> byte list list result" where
  "read_chunks max_bytes total_bytes acc [] = Inr acc"
| "read_chunks max_bytes total_bytes acc (c # cs) =
     (let total' = total_bytes + int (length c) in
      if total' > max_bytes then Inl (too_large max_bytes) else read_chunks max_bytes total' (acc @ [c]) cs)"

record http_request =
  hr_authorization :: "string option"
  hr_content_length :: "string option"
  hr_content_type :: "string option"
  hr_tenant_id :: "string option"
  hr_source_id :: "string option"
  hr_source_type :: "string option"
  hr_ingest_zone :: "string option"
  hr_collector_id :: "string option"
  hr_chunks :: "byte list list"

definition length_check :: "int \<Rightarrow> string option \<Rightarrow> unit result" where
  "length_check max_bytes content_length =
     (case content_length of
        Some (c # cs) \<Rightarrow> (case int_of_str (c # cs) of Some n \<Rightarrow> if n > max_bytes then Inl (too_large max_bytes) else Inr () | None \<Rightarrow> Inr ())
      | _ \<Rightarrow> Inr ())"

definition header_or :: "string option \<Rightarrow> string \<Rightarrow> string" where
  "header_or h d = (case h of Some (c # cs) \<Rightarrow> c # cs | _ \<Rightarrow> d)"

definition read_body :: "m1_settings \<Rightarrow> http_request \<Rightarrow> byte list result" where
  "read_body cfg req =
     rbind (length_check (cfg_max_http_payload_bytes cfg) (hr_content_length req)) (\<lambda>_.
     rbind (read_chunks (cfg_max_http_payload_bytes cfg) 0 [] (hr_chunks req)) (\<lambda>chunks.
       if concat chunks = [] then Inl (HTTPException 400 ''Payload body cannot be empty'') else Inr (concat chunks)))"

definition http_metadata :: "m1_settings \<Rightarrow> http_request \<Rightarrow> (string \<times> string) list" where
  "http_metadata cfg req =
     [(''tenant_id'', header_or (hr_tenant_id req) (cfg_default_tenant_id cfg)),
      (''source_id'', header_or (hr_source_id req) (cfg_default_source_id cfg)),
      (''source_type'', header_or (hr_source_type req) (cfg_default_source_type cfg)),
      (''ingest_zone'', header_or (hr_ingest_zone req) (cfg_default_ingest_zone cfg)),
      (''collector_id'', header_or (hr_collector_id req) (cfg_default_collector_id cfg)),
      (''content_type'', header_or (map_option lower (hr_content_type req)) ''text/plain'')]"

record ingest_response =
  ir_status :: string
  ir_raw_event_id :: string
  ir_tenant_id :: string
  ir_source_id :: string
  ir_sha256 :: string

text \<open>What a handler raises: an HTTP error of its own, or the error of the pipeline.\<close>

type_synonym 'a handled = "(exn + ingest_error) + 'a"

record m1_app =
  app_limiter :: rate_limiter
  app_state :: m1_state

definition handle_http_ingest :: "m1_env \<Rightarrow> m1_settings \<Rightarrow> rat \<Rightarrow> ingest_io \<Rightarrow> http_request \<Rightarrow> m1_app \<Rightarrow>
    m1_app \<times> ingest_response handled" where
  "handle_http_ingest env cfg now io req app =
     (case verify_bearer_token cfg (hr_authorization req) of
        Inl e \<Rightarrow> (app, Inl (Inl e))
      | Inr _ \<Rightarrow>
          (case check_limit now 1 (app_limiter app) of
             (rl, Inl e) \<Rightarrow> (app\<lparr>app_limiter := rl\<rparr>, Inl (Inl e))
           | (rl, Inr _) \<Rightarrow>
               (case read_body cfg req of
                  Inl e \<Rightarrow> (app\<lparr>app_limiter := rl\<rparr>, Inl (Inl e))
                | Inr raw \<Rightarrow>
                    let content_type = lower (case hr_content_type req of Some t \<Rightarrow> t | None \<Rightarrow> []);
                        hint = (if contains ''application/json'' content_type then ''json'' else ''syslog'')
                    in case process_raw_payload env io raw (http_metadata cfg req) ''http'' (Some (cfg_http_port cfg)) hint
                              (cfg_minio_bucket_raw cfg) (app_state app) of
                         (s, Inl e) \<Rightarrow> (app\<lparr>app_limiter := rl, app_state := s\<rparr>, Inl (Inr e))
                       | (s, Inr env') \<Rightarrow>
                           (app\<lparr>app_limiter := rl, app_state := s\<rparr>,
                            Inr \<lparr> ir_status = ''accepted'', ir_raw_event_id = rv_raw_event_id env', ir_tenant_id = rv_tenant_id env',
                                  ir_source_id = rv_source_id env', ir_sha256 = ii_hash (rv_integrity env') \<rparr>))))"

subsection \<open>Syslog over UDP and TCP\<close>

definition syslog_metadata :: "m1_settings \<Rightarrow> string \<Rightarrow> string \<Rightarrow> (string \<times> string) list" where
  "syslog_metadata cfg prefix client_ip =
     [(''tenant_id'', cfg_default_tenant_id cfg), (''source_id'', prefix @ client_ip),
      (''source_type'', cfg_default_source_type cfg), (''ingest_zone'', cfg_default_ingest_zone cfg),
      (''collector_id'', cfg_default_collector_id cfg)]"

record udp_server =
  udp_queue :: "(byte list \<times> string) list"
  udp_rejected :: nat

text \<open>\<open>put_nowait\<close> raises when the queue has \<open>maxsize\<close> entries; a \<open>maxsize\<close> that is not positive means no bound.\<close>

definition datagram_received :: "m1_settings \<Rightarrow> byte list \<Rightarrow> string \<Rightarrow> udp_server \<Rightarrow> udp_server" where
  "datagram_received cfg data client_ip u =
     (if data = [] then u
      else if 0 < cfg_udp_queue_size cfg \<and> cfg_udp_queue_size cfg \<le> int (length (udp_queue u)) then
        u\<lparr>udp_rejected := udp_rejected u + 1\<rparr>
      else u\<lparr>udp_queue := udp_queue u @ [(data, client_ip)]\<rparr>)"

definition udp_worker_step :: "m1_env \<Rightarrow> m1_settings \<Rightarrow> ingest_io \<Rightarrow> udp_server \<Rightarrow> m1_state \<Rightarrow> udp_server \<times> m1_state" where
  "udp_worker_step env cfg io u s =
     (case udp_queue u of
        [] \<Rightarrow> (u, s)
      | (data, client_ip) # q \<Rightarrow>
          (u\<lparr>udp_queue := q\<rparr>,
           fst (process_raw_payload env io data (syslog_metadata cfg ''syslog-udp-'' client_ip) ''udp'' (Some (cfg_udp_port cfg))
                  ''syslog'' (cfg_minio_bucket_raw cfg) s)))"

text \<open>A connection: what \<open>readline\<close> returns or raises, in order. The first error ends it.\<close>

fun tcp_lines :: "m1_env \<Rightarrow> m1_settings \<Rightarrow> (nat \<Rightarrow> ingest_io) \<Rightarrow> string \<Rightarrow> nat \<Rightarrow> byte list result list \<Rightarrow> m1_state \<Rightarrow>
    m1_state \<times> (ingest_error + raw_event_envelope) list" where
  "tcp_lines env cfg io ip n [] s = (s, [])"
| "tcp_lines env cfg io ip n (Inl e # ls) s = (s, [])"
| "tcp_lines env cfg io ip n (Inr line # ls) s =
     (if line = [] then (s, [])
      else case process_raw_payload env (io n) line (syslog_metadata cfg ''syslog-tcp-'' ip) ''tcp'' (Some (cfg_tcp_port cfg))
                  ''syslog'' (cfg_minio_bucket_raw cfg) s of
             (s', Inl e) \<Rightarrow> (s', [Inl e])
           | (s', Inr env') \<Rightarrow> (case tcp_lines env cfg io ip (n + 1) ls s' of (s'', rs) \<Rightarrow> (s'', Inr env' # rs)))"

definition handle_client :: "m1_env \<Rightarrow> m1_settings \<Rightarrow> (nat \<Rightarrow> ingest_io) \<Rightarrow> string option \<Rightarrow> byte list result list \<Rightarrow> m1_state \<Rightarrow> m1_state" where
  "handle_client env cfg io peer lines s =
     fst (tcp_lines env cfg io (case peer of Some ip \<Rightarrow> ip | None \<Rightarrow> ''unknown'') 0 lines s)"

subsection \<open>File replay\<close>

text \<open>The lines of a binary file, and \<open>bytes.splitlines(keepends=True)\<close>.\<close>

fun file_lines :: "byte list \<Rightarrow> byte list list" where
  "file_lines [] = []"
| "file_lines (b # bs) =
     (if b = 10 then [b] # file_lines bs
      else case file_lines bs of [] \<Rightarrow> [[b]] | l # ls \<Rightarrow> (b # l) # ls)"

fun splitlines_keep :: "byte list \<Rightarrow> byte list list" where
  "splitlines_keep [] = []"
| "splitlines_keep [b] = [[b]]"
| "splitlines_keep (b # c # bs) =
     (if b = 13 \<and> c = 10 then [b, c] # splitlines_keep bs
      else if b = 13 \<or> b = 10 then [b] # splitlines_keep (c # bs)
      else case splitlines_keep (c # bs) of [] \<Rightarrow> [[b]] | l # ls \<Rightarrow> (b # l) # ls)"

fun replay_lines :: "m1_env \<Rightarrow> m1_settings \<Rightarrow> (nat \<Rightarrow> ingest_io) \<Rightarrow> (string \<times> string) list \<Rightarrow> nat \<Rightarrow> byte list list \<Rightarrow> m1_state \<Rightarrow>
    m1_state \<times> (ingest_error + raw_event_envelope list)" where
  "replay_lines env cfg io md n [] s = (s, Inr [])"
| "replay_lines env cfg io md n (line # ls) s =
     (if line = [] then replay_lines env cfg io md (n + 1) ls s
      else case process_raw_payload env (io n) line md ''file_replay'' None ''syslog'' (cfg_minio_bucket_raw cfg) s of
             (s', Inl e) \<Rightarrow> (s', Inl e)
           | (s', Inr env') \<Rightarrow>
               (case replay_lines env cfg io md (n + 1) ls s' of
                  (s'', Inl e) \<Rightarrow> (s'', Inl e)
                | (s'', Inr es) \<Rightarrow> (s'', Inr (env' # es))))"

definition replay_file :: "m1_env \<Rightarrow> m1_settings \<Rightarrow> (nat \<Rightarrow> ingest_io) \<Rightarrow> string \<Rightarrow> byte list option \<Rightarrow> string option \<Rightarrow>
    string option \<Rightarrow> string option \<Rightarrow> m1_state \<Rightarrow> m1_state \<times> raw_event_envelope list handled" where
  "replay_file env cfg io stem content tenant_id source_id source_type s =
     (case content of
        None \<Rightarrow> (s, Inl (Inl (OtherError ''FileNotFoundError'' ''Replay file not found'')))
      | Some bytes \<Rightarrow>
          (case replay_lines env cfg io
                  [(''tenant_id'', header_or tenant_id (cfg_default_tenant_id cfg)),
                   (''source_id'', header_or source_id (''file-replay-'' @ stem)),
                   (''source_type'', header_or source_type (cfg_default_source_type cfg)),
                   (''ingest_zone'', cfg_default_ingest_zone cfg), (''collector_id'', cfg_default_collector_id cfg)]
                  0 (file_lines bytes) s of
             (s', Inl e) \<Rightarrow> (s', Inl (Inr e))
           | (s', Inr es) \<Rightarrow> (s', Inr es)))"

definition handle_file_replay_endpoint :: "m1_env \<Rightarrow> m1_settings \<Rightarrow> (nat \<Rightarrow> ingest_io) \<Rightarrow> string option \<Rightarrow> string option \<Rightarrow>
    string option \<Rightarrow> string \<Rightarrow> byte list \<Rightarrow> m1_state \<Rightarrow> m1_state \<times> string list handled" where
  "handle_file_replay_endpoint env cfg io authorization x_tenant_id x_source_id filename content s =
     (case verify_bearer_token cfg authorization of
        Inl e \<Rightarrow> (s, Inl (Inl e))
      | Inr _ \<Rightarrow>
          (case replay_lines env cfg io
                  [(''tenant_id'', header_or x_tenant_id (cfg_default_tenant_id cfg)),
                   (''source_id'', header_or x_source_id (''file-upload-'' @ filename)),
                   (''source_type'', cfg_default_source_type cfg), (''ingest_zone'', cfg_default_ingest_zone cfg),
                   (''collector_id'', cfg_default_collector_id cfg)]
                  0 (splitlines_keep content) s of
             (s', Inl e) \<Rightarrow> (s', Inl (Inr e))
           | (s', Inr es) \<Rightarrow> (s', Inr (map rv_raw_event_id es))))"

subsection \<open>Probes\<close>

definition m1_health_check :: "m1_state option \<Rightarrow> nat \<times> string" where
  "m1_health_check vault = (case vault of None \<Rightarrow> (503, ''unhealthy'') | Some _ \<Rightarrow> (200, ''healthy''))"

text \<open>\<open>minio_ok\<close> and \<open>kafka_ok\<close> are the outcomes of the two probes, with \<open>None\<close> where one timed out or raised.\<close>

definition m1_readiness_check :: "bool option \<Rightarrow> bool option \<Rightarrow> nat \<times> string \<times> string \<times> string" where
  "m1_readiness_check minio kafka =
     (let minio_ok = (minio = Some True); kafka_ok = (kafka = Some True); up = (\<lambda>b. if b then ''up'' else ''down'') in
      (if minio_ok \<and> kafka_ok then 200 else 503, if minio_ok \<and> kafka_ok then ''ready'' else ''not_ready'', up minio_ok, up kafka_ok))"

subsection \<open>Facts\<close>

fun consume_all :: "rat list \<Rightarrow> rate_limiter \<Rightarrow> rate_limiter \<times> nat" where
  "consume_all [] rl = (rl, 0)"
| "consume_all (t # ts) rl =
     (case consume t 1 rl of (rl', ok) \<Rightarrow> case consume_all ts rl' of (rl'', n) \<Rightarrow> (rl'', n + (if ok then 1 else 0)))"

definition limiter_ok :: "rate_limiter \<Rightarrow> bool" where
  "limiter_ok rl \<longleftrightarrow> 0 \<le> rl_rate rl \<and> 0 \<le> rl_tokens rl \<and> rl_tokens rl \<le> rl_capacity rl"

lemma consume_step:
  assumes "limiter_ok rl" and "rl_last_update rl \<le> t" and "consume t 1 rl = (rl', ok)"
  shows "limiter_ok rl'" and "rl_last_update rl' = t" and "rl_rate rl' = rl_rate rl" and "rl_capacity rl' = rl_capacity rl"
    and "rl_tokens rl' + (if ok then 1 else 0) \<le> rl_tokens rl + (t - rl_last_update rl) * rl_rate rl"
proof -
  have "0 \<le> (t - rl_last_update rl) * rl_rate rl" using assms(1,2) by (simp add: limiter_ok_def)
  then show "limiter_ok rl'" using assms by (auto simp: consume_def Let_def limiter_ok_def split: if_splits)
qed (use assms in \<open>auto simp: consume_def Let_def split: if_splits\<close>)

lemma consume_all_bound:
  "limiter_ok rl \<Longrightarrow> sorted (rl_last_update rl # ts) \<Longrightarrow> consume_all ts rl = (rl', n) \<Longrightarrow>
   limiter_ok rl' \<and> rl_last_update rl' = last (rl_last_update rl # ts) \<and> rl_capacity rl' = rl_capacity rl \<and>
   rl_tokens rl' + of_nat n \<le> rl_tokens rl + (last (rl_last_update rl # ts) - rl_last_update rl) * rl_rate rl"
proof (induction ts arbitrary: rl rl' n)
  case (Cons t ts)
  obtain rl1 ok where c: "consume t 1 rl = (rl1, ok)" by (metis surj_pair)
  obtain n1 where n: "consume_all ts rl1 = (rl', n1)" "n = n1 + (if ok then 1 else 0)"
    using Cons.prems(3) c by (auto split: prod.splits)
  have le: "rl_last_update rl \<le> t" using Cons.prems(2) by simp
  note s = consume_step [OF Cons.prems(1) le c]
  have ih: "limiter_ok rl' \<and> rl_last_update rl' = last (t # ts) \<and> rl_capacity rl' = rl_capacity rl \<and>
      rl_tokens rl' + of_nat n1 \<le> rl_tokens rl1 + (last (t # ts) - t) * rl_rate rl"
    using Cons.IH [OF s(1) _ n(1)] Cons.prems(2) s(2,3,4) by simp
  have "(last (t # ts) - t) * rl_rate rl + (t - rl_last_update rl) * rl_rate rl = (last (t # ts) - rl_last_update rl) * rl_rate rl"
    by (simp add: algebra_simps)
  then show ?case using ih s(5) n(2) by (auto split: if_splits)
qed simp

lemma read_chunks_bound:
  "read_chunks m n acc cs = Inr cs' \<Longrightarrow> cs' = acc @ cs \<and> (cs \<noteq> [] \<longrightarrow> n + int (length (concat cs)) \<le> m)"
proof (induction m n acc cs rule: read_chunks.induct)
  case (2 m n acc c cs)
  then show ?case by (cases cs) (auto simp: Let_def split: if_splits)
qed simp

lemma read_body_ok:
  assumes "read_body cfg req = Inr raw"
  shows "raw = concat (hr_chunks req) \<and> raw \<noteq> [] \<and> int (length raw) \<le> cfg_max_http_payload_bytes cfg"
proof -
  obtain cs where r: "read_chunks (cfg_max_http_payload_bytes cfg) 0 [] (hr_chunks req) = Inr cs"
    and raw: "raw = concat cs" "raw \<noteq> []"
    using assms by (auto simp: read_body_def split: if_splits)
  then show ?thesis using read_chunks_bound [OF r] by (cases "hr_chunks req") auto
qed

lemma concat_file_lines: "concat (file_lines bs) = bs \<and> [] \<notin> set (file_lines bs)"
  by (induction bs rule: file_lines.induct) (auto split: list.splits)

lemma concat_splitlines: "concat (splitlines_keep bs) = bs \<and> [] \<notin> set (splitlines_keep bs)"
proof (induction bs rule: splitlines_keep.induct)
  case (3 b c bs)
  show ?case
  proof (cases "b = 13 \<and> c = 10 \<or> b = 13 \<or> b = 10")
    case True
    then show ?thesis using 3 by (cases "b = 13 \<and> c = 10") auto
  next
    case False
    then show ?thesis using 3 by (cases "splitlines_keep (c # bs)") auto
  qed
qed simp_all

lemma process_ok:
  assumes "process_raw_payload env io raw md pr po fh b s = (s', Inr e)"
  shows "build_envelope (me_sha256 env) (in_clock io) raw md pr po fh b None = Inr e" and "e \<in> published (s_kafka s')"
    and "s_vault s' = dict_set (rs_bucket (rv_raw_storage e), rs_object_key (rv_raw_storage e)) (me_gzip env raw) (s_vault s)"
proof -
  from assms show b: "build_envelope (me_sha256 env) (in_clock io) raw md pr po fh b None = Inr e"
    by (auto simp: process_raw_payload_def split: sum.splits prod.splits)
  obtain k where p: "publish_envelope env (in_send io) e None (s_kafka s) = (k, Inr ())"
    and s': "s' = s\<lparr>s_vault := dict_set (rs_bucket (rv_raw_storage e), rs_object_key (rv_raw_storage e)) (me_gzip env raw) (s_vault s),
      s_kafka := k\<rparr>"
    using assms b by (auto simp: process_raw_payload_def store_raw_event_def split: sum.splits prod.splits option.splits)
  show "e \<in> published (s_kafka s')" using publish_published(3) [OF p] s' by simp
  show "s_vault s' = dict_set (rs_bucket (rv_raw_storage e), rs_object_key (rv_raw_storage e)) (me_gzip env raw) (s_vault s)"
    using s' by simp
qed

lemma replay_lines_ok:
  "replay_lines env cfg io md n ls s = (s', Inr es) \<Longrightarrow> [] \<notin> set ls \<Longrightarrow>
   map (\<lambda>e. payload_bytes (rv_payload e)) es = ls \<and> published (s_kafka s) \<union> set es \<subseteq> published (s_kafka s')"
proof (induction ls arbitrary: n s es)
  case (Cons l ls)
  obtain s1 r where p: "process_raw_payload env (io n) l md ''file_replay'' None ''syslog'' (cfg_minio_bucket_raw cfg) s = (s1, r)"
    by (metis surj_pair)
  then obtain e es' where r: "r = Inr e" and es: "replay_lines env cfg io md (n + 1) ls s1 = (s', Inr es')" "es = e # es'"
    using Cons.prems by (auto split: sum.splits prod.splits)
  have ih: "map (\<lambda>e. payload_bytes (rv_payload e)) es' = ls \<and> published (s_kafka s1) \<union> set es' \<subseteq> published (s_kafka s')"
    using Cons.IH [OF es(1)] Cons.prems(2) by simp
  have "published (s_kafka s) \<subseteq> published (s_kafka s1)"
    using p r publish_published(1) by (fastforce simp: process_raw_payload_def split: sum.splits prod.splits)
  then show ?case using ih es(2) process_ok(2) [OF p [unfolded r]] build_lossless [OF process_ok(1) [OF p [unfolded r]]] by auto
qed simp

lemma http_accepted:
  assumes "handle_http_ingest env cfg now io req app = (app', Inr resp)"
  obtains e where "verify_bearer_token cfg (hr_authorization req) = Inr (cfg_api_auth_token cfg)"
    "concat (hr_chunks req) \<noteq> []" "int (length (concat (hr_chunks req))) \<le> cfg_max_http_payload_bytes cfg"
    "ir_sha256 resp = me_sha256 env (concat (hr_chunks req))" "e \<in> published (s_kafka (app_state app'))"
    "rv_raw_event_id e = ir_raw_event_id resp" "rv_tenant_id e = ir_tenant_id resp"
    "ir_tenant_id resp = header_or (hr_tenant_id req) (cfg_default_tenant_id cfg)" "payload_bytes (rv_payload e) = concat (hr_chunks req)"
    "map_of (s_vault (app_state app')) (rs_bucket (rv_raw_storage e), rs_object_key (rv_raw_storage e)) = Some (me_gzip env (concat (hr_chunks req)))"
proof -
  let ?hint = "if contains ''application/json'' (lower (case hr_content_type req of Some t \<Rightarrow> t | None \<Rightarrow> [])) then ''json'' else ''syslog''"
  obtain tok raw e s where v: "verify_bearer_token cfg (hr_authorization req) = Inr tok" and b: "read_body cfg req = Inr raw"
    and p: "process_raw_payload env io raw (http_metadata cfg req) ''http'' (Some (cfg_http_port cfg)) ?hint
        (cfg_minio_bucket_raw cfg) (app_state app) = (s, Inr e)"
    and o: "app_state app' = s" "ir_sha256 resp = ii_hash (rv_integrity e)" "ir_tenant_id resp = rv_tenant_id e"
      "ir_raw_event_id resp = rv_raw_event_id e"
    using assms by (auto simp: handle_http_ingest_def Let_def split: sum.splits prod.splits)
  have "tok = cfg_api_auth_token cfg"
    using v by (auto simp: verify_bearer_token_def split: option.splits list.splits if_splits)
  then show thesis
    using that [of e] v o read_body_ok [OF b] build_lossless [OF process_ok(1) [OF p]] process_ok(2,3) [OF p]
    by (auto simp: http_metadata_def)
qed

subsection \<open>Properties\<close>

text \<open>The rate limiter bounds what it admits: over any sequence of calls, at most the burst capacity plus the
  rate times the time that passed, and the tokens stay between zero and the capacity.\<close>

theorem limiter_admission_bound:
  assumes "0 \<le> rate" and "0 \<le> capacity" and "sorted (t0 # ts)"
  shows "case consume_all ts (new_limiter rate capacity t0) of (rl, n) \<Rightarrow>
    of_nat n \<le> capacity + (last (t0 # ts) - t0) * rate \<and> 0 \<le> rl_tokens rl \<and> rl_tokens rl \<le> capacity"
proof -
  obtain rl n where c: "consume_all ts (new_limiter rate capacity t0) = (rl, n)" by (metis surj_pair)
  have "limiter_ok (new_limiter rate capacity t0)" using assms by (simp add: limiter_ok_def new_limiter_def)
  from consume_all_bound [OF this _ c] assms(3)
  have "limiter_ok rl" "rl_capacity rl = capacity" "rl_tokens rl + of_nat n \<le> capacity + (last (t0 # ts) - t0) * rate"
    by (simp_all add: new_limiter_def)
  then show ?thesis using c by (auto simp: limiter_ok_def)
qed

theorem limiter_admission_bound_witness:
  "snd (consume_all [0, 0, 0, 1] (new_limiter 1 2 0)) \<le> 3"
  using limiter_admission_bound [of 1 2 0 "[0, 0, 0, 1]"] by (auto split: prod.splits)

text \<open>An event is accepted over HTTP only with the configured bearer token and a body that is not empty and not
  above the limit; it is then in the vault and in the topic, and the response carries its digest and the
  tenant of the header. A request that the guards refuse changes nothing but the tokens of the limiter.\<close>

theorem http_ingest_guarded:
  "case handle_http_ingest env cfg now io req app of
     (app', Inr resp) \<Rightarrow>
       verify_bearer_token cfg (hr_authorization req) = Inr (cfg_api_auth_token cfg) \<and>
       concat (hr_chunks req) \<noteq> [] \<and> int (length (concat (hr_chunks req))) \<le> cfg_max_http_payload_bytes cfg \<and>
       ir_sha256 resp = me_sha256 env (concat (hr_chunks req)) \<and>
       ir_tenant_id resp = header_or (hr_tenant_id req) (cfg_default_tenant_id cfg) \<and>
       (\<exists>e \<in> published (s_kafka (app_state app')). rv_raw_event_id e = ir_raw_event_id resp \<and>
          payload_bytes (rv_payload e) = concat (hr_chunks req) \<and>
          map_of (s_vault (app_state app')) (rs_bucket (rv_raw_storage e), rs_object_key (rv_raw_storage e)) =
            Some (me_gzip env (concat (hr_chunks req))))
   | (app', Inl (Inl e)) \<Rightarrow> app_state app' = app_state app
   | (app', Inl (Inr e)) \<Rightarrow> True"
proof -
  obtain app' r where h: "handle_http_ingest env cfg now io req app = (app', r)" by (metis surj_pair)
  have "app_state app' = app_state app" if "r = Inl (Inl e)" for e
    using h that by (auto simp: handle_http_ingest_def Let_def split: sum.splits prod.splits)
  then show ?thesis using h by (cases r) (auto elim!: http_accepted split: sum.splits)
qed

text \<open>A replay that completes is exact: it makes one envelope for each line, in order, whose payloads concatenate to
  the bytes of the file with their line terminators, and all of them are in the topic.\<close>

theorem replay_file_exact:
  assumes "replay_file env cfg io stem (Some content) tenant source stype s = (s', Inr es)"
  shows "concat (map (\<lambda>e. payload_bytes (rv_payload e)) es) = content \<and> length es = length (file_lines content) \<and>
    set es \<subseteq> published (s_kafka s')"
proof -
  obtain md where "replay_lines env cfg io md 0 (file_lines content) s = (s', Inr es)"
    using assms by (auto simp: replay_file_def split: sum.splits prod.splits)
  from replay_lines_ok [OF this] concat_file_lines [of content]
  have "map (\<lambda>e. payload_bytes (rv_payload e)) es = file_lines content" "set es \<subseteq> published (s_kafka s')" by auto
  then show ?thesis using concat_file_lines [of content] by (metis length_map)
qed

definition example_settings :: m1_settings where
  "example_settings = \<lparr> cfg_api_auth_token = ''secret'', cfg_max_http_payload_bytes = 2097152, cfg_udp_queue_size = 10000,
     cfg_minio_bucket_raw = ''ulpf-raw'', cfg_http_port = 8000, cfg_udp_port = 514, cfg_tcp_port = 515,
     cfg_default_tenant_id = ''demo-tenant'', cfg_default_source_id = ''collector-source-01'', cfg_default_source_type = ''firewall'',
     cfg_default_ingest_zone = ''dmz'', cfg_default_collector_id = ''collector-01'' \<rparr>"

definition running_m1 :: m1_state where
  "running_m1 = example_m1\<lparr>s_kafka := fst (kafka_start None (s_kafka example_m1))\<rparr>"

lemma running_process:
  "\<exists>e s'. process_raw_payload example_env example_ingest raw md pr po fh b running_m1 = (s', Inr e)"
proof -
  obtain e where "build_envelope (me_sha256 example_env) (in_clock example_ingest) raw md pr po fh b None = Inr e"
    by (cases "encode_payload raw") (simp add: build_envelope_def generate_uuidv7_def example_ingest_def Let_def)
  then show ?thesis
    by (simp add: process_raw_payload_def store_raw_event_def publish_envelope_def example_ingest_def running_m1_def kafka_start_def
        example_m1_def Let_def)
qed

theorem replay_file_exact_witness:
  "\<exists>s' es. replay_file example_env example_settings (\<lambda>_. example_ingest) ''f'' (Some [65, 10]) None None None running_m1 = (s', Inr es) \<and>
    concat (map (\<lambda>e. payload_bytes (rv_payload e)) es) = [65, 10] \<and> length es = 1"
proof -
  let ?md = "[(''tenant_id'', ''demo-tenant''), (''source_id'', ''file-replay-f''), (''source_type'', ''firewall''),
    (''ingest_zone'', ''dmz''), (''collector_id'', ''collector-01'')]"
  obtain e s' where "process_raw_payload example_env example_ingest [65, 10] ?md ''file_replay'' None ''syslog'' ''ulpf-raw'' running_m1 =
      (s', Inr e)" using running_process by blast
  then have "replay_file example_env example_settings (\<lambda>_. example_ingest) ''f'' (Some [65, 10]) None None None running_m1 = (s', Inr [e])"
    by (simp add: replay_file_def header_or_def example_settings_def)
  from this replay_file_exact [OF this] show ?thesis by auto
qed

end
