(* ===== verification/Int_Idempotency.thy ===== *)
theory Int_Idempotency
  imports Py_Value Bounded_Map
begin

section \<open>Integration: duplicate tracking and retries\<close>

text \<open>
  \<open>integration/adapters/idempotency.py\<close> and \<open>integration/adapters/retry_policy.py\<close>. The clock, the errors of the
  SQLite store and the random jitter are arguments. The table \<open>idempotency_log\<close> is an association list
  by key; the column \<open>result_json\<close> is represented by the value it encodes. Each operation runs under the
  lock, hence as one step.
\<close>

subsection \<open>The tracker\<close>

record idem_entry =
  ie_timestamp :: rat
  ie_result :: "pydict option"

record tracker =
  tr_capacity :: nat
  tr_ttl :: rat
  tr_cache :: "(string, idem_entry) dict"
  tr_db :: "(string, idem_entry) dict option"

definition new_tracker :: "nat \<Rightarrow> rat \<Rightarrow> bool \<Rightarrow> tracker" where
  "new_tracker capacity ttl durable =
     \<lparr> tr_capacity = capacity, tr_ttl = ttl, tr_cache = [], tr_db = (if durable then Some [] else None) \<rparr>"

definition make_key :: "string \<Rightarrow> string \<Rightarrow> string" where
  "make_key tenant_id event_id = tenant_id @ '':'' @ event_id"

text \<open>The two failures that the durable store may have during a call; both are logged and swallowed.\<close>

record db_io =
  db_read :: "exn option"
  db_write :: "exn option"

definition fresh :: "rat \<Rightarrow> tracker \<Rightarrow> idem_entry \<Rightarrow> bool" where
  "fresh now t e \<longleftrightarrow> now - ie_timestamp e < tr_ttl t"

text \<open>Step 1: the cache in memory. \<open>None\<close> means that the search goes on.\<close>

definition check_cache :: "rat \<Rightarrow> string \<Rightarrow> tracker \<Rightarrow> tracker \<times> bool option" where
  "check_cache now key t =
     (case map_of (tr_cache t) key of
        None \<Rightarrow> (t, None)
      | Some e \<Rightarrow>
          if fresh now t e then (t\<lparr>tr_cache := move_to_end key (tr_cache t)\<rparr>, Some False)
          else (t\<lparr>tr_cache := dict_del key (tr_cache t)\<rparr>, None))"

text \<open>Step 2: the durable store. A duplicate found there is copied into the cache.\<close>

definition check_db :: "rat \<Rightarrow> db_io \<Rightarrow> string \<Rightarrow> tracker \<Rightarrow> tracker \<times> bool option" where
  "check_db now io key t =
     (case tr_db t of
        None \<Rightarrow> (t, None)
      | Some db \<Rightarrow>
          if db_read io \<noteq> None then (t, None)
          else case map_of db key of
            None \<Rightarrow> (t, None)
          | Some e \<Rightarrow>
              if fresh now t e then (t\<lparr>tr_cache := dict_set key e (tr_cache t)\<rparr>, Some False)
              else (t\<lparr>tr_db := Some (dict_del key db)\<rparr>, None))"

text \<open>Step 3: eviction and insertion; \<open>popitem\<close> of an empty dictionary raises.\<close>

definition remember_key :: "string \<Rightarrow> idem_entry \<Rightarrow> tracker \<Rightarrow> tracker result" where
  "remember_key key e t =
     (if tr_capacity t \<le> length (tr_cache t) then
        (if tr_cache t = [] then Inl (KeyError ''dictionary is empty'')
         else Inr (t\<lparr>tr_cache := dict_set key e (popitem_first (tr_cache t))\<rparr>))
      else Inr (t\<lparr>tr_cache := dict_set key e (tr_cache t)\<rparr>))"

definition write_db :: "db_io \<Rightarrow> string \<Rightarrow> idem_entry \<Rightarrow> tracker \<Rightarrow> tracker" where
  "write_db io key e t =
     (case tr_db t of
        None \<Rightarrow> t
      | Some db \<Rightarrow> if db_write io \<noteq> None then t else t\<lparr>tr_db := Some (dict_set key e db)\<rparr>)"

definition check_and_set :: "rat \<Rightarrow> db_io \<Rightarrow> string \<Rightarrow> string \<Rightarrow> pydict option \<Rightarrow> tracker \<Rightarrow> tracker \<times> bool result" where
  "check_and_set now io tenant_id event_id result t =
     (let key = make_key tenant_id event_id in
      case check_cache now key t of
        (t1, Some b) \<Rightarrow> (t1, Inr b)
      | (t1, None) \<Rightarrow>
          (case check_db now io key t1 of
             (t2, Some b) \<Rightarrow> (t2, Inr b)
           | (t2, None) \<Rightarrow>
               let e = \<lparr> ie_timestamp = now, ie_result = result \<rparr> in
               (case remember_key key e t2 of
                  Inl x \<Rightarrow> (t2, Inl x)
                | Inr t3 \<Rightarrow> (write_db io key e t3, Inr True))))"

definition get_cached_result :: "rat \<Rightarrow> db_io \<Rightarrow> string \<Rightarrow> string \<Rightarrow> tracker \<Rightarrow> pydict option" where
  "get_cached_result now io tenant_id event_id t =
     (let key = make_key tenant_id event_id;
          from_db = (case tr_db t of
                       None \<Rightarrow> None
                     | Some db \<Rightarrow>
                         if db_read io \<noteq> None then None
                         else case map_of db key of
                           None \<Rightarrow> None
                         | Some e \<Rightarrow> if fresh now t e then ie_result e else None)
      in case map_of (tr_cache t) key of
           Some e \<Rightarrow> if fresh now t e then ie_result e else from_db
         | None \<Rightarrow> from_db)"

definition tracker_clear :: "db_io \<Rightarrow> tracker \<Rightarrow> tracker" where
  "tracker_clear io t =
     t\<lparr>tr_cache := [], tr_db := (case tr_db t of None \<Rightarrow> None | Some db \<Rightarrow> if db_write io \<noteq> None then Some db else Some [])\<rparr>"

definition tracker_size :: "tracker \<Rightarrow> nat" where
  "tracker_size t = length (tr_cache t)"

subsection \<open>Retries\<close>

record retry_policy =
  rp_max_retries :: int
  rp_base_delay_ms :: rat
  rp_max_delay_ms :: rat
  rp_backoff_multiplier :: rat
  rp_jitter :: bool
  rp_retryable :: "exn \<Rightarrow> bool"

text \<open>\<open>random\<close> is the value of \<open>random.random()\<close>, at least zero and below one.\<close>

definition calculate_delay :: "retry_policy \<Rightarrow> rat \<Rightarrow> nat \<Rightarrow> rat" where
  "calculate_delay p random attempt =
     (let delay = min (rp_base_delay_ms p * rp_backoff_multiplier p ^ attempt) (rp_max_delay_ms p) in
      (if rp_jitter p then delay * (1 / 2 + random) else delay) / 1000)"

text \<open>The loop from \<open>attempt\<close> on with \<open>left\<close> rounds of the range to go. The function that is called takes and returns
  the state of the world; \<open>sleeps\<close> collects the delays. Where the range is empty, \<open>raise None\<close> is a \<open>TypeError\<close>.\<close>

fun retry_loop :: "retry_policy \<Rightarrow> (nat \<Rightarrow> rat) \<Rightarrow> ('s \<Rightarrow> 's \<times> 'a result) \<Rightarrow> nat \<Rightarrow> nat \<Rightarrow> exn \<Rightarrow> 's \<Rightarrow> rat list \<Rightarrow>
    's \<times> rat list \<times> 'a result" where
  "retry_loop p rnd func attempt 0 last_exception s sleeps = (s, sleeps, Inl last_exception)"
| "retry_loop p rnd func attempt (Suc left) last_exception s sleeps =
     (case func s of
        (s', Inr x) \<Rightarrow> (s', sleeps, Inr x)
      | (s', Inl e) \<Rightarrow>
          if \<not> rp_retryable p e then (s', sleeps, Inl e)
          else if int attempt \<ge> rp_max_retries p then (s', sleeps, Inl e)
          else retry_loop p rnd func (attempt + 1) left e s' (sleeps @ [calculate_delay p (rnd attempt) attempt]))"

definition execute_retry :: "retry_policy \<Rightarrow> (nat \<Rightarrow> rat) \<Rightarrow> ('s \<Rightarrow> 's \<times> 'a result) \<Rightarrow> 's \<Rightarrow> 's \<times> rat list \<times> 'a result" where
  "execute_retry p rnd func s =
     retry_loop p rnd func 0 (nat (rp_max_retries p + 1)) (TypeError ''exceptions must derive from BaseException'') s []"

subsection \<open>The tracker in memory is a bounded store\<close>

definition tracker_ok :: "tracker \<Rightarrow> bool" where
  "tracker_ok t \<longleftrightarrow> dict_wf (tr_cache t) \<and> length (tr_cache t) \<le> tr_capacity t \<and> 0 < tr_capacity t"

definition tracker_put :: "string \<Rightarrow> idem_entry \<Rightarrow> tracker \<Rightarrow> tracker" where
  "tracker_put key e t = (case remember_key key e t of Inr t' \<Rightarrow> t' | Inl _ \<Rightarrow> t)"

lemma remember_total: "tracker_ok t \<Longrightarrow> remember_key key e t = Inr (tracker_put key e t)"
  by (auto simp: tracker_put_def remember_key_def tracker_ok_def)

lemma remember_cases:
  assumes "tracker_ok t"
  shows "\<exists>d. tracker_put key e t = t\<lparr>tr_cache := dict_set key e d\<rparr> \<and> dict_wf d \<and> length d < tr_capacity t \<and>
    (\<forall>k. map_of d k = map_of (tr_cache t) k \<or> map_of d k = None)"
proof (cases "tr_capacity t \<le> length (tr_cache t)")
  case True
  then have ne: "tr_cache t \<noteq> []" and wf: "dict_wf (tr_cache t)" and le: "length (tr_cache t) \<le> tr_capacity t"
    using assms by (auto simp: tracker_ok_def)
  have "length (popitem_first (tr_cache t)) < tr_capacity t" using ne le by (cases "tr_cache t") (auto simp: popitem_first_def)
  then show ?thesis using True ne wf
    by (intro exI [of _ "popitem_first (tr_cache t)"]) (auto simp: tracker_put_def remember_key_def map_of_popitem_first)
next
  case False
  then show ?thesis using assms
    by (intro exI [of _ "tr_cache t"]) (auto simp: tracker_put_def remember_key_def tracker_ok_def)
qed

interpretation idem: bounded_map tracker_ok "\<lambda>t. map_of (tr_cache t)" tracker_put tracker_size tr_capacity
proof unfold_locales
  fix t key e
  show "tracker_ok (tracker_put key e t)" if "tracker_ok t"
    using remember_cases [OF that, of key e] that by (auto simp: tracker_ok_def length_dict_set)
  show "map_of (tr_cache (tracker_put key e t)) key = Some e" if "tracker_ok t"
    using remember_cases [OF that, of key e] by auto
  show "map_of (tr_cache (tracker_put key e t)) k' = map_of (tr_cache t) k' \<or> map_of (tr_cache (tracker_put key e t)) k' = None"
    if "tracker_ok t" "k' \<noteq> key" for k'
    using remember_cases [OF that(1), of key e] that(2) by (auto dest!: spec [of _ k'])
  show "tracker_size (tracker_put key e t) \<le> tr_capacity t" if "tracker_ok t"
    using remember_cases [OF that, of key e] by (auto simp: tracker_size_def length_dict_set)
  show "tr_capacity (tracker_put key e t) = tr_capacity t"
    by (auto simp: tracker_put_def remember_key_def split: if_splits)
qed

subsection \<open>A durable tracker implements an unbounded memory\<close>

text \<open>The specification: for each key, when it was last admitted. A key is admitted where it was never seen or the
  time to live is over.\<close>

definition admits :: "rat \<Rightarrow> rat \<Rightarrow> (string \<Rightarrow> rat option) \<Rightarrow> string \<Rightarrow> bool" where
  "admits ttl now seen key = (case seen key of None \<Rightarrow> True | Some ts \<Rightarrow> \<not> now - ts < ttl)"

definition last_seen :: "tracker \<Rightarrow> string \<Rightarrow> rat option" where
  "last_seen t key = map_option ie_timestamp (map_of (the (tr_db t)) key)"

definition durable_ok :: "tracker \<Rightarrow> bool" where
  "durable_ok t \<longleftrightarrow> 0 < tr_capacity t \<and> dict_wf (tr_cache t) \<and>
     (\<exists>db. tr_db t = Some db \<and> (\<forall>k e. map_of (tr_cache t) k = Some e \<longrightarrow> map_of db k = Some e))"

definition good_db :: db_io where
  "good_db = \<lparr> db_read = None, db_write = None \<rparr>"

lemma remember_durable:
  assumes "dict_wf (tr_cache t)" and "0 < tr_capacity t"
  shows "\<exists>d. remember_key key e t = Inr (t\<lparr>tr_cache := dict_set key e d\<rparr>) \<and> dict_wf d \<and>
    (\<forall>k x. map_of d k = Some x \<longrightarrow> map_of (tr_cache t) k = Some x)"
proof (cases "tr_capacity t \<le> length (tr_cache t)")
  case True
  then have "tr_cache t \<noteq> []" using assms(2) by auto
  then show ?thesis using True assms(1)
    by (intro exI [of _ "popitem_first (tr_cache t)"]) (auto simp: remember_key_def map_of_popitem_first split: if_splits)
next
  case False
  then show ?thesis using assms(1) by (intro exI [of _ "tr_cache t"]) (auto simp: remember_key_def)
qed

lemma check_and_set_durable:
  assumes "durable_ok t"
  shows "\<exists>t'. check_and_set now good_db tenant event result t = (t', Inr (admits (tr_ttl t) now (last_seen t) (make_key tenant event))) \<and>
    durable_ok t' \<and> tr_ttl t' = tr_ttl t \<and>
    last_seen t' = (if admits (tr_ttl t) now (last_seen t) (make_key tenant event)
                    then (last_seen t)(make_key tenant event \<mapsto> now) else last_seen t)"
proof -
  let ?k = "make_key tenant event" and ?e = "\<lparr> ie_timestamp = now, ie_result = result \<rparr>"
  obtain db where db: "tr_db t = Some db" "\<And>k e. map_of (tr_cache t) k = Some e \<Longrightarrow> map_of db k = Some e"
    and wf: "dict_wf (tr_cache t)" and cap: "0 < tr_capacity t" using assms by (auto simp: durable_ok_def)
  show ?thesis
  proof (cases "admits (tr_ttl t) now (last_seen t) ?k")
    case False
    then obtain e where e: "map_of db ?k = Some e" "fresh now t e"
      using db(1) by (auto simp: admits_def last_seen_def fresh_def split: option.splits)
    show ?thesis
    proof (cases "map_of (tr_cache t) ?k")
      case None
      then show ?thesis using False e db wf cap
        by (auto simp: check_and_set_def check_cache_def check_db_def Let_def good_db_def durable_ok_def last_seen_def)
    next
      case (Some e')
      then have "e' = e" using db(2) e(1) by fastforce
      then show ?thesis using False e db wf cap Some
        by (auto simp: check_and_set_def check_cache_def Let_def durable_ok_def last_seen_def)
    qed
  next
    case True
    then have old: "\<not> fresh now t e" if "map_of db ?k = Some e" for e
      using db(1) that by (auto simp: admits_def last_seen_def fresh_def)
    define c1 where "c1 = (if map_of (tr_cache t) ?k = None then tr_cache t else dict_del ?k (tr_cache t))"
    define db1 where "db1 = (if map_of db ?k = None then db else dict_del ?k db)"
    let ?t2 = "t\<lparr>tr_cache := c1, tr_db := Some db1\<rparr>"
    have "check_cache now ?k t = (t\<lparr>tr_cache := c1\<rparr>, None)"
      using old db(2) by (auto simp: check_cache_def c1_def split: option.splits)
    moreover have "check_db now good_db ?k (t\<lparr>tr_cache := c1\<rparr>) = (?t2, None)"
      using old db(1) by (auto simp: check_db_def good_db_def db1_def fresh_def split: option.splits)
    moreover have "dict_wf c1" using wf by (simp add: c1_def)
    moreover obtain d where d: "remember_key ?k ?e ?t2 = Inr (?t2\<lparr>tr_cache := dict_set ?k ?e d\<rparr>)" "dict_wf d"
        "\<And>k x. map_of d k = Some x \<Longrightarrow> map_of c1 k = Some x"
      using remember_durable [of ?t2 ?k ?e] \<open>dict_wf c1\<close> cap by auto
    moreover have "map_of c1 k = Some x \<Longrightarrow> map_of db k = Some x" for k x
      using db(2) by (auto simp: c1_def split: if_splits)
    ultimately show ?thesis using True db(1) cap
      by (auto simp: check_and_set_def Let_def write_db_def good_db_def durable_ok_def last_seen_def db1_def fun_eq_iff)
  qed
qed

fun admit_all :: "(rat \<times> string \<times> string) list \<Rightarrow> tracker \<Rightarrow> bool result list" where
  "admit_all [] t = []"
| "admit_all ((now, tenant, event) # cs) t =
     (case check_and_set now good_db tenant event None t of (t', b) \<Rightarrow> b # admit_all cs t')"

lemma admit_after:
  assumes "durable_ok t" "sorted (map fst cs)" "j < length cs" "cs ! j = (tj, tenant, event)" "admit_all cs t ! j = Inr True"
    "last_seen t (make_key tenant event) = Some ts" "\<forall>c \<in> set cs. ts \<le> fst c"
  shows "tr_ttl t \<le> tj - ts"
  using assms
proof (induction cs arbitrary: t j ts)
  case (Cons c cs)
  obtain now tn ev where c: "c = (now, tn, ev)" by (cases c)
  obtain t' b where s: "check_and_set now good_db tn ev None t = (t', Inr b)" "durable_ok t'" "tr_ttl t' = tr_ttl t"
      "b = admits (tr_ttl t) now (last_seen t) (make_key tn ev)"
      "last_seen t' = (if b then (last_seen t)(make_key tn ev \<mapsto> now) else last_seen t)"
    using check_and_set_durable [OF Cons.prems(1), of now tn ev None] by blast
  show ?case
  proof (cases j)
    case 0
    then show ?thesis using Cons.prems c s by (auto simp: admits_def)
  next
    case (Suc i)
    have "\<exists>ts'. last_seen t' (make_key tenant event) = Some ts' \<and> ts \<le> ts' \<and> (\<forall>c \<in> set cs. ts' \<le> fst c)"
      using Cons.prems(2,6,7) c s(5) by auto
    then obtain ts' where ts': "last_seen t' (make_key tenant event) = Some ts'" "ts \<le> ts'" "\<forall>c \<in> set cs. ts' \<le> fst c" by blast
    have "tr_ttl t' \<le> tj - ts'"
      using Cons.IH [OF s(2) _ _ _ _ ts'(1,3), of i] Cons.prems c s(1) Suc by simp
    then show ?thesis using s(3) ts'(2) by simp
  qed
qed simp

lemma admit_window:
  assumes "durable_ok t" "sorted (map fst cs)" "i < j" "j < length cs" "cs ! i = (ti, tenant, event)" "cs ! j = (tj, tenant, event)"
    "admit_all cs t ! i = Inr True" "admit_all cs t ! j = Inr True"
  shows "tr_ttl t \<le> tj - ti"
  using assms
proof (induction cs arbitrary: t i j)
  case (Cons c cs)
  obtain now tn ev where c: "c = (now, tn, ev)" by (cases c)
  obtain t' b where s: "check_and_set now good_db tn ev None t = (t', Inr b)" "durable_ok t'" "tr_ttl t' = tr_ttl t"
      "last_seen t' = (if b then (last_seen t)(make_key tn ev \<mapsto> now) else last_seen t)"
    using check_and_set_durable [OF Cons.prems(1), of now tn ev None] by blast
  obtain j' where j: "j = Suc j'" using Cons.prems(3) by (cases j) auto
  show ?case
  proof (cases i)
    case 0
    then have "last_seen t' (make_key tenant event) = Some ti" using Cons.prems c s by auto
    from admit_after [OF s(2) _ _ _ _ this, of cs j' tj] show ?thesis
      using Cons.prems c s(1,3) j 0 by auto
  next
    case (Suc i')
    then show ?thesis using Cons.IH [OF s(2), of i' j'] Cons.prems c s(1,3) j by simp
  qed
qed simp

subsection \<open>Outcome of retries\<close>

text \<open>A function whose \<open>n\<close>-th call has the outcome \<open>out n\<close>; the state counts the calls.\<close>

definition scripted :: "(nat \<Rightarrow> 'a result) \<Rightarrow> nat \<Rightarrow> nat \<times> 'a result" where
  "scripted out n = (n + 1, out n)"

definition final :: "retry_policy \<Rightarrow> (nat \<Rightarrow> 'a result) \<Rightarrow> nat \<Rightarrow> bool" where
  "final p out n \<longleftrightarrow> (case out n of Inr _ \<Rightarrow> True | Inl e \<Rightarrow> \<not> rp_retryable p e)"

text \<open>The call with number \<open>k\<close> ends the loop that starts at \<open>attempt\<close>, after the delays \<open>ds\<close>.\<close>

definition ends_at :: "retry_policy \<Rightarrow> (nat \<Rightarrow> rat) \<Rightarrow> (nat \<Rightarrow> 'a result) \<Rightarrow> nat \<Rightarrow> nat \<Rightarrow> nat \<Rightarrow> rat list \<Rightarrow> bool" where
  "ends_at p rnd out m attempt k ds \<longleftrightarrow> k \<le> m \<and> attempt \<le> k \<and> (\<forall>j. attempt \<le> j \<and> j < k \<longrightarrow> \<not> final p out j) \<and>
     (final p out k \<or> k = m) \<and> ds = map (\<lambda>n. calculate_delay p (rnd n) n) [attempt..<k]"

lemma ends_at_step:
  assumes "ends_at p rnd out m (attempt + 1) k ds" and "\<not> final p out attempt"
  shows "ends_at p rnd out m attempt k (calculate_delay p (rnd attempt) attempt # ds)"
proof -
  have "\<not> final p out j" if "attempt \<le> j" "j < k" for j
    using that assms by (cases "j = attempt") (auto simp: ends_at_def)
  then show ?thesis using assms(1) by (auto simp: ends_at_def upt_conv_Cons)
qed

lemma retry_loop_script:
  assumes "rp_max_retries p = int m" and "attempt + left = m + 1" and "0 < left"
  shows "\<exists>k ds. ends_at p rnd out m attempt k ds \<and>
    retry_loop p rnd (scripted out) attempt left exc attempt sleeps = (k + 1, sleeps @ ds, out k)"
  using assms(2,3)
proof (induction left arbitrary: attempt exc sleeps)
  case (Suc left)
  show ?case
  proof (cases "final p out attempt \<or> attempt = m")
    case True
    then have "ends_at p rnd out m attempt attempt []" using Suc.prems by (auto simp: ends_at_def)
    moreover have "retry_loop p rnd (scripted out) attempt (Suc left) exc attempt sleeps = (attempt + 1, sleeps, out attempt)"
      using True assms(1) by (cases "out attempt") (auto simp: scripted_def final_def)
    ultimately show ?thesis by (intro exI [of _ attempt] exI [of _ "[]"]) simp
  next
    case False
    let ?d = "calculate_delay p (rnd attempt) attempt"
    obtain e where e: "out attempt = Inl e" "rp_retryable p e" using False by (cases "out attempt") (auto simp: final_def)
    have lt: "attempt < m" and l: "attempt + 1 + left = m + 1" "0 < left" using Suc.prems False by auto
    from Suc.IH [OF l, of e "sleeps @ [?d]"] obtain k ds where k: "ends_at p rnd out m (attempt + 1) k ds"
      and r: "retry_loop p rnd (scripted out) (attempt + 1) left e (attempt + 1) (sleeps @ [?d]) = (k + 1, (sleeps @ [?d]) @ ds, out k)"
      by blast
    have "retry_loop p rnd (scripted out) attempt (Suc left) exc attempt sleeps = (k + 1, sleeps @ ?d # ds, out k)"
      using r e lt assms(1) by (simp add: scripted_def)
    then show ?thesis using ends_at_step [OF k] False by blast
  qed
qed simp

lemma delay_bound:
  assumes "0 \<le> rp_base_delay_ms p" "0 \<le> rp_backoff_multiplier p" "0 \<le> rp_max_delay_ms p" "0 \<le> r" "r < 1"
  shows "0 \<le> calculate_delay p r n \<and> calculate_delay p r n \<le> rp_max_delay_ms p * (3 / 2) / 1000"
proof -
  let ?d = "min (rp_base_delay_ms p * rp_backoff_multiplier p ^ n) (rp_max_delay_ms p)"
  have d: "0 \<le> ?d" "?d \<le> rp_max_delay_ms p" using assms by simp_all
  have "?d * (1 / 2 + r) \<le> rp_max_delay_ms p * (3 / 2)" using d assms by (intro mult_mono) auto
  moreover have "?d \<le> rp_max_delay_ms p * (3 / 2)" using d assms(3) by linarith
  ultimately show ?thesis using d assms(4) by (auto simp: calculate_delay_def Let_def)
qed

subsection \<open>Properties\<close>

text \<open>(C11) Exactly-once admission within the time to live. With a durable store that works, however small the cache
  is and whatever is evicted: two calls for the same tenant and event that both report a new event are at
  least the time to live apart, whatever calls come between; and no call raises.\<close>

theorem durable_window:
  assumes "0 < capacity" and "sorted (map fst cs)" and "i < j" and "j < length cs"
    and "cs ! i = (ti, tenant, event)" and "cs ! j = (tj, tenant, event)"
    and "admit_all cs (new_tracker capacity ttl True) ! i = Inr True"
    and "admit_all cs (new_tracker capacity ttl True) ! j = Inr True"
  shows "ttl \<le> tj - ti"
proof -
  have "durable_ok (new_tracker capacity ttl True)" using assms(1) by (simp add: durable_ok_def new_tracker_def)
  from admit_window [OF this assms(2-8)] show ?thesis by (simp add: new_tracker_def)
qed

definition example_calls :: "(rat \<times> string \<times> string) list" where
  "example_calls = [(0, ''acme'', ''e1''), (1, ''acme'', ''e2''), (3601, ''acme'', ''e1'')]"

lemma example_calls_run: "admit_all example_calls (new_tracker 1 3600 True) = [Inr True, Inr True, Inr True]"
  by (simp add: example_calls_def new_tracker_def check_and_set_def check_cache_def check_db_def remember_key_def write_db_def
      good_db_def make_key_def fresh_def popitem_first_def Let_def)

theorem durable_window_witness:
  "admit_all example_calls (new_tracker 1 3600 True) ! 0 = Inr True \<and>
   admit_all example_calls (new_tracker 1 3600 True) ! 2 = Inr True \<and> (3600 :: rat) \<le> 3601 - 0"
proof -
  have "sorted (map fst example_calls)" "(2 :: nat) < length example_calls" "example_calls ! 0 = (0, ''acme'', ''e1'')"
    "example_calls ! 2 = (3601, ''acme'', ''e1'')" by (simp_all add: example_calls_def)
  from durable_window [OF _ this(1) _ this(2-4), of 1 3600] show ?thesis unfolding example_calls_run by simp
qed

text \<open>The durable tracker refines a map from keys to the time of their last admission: each call answers and updates
  as the specification says.\<close>

theorem check_and_set_refines:
  assumes "durable_ok t"
  shows "\<exists>t'. check_and_set now good_db tenant event result t = (t', Inr (admits (tr_ttl t) now (last_seen t) (make_key tenant event))) \<and>
    durable_ok t' \<and>
    last_seen t' = (if admits (tr_ttl t) now (last_seen t) (make_key tenant event)
                    then (last_seen t)(make_key tenant event \<mapsto> now) else last_seen t)"
  using check_and_set_durable [OF assms] by blast

theorem check_and_set_refines_witness:
  "\<exists>t'. check_and_set 5 good_db ''acme'' ''e1'' None (new_tracker 1 3600 True) = (t', Inr True)"
  using check_and_set_refines [of "new_tracker 1 3600 True" 5 "''acme''" "''e1''" None]
  by (auto simp: durable_ok_def new_tracker_def admits_def last_seen_def)

text \<open>The key of a pair is not unique: an event of one tenant can be suppressed as the duplicate of another
  tenant's event, and duplicates that the durable store reports fill the cache beyond its capacity.\<close>

theorem tracker_flaws:
  "(\<exists>t. check_and_set 0 good_db ''a'' ''b:c'' None (new_tracker 10 3600 False) = (t, Inr True) \<and>
      snd (check_and_set 1 good_db ''a:b'' ''c'' None t) = Inr False) \<and>
   (\<exists>t. durable_ok t \<and> tr_capacity t = 1 \<and> tracker_size t = 0 \<and>
      tracker_size (fst (check_and_set 1 good_db ''a'' ''y'' None (fst (check_and_set 1 good_db ''a'' ''x'' None t)))) = 2)"
proof
  show "\<exists>t. check_and_set 0 good_db ''a'' ''b:c'' None (new_tracker 10 3600 False) = (t, Inr True) \<and>
      snd (check_and_set 1 good_db ''a:b'' ''c'' None t) = Inr False"
    by (simp add: new_tracker_def check_and_set_def check_cache_def check_db_def remember_key_def write_db_def make_key_def
        fresh_def Let_def)
  let ?e = "\<lparr> ie_timestamp = 0, ie_result = None \<rparr>"
  show "\<exists>t. durable_ok t \<and> tr_capacity t = 1 \<and> tracker_size t = 0 \<and>
      tracker_size (fst (check_and_set 1 good_db ''a'' ''y'' None (fst (check_and_set 1 good_db ''a'' ''x'' None t)))) = 2"
    by (rule exI [of _ "\<lparr> tr_capacity = 1, tr_ttl = 3600, tr_cache = [], tr_db = Some [(''a:x'', ?e), (''a:y'', ?e)] \<rparr>"])
       (simp add: durable_ok_def tracker_size_def check_and_set_def check_cache_def check_db_def good_db_def make_key_def fresh_def Let_def)
qed

text \<open>A retried operation has the first outcome that is final (a success, or an error that is not retryable), or the
  last one when \<open>max_retries + 1\<close> calls have failed; it is called no more often, and sleeps between two
  calls for at most one and a half times the maximal delay.\<close>

theorem retry_outcome:
  assumes "rp_max_retries p = int m" and "0 \<le> rp_base_delay_ms p" and "0 \<le> rp_backoff_multiplier p" and "0 \<le> rp_max_delay_ms p"
    and "\<And>n. 0 \<le> rnd n \<and> rnd n < 1"
  shows "\<exists>k ds. k \<le> m \<and> (\<forall>j < k. \<not> final p out j) \<and> (final p out k \<or> k = m) \<and> length ds = k \<and>
    (\<forall>d \<in> set ds. 0 \<le> d \<and> d \<le> rp_max_delay_ms p * (3 / 2) / 1000) \<and>
    execute_retry p rnd (scripted out) 0 = (k + 1, ds, out k)"
proof -
  have n: "nat (rp_max_retries p + 1) = m + 1" using assms(1) by simp
  obtain k ds where k: "ends_at p rnd out m 0 k ds"
    and r: "execute_retry p rnd (scripted out) 0 = (k + 1, ds, out k)"
    using retry_loop_script [of p m 0 "m + 1" rnd out _ "[]"] assms(1) unfolding execute_retry_def n by auto
  moreover have "\<forall>d \<in> set ds. 0 \<le> d \<and> d \<le> rp_max_delay_ms p * (3 / 2) / 1000"
    using k delay_bound [OF assms(2-4)] assms(5) by (auto simp: ends_at_def)
  ultimately show ?thesis by (intro exI [of _ k] exI [of _ ds]) (simp add: ends_at_def)
qed

definition default_policy :: retry_policy where
  "default_policy = \<lparr> rp_max_retries = 3, rp_base_delay_ms = 100, rp_max_delay_ms = 2000, rp_backoff_multiplier = 2, rp_jitter = True,
     rp_retryable = (\<lambda>_. True) \<rparr>"

theorem retry_outcome_witness:
  "\<exists>k ds. k \<le> 3 \<and> execute_retry default_policy (\<lambda>_. 0) (scripted (\<lambda>n. if n = 1 then Inr n else Inl IndexError)) 0 =
    (k + 1, ds, if k = 1 then Inr k else Inl IndexError)"
  using retry_outcome [of default_policy 3 "\<lambda>_. 0" "\<lambda>n. if n = 1 then Inr n else Inl IndexError"]
  by (auto simp: default_policy_def)

end
