(* ===== verification/Int_Adapters.thy ===== *)
theory Int_Adapters
  imports Py_Value
begin

section \<open>Integration: contracts and adapters between the modules\<close>

text \<open>
  \<open>integration/contracts\<close> and the four adapters of \<open>integration/adapters\<close> (\<open>m1_raw_envelope_adapter.py\<close>,
  \<open>m2_m3_adapter.py\<close>, \<open>m3_m4_adapter.py\<close>, \<open>m4_m5_adapter.py\<close>). An adapter takes the dictionary that \<open>json.loads\<close>
  or \<open>model_dump\<close> makes of its input. The clock is an argument. A \<open>.get\<close> on a value that is no
  dictionary raises, as in the source. The extensions of an M3 event are a dictionary or nothing.
\<close>

subsection \<open>Contracts\<close>

record integration_context =
  ic_tenant_id :: string
  ic_source_id :: string
  ic_principal :: "string option"
  ic_correlation_id :: string
  ic_ingested_at :: "string option"

definition to_headers :: "integration_context \<Rightarrow> (string \<times> string) list" where
  "to_headers c =
     [(''X-Tenant-ID'', ic_tenant_id c), (''X-Source-ID'', ic_source_id c), (''X-Correlation-ID'', ic_correlation_id c)] @
     (case ic_principal c of Some (x # xs) \<Rightarrow> [(''X-Authenticated-Principal'', x # xs)] | _ \<Rightarrow> [])"

text \<open>\<open>{k.lower(): v for k, v in headers.items()}\<close>\<close>

definition normalize_headers :: "(string \<times> string) list \<Rightarrow> (string \<times> string) list" where
  "normalize_headers hs = fold (\<lambda>(k, v) acc. dict_set (lower k) v acc) hs []"

definition from_headers :: "string \<Rightarrow> (string \<times> string) list \<Rightarrow> string \<Rightarrow> integration_context result" where
  "from_headers uuid headers default_source =
     (let normalized = normalize_headers headers in
      case map_of normalized ''x-tenant-id'' of
        Some (c # cs) \<Rightarrow>
          Inr \<lparr> ic_tenant_id = c # cs,
                ic_source_id = (case map_of normalized ''x-source-id'' of Some s \<Rightarrow> s | None \<Rightarrow> default_source),
                ic_principal = map_of normalized ''x-authenticated-principal'',
                ic_correlation_id = (case map_of normalized ''x-correlation-id'' of Some (x # xs) \<Rightarrow> x # xs | _ \<Rightarrow> uuid),
                ic_ingested_at = None \<rparr>
      | _ \<Rightarrow> Inl (ValueError ''Missing required X-Tenant-ID header''))"

definition to_m4_tenant_block :: "integration_context \<Rightarrow> pydict" where
  "to_m4_tenant_block c = [(''tenant_id'', PStr (ic_tenant_id c))]"

definition to_m5_tenant_block :: "integration_context \<Rightarrow> pydict" where
  "to_m5_tenant_block c = [(''id'', PStr (ic_tenant_id c)), (''tenant_id'', PStr (ic_tenant_id c))]"

record event_identity =
  ei_raw_event_id :: string
  ei_canonical_event_id :: "string option"
  ei_correlation_id :: string
  ei_tenant_id :: string
  ei_source_id :: string

definition validate_distinctness :: "event_identity \<Rightarrow> bool" where
  "validate_distinctness i = (case ei_canonical_event_id i of Some (c # cs) \<Rightarrow> c # cs \<noteq> ei_raw_event_id i | _ \<Rightarrow> True)"

record hop_record =
  hop_module :: string
  hop_action :: string
  hop_status :: string

record trace_context =
  tx_correlation_id :: string
  tx_raw_event_id :: pyval
  tx_event_id :: pyval
  tx_tenant_id :: "string option"
  tx_source_id :: "string option"
  tx_hops :: "hop_record list"

definition record_hop :: "string \<Rightarrow> string \<Rightarrow> string \<Rightarrow> trace_context \<Rightarrow> trace_context" where
  "record_hop md action status t =
     t\<lparr>tx_hops := tx_hops t @ [\<lparr> hop_module = md, hop_action = action, hop_status = status \<rparr>]\<rparr>"

subsection \<open>Values\<close>

text \<open>\<open>v.get(k)\<close> where \<open>v\<close> may be no dictionary.\<close>

definition as_dict :: "pyval \<Rightarrow> pydict result" where
  "as_dict v = (case v of PDict d \<Rightarrow> Inr d | _ \<Rightarrow> Inl (AttributeError ''object has no attribute get''))"

text \<open>\<open>d.get(k) or {}\<close>, as a dictionary.\<close>

definition block :: "pydict \<Rightarrow> string \<Rightarrow> pydict result" where
  "block d k = as_dict (por (pget d k) (PDict []))"

fun pors :: "pyval list \<Rightarrow> pyval" where
  "pors [] = PNone"
| "pors [v] = v"
| "pors (v # vs) = por v (pors vs)"

subsection \<open>M1 to M2\<close>

definition m1_payload :: "pydict \<Rightarrow> pyval \<times> pyval" where
  "m1_payload data =
     (case pget data ''payload'' of
        PDict p \<Rightarrow> (pget_default p ''data'' (PStr []), pget_default p ''encoding'' (PStr ''utf-8''))
      | PStr s \<Rightarrow> (PStr s, pget_default data ''encoding'' (PStr ''utf-8''))
      | v \<Rightarrow> (PStr (py_str (por v (PStr []))), pget_default data ''encoding'' (PStr ''utf-8'')))"

definition m1_transport :: "pydict \<Rightarrow> pyval" where
  "m1_transport data =
     (case pget data ''transport'' of
        PDict t \<Rightarrow> pors [pget t ''protocol'', pget t ''type'', PStr ''syslog'']
      | PStr s \<Rightarrow> PStr s
      | _ \<Rightarrow> pget_default data ''protocol'' (PStr ''syslog''))"

definition m1_hash :: "pydict \<Rightarrow> pyval" where
  "m1_hash data =
     (case pget data ''integrity'' of
        PDict i \<Rightarrow> por (pget i ''hash'') (pget i ''value'')
      | PStr s \<Rightarrow> PStr s
      | _ \<Rightarrow> pget data ''sha256'')"

definition m1_reference :: "pydict \<Rightarrow> pyval" where
  "m1_reference data =
     (case pget data ''raw_storage'' of
        PDict s \<Rightarrow> pors [pget s ''object_key'', pget s ''uri'', pget s ''s3_uri'']
      | PStr s \<Rightarrow> PStr s
      | _ \<Rightarrow> pget data ''raw_reference'')"

definition ctx_tenant :: "integration_context option \<Rightarrow> pyval" where
  "ctx_tenant c = (case c of Some x \<Rightarrow> PStr (ic_tenant_id x) | None \<Rightarrow> PNone)"

definition ctx_source :: "integration_context option \<Rightarrow> pyval" where
  "ctx_source c = (case c of Some x \<Rightarrow> PStr (ic_source_id x) | None \<Rightarrow> PNone)"

definition m1_adapt :: "pydict \<Rightarrow> integration_context option \<Rightarrow> pydict result" where
  "m1_adapt data ctx =
     (let (payload, encoding) = m1_payload data;
          tenant_id = pors [ctx_tenant ctx, pget data ''tenant_id'', PStr ''tenant-default''];
          source_id = por (ctx_source ctx) (pget data ''source_id'');
          raw_event_id = pget data ''raw_event_id'';
          received_at = por (pget data ''received_at'') (pget data ''timestamp'');
          metadata = (case pget_default data ''metadata'' (PDict []) of PDict m \<Rightarrow> PDict m | _ \<Rightarrow> PDict []);
          source_ip = (if py_truthy (pget data ''source_ip'') then pget data ''source_ip''
                       else case pget data ''transport'' of
                              PDict t \<Rightarrow> por (pget t ''client_ip'') (pget t ''remote_ip'')
                            | _ \<Rightarrow> pget data ''source_ip'')
      in if \<not> py_truthy raw_event_id then Inl (ValueError (''M1 envelope missing mandatory '' @ quoted ''raw_event_id''))
         else Inr ([(''schema_version'', pget_default data ''schema_version'' (PStr ''1.0.0'')), (''raw_event_id'', raw_event_id),
                    (''tenant_id'', tenant_id), (''source_id'', source_id), (''transport'', m1_transport data),
                    (''payload'', payload), (''encoding'', encoding), (''sha256'', m1_hash data),
                    (''raw_reference'', m1_reference data), (''source_ip'', source_ip), (''metadata'', metadata)] @
                   (if py_truthy received_at then [(''received_at'', received_at)] else [])))"

subsection \<open>M2 to M3\<close>

definition m2_adapt :: "pydict \<Rightarrow> integration_context option \<Rightarrow> pydict result" where
  "m2_adapt data ctx =
     (let raw_event_id = pget data ''raw_event_id'' in
      if \<not> py_truthy raw_event_id then Inl (ValueError (''M2 event missing mandatory '' @ quoted ''raw_event_id''))
      else
        rbind (block data ''classification'') (\<lambda>cls.
        rbind (block data ''parser'') (\<lambda>parser.
          let tenant_id = pors [ctx_tenant ctx, pget data ''tenant_id'', PStr ''tenant-default''];
              source_id = por (ctx_source ctx) (pget data ''source_id'');
              sha256 = pget data ''sha256'';
              integrity_block =
                (if py_truthy sha256 then
                   PDict [(''hash'', PDict [(''algorithm'', PStr ''SHA-256''), (''value'', sha256)]), (''raw_hash'', sha256)]
                 else PNone);
              raw_block = PDict [(''format'', pget_default cls ''format'' (PStr ''syslog'')),
                                 (''storage_ref'', pget data ''raw_reference''), (''raw_event_id'', raw_event_id)]
          in Inr [(''schema_version'', pget_default data ''schema_version'' (PStr ''1.0.0'')), (''raw_event_id'', raw_event_id),
                  (''tenant_id'', tenant_id), (''source_id'', source_id),
                  (''classification'', PDict [(''format'', pget cls ''format''), (''vendor'', pget cls ''vendor''),
                     (''product'', pget cls ''product''), (''confidence'', pget_default cls ''confidence'' (PFloat (FFin 1)))]),
                  (''parser'', PDict [(''id'', pget parser ''id''), (''name'', pget parser ''name''), (''version'', pget parser ''version''),
                     (''confidence'', pget_default parser ''confidence'' (PFloat (FFin 1)))]),
                  (''fields'', pget_default data ''fields'' (PDict [])),
                  (''unmapped_fields'', pget_default data ''unmapped_fields'' (PList [])),
                  (''integrity'', integrity_block), (''raw'', raw_block)])))"

subsection \<open>M3 to M4\<close>

record clock_texts =
  ck_compact :: string
  ck_iso :: string

definition clean_dict :: "pyval \<Rightarrow> string list \<Rightarrow> pydict" where
  "clean_dict v allowed = (case v of PDict d \<Rightarrow> filter (\<lambda>(k, x). k \<in> set allowed \<and> x \<noteq> PNone) d | _ \<Rightarrow> [])"

definition str_list :: "pyval \<Rightarrow> string \<Rightarrow> pyval" where
  "str_list v d = (case v of PStr s \<Rightarrow> PList [PStr s] | PList xs \<Rightarrow> PList xs | _ \<Rightarrow> PList [PStr d])"

definition m3_event_block :: "clock_texts \<Rightarrow> pydict \<Rightarrow> pydict" where
  "m3_event_block ck e =
     [(''id'', PStr (py_str (por (pget e ''id'') (PStr (''evt_'' @ ck_compact ck))))),
      (''timestamp'', por (pget e ''timestamp'') (PStr (ck_iso ck))),
      (''kind'', por (pget e ''kind'') (PStr ''event'')), (''type'', str_list (pget e ''type'') ''info''),
      (''category'', str_list (pget e ''category'') ''general''), (''outcome'', por (pget e ''outcome'') (PStr ''unknown'')),
      (''duration'', pget e ''duration'')]"

definition name_of :: "string list \<Rightarrow> pyval \<Rightarrow> pyval" where
  "name_of keys v = (case v of PDict d \<Rightarrow> pors (map (pget d) keys @ [PStr ''tcp'']) | _ \<Rightarrow> v)"

definition lower_field :: "string \<Rightarrow> string list \<Rightarrow> pydict \<Rightarrow> pydict" where
  "lower_field k keys d =
     (if pget d k = PNone then d
      else dict_set k (PStr (lower (py_str (name_of keys (pget d k))))) d)"

definition m3_network_block :: "pyval \<Rightarrow> pydict" where
  "m3_network_block v =
     (let n = clean_dict v [''transport'', ''protocol'', ''direction'', ''bytes_in'', ''bytes_out''] in
      lower_field ''transport'' [''name'', ''transport''] (lower_field ''protocol'' [''name'', ''transport'', ''protocol''] n))"

definition m3_raw_hash :: "pydict \<Rightarrow> pyval \<Rightarrow> pyval result" where
  "m3_raw_hash integrity fallback =
     (if py_truthy (pget integrity ''raw_hash'') then Inr (pget integrity ''raw_hash'')
      else rbind (block integrity ''hash'') (\<lambda>h. Inr (por (pget h ''value'') fallback)))"

definition m3_tenant_block :: "integration_context \<Rightarrow> pyval" where
  "m3_tenant_block ctx = PDict [(''tenant_id'', PStr (ic_tenant_id ctx)), (''scope'', PDict [(''source_id'', PStr (ic_source_id ctx))])]"

definition m3_extensions :: "pyval \<Rightarrow> pyval \<Rightarrow> pyval \<Rightarrow> pydict result" where
  "m3_extensions ext raw_hash storage_ref =
     (case por ext (PDict []) of
        PDict d \<Rightarrow>
          Inr (if py_truthy raw_hash then
                 dict_set ''raw_integrity'' (PDict [(''algorithm'', PStr ''sha256''), (''raw_hash'', raw_hash), (''storage_ref'', storage_ref)]) d
               else d)
      | _ \<Rightarrow> Inl (TypeError ''cannot convert dictionary update sequence''))"

text \<open>The checks at the head of the adapter: the normalised event inside its two wrappers.\<close>

definition m3_unwrap :: "pydict \<Rightarrow> pydict result" where
  "m3_unwrap data =
     (if \<not> py_truthy (pget_default data ''success'' (PBool False)) then
        Inl (ValueError (''Cannot adapt failed M3 NormalizationResult: '' @ py_str (pget_default data ''errors'' (PList []))))
      else
        rbind (block data ''event'') (\<lambda>wrapper.
          case pget wrapper ''ulpf'' of
            PDict (p # ps) \<Rightarrow> Inr (p # ps)
          | _ \<Rightarrow> Inl (ValueError (''M3 output missing required '' @ quoted ''event.ulpf'' @ '' structure''))))"

definition adapt_to_canonical_event :: "clock_texts \<Rightarrow> pydict \<Rightarrow> integration_context \<Rightarrow> pyval \<Rightarrow> pyval \<Rightarrow> pyval \<Rightarrow> pydict result" where
  "adapt_to_canonical_event ck data ctx fb_id fb_hash fb_ref =
     rbind (m3_unwrap data) (\<lambda>ulpf.
     rbind (block ulpf ''event'') (\<lambda>ev.
     rbind (block ulpf ''provenance'') (\<lambda>prov.
       let raw_event_id = pors [pget prov ''raw_event_id'', pget data ''raw_event_id'', fb_id] in
       if \<not> py_truthy raw_event_id then Inl (ValueError ''Missing required raw_event_id for provenance'')
       else if ic_tenant_id ctx = [] then Inl (ValueError ''M3 dropped tenant_id and no trusted TenantContext was supplied'')
       else
         rbind (block ulpf ''parser'') (\<lambda>p.
         rbind (block ulpf ''normalization'') (\<lambda>norm.
         rbind (block ulpf ''vendor'') (\<lambda>v.
         rbind (block ulpf ''integrity'') (\<lambda>integ.
         rbind (m3_raw_hash integ fb_hash) (\<lambda>raw_hash.
         rbind (block ulpf ''raw'') (\<lambda>raw.
           let storage_ref = por (pget raw ''storage_ref'') fb_ref;
               sec = clean_dict (pget ulpf ''security'') [''severity'', ''risk_score'', ''threat_indicator'']
           in rbind (m3_extensions (pget ulpf ''extensions'') raw_hash storage_ref) (\<lambda>ext.
             Inr [(''schema_version'', PStr ''ues.v1''), (''event'', PDict (m3_event_block ck ev)),
                  (''observer'', PDict (clean_dict (pget ulpf ''observer'') [''hostname'', ''ip'', ''type'', ''version''])),
                  (''source'', PDict (clean_dict (pget ulpf ''source'') [''ip'', ''port'', ''mac'', ''nat_ip'', ''domain'', ''user''])),
                  (''destination'', PDict (clean_dict (pget ulpf ''destination'') [''ip'', ''port'', ''mac'', ''nat_ip'', ''domain'', ''user''])),
                  (''network'', PDict (m3_network_block (pget ulpf ''network''))),
                  (''host'', PDict (clean_dict (pget ulpf ''host'') [''id'', ''name'', ''hostname'', ''os'', ''architecture''])),
                  (''identity'', PDict (clean_dict (pget ulpf ''identity'') [''user_id'', ''username'', ''email'', ''domain'', ''groups''])),
                  (''application'', PDict (clean_dict (pget ulpf ''application'') [''name'', ''version''])),
                  (''process'', PDict (clean_dict (pget ulpf ''process'') [''pid'', ''name'', ''executable'', ''command_line''])),
                  (''security'', PDict (if sec = [] then [(''severity'', PStr ''informational'')] else sec)),
                  (''parser'', PDict [(''name'', pors [pget p ''name'', pget p ''id'', PStr ''unknown'']),
                     (''version'', PStr (py_str (por (pget p ''version'') (PStr ''1.0.0'')))),
                     (''parsed_at'', por (pget p ''parsed_at'') (PStr (ck_iso ck)))]),
                  (''normalization'', PDict [(''schema_target'', PStr ''ues.v1''),
                     (''normalized_at'', por (pget norm ''normalized_at'') (PStr (ck_iso ck))),
                     (''rule_version'', PStr (py_str (por (pget norm ''rule_version'') (PStr ''1.0.0''))))]),
                  (''provenance'', PDict [(''raw_event_id'', PStr (py_str raw_event_id)),
                     (''ingestion_timestamp'', por (pget prov ''ingestion_timestamp'') (PStr (ck_iso ck))),
                     (''pipeline_id'', por (pget prov ''pipeline_id'') (PStr ''ulpf-pipeline''))]),
                  (''integrity'', PNone), (''raw'', por storage_ref (pget raw ''raw'')),
                  (''vendor'', PDict [(''name'', pors [pget v ''vendor_id'', pget v ''name'', PStr ''generic'']),
                     (''product'', por (pget v ''product'') (PStr ''generic'')), (''version'', pget v ''version'')]),
                  (''extensions'', PDict ext), (''tenant'', m3_tenant_block ctx)]))))))))))"

definition m3_adapt :: "clock_texts \<Rightarrow> pydict \<Rightarrow> integration_context \<Rightarrow> pyval \<Rightarrow> pyval \<Rightarrow> pyval \<Rightarrow> pydict option \<Rightarrow> pydict result" where
  "m3_adapt ck data ctx fb_id fb_hash fb_ref options =
     rbind (adapt_to_canonical_event ck data ctx fb_id fb_hash fb_ref) (\<lambda>ev.
       Inr [(''event'', PDict ev), (''tenant_context'', m3_tenant_block ctx),
            (''options'', PDict (case options of Some o' \<Rightarrow> o' | None \<Rightarrow> []))])"

subsection \<open>M4 to M5\<close>

definition harmonize_tenant :: "pydict \<Rightarrow> pydict" where
  "harmonize_tenant event =
     (case pget event ''tenant'' of
        PDict t \<Rightarrow>
          let tenant_id = por (pget t ''tenant_id'') (pget t ''id'') in
          if py_truthy tenant_id then
            (let s = PStr (py_str tenant_id) in
             dict_set ''tenant_id'' s (dict_set ''tenant'' (PDict (dict_set ''id'' s (dict_set ''tenant_id'' s t))) event))
          else event
      | v \<Rightarrow>
          if \<not> py_truthy v \<and> dict_has ''tenant_id'' event then
            (let s = PStr (py_str (pget event ''tenant_id'')) in dict_set ''tenant'' (PDict [(''id'', s), (''tenant_id'', s)]) event)
          else event)"

definition attach :: "pydict \<Rightarrow> string \<Rightarrow> string \<Rightarrow> pydict \<Rightarrow> pydict" where
  "attach data k target ext = (if dict_has k data then dict_set target (pget data k) ext else ext)"

text \<open>An event without extensions gets a dictionary; extensions that are no dictionary make the item
  assignments raise, where there are any.\<close>

definition attach_all :: "pydict \<Rightarrow> pydict \<Rightarrow> pydict result" where
  "attach_all data event =
     (let event' = (if dict_has ''extensions'' event then event else dict_set ''extensions'' (PDict []) event) in
      case pget event' ''extensions'' of
        PDict ext \<Rightarrow>
          Inr (dict_set ''extensions'' (PDict (attach data ''status'' ''enrichment_status''
            (attach data ''diagnostics'' ''enrichment_diagnostics'' (attach data ''provenance'' ''enrichment_provenance'' ext)))) event')
      | _ \<Rightarrow>
          if dict_has ''provenance'' data \<or> dict_has ''diagnostics'' data \<or> dict_has ''status'' data then
            Inl (TypeError ''object does not support item assignment'')
          else Inr event')"

definition m4_adapt :: "pydict \<Rightarrow> pydict result" where
  "m4_adapt data =
     rbind (case pget data ''event'' of
              PDict (p # ps) \<Rightarrow> Inr (p # ps)
            | _ \<Rightarrow> if dict_has ''schema_version'' data \<and> (dict_has ''event'' data \<or> dict_has ''id'' data) then Inr data
                   else Inl (ValueError (''M4 result does not contain a valid canonical '' @ quoted ''event'' @ '' object''))) (\<lambda>event.
       let event1 = harmonize_tenant event;
           event2 = (if py_truthy (pget data ''integrity'') then dict_set ''integrity'' (pget data ''integrity'') event1 else event1)
       in attach_all data event2)"

end
