(* ===== verification/Int_Consumer.thy ===== *)
theory Int_Consumer
  imports Int_Idempotency Int_Adapters
begin

section \<open>Integration: the consumer between M1 and M2\<close>

text \<open>
  \<open>integration/consumers/m1_raw_consumer.py\<close> and \<open>bridge_runner.py\<close>. A message is given with the outcome of
  decoding its text; M2 is a function from the requests it has received to its next answer. Of Kafka the
  model uses what its documentation promises: \<open>getone\<close> hands out the messages of the log in order from the
  current position, \<open>commit()\<close> without arguments commits that position, and a new consumer starts at the
  committed one.
\<close>

datatype raw_message =
    TextMessage "pyval result"
  | DictMessage pydict
  | OtherMessage string

record m2_request =
  mq_url :: string
  mq_headers :: "(string \<times> string) list"
  mq_json :: pydict

record m2_response =
  mr_status :: int
  mr_json :: "pydict result"
  mr_text :: string

type_synonym m2_service = "m2_request list \<Rightarrow> m2_response result"

record consumer_config =
  cc_m2_base_url :: string
  cc_m2_auth_token :: string
  cc_retry :: retry_policy

text \<open>The clock at the three calls of the tracker, its store, and \<open>random.random()\<close>.\<close>

record consumer_io =
  ci_now :: rat
  ci_now_cached :: rat
  ci_now_done :: rat
  ci_db :: db_io
  ci_random :: "nat \<Rightarrow> rat"

record consumer_outcome =
  co_status :: string
  co_raw_event_id :: pyval
  co_tenant_id :: string
  co_result :: "pydict option"

definition message_data :: "raw_message \<Rightarrow> pydict result" where
  "message_data m = (case m of
     TextMessage r \<Rightarrow> rbind r as_dict
   | DictMessage d \<Rightarrow> Inr d
   | OtherMessage ty \<Rightarrow> Inl (TypeError (''Unsupported message type: '' @ ty)))"

definition hget :: "(string \<times> string) list \<Rightarrow> string \<Rightarrow> pyval" where
  "hget headers k = (case map_of headers k of None \<Rightarrow> PNone | Some v \<Rightarrow> PStr v)"

text \<open>A field of \<open>TenantContext\<close> must be a string.\<close>

definition str_field :: "string \<Rightarrow> pyval \<Rightarrow> string result" where
  "str_field name v = (case v of PStr s \<Rightarrow> Inr s | _ \<Rightarrow> Inl (ValueError (''TenantContext: '' @ name @ '' should be a valid string'')))"

definition message_context :: "pydict \<Rightarrow> (string \<times> string) list \<Rightarrow> integration_context result" where
  "message_context data headers =
     (let tenant_id = pors [hget headers ''X-Tenant-ID'', hget headers ''x-tenant-id'', pget data ''tenant_id'', PStr ''tenant-default''];
          source_id = pors [hget headers ''X-Source-ID'', hget headers ''x-source-id'', pget data ''source_id'', PStr ''unknown-source''];
          correlation_id = pors [hget headers ''X-Correlation-ID'', hget headers ''x-correlation-id'', pget data ''correlation_id'']
      in rbind (str_field ''tenant_id'' tenant_id) (\<lambda>t.
         rbind (str_field ''source_id'' source_id) (\<lambda>s.
         rbind (str_field ''correlation_id'' (por correlation_id (pget data ''raw_event_id''))) (\<lambda>c.
           Inr \<lparr> ic_tenant_id = t, ic_source_id = s, ic_principal = None, ic_correlation_id = c, ic_ingested_at = None \<rparr>))))"

definition m2_request_of :: "consumer_config \<Rightarrow> integration_context \<Rightarrow> pydict \<Rightarrow> m2_request" where
  "m2_request_of cfg ctx payload =
     \<lparr> mq_url = cc_m2_base_url cfg @ ''/v1/parse'',
       mq_headers = fold (\<lambda>(k, v). dict_set k v) (to_headers ctx)
         [(''Authorization'', ''Bearer '' @ cc_m2_auth_token cfg), (''X-API-Key'', cc_m2_auth_token cfg), (''Content-Type'', ''application/json'')],
       mq_json = payload \<rparr>"

definition m2_answer :: "m2_response \<Rightarrow> pydict result" where
  "m2_answer resp =
     (if mr_status resp \<in> {200, 201} then mr_json resp
      else if mr_status resp \<ge> 500 then Inl (OtherError ''HTTPStatusError'' (int_str (mr_status resp)))
      else Inl (ValueError (''M2 rejected event with HTTP '' @ int_str (mr_status resp) @ '': '' @ mr_text resp)))"

definition send_to_m2 :: "m2_service \<Rightarrow> m2_request \<Rightarrow> m2_request list \<Rightarrow> m2_request list \<times> pydict result" where
  "send_to_m2 m2 req sent = (sent @ [req], rbind (m2 (sent @ [req])) m2_answer)"

record consumer =
  cs_tracker :: tracker
  cs_sent :: "m2_request list"

definition process_raw_message :: "m2_service \<Rightarrow> consumer_config \<Rightarrow> consumer_io \<Rightarrow> raw_message \<Rightarrow> (string \<times> string) list \<Rightarrow> consumer \<Rightarrow>
    consumer \<times> consumer_outcome result" where
  "process_raw_message m2 cfg io m headers c =
     (case rbind (message_data m) (\<lambda>data.
             if \<not> py_truthy (pget data ''raw_event_id'') then Inl (ValueError (''Message missing '' @ quoted ''raw_event_id''))
             else rbind (message_context data headers) (\<lambda>ctx. Inr (data, ctx))) of
        Inl e \<Rightarrow> (c, Inl e)
      | Inr (data, ctx) \<Rightarrow>
          let raw_event_id = pget data ''raw_event_id''; event_key = py_str raw_event_id; tenant_id = ic_tenant_id ctx in
          (case check_and_set (ci_now io) (ci_db io) tenant_id event_key None (cs_tracker c) of
             (t, Inl e) \<Rightarrow> (c\<lparr>cs_tracker := t\<rparr>, Inl e)
           | (t, Inr False) \<Rightarrow>
               (c\<lparr>cs_tracker := t\<rparr>,
                Inr \<lparr> co_status = ''DUPLICATE_SUPPRESSED'', co_raw_event_id = raw_event_id, co_tenant_id = tenant_id,
                      co_result = get_cached_result (ci_now_cached io) (ci_db io) tenant_id event_key t \<rparr>)
           | (t, Inr True) \<Rightarrow>
               (case m1_adapt data (Some ctx) of
                  Inl e \<Rightarrow> (c\<lparr>cs_tracker := t\<rparr>, Inl e)
                | Inr payload \<Rightarrow>
                    (case execute_retry (cc_retry cfg) (ci_random io) (send_to_m2 m2 (m2_request_of cfg ctx payload)) (cs_sent c) of
                       (sent, _, Inl e) \<Rightarrow> (c\<lparr>cs_tracker := t, cs_sent := sent\<rparr>, Inl e)
                     | (sent, _, Inr m2_result) \<Rightarrow>
                         (case check_and_set (ci_now_done io) (ci_db io) tenant_id event_key (Some m2_result) t of
                            (t', Inl e) \<Rightarrow> (c\<lparr>cs_tracker := t', cs_sent := sent\<rparr>, Inl e)
                          | (t', Inr _) \<Rightarrow>
                              (c\<lparr>cs_tracker := t', cs_sent := sent\<rparr>,
                               Inr \<lparr> co_status = ''PROCESSED'', co_raw_event_id = raw_event_id, co_tenant_id = tenant_id,
                                     co_result = Some m2_result \<rparr>))))))"

subsection \<open>The Kafka loop\<close>

text \<open>The value of a Kafka message is what the deserialiser made of it; its headers are bytes, \<open>None\<close> where they
  are no UTF-8.\<close>

record kafka_message =
  km_value :: raw_message
  km_headers :: "(string \<times> string option) list"

fun decode_headers :: "(string \<times> string option) list \<Rightarrow> (string \<times> string) list option" where
  "decode_headers [] = Some []"
| "decode_headers ((k, None) # hs) = None"
| "decode_headers ((k, Some v) # hs) = map_option (\<lambda>r. (k, v) # r) (decode_headers hs)"

record bridge =
  br_consumer :: consumer
  br_position :: nat
  br_committed :: nat
  br_outcomes :: "(nat \<times> consumer_outcome result) list"

datatype loop_result = Continue | Exit

text \<open>One turn of the loop. The \<open>commit\<close> may raise: like an exception of the processing this is logged, the loop goes on and the
  committed offset stays. (A commit that took effect before it raised leaves the state of one that succeeded.)\<close>

definition bridge_step :: "m2_service \<Rightarrow> consumer_config \<Rightarrow> consumer_io \<Rightarrow> exn option \<Rightarrow> kafka_message \<Rightarrow> bridge \<Rightarrow> bridge \<times> loop_result" where
  "bridge_step m2 cfg io commit msg b =
     (let offset = br_position b; b1 = b\<lparr>br_position := offset + 1\<rparr> in
      case decode_headers (km_headers msg) of
        None \<Rightarrow> (b1, Exit)
      | Some headers \<Rightarrow>
          (case process_raw_message m2 cfg io (km_value msg) (fold (\<lambda>(k, v). dict_set k v) headers []) (br_consumer b1) of
             (c, r) \<Rightarrow>
               let b2 = b1\<lparr>br_consumer := c, br_outcomes := br_outcomes b1 @ [(offset, r)]\<rparr> in
               (case r of
                  Inl _ \<Rightarrow> (b2, Continue)
                | Inr _ \<Rightarrow>
                    (case commit of
                       Some _ \<Rightarrow> (b2, Continue)
                     | None \<Rightarrow> (b2\<lparr>br_committed := br_position b2\<rparr>, Continue)))))"

definition new_consumer :: consumer where
  "new_consumer = \<lparr> cs_tracker = new_tracker 100000 3600 False, cs_sent = [] \<rparr>"

text \<open>\<open>bridge_runner.main\<close>: another consumer, with a tracker of its own, after the loop has ended. What M2 has received
  stays received.\<close>

definition bridge_restart :: "bridge \<Rightarrow> bridge" where
  "bridge_restart b = b\<lparr>br_consumer := new_consumer\<lparr>cs_sent := cs_sent (br_consumer b)\<rparr>, br_position := br_committed b\<rparr>"

definition bridge_start :: bridge where
  "bridge_start = \<lparr> br_consumer = new_consumer, br_position = 0, br_committed = 0, br_outcomes = [] \<rparr>"

text \<open>The bridge over a log: a message is handed out, the consumer is replaced, or the process dies at any point of a turn, with some
  of the requests of the message sent and nothing else done (a death between the processing and the commit is a commit that
  raises, followed by a restart).\<close>

inductive bridge_reach :: "m2_service \<Rightarrow> consumer_config \<Rightarrow> kafka_message list \<Rightarrow> bridge \<Rightarrow> bool"
  for m2 :: m2_service and cfg :: consumer_config and klog :: "kafka_message list" where
  start: "bridge_reach m2 cfg klog bridge_start"
| step: "bridge_reach m2 cfg klog b \<Longrightarrow> br_position b < length klog \<Longrightarrow> bridge_step m2 cfg io commit (klog ! br_position b) b = (b', Continue) \<Longrightarrow>
    bridge_reach m2 cfg klog b'"
| exit: "bridge_reach m2 cfg klog b \<Longrightarrow> br_position b < length klog \<Longrightarrow> bridge_step m2 cfg io commit (klog ! br_position b) b = (b', Exit) \<Longrightarrow>
    bridge_reach m2 cfg klog (bridge_restart b')"
| restart: "bridge_reach m2 cfg klog b \<Longrightarrow> bridge_reach m2 cfg klog (bridge_restart b)"
| crash: "bridge_reach m2 cfg klog b \<Longrightarrow> br_position b < length klog \<Longrightarrow> bridge_step m2 cfg io commit (klog ! br_position b) b = (b', res) \<Longrightarrow>
    sent = cs_sent (br_consumer b) @ some \<Longrightarrow> cs_sent (br_consumer b') = sent @ rest \<Longrightarrow>
    bridge_reach m2 cfg klog (bridge_restart (b\<lparr>br_consumer := (br_consumer b)\<lparr>cs_sent := sent\<rparr>\<rparr>))"

subsection \<open>Facts\<close>

lemma retry_sends:
  assumes "retry_loop p rnd (send_to_m2 m2 req) attempt left e0 sent sl = (sent', sl', r)"
  shows "\<exists>n \<le> left. sent' = sent @ replicate n req \<and> (\<forall>x. r = Inr x \<longrightarrow> 0 < n \<and> rbind (m2 sent') m2_answer = Inr x)"
  using assms
proof (induction left arbitrary: attempt e0 sent sl)
  case (Suc left)
  show ?case
  proof (cases "rbind (m2 (sent @ [req])) m2_answer")
    case (Inr x)
    then show ?thesis using Suc.prems by (auto simp: send_to_m2_def intro!: exI [of _ 1])
  next
    case (Inl e)
    then have f: "send_to_m2 m2 req sent = (sent @ [req], Inl e)" by (simp add: send_to_m2_def)
    show ?thesis
    proof (cases "\<not> rp_retryable p e \<or> int attempt \<ge> rp_max_retries p")
      case True
      then have "sent' = sent @ [req]" "r = Inl e" using Suc.prems f by (auto split: if_splits)
      then show ?thesis by (auto intro!: exI [of _ 1])
    next
      case False
      then have "retry_loop p rnd (send_to_m2 m2 req) (attempt + 1) left e (sent @ [req]) (sl @ [calculate_delay p (rnd attempt) attempt]) = (sent', sl', r)"
        using Suc.prems f by simp
      from Suc.IH [OF this] obtain n where "n \<le> left" "sent' = (sent @ [req]) @ replicate n req"
        "\<forall>x. r = Inr x \<longrightarrow> 0 < n \<and> rbind (m2 sent') m2_answer = Inr x" by blast
      then show ?thesis by (intro exI [of _ "Suc n"]) auto
    qed
  qed
qed auto

lemma check_and_set_marks:
  assumes "check_and_set now io tenant event result t = (t', Inr True)"
  shows "map_of (tr_cache t') (make_key tenant event) = Some \<lparr> ie_timestamp = now, ie_result = result \<rparr>" and "tr_ttl t' = tr_ttl t"
  using assms
  by (auto simp: check_and_set_def check_cache_def check_db_def remember_key_def write_db_def Let_def split: option.splits if_splits)

lemma move_to_end_same: "map_of (move_to_end k d) k = map_of d k"
  by (auto simp: move_to_end_def map_add_def split: option.splits)

lemma check_and_set_within:
  assumes "map_of (tr_cache t) (make_key tenant event) = Some e" and "now - ie_timestamp e < tr_ttl t"
  shows "check_and_set now io tenant event result t = (t\<lparr>tr_cache := move_to_end (make_key tenant event) (tr_cache t)\<rparr>, Inr False)"
    and "get_cached_result now io tenant event (t\<lparr>tr_cache := move_to_end (make_key tenant event) (tr_cache t)\<rparr>) = ie_result e"
  using assms by (auto simp: check_and_set_def check_cache_def get_cached_result_def fresh_def move_to_end_same Let_def)

lemma pors_truthy: "py_truthy (pors (vs @ [v])) \<longleftrightarrow> (\<exists>w \<in> set (vs @ [v]). py_truthy w)"
proof (induction vs)
  case (Cons w vs)
  have "pors ((w # vs) @ [v]) = por w (pors (vs @ [v]))" by (cases vs) auto
  then show ?case using Cons.IH by (auto simp: por_def)
qed simp

lemma message_context_ok:
  assumes "message_context data headers = Inr ctx"
  shows "ic_tenant_id ctx \<noteq> []"
    and "PStr (ic_tenant_id ctx) = pors [hget headers ''X-Tenant-ID'', hget headers ''x-tenant-id'', pget data ''tenant_id'', PStr ''tenant-default'']"
proof -
  show t: "PStr (ic_tenant_id ctx) = pors [hget headers ''X-Tenant-ID'', hget headers ''x-tenant-id'', pget data ''tenant_id'', PStr ''tenant-default'']"
    using assms by (auto simp: message_context_def str_field_def Let_def simp del: pors.simps split: pyval.splits)
  show "ic_tenant_id ctx \<noteq> []"
    using pors_truthy [of "[hget headers ''X-Tenant-ID'', hget headers ''x-tenant-id'', pget data ''tenant_id'']" "PStr ''tenant-default''"] t [symmetric]
    by (simp del: pors.simps)
qed

lemma m1_adapt_ids:
  assumes "m1_adapt data (Some ctx) = Inr payload" and "ic_tenant_id ctx \<noteq> []"
  shows "pget payload ''tenant_id'' = PStr (ic_tenant_id ctx)" and "pget payload ''raw_event_id'' = pget data ''raw_event_id''"
  using assms by (auto simp: m1_adapt_def Let_def pget_def ctx_tenant_def por_def split: prod.splits if_splits)

lemma request_tenant: "map_of (mq_headers (m2_request_of cfg ctx payload)) ''X-Tenant-ID'' = Some (ic_tenant_id ctx)"
  by (simp add: m2_request_of_def to_headers_def split: option.splits list.splits)

lemma consumer_cases:
  assumes "process_raw_message m2 cfg io m headers c = (c', r)"
  obtains (refused) e where "cs_sent c' = cs_sent c" "r = Inl e"
  | (duplicate) data ctx t where "message_data m = Inr data" "message_context data headers = Inr ctx"
      "check_and_set (ci_now io) (ci_db io) (ic_tenant_id ctx) (py_str (pget data ''raw_event_id'')) None (cs_tracker c) = (t, Inr False)"
      "c' = c\<lparr>cs_tracker := t\<rparr>" "\<exists>out. r = Inr out \<and> co_status out = ''DUPLICATE_SUPPRESSED''"
  | (sent) data ctx t payload n where "message_data m = Inr data" "message_context data headers = Inr ctx" "py_truthy (pget data ''raw_event_id'')"
      "check_and_set (ci_now io) (ci_db io) (ic_tenant_id ctx) (py_str (pget data ''raw_event_id'')) None (cs_tracker c) = (t, Inr True)"
      "m1_adapt data (Some ctx) = Inr payload" "cs_sent c' = cs_sent c @ replicate n (m2_request_of cfg ctx payload)"
      "n \<le> nat (rp_max_retries (cc_retry cfg) + 1)"
      "\<And>out. r = Inr out \<Longrightarrow> 0 < n \<and> co_status out = ''PROCESSED'' \<and> co_tenant_id out = ic_tenant_id ctx \<and>
         (\<exists>x. co_result out = Some x \<and> rbind (m2 (cs_sent c')) m2_answer = Inr x)"
      "\<And>e. r = Inl e \<Longrightarrow> cs_tracker c' = t \<or> (\<exists>x. cs_tracker c' = fst (check_and_set (ci_now_done io) (ci_db io) (ic_tenant_id ctx)
         (py_str (pget data ''raw_event_id'')) (Some x) t))"
proof -
  let ?pre = "rbind (message_data m) (\<lambda>data.
             if \<not> py_truthy (pget data ''raw_event_id'') then Inl (ValueError (''Message missing '' @ quoted ''raw_event_id''))
             else rbind (message_context data headers) (\<lambda>ctx. Inr (data, ctx)))"
  show thesis
  proof (cases ?pre)
    case (Inl e)
    then show ?thesis using assms refused [of e] by (simp add: process_raw_message_def)
  next
    case (Inr dc)
    obtain data ctx where dc: "dc = (data, ctx)" by (cases dc)
    have ok: "message_data m = Inr data" "message_context data headers = Inr ctx" "py_truthy (pget data ''raw_event_id'')"
      using Inr dc by (auto split: if_splits)
    obtain t b where ck: "check_and_set (ci_now io) (ci_db io) (ic_tenant_id ctx) (py_str (pget data ''raw_event_id'')) None (cs_tracker c) = (t, b)"
      by (metis surj_pair)
    note run = assms [unfolded process_raw_message_def Inr dc, simplified, unfolded Let_def ck, simplified]
    consider (e) e where "b = Inl e" | (f) "b = Inr False" | (t) "b = Inr True" by (cases b) auto
    then show ?thesis
    proof cases
      case e
      then show ?thesis using run refused [of e] by auto
    next
      case f
      then show ?thesis using run duplicate [OF ok(1,2)] ck by auto
    next
      case t
      show ?thesis
      proof (cases "m1_adapt data (Some ctx)")
        case (Inl e)
        then show ?thesis using run t refused [of e] by auto
      next
        case (Inr payload)
        obtain s' sl rr where ex: "execute_retry (cc_retry cfg) (ci_random io) (send_to_m2 m2 (m2_request_of cfg ctx payload)) (cs_sent c) = (s', sl, rr)"
          by (metis prod_cases3)
        obtain n where n: "n \<le> nat (rp_max_retries (cc_retry cfg) + 1)" "s' = cs_sent c @ replicate n (m2_request_of cfg ctx payload)"
          "\<forall>x. rr = Inr x \<longrightarrow> 0 < n \<and> rbind (m2 s') m2_answer = Inr x"
          using retry_sends [OF ex [unfolded execute_retry_def]] by blast
        have s': "cs_sent c' = s'" using run t Inr ex by (auto split: sum.splits prod.splits)
        show ?thesis
        proof (rule sent [OF ok ck [unfolded t] Inr s' [unfolded n(2)] n(1)])
          show "0 < n \<and> co_status out = ''PROCESSED'' \<and> co_tenant_id out = ic_tenant_id ctx \<and>
              (\<exists>x. co_result out = Some x \<and> rbind (m2 (cs_sent c')) m2_answer = Inr x)" if "r = Inr out" for out
            using run t Inr ex n(3) s' that by (auto split: sum.splits prod.splits)
          show "cs_tracker c' = t \<or> (\<exists>x. cs_tracker c' = fst (check_and_set (ci_now_done io) (ci_db io) (ic_tenant_id ctx)
              (py_str (pget data ''raw_event_id'')) (Some x) t))" if "r = Inl e" for e
            using run t Inr ex that by (auto split: sum.splits prod.splits) (metis fst_conv)+
        qed
      qed
    qed
  qed
qed

definition good_headers :: "kafka_message \<Rightarrow> bool" where
  "good_headers msg \<longleftrightarrow> decode_headers (km_headers msg) \<noteq> None"

lemma bridge_step_cases:
  assumes "bridge_step m2 cfg io commit msg b = (b', res)"
  obtains (poison) "res = Exit" "\<not> good_headers msg" "br_committed b' = br_committed b" "br_outcomes b' = br_outcomes b"
  | (failed) e where "res = Continue" "good_headers msg" "br_position b' = br_position b + 1" "br_committed b' = br_committed b"
      "br_outcomes b' = br_outcomes b @ [(br_position b, Inl e)]"
  | (handled) out where "res = Continue" "good_headers msg" "br_position b' = br_position b + 1" "br_committed b' = br_position b + 1"
      "br_outcomes b' = br_outcomes b @ [(br_position b, Inr out)]" "commit = None"
  | (uncommitted) out e where "res = Continue" "good_headers msg" "br_position b' = br_position b + 1" "br_committed b' = br_committed b"
      "br_outcomes b' = br_outcomes b @ [(br_position b, Inr out)]" "commit = Some e"
  using assms by (auto simp: bridge_step_def good_headers_def Let_def split: option.splits prod.splits sum.splits) (meson sumE)

lemma restart_simps [simp]:
  "br_position (bridge_restart b) = br_committed b" "br_committed (bridge_restart b) = br_committed b"
  "br_outcomes (bridge_restart b) = br_outcomes b"
  by (simp_all add: bridge_restart_def)

definition bridge_inv :: "kafka_message list \<Rightarrow> bridge \<Rightarrow> bool" where
  "bridge_inv klog b \<longleftrightarrow> br_committed b \<le> br_position b \<and> br_position b \<le> length klog \<and>
     (\<forall>i < br_position b. good_headers (klog ! i) \<and> (\<exists>r. (i, r) \<in> set (br_outcomes b))) \<and>
     (br_committed b = 0 \<or> (\<exists>out. (br_committed b - 1, Inr out) \<in> set (br_outcomes b)))"

lemma bridge_inv_step:
  assumes "bridge_inv klog b" and "br_position b < length klog" and "bridge_step m2 cfg io commit (klog ! br_position b) b = (b', Continue)"
  shows "bridge_inv klog b'"
  using assms(3)
proof (cases rule: bridge_step_cases)
  case (failed e)
  then show ?thesis using assms(1,2) by (fastforce simp: bridge_inv_def less_Suc_eq)
next
  case (handled out)
  then show ?thesis using assms(1,2) by (fastforce simp: bridge_inv_def less_Suc_eq)
next
  case (uncommitted out e)
  then show ?thesis using assms(1,2) by (fastforce simp: bridge_inv_def less_Suc_eq)
qed simp

lemma bridge_inv_restart: "bridge_inv klog b \<Longrightarrow> br_outcomes b' = br_outcomes b \<Longrightarrow> br_committed b' = br_committed b \<Longrightarrow> bridge_inv klog (bridge_restart b')"
  by (auto simp: bridge_inv_def)

lemma bridge_inv_reach: "bridge_reach m2 cfg klog b \<Longrightarrow> bridge_inv klog b"
proof (induction rule: bridge_reach.induct)
  case start
  show ?case by (simp add: bridge_inv_def bridge_start_def)
next
  case (step b io commit b')
  then show ?case by (blast intro: bridge_inv_step)
next
  case (exit b io commit b')
  from exit.hyps(3) show ?case by (cases rule: bridge_step_cases) (use exit.IH in \<open>auto intro: bridge_inv_restart\<close>)
next
  case (restart b)
  then show ?case by (auto intro: bridge_inv_restart)
next
  case (crash b io commit b' res sent some rest)
  then show ?case by (auto intro: bridge_inv_restart)
qed

subsection \<open>Properties\<close>

text \<open>A message is sent to M2 at most \<open>max_retries + 1\<close> times, each time as the same request, whose header and
  body name the same tenant and the event of the message. A processed message was accepted by M2 at its
  last request, whose answer is the result; a duplicate is not sent.\<close>

theorem consumer_dispatch:
  assumes "process_raw_message m2 cfg io m headers c = (c', r)"
  shows "\<exists>n req. cs_sent c' = cs_sent c @ replicate n req \<and> n \<le> nat (rp_max_retries (cc_retry cfg) + 1) \<and>
    (0 < n \<longrightarrow> (\<exists>data tenant. message_data m = Inr data \<and> map_of (mq_headers req) ''X-Tenant-ID'' = Some tenant \<and> tenant \<noteq> [] \<and>
       pget (mq_json req) ''tenant_id'' = PStr tenant \<and> pget (mq_json req) ''raw_event_id'' = pget data ''raw_event_id'')) \<and>
    (\<forall>out. r = Inr out \<longrightarrow>
       n = 0 \<and> co_status out = ''DUPLICATE_SUPPRESSED'' \<or>
       0 < n \<and> co_status out = ''PROCESSED'' \<and> (\<exists>x. co_result out = Some x \<and> rbind (m2 (cs_sent c')) m2_answer = Inr x))"
  using assms
proof (cases rule: consumer_cases)
  case (refused e)
  then show ?thesis by (intro exI [of _ 0]) simp
next
  case (duplicate data ctx t)
  then show ?thesis by (intro exI [of _ 0]) auto
next
  case (sent data ctx t payload n)
  note a = m1_adapt_ids [OF sent(5) message_context_ok(1) [OF sent(2)]]
  show ?thesis
    using sent a request_tenant [of cfg ctx payload] message_context_ok(1) [OF sent(2)]
    by (intro exI [of _ n] exI [of _ "m2_request_of cfg ctx payload"]) (auto simp: m2_request_of_def)
qed

text \<open>An event that M2 did not accept is lost when it is delivered again: the event was marked as seen before it was
  sent, so a redelivery within the lifetime of the mark is answered as a suppressed duplicate, without a result and
  without a request.\<close>

theorem consumer_loses_failed:
  assumes "process_raw_message m2 cfg io m headers c = (c', Inl e)" and "cs_sent c' \<noteq> cs_sent c"
    and "ci_now_done io - ci_now io < tr_ttl (cs_tracker c)"
    and "ci_now io' - ci_now io < tr_ttl (cs_tracker c)" and "ci_now_cached io' - ci_now io < tr_ttl (cs_tracker c)"
  shows "\<exists>c'' out. process_raw_message m2' cfg' io' m headers c' = (c'', Inr out) \<and> cs_sent c'' = cs_sent c' \<and>
    co_status out = ''DUPLICATE_SUPPRESSED'' \<and> co_result out = None"
  using assms(1)
proof (cases rule: consumer_cases)
  case (refused e')
  then show ?thesis using assms(2) by simp
next
  case (duplicate data ctx t)
  then show ?thesis by simp
next
  case (sent data ctx t payload n)
  let ?key = "make_key (ic_tenant_id ctx) (py_str (pget data ''raw_event_id''))"
  note mk = check_and_set_marks [OF sent(4)]
  note second = check_and_set_within(1) [OF mk(1), of "ci_now_done io" "ci_db io"]
  have tr: "map_of (tr_cache (cs_tracker c')) ?key = Some \<lparr> ie_timestamp = ci_now io, ie_result = None \<rparr> \<and> tr_ttl (cs_tracker c') = tr_ttl (cs_tracker c)"
    using sent(9) mk second assms(3) by (auto simp: move_to_end_same)
  note again = check_and_set_within [OF conjunct1 [OF tr]]
  have "check_and_set (ci_now io') (ci_db io') (ic_tenant_id ctx) (py_str (pget data ''raw_event_id'')) None (cs_tracker c') =
      (cs_tracker c'\<lparr>tr_cache := move_to_end ?key (tr_cache (cs_tracker c'))\<rparr>, Inr False)"
    using again(1) tr assms(4) by simp
  moreover have "get_cached_result (ci_now_cached io') (ci_db io') (ic_tenant_id ctx) (py_str (pget data ''raw_event_id''))
      (cs_tracker c'\<lparr>tr_cache := move_to_end ?key (tr_cache (cs_tracker c'))\<rparr>) = None"
    using again(2) tr assms(5) by simp
  ultimately show ?thesis using sent(1-3) by (simp add: process_raw_message_def Let_def)
qed

text \<open>(C14) What the committed offset of the bridge means in every reachable state, restarts included: every message below it was
  handed to the processing at least once, and the last one below it was handled. A message whose headers are
  no UTF-8 is never passed: no offset above it is ever committed.\<close>

theorem bridge_committed:
  assumes "bridge_reach m2 cfg klog b"
  shows "br_committed b \<le> length klog \<and>
    (\<forall>i < br_committed b. good_headers (klog ! i) \<and> (\<exists>r. (i, r) \<in> set (br_outcomes b))) \<and>
    (br_committed b = 0 \<or> (\<exists>out. (br_committed b - 1, Inr out) \<in> set (br_outcomes b)))"
  using bridge_inv_reach [OF assms] by (auto simp: bridge_inv_def)

text \<open>An example: M2 accepts the event \<open>ok\<close> and rejects every other.\<close>

definition demo_m2 :: m2_service where
  "demo_m2 sent = Inr \<lparr> mr_status = (if pget (mq_json (last sent)) ''raw_event_id'' = PStr ''ok'' then 200 else 422), mr_json = Inr [], mr_text = [] \<rparr>"

definition demo_cfg :: consumer_config where
  "demo_cfg = \<lparr> cc_m2_base_url = ''http://m2'', cc_m2_auth_token = ''k'', cc_retry = default_policy\<lparr>rp_max_retries := 0\<rparr> \<rparr>"

definition demo_io :: consumer_io where
  "demo_io = \<lparr> ci_now = 0, ci_now_cached = 0, ci_now_done = 0, ci_db = good_db, ci_random = (\<lambda>_. 0) \<rparr>"

definition demo_msg :: "string \<Rightarrow> kafka_message" where
  "demo_msg i = \<lparr> km_value = DictMessage [(''raw_event_id'', PStr i), (''tenant_id'', PStr ''acme'')], km_headers = [] \<rparr>"

lemmas consumer_run_defs = process_raw_message_def message_data_def message_context_def str_field_def hget_def check_and_set_def check_cache_def
  check_db_def remember_key_def write_db_def make_key_def new_consumer_def new_tracker_def m1_adapt_def m1_payload_def ctx_tenant_def ctx_source_def
  execute_retry_def send_to_m2_def m2_answer_def m2_request_of_def demo_m2_def demo_cfg_def demo_io_def demo_msg_def default_policy_def
  as_dict_def Let_def pget_def pget_default_def por_def fresh_def good_db_def

lemma demo_failed:
  "\<exists>c e. process_raw_message demo_m2 demo_cfg demo_io (km_value (demo_msg ''bad'')) [] new_consumer = (c, Inl e) \<and>
     cs_sent c \<noteq> [] \<and> length (cs_sent c) = 1"
  by (simp add: consumer_run_defs)

lemma demo_bridge:
  "\<exists>b1 b2 e out. bridge_step demo_m2 demo_cfg demo_io None (demo_msg ''bad'') bridge_start = (b1, Continue) \<and>
     bridge_step demo_m2 demo_cfg demo_io None (demo_msg ''ok'') b1 = (b2, Continue) \<and>
     br_position b1 = 1 \<and> br_committed b2 = 2 \<and> br_outcomes b2 = [(0, Inl e), (1, Inr out)]"
  by (simp add: bridge_step_def bridge_start_def consumer_run_defs)

theorem consumer_dispatch_witness:
  "\<exists>n req. cs_sent (fst (process_raw_message demo_m2 demo_cfg demo_io (km_value (demo_msg ''bad'')) [] new_consumer)) = replicate n req \<and> n \<le> 1"
proof -
  obtain c r where r: "process_raw_message demo_m2 demo_cfg demo_io (km_value (demo_msg ''bad'')) [] new_consumer = (c, r)" by (metis surj_pair)
  have z: "cs_sent new_consumer = []" "nat (rp_max_retries (cc_retry demo_cfg) + 1) = 1" by (simp_all add: new_consumer_def demo_cfg_def)
  obtain n req where "cs_sent c = replicate n req" "n \<le> 1" using consumer_dispatch [OF r] unfolding z append_Nil by blast
  then show ?thesis using r by auto
qed

theorem consumer_loses_failed_witness:
  "\<exists>c e. process_raw_message demo_m2 demo_cfg demo_io (km_value (demo_msg ''bad'')) [] new_consumer = (c, Inl e) \<and>
     (\<exists>c' out. process_raw_message demo_m2 demo_cfg (demo_io\<lparr>ci_now := 60, ci_now_cached := 61\<rparr>) (km_value (demo_msg ''bad'')) [] c = (c', Inr out) \<and>
        cs_sent c' = cs_sent c \<and> co_status out = ''DUPLICATE_SUPPRESSED'' \<and> co_result out = None)"
proof -
  obtain c e where r: "process_raw_message demo_m2 demo_cfg demo_io (km_value (demo_msg ''bad'')) [] new_consumer = (c, Inl e)" and ne: "cs_sent c \<noteq> []"
    using demo_failed by blast
  have "cs_sent c \<noteq> cs_sent new_consumer" "tr_ttl (cs_tracker new_consumer) = 3600" using ne by (simp_all add: new_consumer_def new_tracker_def)
  then show ?thesis using r consumer_loses_failed [OF r, of "demo_io\<lparr>ci_now := 60, ci_now_cached := 61\<rparr>" demo_m2 demo_cfg]
    by (simp add: demo_io_def)
qed

theorem bridge_committed_witness:
  "\<exists>b. bridge_reach demo_m2 demo_cfg [demo_msg ''bad'', demo_msg ''ok''] b \<and> br_committed b = 2 \<and> (\<exists>out. (1, Inr out) \<in> set (br_outcomes b))"
proof -
  obtain b1 b2 where s: "bridge_step demo_m2 demo_cfg demo_io None (demo_msg ''bad'') bridge_start = (b1, Continue)"
    "bridge_step demo_m2 demo_cfg demo_io None (demo_msg ''ok'') b1 = (b2, Continue)" "br_position b1 = 1" "br_committed b2 = 2"
    using demo_bridge by blast
  have "bridge_reach demo_m2 demo_cfg [demo_msg ''bad'', demo_msg ''ok''] b1"
    using bridge_reach.step [OF bridge_reach.start] s(1) by (fastforce simp: bridge_start_def)
  then have "bridge_reach demo_m2 demo_cfg [demo_msg ''bad'', demo_msg ''ok''] b2"
    using bridge_reach.step s(2,3) by fastforce
  then show ?thesis using bridge_committed s(4) by fastforce
qed

text \<open>The offset of a message that failed is committed with the next message that is handled, so that no consumer reads
  it again: the bridge then stands behind it, also after a restart.\<close>

theorem bridge_skips_failed:
  assumes "bridge_step m2 cfg io commit msg b = (b1, Continue)" and "last (br_outcomes b1) = (br_position b, Inl e)"
    and "bridge_step m2 cfg io' None msg' b1 = (b2, Continue)" and "last (br_outcomes b2) = (br_position b + 1, Inr out)"
  shows "br_position b < br_committed b2 \<and> br_position (bridge_restart b2) = br_position b + 2"
  using assms(3)
proof (cases rule: bridge_step_cases)
  case (handled out')
  from assms(1) have "br_position b1 = br_position b + 1" by (cases rule: bridge_step_cases) auto
  then show ?thesis using handled by simp
qed (use assms(4) in auto)

theorem bridge_skips_failed_witness:
  "\<exists>b2. br_position bridge_start < br_committed b2 \<and> br_position (bridge_restart b2) = 2 \<and> (\<exists>e. (0, Inl e) \<in> set (br_outcomes b2))"
proof -
  obtain b1 b2 e out where s: "bridge_step demo_m2 demo_cfg demo_io None (demo_msg ''bad'') bridge_start = (b1, Continue)"
    "bridge_step demo_m2 demo_cfg demo_io None (demo_msg ''ok'') b1 = (b2, Continue)" "br_position b1 = 1" "br_outcomes b2 = [(0, Inl e), (1, Inr out)]"
    using demo_bridge by blast
  have z: "br_position bridge_start = 0" "br_outcomes bridge_start = []" by (simp_all add: bridge_start_def)
  have o1: "last (br_outcomes b1) = (br_position bridge_start, Inl e)"
    using s(1) by (cases rule: bridge_step_cases) (use s(2,4) z in \<open>auto elim: bridge_step_cases\<close>)
  show ?thesis using bridge_skips_failed [OF s(1) o1 s(2), of out] s(4) z by auto
qed

end
