(* ===== verification/Int_Gateway.thy ===== *)
theory Int_Gateway
  imports Int_Adapters Py_Bytes
begin

section \<open>Integration: ingress gateway, service credentials, health\<close>

text \<open>
  \<open>integration/security/ingress_gateway.py\<close>, \<open>service_auth.py\<close> and \<open>integration/observability/health.py\<close>. The process
  environment is a partial function, the HTTP client a function from the forwarded request to the answer or
  the error; the random correlation identifier is an argument.
\<close>

type_synonym os_env = "string \<Rightarrow> string option"

definition getenv :: "os_env \<Rightarrow> string \<Rightarrow> string \<Rightarrow> string" where
  "getenv env k d = (case env k of Some v \<Rightarrow> v | None \<Rightarrow> d)"

definition rstrip_slash :: "string \<Rightarrow> string" where
  "rstrip_slash = rstrip_by (\<lambda>c. c = CHR ''/'')"

definition lstrip_slash :: "string \<Rightarrow> string" where
  "lstrip_slash = lstrip_by (\<lambda>c. c = CHR ''/'')"

subsection \<open>Service credentials\<close>

record service_auth =
  sa_m1_internal_token :: string
  sa_m2_service_token :: string
  sa_m3_service_token :: string
  sa_m4_service_token :: string
  sa_m5_service_token :: string
  sa_m6_service_token :: string

definition new_service_auth :: "os_env \<Rightarrow> service_auth" where
  "new_service_auth env =
     \<lparr> sa_m1_internal_token = getenv env ''M1_INTERNAL_TOKEN'' ''test-token-12345'',
       sa_m2_service_token = getenv env ''M2_SERVICE_TOKEN'' ''system-admin-token'',
       sa_m3_service_token = getenv env ''M3_SERVICE_TOKEN'' ''m3-service-key'',
       sa_m4_service_token = getenv env ''M4_SERVICE_TOKEN'' ''system-admin-token'',
       sa_m5_service_token = getenv env ''M5_SERVICE_TOKEN'' ''admin'',
       sa_m6_service_token = getenv env ''M6_SERVICE_TOKEN'' ''m6-control-key'' \<rparr>"

definition with_correlation :: "string option \<Rightarrow> (string \<times> string) list \<Rightarrow> (string \<times> string) list" where
  "with_correlation cid hs = (case cid of Some (c # cs) \<Rightarrow> dict_set ''X-Correlation-ID'' (c # cs) hs | _ \<Rightarrow> hs)"

definition get_m1_headers :: "service_auth \<Rightarrow> string option \<Rightarrow> (string \<times> string) list" where
  "get_m1_headers sa cid = with_correlation cid [(''Authorization'', ''Bearer '' @ sa_m1_internal_token sa)]"

definition get_m2_headers :: "service_auth \<Rightarrow> string option \<Rightarrow> (string \<times> string) list" where
  "get_m2_headers sa cid =
     with_correlation cid [(''Authorization'', ''Bearer '' @ sa_m2_service_token sa), (''X-API-Key'', sa_m2_service_token sa)]"

definition get_m3_headers :: "service_auth \<Rightarrow> string option \<Rightarrow> (string \<times> string) list" where
  "get_m3_headers sa cid = with_correlation cid [(''Authorization'', ''Bearer '' @ sa_m3_service_token sa)]"

definition get_m4_headers :: "service_auth \<Rightarrow> string option \<Rightarrow> (string \<times> string) list" where
  "get_m4_headers sa cid = with_correlation cid [(''X-API-Key'', sa_m4_service_token sa)]"

definition get_m5_headers :: "service_auth \<Rightarrow> string option \<Rightarrow> (string \<times> string) list" where
  "get_m5_headers sa cid = with_correlation cid [(''Authorization'', ''Bearer '' @ sa_m5_service_token sa), (''X-Tenant-ID'', ''admin'')]"

subsection \<open>Gateway\<close>

record credential =
  cr_tenant_id :: string
  cr_principal :: string
  cr_allowed_sources :: "string list"

type_synonym registry = "(string, credential) dict"

definition TENANT_CREDENTIAL_REGISTRY :: registry where
  "TENANT_CREDENTIAL_REGISTRY =
     [(''key-tenant-cisco-prod'', \<lparr> cr_tenant_id = ''tenant-cisco'', cr_principal = ''cisco-log-collector'',
         cr_allowed_sources = [''cisco-asa-fw01'', ''cisco-asa-fw02'', ''cisco-*''] \<rparr>),
      (''key-tenant-windows-prod'', \<lparr> cr_tenant_id = ''tenant-windows'', cr_principal = ''windows-event-forwarder'',
         cr_allowed_sources = [''win-dc01'', ''win-srv01'', ''win-*''] \<rparr>),
      (''key-tenant-alpha-prod'', \<lparr> cr_tenant_id = ''tenant-alpha'', cr_principal = ''alpha-agent-01'', cr_allowed_sources = [''alpha-*''] \<rparr>),
      (''key-tenant-beta-prod'', \<lparr> cr_tenant_id = ''tenant-beta'', cr_principal = ''beta-agent-01'', cr_allowed_sources = [''beta-*''] \<rparr>)]"

record gateway =
  gw_m1_internal_url :: string
  gw_credentials :: registry

definition new_gateway :: "os_env \<Rightarrow> string option \<Rightarrow> registry option \<Rightarrow> gateway" where
  "new_gateway env url registry =
     \<lparr> gw_m1_internal_url = rstrip_slash (case url of Some (c # cs) \<Rightarrow> c # cs | _ \<Rightarrow> getenv env ''M1_INTERNAL_URL'' ''http://localhost:8001''),
       gw_credentials = (case registry of Some (x # xs) \<Rightarrow> x # xs | _ \<Rightarrow> TENANT_CREDENTIAL_REGISTRY) \<rparr>"

definition client_token :: "string option \<Rightarrow> string option \<Rightarrow> string option" where
  "client_token auth_header api_key_header =
     (case auth_header of
        Some (c # cs) \<Rightarrow>
          Some (if starts_with (c # cs) ''Bearer '' then strip (drop 7 (c # cs)) else strip (c # cs))
      | _ \<Rightarrow> (case api_key_header of Some (c # cs) \<Rightarrow> Some (strip (c # cs)) | _ \<Rightarrow> None))"

definition authenticate_client :: "string \<Rightarrow> gateway \<Rightarrow> string option \<Rightarrow> string option \<Rightarrow> string option \<Rightarrow> integration_context result" where
  "authenticate_client uuid gw auth_header api_key_header requested_tenant_header =
     (let refused = Inl (HTTPException 401 ''Invalid or missing client credentials'') in
      case client_token auth_header api_key_header of
        None \<Rightarrow> refused
      | Some [] \<Rightarrow> refused
      | Some token \<Rightarrow>
          (case map_of (gw_credentials gw) token of
             None \<Rightarrow> refused
           | Some cred \<Rightarrow>
               (case requested_tenant_header of
                  Some (r # rs) \<Rightarrow>
                    if strip (r # rs) \<noteq> cr_tenant_id cred then
                      Inl (HTTPException 403 (''Forbidden: credential for '' @ quoted (cr_tenant_id cred) @ '' cannot act as tenant '' @ quoted (r # rs)))
                    else Inr \<lparr> ic_tenant_id = cr_tenant_id cred, ic_source_id = ''external-ingress'', ic_principal = Some (cr_principal cred),
                               ic_correlation_id = uuid, ic_ingested_at = None \<rparr>
                | _ \<Rightarrow> Inr \<lparr> ic_tenant_id = cr_tenant_id cred, ic_source_id = ''external-ingress'', ic_principal = Some (cr_principal cred),
                             ic_correlation_id = uuid, ic_ingested_at = None \<rparr>)))"

record forwarded =
  fw_method :: string
  fw_url :: string
  fw_headers :: "(string \<times> string) list"
  fw_body :: "byte list"

definition forward_request :: "os_env \<Rightarrow> service_auth \<Rightarrow> gateway \<Rightarrow> string \<Rightarrow> string \<Rightarrow> byte list \<Rightarrow> integration_context \<Rightarrow> string \<Rightarrow>
    string option \<Rightarrow> forwarded" where
  "forward_request env sa gw path verb body ctx content_type source_id =
     (let ctx' = (case source_id of Some (c # cs) \<Rightarrow> ctx\<lparr>ic_source_id := c # cs\<rparr> | _ \<Rightarrow> ctx);
          token = getenv env ''M1_INTERNAL_TOKEN'' (sa_m1_internal_token sa);
          target = (if lstrip_slash path \<in> {''v1/ingest/event'', ''v1/ingest/raw'', ''v1/events''} then ''v1/events'' else lstrip_slash path);
          base = rstrip_slash (getenv env ''M1_INTERNAL_URL'' (gw_m1_internal_url gw))
      in \<lparr> fw_method = verb, fw_url = base @ ''/'' @ target,
           fw_headers = [(''Content-Type'', content_type), (''Authorization'', ''Bearer '' @ token), (''X-Tenant-ID'', ic_tenant_id ctx'),
             (''X-Source-ID'', ic_source_id ctx'), (''X-Correlation-ID'', ic_correlation_id ctx'),
             (''X-Authenticated-Principal'', case ic_principal ctx' of Some (c # cs) \<Rightarrow> c # cs | _ \<Rightarrow> ''unknown'')],
           fw_body = body \<rparr>)"

record client_request =
  cq_path :: string
  cq_method :: string
  cq_authorization :: "string option"
  cq_api_key :: "string option"
  cq_tenant_id :: "string option"
  cq_source_id :: "string option"
  cq_content_type :: "string option"
  cq_body :: "byte list"

record gateway_response =
  gr_status :: int
  gr_content :: "byte list"
  gr_media_type :: string
  gr_correlation_id :: string

text \<open>\<open>ingest_event\<close>: the request that is forwarded, where there is one, and the answer to the client.\<close>

definition ingest_event :: "os_env \<Rightarrow> service_auth \<Rightarrow> gateway \<Rightarrow> string \<Rightarrow> (forwarded \<Rightarrow> (int \<times> (string \<times> string) list \<times> byte list) result) \<Rightarrow>
    client_request \<Rightarrow> forwarded option \<times> gateway_response result" where
  "ingest_event env sa gw uuid m1 req =
     (case authenticate_client uuid gw (cq_authorization req) (cq_api_key req) (cq_tenant_id req) of
        Inl e \<Rightarrow> (None, Inl e)
      | Inr ctx \<Rightarrow>
          let content_type = (case cq_content_type req of Some t \<Rightarrow> t | None \<Rightarrow> ''application/json'');
              fw = forward_request env sa gw (cq_path req) (cq_method req) (cq_body req) ctx content_type (cq_source_id req)
          in (Some fw,
              rbind (m1 fw) (\<lambda>(status, headers, content).
                Inr \<lparr> gr_status = status, gr_content = content,
                      gr_media_type = (case map_of headers ''content-type'' of Some t \<Rightarrow> t | None \<Rightarrow> ''application/json''),
                      gr_correlation_id = ic_correlation_id ctx \<rparr>)))"

subsection \<open>Health of the system\<close>

record module_health =
  mh_module :: string
  mh_healthy :: bool
  mh_status_code :: "int option"
  mh_error :: "string option"

text \<open>The client answers with a status, its content type and the outcome of reading its body as JSON, or raises.\<close>

type_synonym probe = "string \<Rightarrow> (int \<times> string \<times> pydict result) result"

definition probe_service :: "probe \<Rightarrow> string \<Rightarrow> string \<Rightarrow> module_health" where
  "probe_service get name url =
     (case rbind (get url) (\<lambda>(status, content_type, body).
             if starts_with content_type ''application/json'' then rbind body (\<lambda>_. Inr status) else Inr status) of
        Inr status \<Rightarrow> \<lparr> mh_module = name, mh_healthy = (status \<in> {200, 202}), mh_status_code = Some status, mh_error = None \<rparr>
      | Inl e \<Rightarrow> \<lparr> mh_module = name, mh_healthy = False, mh_status_code = None, mh_error = Some (exn_str e) \<rparr>)"

definition health_endpoints :: "os_env \<Rightarrow> (string \<times> string) list" where
  "health_endpoints env =
     map (\<lambda>(name, var, d). (name, rstrip_slash (getenv env var d) @ ''/health''))
       [(''M1'', ''M1_URL'', ''http://localhost:8001''), (''M2'', ''M2_URL'', ''http://localhost:8082''),
        (''M3'', ''M3_URL'', ''http://localhost:8083''), (''M4'', ''M4_URL'', ''http://localhost:8004''),
        (''M5'', ''M5_URL'', ''http://localhost:8085''), (''M6'', ''M6_URL'', ''http://localhost:8086''),
        (''Ingress_Gateway'', ''GATEWAY_URL'', ''http://localhost:8080''), (''Config_Sync'', ''CONFIG_SYNC_URL'', ''http://localhost:8081'')]"

record health_report =
  rep_status :: string
  rep_modules :: "(string, module_health) dict"

definition check_system_health :: "os_env \<Rightarrow> probe \<Rightarrow> health_report" where
  "check_system_health env get =
     (let results = map (\<lambda>(name, url). probe_service get name url) (health_endpoints env);
          module_map = fold (\<lambda>r. dict_set (mh_module r) r) results [];
          all_healthy = list_all mh_healthy results;
          core_healthy = list_all (\<lambda>md. case map_of module_map md of Some r \<Rightarrow> mh_healthy r | None \<Rightarrow> True)
            [''M1'', ''M2'', ''M3'', ''M4'', ''M5'', ''M6'']
      in \<lparr> rep_status = (if all_healthy then ''HEALTHY'' else if core_healthy then ''DEGRADED'' else ''UNAVAILABLE''), rep_modules = module_map \<rparr>)"

definition get_system_health :: "os_env \<Rightarrow> probe \<Rightarrow> int \<times> health_report" where
  "get_system_health env get =
     (let report = check_system_health env get in (if rep_status report = ''UNAVAILABLE'' then 503 else 200, report))"

subsection \<open>Facts\<close>

lemma authenticate_ok:
  assumes "authenticate_client uuid gw auth api requested = Inr ctx"
  obtains token cred where "client_token auth api = Some token" "token \<noteq> []" "map_of (gw_credentials gw) token = Some cred"
    "ctx = \<lparr> ic_tenant_id = cr_tenant_id cred, ic_source_id = ''external-ingress'', ic_principal = Some (cr_principal cred),
       ic_correlation_id = uuid, ic_ingested_at = None \<rparr>"
    "\<And>r. requested = Some r \<Longrightarrow> r = [] \<or> strip r = cr_tenant_id cred"
  using assms by (auto simp: authenticate_client_def Let_def split: option.splits list.splits if_splits)

lemma forward_tenant:
  "map_of (fw_headers (forward_request env sa gw path verb body ctx ct src)) ''X-Tenant-ID'' = Some (ic_tenant_id ctx)"
  "map_of (fw_headers (forward_request env sa gw path verb body ctx ct src)) ''Authorization'' =
     Some (''Bearer '' @ getenv env ''M1_INTERNAL_TOKEN'' (sa_m1_internal_token sa))"
  "fw_body (forward_request env sa gw path verb body ctx ct src) = body"
  by (simp_all add: forward_request_def Let_def split: option.splits list.splits)

lemma probe_module [simp]: "mh_module (probe_service get name url) = name"
  by (auto simp: probe_service_def split: sum.splits)

lemma probe_healthy:
  "mh_healthy (probe_service get name url) \<longleftrightarrow>
   (\<exists>st ct body. get url = Inr (st, ct, body) \<and> (st = 200 \<or> st = 202) \<and> (starts_with ct ''application/json'' \<longrightarrow> (\<exists>d. body = Inr d)))"
  by (cases "get url") (auto simp: probe_service_def rbind_def split: sum.splits if_splits)

lemma probe_map:
  "distinct (map fst es) \<Longrightarrow> map_of (fold (\<lambda>r. dict_set (mh_module r) r) (map (\<lambda>(name, url). probe_service get name url) es) d) md =
     (case map_of es md of Some url \<Rightarrow> Some (probe_service get md url) | None \<Rightarrow> map_of d md)"
  by (induction es arbitrary: d) (force split: option.splits)+

lemma core_all:
  assumes "distinct (map fst es)"
  shows "list_all (\<lambda>md. case (case map_of es md of Some url \<Rightarrow> Some (probe_service get md url) | None \<Rightarrow> None) of
      Some r \<Rightarrow> mh_healthy r | None \<Rightarrow> True) names \<longleftrightarrow>
    (\<forall>e \<in> set es. fst e \<in> set names \<longrightarrow> mh_healthy (probe_service get (fst e) (snd e)))"
  using assms by (force simp: list_all_iff dest: map_of_SomeD split: option.splits)

definition core_modules :: "string list" where
  "core_modules = [''M1'', ''M2'', ''M3'', ''M4'', ''M5'', ''M6'']"

subsection \<open>Properties\<close>

text \<open>The gateway forwards a request only for a registered credential, and then under the tenant of that credential
  alone: a client that names another tenant is refused with status 403, one without a known credential with
  401, and in both cases nothing is forwarded. The forwarded headers carry the internal token and the
  authorised tenant, and no header of the client but its content type and source.\<close>

theorem gateway_no_spoofing:
  "case ingest_event env sa gw uuid m1 req of
     (Some fw, _) \<Rightarrow> \<exists>token cred. client_token (cq_authorization req) (cq_api_key req) = Some token \<and> token \<noteq> [] \<and>
       map_of (gw_credentials gw) token = Some cred \<and>
       (\<forall>r. cq_tenant_id req = Some r \<longrightarrow> r = [] \<or> strip r = cr_tenant_id cred) \<and>
       map_of (fw_headers fw) ''X-Tenant-ID'' = Some (cr_tenant_id cred) \<and>
       map_of (fw_headers fw) ''Authorization'' = Some (''Bearer '' @ getenv env ''M1_INTERNAL_TOKEN'' (sa_m1_internal_token sa)) \<and>
       map fst (fw_headers fw) = [''Content-Type'', ''Authorization'', ''X-Tenant-ID'', ''X-Source-ID'', ''X-Correlation-ID'', ''X-Authenticated-Principal''] \<and>
       fw_body fw = cq_body req
   | (None, r) \<Rightarrow> \<exists>code detail. r = Inl (HTTPException code detail) \<and>
       (code = 401 \<and> (\<forall>token. client_token (cq_authorization req) (cq_api_key req) = Some token \<longrightarrow> token = [] \<or> map_of (gw_credentials gw) token = None) \<or>
        code = 403 \<and> (\<exists>token cred r. client_token (cq_authorization req) (cq_api_key req) = Some token \<and>
          map_of (gw_credentials gw) token = Some cred \<and> cq_tenant_id req = Some r \<and> strip r \<noteq> cr_tenant_id cred))"
proof (cases "authenticate_client uuid gw (cq_authorization req) (cq_api_key req) (cq_tenant_id req)")
  case (Inl e)
  then show ?thesis
    by (auto simp: ingest_event_def authenticate_client_def Let_def split: option.splits list.splits if_splits)
next
  case (Inr ctx)
  then obtain token cred where "client_token (cq_authorization req) (cq_api_key req) = Some token" "token \<noteq> []"
    "map_of (gw_credentials gw) token = Some cred" "ic_tenant_id ctx = cr_tenant_id cred"
    "\<And>r. cq_tenant_id req = Some r \<Longrightarrow> r = [] \<or> strip r = cr_tenant_id cred"
    by (auto elim: authenticate_ok)
  then show ?thesis using Inr by (auto simp: ingest_event_def Let_def forward_request_def split: option.splits list.splits)
qed

definition cross_tenant_request :: client_request where
  "cross_tenant_request = \<lparr> cq_path = ''/v1/events'', cq_method = ''POST'', cq_authorization = None, cq_api_key = Some ''key-tenant-alpha-prod'',
     cq_tenant_id = Some ''tenant-beta'', cq_source_id = None, cq_content_type = None, cq_body = [] \<rparr>"

lemma cross_tenant_token: "client_token None (Some ''key-tenant-alpha-prod'') = Some ''key-tenant-alpha-prod''" "strip ''tenant-beta'' = ''tenant-beta''"
  by code_simp+

theorem gateway_no_spoofing_witness:
  "\<exists>detail. ingest_event (\<lambda>_. None) (new_service_auth (\<lambda>_. None)) (new_gateway (\<lambda>_. None) None None) ''u'' (\<lambda>_. Inl IndexError) cross_tenant_request =
     (None, Inl (HTTPException 403 detail))"
proof -
  have n: "fst (ingest_event (\<lambda>_. None) (new_service_auth (\<lambda>_. None)) (new_gateway (\<lambda>_. None) None None) ''u'' (\<lambda>_. Inl IndexError) cross_tenant_request) = None"
    by (simp add: ingest_event_def authenticate_client_def cross_tenant_request_def cross_tenant_token new_gateway_def TENANT_CREDENTIAL_REGISTRY_def)
  then show ?thesis
    using gateway_no_spoofing [where env = "\<lambda>_. None" and sa = "new_service_auth (\<lambda>_. None)" and gw = "new_gateway (\<lambda>_. None) None None"
        and uuid = "''u''" and ?m1.0 = "\<lambda>_. Inl IndexError" and req = cross_tenant_request]
    by (auto simp: cross_tenant_request_def cross_tenant_token new_gateway_def TENANT_CREDENTIAL_REGISTRY_def split: prod.splits option.splits)
qed

text \<open>The aggregated status: healthy when all eight endpoints answer 200 or 202, unavailable (503) when one of the six
  modules does not, degraded (200) when only the gateway or the configuration worker does not.\<close>

theorem system_health_meaning:
  "let up = (\<lambda>e. mh_healthy (probe_service get (fst e) (snd e)));
       core = (\<forall>e \<in> set (health_endpoints env). fst e \<in> set core_modules \<longrightarrow> up e);
       every = (\<forall>e \<in> set (health_endpoints env). up e)
   in rep_status (snd (get_system_health env get)) = (if every then ''HEALTHY'' else if core then ''DEGRADED'' else ''UNAVAILABLE'') \<and>
      fst (get_system_health env get) = (if core then 200 else 503)"
proof -
  define es where "es = health_endpoints env"
  have d: "distinct (map fst es)" by (simp add: es_def health_endpoints_def)
  show ?thesis
    unfolding get_system_health_def check_system_health_def es_def [symmetric] Let_def core_modules_def [symmetric] probe_map [OF d] map_of.simps
      core_all [OF d]
    by (simp add: list_all_iff case_prod_unfold)
qed

end
