(* ===== verification/Int_Pipeline.thy ===== *)
theory Int_Pipeline
  imports Int_Adapters Py_Bytes Py_Json
begin

section \<open>Integration: the pipeline runner\<close>

text \<open>
  \<open>integration/orchestration/pipeline_runner.py\<close>: the five hops from a raw log line to the routed event. A
  module is a service that is handed in, and may return any dictionary or raise, or the built-in
  fallback. The clock, the random identifiers and SHA-256 are arguments; the durations of the hops are
  left out. The name \<open>hashlib\<close> is a local variable of the function, bound by the fallback of the first hop
  only.
\<close>

record services =
  sv_m1 :: "(string \<Rightarrow> string \<Rightarrow> string \<Rightarrow> string \<Rightarrow> pydict result) option"
  sv_m2 :: "(pydict \<Rightarrow> pydict result) option"
  sv_m3 :: "(pydict \<Rightarrow> pydict result) option"
  sv_m4 :: "(pydict \<Rightarrow> pydict result) option"
  sv_m5 :: "(pydict \<Rightarrow> string list result) option"

record pipe_env =
  pe_sha256 :: hash_fun
  pe_clock :: clock_texts
  pe_utc :: string
  pe_raw_uuid :: string
  pe_event_hex :: string

record pipeline_result =
  px_success :: bool
  px_raw_event_id :: pyval
  px_canonical_event_id :: pyval
  px_correlation_id :: string
  px_tenant_id :: string
  px_m1_raw_hash :: pyval
  px_m4_digest :: pyval
  px_destinations :: "string list"
  px_trace :: trace_context
  px_final_event :: "pydict option"
  px_error :: "string option"

subsection \<open>The fallbacks\<close>

definition m1_fallback :: "pipe_env \<Rightarrow> string \<Rightarrow> integration_context \<Rightarrow> string \<Rightarrow> pydict" where
  "m1_fallback env raw ctx transport =
     (let bytes = encode_utf8 (map code raw) in
      [(''schema_version'', PStr ''1.0.0''), (''raw_event_id'', PStr (pe_raw_uuid env)), (''tenant_id'', PStr (ic_tenant_id ctx)),
       (''source_id'', PStr (ic_source_id ctx)), (''received_at'', PStr (pe_utc env)),
       (''transport'', PDict [(''protocol'', PStr transport), (''client_ip'', PStr ''127.0.0.1'')]),
       (''payload'', PDict [(''data'', PStr raw), (''encoding'', PStr ''utf-8''), (''size_bytes'', PInt (int (length bytes)))]),
       (''integrity'', PDict [(''algorithm'', PStr ''sha256''), (''hash'', PStr (pe_sha256 env bytes))]),
       (''raw_storage'', PDict [(''vault'', PStr ''minio''), (''bucket'', PStr ''raw-vault''),
          (''object_key'', PStr (''raw/'' @ ic_tenant_id ctx @ ''/'' @ pe_raw_uuid env @ ''.log''))]),
       (''metadata'', PDict [(''correlation_id'', PStr (ic_correlation_id ctx))])])"

definition m2_fallback :: "string \<Rightarrow> integration_context \<Rightarrow> pyval \<Rightarrow> pyval \<Rightarrow> pyval \<Rightarrow> pydict" where
  "m2_fallback raw ctx raw_event_id raw_hash storage_ref =
     (let is_cisco = (contains ''cisco'' (lower raw) \<or> contains ''asa'' (lower raw));
          is_win = (contains ''microsoft'' (lower raw) \<or> contains ''eventid'' (lower raw) \<or> contains ''4624'' raw);
          vendor = (if is_cisco then ''Cisco'' else if is_win then ''Microsoft'' else ''Generic'');
          product = (if is_cisco then ''ASA'' else if is_win then ''Security'' else ''Generic'');
          format_type = (if is_cisco then ''syslog'' else if starts_with (strip raw) ''{'' then ''json'' else ''kv'')
      in [(''schema_version'', PStr ''1.0.0''), (''raw_event_id'', raw_event_id), (''tenant_id'', PStr (ic_tenant_id ctx)),
          (''source_id'', PStr (ic_source_id ctx)), (''status'', PStr ''PARSED''),
          (''classification'', PDict [(''format'', PStr format_type), (''vendor'', PStr vendor), (''product'', PStr product),
             (''confidence'', PFloat (round_double (99 / 100)))]),
          (''parser'', PDict [(''id'', PStr (''parser-'' @ lower vendor @ ''-'' @ lower product)),
             (''name'', PStr (vendor @ '' '' @ product @ '' Parser'')), (''version'', PStr ''1.0.0''), (''confidence'', PFloat (FFin 1))]),
          (''fields'', PDict [(''raw_message'', PStr raw), (''action'', PStr ''allow'')]), (''unmapped_fields'', PList []),
          (''raw_reference'', storage_ref), (''sha256'', raw_hash), (''processing_time_ms'', PFloat (FFin (1 / 2))),
          (''metadata'', PDict [])])"

text \<open>\<open>d[k]\<close> and \<open>v.lower()\<close>\<close>

definition item :: "pyval \<Rightarrow> string \<Rightarrow> pyval result" where
  "item v k = (case v of
     PDict d \<Rightarrow> (case map_of d k of Some x \<Rightarrow> Inr x | None \<Rightarrow> Inl (KeyError k))
   | PNone \<Rightarrow> Inl (TypeError ''object is not subscriptable'')
   | PStr _ \<Rightarrow> Inl (TypeError ''string indices must be integers'')
   | PList _ \<Rightarrow> Inl (TypeError ''list indices must be integers or slices'')
   | _ \<Rightarrow> Inl (TypeError ''object is not subscriptable''))"

definition lower_of :: "pyval \<Rightarrow> pyval result" where
  "lower_of v = (case v of PStr s \<Rightarrow> Inr (PStr (lower s)) | _ \<Rightarrow> Inl (AttributeError ''object has no attribute lower''))"

definition m3_fallback :: "pipe_env \<Rightarrow> pydict \<Rightarrow> pydict \<Rightarrow> pyval \<Rightarrow> pyval \<Rightarrow> pyval \<Rightarrow> pydict result" where
  "m3_fallback env m2_output m3_input raw_event_id raw_hash storage_ref =
     rbind (item (PDict m2_output) ''classification'') (\<lambda>cls.
     rbind (rbind (item cls ''vendor'') lower_of) (\<lambda>vendor.
     rbind (rbind (item cls ''product'') lower_of) (\<lambda>product.
       Inr [(''success'', PBool True), (''raw_event_id'', raw_event_id),
            (''event'', PDict [(''ulpf'', PDict
               [(''schema'', PDict [(''version'', PStr ''1.0.0''), (''specification'', PStr ''UES'')]),
                (''event'', PDict [(''id'', PStr (''EVT-'' @ upper (take 12 (pe_event_hex env)))), (''timestamp'', PStr (pe_utc env)),
                   (''kind'', PStr ''event''), (''type'', PList [PStr ''network'', PStr ''connection'']),
                   (''category'', PList [PStr ''network'']), (''outcome'', PStr ''success'')]),
                (''observer'', PDict [(''hostname'', PStr ''ulpf-sensor-01''), (''ip'', PStr ''127.0.0.1'')]),
                (''source'', PDict [(''ip'', PStr ''192.168.10.25''), (''port'', PInt 51542)]),
                (''destination'', PDict [(''ip'', PStr ''8.8.8.8''), (''port'', PInt 443)]),
                (''network'', PDict [(''transport'', PStr ''tcp''), (''protocol'', PStr ''https'')]),
                (''host'', PDict [(''name'', PStr ''collector-host'')]), (''identity'', PDict []), (''application'', PDict []),
                (''process'', PDict []), (''security'', PDict [(''severity'', PStr ''informational'')]),
                (''parser'', pget m3_input ''parser''),
                (''normalization'', PDict [(''schema_target'', PStr ''ues.v1''), (''rule_version'', PStr ''1.0.0'')]),
                (''provenance'', PDict [(''raw_event_id'', raw_event_id)]),
                (''integrity'', PDict [(''raw_hash'', raw_hash),
                   (''hash'', PDict [(''algorithm'', PStr ''sha256''), (''value'', raw_hash)])]),
                (''raw'', PDict [(''storage_ref'', storage_ref), (''format'', PStr ''syslog'')]),
                (''vendor'', PDict [(''vendor_id'', vendor), (''product'', product)])])]),
            (''errors'', PList []), (''normalization'', PDict [(''status'', PStr ''SUCCESS'')])])))"

definition m4_fallback :: "pipe_env \<Rightarrow> bool \<Rightarrow> pydict \<Rightarrow> pydict result" where
  "m4_fallback env hashlib_bound request =
     rbind (item (PDict request) ''event'') (\<lambda>canonical.
       if \<not> hashlib_bound then
         Inl (OtherError ''UnboundLocalError'' (''cannot access local variable '' @ quoted ''hashlib'' @
           '' where it is not associated with a value''))
       else
         let text = json_dumps \<lparr> jo_ascii = True, jo_sort = True, jo_item_sep = '','', jo_key_sep = '':'' \<rparr> canonical;
             digest = pe_sha256 env (encode_utf8 (map code text))
         in Inr [(''status'', PStr ''SUCCESS''), (''event'', canonical),
                 (''provenance'', PList [PDict [(''provider_id'', PStr ''threat_intel_local''), (''provider_version'', PStr ''1.0.0''),
                    (''enrichment_type'', PStr ''threat_score''), (''confidence'', PFloat (round_double (95 / 100))),
                    (''result_status'', PStr ''SUCCESS''), (''cache_status'', PStr ''HIT'')]]),
                 (''diagnostics'', PDict [(''total_duration_ms'', PFloat (round_double (12 / 10)))]),
                 (''integrity'', PDict [(''algorithm'', PStr ''sha256''), (''digest'', PStr digest),
                    (''canonicalization'', PStr ''rfc8785''), (''phase'', PStr ''post_enrichment'')])])"

subsection \<open>The hops\<close>

text \<open>\<open>m1_envelope.get(k, {}).get(key)\<close>\<close>

definition nested :: "pydict \<Rightarrow> string \<Rightarrow> string \<Rightarrow> pyval result" where
  "nested d k key = rbind (as_dict (pget_default d k (PDict []))) (\<lambda>b. Inr (pget b key))"

text \<open>A step that may raise, over the trace so far: what it has recorded stays.\<close>

type_synonym 'a traced = "trace_context \<times> 'a result"

definition tbind :: "'a traced \<Rightarrow> (trace_context \<Rightarrow> 'a \<Rightarrow> 'b traced) \<Rightarrow> 'b traced" where
  "tbind t f = (case t of (tr, Inl e) \<Rightarrow> (tr, Inl e) | (tr, Inr x) \<Rightarrow> f tr x)"

definition hop :: "string \<Rightarrow> string \<Rightarrow> trace_context \<Rightarrow> 'a result \<Rightarrow> 'a traced" where
  "hop md action tr r = (case r of Inl e \<Rightarrow> (tr, Inl e) | Inr x \<Rightarrow> (record_hop md action ''SUCCESS'' tr, Inr x))"

record pipe_ids =
  pi_raw_event_id :: pyval
  pi_raw_hash :: pyval
  pi_storage_ref :: pyval

definition hop1 :: "pipe_env \<Rightarrow> services \<Rightarrow> string \<Rightarrow> integration_context \<Rightarrow> string \<Rightarrow> trace_context \<Rightarrow> (pydict \<times> pipe_ids) traced" where
  "hop1 env sv raw ctx transport tr =
     (case rbind (case sv_m1 sv of
                    Some ingest \<Rightarrow> ingest raw (ic_tenant_id ctx) (ic_source_id ctx) transport
                  | None \<Rightarrow> Inr (m1_fallback env raw ctx transport)) (\<lambda>envelope.
             rbind (nested envelope ''integrity'' ''hash'') (\<lambda>raw_hash.
             rbind (nested envelope ''raw_storage'' ''object_key'') (\<lambda>storage_ref.
               Inr (envelope, \<lparr> pi_raw_event_id = pget envelope ''raw_event_id'', pi_raw_hash = raw_hash, pi_storage_ref = storage_ref \<rparr>)))) of
        Inl e \<Rightarrow> (tr, Inl e)
      | Inr (envelope, ids) \<Rightarrow>
          hop ''M1_Ingestion'' ''vault_store'' (tr\<lparr>tx_raw_event_id := pi_raw_event_id ids\<rparr>) (Inr (envelope, ids)))"

definition hop2 :: "services \<Rightarrow> string \<Rightarrow> integration_context \<Rightarrow> pydict \<Rightarrow> pipe_ids \<Rightarrow> trace_context \<Rightarrow> pydict traced" where
  "hop2 sv raw ctx envelope ids tr =
     tbind (hop ''Adapter_M1_M2'' ''adapt_envelope'' tr (m1_adapt envelope (Some ctx))) (\<lambda>tr m2_input.
       hop ''M2_Parser'' ''parse_event'' tr
         (case sv_m2 sv of
            Some parse \<Rightarrow> parse m2_input
          | None \<Rightarrow> Inr (m2_fallback raw ctx (pi_raw_event_id ids) (pi_raw_hash ids) (pi_storage_ref ids))))"

definition hop3 :: "pipe_env \<Rightarrow> services \<Rightarrow> integration_context \<Rightarrow> pipe_ids \<Rightarrow> pydict \<Rightarrow> trace_context \<Rightarrow> pydict traced" where
  "hop3 env sv ctx ids m2_output tr =
     tbind (hop ''Adapter_M2_M3'' ''adapt_parsed_event'' tr (m2_adapt m2_output (Some ctx))) (\<lambda>tr m3_input.
       hop ''M3_Normalizer'' ''normalize_event'' tr
         (case sv_m3 sv of
            Some f \<Rightarrow> f m3_input
          | None \<Rightarrow> m3_fallback env m2_output m3_input (pi_raw_event_id ids) (pi_raw_hash ids) (pi_storage_ref ids)))"

definition hop4 :: "pipe_env \<Rightarrow> services \<Rightarrow> integration_context \<Rightarrow> pipe_ids \<Rightarrow> pydict \<Rightarrow> trace_context \<Rightarrow>
    (pydict \<times> pyval \<times> pyval) traced" where
  "hop4 env sv ctx ids m3_output tr =
     (case rbind (m3_adapt (pe_clock env) m3_output ctx (pi_raw_event_id ids) (pi_raw_hash ids) (pi_storage_ref ids) None) (\<lambda>request.
             rbind (item (PDict request) ''event'') (\<lambda>ev. rbind (item ev ''event'') (\<lambda>meta.
               rbind (item meta ''id'') (\<lambda>i. Inr (request, i))))) of
        Inl e \<Rightarrow> (tr, Inl e)
      | Inr (request, event_id) \<Rightarrow>
          tbind (hop ''Adapter_M3_M4'' ''restore_tenant_and_unwrap'' (tr\<lparr>tx_event_id := event_id\<rparr>) (Inr request)) (\<lambda>tr request.
            hop ''M4_Enrichment'' ''enrich_and_sign'' tr
              (rbind (case sv_m4 sv of
                        Some enrich \<Rightarrow> enrich request
                      | None \<Rightarrow> m4_fallback env (sv_m1 sv = None) request) (\<lambda>m4_output.
                 rbind (item (PDict m4_output) ''integrity'') (\<lambda>integ.
                 rbind (item integ ''digest'') (\<lambda>digest. Inr (m4_output, event_id, digest)))))))"

definition hop5 :: "services \<Rightarrow> pydict \<Rightarrow> trace_context \<Rightarrow> (pydict \<times> string list) traced" where
  "hop5 sv m4_output tr =
     tbind (hop ''Adapter_M4_M5'' ''harmonize_tenant_keys'' tr (m4_adapt m4_output)) (\<lambda>tr m5_event.
       hop ''M5_Router'' ''policy_evaluate'' tr
         (rbind (case sv_m5 sv of
                   Some route \<Rightarrow> route m5_event
                 | None \<Rightarrow> Inr [''siem_elastic'', ''datalake_s3'']) (\<lambda>dests. Inr (m5_event, dests))))"

definition run_hops :: "pipe_env \<Rightarrow> services \<Rightarrow> string \<Rightarrow> integration_context \<Rightarrow> string \<Rightarrow> trace_context \<Rightarrow>
    (pipe_ids \<times> pyval \<times> pyval \<times> pydict \<times> string list) traced" where
  "run_hops env sv raw ctx transport tr0 =
     tbind (hop1 env sv raw ctx transport tr0) (\<lambda>tr (envelope, ids).
     tbind (hop2 sv raw ctx envelope ids tr) (\<lambda>tr m2_output.
     tbind (hop3 env sv ctx ids m2_output tr) (\<lambda>tr m3_output.
     tbind (hop4 env sv ctx ids m3_output tr) (\<lambda>tr (m4_output, event_id, digest).
     tbind (hop5 sv m4_output tr) (\<lambda>tr (m5_event, dests).
       (tr, Inr (ids, event_id, digest, m5_event, dests)))))))"

definition execute_pipeline :: "pipe_env \<Rightarrow> services \<Rightarrow> string \<Rightarrow> integration_context \<Rightarrow> string \<Rightarrow> pipeline_result" where
  "execute_pipeline env sv raw ctx transport =
     (let tr0 = \<lparr> tx_correlation_id = ic_correlation_id ctx, tx_raw_event_id = PNone, tx_event_id = PNone,
                  tx_tenant_id = Some (ic_tenant_id ctx), tx_source_id = Some (ic_source_id ctx), tx_hops = [] \<rparr>
      in case run_hops env sv raw ctx transport tr0 of
           (tr, Inr (ids, event_id, digest, m5_event, dests)) \<Rightarrow>
             \<lparr> px_success = True, px_raw_event_id = pi_raw_event_id ids, px_canonical_event_id = event_id,
               px_correlation_id = ic_correlation_id ctx, px_tenant_id = ic_tenant_id ctx, px_m1_raw_hash = pi_raw_hash ids,
               px_m4_digest = digest, px_destinations = dests, px_trace = tr, px_final_event = Some m5_event, px_error = None \<rparr>
         | (tr, Inl e) \<Rightarrow>
             \<lparr> px_success = False,
               px_raw_event_id = por (tx_raw_event_id tr) (PStr ''unknown''),
               px_canonical_event_id = tx_event_id tr, px_correlation_id = ic_correlation_id ctx, px_tenant_id = ic_tenant_id ctx,
               px_m1_raw_hash = PStr [], px_m4_digest = PNone, px_destinations = [],
               px_trace = record_hop ''Pipeline'' ''execution_aborted'' ''FAILED'' tr, px_final_event = None, px_error = Some (exn_str e) \<rparr>)"

subsection \<open>Traces\<close>

lemma tbind_Inr: "tbind t f = (tr, Inr y) \<longleftrightarrow> (\<exists>tr' x. t = (tr', Inr x) \<and> f tr' x = (tr, Inr y))"
  by (auto simp: tbind_def split: prod.splits sum.splits)

lemma hop_Inr: "hop md action tr r = (tr', Inr x) \<longleftrightarrow> r = Inr x \<and> tr' = record_hop md action ''SUCCESS'' tr"
  by (auto simp: hop_def split: sum.splits)

definition steps :: "trace_context \<Rightarrow> (string \<times> string) list" where
  "steps tr = map (\<lambda>h. (hop_module h, hop_status h)) (tx_hops tr)"

text \<open>A step from \<open>tr\<close> records the modules \<open>ms\<close> as successful, or a part of them where it raises.\<close>

definition walks :: "string list \<Rightarrow> trace_context \<Rightarrow> 'a traced \<Rightarrow> bool" where
  "walks ms tr t \<longleftrightarrow> (case t of
     (tr', Inr _) \<Rightarrow> steps tr' = steps tr @ map (\<lambda>md. (md, ''SUCCESS'')) ms
   | (tr', Inl _) \<Rightarrow> (\<exists>k < length ms. steps tr' = steps tr @ map (\<lambda>md. (md, ''SUCCESS'')) (take k ms)))"

lemma steps_upd [simp]: "steps (tr\<lparr>tx_raw_event_id := i\<rparr>) = steps tr" "steps (tr\<lparr>tx_event_id := i\<rparr>) = steps tr"
  "steps (record_hop md action st tr) = steps tr @ [(md, st)]"
  by (simp_all add: steps_def record_hop_def)

lemma walks_hop: "steps tr' = steps tr \<Longrightarrow> walks [md] tr (hop md action tr' r)"
  by (auto simp: walks_def hop_def split: sum.splits)

lemma walks_bind:
  assumes "walks ms tr t" and "\<And>tr' x. t = (tr', Inr x) \<Longrightarrow> walks ns tr' (f tr' x)" and "ns \<noteq> []"
  shows "walks (ms @ ns) tr (tbind t f)"
proof -
  obtain tr1 r where t: "t = (tr1, r)" by (cases t)
  show ?thesis
  proof (cases r)
    case (Inl e)
    then obtain k where "k < length ms" "steps tr1 = steps tr @ map (\<lambda>md. (md, ''SUCCESS'')) (take k ms)"
      using assms(1) t by (auto simp: walks_def)
    then show ?thesis using t Inl by (auto simp: tbind_def walks_def intro!: exI [of _ k])
  next
    case (Inr x)
    then have s: "steps tr1 = steps tr @ map (\<lambda>md. (md, ''SUCCESS'')) ms" using assms(1) t by (simp add: walks_def)
    have w: "walks ns tr1 (f tr1 x)" using assms(2) t Inr by blast
    show ?thesis
    proof (cases "f tr1 x")
      case (Pair tr2 r2)
      show ?thesis
      proof (cases r2)
        case l: (Inl e)
        then obtain k where "k < length ns" "steps tr2 = steps tr1 @ map (\<lambda>md. (md, ''SUCCESS'')) (take k ns)"
          using w Pair by (auto simp: walks_def)
        then show ?thesis using t Inr Pair l s by (auto simp: tbind_def walks_def intro!: exI [of _ "length ms + k"])
      next
        case r: (Inr y)
        then show ?thesis using w t Inr Pair s by (auto simp: tbind_def walks_def)
      qed
    qed
  qed
qed

lemma walks_early: "ms \<noteq> [] \<Longrightarrow> walks ms tr (tr, Inl e)"
  by (auto simp: walks_def intro!: exI [of _ 0])

lemma walks_hop1: "walks [''M1_Ingestion''] tr (hop1 env sv raw ctx transport tr)"
  unfolding hop1_def by (auto split: sum.splits intro: walks_early walks_hop)

lemma walks_hop2: "walks [''Adapter_M1_M2'', ''M2_Parser''] tr (hop2 sv raw ctx envelope ids tr)"
  unfolding hop2_def by (rule walks_bind [of "[''Adapter_M1_M2'']" _ _ "[''M2_Parser'']", simplified]) (simp_all add: walks_hop)

lemma walks_hop3: "walks [''Adapter_M2_M3'', ''M3_Normalizer''] tr (hop3 env sv ctx ids m2_output tr)"
  unfolding hop3_def by (rule walks_bind [of "[''Adapter_M2_M3'']" _ _ "[''M3_Normalizer'']", simplified]) (simp_all add: walks_hop)

lemma walks_hop4: "walks [''Adapter_M3_M4'', ''M4_Enrichment''] tr (hop4 env sv ctx ids m3_output tr)"
proof -
  have "walks [''Adapter_M3_M4'', ''M4_Enrichment''] tr
      (tbind (hop ''Adapter_M3_M4'' a (tr\<lparr>tx_event_id := i\<rparr>) r) (\<lambda>tr x. hop ''M4_Enrichment'' b tr (g x)))" for i r g a b
    by (rule walks_bind [of "[''Adapter_M3_M4'']" _ _ "[''M4_Enrichment'']", simplified]) (simp_all add: walks_hop)
  then show ?thesis unfolding hop4_def by (auto split: sum.splits intro: walks_early)
qed

lemma walks_hop5: "walks [''Adapter_M4_M5'', ''M5_Router''] tr (hop5 sv m4_output tr)"
  unfolding hop5_def by (rule walks_bind [of "[''Adapter_M4_M5'']" _ _ "[''M5_Router'']", simplified]) (simp_all add: walks_hop)

definition all_hops :: "string list" where
  "all_hops = [''M1_Ingestion'', ''Adapter_M1_M2'', ''M2_Parser'', ''Adapter_M2_M3'', ''M3_Normalizer'', ''Adapter_M3_M4'',
     ''M4_Enrichment'', ''Adapter_M4_M5'', ''M5_Router'']"

lemma walks_end: "walks ms tr t \<Longrightarrow> walks ms tr (tbind t (\<lambda>tr x. (tr, Inr (g x))))"
  by (auto simp: walks_def tbind_def split: prod.splits sum.splits)

lemma walks_run: "walks all_hops tr (run_hops env sv raw ctx transport tr)"
proof -
  have 5: "walks [''Adapter_M4_M5'', ''M5_Router''] tr (tbind (hop5 sv m4 tr) (\<lambda>tr (m5, ds). (tr, Inr (ids, ev, dg, m5, ds))))" for tr m4 ids ev dg
    using walks_end [OF walks_hop5, where g = "\<lambda>(m5, ds). (ids, ev, dg, m5, ds)"] by (simp add: case_prod_unfold)
  have 4: "walks ([''Adapter_M3_M4'', ''M4_Enrichment''] @ [''Adapter_M4_M5'', ''M5_Router'']) tr
      (tbind (hop4 env sv ctx ids m3 tr) (\<lambda>tr (m4, ev, dg). tbind (hop5 sv m4 tr) (\<lambda>tr (m5, ds). (tr, Inr (ids, ev, dg, m5, ds)))))" for tr ids m3
    by (rule walks_bind [OF walks_hop4]) (auto simp: 5)
  have 3: "walks ([''Adapter_M2_M3'', ''M3_Normalizer''] @ [''Adapter_M3_M4'', ''M4_Enrichment''] @ [''Adapter_M4_M5'', ''M5_Router'']) tr
      (tbind (hop3 env sv ctx ids m2 tr) (\<lambda>tr m3. tbind (hop4 env sv ctx ids m3 tr) (\<lambda>tr (m4, ev, dg).
        tbind (hop5 sv m4 tr) (\<lambda>tr (m5, ds). (tr, Inr (ids, ev, dg, m5, ds))))))" for tr ids m2
    by (rule walks_bind [OF walks_hop3 4]) simp
  have 2: "walks ([''Adapter_M1_M2'', ''M2_Parser''] @ [''Adapter_M2_M3'', ''M3_Normalizer''] @ [''Adapter_M3_M4'', ''M4_Enrichment''] @
        [''Adapter_M4_M5'', ''M5_Router'']) tr
      (tbind (hop2 sv raw ctx envelope ids tr) (\<lambda>tr m2. tbind (hop3 env sv ctx ids m2 tr) (\<lambda>tr m3. tbind (hop4 env sv ctx ids m3 tr)
        (\<lambda>tr (m4, ev, dg). tbind (hop5 sv m4 tr) (\<lambda>tr (m5, ds). (tr, Inr (ids, ev, dg, m5, ds)))))))" for tr ids envelope
    by (rule walks_bind [OF walks_hop2 3]) simp
  have "walks ([''M1_Ingestion''] @ [''Adapter_M1_M2'', ''M2_Parser''] @ [''Adapter_M2_M3'', ''M3_Normalizer''] @
        [''Adapter_M3_M4'', ''M4_Enrichment''] @ [''Adapter_M4_M5'', ''M5_Router'']) tr (run_hops env sv raw ctx transport tr)"
    unfolding run_hops_def by (rule walks_bind [OF walks_hop1]) (auto simp: 2 simp del: append_Cons append_Nil)
  then show ?thesis by (simp add: all_hops_def)
qed

subsection \<open>What the adapters keep\<close>

lemma canonical_tenant:
  assumes "adapt_to_canonical_event ck data ctx i h r = Inr ev"
  shows "pget ev ''tenant'' = m3_tenant_block ctx" and "ic_tenant_id ctx \<noteq> []" and "ev \<noteq> []"
    and "\<exists>e. pget ev ''event'' = PDict e" and "\<exists>x. pget ev ''extensions'' = PDict x"
  using assms by (auto simp: adapt_to_canonical_event_def Let_def pget_def split: if_splits)

lemma m3_adapt_event:
  "m3_adapt ck data ctx i h r opts = Inr req \<Longrightarrow>
   \<exists>ev. adapt_to_canonical_event ck data ctx i h r = Inr ev \<and> item (PDict req) ''event'' = Inr (PDict ev)"
  by (auto simp: m3_adapt_def item_def)

lemma harmonize_tenant_block:
  assumes "pget ev ''tenant'' = PDict t" and "pget t ''tenant_id'' = PStr s" and "s \<noteq> []"
  shows "harmonize_tenant ev = dict_set ''tenant_id'' (PStr s)
    (dict_set ''tenant'' (PDict (dict_set ''id'' (PStr s) (dict_set ''tenant_id'' (PStr s) t))) ev)"
  using assms by (simp add: harmonize_tenant_def Let_def)

lemma attach_all_other: "attach_all data ev = Inr ev' \<Longrightarrow> k \<noteq> ''extensions'' \<Longrightarrow> pget ev' k = pget ev k"
  by (auto simp: attach_all_def Let_def split: pyval.splits if_splits)

lemma m4_adapt_tenant:
  assumes "m4_adapt data = Inr ev'" and "pget data ''event'' = PDict ev" and "ev \<noteq> []"
    and "pget ev ''tenant'' = PDict t" and "pget t ''tenant_id'' = PStr s" and "s \<noteq> []"
  shows "pget ev' ''tenant_id'' = PStr s" and "\<exists>t'. pget ev' ''tenant'' = PDict t' \<and> pget t' ''id'' = PStr s \<and> pget t' ''tenant_id'' = PStr s"
proof -
  obtain p ps where ev: "ev = p # ps" using assms(3) by (cases ev) auto
  let ?e = "harmonize_tenant ev"
  have a: "attach_all data (if py_truthy (pget data ''integrity'') then dict_set ''integrity'' (pget data ''integrity'') ?e else ?e) = Inr ev'"
    using assms(1,2) ev by (auto simp: m4_adapt_def Let_def)
  note o = attach_all_other [OF a] and h = harmonize_tenant_block [OF assms(4-6)]
  show "pget ev' ''tenant_id'' = PStr s" using o [of "''tenant_id''"] h by simp
  show "\<exists>t'. pget ev' ''tenant'' = PDict t' \<and> pget t' ''id'' = PStr s \<and> pget t' ''tenant_id'' = PStr s"
    using o [of "''tenant''"] h by simp
qed

text \<open>What the runner needs of an enrichment: a service that succeeds returns an event with the tenant of the event it
  was given.\<close>

locale tenant_keeping =
  fixes enrich :: "pydict \<Rightarrow> pydict result"
  assumes keeps: "enrich req = Inr out \<Longrightarrow> item (PDict req) ''event'' = Inr (PDict ev) \<Longrightarrow> pget ev ''tenant'' = PDict t \<Longrightarrow>
    pget t ''tenant_id'' = PStr s \<Longrightarrow>
    \<exists>ev' t'. pget out ''event'' = PDict ev' \<and> ev' \<noteq> [] \<and> pget ev' ''tenant'' = PDict t' \<and> pget t' ''tenant_id'' = PStr s"
begin

lemma adapted_tenant:
  assumes "m3_adapt ck data ctx i h r opts = Inr req" and "enrich req = Inr out" and "m4_adapt out = Inr m5"
  shows "pget m5 ''tenant_id'' = PStr (ic_tenant_id ctx)"
    and "\<exists>t. pget m5 ''tenant'' = PDict t \<and> pget t ''id'' = PStr (ic_tenant_id ctx) \<and> pget t ''tenant_id'' = PStr (ic_tenant_id ctx)"
    and "ic_tenant_id ctx \<noteq> []"
proof -
  obtain ev where ev: "adapt_to_canonical_event ck data ctx i h r = Inr ev" and req: "item (PDict req) ''event'' = Inr (PDict ev)"
    using m3_adapt_event [OF assms(1)] by blast
  note t = canonical_tenant [OF ev]
  have "pget ev ''tenant'' = PDict [(''tenant_id'', PStr (ic_tenant_id ctx)), (''scope'', PDict [(''source_id'', PStr (ic_source_id ctx))])]"
    using t(1) by (simp add: m3_tenant_block_def)
  from keeps [OF assms(2) req this, of "ic_tenant_id ctx"] obtain ev' t'
    where o: "pget out ''event'' = PDict ev'" "ev' \<noteq> []" "pget ev' ''tenant'' = PDict t'" "pget t' ''tenant_id'' = PStr (ic_tenant_id ctx)"
    by (auto simp: pget_def)
  show "pget m5 ''tenant_id'' = PStr (ic_tenant_id ctx)"
    and "\<exists>t. pget m5 ''tenant'' = PDict t \<and> pget t ''id'' = PStr (ic_tenant_id ctx) \<and> pget t ''tenant_id'' = PStr (ic_tenant_id ctx)"
    using m4_adapt_tenant [OF assms(3) o t(2)] by blast+
  show "ic_tenant_id ctx \<noteq> []" by (rule t(2))
qed

end

interpretation builtin: tenant_keeping "m4_fallback env b" for env b
  by unfold_locales (auto simp: m4_fallback_def Let_def pget_def split: if_splits)

definition enricher :: "pipe_env \<Rightarrow> services \<Rightarrow> pydict \<Rightarrow> pydict result" where
  "enricher env sv = (case sv_m4 sv of Some enrich \<Rightarrow> enrich | None \<Rightarrow> m4_fallback env (sv_m1 sv = None))"

definition router :: "services \<Rightarrow> pydict \<Rightarrow> string list result" where
  "router sv = (case sv_m5 sv of Some route \<Rightarrow> route | None \<Rightarrow> (\<lambda>_. Inr [''siem_elastic'', ''datalake_s3'']))"

lemma run_hops_m4:
  assumes "run_hops env sv raw ctx transport tr = (tr', Inr (ids, ev_id, digest, m5, ds))"
  obtains data req m4 where "m3_adapt (pe_clock env) data ctx (pi_raw_event_id ids) (pi_raw_hash ids) (pi_storage_ref ids) None = Inr req"
    "enricher env sv req = Inr m4" "m4_adapt m4 = Inr m5" "router sv m5 = Inr ds"
proof -
  obtain tr3 data tr4 m4 where h4: "hop4 env sv ctx ids data tr3 = (tr4, Inr (m4, ev_id, digest))"
    and h5: "\<exists>tr5. hop5 sv m4 tr4 = (tr5, Inr (m5, ds))"
    using assms by (auto simp: run_hops_def tbind_Inr split: prod.splits)
  from h4 obtain req where "m3_adapt (pe_clock env) data ctx (pi_raw_event_id ids) (pi_raw_hash ids) (pi_storage_ref ids) None = Inr req"
    "enricher env sv req = Inr m4"
    by (auto simp: hop4_def enricher_def tbind_Inr hop_Inr split: sum.splits option.splits)
  moreover from h5 have "m4_adapt m4 = Inr m5" "router sv m5 = Inr ds"
    by (auto simp: hop5_def router_def tbind_Inr hop_Inr split: option.splits)
  ultimately show thesis using that by blast
qed

lemma execute_pipeline_success:
  assumes "px_success (execute_pipeline env sv raw ctx transport)"
  obtains tr tr' ids ev_id digest m5 ds where "run_hops env sv raw ctx transport tr = (tr', Inr (ids, ev_id, digest, m5, ds))"
    "px_final_event (execute_pipeline env sv raw ctx transport) = Some m5" "px_destinations (execute_pipeline env sv raw ctx transport) = ds"
  using assms by (auto simp: execute_pipeline_def Let_def split: prod.splits sum.splits)

subsection \<open>Properties\<close>

text \<open>A run of the witnesses: the services for parsing and normalisation name another tenant.\<close>

definition demo_pipe_env :: pipe_env where
  "demo_pipe_env = \<lparr> pe_sha256 = (\<lambda>_. ''00''), pe_clock = \<lparr> ck_compact = ''t'', ck_iso = ''t'' \<rparr>, pe_utc = ''t'', pe_raw_uuid = ''r'', pe_event_hex = ''e'' \<rparr>"

definition demo_ctx :: integration_context where
  "demo_ctx = \<lparr> ic_tenant_id = ''a'', ic_source_id = ''s'', ic_principal = None, ic_correlation_id = ''c'', ic_ingested_at = None \<rparr>"

definition demo_services :: services where
  "demo_services = \<lparr> sv_m1 = None, sv_m2 = Some (\<lambda>_. Inr [(''raw_event_id'', PStr ''r''), (''tenant_id'', PStr ''evil'')]),
     sv_m3 = Some (\<lambda>_. Inr [(''success'', PBool True),
       (''event'', PDict [(''ulpf'', PDict [(''provenance'', PDict [(''raw_event_id'', PStr ''r'')]), (''tenant'', PStr ''evil'')])])]),
     sv_m4 = None, sv_m5 = None \<rparr>"

lemmas pipe_hop_defs = execute_pipeline_def run_hops_def hop1_def hop2_def hop3_def hop4_def hop5_def hop_def tbind_def nested_def
  m1_fallback_def m1_adapt_def m2_adapt_def m3_adapt_def m3_unwrap_def adapt_to_canonical_event_def m3_raw_hash_def m3_extensions_def
  m3_event_block_def m3_tenant_block_def m1_payload_def clean_dict_def ctx_tenant_def block_def as_dict_def item_def Let_def
  pget_def pget_default_def dict_has_def

lemma demo_run: "px_success (execute_pipeline demo_pipe_env demo_services ''x'' demo_ctx ''http'')"
  by (simp add: demo_pipe_env_def demo_services_def demo_ctx_def pipe_hop_defs m4_fallback_def m4_adapt_def attach_all_def harmonize_tenant_def)


text \<open>The trace of a run is complete: a run that succeeds has recorded the nine hops in order, each successful; a
  run that fails has recorded a proper part of them from the start, and then that it was aborted.\<close>

theorem pipeline_trace:
  "let r = execute_pipeline env sv raw ctx transport in
   \<exists>k \<le> length all_hops.
     (px_success r \<longleftrightarrow> k = length all_hops) \<and>
     steps (px_trace r) = map (\<lambda>md. (md, ''SUCCESS'')) (take k all_hops) @ (if px_success r then [] else [(''Pipeline'', ''FAILED'')])"
proof -
  define tr0 where "tr0 = \<lparr> tx_correlation_id = ic_correlation_id ctx, tx_raw_event_id = PNone, tx_event_id = PNone,
    tx_tenant_id = Some (ic_tenant_id ctx), tx_source_id = Some (ic_source_id ctx), tx_hops = [] \<rparr>"
  have z: "steps tr0 = []" by (simp add: tr0_def steps_def)
  obtain tr res where run: "run_hops env sv raw ctx transport tr0 = (tr, res)" by (metis surj_pair)
  note w = walks_run [of tr0 env sv raw ctx transport, unfolded run walks_def z]
  show ?thesis
  proof (cases res)
    case (Inl e)
    then obtain k where "k < length all_hops" "steps tr = map (\<lambda>md. (md, ''SUCCESS'')) (take k all_hops)" using w by auto
    then show ?thesis using run Inl unfolding execute_pipeline_def tr0_def [symmetric] Let_def
      by (auto intro!: exI [of _ k])
  next
    case (Inr x)
    then show ?thesis using run w unfolding execute_pipeline_def tr0_def [symmetric] Let_def
      by (auto intro!: exI [of _ "length all_hops"] split: prod.splits)
  qed
qed

text \<open>(C7) The tenant cannot be lost or forged on the way: with the built-in enrichment, or any service that keeps the
  tenant, and whatever the services for ingestion, parsing and normalisation return, a run that succeeds
  ends with an event whose tenant block and tenant identifier name the tenant of the trusted context.\<close>

theorem pipeline_tenant:
  assumes "case sv_m4 sv of None \<Rightarrow> True | Some enrich \<Rightarrow> tenant_keeping enrich"
    and "px_success (execute_pipeline env sv raw ctx transport)"
  shows "\<exists>e t. px_final_event (execute_pipeline env sv raw ctx transport) = Some e \<and> pget e ''tenant_id'' = PStr (ic_tenant_id ctx) \<and>
    pget e ''tenant'' = PDict t \<and> pget t ''id'' = PStr (ic_tenant_id ctx) \<and> pget t ''tenant_id'' = PStr (ic_tenant_id ctx)"
proof -
  have k: "tenant_keeping (enricher env sv)"
    using assms(1) by (auto simp: enricher_def intro: builtin.tenant_keeping_axioms split: option.splits)
  from assms(2) show ?thesis
    by (rule execute_pipeline_success) (auto elim!: run_hops_m4 dest: tenant_keeping.adapted_tenant [OF k])
qed

theorem pipeline_tenant_witness:
  "\<exists>e. px_final_event (execute_pipeline demo_pipe_env demo_services ''x'' demo_ctx ''http'') = Some e \<and> pget e ''tenant_id'' = PStr ''a''"
proof -
  have "sv_m4 demo_services = None" "ic_tenant_id demo_ctx = ''a''" by (simp_all add: demo_services_def demo_ctx_def)
  then show ?thesis using pipeline_tenant [OF _ demo_run] by (metis option.case(1))
qed

text \<open>With an ingestion service and without an enrichment service the runner always fails: the built-in enrichment
  uses \<open>hashlib\<close>, which only the built-in ingestion imports.\<close>

theorem pipeline_unbound_hashlib:
  assumes "sv_m1 sv \<noteq> None" and "sv_m4 sv = None"
  shows "\<not> px_success (execute_pipeline env sv raw ctx transport)"
proof
  assume "px_success (execute_pipeline env sv raw ctx transport)"
  then obtain tr tr' ids ev_id digest m5 ds where "run_hops env sv raw ctx transport tr = (tr', Inr (ids, ev_id, digest, m5, ds))"
    by (rule execute_pipeline_success)
  then obtain data req m4 where "m3_adapt (pe_clock env) data ctx (pi_raw_event_id ids) (pi_raw_hash ids) (pi_storage_ref ids) None = Inr req"
    "enricher env sv req = Inr m4" by (rule run_hops_m4)
  then show False using assms m3_adapt_event by (fastforce simp: enricher_def m4_fallback_def)
qed

theorem pipeline_unbound_hashlib_witness:
  "\<not> px_success (execute_pipeline demo_pipe_env (demo_services\<lparr>sv_m1 := Some (\<lambda>_ _ _ _. Inr [(''raw_event_id'', PStr ''r'')])\<rparr>) ''x'' demo_ctx ''http'')"
  by (rule pipeline_unbound_hashlib) (simp_all add: demo_services_def)

end
