(* ===== verification/M6_Distribution.thy ===== *)
theory M6_Distribution
  imports Py_Value
begin

section \<open>M6: configuration distribution\<close>

text \<open>
  \<open>services/config_service.py\<close>, \<open>repositories/distribution_repo.py\<close>, \<open>models/config_distribution.py\<close>, \<open>audit/audit_service.py\<close>
  and \<open>core/dependencies.dep_db\<close> of the M6 backend. A table is the list of its rows in order of insertion, and the
  operations of the database succeed. A module is a function from the number of the attempt to its answer.
  The validation against the JSON schemas is an argument that returns the message of the first violation.
  Identifiers and times are arguments; the copy in Redis is in \<open>M6_Snapshot\<close>.
\<close>

datatype distribution_status = DS_PENDING | DS_SENT | DS_ACKNOWLEDGED | DS_FAILED | DS_ROLLED_BACK

fun ds_value :: "distribution_status \<Rightarrow> string" where
  "ds_value DS_PENDING = ''PENDING''"
| "ds_value DS_SENT = ''SENT''"
| "ds_value DS_ACKNOWLEDGED = ''ACKNOWLEDGED''"
| "ds_value DS_FAILED = ''FAILED''"
| "ds_value DS_ROLLED_BACK = ''ROLLED_BACK''"

record target_state =
  tg_distribution_id :: string
  tg_config_version_id :: string
  tg_target_module :: string
  tg_config_type :: string
  tg_entity_id :: "string option"
  tg_version :: string
  tg_tenant_id :: "string option"
  tg_operation :: string
  tg_payload :: pydict
  tg_status :: distribution_status
  tg_sent_at :: "string option"
  tg_ack_at :: "string option"
  tg_retry_count :: int
  tg_max_retries :: int
  tg_error_message :: pyval
  tg_correlation_id :: string

record config_version =
  cv_id :: string
  cv_version :: int
  cv_config_key :: string
  cv_payload :: pydict
  cv_distributed_by :: string

record audit_entry =
  au_actor :: string
  au_actor_role :: "string option"
  au_action :: string
  au_resource_type :: string
  au_resource_id :: "string option"
  au_tenant_id :: "string option"
  au_version :: "string option"
  au_before_state :: "pydict option"
  au_after_state :: "pydict option"
  au_reason :: "string option"

record dist_db =
  dd_versions :: "config_version list"
  dd_targets :: "target_state list"
  dd_audit :: "audit_entry list"

definition audit_record :: "audit_entry \<Rightarrow> dist_db \<Rightarrow> dist_db" where
  "audit_record e db = db\<lparr>dd_audit := dd_audit db @ [e]\<rparr>"

text \<open>What a request draws from outside: identifiers, clock, schema checks, and the modules.\<close>

record dist_env =
  de_distribution_id :: string
  de_correlation_id :: string
  de_version_row_id :: string
  de_time_ms :: int
  de_now :: string
  de_check_event :: "pydict \<Rightarrow> string option"
  de_check_ack :: "pydict \<Rightarrow> string option"
  de_push :: "string \<Rightarrow> nat \<Rightarrow> pyval result"

subsection \<open>Outbox\<close>

definition get_target_modules :: "string \<Rightarrow> string list" where
  "get_target_modules config_type =
     (case map_of [(''sources'', [''M1'']), (''parsers'', [''M2'']), (''schemas'', [''M3'']), (''mappings'', [''M3'']), (''policies'', [''M5''])] config_type of
        Some ms \<Rightarrow> ms | None \<Rightarrow> [])"

definition opt_value :: "string option \<Rightarrow> pyval" where
  "opt_value v = (case v of Some s \<Rightarrow> PStr s | None \<Rightarrow> PNone)"

record change =
  ch_config_type :: string
  ch_entity_id :: "string option"
  ch_version :: string
  ch_tenant_id :: "string option"
  ch_operation :: string
  ch_payload :: pydict
  ch_actor :: string
  ch_actor_role :: "string option"

definition config_event :: "dist_env \<Rightarrow> change \<Rightarrow> pydict" where
  "config_event env c =
     [(''schema_version'', PStr ''1.0.0''), (''distribution_id'', PStr (de_distribution_id env)), (''config_type'', PStr (ch_config_type c)),
      (''entity_id'', opt_value (ch_entity_id c)), (''version'', PStr (ch_version c)), (''tenant_id'', opt_value (ch_tenant_id c)),
      (''operation'', PStr (ch_operation c)), (''payload'', PDict (ch_payload c)), (''timestamp'', PStr (de_now env)),
      (''correlation_id'', PStr (de_correlation_id env))]"

definition new_target :: "dist_env \<Rightarrow> change \<Rightarrow> string \<Rightarrow> target_state" where
  "new_target env c md =
     \<lparr> tg_distribution_id = de_distribution_id env, tg_config_version_id = de_version_row_id env, tg_target_module = md,
       tg_config_type = ch_config_type c, tg_entity_id = ch_entity_id c, tg_version = ch_version c, tg_tenant_id = ch_tenant_id c,
       tg_operation = ch_operation c, tg_payload = config_event env c, tg_status = DS_PENDING, tg_sent_at = None, tg_ack_at = None,
       tg_retry_count = 0, tg_max_retries = 3, tg_error_message = PNone, tg_correlation_id = de_correlation_id env \<rparr>"

definition create_outbox_event :: "dist_env \<Rightarrow> change \<Rightarrow> dist_db \<Rightarrow> dist_db \<times> target_state list result" where
  "create_outbox_event env c db =
     (let db1 = db\<lparr>dd_versions := dd_versions db @ [\<lparr> cv_id = de_version_row_id env, cv_version = de_time_ms env, cv_config_key = ch_config_type c,
                  cv_payload = ch_payload c, cv_distributed_by = ch_actor c \<rparr>]\<rparr>
      in case de_check_event env (config_event env c) of
           Some msg \<Rightarrow> (db1, Inl (ValueError (''Invalid configuration event contract: '' @ msg)))
         | None \<Rightarrow>
             let targets = map (new_target env c) (get_target_modules (ch_config_type c))
             in (db1\<lparr>dd_targets := dd_targets db1 @ targets\<rparr>, Inr targets))"

subsection \<open>Dispatch\<close>

definition dispatch_audit :: "target_state \<Rightarrow> string \<Rightarrow> string option \<Rightarrow> string \<Rightarrow> pydict \<Rightarrow> audit_entry" where
  "dispatch_audit t actor role action after =
     \<lparr> au_actor = actor, au_actor_role = role, au_action = action, au_resource_type = ''config_distribution'',
       au_resource_id = Some (tg_distribution_id t), au_tenant_id = tg_tenant_id t, au_version = None, au_before_state = None,
       au_after_state = Some after, au_reason = None \<rparr>"

definition backoff :: "nat \<Rightarrow> rat" where
  "backoff attempt = min 10 (2 ^ (attempt - 1))"

text \<open>The attempts from \<open>attempt\<close> on, with \<open>left\<close> to go: the target, the audit entries and the pauses.\<close>

fun dispatch_loop :: "(nat \<Rightarrow> pyval result) \<Rightarrow> string \<Rightarrow> string \<Rightarrow> string option \<Rightarrow> nat \<Rightarrow> nat \<Rightarrow> string \<Rightarrow> target_state \<Rightarrow> rat list \<Rightarrow>
    target_state \<times> audit_entry list \<times> rat list" where
  "dispatch_loop push now actor role attempt 0 last_error t sleeps =
     (let msg = ''Exhausted '' @ int_str (tg_max_retries t) @ '' attempts: '' @ last_error in
      (t\<lparr>tg_status := DS_FAILED, tg_error_message := PStr msg\<rparr>,
       [dispatch_audit t actor role ''CONFIGURATION_FAILED''
          [(''module'', PStr (tg_target_module t)), (''status'', PStr ''FAILED''), (''error'', PStr msg)]], sleeps))"
| "dispatch_loop push now actor role attempt (Suc left) last_error t sleeps =
     (let t1 = t\<lparr>tg_retry_count := int attempt\<rparr> in
      case push attempt of
        Inr (PDict ack) \<Rightarrow>
          if pget ack ''status'' = PStr ''APPLIED'' then
            (t1\<lparr>tg_status := DS_ACKNOWLEDGED, tg_ack_at := Some now, tg_error_message := PNone\<rparr>,
             [dispatch_audit t1 actor role ''CONFIGURATION_ACKNOWLEDGED''
                [(''module'', PStr (tg_target_module t1)), (''status'', PStr ''ACKNOWLEDGED'')]], sleeps)
          else
            (t1\<lparr>tg_status := DS_FAILED,
               tg_error_message := por (pget ack ''error'') (PStr (''Module rejected configuration with status '' @ py_str (pget ack ''status'')))\<rparr>,
             [], sleeps)
      | r \<Rightarrow>
          dispatch_loop push now actor role (attempt + 1) left
            (case r of Inl e \<Rightarrow> exn_str e | Inr _ \<Rightarrow> ''object has no attribute get'') t1
            (if 0 < left then sleeps @ [backoff attempt] else sleeps))"

definition dispatch_single_target :: "dist_env \<Rightarrow> string \<Rightarrow> string option \<Rightarrow> target_state \<Rightarrow> target_state \<times> audit_entry list \<times> rat list" where
  "dispatch_single_target env actor role t =
     (if tg_target_module t \<notin> {''M1'', ''M2'', ''M3'', ''M4'', ''M5''} then
        (t\<lparr>tg_status := DS_FAILED, tg_error_message := PStr (''No client available for module '' @ tg_target_module t)\<rparr>, [], [])
      else
        dispatch_loop (de_push env (tg_target_module t)) (de_now env) actor role 1 (nat (tg_max_retries t)) ''None''
          (t\<lparr>tg_status := DS_SENT, tg_sent_at := Some (de_now env)\<rparr>) [])"

definition target_key :: "target_state \<Rightarrow> string \<times> string" where
  "target_key t = (tg_distribution_id t, tg_target_module t)"

definition put_target :: "target_state \<Rightarrow> dist_db \<Rightarrow> dist_db" where
  "put_target t db = db\<lparr>dd_targets := map (\<lambda>u. if target_key u = target_key t then t else u) (dd_targets db)\<rparr>"

fun dispatch_targets :: "dist_env \<Rightarrow> string \<Rightarrow> string option \<Rightarrow> target_state list \<Rightarrow> dist_db \<Rightarrow> dist_db \<times> target_state list" where
  "dispatch_targets env actor role [] db = (db, [])"
| "dispatch_targets env actor role (t # ts) db =
     (case dispatch_single_target env actor role t of
        (t', entries, _) \<Rightarrow>
          (case dispatch_targets env actor role ts (fold audit_record entries (put_target t' db)) of
             (db', ts') \<Rightarrow> (db', t' # ts')))"

definition trigger_propagation :: "dist_env \<Rightarrow> change \<Rightarrow> dist_db \<Rightarrow> dist_db \<times> target_state list result" where
  "trigger_propagation env c db =
     (case create_outbox_event env c db of
        (db1, Inl e) \<Rightarrow> (db1, Inl e)
      | (db1, Inr targets) \<Rightarrow>
          (case dispatch_targets env (ch_actor c) (ch_actor_role c) targets db1 of (db2, ts) \<Rightarrow> (db2, Inr ts)))"

subsection \<open>Acknowledgements\<close>

record ack_request =
  ak_distribution_id :: string
  ak_config_id :: string
  ak_version :: string
  ak_module :: string
  ak_status :: string
  ak_correlation_id :: string
  ak_error :: "string option"

datatype ack_result =
    AckMalformed string
  | AckDuplicate string
  | AckRecorded distribution_status string

definition ack_payload :: "dist_env \<Rightarrow> ack_request \<Rightarrow> pydict" where
  "ack_payload env a =
     [(''distribution_id'', PStr (ak_distribution_id a)), (''config_id'', PStr (ak_config_id a)), (''version'', PStr (ak_version a)),
      (''module'', PStr (ak_module a)), (''status'', PStr (ak_status a)), (''timestamp'', PStr (de_now env)),
      (''correlation_id'', PStr (ak_correlation_id a)), (''error'', opt_value (ak_error a))]"

text \<open>\<open>scalar_one_or_none()\<close>\<close>

fun one_or_none :: "'a list \<Rightarrow> 'a option result" where
  "one_or_none [] = Inr None"
| "one_or_none [x] = Inr (Some x)"
| "one_or_none _ = Inl (OtherError ''MultipleResultsFound'' ''Multiple rows were found when one or none was required'')"

definition get_by_distribution_and_module :: "string \<Rightarrow> string \<Rightarrow> dist_db \<Rightarrow> target_state option result" where
  "get_by_distribution_and_module did md db = one_or_none (filter (\<lambda>t. target_key t = (did, md)) (dd_targets db))"

definition process_ack :: "dist_env \<Rightarrow> ack_request \<Rightarrow> dist_db \<Rightarrow> dist_db \<times> ack_result result" where
  "process_ack env a db =
     (case de_check_ack env (ack_payload env a) of
        Some msg \<Rightarrow> (db, Inr (AckMalformed (''Malformed ACK payload: '' @ msg)))
      | None \<Rightarrow>
          (case get_by_distribution_and_module (ak_distribution_id a) (ak_module a) db of
             Inl e \<Rightarrow> (db, Inl e)
           | Inr None \<Rightarrow>
               (db, Inl (OtherError ''WrongModuleAckError''
                  (''Unknown distribution '' @ quoted (ak_distribution_id a) @ '' for module '' @ quoted (ak_module a))))
           | Inr (Some t) \<Rightarrow>
               if tg_version t \<noteq> ak_version a then
                 (db, Inl (OtherError ''VersionMismatchError''
                    (''Version mismatch: target is '' @ tg_version t @ '', ACK was '' @ ak_version a)))
               else if tg_status t = DS_ACKNOWLEDGED \<and> ak_status a = ''APPLIED'' then (db, Inr (AckDuplicate (ak_distribution_id a)))
               else
                 let st = (if ak_status a = ''APPLIED'' then DS_ACKNOWLEDGED else DS_FAILED);
                     t' = t\<lparr>tg_status := st, tg_ack_at := Some (de_now env),
                           tg_error_message := (case ak_error a of Some (c # cs) \<Rightarrow> PStr (c # cs) | _ \<Rightarrow> tg_error_message t)\<rparr>
                 in (put_target t' db, Inr (AckRecorded st (ak_distribution_id a)))))"

definition receive_module_ack :: "dist_env \<Rightarrow> ack_request \<Rightarrow> dist_db \<Rightarrow> dist_db \<times> ack_result result" where
  "receive_module_ack env a db =
     (case process_ack env a db of
        (db', Inr (AckMalformed reason)) \<Rightarrow> (db', Inl (HTTPException 400 reason))
      | r \<Rightarrow> r)"

subsection \<open>Status\<close>

definition list_by_distribution_id :: "string \<Rightarrow> dist_db \<Rightarrow> target_state list" where
  "list_by_distribution_id did db = filter (\<lambda>t. tg_distribution_id t = did) (dd_targets db)"

definition overall_distribution_status :: "target_state list \<Rightarrow> string" where
  "overall_distribution_status ts =
     (if list_all (\<lambda>t. tg_status t = DS_ACKNOWLEDGED) ts then ''ACKNOWLEDGED''
      else if list_ex (\<lambda>t. tg_status t = DS_FAILED) ts then ''FAILED'' else ''PENDING'')"

definition get_distribution_status :: "string \<Rightarrow> dist_db \<Rightarrow> (string \<times> target_state list) option" where
  "get_distribution_status did db =
     (case list_by_distribution_id did db of [] \<Rightarrow> None | t # ts \<Rightarrow> Some (overall_distribution_status (t # ts), t # ts))"

definition list_pending :: "nat \<Rightarrow> dist_db \<Rightarrow> target_state list" where
  "list_pending limit db = take limit (filter (\<lambda>t. tg_status t = DS_PENDING) (dd_targets db))"

text \<open>\<open>dep_db\<close>: a request is one transaction, which an exception rolls back.\<close>

definition request :: "('db \<Rightarrow> 'db \<times> 'a result) \<Rightarrow> 'db \<Rightarrow> 'db \<times> 'a result" where
  "request f db = (case f db of (db', Inr x) \<Rightarrow> (db', Inr x) | (_, Inl e) \<Rightarrow> (db, Inl e))"

subsection \<open>Facts on dispatch\<close>

definition answered :: "(nat \<Rightarrow> pyval result) \<Rightarrow> nat \<Rightarrow> bool" where
  "answered push k \<longleftrightarrow> (\<exists>ack. push k = Inr (PDict ack))"

definition applied :: "(nat \<Rightarrow> pyval result) \<Rightarrow> nat \<Rightarrow> bool" where
  "applied push k \<longleftrightarrow> (\<exists>ack. push k = Inr (PDict ack) \<and> pget ack ''status'' = PStr ''APPLIED'')"

lemma dispatch_step_answered:
  assumes "answered push attempt"
  shows "\<exists>t' es. dispatch_loop push now actor role attempt (Suc left) le t sl = (t', es, sl) \<and>
    tg_status t' = (if applied push attempt then DS_ACKNOWLEDGED else DS_FAILED) \<and> tg_retry_count t' = int attempt"
  using assms by (auto simp: answered_def applied_def Let_def)

lemma dispatch_step_retry:
  assumes "\<not> answered push attempt"
  shows "\<exists>le'. dispatch_loop push now actor role attempt (Suc left) le t sl =
    dispatch_loop push now actor role (attempt + 1) left le' (t\<lparr>tg_retry_count := int attempt\<rparr>) (if 0 < left then sl @ [backoff attempt] else sl)"
proof (cases "push attempt")
  case (Inl e)
  show ?thesis by (rule exI [of _ "exn_str e"]) (simp only: dispatch_loop.simps(2) Let_def Inl sum.case)
next
  case (Inr v)
  show ?thesis
    by (rule exI [of _ "''object has no attribute get''"], cases v)
      (use Inr assms in \<open>simp_all only: dispatch_loop.simps(2) Let_def sum.case pyval.case answered_def, blast\<close>)
qed

lemmas dispatch_loop_steps = dispatch_loop.simps

declare dispatch_loop.simps [simp del]

lemma dispatch_loop_outcome:
  assumes "attempt + left = Suc n"
  shows "\<exists>t' es sl'. dispatch_loop push now actor role attempt left le t sl = (t', es, sl') \<and>
    (case find (answered push) [attempt..<Suc n] of
       Some k \<Rightarrow> tg_status t' = (if applied push k then DS_ACKNOWLEDGED else DS_FAILED) \<and> tg_retry_count t' = int k \<and>
         sl' = sl @ map backoff [attempt..<k]
     | None \<Rightarrow> tg_status t' = DS_FAILED \<and> (0 < left \<longrightarrow> tg_retry_count t' = int n) \<and> sl' = sl @ map backoff [attempt..<n])"
  using assms
proof (induction left arbitrary: attempt le t sl)
  case 0
  then show ?case by (auto simp: dispatch_loop_steps(1) Let_def)
next
  case (Suc left)
  have upt: "[attempt..<Suc n] = attempt # [Suc attempt..<Suc n]" using Suc.prems by (simp add: upt_conv_Cons)
  show ?case
  proof (cases "answered push attempt")
    case True
    then show ?thesis using dispatch_step_answered [OF True, of now actor role left le t sl] unfolding upt by auto
  next
    case False
    obtain le' where st: "dispatch_loop push now actor role attempt (Suc left) le t sl =
        dispatch_loop push now actor role (attempt + 1) left le' (t\<lparr>tg_retry_count := int attempt\<rparr>) (if 0 < left then sl @ [backoff attempt] else sl)"
      using dispatch_step_retry [OF False] by blast
    have up: "Suc attempt + left = Suc n" using Suc.prems by simp
    show ?thesis
    proof (cases left)
      case 0
      then have "n = attempt" using up by simp
      then show ?thesis using 0 False unfolding st upt by (simp add: dispatch_loop_steps(1) Let_def)
    next
      case (Suc l)
      obtain t' es sl' where ih: "dispatch_loop push now actor role (Suc attempt) left le' (t\<lparr>tg_retry_count := int attempt\<rparr>) (sl @ [backoff attempt]) = (t', es, sl')"
        and res: "case find (answered push) [Suc attempt..<Suc n] of
            Some k \<Rightarrow> tg_status t' = (if applied push k then DS_ACKNOWLEDGED else DS_FAILED) \<and> tg_retry_count t' = int k \<and>
              sl' = (sl @ [backoff attempt]) @ map backoff [Suc attempt..<k]
          | None \<Rightarrow> tg_status t' = DS_FAILED \<and> (0 < left \<longrightarrow> tg_retry_count t' = int n) \<and> sl' = (sl @ [backoff attempt]) @ map backoff [Suc attempt..<n]"
        using Suc.IH [OF up] by blast
      have n: "[attempt..<n] = attempt # [Suc attempt..<n]" using Suc up by (simp add: upt_conv_Cons)
      have k: "[attempt..<k] = attempt # [Suc attempt..<k]" if f: "find (answered push) [Suc attempt..<Suc n] = Some k" for k
      proof -
        have "k \<in> set [Suc attempt..<Suc n]" using f by (metis find_Some_iff nth_mem)
        then show ?thesis by (auto simp: upt_conv_Cons)
      qed
      show ?thesis
        using Suc ih res False n k unfolding st upt
        by (cases "find (answered push) [Suc attempt..<Suc n]") (simp_all del: upt_Suc)
    qed
  qed
qed

lemma dispatch_loop_frame:
  assumes "dispatch_loop push now actor role attempt left le t sl = (t', es, sl')"
  shows "target_key t' = target_key t" and "tg_version t' = tg_version t" and "tg_config_type t' = tg_config_type t" and "tg_tenant_id t' = tg_tenant_id t"
    and "tg_payload t' = tg_payload t"
proof -
  have "target_key t' = target_key t \<and> tg_version t' = tg_version t \<and> tg_config_type t' = tg_config_type t \<and> tg_tenant_id t' = tg_tenant_id t \<and>
      tg_payload t' = tg_payload t"
    using assms
  proof (induction left arbitrary: attempt le t sl)
    case 0
    then show ?case by (auto simp: dispatch_loop_steps(1) Let_def target_key_def)
  next
    case (Suc left)
    show ?case
    proof (cases "answered push attempt")
      case True
      then show ?thesis using Suc.prems by (auto simp: dispatch_loop_steps(2) answered_def Let_def target_key_def split: if_splits)
    next
      case False
      then obtain le' sl'' where "dispatch_loop push now actor role (attempt + 1) left le' (t\<lparr>tg_retry_count := int attempt\<rparr>) sl'' = (t', es, sl')"
        using dispatch_step_retry [OF False] Suc.prems by metis
      from Suc.IH [OF this] show ?thesis by (simp add: target_key_def)
    qed
  qed
  then show "target_key t' = target_key t" "tg_version t' = tg_version t" "tg_config_type t' = tg_config_type t" "tg_tenant_id t' = tg_tenant_id t"
    "tg_payload t' = tg_payload t" by auto
qed

definition module_ok :: "target_state \<Rightarrow> bool" where
  "module_ok t \<longleftrightarrow> tg_target_module t \<in> {''M1'', ''M2'', ''M3'', ''M4'', ''M5''}"

lemma target_modules: "md \<in> set (get_target_modules ct) \<Longrightarrow> md \<in> {''M1'', ''M2'', ''M3'', ''M4'', ''M5''}"
  by (auto simp: get_target_modules_def split: option.splits if_splits)

lemma one_target: "get_target_modules ct = [] \<or> (\<exists>md. get_target_modules ct = [md])"
  by (simp add: get_target_modules_def)

lemma dispatch_single:
  assumes "module_ok t"
  obtains t' es sl where "dispatch_single_target env actor role t = (t', es, sl)" "target_key t' = target_key t" "tg_version t' = tg_version t"
    "tg_config_type t' = tg_config_type t" "tg_tenant_id t' = tg_tenant_id t" "tg_payload t' = tg_payload t"
    "case find (answered (de_push env (tg_target_module t))) [1..<Suc (nat (tg_max_retries t))] of
       Some k \<Rightarrow> tg_status t' = (if applied (de_push env (tg_target_module t)) k then DS_ACKNOWLEDGED else DS_FAILED) \<and> tg_retry_count t' = int k \<and>
         sl = map backoff [1..<k]
     | None \<Rightarrow> tg_status t' = DS_FAILED \<and> sl = map backoff [1..<nat (tg_max_retries t)]"
proof -
  let ?u = "t\<lparr>tg_status := DS_SENT, tg_sent_at := Some (de_now env)\<rparr>" and ?p = "de_push env (tg_target_module t)"
  obtain t' es sl where d: "dispatch_loop ?p (de_now env) actor role 1 (nat (tg_max_retries t)) ''None'' ?u [] = (t', es, sl)"
    and o: "case find (answered ?p) [1..<Suc (nat (tg_max_retries t))] of
       Some k \<Rightarrow> tg_status t' = (if applied ?p k then DS_ACKNOWLEDGED else DS_FAILED) \<and> tg_retry_count t' = int k \<and> sl = [] @ map backoff [1..<k]
     | None \<Rightarrow> tg_status t' = DS_FAILED \<and> (0 < nat (tg_max_retries t) \<longrightarrow> tg_retry_count t' = int (nat (tg_max_retries t))) \<and>
         sl = [] @ map backoff [1..<nat (tg_max_retries t)]"
    using dispatch_loop_outcome [OF plus_1_eq_Suc [THEN fun_cong], where push = ?p and now = "de_now env" and actor = actor and role = role
        and le = "''None''" and t = ?u and sl = "[]"] by blast
  have s: "dispatch_single_target env actor role t = (t', es, sl)" using assms d by (simp add: dispatch_single_target_def module_ok_def)
  have k: "target_key t' = target_key t" using dispatch_loop_frame(1) [OF d] by (simp add: target_key_def)
  show thesis
    by (rule that [OF s k]) (use dispatch_loop_frame(2-5) [OF d] o in \<open>auto simp del: upt_Suc split: option.splits\<close>)
qed

lemma audit_targets [simp]: "dd_targets (fold audit_record es db) = dd_targets db"
  by (induction es arbitrary: db) (auto simp: audit_record_def)

subsection \<open>Reachable states\<close>

text \<open>The database with the reports of the modules: a triple of distribution, module and version for every answer or
  acknowledgement that said \<open>APPLIED\<close>. The identifier of a distribution is fresh. The version of a report on a push is the
  one that was pushed: like the code, the model does not read the version that the answer itself names.\<close>

definition push_reports :: "dist_env \<Rightarrow> change \<Rightarrow> (string \<times> string \<times> string) set" where
  "push_reports env c = {(de_distribution_id env, md, ch_version c) | md k. md \<in> set (get_target_modules (ch_config_type c)) \<and> k \<in> {1..3} \<and> applied (de_push env md) k}"

definition ack_reports :: "ack_request \<Rightarrow> (string \<times> string \<times> string) set" where
  "ack_reports a = (if ak_status a = ''APPLIED'' then {(ak_distribution_id a, ak_module a, ak_version a)} else {})"

inductive dist_reach :: "dist_db \<Rightarrow> (string \<times> string \<times> string) set \<Rightarrow> bool" where
  start: "dist_reach \<lparr> dd_versions = [], dd_targets = [], dd_audit = [] \<rparr> {}"
| propagate: "dist_reach db R \<Longrightarrow> de_distribution_id env \<notin> tg_distribution_id ` set (dd_targets db) \<Longrightarrow>
    request (trigger_propagation env c) db = (db', r) \<Longrightarrow> dist_reach db' (R \<union> push_reports env c)"
| ack: "dist_reach db R \<Longrightarrow> request (receive_module_ack env a) db = (db', r) \<Longrightarrow> dist_reach db' (R \<union> ack_reports a)"

definition target_ok :: "(string \<times> string \<times> string) set \<Rightarrow> target_state \<Rightarrow> bool" where
  "target_ok R t \<longleftrightarrow> tg_target_module t \<in> set (get_target_modules (tg_config_type t)) \<and> tg_status t \<in> {DS_ACKNOWLEDGED, DS_FAILED} \<and>
     (tg_status t = DS_ACKNOWLEDGED \<longrightarrow> (tg_distribution_id t, tg_target_module t, tg_version t) \<in> R) \<and>
     pget (tg_payload t) ''tenant_id'' = opt_value (tg_tenant_id t) \<and> pget (tg_payload t) ''version'' = PStr (tg_version t)"

definition dist_inv :: "dist_db \<Rightarrow> (string \<times> string \<times> string) set \<Rightarrow> bool" where
  "dist_inv db R \<longleftrightarrow> distinct (map target_key (dd_targets db)) \<and> (\<forall>t \<in> set (dd_targets db). target_ok R t)"

lemma target_ok_mono: "target_ok R t \<Longrightarrow> R \<subseteq> S \<Longrightarrow> target_ok S t"
  by (auto simp: target_ok_def)

lemma find_applied:
  assumes "find (answered push) [1..<Suc 3] = Some k" and "applied push k"
  shows "\<exists>k \<in> {1..3}. applied push k"
proof -
  have "k \<in> set [1..<Suc 3]" using assms(1) by (metis find_Some_iff nth_mem)
  then show ?thesis using assms(2) by auto
qed

lemma dispatch_new_target:
  assumes "md \<in> set (get_target_modules (ch_config_type c))"
  obtains t es sl where "dispatch_single_target env actor role (new_target env c md) = (t, es, sl)" "target_key t = (de_distribution_id env, md)"
    "target_ok (R \<union> push_reports env c) t"
proof -
  have m: "module_ok (new_target env c md)" using target_modules [OF assms] by (simp add: module_ok_def new_target_def)
  let ?n = "new_target env c md" and ?p = "de_push env md"
  have n: "tg_target_module ?n = md" "tg_max_retries ?n = 3" "target_key ?n = (de_distribution_id env, md)" "tg_version ?n = ch_version c"
    "tg_config_type ?n = ch_config_type c" "tg_tenant_id ?n = ch_tenant_id c" "tg_payload ?n = config_event env c"
    by (simp_all add: new_target_def target_key_def)
  from m show thesis
  proof (rule dispatch_single [of _ env actor role])
    fix t es sl
    assume d: "dispatch_single_target env actor role ?n = (t, es, sl)" "target_key t = target_key ?n" "tg_version t = tg_version ?n"
      "tg_config_type t = tg_config_type ?n" "tg_tenant_id t = tg_tenant_id ?n" "tg_payload t = tg_payload ?n"
      and o: "case find (answered (de_push env (tg_target_module ?n))) [1..<Suc (nat (tg_max_retries ?n))] of
         Some k \<Rightarrow> tg_status t = (if applied (de_push env (tg_target_module ?n)) k then DS_ACKNOWLEDGED else DS_FAILED) \<and> tg_retry_count t = int k \<and>
           sl = map backoff [1..<k]
       | None \<Rightarrow> tg_status t = DS_FAILED \<and> sl = map backoff [1..<nat (tg_max_retries ?n)]"
    have three: "nat (tg_max_retries ?n) = 3" by (simp add: n)
    have st: "tg_status t = DS_ACKNOWLEDGED \<Longrightarrow> \<exists>k \<in> {1..3}. applied ?p k" "tg_status t \<in> {DS_ACKNOWLEDGED, DS_FAILED}"
      using o [unfolded three n(1)] find_applied [of ?p] by (auto simp del: upt_Suc split: option.splits if_splits)
    have "target_ok (R \<union> push_reports env c) t"
      using d(2-6) [unfolded n] assms st
      by (auto simp: target_ok_def push_reports_def target_key_def config_event_def pget_def simp del: One_nat_def)
    with d(1,2) show thesis using that n(3) by metis
  qed
qed

lemma put_target_append:
  assumes "target_key t \<notin> target_key ` set (dd_targets db)" and "target_key u = target_key t"
  shows "dd_targets (put_target t (db\<lparr>dd_targets := dd_targets db @ [u]\<rparr>)) = dd_targets db @ [t]"
proof -
  have "map (\<lambda>v. if target_key v = target_key t then t else v) (dd_targets db) = dd_targets db"
    using assms(1) by (intro map_idI) (metis imageI)
  then show ?thesis using assms(2) by (simp add: put_target_def)
qed

lemma propagate_effect:
  assumes "trigger_propagation env c db = (db', Inr ts)" and "de_distribution_id env \<notin> tg_distribution_id ` set (dd_targets db)"
  shows "dd_targets db' = dd_targets db @ ts \<and> distinct (map target_key ts) \<and>
    (\<forall>t \<in> set ts. tg_distribution_id t = de_distribution_id env \<and> target_ok (R \<union> push_reports env c) t)"
proof (cases "get_target_modules (ch_config_type c)")
  case Nil
  then show ?thesis using assms(1) by (auto simp: trigger_propagation_def create_outbox_event_def Let_def split: option.splits)
next
  case (Cons md mds)
  then have md: "get_target_modules (ch_config_type c) = [md]" using one_target [of "ch_config_type c"] by auto
  obtain t es sl where d: "dispatch_single_target env (ch_actor c) (ch_actor_role c) (new_target env c md) = (t, es, sl)"
    "target_key t = (de_distribution_id env, md)" "target_ok (R \<union> push_reports env c) t"
    by (rule dispatch_new_target [of md c env "ch_actor c" "ch_actor_role c" R]) (simp_all add: md)
  have fresh: "target_key t \<notin> target_key ` set (dd_targets db)" using assms(2) d(2) by (auto simp: target_key_def)
  have "target_key (new_target env c md) = target_key t" using d(2) by (simp add: new_target_def target_key_def)
  note p = put_target_append [OF fresh this]
  show ?thesis using assms(1) md d p
    by (auto simp: trigger_propagation_def create_outbox_event_def Let_def target_key_def put_target_def split: option.splits)
qed

lemma put_target_keys: "map target_key (dd_targets (put_target t db)) = map target_key (dd_targets db)"
  by (auto simp: put_target_def)

lemma ack_effect:
  assumes "process_ack env a db = (db', Inr res)" and "distinct (map target_key (dd_targets db))"
  shows "db' = db \<or> (\<exists>t \<in> set (dd_targets db). target_key t = (ak_distribution_id a, ak_module a) \<and> tg_version t = ak_version a \<and>
    (\<exists>e. db' = put_target (t\<lparr>tg_status := if ak_status a = ''APPLIED'' then DS_ACKNOWLEDGED else DS_FAILED, tg_ack_at := Some (de_now env),
      tg_error_message := e\<rparr>) db))"
proof -
  have m: "t \<in> set (dd_targets db) \<and> target_key t = (did, md)" if "get_by_distribution_and_module did md db = Inr (Some t)" for t did md
  proof -
    have "t \<in> set (filter (\<lambda>t. target_key t = (did, md)) (dd_targets db))"
      using that unfolding get_by_distribution_and_module_def
      by (cases "filter (\<lambda>t. target_key t = (did, md)) (dd_targets db)" rule: one_or_none.cases) auto
    then show ?thesis by simp
  qed
  have r: "db' = db \<or> (\<exists>t. get_by_distribution_and_module (ak_distribution_id a) (ak_module a) db = Inr (Some t) \<and> tg_version t = ak_version a \<and>
      db' = put_target (t\<lparr>tg_status := if ak_status a = ''APPLIED'' then DS_ACKNOWLEDGED else DS_FAILED, tg_ack_at := Some (de_now env),
        tg_error_message := (case ak_error a of Some (c # cs) \<Rightarrow> PStr (c # cs) | _ \<Rightarrow> tg_error_message t)\<rparr>) db)"
  proof (cases "de_check_ack env (ack_payload env a)")
    case None
    show ?thesis
    proof (cases "get_by_distribution_and_module (ak_distribution_id a) (ak_module a) db")
      case (Inr o')
      then show ?thesis using assms(1) None by (cases o') (auto simp: process_ack_def Let_def split: if_splits)
    qed (use assms(1) None in \<open>simp add: process_ack_def\<close>)
  qed (use assms(1) in \<open>simp add: process_ack_def\<close>)
  then show ?thesis using m by blast
qed

lemma dist_reach_inv: "dist_reach db R \<Longrightarrow> dist_inv db R"
proof (induction rule: dist_reach.induct)
  case start
  show ?case by (simp add: dist_inv_def)
next
  case (propagate db R env c db' r)
  show ?case
  proof (cases r)
    case (Inl e)
    then have "db' = db" using propagate.hyps(3) by (auto simp: request_def split: prod.splits sum.splits)
    then show ?thesis using propagate.IH target_ok_mono [of R _ "R \<union> push_reports env c"] by (auto simp: dist_inv_def)
  next
    case (Inr ts)
    then have t: "trigger_propagation env c db = (db', Inr ts)" using propagate.hyps(3) by (auto simp: request_def split: prod.splits sum.splits)
    note e = propagate_effect [OF t propagate.hyps(2), of R]
    have "distinct (map target_key (dd_targets db'))" using e propagate.IH propagate.hyps(2)
      by (auto simp: dist_inv_def target_key_def) (metis imageI)
    then show ?thesis using e propagate.IH target_ok_mono [of R _ "R \<union> push_reports env c"] by (auto simp: dist_inv_def)
  qed
next
  case (ack db R env a db' r)
  have d: "distinct (map target_key (dd_targets db))" using ack.IH by (simp add: dist_inv_def)
  have mono: "target_ok (R \<union> ack_reports a) t" if "t \<in> set (dd_targets db)" for t
    using ack.IH that target_ok_mono [of R t "R \<union> ack_reports a"] by (auto simp: dist_inv_def)
  consider "db' = db" | res where "process_ack env a db = (db', Inr res)"
    using ack.hyps(2) by (auto simp: request_def receive_module_ack_def split: prod.splits sum.splits ack_result.splits)
  then show ?case
  proof cases
    case 1
    then show ?thesis using d mono by (simp add: dist_inv_def)
  next
    case 2
    from ack_effect [OF 2 d] show ?thesis
    proof
      assume "db' = db"
      then show ?thesis using d mono by (simp add: dist_inv_def)
    next
      assume "\<exists>t \<in> set (dd_targets db). target_key t = (ak_distribution_id a, ak_module a) \<and> tg_version t = ak_version a \<and>
        (\<exists>e. db' = put_target (t\<lparr>tg_status := if ak_status a = ''APPLIED'' then DS_ACKNOWLEDGED else DS_FAILED, tg_ack_at := Some (de_now env),
          tg_error_message := e\<rparr>) db)"
      then obtain t e where t: "t \<in> set (dd_targets db)" "target_key t = (ak_distribution_id a, ak_module a)" "tg_version t = ak_version a"
        "db' = put_target (t\<lparr>tg_status := if ak_status a = ''APPLIED'' then DS_ACKNOWLEDGED else DS_FAILED, tg_ack_at := Some (de_now env),
          tg_error_message := e\<rparr>) db" by blast
      let ?t = "t\<lparr>tg_status := if ak_status a = ''APPLIED'' then DS_ACKNOWLEDGED else DS_FAILED, tg_ack_at := Some (de_now env), tg_error_message := e\<rparr>"
      have "target_ok (R \<union> ack_reports a) ?t" using mono [OF t(1)] t(2,3) by (auto simp: target_ok_def ack_reports_def target_key_def)
      then have "\<forall>u \<in> set (dd_targets (put_target ?t db)). target_ok (R \<union> ack_reports a) u" using mono by (auto simp: put_target_def)
      moreover have "distinct (map target_key (dd_targets (put_target ?t db)))" using d unfolding put_target_keys .
      ultimately show ?thesis unfolding t(4) dist_inv_def by blast
    qed
  qed
qed

lemma get_put:
  assumes "distinct (map target_key (dd_targets db))" and "t \<in> set (dd_targets db)" and "target_key t' = target_key t"
  shows "get_by_distribution_and_module (fst (target_key t)) (snd (target_key t)) (put_target t' db) = Inr (Some t')"
proof -
  obtain xs ys where s: "dd_targets db = xs @ t # ys" using assms(2) by (meson split_list)
  have o: "target_key u \<noteq> target_key t" if "u \<in> set xs \<union> set ys" for u using assms(1) that unfolding s by (auto simp: image_iff)
  have "filter (\<lambda>u. target_key u = target_key t) (map (\<lambda>u. if target_key u = target_key t then t' else u) zs) = []" if "set zs \<subseteq> set xs \<union> set ys" for zs
    using o that by (induction zs) auto
  then show ?thesis using assms(3) by (simp add: get_by_distribution_and_module_def put_target_def s)
qed

subsection \<open>Properties\<close>

text \<open>The outcome of a dispatch: the first attempt to which the module answers with a dictionary decides, and the target is
  acknowledged exactly when that answer says \<open>APPLIED\<close>; without one in \<open>max_retries\<close> attempts it is failed.
  The pauses are the first of 1, 2, 4, 8, 10, 10, ... seconds.\<close>

theorem dispatch_outcome:
  assumes "tg_target_module t \<in> {''M1'', ''M2'', ''M3'', ''M4'', ''M5''}"
  shows "case dispatch_single_target env actor role t of (t', es, sl) \<Rightarrow>
    (case find (answered (de_push env (tg_target_module t))) [1..<Suc (nat (tg_max_retries t))] of
       Some k \<Rightarrow> tg_status t' = (if applied (de_push env (tg_target_module t)) k then DS_ACKNOWLEDGED else DS_FAILED) \<and>
         tg_retry_count t' = int k \<and> sl = map backoff [1..<k]
     | None \<Rightarrow> tg_status t' = DS_FAILED \<and> sl = map backoff [1..<nat (tg_max_retries t)])"
proof -
  have "module_ok t" using assms by (simp add: module_ok_def)
  then show ?thesis by (rule dispatch_single [of t env actor role]) (simp del: upt_Suc)
qed

text \<open>(C16) In every reachable state of the outbox each distribution has one row for each of its modules, no row is left
  pending or sent, every row goes to the module that its type prescribes with its tenant and version in the
  payload, and a row is acknowledged only if the module reported that it applied this version.\<close>

theorem distribution_invariant:
  assumes "dist_reach db R"
  shows "distinct (map target_key (dd_targets db)) \<and>
    (\<forall>t \<in> set (dd_targets db). tg_target_module t \<in> set (get_target_modules (tg_config_type t)) \<and>
       tg_status t \<in> {DS_ACKNOWLEDGED, DS_FAILED} \<and>
       (tg_status t = DS_ACKNOWLEDGED \<longrightarrow> (tg_distribution_id t, tg_target_module t, tg_version t) \<in> R) \<and>
       pget (tg_payload t) ''tenant_id'' = opt_value (tg_tenant_id t) \<and> pget (tg_payload t) ''version'' = PStr (tg_version t))"
  using dist_reach_inv [OF assms] by (auto simp: dist_inv_def target_ok_def)

definition demo_dist_env :: dist_env where
  "demo_dist_env = \<lparr> de_distribution_id = ''d1'', de_correlation_id = ''c'', de_version_row_id = ''v'', de_time_ms = 0, de_now = ''t'',
     de_check_event = (\<lambda>_. None), de_check_ack = (\<lambda>_. None),
     de_push = (\<lambda>_ k. if k = 1 then Inl (ConnectionError ''refused'') else Inr (PDict [(''status'', PStr ''APPLIED'')])) \<rparr>"

definition demo_change :: change where
  "demo_change = \<lparr> ch_config_type = ''parsers'', ch_entity_id = Some ''p'', ch_version = ''1.0.0'', ch_tenant_id = Some ''acme'', ch_operation = ''CREATE'',
     ch_payload = [], ch_actor = ''dev'', ch_actor_role = None \<rparr>"

lemma demo_dispatch:
  "\<exists>t es. dispatch_single_target demo_dist_env ''dev'' None (new_target demo_dist_env demo_change ''M2'') = (t, es, [1]) \<and>
     tg_status t = DS_ACKNOWLEDGED \<and> target_key t = target_key (new_target demo_dist_env demo_change ''M2'')"
  by (simp add: target_key_def dispatch_single_target_def new_target_def demo_dist_env_def demo_change_def dispatch_loop_steps eval_nat_numeral backoff_def Let_def pget_def)

theorem dispatch_outcome_witness:
  "\<exists>t es. dispatch_single_target demo_dist_env ''dev'' None (new_target demo_dist_env demo_change ''M2'') = (t, es, map backoff [1..<2]) \<and>
     tg_status t = DS_ACKNOWLEDGED \<and> tg_retry_count t = 2"
proof -
  let ?t = "new_target demo_dist_env demo_change ''M2''"
  have m: "tg_target_module ?t \<in> {''M1'', ''M2'', ''M3'', ''M4'', ''M5''}" by (simp add: new_target_def)
  have f: "find (answered (de_push demo_dist_env (tg_target_module ?t))) [1..<Suc (nat (tg_max_retries ?t))] = Some 2"
    by (simp add: new_target_def demo_dist_env_def answered_def eval_nat_numeral)
  have a: "applied (de_push demo_dist_env (tg_target_module ?t)) 2" by (simp add: applied_def demo_dist_env_def pget_def)
  show ?thesis using dispatch_outcome [OF m, of demo_dist_env "''dev''" None] a unfolding f by (auto split: prod.splits)
qed

lemma demo_reach: "\<exists>db R. dist_reach db R \<and> (\<exists>t. dd_targets db = [t] \<and> tg_status t = DS_ACKNOWLEDGED)"
proof -
  let ?db = "\<lparr> dd_versions = [], dd_targets = [], dd_audit = [] \<rparr>"
  obtain t es where d: "dispatch_single_target demo_dist_env ''dev'' None (new_target demo_dist_env demo_change ''M2'') = (t, es, [1])"
    "tg_status t = DS_ACKNOWLEDGED" "target_key t = target_key (new_target demo_dist_env demo_change ''M2'')"
    using demo_dispatch by blast
  have "\<exists>db. request (trigger_propagation demo_dist_env demo_change) ?db = (db, Inr [t]) \<and> dd_targets db = [t]"
    using d by (simp add: request_def trigger_propagation_def create_outbox_event_def get_target_modules_def put_target_def demo_change_def
        demo_dist_env_def Let_def)
  then show ?thesis using dist_reach.propagate [OF dist_reach.start, of demo_dist_env demo_change] d(2) by auto
qed

theorem distribution_invariant_witness:
  "\<exists>db R t. dist_reach db R \<and> t \<in> set (dd_targets db) \<and> (tg_distribution_id t, tg_target_module t, tg_version t) \<in> R"
proof -
  obtain db R t where "dist_reach db R" "dd_targets db = [t]" "tg_status t = DS_ACKNOWLEDGED" using demo_reach by blast
  with distribution_invariant [OF this(1)] show ?thesis by (intro exI [of _ db] exI [of _ R] exI [of _ t]) simp
qed

text \<open>An acknowledgement changes the outbox only where it names a row by distribution and module and its version; it then sets
  that row to acknowledged or failed and no other. Repeating an acknowledgement that was recorded as applied
  changes nothing and is reported as a duplicate.\<close>

theorem ack_guarded:
  assumes "distinct (map target_key (dd_targets db))" and "process_ack env a db = (db', r)" and "db' \<noteq> db"
  shows "(\<exists>t \<in> set (dd_targets db). target_key t = (ak_distribution_id a, ak_module a) \<and> tg_version t = ak_version a \<and>
      (\<exists>t'. db' = put_target t' db \<and> target_key t' = target_key t \<and>
         tg_status t' = (if ak_status a = ''APPLIED'' then DS_ACKNOWLEDGED else DS_FAILED))) \<and>
    (ak_status a = ''APPLIED'' \<longrightarrow> de_check_ack env' (ack_payload env' a) = None \<longrightarrow>
      process_ack env' a db' = (db', Inr (AckDuplicate (ak_distribution_id a))))"
proof -
  obtain res where "r = Inr res" using assms(2,3) by (auto simp: process_ack_def Let_def split: option.splits sum.splits if_splits)
  with ack_effect [OF _ assms(1)] assms(2,3) obtain t e where t: "t \<in> set (dd_targets db)" "target_key t = (ak_distribution_id a, ak_module a)"
    "tg_version t = ak_version a" and db': "db' = put_target (t\<lparr>tg_status := if ak_status a = ''APPLIED'' then DS_ACKNOWLEDGED else DS_FAILED,
      tg_ack_at := Some (de_now env), tg_error_message := e\<rparr>) db" by blast
  let ?t = "t\<lparr>tg_status := if ak_status a = ''APPLIED'' then DS_ACKNOWLEDGED else DS_FAILED, tg_ack_at := Some (de_now env), tg_error_message := e\<rparr>"
  have k: "target_key ?t = target_key t" by (simp add: target_key_def)
  have "get_by_distribution_and_module (ak_distribution_id a) (ak_module a) db' = Inr (Some ?t)"
    using get_put [OF assms(1) t(1) k] t(2) unfolding db' by simp
  then have "ak_status a = ''APPLIED'' \<longrightarrow> de_check_ack env' (ack_payload env' a) = None \<longrightarrow>
      process_ack env' a db' = (db', Inr (AckDuplicate (ak_distribution_id a)))"
    using t(3) by (simp add: process_ack_def)
  moreover have "tg_status ?t = (if ak_status a = ''APPLIED'' then DS_ACKNOWLEDGED else DS_FAILED)" by simp
  ultimately show ?thesis using t k db' by blast
qed

definition demo_ack :: ack_request where
  "demo_ack = \<lparr> ak_distribution_id = ''d1'', ak_config_id = ''x'', ak_version = ''1.0.0'', ak_module = ''M2'', ak_status = ''APPLIED'', ak_correlation_id = ''c'',
     ak_error = None \<rparr>"

theorem ack_guarded_witness:
  "\<exists>db db' r. process_ack demo_dist_env demo_ack db = (db', r) \<and> db' \<noteq> db \<and> process_ack demo_dist_env demo_ack db' = (db', Inr (AckDuplicate ''d1''))"
proof -
  let ?db = "\<lparr> dd_versions = [], dd_targets = [new_target demo_dist_env demo_change ''M2''], dd_audit = [] \<rparr>"
  obtain db' r where a: "process_ack demo_dist_env demo_ack ?db = (db', r)" by fastforce
  have d: "distinct (map target_key (dd_targets ?db))" by simp
  have n: "db' \<noteq> ?db"
    using a by (auto simp: process_ack_def demo_dist_env_def demo_ack_def demo_change_def new_target_def get_by_distribution_and_module_def target_key_def
        put_target_def Let_def)
  have "de_check_ack demo_dist_env (ack_payload demo_dist_env demo_ack) = None" "ak_status demo_ack = ''APPLIED''" "ak_distribution_id demo_ack = ''d1''"
    by (simp_all add: demo_dist_env_def demo_ack_def)
  with ack_guarded [OF d a n, of demo_dist_env] a n show ?thesis by auto
qed

end
