(* ===== verification/M6_Access.thy ===== *)
theory M6_Access
  imports M6_Distribution
begin

section \<open>M6: users, roles and tenant context\<close>

text \<open>
  \<open>core/dependencies.dep_current_user\<close>, \<open>core/rbac.py\<close>, \<open>core/tenant_context.py\<close> and the models of users and tenants. The
  verification of a JWT is an argument that returns its claims or \<open>None\<close>. The tables of users and tenants are
  lists of rows; a primary key is unique, so that the first match is the row.
\<close>

datatype tenant_status = TS_ACTIVE | TS_SUSPENDED | TS_DISABLED

record tenant_row =
  tn_id :: string
  tn_name :: string
  tn_slug :: string
  tn_status :: tenant_status

record user_row =
  us_id :: string
  us_username :: string
  us_is_active :: bool
  us_is_superuser :: bool
  us_tenant_id :: "string option"
  us_role_names :: "string list"

record identity_db =
  id_users :: "user_row list"
  id_tenants :: "tenant_row list"

definition get_user :: "string \<Rightarrow> identity_db \<Rightarrow> user_row option" where
  "get_user uid db = find (\<lambda>u. us_id u = uid) (id_users db)"

definition get_tenant :: "string \<Rightarrow> identity_db \<Rightarrow> tenant_row option" where
  "get_tenant tid db = find (\<lambda>t. tn_id t = tid) (id_tenants db)"

definition get_by_slug :: "string \<Rightarrow> identity_db \<Rightarrow> tenant_row option" where
  "get_by_slug slug db = find (\<lambda>t. tn_slug t = slug) (id_tenants db)"

text \<open>A string that is present and not empty.\<close>

definition given :: "string option \<Rightarrow> bool" where
  "given s = (case s of Some (c # cs) \<Rightarrow> True | _ \<Rightarrow> False)"

definition is_super_admin :: "user_row \<Rightarrow> bool" where
  "is_super_admin u = (us_is_superuser u \<or> ''SUPER_ADMIN'' \<in> set (us_role_names u) \<or> ''ADMINISTRATOR'' \<in> set (us_role_names u))"

definition tenant_usable :: "string \<Rightarrow> identity_db \<Rightarrow> bool" where
  "tenant_usable tid db = (case get_tenant tid db of Some t \<Rightarrow> tn_status t = TS_ACTIVE | None \<Rightarrow> False)"

definition dep_current_user :: "(string \<Rightarrow> pydict option) \<Rightarrow> identity_db \<Rightarrow> string \<Rightarrow> user_row result" where
  "dep_current_user decode db token =
     (let refused = Inl (HTTPException 401 ''Could not validate credentials'') in
      case decode token of
        None \<Rightarrow> refused
      | Some claims \<Rightarrow>
          (case pget_default claims ''sub'' (PStr []) of
             PStr (c # cs) \<Rightarrow>
               (case get_user (c # cs) db of
                  None \<Rightarrow> refused
                | Some u \<Rightarrow>
                    if \<not> us_is_active u then Inl (HTTPException 403 ''User account is disabled'')
                    else if given (us_tenant_id u) \<and> \<not> tenant_usable (the (us_tenant_id u)) db then
                      Inl (HTTPException 403 ''Tenant account is suspended or disabled'')
                    else Inr u)
           | _ \<Rightarrow> refused))"

definition normalize_roles :: "string set \<Rightarrow> string set" where
  "normalize_roles roles =
     (if ''SUPER_ADMIN'' \<in> roles \<or> ''ADMINISTRATOR'' \<in> roles then roles \<union> {''SUPER_ADMIN'', ''ADMINISTRATOR''} else roles)"

definition require_roles :: "string list \<Rightarrow> user_row \<Rightarrow> user_row result" where
  "require_roles roles u =
     (if is_super_admin u \<or> us_is_superuser u then Inr u
      else if normalize_roles (set (us_role_names u)) \<inter> normalize_roles (set roles) = {} then
        Inl (HTTPException 403 ''Operation requires one of the allowed roles'')
      else Inr u)"

definition get_primary_role :: "user_row \<Rightarrow> string" where
  "get_primary_role u =
     (case find (\<lambda>r. r \<in> normalize_roles (set (us_role_names u)))
             [''SUPER_ADMIN'', ''ADMINISTRATOR'', ''TENANT_ADMIN'', ''PARSER_DEVELOPER'', ''SECURITY_ANALYST'', ''VIEWER''] of
        Some r \<Rightarrow> r | None \<Rightarrow> ''VIEWER'')"

record request_context =
  rc_user :: user_row
  rc_tenant_id :: "string option"
  rc_is_super_admin :: bool

definition require_tenant_id :: "request_context \<Rightarrow> string result" where
  "require_tenant_id ctx =
     (if given (rc_tenant_id ctx) then Inr (the (rc_tenant_id ctx))
      else Inl (HTTPException 400 ''Tenant context required for this operation.''))"

definition dep_tenant_context :: "identity_db \<Rightarrow> user_row \<Rightarrow> string option \<Rightarrow> request_context result" where
  "dep_tenant_context db u tenant_id =
     (if is_super_admin u then
        (if given tenant_id then
           (case (case get_tenant (the tenant_id) db of Some t \<Rightarrow> Some t | None \<Rightarrow> get_by_slug (the tenant_id) db) of
              None \<Rightarrow> Inl (HTTPException 404 (''Tenant '' @ quoted (the tenant_id) @ '' not found''))
            | Some t \<Rightarrow> Inr \<lparr> rc_user = u, rc_tenant_id = Some (tn_id t), rc_is_super_admin = True \<rparr>)
         else Inr \<lparr> rc_user = u, rc_tenant_id = us_tenant_id u, rc_is_super_admin = True \<rparr>)
      else if \<not> given (us_tenant_id u) then Inl (HTTPException 403 ''Tenant-scoped user has no assigned tenant.'')
      else
        (case get_tenant (the (us_tenant_id u)) db of
           None \<Rightarrow> Inl (HTTPException 403 ''Tenant account is suspended or disabled.'')
         | Some t \<Rightarrow>
             if tn_status t \<noteq> TS_ACTIVE then Inl (HTTPException 403 ''Tenant account is suspended or disabled.'')
             else if tenant_id \<noteq> None \<and> tenant_id \<noteq> us_tenant_id u \<and> tenant_id \<noteq> Some (tn_slug t) then
               Inl (HTTPException 403 (''Cross-tenant access forbidden. You cannot specify another tenant'' @ CHR 0x27 # ''s scope.''))
             else Inr \<lparr> rc_user = u, rc_tenant_id = us_tenant_id u, rc_is_super_admin = False \<rparr>))"

text \<open>The dependencies of an endpoint: the user, the tenant context, the roles.\<close>

definition authorize :: "(string \<Rightarrow> pydict option) \<Rightarrow> identity_db \<Rightarrow> string list \<Rightarrow> string \<Rightarrow> string option \<Rightarrow> request_context result" where
  "authorize decode db roles token tenant_id =
     rbind (dep_current_user decode db token) (\<lambda>u.
     rbind (dep_tenant_context db u tenant_id) (\<lambda>ctx.
     rbind (require_roles roles u) (\<lambda>_. Inr ctx)))"

lemma tenant_context_own:
  assumes "dep_tenant_context db u tenant_id = Inr ctx" and "\<not> is_super_admin u"
  shows "rc_tenant_id ctx = us_tenant_id u" and "given (us_tenant_id u)" and "tenant_usable (the (us_tenant_id u)) db"
  using assms by (auto simp: dep_tenant_context_def tenant_usable_def split: option.splits if_splits)

text \<open>(C34) The tenant boundary of the control plane: a request that is authorised for a user who is no super administrator runs
  under the tenant of that user, which is active, whatever tenant the query names, and the user is active
  and holds one of the required roles.\<close>

theorem authorize_scopes_tenant:
  assumes "authorize decode db roles token tenant_id = Inr ctx" and "\<not> is_super_admin (rc_user ctx)"
  shows "rc_user ctx \<in> set (id_users db) \<and> us_is_active (rc_user ctx) \<and> rc_tenant_id ctx = us_tenant_id (rc_user ctx) \<and>
    given (rc_tenant_id ctx) \<and> tenant_usable (the (rc_tenant_id ctx)) db \<and> set (us_role_names (rc_user ctx)) \<inter> set roles \<noteq> {}"
proof -
  obtain u v where u: "dep_current_user decode db token = Inr u" "dep_tenant_context db u tenant_id = Inr ctx" "require_roles roles u = Inr v"
    using assms(1) by (auto simp: authorize_def)
  have c: "rc_user ctx = u" using u(2) by (auto simp: dep_tenant_context_def split: option.splits if_splits)
  have "u \<in> set (id_users db) \<and> us_is_active u"
    using u(1) by (auto simp: dep_current_user_def get_user_def Let_def find_Some_iff split: option.splits pyval.splits list.splits if_splits)
  moreover have "set (us_role_names u) \<inter> set roles \<noteq> {}"
    using u(3) assms(2) c by (auto simp: require_roles_def normalize_roles_def is_super_admin_def split: if_splits)
  ultimately show ?thesis using tenant_context_own [OF u(2)] assms(2) c by simp
qed

definition demo_identity :: identity_db where
  "demo_identity = \<lparr> id_users = [\<lparr> us_id = ''u1'', us_username = ''dev'', us_is_active = True, us_is_superuser = False, us_tenant_id = Some ''a'',
       us_role_names = [''PARSER_DEVELOPER''] \<rparr>],
     id_tenants = [\<lparr> tn_id = ''a'', tn_name = ''A'', tn_slug = ''alpha'', tn_status = TS_ACTIVE \<rparr>] \<rparr>"

lemma demo_authorize:
  "\<exists>ctx. authorize (\<lambda>_. Some [(''sub'', PStr ''u1'')]) demo_identity [''PARSER_DEVELOPER''] ''jwt'' None = Inr ctx \<and>
     \<not> is_super_admin (rc_user ctx) \<and> rc_tenant_id ctx = Some ''a''"
  by (simp add: authorize_def dep_current_user_def demo_identity_def get_user_def get_tenant_def tenant_usable_def dep_tenant_context_def
      is_super_admin_def require_roles_def normalize_roles_def given_def pget_default_def)

theorem authorize_scopes_tenant_witness:
  "\<exists>ctx. authorize (\<lambda>_. Some [(''sub'', PStr ''u1'')]) demo_identity [''PARSER_DEVELOPER''] ''jwt'' None = Inr ctx \<and>
     us_is_active (rc_user ctx) \<and> tenant_usable (the (rc_tenant_id ctx)) demo_identity"
  using demo_authorize authorize_scopes_tenant by blast

end
