(* ===== verification/M6_Registry.thy ===== *)
theory M6_Registry
  imports M6_Access Py_Json
begin

section \<open>M6: what the registries share\<close>

text \<open>
  The parts that the five registries of \<open>registry/*.py\<close> and their endpoints in \<open>api/*.py\<close> repeat: a table is the list of
  its rows in the order of insertion (\<open>repositories/base.py\<close>), the database refuses a primary key that is taken, every
  change ends with an audit entry and the propagation to a module, and an endpoint runs the dependencies
  and then its body in one transaction. The state of a registry extends \<open>store\<close> by the tables of the registry.
  The locales state what the tenants of a registry rely on; the registries interpret them.
\<close>

record store =
  st_dist :: dist_db

record actor =
  ac_name :: string
  ac_role :: "string option"

subsection \<open>Rows\<close>

definition insert_row :: "('r \<Rightarrow> string) \<Rightarrow> 'r \<Rightarrow> 'r list \<Rightarrow> 'r list result" where
  "insert_row idf r rows =
     (if idf r \<in> idf ` set rows then Inl (OtherError ''IntegrityError'' ''UNIQUE constraint failed: id'') else Inr (rows @ [r]))"

definition put_row :: "('r \<Rightarrow> string) \<Rightarrow> 'r \<Rightarrow> 'r list \<Rightarrow> 'r list" where
  "put_row idf r rows = map (\<lambda>x. if idf x = idf r then r else x) rows"

definition delete_row :: "('r \<Rightarrow> string) \<Rightarrow> string \<Rightarrow> 'r list \<Rightarrow> 'r list" where
  "delete_row idf i rows = filter (\<lambda>x. idf x \<noteq> i) rows"

text \<open>\<open>for key, value in data.items(): if value is not None: setattr(obj, key, value)\<close>\<close>

definition or_keep :: "'a option \<Rightarrow> 'a \<Rightarrow> 'a" where
  "or_keep new old = (case new of Some v \<Rightarrow> v | None \<Rightarrow> old)"

definition or_keep_opt :: "'a option \<Rightarrow> 'a option \<Rightarrow> 'a option" where
  "or_keep_opt new old = (if new \<noteq> None then new else old)"

definition effective_tenant :: "string option \<Rightarrow> string option \<Rightarrow> string option" where
  "effective_tenant named tenant_id = (if named \<noteq> None then named else tenant_id)"

definition page_of :: "nat \<Rightarrow> nat \<Rightarrow> 'r list \<Rightarrow> 'r list \<times> nat" where
  "page_of skip limit rows = (take limit (drop skip rows), length rows)"

definition like :: "(string \<Rightarrow> string \<Rightarrow> bool) \<Rightarrow> string \<Rightarrow> string option \<Rightarrow> bool" where
  "like ilike v w = ilike v (''%'' @ the w @ ''%'')"

definition visible_to :: "string option \<Rightarrow> string option \<Rightarrow> bool" where
  "visible_to tenant_id owner = (given tenant_id \<longrightarrow> owner = tenant_id \<or> owner = None)"

text \<open>The active extension of the tenant, else the active baseline; \<open>sel\<close> is the \<open>where\<close> clause for an owner.\<close>

definition tenant_then_baseline :: "(string option \<Rightarrow> 'r \<Rightarrow> bool) \<Rightarrow> string option \<Rightarrow> 'r list \<Rightarrow> 'r option result" where
  "tenant_then_baseline sel tenant_id rows =
     (let baseline = one_or_none (filter (sel None) rows) in
      if given tenant_id then
        rbind (one_or_none (filter (sel tenant_id) rows)) (\<lambda>r. case r of Some p \<Rightarrow> Inr (Some p) | None \<Rightarrow> baseline)
      else baseline)"

definition dumps_tags :: "string list \<Rightarrow> string" where
  "dumps_tags tags = json_dumps default_opts (PList (map PStr tags))"

definition list_repr :: "string list \<Rightarrow> string" where
  "list_repr ws = ''['' @ join '', '' (map quoted ws) @ '']''"

subsection \<open>Publication and endpoints\<close>

definition publish :: "dist_env \<Rightarrow> audit_entry \<Rightarrow> change \<Rightarrow> 'r \<Rightarrow> 'a store_scheme \<Rightarrow> 'a store_scheme \<times> 'r result" where
  "publish env entry c r db =
     (case trigger_propagation env c (audit_record entry (st_dist db)) of
        (d, Inl e) \<Rightarrow> (db\<lparr>st_dist := d\<rparr>, Inl e)
      | (d, Inr _) \<Rightarrow> (db\<lparr>st_dist := d\<rparr>, Inr r))"

definition all_roles :: "string list" where
  "all_roles = [''SUPER_ADMIN'', ''ADMINISTRATOR'', ''TENANT_ADMIN'', ''PARSER_DEVELOPER'', ''SECURITY_ANALYST'', ''VIEWER'']"

definition writer_roles :: "string list" where
  "writer_roles = [''SUPER_ADMIN'', ''ADMINISTRATOR'', ''TENANT_ADMIN'', ''PARSER_DEVELOPER'']"

definition admin_roles :: "string list" where
  "admin_roles = [''SUPER_ADMIN'', ''ADMINISTRATOR'', ''TENANT_ADMIN'']"

definition actor_of :: "request_context \<Rightarrow> actor" where
  "actor_of ctx = \<lparr> ac_name = us_username (rc_user ctx), ac_role = Some (get_primary_role (rc_user ctx)) \<rparr>"

record access =
  ax_decode :: "string \<Rightarrow> pydict option"
  ax_identity :: identity_db
  ax_token :: string
  ax_tenant_id :: "string option"

definition tenant_endpoint :: "access \<Rightarrow> string list \<Rightarrow> (request_context \<Rightarrow> 'db \<Rightarrow> 'db \<times> 'a result) \<Rightarrow> 'db \<Rightarrow> 'db \<times> 'a result" where
  "tenant_endpoint ax roles body =
     request (\<lambda>db. case authorize (ax_decode ax) (ax_identity ax) roles (ax_token ax) (ax_tenant_id ax) of
       Inl e \<Rightarrow> (db, Inl e)
     | Inr ctx \<Rightarrow> body ctx db)"

definition PaginatedResponse :: "nat \<Rightarrow> nat \<Rightarrow> 'r list \<times> nat \<Rightarrow> 'r list \<times> nat \<times> nat" where
  "PaginatedResponse page page_size r = (case r of (items, n) \<Rightarrow> (items, n, max 1 ((n + page_size - 1) div page_size)))"

subsection \<open>Facts on rows\<close>

lemma insert_row_Inr [simp]: "insert_row idf r rows = Inr rows' \<longleftrightarrow> idf r \<notin> idf ` set rows \<and> rows' = rows @ [r]"
  by (auto simp: insert_row_def)

lemma put_row_ids [simp]: "map idf (put_row idf r rows) = map idf rows"
  by (auto simp: put_row_def)

lemma set_put_row: "x \<in> set (put_row idf r rows) \<Longrightarrow> x = r \<or> x \<in> set rows"
  by (auto simp: put_row_def split: if_splits)

lemma distinct_delete_row: "distinct (map idf rows) \<Longrightarrow> distinct (map idf (delete_row idf i rows))"
  by (simp add: delete_row_def distinct_map_filter)

lemma distinct_same_id: "distinct (map idf rows) \<Longrightarrow> x \<in> set rows \<Longrightarrow> y \<in> set rows \<Longrightarrow> idf x = idf y \<Longrightarrow> x = y"
  by (auto simp: distinct_map inj_on_def)

lemma filter_put_row:
  assumes "distinct (map idf rows)" and "p \<in> set rows" and "idf r = idf p" and "\<not> P p" and "\<not> P r"
  shows "filter P (put_row idf r rows) = filter P rows"
proof -
  have "\<not> P x" if "x \<in> set rows" "idf x = idf r" for x using distinct_same_id [OF assms(1) that(1) assms(2)] that(2) assms(3,4) by auto
  then show ?thesis unfolding put_row_def using assms(5) by (induction rows) auto
qed

lemma filter_delete_row:
  assumes "distinct (map idf rows)" and "p \<in> set rows" and "\<not> P p"
  shows "filter P (delete_row idf (idf p) rows) = filter P rows"
proof -
  have "idf x \<noteq> idf p" if "x \<in> set rows" "P x" for x using distinct_same_id [OF assms(1) that(1) assms(2)] that(2) assms(3) by auto
  then show ?thesis by (auto simp: delete_row_def intro: filter_cong)
qed

lemma one_or_none_Some: "one_or_none (filter P rows) = Inr (Some x) \<Longrightarrow> x \<in> set rows \<and> P x"
proof -
  assume "one_or_none (filter P rows) = Inr (Some x)"
  then have "x \<in> set (filter P rows)" by (cases "filter P rows" rule: one_or_none.cases) auto
  then show ?thesis by simp
qed

lemma one_or_none_distinct:
  assumes "distinct (map key rows)" and "\<And>x y. P x \<Longrightarrow> P y \<Longrightarrow> key x = key y"
  shows "\<exists>r. one_or_none (filter P rows) = Inr r \<and> (case r of Some x \<Rightarrow> x \<in> set rows \<and> P x | None \<Rightarrow> \<forall>x \<in> set rows. \<not> P x)"
proof (cases "filter P rows" rule: one_or_none.cases)
  case (3 x y zs)
  then have "distinct (map key (x # y # zs))" using assms(1) by (metis distinct_map_filter)
  moreover have "x \<in> set (filter P rows) \<and> y \<in> set (filter P rows)" unfolding 3 by simp
  then have "key x = key y" using assms(2) [of x y] by simp
  ultimately show ?thesis by simp
next
  case (2 x)
  then have "x \<in> set (filter P rows)" by simp
  then have "x \<in> set rows \<and> P x" by simp
  then show ?thesis using 2 by simp
qed (auto simp: filter_empty_conv)

lemma tenant_then_baseline_visible:
  assumes "given u" and "\<And>o' r. sel o' r \<Longrightarrow> owner r = o'"
    and "filter (\<lambda>r. visible_to u (owner r)) rows = filter (\<lambda>r. visible_to u (owner r)) rows'"
  shows "tenant_then_baseline sel u rows = tenant_then_baseline sel u rows'"
proof -
  have "filter (sel o') rows = filter (sel o') rows'" if "o' = u \<or> o' = None" for o'
  proof -
    have "sel o' r \<Longrightarrow> visible_to u (owner r)" for r using assms(2) [of o' r] that by (auto simp: visible_to_def)
    then have "filter (sel o') xs = filter (sel o') (filter (\<lambda>r. visible_to u (owner r)) xs)" for xs by (induction xs) auto
    then show ?thesis using assms(3) by metis
  qed
  from this [of u] this [of None] show ?thesis by (simp add: tenant_then_baseline_def Let_def)
qed

lemma tenant_then_baseline_spec:
  assumes "distinct (map key rows)" and "\<And>o' x y. sel o' x \<Longrightarrow> sel o' y \<Longrightarrow> key x = key y" and "t \<noteq> []"
  shows "\<exists>r. tenant_then_baseline sel (Some t) rows = Inr r \<and>
    (case r of
       Some x \<Rightarrow> x \<in> set rows \<and> (sel (Some t) x \<or> sel None x \<and> (\<forall>y \<in> set rows. \<not> sel (Some t) y))
     | None \<Rightarrow> \<forall>y \<in> set rows. \<not> sel (Some t) y \<and> \<not> sel None y)"
proof -
  have one: "\<exists>r. one_or_none (filter (sel o') rows) = Inr r \<and> (case r of Some x \<Rightarrow> x \<in> set rows \<and> sel o' x | None \<Rightarrow> \<forall>x \<in> set rows. \<not> sel o' x)" for o'
    by (rule one_or_none_distinct [OF assms(1) assms(2)])
  obtain e b where e: "one_or_none (filter (sel (Some t)) rows) = Inr e" "case e of Some x \<Rightarrow> x \<in> set rows \<and> sel (Some t) x | None \<Rightarrow> \<forall>x \<in> set rows. \<not> sel (Some t) x"
    and b: "one_or_none (filter (sel None) rows) = Inr b" "case b of Some x \<Rightarrow> x \<in> set rows \<and> sel None x | None \<Rightarrow> \<forall>x \<in> set rows. \<not> sel None x"
    using one by blast
  have "tenant_then_baseline sel (Some t) rows = Inr (case e of Some x \<Rightarrow> Some x | None \<Rightarrow> b)"
    using assms(3) e(1) b(1) by (cases t; cases e) (simp_all add: tenant_then_baseline_def given_def)
  then show ?thesis using e(2) b(2) by (cases e; cases b) auto
qed

lemma publish_tables: "publish env entry c r db = (db', x) \<Longrightarrow> \<exists>d. db' = db\<lparr>st_dist := d\<rparr> \<and> (\<forall>v. x = Inr v \<longrightarrow> v = r)"
  by (auto simp: publish_def split: prod.splits sum.splits)

lemma publish_ok: "(\<And>ev. de_check_event env ev = None) \<Longrightarrow> \<exists>d. publish env entry c r db = (db\<lparr>st_dist := d\<rparr>, Inr r)"
  by (auto simp: publish_def trigger_propagation_def create_outbox_event_def Let_def split: prod.splits)

lemma request_Inr: "request f db = (db', Inr x) \<longleftrightarrow> f db = (db', Inr x)"
  by (auto simp: request_def split: prod.splits sum.splits)

lemma request_cases:
  assumes "request f db = (db', r)"
  obtains (commit) x where "r = Inr x" "f db = (db', Inr x)" | (rollback) e where "r = Inl e" "db' = db"
  using assms by (auto simp: request_def split: prod.splits sum.splits)

lemma tenant_endpoint_Inr:
  "tenant_endpoint ax roles body db = (db', Inr x) \<longleftrightarrow>
    (\<exists>ctx. authorize (ax_decode ax) (ax_identity ax) roles (ax_token ax) (ax_tenant_id ax) = Inr ctx \<and> body ctx db = (db', Inr x))"
  by (auto simp: tenant_endpoint_def request_Inr split: sum.splits)

lemma tenant_endpoint_cases:
  assumes "tenant_endpoint ax roles body db = (db', r)"
  obtains (commit) ctx x where "r = Inr x" "authorize (ax_decode ax) (ax_identity ax) roles (ax_token ax) (ax_tenant_id ax) = Inr ctx"
      "body ctx db = (db', Inr x)"
    | (rollback) e where "r = Inl e" "db' = db"
  using assms unfolding tenant_endpoint_def by (cases rule: request_cases) (auto split: sum.splits)

subsection \<open>Tables without baselines\<close>

text \<open>What a call under a tenant does to a table in which every row has a tenant: it adds a row of that tenant, replaces
  a row of the tenant by one with the same identity, or removes one.\<close>

definition tenant_effect :: "('r \<Rightarrow> string) \<Rightarrow> ('r \<Rightarrow> 'k) \<Rightarrow> ('r \<Rightarrow> string) \<Rightarrow> string option \<Rightarrow> 'r list \<Rightarrow> 'r list \<Rightarrow> bool" where
  "tenant_effect idf key tenant tid rows rows' \<longleftrightarrow>
     (\<exists>r. tid = Some (tenant r) \<and> idf r \<notin> idf ` set rows \<and> key r \<notin> key ` set rows \<and> rows' = rows @ [r]) \<or>
     (\<exists>r \<in> set rows. (tid \<noteq> None \<longrightarrow> tid = Some (tenant r)) \<and>
       ((\<exists>r'. idf r' = idf r \<and> key r' = key r \<and> tenant r' = tenant r \<and> rows' = put_row idf r' rows) \<or> rows' = delete_row idf (idf r) rows))"

lemma tenant_effect_add:
  "tid = Some (tenant r) \<Longrightarrow> idf r \<notin> idf ` set rows \<Longrightarrow> key r \<notin> key ` set rows \<Longrightarrow> tenant_effect idf key tenant tid rows (rows @ [r])"
  by (auto simp: tenant_effect_def)

lemma tenant_effect_put:
  "r \<in> set rows \<Longrightarrow> tid \<noteq> None \<longrightarrow> tid = Some (tenant r) \<Longrightarrow> idf r' = idf r \<Longrightarrow> key r' = key r \<Longrightarrow> tenant r' = tenant r \<Longrightarrow>
    tenant_effect idf key tenant tid rows (put_row idf r' rows)"
  unfolding tenant_effect_def by blast

lemma tenant_effect_delete:
  "r \<in> set rows \<Longrightarrow> tid \<noteq> None \<longrightarrow> tid = Some (tenant r) \<Longrightarrow> tenant_effect idf key tenant tid rows (delete_row idf (idf r) rows)"
  unfolding tenant_effect_def by blast

lemma tenant_effect_distinct:
  assumes "tenant_effect idf key tenant tid rows rows'" and "distinct (map idf rows)" and "distinct (map key rows)"
  shows "distinct (map idf rows') \<and> distinct (map key rows')"
proof -
  consider r where "idf r \<notin> idf ` set rows" "key r \<notin> key ` set rows" "rows' = rows @ [r]"
    | r r' where "r \<in> set rows" "idf r' = idf r" "key r' = key r" "rows' = put_row idf r' rows"
    | r where "rows' = delete_row idf (idf r) rows"
    using assms(1) unfolding tenant_effect_def by blast
  then show ?thesis
  proof cases
    case 2
    then have "map key rows' = map key rows" using distinct_same_id [OF assms(2)] by (auto simp: put_row_def)
    then show ?thesis using 2 assms by simp
  qed (use assms in \<open>auto simp: delete_row_def distinct_map_filter\<close>)
qed

lemma tenant_effect_foreign:
  assumes "tenant_effect idf key tenant (Some t) rows rows'" and "distinct (map idf rows)"
  shows "filter (\<lambda>r. Some (tenant r) \<noteq> Some t) rows' = filter (\<lambda>r. Some (tenant r) \<noteq> Some t) rows"
proof -
  consider r where "tenant r = t" "rows' = rows @ [r]"
    | r r' where "r \<in> set rows" "tenant r = t" "idf r' = idf r" "tenant r' = tenant r" "rows' = put_row idf r' rows"
    | r where "r \<in> set rows" "tenant r = t" "rows' = delete_row idf (idf r) rows"
    using assms(1) unfolding tenant_effect_def by auto
  then show ?thesis
  proof cases
    case 2
    then show ?thesis using filter_put_row [OF assms(2) 2(1,3)] by simp
  next
    case 3
    then show ?thesis using filter_delete_row [OF assms(2) 3(1)] by simp
  qed simp
qed

subsection \<open>Interfaces\<close>

text \<open>A caller who is a user of the tenant and no super administrator.\<close>

definition tenant_caller :: "string \<Rightarrow> access \<Rightarrow> bool" where
  "tenant_caller t ax =
     (case dep_current_user (ax_decode ax) (ax_identity ax) (ax_token ax) of
        Inl _ \<Rightarrow> False
      | Inr u \<Rightarrow> \<not> is_super_admin u \<and> us_tenant_id u = Some t)"

lemma tenant_caller_context:
  assumes "tenant_caller t ax" and "authorize (ax_decode ax) (ax_identity ax) roles (ax_token ax) (ax_tenant_id ax) = Inr ctx"
  shows "rc_tenant_id ctx = Some t" and "t \<noteq> []"
proof -
  obtain u where u: "dep_current_user (ax_decode ax) (ax_identity ax) (ax_token ax) = Inr u" "\<not> is_super_admin u" "us_tenant_id u = Some t"
    using assms(1) by (auto simp: tenant_caller_def split: sum.splits)
  then have "dep_tenant_context (ax_identity ax) u (ax_tenant_id ax) = Inr ctx" using assms(2) by (auto simp: authorize_def)
  from tenant_context_own(1,2) [OF this u(2)] u(3) show "rc_tenant_id ctx = Some t" "t \<noteq> []" by (auto simp: given_def split: list.splits)
qed

lemma tenant_endpoint_keeps:
  assumes "tenant_caller t ax" and "Q db"
    and "\<And>ctx db' x. rc_tenant_id ctx = Some t \<Longrightarrow> t \<noteq> [] \<Longrightarrow> body ctx db = (db', Inr x) \<Longrightarrow> Q db'"
  shows "Q (fst (tenant_endpoint ax roles body db))"
proof -
  obtain db' r where e: "tenant_endpoint ax roles body db = (db', r)" by fastforce
  then show ?thesis
  proof (cases rule: tenant_endpoint_cases)
    case (commit ctx x)
    then show ?thesis using e tenant_caller_context [OF assms(1) commit(2)] assms(3) by simp
  qed (use e assms(2) in simp)
qed

text \<open>A registry whose calls, made by users of one tenant, leave the rows of every other owner alone.\<close>

locale tenant_registry =
  fixes rows :: "'s \<Rightarrow> 'r list" and owner :: "'r \<Rightarrow> string option" and inv :: "'s \<Rightarrow> bool"
    and step :: "'c \<Rightarrow> 's \<Rightarrow> 's" and scoped :: "string \<Rightarrow> 'c \<Rightarrow> bool"
  assumes step_inv: "inv s \<Longrightarrow> inv (step c s)"
    and step_foreign: "inv s \<Longrightarrow> scoped t c \<Longrightarrow> filter (\<lambda>r. owner r \<noteq> Some t) (rows (step c s)) = filter (\<lambda>r. owner r \<noteq> Some t) (rows s)"
begin

lemma run_inv: "inv s \<Longrightarrow> inv (fold step cs s)"
  by (induction cs arbitrary: s) (auto intro: step_inv)

lemma run_foreign:
  assumes "inv s" and "\<forall>c \<in> set cs. scoped t c"
  shows "filter (\<lambda>r. owner r \<noteq> Some t) (rows (fold step cs s)) = filter (\<lambda>r. owner r \<noteq> Some t) (rows s)"
  using assms by (induction cs arbitrary: s) (auto simp: step_foreign step_inv)

lemma run_other:
  assumes "inv s" and "\<forall>c \<in> set cs. scoped t c" and "\<And>r. P r \<Longrightarrow> owner r \<noteq> Some t"
  shows "filter P (rows (fold step cs s)) = filter P (rows s)"
proof -
  have "filter P xs = filter P (filter (\<lambda>r. owner r \<noteq> Some t) xs)" for xs using assms(3) by (induction xs) auto
  then show ?thesis using run_foreign [OF assms(1,2)] by metis
qed

lemma run_visible:
  assumes "inv s" and "\<forall>c \<in> set cs. scoped t c" and "u \<noteq> t" and "u \<noteq> []"
  shows "filter (\<lambda>r. visible_to (Some u) (owner r)) (rows (fold step cs s)) = filter (\<lambda>r. visible_to (Some u) (owner r)) (rows s)"
  using assms(3,4) by (intro run_other [OF assms(1,2)]) (auto simp: visible_to_def given_def split: list.splits)

end

text \<open>A registry of platform baselines with extensions of the tenants, in which a lookup reads visible rows only.\<close>

locale extension_registry = tenant_registry +
  fixes resolve :: "string \<Rightarrow> string option \<Rightarrow> 's \<Rightarrow> 'x"
  assumes resolve_visible: "given u \<Longrightarrow> filter (\<lambda>r. visible_to u (owner r)) (rows s) = filter (\<lambda>r. visible_to u (owner r)) (rows s') \<Longrightarrow>
    resolve k u s = resolve k u s'"
begin

lemma resolve_isolated:
  assumes "inv s" and "\<forall>c \<in> set cs. scoped t c" and "u \<noteq> t" and "u \<noteq> []"
  shows "resolve k (Some u) (fold step cs s) = resolve k (Some u) s"
  using run_visible [OF assms] assms(4) by (intro resolve_visible) (auto simp: given_def split: list.splits)

end

subsection \<open>An example\<close>

definition demo_access :: access where
  "demo_access = \<lparr> ax_decode = (\<lambda>_. Some [(''sub'', PStr ''u1'')]),
     ax_identity = \<lparr> id_users = [\<lparr> us_id = ''u1'', us_username = ''ann'', us_is_active = True, us_is_superuser = False, us_tenant_id = Some ''a'',
         us_role_names = [''TENANT_ADMIN''] \<rparr>],
       id_tenants = [\<lparr> tn_id = ''a'', tn_name = ''A'', tn_slug = ''alpha'', tn_status = TS_ACTIVE \<rparr>, \<lparr> tn_id = ''b'', tn_name = ''B'', tn_slug = ''beta'', tn_status = TS_ACTIVE \<rparr>] \<rparr>,
     ax_token = ''jwt'', ax_tenant_id = None \<rparr>"

definition demo_context :: request_context where
  "demo_context = \<lparr> rc_user = \<lparr> us_id = ''u1'', us_username = ''ann'', us_is_active = True, us_is_superuser = False, us_tenant_id = Some ''a'',
       us_role_names = [''TENANT_ADMIN''] \<rparr>, rc_tenant_id = Some ''a'', rc_is_super_admin = False \<rparr>"

lemma demo_access_context:
  assumes "''TENANT_ADMIN'' \<in> set roles"
  shows "authorize (ax_decode demo_access) (ax_identity demo_access) roles (ax_token demo_access) (ax_tenant_id demo_access) = Inr demo_context"
  using assms by (auto simp: authorize_def demo_access_def demo_context_def dep_current_user_def get_user_def get_tenant_def tenant_usable_def
      dep_tenant_context_def is_super_admin_def require_roles_def normalize_roles_def given_def pget_default_def)

lemma demo_access_caller: "tenant_caller ''a'' demo_access"
  by (simp add: tenant_caller_def demo_access_def dep_current_user_def get_user_def get_tenant_def tenant_usable_def is_super_admin_def
      given_def pget_default_def)

definition demo_env :: dist_env where
  "demo_env = \<lparr> de_distribution_id = ''d1'', de_correlation_id = ''c'', de_version_row_id = ''v'', de_time_ms = 0, de_now = ''t'',
     de_check_event = (\<lambda>_. None), de_check_ack = (\<lambda>_. None), de_push = (\<lambda>_ _. Inr (PDict [(''status'', PStr ''APPLIED'')])) \<rparr>"

lemma demo_env_check [simp]: "de_check_event demo_env ev = None"
  by (simp add: demo_env_def)

lemma roles_admin [simp]: "''TENANT_ADMIN'' \<in> set writer_roles" "''TENANT_ADMIN'' \<in> set admin_roles" "''TENANT_ADMIN'' \<in> set all_roles"
  by (simp_all add: writer_roles_def admin_roles_def all_roles_def)

lemma demo_rc [simp]: "rc_tenant_id demo_context = Some ''a''"
  by (simp add: demo_context_def)

end
