(* ===== verification/M6_Parsers.thy ===== *)
theory M6_Parsers
  imports M6_Registry
begin

section \<open>M6: parser registry\<close>

text \<open>
  \<open>registry/parser_registry.py\<close>, \<open>repositories/parser_repo.py\<close>, \<open>models/parser.py\<close> and the handlers of \<open>api/parsers.py\<close>. The
  tables are lists of rows in the order of insertion; \<open>ilike\<close> is the operator of the database. The identifier
  of a new row is an argument. Every handler is one transaction.
\<close>

datatype parser_status = PS_DRAFT | PS_PENDING_APPROVAL | PS_APPROVED | PS_ACTIVE | PS_DISABLED | PS_ROLLED_BACK

fun ps_value :: "parser_status \<Rightarrow> string" where
  "ps_value PS_DRAFT = ''DRAFT''"
| "ps_value PS_PENDING_APPROVAL = ''PENDING_APPROVAL''"
| "ps_value PS_APPROVED = ''APPROVED''"
| "ps_value PS_ACTIVE = ''ACTIVE''"
| "ps_value PS_DISABLED = ''DISABLED''"
| "ps_value PS_ROLLED_BACK = ''ROLLED_BACK''"

fun PARSER_TRANSITIONS :: "parser_status \<Rightarrow> parser_status list" where
  "PARSER_TRANSITIONS PS_DRAFT = [PS_PENDING_APPROVAL]"
| "PARSER_TRANSITIONS PS_PENDING_APPROVAL = [PS_APPROVED, PS_DRAFT]"
| "PARSER_TRANSITIONS PS_APPROVED = [PS_ACTIVE]"
| "PARSER_TRANSITIONS PS_ACTIVE = [PS_DISABLED, PS_ROLLED_BACK]"
| "PARSER_TRANSITIONS PS_ROLLED_BACK = [PS_ACTIVE]"
| "PARSER_TRANSITIONS PS_DISABLED = [PS_ACTIVE]"

record parser_row =
  pa_id :: string
  pa_parser_id :: string
  pa_tenant_id :: "string option"
  pa_name :: string
  pa_vendor :: string
  pa_product :: string
  pa_format :: string
  pa_version :: string
  pa_status :: parser_status
  pa_description :: "string option"
  pa_tags :: "string option"
  pa_created_by :: "string option"
  pa_updated_by :: "string option"
  pa_approved_by :: "string option"

record parser_version_row =
  pv_parser_row :: string
  pv_version :: string
  pv_status :: parser_status
  pv_changed_by :: string
  pv_reason :: "string option"
  pv_snapshot :: pydict

record parser_db = store +
  pdb_parsers :: "parser_row list"
  pdb_versions :: "parser_version_row list"

record parser_create =
  pc_parser_id :: string
  pc_tenant_id :: "string option"
  pc_name :: string
  pc_vendor :: string
  pc_product :: string
  pc_format :: string
  pc_version :: string
  pc_description :: "string option"
  pc_tags :: "string list option"

record parser_update =
  pu_name :: "string option"
  pu_vendor :: "string option"
  pu_product :: "string option"
  pu_format :: "string option"
  pu_version :: "string option"
  pu_description :: "string option"
  pu_tags :: "string list option"

subsection \<open>Repository\<close>

definition active_parser :: "string \<Rightarrow> string option \<Rightarrow> parser_row \<Rightarrow> bool" where
  "active_parser parser_id owner p = (pa_parser_id p = parser_id \<and> pa_tenant_id p = owner \<and> pa_status p = PS_ACTIVE)"

definition resolve_parser :: "string \<Rightarrow> string option \<Rightarrow> parser_db \<Rightarrow> parser_row option result" where
  "resolve_parser parser_id tenant_id db = tenant_then_baseline (active_parser parser_id) tenant_id (pdb_parsers db)"

definition get_by_id_scoped :: "string \<Rightarrow> string option \<Rightarrow> parser_db \<Rightarrow> parser_row option result" where
  "get_by_id_scoped i tenant_id db = one_or_none (filter (\<lambda>p. pa_id p = i \<and> visible_to tenant_id (pa_tenant_id p)) (pdb_parsers db))"

definition get_by_parser_id :: "string \<Rightarrow> string option \<Rightarrow> parser_db \<Rightarrow> parser_row option result" where
  "get_by_parser_id parser_id tenant_id db = one_or_none (filter (\<lambda>p. pa_parser_id p = parser_id \<and> pa_tenant_id p = tenant_id) (pdb_parsers db))"

definition parser_id_exists :: "string \<Rightarrow> string option \<Rightarrow> parser_db \<Rightarrow> bool" where
  "parser_id_exists parser_id tenant_id db = (filter (\<lambda>p. pa_parser_id p = parser_id \<and> pa_tenant_id p = tenant_id) (pdb_parsers db) \<noteq> [])"

definition search_parsers :: "(string \<Rightarrow> string \<Rightarrow> bool) \<Rightarrow> string option \<Rightarrow> parser_status option \<Rightarrow> string option \<Rightarrow> string option \<Rightarrow> nat \<Rightarrow> nat \<Rightarrow>
    parser_db \<Rightarrow> parser_row list \<times> nat" where
  "search_parsers ilike q status vendor tenant_id skip limit db =
     page_of skip limit (rev (filter (\<lambda>p. visible_to tenant_id (pa_tenant_id p) \<and>
       (given q \<longrightarrow> like ilike (pa_name p) q \<or> like ilike (pa_parser_id p) q) \<and>
       (status = None \<or> status = Some (pa_status p)) \<and> (given vendor \<longrightarrow> like ilike (pa_vendor p) vendor)) (pdb_parsers db)))"

definition add_version :: "parser_row \<Rightarrow> string \<Rightarrow> string option \<Rightarrow> parser_db \<Rightarrow> parser_db" where
  "add_version p changed_by reason db =
     db\<lparr>pdb_versions := pdb_versions db @ [\<lparr> pv_parser_row = pa_id p, pv_version = pa_version p, pv_status = pa_status p,
          pv_changed_by = changed_by, pv_reason = reason,
          pv_snapshot = [(''parser_id'', PStr (pa_parser_id p)), (''tenant_id'', opt_value (pa_tenant_id p)), (''name'', PStr (pa_name p)),
            (''vendor'', PStr (pa_vendor p)), (''product'', PStr (pa_product p)), (''format'', PStr (pa_format p)),
            (''version'', PStr (pa_version p)), (''status'', PStr (ps_value (pa_status p)))] \<rparr>]\<rparr>"

definition get_versions :: "string \<Rightarrow> parser_db \<Rightarrow> parser_version_row list" where
  "get_versions i db = rev (filter (\<lambda>v. pv_parser_row v = i) (pdb_versions db))"

definition put_parser :: "parser_row \<Rightarrow> parser_db \<Rightarrow> parser_db" where
  "put_parser p db = db\<lparr>pdb_parsers := put_row pa_id p (pdb_parsers db)\<rparr>"

subsection \<open>Registry\<close>

definition parser_snapshot :: "parser_row \<Rightarrow> pydict" where
  "parser_snapshot p =
     [(''parser_id'', PStr (pa_parser_id p)), (''tenant_id'', opt_value (pa_tenant_id p)), (''name'', PStr (pa_name p)),
      (''status'', PStr (ps_value (pa_status p))), (''version'', PStr (pa_version p)), (''vendor'', PStr (pa_vendor p)),
      (''product'', PStr (pa_product p)), (''format'', PStr (pa_format p))]"

definition parser_audit :: "actor \<Rightarrow> string \<Rightarrow> parser_row \<Rightarrow> string option \<Rightarrow> pydict option \<Rightarrow> string option \<Rightarrow> audit_entry" where
  "parser_audit a action p version before reason =
     \<lparr> au_actor = ac_name a, au_actor_role = ac_role a, au_action = action, au_resource_type = ''parser'', au_resource_id = Some (pa_parser_id p),
       au_tenant_id = pa_tenant_id p, au_version = version, au_before_state = before, au_after_state = Some (parser_snapshot p), au_reason = reason \<rparr>"

definition parser_change :: "actor \<Rightarrow> string \<Rightarrow> parser_row \<Rightarrow> change" where
  "parser_change a op p =
     \<lparr> ch_config_type = ''parsers'', ch_entity_id = Some (pa_parser_id p), ch_version = pa_version p, ch_tenant_id = pa_tenant_id p,
       ch_operation = op, ch_payload = parser_snapshot p, ch_actor = ac_name a, ch_actor_role = ac_role a \<rparr>"

definition parser_get :: "string \<Rightarrow> string option \<Rightarrow> parser_db \<Rightarrow> parser_row result" where
  "parser_get i tenant_id db =
     rbind (get_by_id_scoped i tenant_id db) (\<lambda>r.
       case r of Some p \<Rightarrow> Inr p | None \<Rightarrow> Inl (OtherError ''ParserNotFound'' (''Parser '' @ quoted i @ '' not found'')))"

definition owned_parser :: "string \<Rightarrow> string option \<Rightarrow> parser_db \<Rightarrow> parser_row result" where
  "owned_parser i tenant_id db =
     rbind (parser_get i tenant_id db) (\<lambda>p.
       if tenant_id \<noteq> None \<and> pa_tenant_id p = None then
         Inl (OtherError ''InvalidStateTransition'' ''Tenant users cannot modify platform baseline parsers'')
       else Inr p)"

definition op_of :: "parser_status \<Rightarrow> string" where
  "op_of target = (case target of PS_ACTIVE \<Rightarrow> ''ACTIVATE'' | PS_DISABLED \<Rightarrow> ''DISABLE'' | PS_ROLLED_BACK \<Rightarrow> ''ROLLBACK'' | _ \<Rightarrow> ''UPDATE'')"

definition parser_transition :: "dist_env \<Rightarrow> parser_status \<Rightarrow> string \<Rightarrow> bool \<Rightarrow> actor \<Rightarrow> string option \<Rightarrow> string option \<Rightarrow> string \<Rightarrow> parser_db \<Rightarrow>
    parser_db \<times> parser_row result" where
  "parser_transition env target action approving a tenant_id reason i db =
     (case owned_parser i tenant_id db of
        Inl e \<Rightarrow> (db, Inl e)
      | Inr p \<Rightarrow>
          if target \<notin> set (PARSER_TRANSITIONS (pa_status p)) then
            (db, Inl (OtherError ''InvalidStateTransition'' (''Cannot transition parser '' @ quoted (pa_parser_id p) @ '' from '' @
               ps_value (pa_status p) @ '' to '' @ ps_value target @ ''. Allowed: '' @ list_repr (map ps_value (PARSER_TRANSITIONS (pa_status p))))))
          else
            let p1 = p\<lparr>pa_status := target\<rparr>;
                p2 = (if approving then p1\<lparr>pa_approved_by := Some (ac_name a)\<rparr> else p1);
                db1 = add_version p2 (ac_name a) reason (put_parser p2 db)
            in publish env (parser_audit a action p2 (Some (pa_version p2)) (Some (parser_snapshot p)) reason) (parser_change a (op_of target) p2) p2 db1)"

definition new_parser :: "string \<Rightarrow> parser_create \<Rightarrow> string \<Rightarrow> string option \<Rightarrow> parser_row" where
  "new_parser row_id data name owner =
     \<lparr> pa_id = row_id, pa_parser_id = pc_parser_id data, pa_tenant_id = owner, pa_name = pc_name data, pa_vendor = pc_vendor data,
       pa_product = pc_product data, pa_format = pc_format data, pa_version = pc_version data, pa_status = PS_DRAFT,
       pa_description = pc_description data, pa_tags = (case pc_tags data of Some (x # xs) \<Rightarrow> Some (dumps_tags (x # xs)) | _ \<Rightarrow> None),
       pa_created_by = Some name, pa_updated_by = Some name, pa_approved_by = None \<rparr>"

definition parser_register :: "dist_env \<Rightarrow> string \<Rightarrow> parser_create \<Rightarrow> actor \<Rightarrow> string option \<Rightarrow> parser_db \<Rightarrow> parser_db \<times> parser_row result" where
  "parser_register env row_id data a tenant_id db =
     (let owner = effective_tenant (pc_tenant_id data) tenant_id;
          p = new_parser row_id data (ac_name a) owner in
      if parser_id_exists (pc_parser_id data) owner db then
        (db, Inl (OtherError ''DuplicateError'' (''Parser '' @ quoted (pc_parser_id data) @ '' already exists '' @
           (if given owner then ''for tenant '' @ quoted (the owner) else ''globally''))))
      else
        case insert_row pa_id p (pdb_parsers db) of
          Inl e \<Rightarrow> (db, Inl e)
        | Inr rows \<Rightarrow>
            publish env (parser_audit a ''PARSER_REGISTERED'' p (Some (pa_version p)) None None) (parser_change a ''CREATE'' p) p
              (add_version p (ac_name a) (Some ''Initial registration'') (db\<lparr>pdb_parsers := rows\<rparr>)))"

definition apply_update :: "parser_update \<Rightarrow> string \<Rightarrow> parser_row \<Rightarrow> parser_row" where
  "apply_update data name p =
     p\<lparr>pa_name := or_keep (pu_name data) (pa_name p), pa_vendor := or_keep (pu_vendor data) (pa_vendor p),
       pa_product := or_keep (pu_product data) (pa_product p), pa_format := or_keep (pu_format data) (pa_format p),
       pa_version := or_keep (pu_version data) (pa_version p),
       pa_description := or_keep_opt (pu_description data) (pa_description p),
       pa_tags := or_keep_opt (map_option dumps_tags (pu_tags data)) (pa_tags p), pa_updated_by := Some name\<rparr>"

definition parser_update_op :: "dist_env \<Rightarrow> parser_update \<Rightarrow> actor \<Rightarrow> string option \<Rightarrow> string \<Rightarrow> parser_db \<Rightarrow> parser_db \<times> parser_row result" where
  "parser_update_op env data a tenant_id i db =
     (case owned_parser i tenant_id db of
        Inl e \<Rightarrow> (db, Inl e)
      | Inr p \<Rightarrow>
          let p' = apply_update data (ac_name a) p in
          publish env (parser_audit a ''PARSER_UPDATED'' p' None (Some (parser_snapshot p)) None) (parser_change a ''UPDATE'' p') p' (put_parser p' db))"

definition parser_submit where
  "parser_submit env = parser_transition env PS_PENDING_APPROVAL ''PARSER_SUBMITTED'' False"

definition parser_approve where
  "parser_approve env = parser_transition env PS_APPROVED ''PARSER_APPROVED'' True"

definition parser_activate where
  "parser_activate env = parser_transition env PS_ACTIVE ''PARSER_ACTIVATED'' False"

definition parser_disable where
  "parser_disable env = parser_transition env PS_DISABLED ''PARSER_DISABLED'' False"

definition parser_rollback where
  "parser_rollback env = parser_transition env PS_ROLLED_BACK ''PARSER_ROLLED_BACK'' False"

definition parser_resolve :: "string \<Rightarrow> string option \<Rightarrow> parser_db \<Rightarrow> parser_row result" where
  "parser_resolve parser_id tenant_id db =
     rbind (resolve_parser parser_id tenant_id db) (\<lambda>r.
       case r of Some p \<Rightarrow> Inr p | None \<Rightarrow> Inl (OtherError ''ParserNotFound'' (''Active parser '' @ quoted parser_id @ '' not found'')))"

definition parser_list :: "(string \<Rightarrow> string \<Rightarrow> bool) \<Rightarrow> string option \<Rightarrow> parser_status option \<Rightarrow> string option \<Rightarrow> string option \<Rightarrow> nat \<Rightarrow> nat \<Rightarrow>
    parser_db \<Rightarrow> parser_row list \<times> nat" where
  "parser_list ilike q status vendor tenant_id page page_size db =
     search_parsers ilike q status vendor tenant_id ((page - 1) * page_size) page_size db"

definition parser_by_parser_id :: "string \<Rightarrow> string option \<Rightarrow> parser_db \<Rightarrow> parser_row result" where
  "parser_by_parser_id parser_id tenant_id db =
     rbind (get_by_parser_id parser_id tenant_id db) (\<lambda>r.
       case r of Some p \<Rightarrow> Inr p | None \<Rightarrow> Inl (OtherError ''ParserNotFound'' (''Parser '' @ quoted parser_id @ '' not found'')))"

definition parser_history :: "string \<Rightarrow> string option \<Rightarrow> parser_db \<Rightarrow> parser_version_row list result" where
  "parser_history i tenant_id db = rbind (parser_get i tenant_id db) (\<lambda>p. Inr (get_versions (pa_id p) db))"

subsection \<open>Endpoints\<close>

text \<open>\<open>ParserResponse\<close> declares \<open>tags\<close> as a list and has no validator for the JSON text of the column.\<close>

definition ParserResponse :: "parser_row \<Rightarrow> parser_row result" where
  "ParserResponse p =
     (case pa_tags p of None \<Rightarrow> Inr p | Some _ \<Rightarrow> Inl (OtherError ''ValidationError'' ''tags: Input should be a valid list''))"

definition respond :: "parser_db \<times> parser_row result \<Rightarrow> parser_db \<times> parser_row result" where
  "respond r = (case r of (db, x) \<Rightarrow> (db, rbind x ParserResponse))"

datatype parser_call =
    RegisterParser dist_env string parser_create
  | UpdateParser dist_env string parser_update
  | SubmitParser dist_env string "string option"
  | ApproveParser dist_env string "string option"
  | ActivateParser dist_env string "string option"
  | DisableParser dist_env string "string option"
  | RollbackParser dist_env string "string option"

fun parser_call_roles :: "parser_call \<Rightarrow> string list" where
  "parser_call_roles (RegisterParser _ _ _) = writer_roles"
| "parser_call_roles (UpdateParser _ _ _) = writer_roles"
| "parser_call_roles (SubmitParser _ _ _) = writer_roles"
| "parser_call_roles (ApproveParser _ _ _) = admin_roles"
| "parser_call_roles (ActivateParser _ _ _) = admin_roles"
| "parser_call_roles (DisableParser _ _ _) = writer_roles"
| "parser_call_roles (RollbackParser _ _ _) = admin_roles"

fun parser_call_body :: "parser_call \<Rightarrow> request_context \<Rightarrow> parser_db \<Rightarrow> parser_db \<times> parser_row result" where
  "parser_call_body (RegisterParser env row_id data) ctx db = parser_register env row_id data (actor_of ctx) (rc_tenant_id ctx) db"
| "parser_call_body (UpdateParser env i data) ctx db = parser_update_op env data (actor_of ctx) (rc_tenant_id ctx) i db"
| "parser_call_body (SubmitParser env i reason) ctx db = parser_submit env (actor_of ctx) (rc_tenant_id ctx) reason i db"
| "parser_call_body (ApproveParser env i reason) ctx db = parser_approve env (actor_of ctx) (rc_tenant_id ctx) reason i db"
| "parser_call_body (ActivateParser env i reason) ctx db = parser_activate env (actor_of ctx) (rc_tenant_id ctx) reason i db"
| "parser_call_body (DisableParser env i reason) ctx db = parser_disable env (actor_of ctx) (rc_tenant_id ctx) reason i db"
| "parser_call_body (RollbackParser env i reason) ctx db = parser_rollback env (actor_of ctx) (rc_tenant_id ctx) reason i db"

definition parser_api :: "access \<Rightarrow> parser_call \<Rightarrow> parser_db \<Rightarrow> parser_db \<times> parser_row result" where
  "parser_api ax c = tenant_endpoint ax (parser_call_roles c) (\<lambda>ctx db. respond (parser_call_body c ctx db))"

definition get_parser_api :: "access \<Rightarrow> string \<Rightarrow> parser_db \<Rightarrow> parser_db \<times> parser_row result" where
  "get_parser_api ax i = tenant_endpoint ax all_roles (\<lambda>ctx db. (db, rbind (parser_get i (rc_tenant_id ctx) db) ParserResponse))"

definition resolve_parser_api :: "access \<Rightarrow> string \<Rightarrow> parser_db \<Rightarrow> parser_db \<times> parser_row result" where
  "resolve_parser_api ax parser_id = tenant_endpoint ax all_roles (\<lambda>ctx db. (db, rbind (parser_resolve parser_id (rc_tenant_id ctx) db) ParserResponse))"

definition list_parsers_api :: "(string \<Rightarrow> string \<Rightarrow> bool) \<Rightarrow> access \<Rightarrow> string option \<Rightarrow> parser_status option \<Rightarrow> string option \<Rightarrow> nat \<Rightarrow> nat \<Rightarrow>
    parser_db \<Rightarrow> parser_db \<times> (parser_row list \<times> nat \<times> nat) result" where
  "list_parsers_api ilike ax q status vendor page page_size =
     tenant_endpoint ax all_roles (\<lambda>ctx db.
       let (items, n) = parser_list ilike q status vendor (rc_tenant_id ctx) page page_size db
       in (db, rbind (seq_results (map ParserResponse items)) (\<lambda>rs. Inr (PaginatedResponse page page_size (rs, n)))))"

definition parser_history_api :: "access \<Rightarrow> string \<Rightarrow> parser_db \<Rightarrow> parser_db \<times> parser_version_row list result" where
  "parser_history_api ax i = tenant_endpoint ax all_roles (\<lambda>ctx db. (db, parser_history i (rc_tenant_id ctx) db))"

subsection \<open>What a call does\<close>

definition same_parser :: "parser_row \<Rightarrow> parser_row \<Rightarrow> bool" where
  "same_parser p p' \<longleftrightarrow> pa_id p' = pa_id p \<and> pa_parser_id p' = pa_parser_id p \<and> pa_tenant_id p' = pa_tenant_id p"

definition parser_key :: "parser_row \<Rightarrow> string \<times> string option" where
  "parser_key p = (pa_parser_id p, pa_tenant_id p)"

text \<open>The three kinds of change: a new draft, a step of the lifecycle, an edit.\<close>

definition registers :: "string option \<Rightarrow> parser_row \<Rightarrow> parser_db \<Rightarrow> parser_db \<Rightarrow> bool" where
  "registers owner p db db' \<longleftrightarrow> pa_tenant_id p = owner \<and> pa_status p = PS_DRAFT \<and> pa_id p \<notin> pa_id ` set (pdb_parsers db) \<and>
     parser_key p \<notin> parser_key ` set (pdb_parsers db) \<and> pdb_parsers db' = pdb_parsers db @ [p] \<and>
     (\<exists>v. pdb_versions db' = pdb_versions db @ [v] \<and> pv_parser_row v = pa_id p \<and> pv_status v = PS_DRAFT)"

definition moves :: "parser_row \<Rightarrow> parser_row \<Rightarrow> parser_db \<Rightarrow> parser_db \<Rightarrow> bool" where
  "moves p p' db db' \<longleftrightarrow> p \<in> set (pdb_parsers db) \<and> same_parser p p' \<and> pa_status p' \<in> set (PARSER_TRANSITIONS (pa_status p)) \<and>
     (if pa_status p' = PS_APPROVED then pa_approved_by p' \<noteq> None else pa_approved_by p' = pa_approved_by p) \<and>
     pdb_parsers db' = put_row pa_id p' (pdb_parsers db) \<and>
     (\<exists>v. pdb_versions db' = pdb_versions db @ [v] \<and> pv_parser_row v = pa_id p \<and> pv_status v = pa_status p')"

definition edits :: "parser_row \<Rightarrow> parser_row \<Rightarrow> parser_db \<Rightarrow> parser_db \<Rightarrow> bool" where
  "edits p p' db db' \<longleftrightarrow> p \<in> set (pdb_parsers db) \<and> same_parser p p' \<and> pa_status p' = pa_status p \<and> pa_approved_by p' = pa_approved_by p \<and>
     pdb_parsers db' = put_row pa_id p' (pdb_parsers db) \<and> pdb_versions db' = pdb_versions db"

lemma owned_parser_row:
  assumes "owned_parser i tenant_id db = Inr p"
  shows "p \<in> set (pdb_parsers db)" and "pa_id p = i" and "given tenant_id \<Longrightarrow> pa_tenant_id p = tenant_id"
proof -
  have "get_by_id_scoped i tenant_id db = Inr (Some p)" and n: "tenant_id \<noteq> None \<longrightarrow> pa_tenant_id p \<noteq> None"
    using assms by (auto simp: owned_parser_def parser_get_def split: option.splits if_splits)
  then have q: "p \<in> set (pdb_parsers db) \<and> pa_id p = i \<and> visible_to tenant_id (pa_tenant_id p)"
    unfolding get_by_id_scoped_def by (blast dest: one_or_none_Some)
  then show "p \<in> set (pdb_parsers db)" "pa_id p = i" by auto
  show "given tenant_id \<Longrightarrow> pa_tenant_id p = tenant_id" using q n by (auto simp: visible_to_def given_def)
qed

lemma transition_moves:
  assumes "parser_transition env target action (target = PS_APPROVED) a tenant_id reason i db = (db', Inr p')"
  shows "\<exists>p. moves p p' db db' \<and> (given tenant_id \<longrightarrow> pa_tenant_id p = tenant_id)"
proof -
  obtain p where p: "owned_parser i tenant_id db = Inr p" and g: "target \<in> set (PARSER_TRANSITIONS (pa_status p))"
    using assms by (auto simp: parser_transition_def split: sum.splits if_splits)
  let ?p1 = "p\<lparr>pa_status := target\<rparr>"
  let ?p2 = "if target = PS_APPROVED then ?p1\<lparr>pa_approved_by := Some (ac_name a)\<rparr> else ?p1"
  let ?db1 = "add_version ?p2 (ac_name a) reason (put_parser ?p2 db)"
  have "publish env (parser_audit a action ?p2 (Some (pa_version ?p2)) (Some (parser_snapshot p)) reason) (parser_change a (op_of target) ?p2) ?p2 ?db1 = (db', Inr p')"
    using assms p g by (simp add: parser_transition_def Let_def)
  then obtain d where d: "db' = ?db1\<lparr>st_dist := d\<rparr>" "p' = ?p2" by (auto dest!: publish_tables)
  have "moves p p' db db'"
    using owned_parser_row(1) [OF p] g unfolding moves_def d by (auto simp: same_parser_def add_version_def put_parser_def)
  then show ?thesis using owned_parser_row(3) [OF p] by blast
qed

lemma update_edits:
  assumes "parser_update_op env data a tenant_id i db = (db', Inr p')"
  shows "\<exists>p. edits p p' db db' \<and> (given tenant_id \<longrightarrow> pa_tenant_id p = tenant_id)"
proof -
  obtain p where p: "owned_parser i tenant_id db = Inr p" using assms by (auto simp: parser_update_op_def split: sum.splits)
  with assms obtain d where d: "db' = (put_parser (apply_update data (ac_name a) p) db)\<lparr>st_dist := d\<rparr>" "p' = apply_update data (ac_name a) p"
    by (auto simp: parser_update_op_def Let_def dest!: publish_tables)
  have "edits p p' db db'"
    using owned_parser_row(1) [OF p] unfolding edits_def d by (simp add: same_parser_def apply_update_def put_parser_def)
  then show ?thesis using owned_parser_row(3) [OF p] by blast
qed

lemma register_registers:
  assumes "parser_register env row_id data a tenant_id db = (db', Inr p)"
  shows "registers (effective_tenant (pc_tenant_id data) tenant_id) p db db'"
proof -
  let ?owner = "effective_tenant (pc_tenant_id data) tenant_id"
  let ?p = "new_parser row_id data (ac_name a) ?owner"
  have k: "\<not> parser_id_exists (pc_parser_id data) ?owner db"
    using assms by (auto simp: parser_register_def Let_def split: if_splits)
  then have fresh: "(pc_parser_id data, ?owner) \<notin> parser_key ` set (pdb_parsers db)"
    by (auto simp: parser_id_exists_def parser_key_def filter_empty_conv)
  obtain rows d where "insert_row pa_id ?p (pdb_parsers db) = Inr rows"
    and "db' = (add_version ?p (ac_name a) (Some ''Initial registration'') (db\<lparr>pdb_parsers := rows\<rparr>))\<lparr>st_dist := d\<rparr>" and "p = ?p"
    using assms k by (auto simp: parser_register_def Let_def split: sum.splits dest!: publish_tables)
  then show ?thesis using fresh by (simp add: registers_def add_version_def parser_key_def new_parser_def)
qed

lemma parser_call_effect:
  assumes "parser_call_body c ctx db = (db', Inr p')"
  shows "(\<exists>env i data. c = RegisterParser env i data \<and> registers (effective_tenant (pc_tenant_id data) (rc_tenant_id ctx)) p' db db') \<or>
    (\<exists>p. (moves p p' db db' \<or> edits p p' db db') \<and> (given (rc_tenant_id ctx) \<longrightarrow> pa_tenant_id p = rc_tenant_id ctx))"
proof -
  have m: "\<exists>p. (moves p p' db db' \<or> edits p p' db db') \<and> (given (rc_tenant_id ctx) \<longrightarrow> pa_tenant_id p = rc_tenant_id ctx)"
    if "parser_transition env target action b a (rc_tenant_id ctx) reason i db = (db', Inr p')" "b = (target = PS_APPROVED)"
    for env target action b a reason i
    using transition_moves that by blast
  show ?thesis
  proof (cases c)
    case (RegisterParser env i data)
    then show ?thesis using assms register_registers by auto
  next
    case (UpdateParser env i data)
    then show ?thesis using assms update_edits [of env data "actor_of ctx" "rc_tenant_id ctx" i db db' p'] by auto
  qed (use assms in \<open>auto simp: parser_submit_def parser_approve_def parser_activate_def parser_disable_def parser_rollback_def dest: m\<close>)
qed

lemma parser_api_commit:
  assumes "parser_api ax c db = (db', Inr p')"
  obtains ctx where "authorize (ax_decode ax) (ax_identity ax) (parser_call_roles c) (ax_token ax) (ax_tenant_id ax) = Inr ctx"
    "parser_call_body c ctx db = (db', Inr p')" "pa_tags p' = None"
proof -
  obtain ctx where c: "authorize (ax_decode ax) (ax_identity ax) (parser_call_roles c) (ax_token ax) (ax_tenant_id ax) = Inr ctx"
    "respond (parser_call_body c ctx db) = (db', Inr p')"
    using assms by (auto simp: parser_api_def tenant_endpoint_Inr)
  show thesis
    by (rule that [OF c(1)]) (use c(2) in \<open>auto simp: respond_def ParserResponse_def split: prod.splits option.splits\<close>)
qed

subsection \<open>Invariant\<close>

definition history_of :: "string \<Rightarrow> parser_version_row list \<Rightarrow> parser_status list" where
  "history_of i vs = map pv_status (filter (\<lambda>v. pv_parser_row v = i) vs)"

definition parser_walk :: "parser_status list \<Rightarrow> bool" where
  "parser_walk h \<longleftrightarrow> h \<noteq> [] \<and> hd h = PS_DRAFT \<and> successively (\<lambda>a b. b \<in> set (PARSER_TRANSITIONS a)) h"

definition parser_wf :: "parser_version_row list \<Rightarrow> parser_row \<Rightarrow> bool" where
  "parser_wf vs p \<longleftrightarrow> parser_walk (history_of (pa_id p) vs) \<and> last (history_of (pa_id p) vs) = pa_status p \<and>
     (PS_APPROVED \<in> set (history_of (pa_id p) vs) \<longrightarrow> pa_approved_by p \<noteq> None) \<and> pa_tags p = None"

definition parser_tables_ok :: "parser_db \<Rightarrow> bool" where
  "parser_tables_ok db \<longleftrightarrow> distinct (map pa_id (pdb_parsers db)) \<and> distinct (map parser_key (pdb_parsers db))"

definition parser_inv :: "parser_db \<Rightarrow> bool" where
  "parser_inv db \<longleftrightarrow> parser_tables_ok db \<and> (\<forall>p \<in> set (pdb_parsers db). parser_wf (pdb_versions db) p) \<and>
     (\<forall>v \<in> set (pdb_versions db). pv_parser_row v \<in> pa_id ` set (pdb_parsers db))"

lemma history_append:
  "history_of i (vs @ [v]) = (if pv_parser_row v = i then history_of i vs @ [pv_status v] else history_of i vs)"
  by (simp add: history_of_def)

lemma parser_walk_snoc: "parser_walk h \<Longrightarrow> b \<in> set (PARSER_TRANSITIONS (last h)) \<Longrightarrow> parser_walk (h @ [b])"
  by (simp add: parser_walk_def successively_append_iff)

lemma parser_walk_approved:
  assumes "parser_walk h" and "last h \<in> {PS_APPROVED, PS_ACTIVE, PS_DISABLED, PS_ROLLED_BACK}"
  shows "PS_APPROVED \<in> set h"
  using assms
proof (induction h rule: rev_induct)
  case (snoc b h)
  show ?case
  proof (cases "h = []")
    case False
    then have h: "parser_walk h" "b \<in> set (PARSER_TRANSITIONS (last h))" using snoc.prems(1) by (auto simp: parser_walk_def successively_append_iff)
    show ?thesis using snoc.IH [OF h(1)] h(2) snoc.prems(2) by (cases "last h") auto
  qed (use snoc.prems in \<open>auto simp: parser_walk_def\<close>)
qed (simp add: parser_walk_def)

lemma put_row_keys: "same_parser p p' \<Longrightarrow> distinct (map pa_id rows) \<Longrightarrow> p \<in> set rows \<Longrightarrow> map parser_key (put_row pa_id p' rows) = map parser_key rows"
  by (auto simp: put_row_def same_parser_def parser_key_def dest: distinct_same_id)

lemma put_row_owner: "same_parser p p' \<Longrightarrow> distinct (map pa_id rows) \<Longrightarrow> p \<in> set rows \<Longrightarrow> pa_tenant_id p = Some t \<Longrightarrow>
    filter (\<lambda>r. pa_tenant_id r \<noteq> Some t) (put_row pa_id p' rows) = filter (\<lambda>r. pa_tenant_id r \<noteq> Some t) rows"
  by (rule filter_put_row [of pa_id rows p]) (auto simp: same_parser_def)

lemma registers_inv:
  assumes "registers owner p db db'" and "pa_tags p = None" and "parser_inv db"
  shows "parser_inv db'"
proof -
  obtain v where r: "pa_status p = PS_DRAFT" "pa_id p \<notin> pa_id ` set (pdb_parsers db)" "parser_key p \<notin> parser_key ` set (pdb_parsers db)"
    "pdb_parsers db' = pdb_parsers db @ [p]" "pdb_versions db' = pdb_versions db @ [v]" "pv_parser_row v = pa_id p" "pv_status v = PS_DRAFT"
    using assms(1) by (auto simp: registers_def)
  have "pv_parser_row x \<noteq> pa_id p" if "x \<in> set (pdb_versions db)" for x
    using r(2) assms(3) that unfolding parser_inv_def by metis
  then have "history_of (pa_id p) (pdb_versions db) = []" by (simp add: history_of_def filter_empty_conv)
  then have "parser_wf (pdb_versions db') p" using r assms(2) by (simp add: parser_wf_def history_append parser_walk_def)
  moreover have "parser_wf (pdb_versions db') q" if "q \<in> set (pdb_parsers db)" for q
  proof -
    have "pv_parser_row v \<noteq> pa_id q" using r(2,6) that by auto
    then show ?thesis using assms(3) that r(5) by (simp add: parser_wf_def history_append parser_inv_def)
  qed
  ultimately show ?thesis using r assms(3) by (auto simp: parser_inv_def parser_tables_ok_def)
qed

lemma row_change_inv:
  assumes inv: "parser_inv db" and p: "p \<in> set (pdb_parsers db)" "same_parser p p'" and rows: "pdb_parsers db' = put_row pa_id p' (pdb_parsers db)"
    and wf: "parser_wf (pdb_versions db') p'"
    and vs: "\<And>i. i \<noteq> pa_id p \<Longrightarrow> history_of i (pdb_versions db') = history_of i (pdb_versions db)"
    and fk: "\<forall>v \<in> set (pdb_versions db'). pv_parser_row v \<in> pa_id ` set (pdb_parsers db)"
  shows "parser_inv db'"
proof -
  have d: "distinct (map pa_id (pdb_parsers db))" using inv by (simp add: parser_inv_def parser_tables_ok_def)
  have "parser_wf (pdb_versions db') q" if "q \<in> set (pdb_parsers db)" "pa_id q \<noteq> pa_id p" for q
    using inv that vs by (auto simp: parser_inv_def parser_wf_def)
  then have "\<forall>q \<in> set (pdb_parsers db'). parser_wf (pdb_versions db') q"
    using wf p(2) unfolding rows by (auto simp: put_row_def same_parser_def)
  moreover have "pa_id ` set (pdb_parsers db') = pa_id ` set (pdb_parsers db)" unfolding rows by (metis put_row_ids list.set_map)
  moreover have "parser_tables_ok db'" using inv put_row_keys [OF p(2) d p(1)] unfolding parser_tables_ok_def parser_inv_def rows by simp
  ultimately show ?thesis using fk by (simp add: parser_inv_def)
qed

lemma moves_inv:
  assumes "moves p p' db db'" and "pa_tags p' = None" and "parser_inv db"
  shows "parser_inv db'"
proof -
  obtain v where m: "p \<in> set (pdb_parsers db)" "same_parser p p'" "pa_status p' \<in> set (PARSER_TRANSITIONS (pa_status p))"
    "if pa_status p' = PS_APPROVED then pa_approved_by p' \<noteq> None else pa_approved_by p' = pa_approved_by p"
    "pdb_parsers db' = put_row pa_id p' (pdb_parsers db)" "pdb_versions db' = pdb_versions db @ [v]" "pv_parser_row v = pa_id p" "pv_status v = pa_status p'"
    using assms(1) by (auto simp: moves_def)
  have w: "parser_wf (pdb_versions db) p" using assms(3) m(1) by (simp add: parser_inv_def)
  let ?h = "history_of (pa_id p) (pdb_versions db)"
  have "parser_walk (?h @ [pa_status p'])" using w m(3) by (intro parser_walk_snoc) (auto simp: parser_wf_def)
  moreover have "PS_APPROVED \<in> set (?h @ [pa_status p']) \<longrightarrow> pa_approved_by p' \<noteq> None" using w m(4) by (auto simp: parser_wf_def split: if_splits)
  ultimately have "parser_wf (pdb_versions db') p'"
    using m(2,6-8) assms(2) by (simp add: parser_wf_def history_append same_parser_def)
  then show ?thesis
    using m assms(3) by (intro row_change_inv [OF assms(3) m(1,2,5)]) (auto simp: history_append parser_inv_def)
qed

lemma edits_inv:
  assumes "edits p p' db db'" and "pa_tags p' = None" and "parser_inv db"
  shows "parser_inv db'"
proof -
  have e: "p \<in> set (pdb_parsers db)" "same_parser p p'" "pa_status p' = pa_status p" "pa_approved_by p' = pa_approved_by p"
    "pdb_parsers db' = put_row pa_id p' (pdb_parsers db)" "pdb_versions db' = pdb_versions db" using assms(1) by (auto simp: edits_def)
  have "parser_wf (pdb_versions db) p" using assms(3) e(1) by (simp add: parser_inv_def)
  then have "parser_wf (pdb_versions db') p'" using e assms(2) by (simp add: parser_wf_def same_parser_def)
  then show ?thesis using e(6) assms(3) by (intro row_change_inv [OF assms(3) e(1,2,5)]) (auto simp: parser_inv_def)
qed

lemma parser_api_inv:
  assumes "parser_inv db"
  shows "parser_inv (fst (parser_api ax c db))"
proof -
  obtain db' r where a: "parser_api ax c db = (db', r)" by fastforce
  show ?thesis
  proof (cases r)
    case (Inl e)
    then show ?thesis using a assms by (auto simp: parser_api_def elim: tenant_endpoint_cases)
  next
    case (Inr p')
    then obtain ctx where "parser_call_body c ctx db = (db', Inr p')" "pa_tags p' = None" using parser_api_commit a by metis
    with parser_call_effect [OF this(1)] registers_inv moves_inv edits_inv assms have "parser_inv db'" by blast
    then show ?thesis using a by simp
  qed
qed

text \<open>The states that the endpoints reach from empty tables. \<open>scripts/seed.py\<close> inserts active parsers without rows of their
  versions and past the endpoints: a seeded database is not among these states.\<close>

inductive parser_reach :: "parser_db \<Rightarrow> bool" where
  start: "parser_reach \<lparr> st_dist = d, pdb_parsers = [], pdb_versions = [] \<rparr>"
| call: "parser_reach db \<Longrightarrow> parser_api ax c db = (db', r) \<Longrightarrow> parser_reach db'"

lemma parser_reach_inv: "parser_reach db \<Longrightarrow> parser_inv db"
proof (induction rule: parser_reach.induct)
  case (call db ax c db' r)
  then show ?case using parser_api_inv [of db ax c] by simp
qed (simp add: parser_inv_def parser_tables_ok_def)

subsection \<open>Interface to the tenants\<close>

fun names_own_tenant :: "string \<Rightarrow> parser_call \<Rightarrow> bool" where
  "names_own_tenant t (RegisterParser _ _ data) = (pc_tenant_id data = None \<or> pc_tenant_id data = Some t)"
| "names_own_tenant t _ = True"

definition parser_scoped :: "string \<Rightarrow> access \<times> parser_call \<Rightarrow> bool" where
  "parser_scoped t ac = (tenant_caller t (fst ac) \<and> names_own_tenant t (snd ac))"

definition parser_step :: "access \<times> parser_call \<Rightarrow> parser_db \<Rightarrow> parser_db" where
  "parser_step ac db = fst (parser_api (fst ac) (snd ac) db)"

lemma parser_step_foreign:
  assumes "parser_inv db" and "parser_scoped t ac"
  shows "filter (\<lambda>p. pa_tenant_id p \<noteq> Some t) (pdb_parsers (parser_step ac db)) = filter (\<lambda>p. pa_tenant_id p \<noteq> Some t) (pdb_parsers db)"
proof -
  obtain ax c where ac: "ac = (ax, c)" by fastforce
  obtain db' r where a: "parser_api ax c db = (db', r)" by fastforce
  have d: "distinct (map pa_id (pdb_parsers db))" using assms(1) by (simp add: parser_inv_def parser_tables_ok_def)
  show ?thesis
  proof (cases r)
    case (Inl e)
    then have "db' = db" using a by (auto simp: parser_api_def elim: tenant_endpoint_cases)
    then show ?thesis using a ac by (simp add: parser_step_def)
  next
    case (Inr p')
    then obtain ctx where ctx: "authorize (ax_decode ax) (ax_identity ax) (parser_call_roles c) (ax_token ax) (ax_tenant_id ax) = Inr ctx"
      "parser_call_body c ctx db = (db', Inr p')" using parser_api_commit a by metis
    have t: "rc_tenant_id ctx = Some t" "given (rc_tenant_id ctx)" "names_own_tenant t c"
      using tenant_caller_context [of t ax, OF _ ctx(1)] assms(2) ac by (auto simp: parser_scoped_def given_def split: list.splits)
    consider env i data where "c = RegisterParser env i data" "registers (effective_tenant (pc_tenant_id data) (Some t)) p' db db'"
      | p where "moves p p' db db' \<or> edits p p' db db'" "pa_tenant_id p = Some t"
      using parser_call_effect [OF ctx(2)] t by auto
    then have "filter (\<lambda>p. pa_tenant_id p \<noteq> Some t) (pdb_parsers db') = filter (\<lambda>p. pa_tenant_id p \<noteq> Some t) (pdb_parsers db)"
    proof cases
      case 1
      then show ?thesis using t(3) by (auto simp: registers_def effective_tenant_def)
    next
      case 2
      then show ?thesis using put_row_owner [OF _ d] by (auto simp: moves_def edits_def)
    qed
    then show ?thesis using a ac by (simp add: parser_step_def)
  qed
qed

lemma resolve_parser_visible:
  "given u \<Longrightarrow> filter (\<lambda>p. visible_to u (pa_tenant_id p)) (pdb_parsers db) = filter (\<lambda>p. visible_to u (pa_tenant_id p)) (pdb_parsers db') \<Longrightarrow>
    resolve_parser k u db = resolve_parser k u db'"
  unfolding resolve_parser_def by (rule tenant_then_baseline_visible [where owner = pa_tenant_id]) (auto simp: active_parser_def)

interpretation parsers: extension_registry pdb_parsers pa_tenant_id parser_inv parser_step parser_scoped resolve_parser
proof unfold_locales
  show "parser_inv (parser_step c s)" if "parser_inv s" for c s using that by (simp add: parser_step_def parser_api_inv)
qed (auto intro: parser_step_foreign resolve_parser_visible)

subsection \<open>Properties\<close>

text \<open>(C17) The lifecycle of parsers. In every state that the endpoints reach, the version history of a parser is a walk through the
  transition table that starts in \<open>DRAFT\<close> and ends in its status; a parser that is approved, active, disabled
  or rolled back was approved, by someone who is on record; and no tenant has two parsers with one identifier.\<close>

theorem parser_lifecycle:
  assumes "parser_reach db" and "p \<in> set (pdb_parsers db)"
  shows "parser_walk (history_of (pa_id p) (pdb_versions db)) \<and> last (history_of (pa_id p) (pdb_versions db)) = pa_status p \<and>
    (pa_status p \<in> {PS_APPROVED, PS_ACTIVE, PS_DISABLED, PS_ROLLED_BACK} \<longrightarrow>
       PS_APPROVED \<in> set (history_of (pa_id p) (pdb_versions db)) \<and> pa_approved_by p \<noteq> None) \<and>
    (\<forall>q \<in> set (pdb_parsers db). parser_key q = parser_key p \<longrightarrow> q = p)"
proof -
  note inv = parser_reach_inv [OF assms(1)]
  have w: "parser_wf (pdb_versions db) p" using inv assms(2) by (simp add: parser_inv_def)
  have "\<forall>q \<in> set (pdb_parsers db). parser_key q = parser_key p \<longrightarrow> q = p"
    using inv assms(2) by (auto simp: parser_inv_def parser_tables_ok_def distinct_map inj_on_def)
  then show ?thesis using w parser_walk_approved [of "history_of (pa_id p) (pdb_versions db)"] by (auto simp: parser_wf_def)
qed

text \<open>Resolution is deterministic: in every reachable state it never finds two rows, and it returns the active extension of the
  tenant if there is one, else the active baseline of the platform if there is one, else nothing.\<close>

theorem parser_resolution:
  assumes "parser_reach db" and "t \<noteq> []"
  shows "\<exists>r. resolve_parser k (Some t) db = Inr r \<and>
    (case r of
       Some p \<Rightarrow> p \<in> set (pdb_parsers db) \<and>
         (active_parser k (Some t) p \<or> active_parser k None p \<and> (\<forall>q \<in> set (pdb_parsers db). \<not> active_parser k (Some t) q))
     | None \<Rightarrow> \<forall>q \<in> set (pdb_parsers db). \<not> active_parser k (Some t) q \<and> \<not> active_parser k None q)"
proof -
  have "distinct (map parser_key (pdb_parsers db))" using parser_reach_inv [OF assms(1)] by (simp add: parser_inv_def parser_tables_ok_def)
  then show ?thesis unfolding resolve_parser_def
    by (rule tenant_then_baseline_spec) (auto simp: active_parser_def parser_key_def assms(2))
qed

text \<open>Tenant isolation of the parser registry: whatever the users of one tenant ask of the endpoints, as long as they do not name
  another tenant in the body of a registration, every other tenant sees the same rows and resolves the same parsers.\<close>

theorem parser_tenant_isolation:
  assumes "parser_reach db" and "\<forall>ac \<in> set calls. parser_scoped t ac" and "u \<noteq> t" and "u \<noteq> []"
  shows "filter (\<lambda>p. visible_to (Some u) (pa_tenant_id p)) (pdb_parsers (fold parser_step calls db)) =
      filter (\<lambda>p. visible_to (Some u) (pa_tenant_id p)) (pdb_parsers db) \<and>
    resolve_parser k (Some u) (fold parser_step calls db) = resolve_parser k (Some u) db"
  using parsers.run_visible parsers.resolve_isolated parser_reach_inv assms by blast

lemma parser_api_ok:
  assumes "authorize (ax_decode ax) (ax_identity ax) (parser_call_roles c) (ax_token ax) (ax_tenant_id ax) = Inr ctx"
    and "parser_call_body c ctx db = (db', Inr p)" and "pa_tags p = None"
  shows "parser_api ax c db = (db', Inr p)"
  using assms by (simp add: parser_api_def tenant_endpoint_Inr respond_def ParserResponse_def)

lemma parser_register_ok:
  assumes "\<not> parser_id_exists (pc_parser_id data) (effective_tenant (pc_tenant_id data) tenant_id) db" and "row_id \<notin> pa_id ` set (pdb_parsers db)"
    and "\<And>ev. de_check_event env ev = None"
  shows "\<exists>d v. parser_register env row_id data a tenant_id db =
    (db\<lparr>pdb_parsers := pdb_parsers db @ [new_parser row_id data (ac_name a) (effective_tenant (pc_tenant_id data) tenant_id)],
       pdb_versions := pdb_versions db @ [v], st_dist := d\<rparr>, Inr (new_parser row_id data (ac_name a) (effective_tenant (pc_tenant_id data) tenant_id)))"
proof -
  let ?p = "new_parser row_id data (ac_name a) (effective_tenant (pc_tenant_id data) tenant_id)"
  have "insert_row pa_id ?p (pdb_parsers db) = Inr (pdb_parsers db @ [?p])" using assms(2) by (simp add: new_parser_def)
  then have "parser_register env row_id data a tenant_id db =
      publish env (parser_audit a ''PARSER_REGISTERED'' ?p (Some (pa_version ?p)) None None) (parser_change a ''CREATE'' ?p) ?p
        (add_version ?p (ac_name a) (Some ''Initial registration'') (db\<lparr>pdb_parsers := pdb_parsers db @ [?p]\<rparr>))"
    using assms(1) by (simp add: parser_register_def Let_def del: insert_row_Inr)
  moreover obtain d where "publish env (parser_audit a ''PARSER_REGISTERED'' ?p (Some (pa_version ?p)) None None) (parser_change a ''CREATE'' ?p) ?p
        (add_version ?p (ac_name a) (Some ''Initial registration'') (db\<lparr>pdb_parsers := pdb_parsers db @ [?p]\<rparr>)) =
      ((add_version ?p (ac_name a) (Some ''Initial registration'') (db\<lparr>pdb_parsers := pdb_parsers db @ [?p]\<rparr>))\<lparr>st_dist := d\<rparr>, Inr ?p)"
    using publish_ok [OF assms(3)] by metis
  ultimately show ?thesis by (simp add: add_version_def) blast
qed

text \<open>A registration trusts the tenant that its body names: a user of one tenant who may write parsers creates a parser of any
  other tenant \<open>u\<close>, and from then on the identifier is taken for the users of \<open>u\<close> themselves.\<close>

theorem register_cross_tenant:
  assumes "tenant_caller t ax" and "authorize (ax_decode ax) (ax_identity ax) writer_roles (ax_token ax) (ax_tenant_id ax) = Inr ctx"
    and "pc_tenant_id data = Some u" and "u \<noteq> t" and "pc_tags data = None" and "\<not> parser_id_exists (pc_parser_id data) (Some u) db"
    and "row_id \<notin> pa_id ` set (pdb_parsers db)" and "\<And>ev. de_check_event env ev = None"
  shows "\<exists>db' p. parser_api ax (RegisterParser env row_id data) db = (db', Inr p) \<and> pdb_parsers db' = pdb_parsers db @ [p] \<and>
    pa_tenant_id p = Some u \<and> pa_created_by p = Some (us_username (rc_user ctx)) \<and> parser_id_exists (pc_parser_id data) (Some u) db'"
proof -
  let ?p = "new_parser row_id data (us_username (rc_user ctx)) (Some u)"
  have o: "effective_tenant (pc_tenant_id data) (rc_tenant_id ctx) = Some u" using assms(3) by (simp add: effective_tenant_def)
  have "\<not> parser_id_exists (pc_parser_id data) (effective_tenant (pc_tenant_id data) (rc_tenant_id ctx)) db" using assms(6) o by simp
  from parser_register_ok [OF this assms(7,8), of "actor_of ctx"]
  obtain d v where "parser_call_body (RegisterParser env row_id data) ctx db =
      (db\<lparr>pdb_parsers := pdb_parsers db @ [?p], pdb_versions := pdb_versions db @ [v], st_dist := d\<rparr>, Inr ?p)"
    unfolding o by (auto simp: actor_of_def)
  from parser_api_ok [OF _ this] have "parser_api ax (RegisterParser env row_id data) db =
      (db\<lparr>pdb_parsers := pdb_parsers db @ [?p], pdb_versions := pdb_versions db @ [v], st_dist := d\<rparr>, Inr ?p)"
    using assms(2,5) by (simp add: new_parser_def)
  then show ?thesis by (simp add: parser_id_exists_def new_parser_def)
qed

text \<open>A parser cannot be given tags: the response model declares a list where the column holds JSON text, so that a registration
  with tags, and an update that sets them, always end in an error that undoes the change.\<close>

theorem parser_tags_refused:
  assumes "pc_tags data = Some (x # xs)" and "pu_tags upd = Some ys"
  shows "(\<exists>e. parser_api ax (RegisterParser env row_id data) db = (db, Inl e)) \<and> (\<exists>e. parser_api ax (UpdateParser env i upd) db = (db, Inl e))"
proof -
  have fails: "\<exists>e. parser_api ax c db = (db, Inl e)" if "\<And>ctx db' p. parser_call_body c ctx db = (db', Inr p) \<Longrightarrow> pa_tags p \<noteq> None" for c
  proof -
    obtain db' r where a: "parser_api ax c db = (db', r)" by fastforce
    then have "r \<noteq> Inr p" for p using that parser_api_commit by metis
    then show ?thesis using a by (cases r) (auto simp: parser_api_def elim: tenant_endpoint_cases)
  qed
  have "pa_tags p \<noteq> None" if "parser_register env row_id data a tid db = (db', Inr p)" for a tid db' p
    using that assms(1) by (auto simp: parser_register_def Let_def new_parser_def split: if_splits sum.splits dest!: publish_tables)
  moreover have "pa_tags p \<noteq> None" if "parser_update_op env upd a tid i db = (db', Inr p)" for a tid db' p
    using that assms(2) by (auto simp: parser_update_op_def apply_update_def or_keep_opt_def Let_def split: sum.splits dest!: publish_tables)
  ultimately show ?thesis by (auto intro!: fails)
qed

subsection \<open>An example\<close>

definition demo_parser :: parser_create where
  "demo_parser = \<lparr> pc_parser_id = ''fw'', pc_tenant_id = None, pc_name = ''Firewall'', pc_vendor = ''v'', pc_product = ''p'', pc_format = ''cef'',
     pc_version = ''1.0.0'', pc_description = None, pc_tags = None \<rparr>"

definition demo_parsers :: parser_db where
  "demo_parsers = \<lparr> st_dist = \<lparr> dd_versions = [], dd_targets = [], dd_audit = [] \<rparr>, pdb_parsers = [], pdb_versions = [] \<rparr>"

lemma demo_parsers_reach: "parser_reach demo_parsers"
  unfolding demo_parsers_def by (rule parser_reach.start)

lemma demo_register: "\<exists>db p. parser_reach db \<and> pdb_parsers db = [p] \<and> pa_tenant_id p = Some ''a'' \<and> pa_parser_id p = ''fw'' \<and> pa_status p = PS_DRAFT \<and> pa_tags p = None"
proof -
  let ?o = "effective_tenant (pc_tenant_id demo_parser) (rc_tenant_id demo_context)"
  let ?p = "new_parser ''r1'' demo_parser (ac_name (actor_of demo_context)) ?o"
  have f: "\<not> parser_id_exists (pc_parser_id demo_parser) ?o demo_parsers" "''r1'' \<notin> pa_id ` set (pdb_parsers demo_parsers)"
    by (simp_all add: parser_id_exists_def demo_parsers_def)
  from parser_register_ok [OF f demo_env_check, where a = "actor_of demo_context"] obtain db where
    b: "parser_call_body (RegisterParser demo_env ''r1'' demo_parser) demo_context demo_parsers = (db, Inr ?p)" "pdb_parsers db = [?p]"
    by (auto simp: demo_parsers_def)
  have p: "pa_tenant_id ?p = Some ''a'' \<and> pa_parser_id ?p = ''fw'' \<and> pa_status ?p = PS_DRAFT \<and> pa_tags ?p = None"
    by (simp add: new_parser_def demo_parser_def effective_tenant_def)
  have "parser_api demo_access (RegisterParser demo_env ''r1'' demo_parser) demo_parsers = (db, Inr ?p)"
    using p by (intro parser_api_ok [OF _ b(1)]) (simp_all add: demo_access_context)
  from parser_reach.call [OF demo_parsers_reach this] show ?thesis using b(2) p by blast
qed

lemma demo_transition:
  assumes "parser_reach db" and "pdb_parsers db = [p]" and "pa_tenant_id p = Some ''a''" and "pa_tags p = None" and "target \<in> set (PARSER_TRANSITIONS (pa_status p))"
    and "parser_call_body c demo_context db = parser_transition demo_env target action (target = PS_APPROVED) (actor_of demo_context) (Some ''a'') None (pa_id p) db"
    and "parser_call_roles c \<in> {writer_roles, admin_roles}"
  shows "\<exists>db' p'. parser_reach db' \<and> pdb_parsers db' = [p'] \<and> same_parser p p' \<and> pa_status p' = target \<and> pa_tags p' = None"
proof -
  have o: "owned_parser (pa_id p) (Some ''a'') db = Inr p"
    using assms(2,3) by (simp add: owned_parser_def parser_get_def get_by_id_scoped_def visible_to_def)
  define p2 where "p2 = (if target = PS_APPROVED then p\<lparr>pa_status := target, pa_approved_by := Some (ac_name (actor_of demo_context))\<rparr> else p\<lparr>pa_status := target\<rparr>)"
  have p2: "same_parser p p2 \<and> pa_status p2 = target \<and> pa_tags p2 = None" using assms(4) by (auto simp: p2_def same_parser_def)
  let ?a = "parser_audit (actor_of demo_context) action p2 (Some (pa_version p2)) (Some (parser_snapshot p)) None"
  let ?c = "parser_change (actor_of demo_context) (op_of target) p2" and ?db = "add_version p2 (ac_name (actor_of demo_context)) None (put_parser p2 db)"
  obtain d where d: "publish demo_env ?a ?c p2 ?db = (?db\<lparr>st_dist := d\<rparr>, Inr p2)" using publish_ok [OF demo_env_check] by metis
  have "parser_call_body c demo_context db = (?db\<lparr>st_dist := d\<rparr>, Inr p2)"
    unfolding assms(6) d [symmetric] using o assms(5) by (auto simp: parser_transition_def Let_def p2_def)
  from parser_api_ok [OF _ this] have "parser_api demo_access c db = (?db\<lparr>st_dist := d\<rparr>, Inr p2)"
    using assms(7) p2 demo_access_context roles_admin by auto
  from parser_reach.call [OF assms(1) this] have "parser_reach (?db\<lparr>st_dist := d\<rparr>)" .
  moreover have "pdb_parsers (?db\<lparr>st_dist := d\<rparr>) = [p2]" using p2 assms(2) by (simp add: add_version_def put_parser_def put_row_def same_parser_def)
  ultimately show ?thesis using p2 by blast
qed

lemma demo_active: "\<exists>db p. parser_reach db \<and> pdb_parsers db = [p] \<and> active_parser ''fw'' (Some ''a'') p"
proof -
  obtain db p where p: "parser_reach db" "pdb_parsers db = [p]" "pa_tenant_id p = Some ''a''" "pa_parser_id p = ''fw''" "pa_status p = PS_DRAFT" "pa_tags p = None"
    using demo_register by blast
  obtain db1 p1 where 1: "parser_reach db1" "pdb_parsers db1 = [p1]" "same_parser p p1" "pa_status p1 = PS_PENDING_APPROVAL" "pa_tags p1 = None"
    using demo_transition [OF p(1-3,6), where target = PS_PENDING_APPROVAL and c = "SubmitParser demo_env (pa_id p) None" and action = "''PARSER_SUBMITTED''"] p(5)
    by (auto simp: parser_submit_def)
  then have t1: "pa_tenant_id p1 = Some ''a''" using p(3) by (simp add: same_parser_def)
  obtain db2 p2 where 2: "parser_reach db2" "pdb_parsers db2 = [p2]" "same_parser p1 p2" "pa_status p2 = PS_APPROVED" "pa_tags p2 = None"
    using demo_transition [OF 1(1,2) t1 1(5), where target = PS_APPROVED and c = "ApproveParser demo_env (pa_id p1) None" and action = "''PARSER_APPROVED''"] 1(4)
    by (auto simp: parser_approve_def)
  then have t2: "pa_tenant_id p2 = Some ''a''" using t1 by (simp add: same_parser_def)
  obtain db3 p3 where 3: "parser_reach db3" "pdb_parsers db3 = [p3]" "same_parser p2 p3" "pa_status p3 = PS_ACTIVE"
    using demo_transition [OF 2(1,2) t2 2(5), where target = PS_ACTIVE and c = "ActivateParser demo_env (pa_id p2) None" and action = "''PARSER_ACTIVATED''"] 2(4)
    by (auto simp: parser_activate_def)
  then have "active_parser ''fw'' (Some ''a'') p3" using p(4) 1(3) 2(3) t2 by (simp add: active_parser_def same_parser_def)
  then show ?thesis using 3 by blast
qed

theorem parser_lifecycle_witness:
  "\<exists>db p. parser_reach db \<and> p \<in> set (pdb_parsers db) \<and> pa_status p = PS_ACTIVE \<and> PS_APPROVED \<in> set (history_of (pa_id p) (pdb_versions db))"
proof -
  obtain db p where p: "parser_reach db" "pdb_parsers db = [p]" "active_parser ''fw'' (Some ''a'') p" using demo_active by blast
  with parser_lifecycle [OF p(1), of p] show ?thesis by (auto simp: active_parser_def intro!: exI [of _ db] exI [of _ p])
qed

theorem parser_resolution_witness:
  "\<exists>db p. parser_reach db \<and> resolve_parser ''fw'' (Some ''a'') db = Inr (Some p) \<and> active_parser ''fw'' (Some ''a'') p"
proof -
  obtain db p where p: "parser_reach db" "pdb_parsers db = [p]" "active_parser ''fw'' (Some ''a'') p" using demo_active by blast
  with parser_resolution [OF p(1), of "''a''" "''fw''"] show ?thesis
    by (auto simp: split: option.splits intro!: exI [of _ db] exI [of _ p])
qed

theorem parser_tenant_isolation_witness:
  "\<exists>db p. parser_reach db \<and> pdb_parsers db = [p] \<and>
    resolve_parser ''fw'' (Some ''b'') (fold parser_step [(demo_access, DisableParser demo_env (pa_id p) None)] db) = resolve_parser ''fw'' (Some ''b'') db"
proof -
  obtain db p where p: "parser_reach db" "pdb_parsers db = [p]" using demo_active by blast
  have "\<forall>ac \<in> set [(demo_access, DisableParser demo_env (pa_id p) None)]. parser_scoped ''a'' ac" by (simp add: parser_scoped_def demo_access_caller)
  from parser_tenant_isolation [OF p(1) this, of "''b''" "''fw''"] p show ?thesis by auto
qed

theorem register_cross_tenant_witness:
  "\<exists>db' p. parser_api demo_access (RegisterParser demo_env ''r1'' (demo_parser\<lparr>pc_tenant_id := Some ''b''\<rparr>)) demo_parsers = (db', Inr p) \<and>
    pdb_parsers db' = pdb_parsers demo_parsers @ [p] \<and> pa_tenant_id p = Some ''b''"
proof -
  let ?d = "demo_parser\<lparr>pc_tenant_id := Some ''b''\<rparr>"
  have "\<not> parser_id_exists (pc_parser_id ?d) (Some ''b'') demo_parsers" "''r1'' \<notin> pa_id ` set (pdb_parsers demo_parsers)"
    by (simp_all add: parser_id_exists_def demo_parsers_def)
  from register_cross_tenant [OF demo_access_caller demo_access_context [OF roles_admin(1)] _ _ _ this demo_env_check]
  show ?thesis by (auto simp: demo_parser_def)
qed

theorem parser_tags_refused_witness:
  "\<exists>e. parser_api demo_access (RegisterParser demo_env ''r1'' (demo_parser\<lparr>pc_tags := Some [''edge'']\<rparr>)) demo_parsers = (demo_parsers, Inl e)"
proof -
  let ?u = "\<lparr> pu_name = None, pu_vendor = None, pu_product = None, pu_format = None, pu_version = None, pu_description = None, pu_tags = Some [] \<rparr>"
  have "pc_tags (demo_parser\<lparr>pc_tags := Some [''edge'']\<rparr>) = Some (''edge'' # [])" "pu_tags ?u = Some []" by simp_all
  from parser_tags_refused [OF this] show ?thesis by blast
qed

end
