(* ===== verification/M6_Mappings.thy ===== *)
theory M6_Mappings
  imports M6_Registry
begin

section \<open>M6: mapping registry\<close>

text \<open>
  \<open>registry/mapping_registry.py\<close>, \<open>repositories/mapping_repo.py\<close>, \<open>models/mapping.py\<close> and the handlers of \<open>api/mappings.py\<close>. A mapping is
  active from its creation on, since \<open>is_active\<close> defaults to true and no operation changes it. Deleting a
  mapping deletes its versions (\<open>ON DELETE CASCADE\<close>).
\<close>

record mapping_row =
  mp_id :: string
  mp_mapping_id :: string
  mp_tenant_id :: "string option"
  mp_name :: string
  mp_source_format :: string
  mp_target_schema :: string
  mp_target_version :: string
  mp_version :: string
  mp_fields :: "(string \<times> string) list"
  mp_description :: "string option"
  mp_is_active :: bool
  mp_created_by :: "string option"
  mp_updated_by :: "string option"

record mapping_version_row =
  mv_mapping_row :: string
  mv_version :: string
  mv_fields_snapshot :: "(string \<times> string) list"
  mv_changed_by :: string
  mv_reason :: "string option"

record mapping_db = store +
  mdb_mappings :: "mapping_row list"
  mdb_versions :: "mapping_version_row list"

record mapping_create =
  mc_mapping_id :: string
  mc_tenant_id :: "string option"
  mc_name :: string
  mc_source_format :: string
  mc_target_schema :: string
  mc_target_version :: string
  mc_version :: string
  mc_fields :: "(string \<times> string) list"
  mc_description :: "string option"

record mapping_update =
  mu_name :: "string option"
  mu_source_format :: "string option"
  mu_target_schema :: "string option"
  mu_target_version :: "string option"
  mu_version :: "string option"
  mu_fields :: "(string \<times> string) list option"
  mu_description :: "string option"
  mu_reason :: "string option"

subsection \<open>Repository\<close>

definition active_mapping :: "string \<Rightarrow> string option \<Rightarrow> mapping_row \<Rightarrow> bool" where
  "active_mapping mapping_id owner m = (mp_mapping_id m = mapping_id \<and> mp_tenant_id m = owner \<and> mp_is_active m)"

definition resolve_mapping :: "string \<Rightarrow> string option \<Rightarrow> mapping_db \<Rightarrow> mapping_row option result" where
  "resolve_mapping mapping_id tenant_id db = tenant_then_baseline (active_mapping mapping_id) tenant_id (mdb_mappings db)"

definition get_mapping_scoped :: "string \<Rightarrow> string option \<Rightarrow> mapping_db \<Rightarrow> mapping_row option result" where
  "get_mapping_scoped i tenant_id db = one_or_none (filter (\<lambda>m. mp_id m = i \<and> visible_to tenant_id (mp_tenant_id m)) (mdb_mappings db))"

definition get_by_mapping_id :: "string \<Rightarrow> string option \<Rightarrow> mapping_db \<Rightarrow> mapping_row option result" where
  "get_by_mapping_id mapping_id tenant_id db =
     one_or_none (filter (\<lambda>m. mp_mapping_id m = mapping_id \<and> mp_tenant_id m = tenant_id) (mdb_mappings db))"

definition mapping_id_exists :: "string \<Rightarrow> string option \<Rightarrow> mapping_db \<Rightarrow> bool" where
  "mapping_id_exists mapping_id tenant_id db = (filter (\<lambda>m. mp_mapping_id m = mapping_id \<and> mp_tenant_id m = tenant_id) (mdb_mappings db) \<noteq> [])"

definition search_mappings :: "(string \<Rightarrow> string \<Rightarrow> bool) \<Rightarrow> string option \<Rightarrow> string option \<Rightarrow> string option \<Rightarrow> string option \<Rightarrow> nat \<Rightarrow> nat \<Rightarrow>
    mapping_db \<Rightarrow> mapping_row list \<times> nat" where
  "search_mappings ilike q source_format target_schema tenant_id skip limit db =
     page_of skip limit (rev (filter (\<lambda>m. visible_to tenant_id (mp_tenant_id m) \<and>
       (given q \<longrightarrow> like ilike (mp_name m) q \<or> like ilike (mp_mapping_id m) q) \<and>
       (given source_format \<longrightarrow> source_format = Some (mp_source_format m)) \<and>
       (given target_schema \<longrightarrow> target_schema = Some (mp_target_schema m))) (mdb_mappings db)))"

definition add_mapping_version :: "mapping_row \<Rightarrow> string \<Rightarrow> string option \<Rightarrow> mapping_db \<Rightarrow> mapping_db" where
  "add_mapping_version m changed_by reason db =
     db\<lparr>mdb_versions := mdb_versions db @ [\<lparr> mv_mapping_row = mp_id m, mv_version = mp_version m, mv_fields_snapshot = mp_fields m,
          mv_changed_by = changed_by, mv_reason = reason \<rparr>]\<rparr>"

subsection \<open>Registry\<close>

definition mapping_snapshot :: "mapping_row \<Rightarrow> pydict" where
  "mapping_snapshot m =
     [(''mapping_id'', PStr (mp_mapping_id m)), (''tenant_id'', opt_value (mp_tenant_id m)), (''name'', PStr (mp_name m)),
      (''source_format'', PStr (mp_source_format m)), (''target_schema'', PStr (mp_target_schema m)), (''target_version'', PStr (mp_target_version m)),
      (''version'', PStr (mp_version m)), (''is_active'', PBool (mp_is_active m))]"

definition mapping_audit :: "actor \<Rightarrow> string \<Rightarrow> mapping_row \<Rightarrow> string option \<Rightarrow> pydict option \<Rightarrow> pydict option \<Rightarrow> string option \<Rightarrow> audit_entry" where
  "mapping_audit a action m version before after reason =
     \<lparr> au_actor = ac_name a, au_actor_role = ac_role a, au_action = action, au_resource_type = ''mapping'', au_resource_id = Some (mp_mapping_id m),
       au_tenant_id = mp_tenant_id m, au_version = version, au_before_state = before, au_after_state = after, au_reason = reason \<rparr>"

definition mapping_change :: "actor \<Rightarrow> string \<Rightarrow> pydict \<Rightarrow> mapping_row \<Rightarrow> change" where
  "mapping_change a op payload m =
     \<lparr> ch_config_type = ''mappings'', ch_entity_id = Some (mp_mapping_id m), ch_version = mp_version m, ch_tenant_id = mp_tenant_id m,
       ch_operation = op, ch_payload = payload, ch_actor = ac_name a, ch_actor_role = ac_role a \<rparr>"

definition new_mapping :: "string \<Rightarrow> mapping_create \<Rightarrow> string \<Rightarrow> string option \<Rightarrow> mapping_row" where
  "new_mapping row_id data name owner =
     \<lparr> mp_id = row_id, mp_mapping_id = mc_mapping_id data, mp_tenant_id = owner, mp_name = mc_name data, mp_source_format = mc_source_format data,
       mp_target_schema = mc_target_schema data, mp_target_version = mc_target_version data, mp_version = mc_version data, mp_fields = mc_fields data,
       mp_description = mc_description data, mp_is_active = True, mp_created_by = Some name, mp_updated_by = Some name \<rparr>"

definition mapping_create_op :: "dist_env \<Rightarrow> string \<Rightarrow> mapping_create \<Rightarrow> actor \<Rightarrow> string option \<Rightarrow> mapping_db \<Rightarrow> mapping_db \<times> mapping_row result" where
  "mapping_create_op env row_id data a tenant_id db =
     (let owner = effective_tenant (mc_tenant_id data) tenant_id;
          m = new_mapping row_id data (ac_name a) owner in
      if mapping_id_exists (mc_mapping_id data) owner db then
        (db, Inl (OtherError ''DuplicateError'' (''Mapping '' @ quoted (mc_mapping_id data) @ '' already exists '' @
           (if given owner then ''for tenant '' @ quoted (the owner) else ''globally''))))
      else
        case insert_row mp_id m (mdb_mappings db) of
          Inl e \<Rightarrow> (db, Inl e)
        | Inr rows \<Rightarrow>
            publish env (mapping_audit a ''MAPPING_CREATED'' m (Some (mp_version m)) None (Some (mapping_snapshot m)) None)
              (mapping_change a ''CREATE'' (mapping_snapshot m) m) m
              (add_mapping_version m (ac_name a) (Some ''Initial version'') (db\<lparr>mdb_mappings := rows\<rparr>)))"

definition mapping_get :: "string \<Rightarrow> string option \<Rightarrow> mapping_db \<Rightarrow> mapping_row result" where
  "mapping_get i tenant_id db =
     rbind (get_mapping_scoped i tenant_id db) (\<lambda>r.
       case r of Some m \<Rightarrow> Inr m | None \<Rightarrow> Inl (OtherError ''MappingNotFound'' (''Mapping '' @ quoted i @ '' not found'')))"

definition mapping_resolve :: "string \<Rightarrow> string option \<Rightarrow> mapping_db \<Rightarrow> mapping_row result" where
  "mapping_resolve mapping_id tenant_id db =
     rbind (resolve_mapping mapping_id tenant_id db) (\<lambda>r.
       case r of Some m \<Rightarrow> Inr m | None \<Rightarrow> Inl (OtherError ''MappingNotFound'' (''Active mapping '' @ quoted mapping_id @ '' not found'')))"

definition mapping_by_mapping_id :: "string \<Rightarrow> string option \<Rightarrow> mapping_db \<Rightarrow> mapping_row result" where
  "mapping_by_mapping_id mapping_id tenant_id db =
     rbind (get_by_mapping_id mapping_id tenant_id db) (\<lambda>r.
       case r of Some m \<Rightarrow> Inr m | None \<Rightarrow> Inl (OtherError ''MappingNotFound'' (''Mapping '' @ quoted mapping_id @ '' not found'')))"

definition mapping_list :: "(string \<Rightarrow> string \<Rightarrow> bool) \<Rightarrow> string option \<Rightarrow> string option \<Rightarrow> string option \<Rightarrow> string option \<Rightarrow> nat \<Rightarrow> nat \<Rightarrow>
    mapping_db \<Rightarrow> mapping_row list \<times> nat" where
  "mapping_list ilike q source_format target_schema tenant_id page page_size db =
     search_mappings ilike q source_format target_schema tenant_id ((page - 1) * page_size) page_size db"

definition owned_mapping :: "string \<Rightarrow> string \<Rightarrow> string option \<Rightarrow> mapping_db \<Rightarrow> mapping_row result" where
  "owned_mapping verb i tenant_id db =
     rbind (mapping_get i tenant_id db) (\<lambda>m.
       if tenant_id \<noteq> None \<and> mp_tenant_id m = None then
         Inl (OtherError ''InvalidStateTransition'' (''Tenant users cannot '' @ verb @ '' platform baseline mappings''))
       else Inr m)"

definition apply_mapping_update :: "mapping_update \<Rightarrow> string \<Rightarrow> mapping_row \<Rightarrow> mapping_row" where
  "apply_mapping_update data name m =
     m\<lparr>mp_name := or_keep (mu_name data) (mp_name m), mp_source_format := or_keep (mu_source_format data) (mp_source_format m),
       mp_target_schema := or_keep (mu_target_schema data) (mp_target_schema m), mp_target_version := or_keep (mu_target_version data) (mp_target_version m),
       mp_version := or_keep (mu_version data) (mp_version m), mp_fields := or_keep (mu_fields data) (mp_fields m),
       mp_description := or_keep_opt (mu_description data) (mp_description m), mp_updated_by := Some name\<rparr>"

definition mapping_update_op :: "dist_env \<Rightarrow> mapping_update \<Rightarrow> actor \<Rightarrow> string option \<Rightarrow> string \<Rightarrow> mapping_db \<Rightarrow> mapping_db \<times> mapping_row result" where
  "mapping_update_op env data a tenant_id i db =
     (case owned_mapping ''modify'' i tenant_id db of
        Inl e \<Rightarrow> (db, Inl e)
      | Inr m \<Rightarrow>
          let m' = apply_mapping_update data (ac_name a) m in
          publish env (mapping_audit a ''MAPPING_UPDATED'' m' (Some (mp_version m')) (Some (mapping_snapshot m)) (Some (mapping_snapshot m')) (mu_reason data))
            (mapping_change a ''UPDATE'' (mapping_snapshot m') m') m'
            (add_mapping_version m' (ac_name a) (mu_reason data) (db\<lparr>mdb_mappings := put_row mp_id m' (mdb_mappings db)\<rparr>)))"

definition mapping_delete_op :: "dist_env \<Rightarrow> actor \<Rightarrow> string option \<Rightarrow> string \<Rightarrow> mapping_db \<Rightarrow> mapping_db \<times> mapping_row result" where
  "mapping_delete_op env a tenant_id i db =
     (case owned_mapping ''delete'' i tenant_id db of
        Inl e \<Rightarrow> (db, Inl e)
      | Inr m \<Rightarrow>
          publish env (mapping_audit a ''MAPPING_DELETED'' m None (Some (mapping_snapshot m)) None None)
            (mapping_change a ''DELETE'' [(''mapping_id'', PStr (mp_mapping_id m))] m) m
            (db\<lparr>mdb_mappings := delete_row mp_id (mp_id m) (mdb_mappings db),
                mdb_versions := filter (\<lambda>v. mv_mapping_row v \<noteq> mp_id m) (mdb_versions db)\<rparr>))"

subsection \<open>Endpoints\<close>

datatype mapping_call =
    CreateMapping dist_env string mapping_create
  | UpdateMapping dist_env string mapping_update
  | DeleteMapping dist_env string

fun mapping_call_body :: "mapping_call \<Rightarrow> request_context \<Rightarrow> mapping_db \<Rightarrow> mapping_db \<times> mapping_row result" where
  "mapping_call_body (CreateMapping env row_id data) ctx db = mapping_create_op env row_id data (actor_of ctx) (rc_tenant_id ctx) db"
| "mapping_call_body (UpdateMapping env i data) ctx db = mapping_update_op env data (actor_of ctx) (rc_tenant_id ctx) i db"
| "mapping_call_body (DeleteMapping env i) ctx db = mapping_delete_op env (actor_of ctx) (rc_tenant_id ctx) i db"

definition mapping_api :: "access \<Rightarrow> mapping_call \<Rightarrow> mapping_db \<Rightarrow> mapping_db \<times> mapping_row result" where
  "mapping_api ax c = tenant_endpoint ax writer_roles (mapping_call_body c)"

definition get_mapping_api :: "access \<Rightarrow> string \<Rightarrow> mapping_db \<Rightarrow> mapping_db \<times> mapping_row result" where
  "get_mapping_api ax i = tenant_endpoint ax all_roles (\<lambda>ctx db. (db, mapping_get i (rc_tenant_id ctx) db))"

definition resolve_mapping_api :: "access \<Rightarrow> string \<Rightarrow> mapping_db \<Rightarrow> mapping_db \<times> mapping_row result" where
  "resolve_mapping_api ax mapping_id = tenant_endpoint ax all_roles (\<lambda>ctx db. (db, mapping_resolve mapping_id (rc_tenant_id ctx) db))"

definition list_mappings_api :: "(string \<Rightarrow> string \<Rightarrow> bool) \<Rightarrow> access \<Rightarrow> string option \<Rightarrow> string option \<Rightarrow> string option \<Rightarrow> nat \<Rightarrow> nat \<Rightarrow>
    mapping_db \<Rightarrow> mapping_db \<times> (mapping_row list \<times> nat \<times> nat) result" where
  "list_mappings_api ilike ax q source_format target_schema page page_size =
     tenant_endpoint ax all_roles (\<lambda>ctx db.
       (db, Inr (PaginatedResponse page page_size (mapping_list ilike q source_format target_schema (rc_tenant_id ctx) page page_size db))))"

subsection \<open>What a call does\<close>

definition mapping_key :: "mapping_row \<Rightarrow> string \<times> string option" where
  "mapping_key m = (mp_mapping_id m, mp_tenant_id m)"

definition mapping_inv :: "mapping_db \<Rightarrow> bool" where
  "mapping_inv db \<longleftrightarrow> distinct (map mp_id (mdb_mappings db)) \<and> distinct (map mapping_key (mdb_mappings db)) \<and>
     (\<forall>m \<in> set (mdb_mappings db). mp_is_active m)"

lemma owned_mapping_row:
  assumes "owned_mapping verb i tenant_id db = Inr m"
  shows "m \<in> set (mdb_mappings db)" and "mp_id m = i" and "given tenant_id \<Longrightarrow> mp_tenant_id m = tenant_id"
proof -
  have "get_mapping_scoped i tenant_id db = Inr (Some m)" and n: "tenant_id \<noteq> None \<longrightarrow> mp_tenant_id m \<noteq> None"
    using assms by (auto simp: owned_mapping_def mapping_get_def split: option.splits if_splits)
  then have q: "m \<in> set (mdb_mappings db) \<and> mp_id m = i \<and> visible_to tenant_id (mp_tenant_id m)"
    unfolding get_mapping_scoped_def by (blast dest: one_or_none_Some)
  then show "m \<in> set (mdb_mappings db)" "mp_id m = i" by auto
  show "given tenant_id \<Longrightarrow> mp_tenant_id m = tenant_id" using q n by (auto simp: visible_to_def given_def)
qed

lemma create_rows:
  assumes "mapping_create_op env row_id data a tenant_id db = (db', Inr m)"
  shows "m = new_mapping row_id data (ac_name a) (effective_tenant (mc_tenant_id data) tenant_id)"
    and "mp_id m \<notin> mp_id ` set (mdb_mappings db)" and "mapping_key m \<notin> mapping_key ` set (mdb_mappings db)"
    and "mdb_mappings db' = mdb_mappings db @ [m]"
proof -
  let ?o = "effective_tenant (mc_tenant_id data) tenant_id"
  let ?m = "new_mapping row_id data (ac_name a) ?o"
  have k: "\<not> mapping_id_exists (mc_mapping_id data) ?o db" using assms by (auto simp: mapping_create_op_def Let_def split: if_splits)
  then obtain d rows where i: "insert_row mp_id ?m (mdb_mappings db) = Inr rows" "m = ?m"
    "db' = (add_mapping_version ?m (ac_name a) (Some ''Initial version'') (db\<lparr>mdb_mappings := rows\<rparr>))\<lparr>st_dist := d\<rparr>"
    using assms by (auto simp: mapping_create_op_def Let_def split: sum.splits dest!: publish_tables)
  show "m = ?m" "mp_id m \<notin> mp_id ` set (mdb_mappings db)" "mdb_mappings db' = mdb_mappings db @ [m]"
    using i by (auto simp: add_mapping_version_def)
  show "mapping_key m \<notin> mapping_key ` set (mdb_mappings db)"
    using k i(2) by (auto simp: mapping_id_exists_def mapping_key_def new_mapping_def filter_empty_conv)
qed

lemma update_rows:
  assumes "mapping_update_op env data a tenant_id i db = (db', Inr m')"
  shows "\<exists>m \<in> set (mdb_mappings db). mp_id m' = mp_id m \<and> mapping_key m' = mapping_key m \<and> mp_is_active m' = mp_is_active m \<and>
    (given tenant_id \<longrightarrow> mp_tenant_id m = tenant_id) \<and> mdb_mappings db' = put_row mp_id m' (mdb_mappings db)"
proof -
  obtain m where m: "owned_mapping ''modify'' i tenant_id db = Inr m" using assms by (auto simp: mapping_update_op_def split: sum.splits)
  with assms have "m' = apply_mapping_update data (ac_name a) m \<and> mdb_mappings db' = put_row mp_id m' (mdb_mappings db)"
    by (auto simp: mapping_update_op_def Let_def add_mapping_version_def dest!: publish_tables)
  then show ?thesis using owned_mapping_row [OF m] by (auto simp: apply_mapping_update_def mapping_key_def)
qed

lemma delete_rows:
  assumes "mapping_delete_op env a tenant_id i db = (db', Inr m)"
  shows "m \<in> set (mdb_mappings db) \<and> mp_id m = i \<and> (given tenant_id \<longrightarrow> mp_tenant_id m = tenant_id) \<and>
    mdb_mappings db' = delete_row mp_id (mp_id m) (mdb_mappings db)"
proof -
  obtain q where q: "owned_mapping ''delete'' i tenant_id db = Inr q" using assms by (auto simp: mapping_delete_op_def split: sum.splits)
  with assms have "m = q \<and> mdb_mappings db' = delete_row mp_id (mp_id q) (mdb_mappings db)"
    by (auto simp: mapping_delete_op_def dest!: publish_tables)
  then show ?thesis using owned_mapping_row [OF q] by simp
qed

lemma mapping_body_inv:
  assumes "mapping_call_body c ctx db = (db', Inr m')" and inv: "mapping_inv db"
  shows "mapping_inv db'"
proof (cases c)
  case (CreateMapping env row_id data)
  then have "mapping_create_op env row_id data (actor_of ctx) (rc_tenant_id ctx) db = (db', Inr m')" using assms(1) by simp
  note r = create_rows [OF this]
  have "mp_is_active m'" by (simp add: r(1) new_mapping_def)
  then show ?thesis using r(2-4) inv by (auto simp: mapping_inv_def)
next
  case (UpdateMapping env i data)
  then obtain m where m: "m \<in> set (mdb_mappings db)" "mp_id m' = mp_id m" "mapping_key m' = mapping_key m" "mp_is_active m' = mp_is_active m"
    "mdb_mappings db' = put_row mp_id m' (mdb_mappings db)" using assms(1) update_rows [of env data "actor_of ctx" "rc_tenant_id ctx" i db db' m'] by auto
  have "map mapping_key (mdb_mappings db') = map mapping_key (mdb_mappings db)"
    using m inv distinct_same_id [of mp_id "mdb_mappings db"] by (auto simp: put_row_def mapping_inv_def)
  then show ?thesis using m inv by (auto simp: mapping_inv_def dest!: set_put_row)
next
  case (DeleteMapping env i)
  then show ?thesis using assms delete_rows [of env "actor_of ctx" "rc_tenant_id ctx" i db db' m']
    by (auto simp: mapping_inv_def delete_row_def distinct_map_filter)
qed

lemma mapping_api_inv: "mapping_inv db \<Longrightarrow> mapping_inv (fst (mapping_api ax c db))"
  by (cases "mapping_api ax c db") (auto simp: mapping_api_def elim!: tenant_endpoint_cases intro: mapping_body_inv)

inductive mapping_reach :: "mapping_db \<Rightarrow> bool" where
  start: "mapping_reach \<lparr> st_dist = d, mdb_mappings = [], mdb_versions = [] \<rparr>"
| call: "mapping_reach db \<Longrightarrow> mapping_api ax c db = (db', r) \<Longrightarrow> mapping_reach db'"

lemma mapping_reach_inv: "mapping_reach db \<Longrightarrow> mapping_inv db"
proof (induction rule: mapping_reach.induct)
  case (call db ax c db' r)
  then show ?case using mapping_api_inv [of db ax c] by simp
qed (simp add: mapping_inv_def)

subsection \<open>Interface to the tenants\<close>

fun mapping_own_tenant :: "string \<Rightarrow> mapping_call \<Rightarrow> bool" where
  "mapping_own_tenant t (CreateMapping _ _ data) = (mc_tenant_id data = None \<or> mc_tenant_id data = Some t)"
| "mapping_own_tenant t _ = True"

definition mapping_scoped :: "string \<Rightarrow> access \<times> mapping_call \<Rightarrow> bool" where
  "mapping_scoped t ac = (tenant_caller t (fst ac) \<and> mapping_own_tenant t (snd ac))"

definition mapping_step :: "access \<times> mapping_call \<Rightarrow> mapping_db \<Rightarrow> mapping_db" where
  "mapping_step ac db = fst (mapping_api (fst ac) (snd ac) db)"

lemma mapping_body_foreign:
  assumes "mapping_call_body c ctx db = (db', Inr m')" and inv: "mapping_inv db" and t: "rc_tenant_id ctx = Some t" "t \<noteq> []" "mapping_own_tenant t c"
  shows "filter (\<lambda>m. mp_tenant_id m \<noteq> Some t) (mdb_mappings db') = filter (\<lambda>m. mp_tenant_id m \<noteq> Some t) (mdb_mappings db)"
proof -
  have d: "distinct (map mp_id (mdb_mappings db))" using inv by (simp add: mapping_inv_def)
  have g: "given (Some t)" using t(2) by (cases t) (simp_all add: given_def)
  show ?thesis
  proof (cases c)
    case (CreateMapping env row_id data)
    then have "mapping_create_op env row_id data (actor_of ctx) (rc_tenant_id ctx) db = (db', Inr m')" using assms(1) by simp
    from create_rows(1,4) [OF this] show ?thesis using t CreateMapping by (auto simp: new_mapping_def effective_tenant_def)
  next
    case (UpdateMapping env i data)
    then obtain m where m: "m \<in> set (mdb_mappings db)" "mp_id m' = mp_id m" "mapping_key m' = mapping_key m" "mp_tenant_id m = Some t"
      "mdb_mappings db' = put_row mp_id m' (mdb_mappings db)"
      using assms(1) t(1) g update_rows [of env data "actor_of ctx" "rc_tenant_id ctx" i db db' m'] by auto
    show ?thesis unfolding m(5) by (rule filter_put_row [OF d m(1,2)]) (use m(3,4) in \<open>auto simp: mapping_key_def\<close>)
  next
    case (DeleteMapping env i)
    then have m: "m' \<in> set (mdb_mappings db)" "mp_tenant_id m' = Some t" "mdb_mappings db' = delete_row mp_id (mp_id m') (mdb_mappings db)"
      using assms(1) t(1) g delete_rows [of env "actor_of ctx" "rc_tenant_id ctx" i db db' m'] by auto
    show ?thesis unfolding m(3) by (rule filter_delete_row [OF d m(1)]) (simp add: m(2))
  qed
qed

lemma mapping_step_foreign:
  assumes "mapping_inv db" and "mapping_scoped t ac"
  shows "filter (\<lambda>m. mp_tenant_id m \<noteq> Some t) (mdb_mappings (mapping_step ac db)) = filter (\<lambda>m. mp_tenant_id m \<noteq> Some t) (mdb_mappings db)"
  unfolding mapping_step_def mapping_api_def
  by (rule tenant_endpoint_keeps [of t "fst ac"]) (use assms mapping_body_foreign in \<open>auto simp: mapping_scoped_def\<close>)

interpretation mappings: extension_registry mdb_mappings mp_tenant_id mapping_inv mapping_step mapping_scoped resolve_mapping
proof unfold_locales
  show "mapping_inv (mapping_step c s)" if "mapping_inv s" for c s using that by (simp add: mapping_step_def mapping_api_inv)
  show "resolve_mapping k u s = resolve_mapping k u s'"
    if "given u" "filter (\<lambda>r. visible_to u (mp_tenant_id r)) (mdb_mappings s) = filter (\<lambda>r. visible_to u (mp_tenant_id r)) (mdb_mappings s')" for u s s' k
    unfolding resolve_mapping_def using that by (intro tenant_then_baseline_visible [where owner = mp_tenant_id]) (auto simp: active_mapping_def)
qed (auto intro: mapping_step_foreign)

subsection \<open>Properties\<close>

text \<open>Tenant isolation of the mapping registry: whatever the users of one tenant ask of the endpoints, deletions included, as long
  as they do not name another tenant in the body of a creation, every other tenant sees the same rows and resolves
  the same mappings.\<close>

theorem mapping_tenant_isolation:
  assumes "mapping_reach db" and "\<forall>ac \<in> set calls. mapping_scoped t ac" and "u \<noteq> t" and "u \<noteq> []"
  shows "filter (\<lambda>m. visible_to (Some u) (mp_tenant_id m)) (mdb_mappings (fold mapping_step calls db)) =
      filter (\<lambda>m. visible_to (Some u) (mp_tenant_id m)) (mdb_mappings db) \<and>
    resolve_mapping k (Some u) (fold mapping_step calls db) = resolve_mapping k (Some u) db"
  using mappings.run_visible mappings.resolve_isolated mapping_reach_inv assms by blast

lemma resolve_new_extension:
  assumes "mapping_inv db'" and "mdb_mappings db' = mdb_mappings db @ [m]" and "mp_tenant_id m = Some u" and "u \<noteq> []" and "mp_is_active m"
  shows "resolve_mapping (mp_mapping_id m) (Some u) db' = Inr (Some m)"
proof -
  let ?sel = "active_mapping (mp_mapping_id m)"
  have d: "distinct (map mapping_key (mdb_mappings db'))" using assms(1) by (simp add: mapping_inv_def)
  have m: "m \<in> set (mdb_mappings db') \<and> ?sel (Some u) m" using assms(2,3,5) by (simp add: active_mapping_def)
  obtain r where r: "tenant_then_baseline ?sel (Some u) (mdb_mappings db') = Inr r"
    "case r of Some x \<Rightarrow> x \<in> set (mdb_mappings db') \<and> (?sel (Some u) x \<or> ?sel None x \<and> (\<forall>y \<in> set (mdb_mappings db'). \<not> ?sel (Some u) y))
     | None \<Rightarrow> \<forall>y \<in> set (mdb_mappings db'). \<not> ?sel (Some u) y \<and> \<not> ?sel None y"
    using tenant_then_baseline_spec [OF d, of ?sel u] assms(4) by (auto simp: active_mapping_def mapping_key_def)
  then obtain x where x: "r = Some x" "x \<in> set (mdb_mappings db')" "?sel (Some u) x" using m by (cases r) auto
  have "mapping_key x = mapping_key m" using x(3) m by (auto simp: active_mapping_def mapping_key_def)
  then have "x = m" using d m x(2) by (auto simp: distinct_map inj_on_def)
  then show ?thesis using r(1) x(1) by (simp add: resolve_mapping_def)
qed

lemma mapping_create_ok:
  assumes "\<not> mapping_id_exists (mc_mapping_id data) (effective_tenant (mc_tenant_id data) tenant_id) db" and "row_id \<notin> mp_id ` set (mdb_mappings db)"
    and "\<And>ev. de_check_event env ev = None"
  shows "\<exists>db'. mapping_create_op env row_id data a tenant_id db =
    (db', Inr (new_mapping row_id data (ac_name a) (effective_tenant (mc_tenant_id data) tenant_id)))"
proof -
  let ?m = "new_mapping row_id data (ac_name a) (effective_tenant (mc_tenant_id data) tenant_id)"
  have "insert_row mp_id ?m (mdb_mappings db) = Inr (mdb_mappings db @ [?m])" using assms(2) by (simp add: new_mapping_def)
  then show ?thesis using assms(1)
    publish_ok [OF assms(3), of "mapping_audit a ''MAPPING_CREATED'' ?m (Some (mp_version ?m)) None (Some (mapping_snapshot ?m)) None"
      "mapping_change a ''CREATE'' (mapping_snapshot ?m) ?m" ?m
      "add_mapping_version ?m (ac_name a) (Some ''Initial version'') (db\<lparr>mdb_mappings := mdb_mappings db @ [?m]\<rparr>)"]
    by (auto simp: mapping_create_op_def Let_def simp del: insert_row_Inr)
qed

text \<open>The creation of a mapping trusts the tenant that its body names, and a mapping is active at once: a user of tenant \<open>t\<close> who may
  write mappings replaces what another tenant \<open>u\<close>, which has no extension of its own under that identifier, resolves;
  the baseline of the platform is shadowed by the fields that the user of \<open>t\<close> chose.\<close>

theorem mapping_hijack:
  assumes "mapping_reach db" and "tenant_caller t ax" and "authorize (ax_decode ax) (ax_identity ax) writer_roles (ax_token ax) (ax_tenant_id ax) = Inr ctx"
    and "mc_tenant_id data = Some u" and "u \<noteq> t" and "u \<noteq> []" and "\<not> mapping_id_exists (mc_mapping_id data) (Some u) db"
    and "row_id \<notin> mp_id ` set (mdb_mappings db)" and "\<And>ev. de_check_event env ev = None"
  shows "\<exists>db' m. mapping_api ax (CreateMapping env row_id data) db = (db', Inr m) \<and>
    resolve_mapping (mc_mapping_id data) (Some u) db' = Inr (Some m) \<and> mp_fields m = mc_fields data \<and> mp_created_by m = Some (us_username (rc_user ctx))"
proof -
  have o: "effective_tenant (mc_tenant_id data) (rc_tenant_id ctx) = Some u" using assms(4) by (simp add: effective_tenant_def)
  let ?m = "new_mapping row_id data (ac_name (actor_of ctx)) (Some u)"
  obtain db' where c: "mapping_create_op env row_id data (actor_of ctx) (rc_tenant_id ctx) db = (db', Inr ?m)"
    using mapping_create_ok [OF _ assms(8,9), of data "rc_tenant_id ctx" "actor_of ctx"] assms(7) unfolding o by blast
  then have a: "mapping_api ax (CreateMapping env row_id data) db = (db', Inr ?m)" using assms(3) by (simp add: mapping_api_def tenant_endpoint_Inr)
  have "mapping_inv db'" using mapping_reach_inv [OF mapping_reach.call [OF assms(1) a]] .
  from resolve_new_extension [OF this create_rows(4) [OF c]] assms(6) a show ?thesis by (auto simp: new_mapping_def actor_of_def)
qed

text \<open>An extension shadows and uncovers: after a tenant creates a mapping its users resolve the new row, and deleting it again
  restores the table, hence every resolution, as it was before.\<close>

theorem mapping_extension_roundtrip:
  assumes "mapping_reach db" and "tenant_caller t ax" and "mc_tenant_id data = None"
    and "mapping_api ax (CreateMapping env row_id data) db = (db1, Inr m)" and "mapping_api ax' (DeleteMapping env' row_id) db1 = (db2, Inr m')"
  shows "resolve_mapping (mc_mapping_id data) (Some t) db1 = Inr (Some m) \<and> m' = m \<and> mdb_mappings db2 = mdb_mappings db"
proof -
  obtain ctx where c: "authorize (ax_decode ax) (ax_identity ax) writer_roles (ax_token ax) (ax_tenant_id ax) = Inr ctx"
    "mapping_create_op env row_id data (actor_of ctx) (rc_tenant_id ctx) db = (db1, Inr m)" using assms(4) by (auto simp: mapping_api_def tenant_endpoint_Inr)
  note t = tenant_caller_context [OF assms(2) c(1)] and r = create_rows [OF c(2)]
  have m: "mp_tenant_id m = Some t" "mp_mapping_id m = mc_mapping_id data" "mp_id m = row_id" "mp_is_active m"
    using assms(3) t by (simp_all add: r(1) new_mapping_def effective_tenant_def)
  have i: "mapping_inv db1" using mapping_reach_inv [OF mapping_reach.call [OF assms(1,4)]] .
  obtain ctx' where "mapping_delete_op env' (actor_of ctx') (rc_tenant_id ctx') row_id db1 = (db2, Inr m')" using assms(5) by (auto simp: mapping_api_def tenant_endpoint_Inr)
  from delete_rows [OF this] have d: "m' \<in> set (mdb_mappings db1)" "mp_id m' = mp_id m" "mdb_mappings db2 = delete_row mp_id (mp_id m) (mdb_mappings db1)"
    using m(3) by auto
  have "m' = m" using i d(1,2) r(4) distinct_same_id [of mp_id "mdb_mappings db1" m' m] by (simp add: mapping_inv_def)
  moreover have "mdb_mappings db2 = mdb_mappings db" using r(2,4) d(3) by (simp add: delete_row_def filter_id_conv) (metis imageI)
  ultimately show ?thesis using resolve_new_extension [OF i r(4) m(1) t(2) m(4)] m(2) by simp
qed

subsection \<open>An example\<close>

definition demo_mapping :: mapping_create where
  "demo_mapping = \<lparr> mc_mapping_id = ''cef'', mc_tenant_id = None, mc_name = ''CEF'', mc_source_format = ''cef'', mc_target_schema = ''ulpf'',
     mc_target_version = ''1'', mc_version = ''1.0.0'', mc_fields = [(''src'', ''source.ip'')], mc_description = None \<rparr>"

definition demo_mappings :: mapping_db where
  "demo_mappings = \<lparr> st_dist = \<lparr> dd_versions = [], dd_targets = [], dd_audit = [] \<rparr>, mdb_mappings = [], mdb_versions = [] \<rparr>"

lemma demo_mappings_reach: "mapping_reach demo_mappings"
  unfolding demo_mappings_def by (rule mapping_reach.start)

lemma demo_mappings_fresh: "\<not> mapping_id_exists k o' demo_mappings" "i \<notin> mp_id ` set (mdb_mappings demo_mappings)"
  by (simp_all add: mapping_id_exists_def demo_mappings_def)

lemma demo_mapping_created:
  "\<exists>db m. mapping_api demo_access (CreateMapping demo_env ''r1'' demo_mapping) demo_mappings = (db, Inr m) \<and> mapping_reach db \<and>
     mdb_mappings db = [m] \<and> mp_id m = ''r1'' \<and> mp_tenant_id m = Some ''a''"
proof -
  obtain db where c: "mapping_create_op demo_env ''r1'' demo_mapping (actor_of demo_context) (Some ''a'') demo_mappings =
      (db, Inr (new_mapping ''r1'' demo_mapping (ac_name (actor_of demo_context)) (effective_tenant (mc_tenant_id demo_mapping) (Some ''a''))))"
    using mapping_create_ok [OF demo_mappings_fresh demo_env_check, where data = demo_mapping and tenant_id = "Some ''a''" and a = "actor_of demo_context"] by blast
  let ?m = "new_mapping ''r1'' demo_mapping (ac_name (actor_of demo_context)) (effective_tenant (mc_tenant_id demo_mapping) (Some ''a''))"
  have a: "mapping_api demo_access (CreateMapping demo_env ''r1'' demo_mapping) demo_mappings = (db, Inr ?m)"
    using c by (simp add: mapping_api_def tenant_endpoint_Inr demo_access_context)
  have "mdb_mappings db = [?m]" using create_rows(4) [OF c] by (simp add: demo_mappings_def)
  then show ?thesis using a mapping_reach.call [OF demo_mappings_reach a] by (simp add: new_mapping_def effective_tenant_def demo_mapping_def)
qed

theorem mapping_tenant_isolation_witness:
  "resolve_mapping ''cef'' (Some ''b'') (fold mapping_step [(demo_access, CreateMapping demo_env ''r1'' demo_mapping)] demo_mappings) =
    resolve_mapping ''cef'' (Some ''b'') demo_mappings"
proof -
  have "\<forall>ac \<in> set [(demo_access, CreateMapping demo_env ''r1'' demo_mapping)]. mapping_scoped ''a'' ac"
    by (simp add: mapping_scoped_def demo_access_caller demo_mapping_def)
  from mapping_tenant_isolation [OF demo_mappings_reach this, of "''b''" "''cef''"] show ?thesis by auto
qed

theorem mapping_hijack_witness:
  "\<exists>db' m. mapping_api demo_access (CreateMapping demo_env ''r1'' (demo_mapping\<lparr>mc_tenant_id := Some ''b''\<rparr>)) demo_mappings = (db', Inr m) \<and>
    resolve_mapping ''cef'' (Some ''b'') db' = Inr (Some m) \<and> mp_created_by m = Some ''ann''"
  using mapping_hijack [OF demo_mappings_reach demo_access_caller demo_access_context [OF roles_admin(1)] _ _ _ demo_mappings_fresh demo_env_check,
      where data = "demo_mapping\<lparr>mc_tenant_id := Some ''b''\<rparr>" and u = "''b''" and row_id = "''r1''"]
  by (auto simp: demo_mapping_def demo_context_def)

theorem mapping_extension_roundtrip_witness:
  "\<exists>db1 db2 m m'. mapping_api demo_access (CreateMapping demo_env ''r1'' demo_mapping) demo_mappings = (db1, Inr m) \<and>
    mapping_api demo_access (DeleteMapping demo_env ''r1'') db1 = (db2, Inr m') \<and> resolve_mapping ''cef'' (Some ''a'') db1 = Inr (Some m) \<and>
    mdb_mappings db2 = mdb_mappings demo_mappings"
proof -
  obtain db1 m where 1: "mapping_api demo_access (CreateMapping demo_env ''r1'' demo_mapping) demo_mappings = (db1, Inr m)"
    "mdb_mappings db1 = [m]" "mp_id m = ''r1''" "mp_tenant_id m = Some ''a''" using demo_mapping_created by blast
  have o: "owned_mapping ''delete'' ''r1'' (Some ''a'') db1 = Inr m"
    using 1(2-4) by (simp add: owned_mapping_def mapping_get_def get_mapping_scoped_def visible_to_def)
  obtain db2 where "mapping_delete_op demo_env (actor_of demo_context) (Some ''a'') ''r1'' db1 = (db2, Inr m)"
    unfolding mapping_delete_op_def o sum.case using publish_ok [OF demo_env_check] by metis
  then have 2: "mapping_api demo_access (DeleteMapping demo_env ''r1'') db1 = (db2, Inr m)"
    by (simp add: mapping_api_def tenant_endpoint_Inr demo_access_context)
  have "mc_tenant_id demo_mapping = None" "mc_mapping_id demo_mapping = ''cef''" by (simp_all add: demo_mapping_def)
  with mapping_extension_roundtrip [OF demo_mappings_reach demo_access_caller _ 1(1) 2] 1(1) 2 show ?thesis by auto
qed

end
