(* ===== verification/M6_Sources.thy ===== *)
theory M6_Sources
  imports M6_Registry
begin

section \<open>M6: source registry\<close>

text \<open>
  \<open>registry/source_registry.py\<close>, \<open>repositories/source_repo.py\<close>, \<open>models/source.py\<close> and the handlers of \<open>api/sources.py\<close>. A source belongs
  to one tenant; there is no baseline. The endpoint of a creation takes the tenant from the context only. The rows
  are returned as they are stored; the JSON text of the tags is decoded by the response model.
\<close>

datatype source_status = SS_ACTIVE | SS_INACTIVE | SS_DISABLED

fun ss_value :: "source_status \<Rightarrow> string" where
  "ss_value SS_ACTIVE = ''active''"
| "ss_value SS_INACTIVE = ''inactive''"
| "ss_value SS_DISABLED = ''disabled''"

record source_row =
  so_id :: string
  so_tenant_id :: string
  so_source_id :: string
  so_name :: string
  so_vendor :: string
  so_product :: string
  so_source_type :: string
  so_protocol :: string
  so_transport :: string
  so_port :: "int option"
  so_zone :: "string option"
  so_status :: source_status
  so_parser_id :: "string option"
  so_description :: "string option"
  so_tags :: "string option"
  so_created_by :: "string option"
  so_updated_by :: "string option"

record source_db = store +
  sdb_sources :: "source_row list"

record source_create =
  sc_source_id :: string
  sc_tenant_id :: string
  sc_name :: string
  sc_vendor :: string
  sc_product :: string
  sc_source_type :: string
  sc_protocol :: string
  sc_transport :: string
  sc_port :: "int option"
  sc_zone :: "string option"
  sc_parser_id :: "string option"
  sc_description :: "string option"
  sc_tags :: "string list option"

record source_update =
  su_name :: "string option"
  su_vendor :: "string option"
  su_product :: "string option"
  su_source_type :: "string option"
  su_protocol :: "string option"
  su_transport :: "string option"
  su_port :: "int option"
  su_zone :: "string option"
  su_parser_id :: "string option"
  su_description :: "string option"
  su_tags :: "string list option"

subsection \<open>Repository\<close>

definition get_source_by_id_and_tenant :: "string \<Rightarrow> string option \<Rightarrow> source_db \<Rightarrow> source_row option result" where
  "get_source_by_id_and_tenant i tenant_id db =
     one_or_none (filter (\<lambda>s. so_id s = i \<and> (tenant_id \<noteq> None \<longrightarrow> tenant_id = Some (so_tenant_id s))) (sdb_sources db))"

definition get_by_source_id :: "string \<Rightarrow> string option \<Rightarrow> source_db \<Rightarrow> source_row option result" where
  "get_by_source_id source_id tenant_id db =
     one_or_none (filter (\<lambda>s. so_source_id s = source_id \<and> (tenant_id \<noteq> None \<longrightarrow> tenant_id = Some (so_tenant_id s))) (sdb_sources db))"

definition search_sources :: "(string \<Rightarrow> string \<Rightarrow> bool) \<Rightarrow> string option \<Rightarrow> string option \<Rightarrow> source_status option \<Rightarrow> string option \<Rightarrow> nat \<Rightarrow> nat \<Rightarrow>
    source_db \<Rightarrow> source_row list \<times> nat" where
  "search_sources ilike q vendor status tenant_id skip limit db =
     page_of skip limit (rev (filter (\<lambda>s.
       (given q \<longrightarrow> like ilike (so_name s) q \<or> like ilike (so_source_id s) q \<or> like ilike (so_vendor s) q) \<and>
       (given vendor \<longrightarrow> like ilike (so_vendor s) vendor) \<and> (status = None \<or> status = Some (so_status s)) \<and>
       (given tenant_id \<longrightarrow> tenant_id = Some (so_tenant_id s))) (sdb_sources db)))"

definition source_id_exists :: "string \<Rightarrow> string \<Rightarrow> source_db \<Rightarrow> bool" where
  "source_id_exists source_id tenant_id db = (filter (\<lambda>s. so_source_id s = source_id \<and> so_tenant_id s = tenant_id) (sdb_sources db) \<noteq> [])"

subsection \<open>Registry\<close>

definition source_snapshot :: "source_row \<Rightarrow> pydict" where
  "source_snapshot s =
     [(''source_id'', PStr (so_source_id s)), (''tenant_id'', PStr (so_tenant_id s)), (''name'', PStr (so_name s)), (''status'', PStr (ss_value (so_status s))),
      (''vendor'', PStr (so_vendor s)), (''product'', PStr (so_product s)), (''source_type'', PStr (so_source_type s)), (''protocol'', PStr (so_protocol s)),
      (''transport'', PStr (so_transport s)), (''port'', (case so_port s of Some i \<Rightarrow> PInt i | None \<Rightarrow> PNone)), (''zone'', opt_value (so_zone s))]"

definition source_audit :: "actor \<Rightarrow> string \<Rightarrow> source_row \<Rightarrow> pydict option \<Rightarrow> pydict option \<Rightarrow> audit_entry" where
  "source_audit a action s before after =
     \<lparr> au_actor = ac_name a, au_actor_role = ac_role a, au_action = action, au_resource_type = ''source'', au_resource_id = Some (so_source_id s),
       au_tenant_id = Some (so_tenant_id s), au_version = None, au_before_state = before, au_after_state = after, au_reason = None \<rparr>"

definition source_change :: "actor \<Rightarrow> string \<Rightarrow> pydict \<Rightarrow> source_row \<Rightarrow> change" where
  "source_change a op payload s =
     \<lparr> ch_config_type = ''sources'', ch_entity_id = Some (so_source_id s), ch_version = ''1.0.0'', ch_tenant_id = Some (so_tenant_id s),
       ch_operation = op, ch_payload = payload, ch_actor = ac_name a, ch_actor_role = ac_role a \<rparr>"

definition new_source :: "string \<Rightarrow> source_create \<Rightarrow> string \<Rightarrow> string \<Rightarrow> source_row" where
  "new_source row_id data name tenant_id =
     \<lparr> so_id = row_id, so_tenant_id = tenant_id, so_source_id = sc_source_id data, so_name = sc_name data, so_vendor = sc_vendor data,
       so_product = sc_product data, so_source_type = sc_source_type data, so_protocol = sc_protocol data, so_transport = sc_transport data,
       so_port = sc_port data, so_zone = sc_zone data, so_status = SS_ACTIVE, so_parser_id = sc_parser_id data, so_description = sc_description data,
       so_tags = (case sc_tags data of Some (x # xs) \<Rightarrow> Some (dumps_tags (x # xs)) | _ \<Rightarrow> None),
       so_created_by = Some name, so_updated_by = Some name \<rparr>"

definition source_create_op :: "dist_env \<Rightarrow> string \<Rightarrow> source_create \<Rightarrow> actor \<Rightarrow> string \<Rightarrow> source_db \<Rightarrow> source_db \<times> source_row result" where
  "source_create_op env row_id data a tenant_id db =
     (let s = new_source row_id data (ac_name a) tenant_id in
      if source_id_exists (sc_source_id data) tenant_id db then
        (db, Inl (OtherError ''DuplicateError'' (''Source '' @ quoted (sc_source_id data) @ '' already exists for tenant'')))
      else
        case insert_row so_id s (sdb_sources db) of
          Inl e \<Rightarrow> (db, Inl e)
        | Inr rows \<Rightarrow>
            publish env (source_audit a ''SOURCE_CREATED'' s None (Some (source_snapshot s))) (source_change a ''CREATE'' (source_snapshot s) s) s
              (db\<lparr>sdb_sources := rows\<rparr>))"

definition source_get :: "string \<Rightarrow> string option \<Rightarrow> source_db \<Rightarrow> source_row result" where
  "source_get i tenant_id db =
     rbind (get_source_by_id_and_tenant i tenant_id db) (\<lambda>r.
       case r of Some s \<Rightarrow> Inr s | None \<Rightarrow> Inl (OtherError ''SourceNotFound'' (''Source '' @ quoted i @ '' not found'')))"

definition source_by_source_id :: "string \<Rightarrow> string option \<Rightarrow> source_db \<Rightarrow> source_row result" where
  "source_by_source_id source_id tenant_id db =
     rbind (get_by_source_id source_id tenant_id db) (\<lambda>r.
       case r of Some s \<Rightarrow> Inr s | None \<Rightarrow> Inl (OtherError ''SourceNotFound'' (''Source '' @ quoted source_id @ '' not found'')))"

definition source_list :: "(string \<Rightarrow> string \<Rightarrow> bool) \<Rightarrow> string option \<Rightarrow> string option \<Rightarrow> source_status option \<Rightarrow> string option \<Rightarrow> nat \<Rightarrow> nat \<Rightarrow>
    source_db \<Rightarrow> source_row list \<times> nat" where
  "source_list ilike q vendor status tenant_id page page_size db =
     search_sources ilike q vendor status tenant_id ((page - 1) * page_size) page_size db"

definition apply_source_update :: "source_update \<Rightarrow> string \<Rightarrow> source_row \<Rightarrow> source_row" where
  "apply_source_update data name s =
     s\<lparr>so_name := or_keep (su_name data) (so_name s), so_vendor := or_keep (su_vendor data) (so_vendor s),
       so_product := or_keep (su_product data) (so_product s), so_source_type := or_keep (su_source_type data) (so_source_type s),
       so_protocol := or_keep (su_protocol data) (so_protocol s), so_transport := or_keep (su_transport data) (so_transport s),
       so_port := or_keep_opt (su_port data) (so_port s), so_zone := or_keep_opt (su_zone data) (so_zone s),
       so_parser_id := or_keep_opt (su_parser_id data) (so_parser_id s), so_description := or_keep_opt (su_description data) (so_description s),
       so_tags := or_keep_opt (map_option dumps_tags (su_tags data)) (so_tags s), so_updated_by := Some name\<rparr>"

definition source_update_op :: "dist_env \<Rightarrow> source_update \<Rightarrow> actor \<Rightarrow> string option \<Rightarrow> string \<Rightarrow> source_db \<Rightarrow> source_db \<times> source_row result" where
  "source_update_op env data a tenant_id i db =
     (case source_get i tenant_id db of
        Inl e \<Rightarrow> (db, Inl e)
      | Inr s \<Rightarrow>
          let s' = apply_source_update data (ac_name a) s in
          publish env (source_audit a ''SOURCE_UPDATED'' s' (Some (source_snapshot s)) (Some (source_snapshot s')))
            (source_change a ''UPDATE'' (source_snapshot s') s') s' (db\<lparr>sdb_sources := put_row so_id s' (sdb_sources db)\<rparr>))"

definition source_delete_op :: "dist_env \<Rightarrow> actor \<Rightarrow> string option \<Rightarrow> string \<Rightarrow> source_db \<Rightarrow> source_db \<times> source_row result" where
  "source_delete_op env a tenant_id i db =
     (case source_get i tenant_id db of
        Inl e \<Rightarrow> (db, Inl e)
      | Inr s \<Rightarrow>
          publish env (source_audit a ''SOURCE_DELETED'' s (Some (source_snapshot s)) None)
            (source_change a ''DELETE'' [(''source_id'', PStr (so_source_id s))] s) s (db\<lparr>sdb_sources := delete_row so_id (so_id s) (sdb_sources db)\<rparr>))"

definition source_set_status :: "source_status \<Rightarrow> string \<Rightarrow> string \<Rightarrow> dist_env \<Rightarrow> actor \<Rightarrow> string option \<Rightarrow> string \<Rightarrow> source_db \<Rightarrow> source_db \<times> source_row result" where
  "source_set_status st action op env a tenant_id i db =
     (case source_get i tenant_id db of
        Inl e \<Rightarrow> (db, Inl e)
      | Inr s \<Rightarrow>
          let s' = s\<lparr>so_status := st, so_updated_by := Some (ac_name a)\<rparr> in
          publish env (source_audit a action s' None (Some (source_snapshot s'))) (source_change a op (source_snapshot s') s') s'
            (db\<lparr>sdb_sources := put_row so_id s' (sdb_sources db)\<rparr>))"

definition source_enable where
  "source_enable = source_set_status SS_ACTIVE ''SOURCE_ENABLED'' ''ENABLE''"

definition source_disable where
  "source_disable = source_set_status SS_DISABLED ''SOURCE_DISABLED'' ''DISABLE''"

subsection \<open>Endpoints\<close>

datatype source_call =
    CreateSource dist_env string source_create
  | UpdateSource dist_env string source_update
  | DeleteSource dist_env string
  | EnableSource dist_env string
  | DisableSource dist_env string

fun source_call_body :: "source_call \<Rightarrow> request_context \<Rightarrow> source_db \<Rightarrow> source_db \<times> source_row result" where
  "source_call_body (CreateSource env row_id data) ctx db =
     (case require_tenant_id ctx of
        Inl e \<Rightarrow> (db, Inl e)
      | Inr tenant_id \<Rightarrow> source_create_op env row_id data (actor_of ctx) tenant_id db)"
| "source_call_body (UpdateSource env i data) ctx db = source_update_op env data (actor_of ctx) (rc_tenant_id ctx) i db"
| "source_call_body (DeleteSource env i) ctx db = source_delete_op env (actor_of ctx) (rc_tenant_id ctx) i db"
| "source_call_body (EnableSource env i) ctx db = source_enable env (actor_of ctx) (rc_tenant_id ctx) i db"
| "source_call_body (DisableSource env i) ctx db = source_disable env (actor_of ctx) (rc_tenant_id ctx) i db"

definition source_api :: "access \<Rightarrow> source_call \<Rightarrow> source_db \<Rightarrow> source_db \<times> source_row result" where
  "source_api ax c = tenant_endpoint ax admin_roles (source_call_body c)"

definition get_source_api :: "access \<Rightarrow> string \<Rightarrow> source_db \<Rightarrow> source_db \<times> source_row result" where
  "get_source_api ax i = tenant_endpoint ax all_roles (\<lambda>ctx db. (db, source_get i (rc_tenant_id ctx) db))"

definition list_sources_api :: "(string \<Rightarrow> string \<Rightarrow> bool) \<Rightarrow> access \<Rightarrow> string option \<Rightarrow> string option \<Rightarrow> source_status option \<Rightarrow> nat \<Rightarrow> nat \<Rightarrow>
    source_db \<Rightarrow> source_db \<times> (source_row list \<times> nat \<times> nat) result" where
  "list_sources_api ilike ax q vendor status page page_size =
     tenant_endpoint ax all_roles (\<lambda>ctx db.
       (db, Inr (PaginatedResponse page page_size (source_list ilike q vendor status (rc_tenant_id ctx) page page_size db))))"

subsection \<open>What a call does\<close>

definition source_owner :: "source_row \<Rightarrow> string option" where
  "source_owner s = Some (so_tenant_id s)"

definition source_key :: "source_row \<Rightarrow> string \<times> string" where
  "source_key s = (so_tenant_id s, so_source_id s)"

definition source_inv :: "source_db \<Rightarrow> bool" where
  "source_inv db \<longleftrightarrow> distinct (map so_id (sdb_sources db)) \<and> distinct (map source_key (sdb_sources db))"

lemma source_get_row:
  assumes "source_get i tenant_id db = Inr s"
  shows "s \<in> set (sdb_sources db) \<and> so_id s = i \<and> (tenant_id \<noteq> None \<longrightarrow> tenant_id = Some (so_tenant_id s))"
proof -
  have "get_source_by_id_and_tenant i tenant_id db = Inr (Some s)" using assms by (auto simp: source_get_def split: option.splits)
  then show ?thesis unfolding get_source_by_id_and_tenant_def by (blast dest: one_or_none_Some)
qed

lemma source_create_effect:
  assumes "source_create_op env row_id data a t db = (db', Inr s)"
  shows "tenant_effect so_id source_key so_tenant_id (Some t) (sdb_sources db) (sdb_sources db')"
proof -
  let ?s = "new_source row_id data (ac_name a) t"
  have k: "\<not> source_id_exists (sc_source_id data) t db" using assms by (auto simp: source_create_op_def Let_def split: if_splits)
  then have r: "so_id ?s \<notin> so_id ` set (sdb_sources db)" "sdb_sources db' = sdb_sources db @ [?s]"
    using assms by (auto simp: source_create_op_def Let_def split: sum.splits dest!: publish_tables)
  have "source_key ?s \<notin> source_key ` set (sdb_sources db)" using k by (auto simp: source_id_exists_def source_key_def new_source_def filter_empty_conv)
  then show ?thesis unfolding r(2) by (intro tenant_effect_add r(1)) (simp_all add: new_source_def)
qed

lemma source_update_effect:
  assumes "source_update_op env data a tid i db = (db', Inr s')"
  shows "tenant_effect so_id source_key so_tenant_id tid (sdb_sources db) (sdb_sources db')"
proof -
  obtain s where s: "source_get i tid db = Inr s" using assms by (auto simp: source_update_op_def split: sum.splits)
  with assms have r: "sdb_sources db' = put_row so_id (apply_source_update data (ac_name a) s) (sdb_sources db)"
    by (auto simp: source_update_op_def Let_def dest!: publish_tables)
  show ?thesis unfolding r by (rule tenant_effect_put [of s]) (use source_get_row [OF s] in \<open>simp_all add: apply_source_update_def source_key_def\<close>)
qed

lemma source_delete_effect:
  assumes "source_delete_op env a tid i db = (db', Inr s')"
  shows "tenant_effect so_id source_key so_tenant_id tid (sdb_sources db) (sdb_sources db')"
proof -
  obtain s where s: "source_get i tid db = Inr s" using assms by (auto simp: source_delete_op_def split: sum.splits)
  with assms have r: "sdb_sources db' = delete_row so_id (so_id s) (sdb_sources db)" by (auto simp: source_delete_op_def dest!: publish_tables)
  show ?thesis unfolding r by (rule tenant_effect_delete) (use source_get_row [OF s] in simp_all)
qed

lemma source_status_effect:
  assumes "source_set_status st action op env a tid i db = (db', Inr s')"
  shows "tenant_effect so_id source_key so_tenant_id tid (sdb_sources db) (sdb_sources db')"
proof -
  obtain s where s: "source_get i tid db = Inr s" using assms by (auto simp: source_set_status_def split: sum.splits)
  with assms have r: "sdb_sources db' = put_row so_id (s\<lparr>so_status := st, so_updated_by := Some (ac_name a)\<rparr>) (sdb_sources db)"
    by (auto simp: source_set_status_def Let_def dest!: publish_tables)
  show ?thesis unfolding r by (rule tenant_effect_put [of s]) (use source_get_row [OF s] in \<open>simp_all add: source_key_def\<close>)
qed

lemma source_call_effect:
  assumes "source_call_body c ctx db = (db', Inr s')"
  shows "tenant_effect so_id source_key so_tenant_id (rc_tenant_id ctx) (sdb_sources db) (sdb_sources db')"
proof (cases c)
  case (CreateSource env row_id data)
  then obtain t where "rc_tenant_id ctx = Some t" "source_create_op env row_id data (actor_of ctx) t db = (db', Inr s')"
    using assms by (auto simp: require_tenant_id_def given_def split: sum.splits if_splits option.splits)
  then show ?thesis using source_create_effect by simp
qed (use assms in \<open>simp_all add: source_enable_def source_disable_def source_update_effect source_delete_effect source_status_effect\<close>)

definition source_step :: "access \<times> source_call \<Rightarrow> source_db \<Rightarrow> source_db" where
  "source_step ac db = fst (source_api (fst ac) (snd ac) db)"

definition source_scoped :: "string \<Rightarrow> access \<times> source_call \<Rightarrow> bool" where
  "source_scoped t ac = tenant_caller t (fst ac)"

lemma source_step_inv: "source_inv db \<Longrightarrow> source_inv (source_step ac db)"
  by (cases "source_api (fst ac) (snd ac) db")
    (auto simp: source_step_def source_api_def source_inv_def elim!: tenant_endpoint_cases dest: source_call_effect tenant_effect_distinct)

lemma source_step_foreign:
  assumes "source_inv db" and "source_scoped t ac"
  shows "filter (\<lambda>s. source_owner s \<noteq> Some t) (sdb_sources (source_step ac db)) = filter (\<lambda>s. source_owner s \<noteq> Some t) (sdb_sources db)"
  unfolding source_step_def source_api_def source_owner_def
proof (rule tenant_endpoint_keeps [of t "fst ac"])
  fix ctx db' x
  assume "rc_tenant_id ctx = Some t" and "source_call_body (snd ac) ctx db = (db', Inr x)"
  from source_call_effect [OF this(2)] this(1) show
    "filter (\<lambda>s. Some (so_tenant_id s) \<noteq> Some t) (sdb_sources db') = filter (\<lambda>s. Some (so_tenant_id s) \<noteq> Some t) (sdb_sources db)"
    using assms(1) by (intro tenant_effect_foreign) (auto simp: source_inv_def)
qed (use assms in \<open>simp_all add: source_scoped_def\<close>)

interpretation sources: tenant_registry sdb_sources source_owner source_inv source_step source_scoped
  by unfold_locales (auto intro: source_step_inv source_step_foreign)

inductive source_reach :: "source_db \<Rightarrow> bool" where
  start: "source_reach \<lparr> st_dist = d, sdb_sources = [] \<rparr>"
| call: "source_reach db \<Longrightarrow> source_api ax c db = (db', r) \<Longrightarrow> source_reach db'"

lemma source_reach_inv: "source_reach db \<Longrightarrow> source_inv db"
proof (induction rule: source_reach.induct)
  case (call db ax c db' r)
  then show ?case using source_step_inv [of db "(ax, c)"] by (simp add: source_step_def)
qed (simp add: source_inv_def)

lemma get_source_tenant:
  assumes "get_source_api ax i db = (db', Inr s)" and "tenant_caller t ax"
  shows "s \<in> set (sdb_sources db) \<and> so_tenant_id s = t"
proof -
  obtain ctx where c: "authorize (ax_decode ax) (ax_identity ax) all_roles (ax_token ax) (ax_tenant_id ax) = Inr ctx" "source_get i (rc_tenant_id ctx) db = Inr s"
    using assms(1) by (auto simp: get_source_api_def tenant_endpoint_Inr)
  show ?thesis using source_get_row [OF c(2)] tenant_caller_context [OF assms(2) c(1)] by auto
qed

lemma list_source_tenant:
  assumes "list_sources_api ilike ax q vendor status page page_size db = (db', Inr (items, n, pages))" and "tenant_caller t ax" and "s \<in> set items"
  shows "s \<in> set (sdb_sources db) \<and> so_tenant_id s = t"
proof -
  obtain ctx where c: "authorize (ax_decode ax) (ax_identity ax) all_roles (ax_token ax) (ax_tenant_id ax) = Inr ctx"
    "s \<in> set (fst (source_list ilike q vendor status (rc_tenant_id ctx) page page_size db))"
    using assms(1,3) by (auto simp: list_sources_api_def tenant_endpoint_Inr PaginatedResponse_def case_prod_beta)
  have "given (rc_tenant_id ctx)" "rc_tenant_id ctx = Some t" using tenant_caller_context [OF assms(2) c(1)] by (auto simp: given_def split: list.splits)
  then show ?thesis using c(2) by (auto simp: source_list_def search_sources_def page_of_def dest!: in_set_takeD in_set_dropD)
qed

text \<open>(C20) Strict tenant isolation of the sources: whatever the users of one tenant ask of the endpoints, and whatever tenant they name in
  the query or the body, the rows of the other tenants stay as they are; and the users of a tenant are only ever
  shown rows of that tenant, one by one or in a list.\<close>

theorem source_isolation:
  assumes "source_reach db" and "\<forall>ac \<in> set calls. source_scoped t ac" and "tenant_caller u ax"
  shows "filter (\<lambda>s. so_tenant_id s \<noteq> t) (sdb_sources (fold source_step calls db)) = filter (\<lambda>s. so_tenant_id s \<noteq> t) (sdb_sources db) \<and>
    (\<forall>i db' s. get_source_api ax i db = (db', Inr s) \<longrightarrow> so_tenant_id s = u) \<and>
    (\<forall>ilike q vendor status page page_size db' items n pages.
       list_sources_api ilike ax q vendor status page page_size db = (db', Inr (items, n, pages)) \<longrightarrow> (\<forall>s \<in> set items. so_tenant_id s = u))"
  using sources.run_foreign [OF source_reach_inv [OF assms(1)] assms(2)] get_source_tenant [OF _ assms(3)] list_source_tenant [OF _ assms(3)]
  unfolding source_owner_def option.inject by blast

definition demo_source :: source_create where
  "demo_source = \<lparr> sc_source_id = ''fw1'', sc_tenant_id = ''b'', sc_name = ''Edge'', sc_vendor = ''v'', sc_product = ''p'', sc_source_type = ''firewall'',
     sc_protocol = ''syslog'', sc_transport = ''udp'', sc_port = Some 514, sc_zone = None, sc_parser_id = None, sc_description = None, sc_tags = None \<rparr>"

definition demo_sources :: source_db where
  "demo_sources = \<lparr> st_dist = \<lparr> dd_versions = [], dd_targets = [], dd_audit = [] \<rparr>, sdb_sources = [] \<rparr>"

lemma source_create_ok:
  assumes "\<not> source_id_exists (sc_source_id data) t db" and "row_id \<notin> so_id ` set (sdb_sources db)" and "\<And>ev. de_check_event env ev = None"
  shows "\<exists>db'. source_create_op env row_id data a t db = (db', Inr (new_source row_id data (ac_name a) t)) \<and>
    sdb_sources db' = sdb_sources db @ [new_source row_id data (ac_name a) t]"
proof -
  let ?s = "new_source row_id data (ac_name a) t"
  have "insert_row so_id ?s (sdb_sources db) = Inr (sdb_sources db @ [?s])" using assms(2) by (simp add: new_source_def)
  then show ?thesis using assms(1)
    publish_ok [OF assms(3), of "source_audit a ''SOURCE_CREATED'' ?s None (Some (source_snapshot ?s))" "source_change a ''CREATE'' (source_snapshot ?s) ?s" ?s
      "db\<lparr>sdb_sources := sdb_sources db @ [?s]\<rparr>"]
    by (auto simp: source_create_op_def Let_def simp del: insert_row_Inr)
qed

lemma demo_source_created:
  "\<exists>db s. source_api demo_access (CreateSource demo_env ''r1'' demo_source) demo_sources = (db, Inr s) \<and> sdb_sources db = [s] \<and> so_tenant_id s = ''a''"
proof -
  let ?s = "new_source ''r1'' demo_source (ac_name (actor_of demo_context)) ''a''"
  have f: "\<not> source_id_exists (sc_source_id demo_source) ''a'' demo_sources" "''r1'' \<notin> so_id ` set (sdb_sources demo_sources)"
    by (simp_all add: source_id_exists_def demo_sources_def)
  obtain db where "source_create_op demo_env ''r1'' demo_source (actor_of demo_context) ''a'' demo_sources = (db, Inr ?s)" "sdb_sources db = [?s]"
    using source_create_ok [OF f demo_env_check, where a = "actor_of demo_context"] by (auto simp: demo_sources_def)
  then show ?thesis
    by (intro exI [of _ db] exI [of _ ?s]) (simp add: source_api_def tenant_endpoint_Inr demo_access_context require_tenant_id_def given_def new_source_def)
qed

theorem source_isolation_witness:
  "\<exists>db s. source_api demo_access (CreateSource demo_env ''r1'' demo_source) demo_sources = (db, Inr s) \<and> sdb_sources db = [s] \<and>
    filter (\<lambda>s. so_tenant_id s \<noteq> ''a'') (sdb_sources (fold source_step [(demo_access, DisableSource demo_env ''r1'')] db)) = []"
proof -
  obtain db s where s: "source_api demo_access (CreateSource demo_env ''r1'' demo_source) demo_sources = (db, Inr s)" "sdb_sources db = [s]" "so_tenant_id s = ''a''"
    using demo_source_created by blast
  have "source_reach demo_sources" unfolding demo_sources_def by (rule source_reach.start)
  from source_reach.call [OF this s(1)] have r: "source_reach db" .
  have "\<forall>ac \<in> set [(demo_access, DisableSource demo_env ''r1'')]. source_scoped ''a'' ac" by (simp add: source_scoped_def demo_access_caller)
  from source_isolation [OF r this demo_access_caller] s show ?thesis by auto
qed

end
