(* ===== verification/M6_Policies.thy ===== *)
theory M6_Policies
  imports M6_Registry "HOL-Library.Sublist"
begin

section \<open>M6: policy registry\<close>

text \<open>
  \<open>registry/policy_registry.py\<close>, \<open>repositories/policy_repo.py\<close>, \<open>models/policy.py\<close> and the handlers of \<open>api/policies.py\<close>. A policy belongs
  to one tenant. A condition is stored as the dictionary that \<open>model_dump\<close> makes of it: with every key at the creation, and
  without the keys whose value is null at an update, where the whole request is dumped with \<open>exclude_none\<close>.
  Deleting a policy deletes its versions (\<open>ON DELETE CASCADE\<close>).
\<close>

record policy_condition =
  co_field :: string
  co_operator :: string
  co_value :: pyval

record policy_row =
  po_id :: string
  po_tenant_id :: string
  po_policy_id :: string
  po_name :: string
  po_version :: string
  po_priority :: int
  po_conditions :: "pydict list"
  po_destinations :: "string list"
  po_is_enabled :: bool
  po_description :: "string option"
  po_created_by :: "string option"
  po_updated_by :: "string option"

record policy_version_row =
  pov_policy_row :: string
  pov_version :: string
  pov_conditions_snapshot :: "pydict list"
  pov_destinations_snapshot :: "string list"
  pov_changed_by :: string
  pov_reason :: "string option"

record policy_db = store +
  podb_policies :: "policy_row list"
  podb_versions :: "policy_version_row list"

record policy_create =
  poc_policy_id :: string
  poc_name :: string
  poc_version :: string
  poc_priority :: int
  poc_conditions :: "policy_condition list"
  poc_destinations :: "string list"
  poc_description :: "string option"
  poc_is_enabled :: bool

record policy_update =
  pou_name :: "string option"
  pou_version :: "string option"
  pou_priority :: "int option"
  pou_conditions :: "policy_condition list option"
  pou_destinations :: "string list option"
  pou_description :: "string option"
  pou_reason :: "string option"

subsection \<open>Repository\<close>

definition get_policy_by_id_and_tenant :: "string \<Rightarrow> string option \<Rightarrow> policy_db \<Rightarrow> policy_row option result" where
  "get_policy_by_id_and_tenant i tenant_id db =
     one_or_none (filter (\<lambda>p. po_id p = i \<and> (tenant_id \<noteq> None \<longrightarrow> tenant_id = Some (po_tenant_id p))) (podb_policies db))"

definition get_by_policy_id :: "string \<Rightarrow> string option \<Rightarrow> policy_db \<Rightarrow> policy_row option result" where
  "get_by_policy_id policy_id tenant_id db =
     one_or_none (filter (\<lambda>p. po_policy_id p = policy_id \<and> (tenant_id \<noteq> None \<longrightarrow> tenant_id = Some (po_tenant_id p))) (podb_policies db))"

definition search_policies :: "(string \<Rightarrow> string \<Rightarrow> bool) \<Rightarrow> string option \<Rightarrow> bool option \<Rightarrow> string option \<Rightarrow> nat \<Rightarrow> nat \<Rightarrow>
    policy_db \<Rightarrow> policy_row list \<times> nat" where
  "search_policies ilike q is_enabled tenant_id skip limit db =
     page_of skip limit (sort_key (\<lambda>p. - po_priority p) (rev (filter (\<lambda>p.
       (given q \<longrightarrow> like ilike (po_name p) q \<or> like ilike (po_policy_id p) q) \<and>
       (is_enabled \<noteq> None \<longrightarrow> is_enabled = Some (po_is_enabled p)) \<and>
       (tenant_id \<noteq> None \<longrightarrow> tenant_id = Some (po_tenant_id p))) (podb_policies db))))"

definition add_policy_version :: "policy_row \<Rightarrow> string \<Rightarrow> string option \<Rightarrow> policy_db \<Rightarrow> policy_db" where
  "add_policy_version p changed_by reason db =
     db\<lparr>podb_versions := podb_versions db @ [\<lparr> pov_policy_row = po_id p, pov_version = po_version p, pov_conditions_snapshot = po_conditions p,
          pov_destinations_snapshot = po_destinations p, pov_changed_by = changed_by, pov_reason = reason \<rparr>]\<rparr>"

definition policy_id_exists :: "string \<Rightarrow> string \<Rightarrow> policy_db \<Rightarrow> bool" where
  "policy_id_exists policy_id tenant_id db = (filter (\<lambda>p. po_policy_id p = policy_id \<and> po_tenant_id p = tenant_id) (podb_policies db) \<noteq> [])"

subsection \<open>Registry\<close>

definition condition_dump :: "policy_condition \<Rightarrow> pydict" where
  "condition_dump c = [(''field'', PStr (co_field c)), (''operator'', PStr (co_operator c)), (''value'', co_value c)]"

definition condition_dump_exclude_none :: "policy_condition \<Rightarrow> pydict" where
  "condition_dump_exclude_none c = filter (\<lambda>(k, v). v \<noteq> PNone) (condition_dump c)"

definition policy_snapshot :: "policy_row \<Rightarrow> pydict" where
  "policy_snapshot p =
     [(''policy_id'', PStr (po_policy_id p)), (''tenant_id'', PStr (po_tenant_id p)), (''name'', PStr (po_name p)), (''version'', PStr (po_version p)),
      (''priority'', PInt (po_priority p)), (''is_enabled'', PBool (po_is_enabled p)), (''conditions'', PList (map PDict (po_conditions p))),
      (''destinations'', PList (map PStr (po_destinations p)))]"

definition policy_audit :: "actor \<Rightarrow> string \<Rightarrow> policy_row \<Rightarrow> string option \<Rightarrow> pydict option \<Rightarrow> pydict option \<Rightarrow> string option \<Rightarrow> audit_entry" where
  "policy_audit a action p version before after reason =
     \<lparr> au_actor = ac_name a, au_actor_role = ac_role a, au_action = action, au_resource_type = ''policy'', au_resource_id = Some (po_policy_id p),
       au_tenant_id = Some (po_tenant_id p), au_version = version, au_before_state = before, au_after_state = after, au_reason = reason \<rparr>"

definition policy_change :: "actor \<Rightarrow> string \<Rightarrow> pydict \<Rightarrow> policy_row \<Rightarrow> change" where
  "policy_change a op payload p =
     \<lparr> ch_config_type = ''policies'', ch_entity_id = Some (po_policy_id p), ch_version = po_version p, ch_tenant_id = Some (po_tenant_id p),
       ch_operation = op, ch_payload = payload, ch_actor = ac_name a, ch_actor_role = ac_role a \<rparr>"

definition new_policy :: "string \<Rightarrow> policy_create \<Rightarrow> string \<Rightarrow> string \<Rightarrow> policy_row" where
  "new_policy row_id data name tenant_id =
     \<lparr> po_id = row_id, po_tenant_id = tenant_id, po_policy_id = poc_policy_id data, po_name = poc_name data, po_version = poc_version data,
       po_priority = poc_priority data, po_conditions = map condition_dump (poc_conditions data), po_destinations = poc_destinations data,
       po_is_enabled = poc_is_enabled data, po_description = poc_description data, po_created_by = Some name, po_updated_by = Some name \<rparr>"

definition policy_create_op :: "dist_env \<Rightarrow> string \<Rightarrow> policy_create \<Rightarrow> actor \<Rightarrow> string \<Rightarrow> policy_db \<Rightarrow> policy_db \<times> policy_row result" where
  "policy_create_op env row_id data a tenant_id db =
     (let p = new_policy row_id data (ac_name a) tenant_id in
      if policy_id_exists (poc_policy_id data) tenant_id db then
        (db, Inl (OtherError ''DuplicateError'' (''Policy '' @ quoted (poc_policy_id data) @ '' already exists for tenant'')))
      else
        case insert_row po_id p (podb_policies db) of
          Inl e \<Rightarrow> (db, Inl e)
        | Inr rows \<Rightarrow>
            publish env (policy_audit a ''POLICY_CREATED'' p (Some (po_version p)) None (Some (policy_snapshot p)) None)
              (policy_change a ''CREATE'' (policy_snapshot p) p) p
              (add_policy_version p (ac_name a) (Some ''Initial version'') (db\<lparr>podb_policies := rows\<rparr>)))"

definition policy_get :: "string \<Rightarrow> string option \<Rightarrow> policy_db \<Rightarrow> policy_row result" where
  "policy_get i tenant_id db =
     rbind (get_policy_by_id_and_tenant i tenant_id db) (\<lambda>r.
       case r of Some p \<Rightarrow> Inr p | None \<Rightarrow> Inl (OtherError ''PolicyNotFound'' (''Policy '' @ quoted i @ '' not found'')))"

definition policy_by_policy_id :: "string \<Rightarrow> string option \<Rightarrow> policy_db \<Rightarrow> policy_row result" where
  "policy_by_policy_id policy_id tenant_id db =
     rbind (get_by_policy_id policy_id tenant_id db) (\<lambda>r.
       case r of Some p \<Rightarrow> Inr p | None \<Rightarrow> Inl (OtherError ''PolicyNotFound'' (''Policy '' @ quoted policy_id @ '' not found'')))"

definition policy_list :: "(string \<Rightarrow> string \<Rightarrow> bool) \<Rightarrow> string option \<Rightarrow> bool option \<Rightarrow> string option \<Rightarrow> nat \<Rightarrow> nat \<Rightarrow> policy_db \<Rightarrow> policy_row list \<times> nat" where
  "policy_list ilike q is_enabled tenant_id page page_size db = search_policies ilike q is_enabled tenant_id ((page - 1) * page_size) page_size db"

definition apply_policy_update :: "policy_update \<Rightarrow> string \<Rightarrow> policy_row \<Rightarrow> policy_row" where
  "apply_policy_update data name p =
     p\<lparr>po_name := or_keep (pou_name data) (po_name p), po_version := or_keep (pou_version data) (po_version p),
       po_priority := or_keep (pou_priority data) (po_priority p),
       po_conditions := or_keep (map_option (map condition_dump_exclude_none) (pou_conditions data)) (po_conditions p),
       po_destinations := or_keep (pou_destinations data) (po_destinations p),
       po_description := or_keep_opt (pou_description data) (po_description p), po_updated_by := Some name\<rparr>"

definition policy_update_op :: "dist_env \<Rightarrow> policy_update \<Rightarrow> actor \<Rightarrow> string option \<Rightarrow> string \<Rightarrow> policy_db \<Rightarrow> policy_db \<times> policy_row result" where
  "policy_update_op env data a tenant_id i db =
     (case policy_get i tenant_id db of
        Inl e \<Rightarrow> (db, Inl e)
      | Inr p \<Rightarrow>
          let p' = apply_policy_update data (ac_name a) p in
          publish env (policy_audit a ''POLICY_UPDATED'' p' (Some (po_version p')) (Some (policy_snapshot p)) (Some (policy_snapshot p')) (pou_reason data))
            (policy_change a ''UPDATE'' (policy_snapshot p') p') p'
            (add_policy_version p' (ac_name a) (pou_reason data) (db\<lparr>podb_policies := put_row po_id p' (podb_policies db)\<rparr>)))"

definition policy_delete_op :: "dist_env \<Rightarrow> actor \<Rightarrow> string option \<Rightarrow> string \<Rightarrow> policy_db \<Rightarrow> policy_db \<times> policy_row result" where
  "policy_delete_op env a tenant_id i db =
     (case policy_get i tenant_id db of
        Inl e \<Rightarrow> (db, Inl e)
      | Inr p \<Rightarrow>
          publish env (policy_audit a ''POLICY_DELETED'' p None (Some (policy_snapshot p)) None None)
            (policy_change a ''DELETE'' [(''policy_id'', PStr (po_policy_id p))] p) p
            (db\<lparr>podb_policies := delete_row po_id (po_id p) (podb_policies db),
                podb_versions := filter (\<lambda>v. pov_policy_row v \<noteq> po_id p) (podb_versions db)\<rparr>))"

definition policy_set_enabled :: "bool \<Rightarrow> string \<Rightarrow> string \<Rightarrow> dist_env \<Rightarrow> actor \<Rightarrow> string option \<Rightarrow> string \<Rightarrow> policy_db \<Rightarrow> policy_db \<times> policy_row result" where
  "policy_set_enabled b action op env a tenant_id i db =
     (case policy_get i tenant_id db of
        Inl e \<Rightarrow> (db, Inl e)
      | Inr p \<Rightarrow>
          let p' = p\<lparr>po_is_enabled := b, po_updated_by := Some (ac_name a)\<rparr> in
          publish env (policy_audit a action p' None None (Some (policy_snapshot p')) None) (policy_change a op (policy_snapshot p') p') p'
            (db\<lparr>podb_policies := put_row po_id p' (podb_policies db)\<rparr>))"

definition policy_enable where
  "policy_enable = policy_set_enabled True ''POLICY_ENABLED'' ''ENABLE''"

definition policy_disable where
  "policy_disable = policy_set_enabled False ''POLICY_DISABLED'' ''DISABLE''"

subsection \<open>Endpoints\<close>

datatype policy_call =
    CreatePolicy dist_env string policy_create
  | UpdatePolicy dist_env string policy_update
  | DeletePolicy dist_env string
  | EnablePolicy dist_env string
  | DisablePolicy dist_env string

fun policy_call_body :: "policy_call \<Rightarrow> request_context \<Rightarrow> policy_db \<Rightarrow> policy_db \<times> policy_row result" where
  "policy_call_body (CreatePolicy env row_id data) ctx db =
     (case require_tenant_id ctx of
        Inl e \<Rightarrow> (db, Inl e)
      | Inr tenant_id \<Rightarrow> policy_create_op env row_id data (actor_of ctx) tenant_id db)"
| "policy_call_body (UpdatePolicy env i data) ctx db = policy_update_op env data (actor_of ctx) (rc_tenant_id ctx) i db"
| "policy_call_body (DeletePolicy env i) ctx db = policy_delete_op env (actor_of ctx) (rc_tenant_id ctx) i db"
| "policy_call_body (EnablePolicy env i) ctx db = policy_enable env (actor_of ctx) (rc_tenant_id ctx) i db"
| "policy_call_body (DisablePolicy env i) ctx db = policy_disable env (actor_of ctx) (rc_tenant_id ctx) i db"

definition policy_api :: "access \<Rightarrow> policy_call \<Rightarrow> policy_db \<Rightarrow> policy_db \<times> policy_row result" where
  "policy_api ax c = tenant_endpoint ax admin_roles (policy_call_body c)"

definition get_policy_api :: "access \<Rightarrow> string \<Rightarrow> policy_db \<Rightarrow> policy_db \<times> policy_row result" where
  "get_policy_api ax i = tenant_endpoint ax all_roles (\<lambda>ctx db. (db, policy_get i (rc_tenant_id ctx) db))"

definition list_policies_api :: "(string \<Rightarrow> string \<Rightarrow> bool) \<Rightarrow> access \<Rightarrow> string option \<Rightarrow> bool option \<Rightarrow> nat \<Rightarrow> nat \<Rightarrow>
    policy_db \<Rightarrow> policy_db \<times> (policy_row list \<times> nat \<times> nat) result" where
  "list_policies_api ilike ax q is_enabled page page_size =
     tenant_endpoint ax all_roles (\<lambda>ctx db.
       (db, Inr (PaginatedResponse page page_size (policy_list ilike q is_enabled (rc_tenant_id ctx) page page_size db))))"

subsection \<open>What a call does\<close>

definition policy_owner :: "policy_row \<Rightarrow> string option" where
  "policy_owner p = Some (po_tenant_id p)"

definition policy_key :: "policy_row \<Rightarrow> string \<times> string" where
  "policy_key p = (po_tenant_id p, po_policy_id p)"

definition policy_inv :: "policy_db \<Rightarrow> bool" where
  "policy_inv db \<longleftrightarrow> distinct (map po_id (podb_policies db)) \<and> distinct (map policy_key (podb_policies db))"

lemma policy_get_row:
  assumes "policy_get i tenant_id db = Inr p"
  shows "p \<in> set (podb_policies db) \<and> po_id p = i \<and> (tenant_id \<noteq> None \<longrightarrow> tenant_id = Some (po_tenant_id p))"
proof -
  have "get_policy_by_id_and_tenant i tenant_id db = Inr (Some p)" using assms by (auto simp: policy_get_def split: option.splits)
  then show ?thesis unfolding get_policy_by_id_and_tenant_def by (blast dest: one_or_none_Some)
qed

lemma policy_create_effect:
  assumes "policy_create_op env row_id data a t db = (db', Inr s)"
  shows "tenant_effect po_id policy_key po_tenant_id (Some t) (podb_policies db) (podb_policies db')"
proof -
  let ?s = "new_policy row_id data (ac_name a) t"
  have k: "\<not> policy_id_exists (poc_policy_id data) t db" using assms by (auto simp: policy_create_op_def Let_def split: if_splits)
  then have r: "po_id ?s \<notin> po_id ` set (podb_policies db)" "podb_policies db' = podb_policies db @ [?s]"
    using assms by (auto simp: policy_create_op_def Let_def add_policy_version_def split: sum.splits dest!: publish_tables)
  have "policy_key ?s \<notin> policy_key ` set (podb_policies db)" using k by (auto simp: policy_id_exists_def policy_key_def new_policy_def filter_empty_conv)
  then show ?thesis unfolding r(2) by (intro tenant_effect_add r(1)) (simp_all add: new_policy_def)
qed

lemma policy_update_effect:
  assumes "policy_update_op env data a tid i db = (db', Inr p')"
  shows "tenant_effect po_id policy_key po_tenant_id tid (podb_policies db) (podb_policies db')"
proof -
  obtain p where p: "policy_get i tid db = Inr p" using assms by (auto simp: policy_update_op_def split: sum.splits)
  with assms have r: "podb_policies db' = put_row po_id (apply_policy_update data (ac_name a) p) (podb_policies db)"
    by (auto simp: policy_update_op_def add_policy_version_def Let_def dest!: publish_tables)
  show ?thesis unfolding r by (rule tenant_effect_put [of p]) (use policy_get_row [OF p] in \<open>simp_all add: apply_policy_update_def policy_key_def\<close>)
qed

lemma policy_delete_effect:
  assumes "policy_delete_op env a tid i db = (db', Inr p')"
  shows "tenant_effect po_id policy_key po_tenant_id tid (podb_policies db) (podb_policies db')"
proof -
  obtain p where p: "policy_get i tid db = Inr p" using assms by (auto simp: policy_delete_op_def split: sum.splits)
  with assms have r: "podb_policies db' = delete_row po_id (po_id p) (podb_policies db)" by (auto simp: policy_delete_op_def dest!: publish_tables)
  show ?thesis unfolding r by (rule tenant_effect_delete) (use policy_get_row [OF p] in simp_all)
qed

lemma policy_enabled_effect:
  assumes "policy_set_enabled b action op env a tid i db = (db', Inr p')"
  shows "tenant_effect po_id policy_key po_tenant_id tid (podb_policies db) (podb_policies db')"
proof -
  obtain p where p: "policy_get i tid db = Inr p" using assms by (auto simp: policy_set_enabled_def split: sum.splits)
  with assms have r: "podb_policies db' = put_row po_id (p\<lparr>po_is_enabled := b, po_updated_by := Some (ac_name a)\<rparr>) (podb_policies db)"
    by (auto simp: policy_set_enabled_def Let_def dest!: publish_tables)
  show ?thesis unfolding r by (rule tenant_effect_put [of p]) (use policy_get_row [OF p] in \<open>simp_all add: policy_key_def\<close>)
qed

lemma policy_call_effect:
  assumes "policy_call_body c ctx db = (db', Inr p')"
  shows "tenant_effect po_id policy_key po_tenant_id (rc_tenant_id ctx) (podb_policies db) (podb_policies db')"
proof (cases c)
  case (CreatePolicy env row_id data)
  then obtain t where "rc_tenant_id ctx = Some t" "policy_create_op env row_id data (actor_of ctx) t db = (db', Inr p')"
    using assms by (auto simp: require_tenant_id_def given_def split: sum.splits if_splits option.splits)
  then show ?thesis using policy_create_effect by simp
qed (use assms in \<open>simp_all add: policy_enable_def policy_disable_def policy_update_effect policy_delete_effect policy_enabled_effect\<close>)

definition policy_step :: "access \<times> policy_call \<Rightarrow> policy_db \<Rightarrow> policy_db" where
  "policy_step ac db = fst (policy_api (fst ac) (snd ac) db)"

definition policy_scoped :: "string \<Rightarrow> access \<times> policy_call \<Rightarrow> bool" where
  "policy_scoped t ac = tenant_caller t (fst ac)"

lemma policy_step_inv: "policy_inv db \<Longrightarrow> policy_inv (policy_step ac db)"
  by (cases "policy_api (fst ac) (snd ac) db")
    (auto simp: policy_step_def policy_api_def policy_inv_def elim!: tenant_endpoint_cases dest: policy_call_effect tenant_effect_distinct)

lemma policy_step_foreign:
  assumes "policy_inv db" and "policy_scoped t ac"
  shows "filter (\<lambda>p. policy_owner p \<noteq> Some t) (podb_policies (policy_step ac db)) = filter (\<lambda>p. policy_owner p \<noteq> Some t) (podb_policies db)"
  unfolding policy_step_def policy_api_def policy_owner_def
proof (rule tenant_endpoint_keeps [of t "fst ac"])
  fix ctx db' x
  assume "rc_tenant_id ctx = Some t" and "policy_call_body (snd ac) ctx db = (db', Inr x)"
  from policy_call_effect [OF this(2)] this(1) show
    "filter (\<lambda>p. Some (po_tenant_id p) \<noteq> Some t) (podb_policies db') = filter (\<lambda>p. Some (po_tenant_id p) \<noteq> Some t) (podb_policies db)"
    using assms(1) by (intro tenant_effect_foreign) (auto simp: policy_inv_def)
qed (use assms in \<open>simp_all add: policy_scoped_def\<close>)

interpretation policies: tenant_registry podb_policies policy_owner policy_inv policy_step policy_scoped
  by unfold_locales (auto intro: policy_step_inv policy_step_foreign)

inductive policy_reach :: "policy_db \<Rightarrow> bool" where
  start: "policy_reach \<lparr> st_dist = d, podb_policies = [], podb_versions = [] \<rparr>"
| call: "policy_reach db \<Longrightarrow> policy_api ax c db = (db', r) \<Longrightarrow> policy_reach db'"

lemma policy_reach_inv: "policy_reach db \<Longrightarrow> policy_inv db"
proof (induction rule: policy_reach.induct)
  case (call db ax c db' r)
  then show ?case using policy_step_inv [of db "(ax, c)"] by (simp add: policy_step_def)
qed (simp add: policy_inv_def)

subsection \<open>Properties\<close>

text \<open>Strict tenant isolation of the policies: whatever the users of one tenant ask of the endpoints, the policies of the other
  tenants stay as they are, and the users of a tenant are only ever shown policies of that tenant.\<close>

theorem policy_isolation:
  assumes "policy_reach db" and "\<forall>ac \<in> set calls. policy_scoped t ac" and "tenant_caller u ax"
  shows "filter (\<lambda>p. po_tenant_id p \<noteq> t) (podb_policies (fold policy_step calls db)) = filter (\<lambda>p. po_tenant_id p \<noteq> t) (podb_policies db) \<and>
    (\<forall>i db' p. get_policy_api ax i db = (db', Inr p) \<longrightarrow> po_tenant_id p = u)"
proof -
  have "po_tenant_id p = u" if g: "get_policy_api ax i db = (db', Inr p)" for i db' p
  proof -
    obtain ctx where c: "authorize (ax_decode ax) (ax_identity ax) all_roles (ax_token ax) (ax_tenant_id ax) = Inr ctx" "policy_get i (rc_tenant_id ctx) db = Inr p"
      using g by (auto simp: get_policy_api_def tenant_endpoint_Inr)
    show ?thesis using policy_get_row [OF c(2)] tenant_caller_context [OF assms(3) c(1)] by auto
  qed
  then show ?thesis
    using policies.run_foreign [OF policy_reach_inv [OF assms(1)] assms(2)] unfolding policy_owner_def option.inject by blast
qed

text \<open>The list of policies comes by descending priority, and within one priority the newest first, whatever the filters and the page.\<close>

theorem policy_list_order:
  "sorted (map (\<lambda>p. - po_priority p) (fst (policy_list ilike q is_enabled tenant_id page page_size db))) \<and>
   (\<forall>k. subseq (filter (\<lambda>p. po_priority p = k) (fst (policy_list ilike q is_enabled tenant_id page page_size db))) (rev (podb_policies db)))"
proof -
  define rows where "rows = rev (filter (\<lambda>p. (given q \<longrightarrow> like ilike (po_name p) q \<or> like ilike (po_policy_id p) q) \<and>
       (is_enabled \<noteq> None \<longrightarrow> is_enabled = Some (po_is_enabled p)) \<and> (tenant_id \<noteq> None \<longrightarrow> tenant_id = Some (po_tenant_id p))) (podb_policies db))"
  let ?l = "take page_size (drop ((page - 1) * page_size) (sort_key (\<lambda>p. - po_priority p) rows))"
  have l: "fst (policy_list ilike q is_enabled tenant_id page page_size db) = ?l"
    by (simp add: policy_list_def search_policies_def page_of_def rows_def)
  have "sorted (map (\<lambda>p. - po_priority p) ?l)" by (simp add: drop_map [symmetric] take_map [symmetric] sorted_wrt_drop sorted_wrt_take)
  moreover have "subseq (filter (\<lambda>p. po_priority p = k) ?l) (rev (podb_policies db))" for k
  proof -
    have "subseq ?l (sort_key (\<lambda>p. - po_priority p) rows)" by (meson prefix_imp_subseq suffix_imp_subseq suffix_drop take_is_prefix subseq_order.trans)
    then have "subseq (filter (\<lambda>p. po_priority p = k) ?l) (filter (\<lambda>p. po_priority p = k) (sort_key (\<lambda>p. - po_priority p) rows))" by (rule subseq_filter)
    also have "filter (\<lambda>p. po_priority p = k) (sort_key (\<lambda>p. - po_priority p) rows) = filter (\<lambda>p. po_priority p = k) rows"
      using sort_key_stable [of "\<lambda>p. - po_priority p" "- k" rows] by simp
    also have "subseq (filter (\<lambda>p. po_priority p = k) rows) (rev (podb_policies db))"
      unfolding rows_def by (simp add: rev_filter)
    finally show ?thesis .
  qed
  ultimately show ?thesis unfolding l by blast
qed

subsection \<open>An example\<close>

definition demo_policy :: policy_create where
  "demo_policy = \<lparr> poc_policy_id = ''high'', poc_name = ''High'', poc_version = ''1.0.0'', poc_priority = 50,
     poc_conditions = [\<lparr> co_field = ''severity'', co_operator = ''>='', co_value = PInt 7 \<rparr>], poc_destinations = [''opensearch''], poc_description = None,
     poc_is_enabled = True \<rparr>"

definition demo_policies :: policy_db where
  "demo_policies = \<lparr> st_dist = \<lparr> dd_versions = [], dd_targets = [], dd_audit = [] \<rparr>, podb_policies = [], podb_versions = [] \<rparr>"

lemma policy_create_ok:
  assumes "\<not> policy_id_exists (poc_policy_id data) t db" and "row_id \<notin> po_id ` set (podb_policies db)" and "\<And>ev. de_check_event env ev = None"
  shows "\<exists>db'. policy_create_op env row_id data a t db = (db', Inr (new_policy row_id data (ac_name a) t)) \<and>
    podb_policies db' = podb_policies db @ [new_policy row_id data (ac_name a) t]"
proof -
  let ?s = "new_policy row_id data (ac_name a) t"
  have "insert_row po_id ?s (podb_policies db) = Inr (podb_policies db @ [?s])" using assms(2) by (simp add: new_policy_def)
  then show ?thesis using assms(1)
    publish_ok [OF assms(3), of "policy_audit a ''POLICY_CREATED'' ?s (Some (po_version ?s)) None (Some (policy_snapshot ?s)) None"
      "policy_change a ''CREATE'' (policy_snapshot ?s) ?s" ?s
      "add_policy_version ?s (ac_name a) (Some ''Initial version'') (db\<lparr>podb_policies := podb_policies db @ [?s]\<rparr>)"]
    by (auto simp: policy_create_op_def Let_def add_policy_version_def simp del: insert_row_Inr)
qed

lemma demo_policy_created:
  "\<exists>db p. policy_api demo_access (CreatePolicy demo_env ''r1'' demo_policy) demo_policies = (db, Inr p) \<and> podb_policies db = [p] \<and> po_tenant_id p = ''a''"
proof -
  let ?s = "new_policy ''r1'' demo_policy (ac_name (actor_of demo_context)) ''a''"
  have f: "\<not> policy_id_exists (poc_policy_id demo_policy) ''a'' demo_policies" "''r1'' \<notin> po_id ` set (podb_policies demo_policies)"
    by (simp_all add: policy_id_exists_def demo_policies_def)
  obtain db where "policy_create_op demo_env ''r1'' demo_policy (actor_of demo_context) ''a'' demo_policies = (db, Inr ?s)" "podb_policies db = [?s]"
    using policy_create_ok [OF f demo_env_check, where a = "actor_of demo_context"] by (auto simp: demo_policies_def)
  then show ?thesis
    by (intro exI [of _ db] exI [of _ ?s]) (simp add: policy_api_def tenant_endpoint_Inr demo_access_context require_tenant_id_def given_def new_policy_def)
qed

theorem policy_isolation_witness:
  "\<exists>db p. policy_api demo_access (CreatePolicy demo_env ''r1'' demo_policy) demo_policies = (db, Inr p) \<and> podb_policies db = [p] \<and>
    filter (\<lambda>p. po_tenant_id p \<noteq> ''a'') (podb_policies (fold policy_step [(demo_access, DeletePolicy demo_env ''r1'')] db)) = []"
proof -
  obtain db p where p: "policy_api demo_access (CreatePolicy demo_env ''r1'' demo_policy) demo_policies = (db, Inr p)" "podb_policies db = [p]" "po_tenant_id p = ''a''"
    using demo_policy_created by blast
  have "policy_reach demo_policies" unfolding demo_policies_def by (rule policy_reach.start)
  from policy_reach.call [OF this p(1)] have r: "policy_reach db" .
  have "\<forall>ac \<in> set [(demo_access, DeletePolicy demo_env ''r1'')]. policy_scoped ''a'' ac" by (simp add: policy_scoped_def demo_access_caller)
  from policy_isolation [OF r this demo_access_caller] p show ?thesis by auto
qed

end
