(* ===== verification/M6_Platform.thy ===== *)
theory M6_Platform
  imports M6_Registry
begin

section \<open>M6: schemas, tenants and replays\<close>

text \<open>
  The parts of the control plane that are not scoped by a tenant: \<open>registry/schema_registry.py\<close> with \<open>repositories/schema_repo.py\<close> and
  \<open>api/schemas.py\<close>, \<open>api/tenants.py\<close> with \<open>repositories/tenant_repo.py\<close>, and \<open>services/replay_service.py\<close> with \<open>repositories/replay_repo.py\<close> and
  \<open>api/replay.py\<close>. Their endpoints depend on the user and the roles only. The Kafka producer is an argument; the
  times of a replay are not modelled.
\<close>

definition authorize_user :: "access \<Rightarrow> string list \<Rightarrow> user_row result" where
  "authorize_user ax roles =
     rbind (dep_current_user (ax_decode ax) (ax_identity ax) (ax_token ax)) (\<lambda>u. require_roles roles u)"

definition user_endpoint :: "access \<Rightarrow> string list \<Rightarrow> (user_row \<Rightarrow> 'db \<Rightarrow> 'db \<times> 'a result) \<Rightarrow> 'db \<Rightarrow> 'db \<times> 'a result" where
  "user_endpoint ax roles body = request (\<lambda>db. case authorize_user ax roles of Inl e \<Rightarrow> (db, Inl e) | Inr u \<Rightarrow> body u db)"

lemma user_endpoint_Inr:
  "user_endpoint ax roles body db = (db', Inr x) \<longleftrightarrow> (\<exists>u. authorize_user ax roles = Inr u \<and> body u db = (db', Inr x))"
  by (auto simp: user_endpoint_def request_Inr split: sum.splits)

lemma user_endpoint_cases:
  assumes "user_endpoint ax roles body db = (db', r)"
  obtains (commit) u x where "r = Inr x" "authorize_user ax roles = Inr u" "body u db = (db', Inr x)" | (rollback) e where "r = Inl e" "db' = db"
  using assms unfolding user_endpoint_def by (cases rule: request_cases) (auto split: sum.splits)

subsection \<open>Schemas\<close>

datatype schema_status = SCH_ACTIVE | SCH_DEPRECATED | SCH_DRAFT

record schema_row =
  sch_id :: string
  sch_name :: string
  sch_description :: "string option"
  sch_created_by :: "string option"

record schema_version_row =
  sv_id :: string
  sv_schema_id :: string
  sv_version :: string
  sv_status :: schema_status
  sv_json_schema :: pydict
  sv_changelog :: "string option"
  sv_created_by :: "string option"

record schema_db = store +
  scdb_schemas :: "schema_row list"
  scdb_versions :: "schema_version_row list"

record schema_version_create =
  svc_version :: string
  svc_json_schema :: pydict
  svc_changelog :: "string option"

record schema_create =
  shc_name :: string
  shc_description :: "string option"
  shc_initial_version :: "schema_version_create option"

definition get_schema_by_name :: "string \<Rightarrow> schema_db \<Rightarrow> schema_row option result" where
  "get_schema_by_name name db = one_or_none (filter (\<lambda>s. sch_name s = name) (scdb_schemas db))"

definition get_version_row :: "string \<Rightarrow> string \<Rightarrow> schema_db \<Rightarrow> schema_version_row option result" where
  "get_version_row name version db =
     one_or_none (filter (\<lambda>v. (\<exists>s \<in> set (scdb_schemas db). sch_id s = sv_schema_id v \<and> sch_name s = name) \<and> sv_version v = version) (scdb_versions db))"

definition list_schemas :: "nat \<Rightarrow> nat \<Rightarrow> schema_db \<Rightarrow> schema_row list \<times> nat" where
  "list_schemas skip limit db = page_of skip limit (sort_key sch_name (scdb_schemas db))"

definition name_exists :: "string \<Rightarrow> schema_db \<Rightarrow> bool" where
  "name_exists name db = (filter (\<lambda>s. sch_name s = name) (scdb_schemas db) \<noteq> [])"

text \<open>The unique constraint on schema and version is checked when the row is flushed.\<close>

definition add_schema_version :: "string \<Rightarrow> schema_row \<Rightarrow> schema_version_create \<Rightarrow> string \<Rightarrow> schema_db \<Rightarrow> schema_db \<times> schema_version_row result" where
  "add_schema_version row_id s data name db =
     (let v = \<lparr> sv_id = row_id, sv_schema_id = sch_id s, sv_version = svc_version data, sv_status = SCH_ACTIVE, sv_json_schema = svc_json_schema data,
                sv_changelog = svc_changelog data, sv_created_by = Some name \<rparr> in
      if \<exists>w \<in> set (scdb_versions db). sv_schema_id w = sv_schema_id v \<and> sv_version w = sv_version v then
        (db, Inl (OtherError ''IntegrityError'' ''UNIQUE constraint failed: uq_schema_version''))
      else case insert_row sv_id v (scdb_versions db) of
             Inl e \<Rightarrow> (db, Inl e)
           | Inr rows \<Rightarrow> (db\<lparr>scdb_versions := rows\<rparr>, Inr v))"

definition schema_audit :: "actor \<Rightarrow> string \<Rightarrow> string \<Rightarrow> string \<Rightarrow> pydict \<Rightarrow> audit_entry" where
  "schema_audit a action name version snapshot =
     \<lparr> au_actor = ac_name a, au_actor_role = ac_role a, au_action = action, au_resource_type = ''schema'', au_resource_id = Some name,
       au_tenant_id = None, au_version = Some version, au_before_state = None, au_after_state = Some snapshot, au_reason = None \<rparr>"

definition schema_change :: "actor \<Rightarrow> string \<Rightarrow> string \<Rightarrow> string \<Rightarrow> pydict \<Rightarrow> change" where
  "schema_change a op name version snapshot =
     \<lparr> ch_config_type = ''schemas'', ch_entity_id = Some name, ch_version = version, ch_tenant_id = None, ch_operation = op, ch_payload = snapshot,
       ch_actor = ac_name a, ch_actor_role = ac_role a \<rparr>"

definition get_schema :: "string \<Rightarrow> schema_db \<Rightarrow> schema_row result" where
  "get_schema name db =
     rbind (get_schema_by_name name db) (\<lambda>r.
       case r of Some s \<Rightarrow> Inr s | None \<Rightarrow> Inl (OtherError ''SchemaNotFound'' (''Schema '' @ quoted name @ '' not found'')))"

definition add_initial_version :: "string \<Rightarrow> schema_row \<Rightarrow> schema_create \<Rightarrow> string \<Rightarrow> schema_db \<Rightarrow> schema_db \<times> unit result" where
  "add_initial_version version_row_id s data name db =
     (case shc_initial_version data of
        None \<Rightarrow> (db, Inr ())
      | Some v \<Rightarrow> (case add_schema_version version_row_id s v name db of (db1, r) \<Rightarrow> (db1, rbind r (\<lambda>_. Inr ()))))"

definition schema_create_op :: "dist_env \<Rightarrow> string \<Rightarrow> string \<Rightarrow> schema_create \<Rightarrow> actor \<Rightarrow> schema_db \<Rightarrow> schema_db \<times> schema_row option result" where
  "schema_create_op env row_id version_row_id data a db =
     (if name_exists (shc_name data) db then (db, Inl (OtherError ''DuplicateError'' (''Schema '' @ quoted (shc_name data) @ '' already exists'')))
      else
        let s = \<lparr> sch_id = row_id, sch_name = shc_name data, sch_description = shc_description data, sch_created_by = Some (ac_name a) \<rparr>;
            snapshot = [(''name'', PStr (sch_name s)), (''description'', opt_value (sch_description s))];
            version = (case shc_initial_version data of Some v \<Rightarrow> svc_version v | None \<Rightarrow> ''1.0.0'')
        in case insert_row sch_id s (scdb_schemas db) of
             Inl e \<Rightarrow> (db, Inl e)
           | Inr rows \<Rightarrow>
               (case add_initial_version version_row_id s data (ac_name a) (db\<lparr>scdb_schemas := rows\<rparr>) of
                  (db1, Inl e) \<Rightarrow> (db1, Inl e)
                | (db1, Inr _) \<Rightarrow>
                    (case publish env (schema_audit a ''SCHEMA_CREATED'' (sch_name s) version snapshot) (schema_change a ''CREATE'' (sch_name s) version snapshot) () db1 of
                       (db2, Inl e) \<Rightarrow> (db2, Inl e)
                     | (db2, Inr _) \<Rightarrow> (db2, get_schema_by_name (shc_name data) db2))))"

definition schema_add_version :: "dist_env \<Rightarrow> string \<Rightarrow> string \<Rightarrow> schema_version_create \<Rightarrow> actor \<Rightarrow> schema_db \<Rightarrow> schema_db \<times> schema_version_row result" where
  "schema_add_version env row_id name data a db =
     (case get_schema name db of
        Inl e \<Rightarrow> (db, Inl e)
      | Inr s \<Rightarrow>
          (case add_schema_version row_id s data (ac_name a) db of
             (db1, Inl e) \<Rightarrow> (db1, Inl e)
           | (db1, Inr v) \<Rightarrow>
               let snapshot = [(''name'', PStr name), (''version'', PStr (svc_version data)), (''json_schema'', PDict (svc_json_schema data))]
               in publish env (schema_audit a ''SCHEMA_VERSION_ADDED'' name (svc_version data) snapshot)
                    (schema_change a ''UPDATE'' name (svc_version data) snapshot) v db1))"

definition schema_get_version :: "string \<Rightarrow> string \<Rightarrow> schema_db \<Rightarrow> schema_version_row result" where
  "schema_get_version name version db =
     rbind (get_version_row name version db) (\<lambda>r.
       case r of
         Some v \<Rightarrow> Inr v
       | None \<Rightarrow> Inl (OtherError ''SchemaNotFound'' (''Schema '' @ quoted name @ '' version '' @ quoted version @ '' not found'')))"

definition schema_list :: "nat \<Rightarrow> nat \<Rightarrow> schema_db \<Rightarrow> schema_row list \<times> nat" where
  "schema_list page page_size db = list_schemas ((page - 1) * page_size) page_size db"

definition schema_readers :: "string list" where
  "schema_readers = [''ADMINISTRATOR'', ''PARSER_DEVELOPER'', ''SECURITY_ANALYST'', ''VIEWER'']"

definition schema_writers :: "string list" where
  "schema_writers = [''ADMINISTRATOR'', ''PARSER_DEVELOPER'']"

definition user_actor :: "user_row \<Rightarrow> actor" where
  "user_actor u = \<lparr> ac_name = us_username u, ac_role = Some (get_primary_role u) \<rparr>"

definition create_schema_api :: "access \<Rightarrow> dist_env \<Rightarrow> string \<Rightarrow> string \<Rightarrow> schema_create \<Rightarrow> schema_db \<Rightarrow> schema_db \<times> schema_row option result" where
  "create_schema_api ax env row_id version_row_id data =
     user_endpoint ax schema_writers (\<lambda>u db. schema_create_op env row_id version_row_id data (user_actor u) db)"

definition add_schema_version_api :: "access \<Rightarrow> dist_env \<Rightarrow> string \<Rightarrow> string \<Rightarrow> schema_version_create \<Rightarrow> schema_db \<Rightarrow> schema_db \<times> schema_version_row result" where
  "add_schema_version_api ax env row_id name data =
     user_endpoint ax schema_writers (\<lambda>u db. schema_add_version env row_id name data (user_actor u) db)"

definition get_schema_api :: "access \<Rightarrow> string \<Rightarrow> schema_db \<Rightarrow> schema_db \<times> schema_row result" where
  "get_schema_api ax name = user_endpoint ax schema_readers (\<lambda>_ db. (db, get_schema name db))"

definition get_schema_version_api :: "access \<Rightarrow> string \<Rightarrow> string \<Rightarrow> schema_db \<Rightarrow> schema_db \<times> schema_version_row result" where
  "get_schema_version_api ax name version = user_endpoint ax schema_readers (\<lambda>_ db. (db, schema_get_version name version db))"

definition list_schemas_api :: "access \<Rightarrow> nat \<Rightarrow> nat \<Rightarrow> schema_db \<Rightarrow> schema_db \<times> (schema_row list \<times> nat \<times> nat) result" where
  "list_schemas_api ax page page_size =
     user_endpoint ax schema_readers (\<lambda>_ db. (db, Inr (PaginatedResponse page page_size (schema_list page page_size db))))"

subsection \<open>Tenants\<close>

record tenant_db = store +
  tdb_identity :: identity_db

record tenant_create =
  tc_name :: string
  tc_slug :: string
  tc_status :: tenant_status

record tenant_update =
  tu_name :: "string option"
  tu_status :: "tenant_status option"

fun ts_value :: "tenant_status \<Rightarrow> string" where
  "ts_value TS_ACTIVE = ''ACTIVE''"
| "ts_value TS_SUSPENDED = ''SUSPENDED''"
| "ts_value TS_DISABLED = ''DISABLED''"

definition slug_exists :: "string \<Rightarrow> tenant_db \<Rightarrow> bool" where
  "slug_exists slug db = (filter (\<lambda>t. tn_slug t = slug) (id_tenants (tdb_identity db)) \<noteq> [])"

definition list_tenants :: "tenant_status option \<Rightarrow> nat \<Rightarrow> nat \<Rightarrow> tenant_db \<Rightarrow> tenant_row list \<times> nat" where
  "list_tenants status skip limit db =
     page_of skip limit (rev (filter (\<lambda>t. status = None \<or> status = Some (tn_status t)) (id_tenants (tdb_identity db))))"

definition find_tenant :: "string \<Rightarrow> tenant_db \<Rightarrow> tenant_row result" where
  "find_tenant i db =
     (case (case get_tenant i (tdb_identity db) of Some t \<Rightarrow> Some t | None \<Rightarrow> get_by_slug i (tdb_identity db)) of
        Some t \<Rightarrow> Inr t
      | None \<Rightarrow> Inl (HTTPException 404 (''Tenant '' @ quoted i @ '' not found'')))"

definition tenant_audit :: "string \<Rightarrow> string \<Rightarrow> tenant_row \<Rightarrow> audit_entry" where
  "tenant_audit actor action t =
     \<lparr> au_actor = actor, au_actor_role = Some ''SUPER_ADMIN'', au_action = action, au_resource_type = ''tenant'', au_resource_id = Some (tn_id t),
       au_tenant_id = Some (tn_id t), au_version = None, au_before_state = None,
       au_after_state = Some [(''name'', PStr (tn_name t)), (''slug'', PStr (tn_slug t)), (''status'', PStr (ts_value (tn_status t)))], au_reason = None \<rparr>"

definition put_tenants :: "tenant_row list \<Rightarrow> audit_entry \<Rightarrow> tenant_db \<Rightarrow> tenant_db" where
  "put_tenants rows entry db = db\<lparr>tdb_identity := (tdb_identity db)\<lparr>id_tenants := rows\<rparr>, st_dist := audit_record entry (st_dist db)\<rparr>"

definition create_tenant :: "string \<Rightarrow> tenant_create \<Rightarrow> string \<Rightarrow> tenant_db \<Rightarrow> tenant_db \<times> tenant_row result" where
  "create_tenant row_id data actor db =
     (if slug_exists (tc_slug data) db then (db, Inl (HTTPException 409 (''Tenant slug '' @ quoted (tc_slug data) @ '' already exists'')))
      else
        let t = \<lparr> tn_id = row_id, tn_name = tc_name data, tn_slug = tc_slug data, tn_status = tc_status data \<rparr>
        in case insert_row tn_id t (id_tenants (tdb_identity db)) of
             Inl e \<Rightarrow> (db, Inl e)
           | Inr rows \<Rightarrow> (put_tenants rows (tenant_audit actor ''TENANT_CREATED'' t) db, Inr t))"

definition update_tenant :: "string \<Rightarrow> tenant_update \<Rightarrow> string \<Rightarrow> tenant_db \<Rightarrow> tenant_db \<times> tenant_row result" where
  "update_tenant i data actor db =
     (case find_tenant i db of
        Inl e \<Rightarrow> (db, Inl e)
      | Inr t \<Rightarrow>
          let t' = t\<lparr>tn_name := or_keep (tu_name data) (tn_name t), tn_status := or_keep (tu_status data) (tn_status t)\<rparr>
          in (put_tenants (put_row tn_id t' (id_tenants (tdb_identity db))) (tenant_audit actor ''TENANT_UPDATED'' t') db, Inr t'))"

definition get_tenant_for :: "string \<Rightarrow> user_row \<Rightarrow> tenant_db \<Rightarrow> tenant_row result" where
  "get_tenant_for i u db =
     rbind (find_tenant i db) (\<lambda>t.
       if \<not> (is_super_admin u \<or> us_is_superuser u) \<and> us_tenant_id u \<noteq> Some (tn_id t) then Inl (HTTPException 403 ''Cross-tenant access forbidden'')
       else Inr t)"

text \<open>The endpoints of the tenants: the user is looked up in the table that they change.\<close>

definition super_roles :: "string list" where
  "super_roles = [''SUPER_ADMIN'', ''ADMINISTRATOR'']"

definition tenants_endpoint :: "(string \<Rightarrow> pydict option) \<Rightarrow> string \<Rightarrow> (user_row \<Rightarrow> user_row result) \<Rightarrow> (user_row \<Rightarrow> tenant_db \<Rightarrow> tenant_db \<times> 'a result) \<Rightarrow>
    tenant_db \<Rightarrow> tenant_db \<times> 'a result" where
  "tenants_endpoint decode token check body =
     request (\<lambda>db. case rbind (dep_current_user decode (tdb_identity db) token) check of Inl e \<Rightarrow> (db, Inl e) | Inr u \<Rightarrow> body u db)"

definition create_tenant_api where
  "create_tenant_api decode token row_id data = tenants_endpoint decode token (require_roles super_roles) (\<lambda>u. create_tenant row_id data (us_username u))"

definition update_tenant_api where
  "update_tenant_api decode token i data = tenants_endpoint decode token (require_roles super_roles) (\<lambda>u. update_tenant i data (us_username u))"

definition get_tenant_api where
  "get_tenant_api decode token i = tenants_endpoint decode token Inr (\<lambda>u db. (db, get_tenant_for i u db))"

definition list_tenants_api where
  "list_tenants_api decode token status page page_size =
     tenants_endpoint decode token (require_roles super_roles) (\<lambda>_ db.
       (db, Inr (PaginatedResponse page page_size (list_tenants status ((page - 1) * page_size) page_size db))))"

subsection \<open>Replays\<close>

datatype replay_status = RP_REQUESTED | RP_QUEUED | RP_PROCESSING | RP_SUCCESS | RP_FAILED

record replay_row =
  rp_id :: string
  rp_event_id :: string
  rp_source :: "string option"
  rp_reason :: "string option"
  rp_requested_by :: string
  rp_requested_at :: string
  rp_status :: replay_status

record replay_db = store +
  rpdb_replays :: "replay_row list"

text \<open>\<open>get_kafka_producer()\<close> raises, finds no broker, or returns a producer whose \<open>publish\<close> may raise.\<close>

datatype replay_kafka = ProducerRaises exn | NoProducer | Producer "string \<Rightarrow> pydict \<Rightarrow> unit result"

record replay_env =
  re_enable_replay :: bool
  re_topic :: string
  re_now :: string
  re_kafka :: replay_kafka

definition replay_message :: "replay_env \<Rightarrow> replay_row \<Rightarrow> pydict" where
  "replay_message env op =
     [(''replay_id'', PStr (rp_id op)), (''event_id'', PStr (rp_event_id op)), (''source'', opt_value (rp_source op)), (''reason'', opt_value (rp_reason op)),
      (''requested_by'', PStr (rp_requested_by op)), (''requested_at'', PStr (rp_requested_at op)), (''timestamp'', PStr (re_now env))]"

text \<open>The replay after the attempt, and the messages that the broker has taken.\<close>

definition publish_replay_request :: "replay_env \<Rightarrow> replay_row \<Rightarrow> replay_row \<times> (string \<times> pydict) list" where
  "publish_replay_request env op =
     (if \<not> re_enable_replay env then (op, [])
      else case re_kafka env of
             ProducerRaises _ \<Rightarrow> (op, [])
           | NoProducer \<Rightarrow> (op\<lparr>rp_status := RP_QUEUED\<rparr>, [])
           | Producer send \<Rightarrow>
               (case send (re_topic env) (replay_message env op) of
                  Inl _ \<Rightarrow> (op, [])
                | Inr _ \<Rightarrow> (op\<lparr>rp_status := RP_QUEUED\<rparr>, [(re_topic env, replay_message env op)])))"

definition request_replay :: "replay_env \<Rightarrow> string \<Rightarrow> string \<Rightarrow> string option \<Rightarrow> string option \<Rightarrow> actor \<Rightarrow> replay_db \<Rightarrow>
    replay_db \<times> (string \<times> pydict) list \<times> replay_row result" where
  "request_replay env row_id event_id source reason a db =
     (let op = \<lparr> rp_id = row_id, rp_event_id = event_id, rp_source = source, rp_reason = reason, rp_requested_by = ac_name a,
                 rp_requested_at = re_now env, rp_status = RP_REQUESTED \<rparr>
      in case insert_row rp_id op (rpdb_replays db) of
           Inl e \<Rightarrow> (db, [], Inl e)
         | Inr _ \<Rightarrow>
             (case publish_replay_request env op of
                (op', sent) \<Rightarrow>
                  (db\<lparr>rpdb_replays := rpdb_replays db @ [op'],
                      st_dist := audit_record
                        \<lparr> au_actor = ac_name a, au_actor_role = ac_role a, au_action = ''REPLAY_REQUESTED'', au_resource_type = ''replay'',
                          au_resource_id = Some event_id, au_tenant_id = None, au_version = None, au_before_state = None,
                          au_after_state = Some [(''replay_id'', PStr row_id), (''event_id'', PStr event_id), (''source'', opt_value source),
                            (''reason'', opt_value reason)], au_reason = None \<rparr> (st_dist db)\<rparr>, sent, Inr op')))"

definition search_replays :: "replay_status option \<Rightarrow> string option \<Rightarrow> nat \<Rightarrow> nat \<Rightarrow> replay_db \<Rightarrow> replay_row list \<times> nat" where
  "search_replays status requested_by skip limit db =
     page_of skip limit (rev (filter (\<lambda>r. (status = None \<or> status = Some (rp_status r)) \<and>
       (given requested_by \<longrightarrow> requested_by = Some (rp_requested_by r))) (rpdb_replays db)))"

definition replay_roles :: "string list" where
  "replay_roles = [''ADMINISTRATOR'', ''PARSER_DEVELOPER'', ''SECURITY_ANALYST'']"

definition list_replays_api :: "access \<Rightarrow> replay_status option \<Rightarrow> nat \<Rightarrow> nat \<Rightarrow> replay_db \<Rightarrow> replay_db \<times> (replay_row list \<times> nat \<times> nat) result" where
  "list_replays_api ax status page page_size =
     user_endpoint ax replay_roles (\<lambda>_ db.
       (db, Inr (PaginatedResponse page page_size (search_replays status None ((page - 1) * page_size) page_size db))))"

definition get_replay_api :: "access \<Rightarrow> string \<Rightarrow> replay_db \<Rightarrow> replay_db \<times> replay_row result" where
  "get_replay_api ax i =
     user_endpoint ax replay_roles (\<lambda>_ db.
       (db, case find (\<lambda>r. rp_id r = i) (rpdb_replays db) of
              Some r \<Rightarrow> Inr r
            | None \<Rightarrow> Inl (OtherError ''ReplayNotFound'' (''Replay operation '' @ quoted i @ '' not found''))))"

definition request_replay_api :: "access \<Rightarrow> replay_env \<Rightarrow> string \<Rightarrow> string \<Rightarrow> string option \<Rightarrow> string option \<Rightarrow> replay_db \<Rightarrow>
    replay_db \<times> (string \<times> pydict) list \<times> replay_row result" where
  "request_replay_api ax env row_id event_id source reason db =
     (case authorize_user ax replay_roles of
        Inl e \<Rightarrow> (db, [], Inl e)
      | Inr u \<Rightarrow> request_replay env row_id event_id source reason (user_actor u) db)"

subsection \<open>Invariant of the schemas\<close>

definition version_key :: "schema_version_row \<Rightarrow> string \<times> string" where
  "version_key v = (sv_schema_id v, sv_version v)"

definition schema_inv :: "schema_db \<Rightarrow> bool" where
  "schema_inv db \<longleftrightarrow> distinct (map sch_id (scdb_schemas db)) \<and> distinct (map sch_name (scdb_schemas db)) \<and> distinct (map version_key (scdb_versions db))"

lemma add_schema_version_row:
  assumes "add_schema_version row_id s data name db = (db', Inr v)"
  shows "sv_schema_id v = sch_id s" and "sv_version v = svc_version data" and "sv_json_schema v = svc_json_schema data"
    and "version_key v \<notin> version_key ` set (scdb_versions db)" and "db' = db\<lparr>scdb_versions := scdb_versions db @ [v]\<rparr>"
  using assms by (auto simp: add_schema_version_def Let_def version_key_def split: if_splits sum.splits)

lemma add_schema_version_inv: "add_schema_version row_id s data name db = (db', Inr v) \<Longrightarrow> schema_inv db \<Longrightarrow> schema_inv db'"
  using add_schema_version_row [of row_id s data name db db' v] by (auto simp: schema_inv_def)

lemma get_schema_row: "get_schema name db = Inr s \<Longrightarrow> s \<in> set (scdb_schemas db) \<and> sch_name s = name"
  by (auto simp: get_schema_def get_schema_by_name_def split: option.splits dest: one_or_none_Some)

lemma schema_add_version_rows:
  assumes "schema_add_version env row_id name data a db = (db', Inr v)"
  obtains s d where "get_schema name db = Inr s" "add_schema_version row_id s data (ac_name a) db = (db'\<lparr>st_dist := st_dist db\<rparr>, Inr v)"
    "db' = db\<lparr>scdb_versions := scdb_versions db @ [v], st_dist := d\<rparr>"
proof -
  obtain s where s: "get_schema name db = Inr s" using assms by (auto simp: schema_add_version_def split: sum.splits)
  obtain db1 w where w: "add_schema_version row_id s data (ac_name a) db = (db1, Inr w)"
    using assms s by (auto simp: schema_add_version_def split: sum.splits prod.splits)
  from assms s w obtain d where "db' = db1\<lparr>st_dist := d\<rparr>" "v = w" by (auto simp: schema_add_version_def Let_def dest!: publish_tables)
  then show thesis using that [OF s, of d] w add_schema_version_row(5) [OF w] by simp
qed

lemma schema_create_inv:
  assumes "schema_create_op env row_id version_row_id data a db = (db', Inr r)" and "schema_inv db"
  shows "schema_inv db'"
proof -
  let ?s = "\<lparr> sch_id = row_id, sch_name = shc_name data, sch_description = shc_description data, sch_created_by = Some (ac_name a) \<rparr>"
  have n: "\<not> name_exists (shc_name data) db" using assms(1) by (auto simp: schema_create_op_def split: if_splits)
  obtain rows where rows: "insert_row sch_id ?s (scdb_schemas db) = Inr rows"
    using assms(1) n by (auto simp: schema_create_op_def Let_def split: sum.splits)
  have i1: "schema_inv (db\<lparr>scdb_schemas := rows\<rparr>)"
    using n rows assms(2) by (auto simp: schema_inv_def name_exists_def filter_empty_conv)
  obtain db1 where db1: "add_initial_version version_row_id ?s data (ac_name a) (db\<lparr>scdb_schemas := rows\<rparr>) = (db1, Inr ())"
    using assms(1) n rows by (auto simp: schema_create_op_def Let_def split: sum.splits prod.splits)
  have i2: "schema_inv db1"
    using db1 i1 by (auto simp: add_initial_version_def split: option.splits prod.splits intro: add_schema_version_inv)
  have "\<exists>d. db' = db1\<lparr>st_dist := d\<rparr>"
    using assms(1) n rows db1 by (auto simp: schema_create_op_def Let_def split: sum.splits prod.splits dest!: publish_tables)
  then show ?thesis using i2 by (auto simp: schema_inv_def)
qed

inductive schema_reach :: "schema_db \<Rightarrow> bool" where
  start: "schema_reach \<lparr> st_dist = d, scdb_schemas = [], scdb_versions = [] \<rparr>"
| create: "schema_reach db \<Longrightarrow> create_schema_api ax env row_id version_row_id data db = (db', r) \<Longrightarrow> schema_reach db'"
| add: "schema_reach db \<Longrightarrow> add_schema_version_api ax env row_id name vdata db = (db', r') \<Longrightarrow> schema_reach db'"

lemma schema_reach_inv: "schema_reach db \<Longrightarrow> schema_inv db"
proof (induction rule: schema_reach.induct)
  case (create db ax env row_id version_row_id data db' r)
  from create.hyps(2) show ?case unfolding create_schema_api_def
    by (cases rule: user_endpoint_cases) (use create.IH schema_create_inv in auto)
next
  case (add db ax env row_id name vdata db' r')
  from add.hyps(2) show ?case unfolding add_schema_version_api_def
  proof (cases rule: user_endpoint_cases)
    case (commit u v)
    from commit(3) obtain s d where "add_schema_version row_id s vdata (ac_name (user_actor u)) db = (db'\<lparr>st_dist := st_dist db\<rparr>, Inr v)"
      by (rule schema_add_version_rows) blast
    from add_schema_version_inv [OF this add.IH] show ?thesis by (simp add: schema_inv_def)
  qed (simp add: add.IH)
qed (simp add: schema_inv_def)

lemma get_version_row_unique:
  assumes "schema_inv db" and "s \<in> set (scdb_schemas db)" and "v \<in> set (scdb_versions db)" and "sv_schema_id v = sch_id s"
  shows "get_version_row (sch_name s) (sv_version v) db = Inr (Some v)"
proof -
  let ?P = "\<lambda>w. (\<exists>s' \<in> set (scdb_schemas db). sch_id s' = sv_schema_id w \<and> sch_name s' = sch_name s) \<and> sv_version w = sv_version v"
  have one: "sch_id s' = sch_id s" if "s' \<in> set (scdb_schemas db)" "sch_name s' = sch_name s" for s'
    using assms(1,2) that by (auto simp: schema_inv_def distinct_map inj_on_def)
  have d: "distinct (map version_key (scdb_versions db))" using assms(1) by (simp add: schema_inv_def)
  have key: "version_key x = version_key v" if "?P x" for x using that one assms(4) by (auto simp: version_key_def)
  have "\<exists>r. one_or_none (filter ?P (scdb_versions db)) = Inr r \<and> (case r of Some x \<Rightarrow> x \<in> set (scdb_versions db) \<and> ?P x | None \<Rightarrow> \<forall>x \<in> set (scdb_versions db). \<not> ?P x)"
    by (rule one_or_none_distinct [OF d]) (metis key)
  moreover have "?P v" using assms(2,4) by auto
  ultimately obtain x where x: "one_or_none (filter ?P (scdb_versions db)) = Inr (Some x)" "x \<in> set (scdb_versions db)" "?P x"
    using assms(3) by (auto split: option.splits)
  have "x = v" using d x(2) assms(3) key [OF x(3)] by (auto simp: distinct_map inj_on_def)
  then show ?thesis using x(1) by (simp add: get_version_row_def)
qed

lemma add_schema_version_taken:
  "v \<in> set (scdb_versions db) \<Longrightarrow> sv_schema_id v = sch_id s \<Longrightarrow> sv_version v = svc_version data \<Longrightarrow> \<exists>e. add_schema_version row_id s data name db = (db, Inl e)"
  by (auto simp: add_schema_version_def Let_def)

subsection \<open>Properties\<close>

text \<open>Schema versions round-trip and are immutable: in a reachable state, a version that was added is returned for its name and
  version with the schema that was sent, and adding the same version again is refused without a change.\<close>

theorem schema_version_roundtrip:
  assumes "schema_reach db" and "schema_add_version env row_id name data a db = (db', Inr v)"
  shows "schema_get_version name (svc_version data) db' = Inr v \<and> sv_json_schema v = svc_json_schema data \<and>
    (\<forall>env2 id2 data2 a2. svc_version data2 = svc_version data \<longrightarrow> (\<exists>e. schema_add_version env2 id2 name data2 a2 db' = (db', Inl e)))"
proof -
  obtain s d where s: "get_schema name db = Inr s" "add_schema_version row_id s data (ac_name a) db = (db'\<lparr>st_dist := st_dist db\<rparr>, Inr v)"
    and db': "db' = db\<lparr>scdb_versions := scdb_versions db @ [v], st_dist := d\<rparr>" using schema_add_version_rows [OF assms(2)] by blast
  note v = add_schema_version_row [OF s(2)]
  have i: "schema_inv db'" using add_schema_version_inv [OF s(2) schema_reach_inv [OF assms(1)]] by (simp add: schema_inv_def)
  have m: "s \<in> set (scdb_schemas db')" "sch_name s = name" "v \<in> set (scdb_versions db')" using get_schema_row [OF s(1)] db' by simp_all
  have "schema_get_version name (svc_version data) db' = Inr v"
    using get_version_row_unique [OF i m(1,3) v(1)] m(2) v(2) by (simp add: schema_get_version_def)
  moreover have g: "get_schema name db' = Inr s" using s(1) db' by (simp add: get_schema_def get_schema_by_name_def)
  have "\<exists>e. schema_add_version env2 id2 name data2 a2 db' = (db', Inl e)" if "svc_version data2 = svc_version data" for env2 id2 data2 a2
    using add_schema_version_taken [OF m(3) v(1), of data2 id2 "ac_name a2"] v(2) that g by (auto simp: schema_add_version_def)
  ultimately show ?thesis using v(3) by blast
qed

text \<open>Suspending a tenant locks its users out with the next request: once the update is stored no token of a user of that tenant
  passes the authentication, whatever the roles of the user.\<close>

theorem suspension_locks_out:
  assumes "update_tenant i data actor db = (db', Inr t)" and "tu_status data = Some st" and "st \<noteq> TS_ACTIVE" and "tn_id t \<noteq> []"
  shows "\<forall>decode token u. dep_current_user decode (tdb_identity db') token = Inr u \<longrightarrow> us_tenant_id u \<noteq> Some (tn_id t)"
proof -
  obtain t0 where t0: "find_tenant i db = Inr t0" using assms(1) by (auto simp: update_tenant_def split: sum.splits)
  then have m: "t0 \<in> set (id_tenants (tdb_identity db))" by (auto simp: find_tenant_def get_tenant_def get_by_slug_def find_Some_iff split: option.splits)
  have t: "t = t0\<lparr>tn_name := or_keep (tu_name data) (tn_name t0), tn_status := st\<rparr>"
    "id_tenants (tdb_identity db') = put_row tn_id t (id_tenants (tdb_identity db))"
    using assms(1,2) t0 by (auto simp: update_tenant_def Let_def put_tenants_def or_keep_def)
  have "get_tenant (tn_id t) (tdb_identity db') = Some x \<Longrightarrow> x \<in> set (id_tenants (tdb_identity db')) \<and> tn_id x = tn_id t" for x
    by (auto simp: get_tenant_def find_Some_iff)
  moreover have "x = t" if "x \<in> set (id_tenants (tdb_identity db'))" "tn_id x = tn_id t" for x using that t by (auto simp: put_row_def)
  ultimately have "\<not> tenant_usable (tn_id t) (tdb_identity db')"
    using assms(3) t(1) by (fastforce simp: tenant_usable_def split: option.splits)
  then show ?thesis
    using assms(4) by (auto simp: dep_current_user_def Let_def given_def split: option.splits pyval.splits list.splits if_splits)
qed

text \<open>The status of a replay request does not say whether the request reached Kafka: it is queued when the broker took it, and
  also when there is no producer and nothing was sent; it stays requested when replay is off or the
  publication failed. In every case the request and its audit entry are stored.\<close>

theorem replay_status_meaning:
  assumes "row_id \<notin> rp_id ` set (rpdb_replays db)"
  shows "\<exists>db' sent op. request_replay env row_id event_id source reason a db = (db', sent, Inr op) \<and> rpdb_replays db' = rpdb_replays db @ [op] \<and>
    length (dd_audit (st_dist db')) = Suc (length (dd_audit (st_dist db))) \<and>
    (rp_status op = RP_QUEUED \<longleftrightarrow> sent \<noteq> [] \<or> re_enable_replay env \<and> re_kafka env = NoProducer) \<and>
    (rp_status op \<noteq> RP_QUEUED \<longrightarrow> rp_status op = RP_REQUESTED \<and> sent = [])"
  using assms
  by (auto simp: request_replay_def Let_def insert_row_def publish_replay_request_def audit_record_def split: replay_kafka.splits sum.splits)

text \<open>The replay endpoints know no tenant: two users with a suitable role read the same list and the same operations, of
  whatever tenants they are.\<close>

theorem replays_not_scoped:
  assumes "authorize_user ax replay_roles = Inr u" and "authorize_user ax' replay_roles = Inr u'"
  shows "list_replays_api ax status page page_size db = list_replays_api ax' status page page_size db \<and> get_replay_api ax i db = get_replay_api ax' i db"
  using assms by (simp add: list_replays_api_def get_replay_api_def user_endpoint_def)

subsection \<open>An example\<close>

text \<open>A parser developer of a tenant.\<close>

definition demo_dev :: "string \<Rightarrow> user_row" where
  "demo_dev t = \<lparr> us_id = ''u1'', us_username = ''dev'', us_is_active = True, us_is_superuser = False, us_tenant_id = Some t,
     us_role_names = [''PARSER_DEVELOPER''] \<rparr>"

definition demo_dev_access :: "string \<Rightarrow> access" where
  "demo_dev_access t = \<lparr> ax_decode = (\<lambda>_. Some [(''sub'', PStr ''u1'')]),
     ax_identity = \<lparr> id_users = [demo_dev t], id_tenants = [\<lparr> tn_id = t, tn_name = t, tn_slug = t, tn_status = TS_ACTIVE \<rparr>] \<rparr>,
     ax_token = ''jwt'', ax_tenant_id = None \<rparr>"

lemma demo_dev_authorized: "''PARSER_DEVELOPER'' \<in> set roles \<Longrightarrow> authorize_user (demo_dev_access t) roles = Inr (demo_dev t)"
  by (auto simp: authorize_user_def demo_dev_access_def demo_dev_def dep_current_user_def get_user_def get_tenant_def tenant_usable_def
      is_super_admin_def require_roles_def normalize_roles_def given_def pget_default_def)

definition demo_schemas :: schema_db where
  "demo_schemas = \<lparr> st_dist = \<lparr> dd_versions = [], dd_targets = [], dd_audit = [] \<rparr>, scdb_schemas = [], scdb_versions = [] \<rparr>"

definition demo_schema :: schema_create where
  "demo_schema = \<lparr> shc_name = ''ulpf'', shc_description = None, shc_initial_version = None \<rparr>"

definition demo_version :: schema_version_create where
  "demo_version = \<lparr> svc_version = ''1.0.0'', svc_json_schema = [], svc_changelog = None \<rparr>"

lemma demo_schema_created:
  "\<exists>db s. schema_reach db \<and> scdb_schemas db = [s] \<and> sch_name s = ''ulpf'' \<and> scdb_versions db = []"
proof -
  let ?a = "user_actor (demo_dev ''a'')"
  let ?s = "\<lparr> sch_id = ''s1'', sch_name = shc_name demo_schema, sch_description = shc_description demo_schema, sch_created_by = Some (ac_name ?a) \<rparr>"
  let ?snap = "[(''name'', PStr (sch_name ?s)), (''description'', opt_value (sch_description ?s))]"
  obtain d where "publish demo_env (schema_audit ?a ''SCHEMA_CREATED'' (sch_name ?s) ''1.0.0'' ?snap) (schema_change ?a ''CREATE'' (sch_name ?s) ''1.0.0'' ?snap) ()
      (demo_schemas\<lparr>scdb_schemas := [?s]\<rparr>) = (demo_schemas\<lparr>scdb_schemas := [?s]\<rparr>\<lparr>st_dist := d\<rparr>, Inr ())"
    using publish_ok [OF demo_env_check, of "schema_audit ?a ''SCHEMA_CREATED'' (sch_name ?s) ''1.0.0'' ?snap"
        "schema_change ?a ''CREATE'' (sch_name ?s) ''1.0.0'' ?snap" "()" "demo_schemas\<lparr>scdb_schemas := [?s]\<rparr>"] by (elim exE)
  then have "schema_create_op demo_env ''s1'' ''v1'' demo_schema ?a demo_schemas = (demo_schemas\<lparr>scdb_schemas := [?s], st_dist := d\<rparr>, Inr (Some ?s))"
    by (simp add: schema_create_op_def name_exists_def insert_row_def add_initial_version_def get_schema_by_name_def demo_schemas_def demo_schema_def Let_def)
  then have "create_schema_api (demo_dev_access ''a'') demo_env ''s1'' ''v1'' demo_schema demo_schemas = (demo_schemas\<lparr>scdb_schemas := [?s], st_dist := d\<rparr>, Inr (Some ?s))"
    by (simp add: create_schema_api_def user_endpoint_Inr demo_dev_authorized schema_writers_def)
  from schema_reach.create [OF _ this] have "schema_reach (demo_schemas\<lparr>scdb_schemas := [?s], st_dist := d\<rparr>)"
    by (simp add: schema_reach.start demo_schemas_def)
  then show ?thesis by (intro exI [of _ "demo_schemas\<lparr>scdb_schemas := [?s], st_dist := d\<rparr>"] exI [of _ ?s]) (simp add: demo_schemas_def demo_schema_def)
qed

theorem schema_version_roundtrip_witness:
  "\<exists>db db' v. schema_add_version demo_env ''v1'' ''ulpf'' demo_version (user_actor (demo_dev ''a'')) db = (db', Inr v) \<and>
    schema_get_version ''ulpf'' ''1.0.0'' db' = Inr v"
proof -
  obtain db s where r: "schema_reach db" and s: "scdb_schemas db = [s]" "sch_name s = ''ulpf''" "scdb_versions db = []" using demo_schema_created by blast
  let ?a = "user_actor (demo_dev ''a'')"
  have g: "get_schema ''ulpf'' db = Inr s" using s by (simp add: get_schema_def get_schema_by_name_def)
  obtain db1 v where w: "add_schema_version ''v1'' s demo_version (ac_name ?a) db = (db1, Inr v)"
    using s(3) by (simp add: add_schema_version_def Let_def insert_row_def)
  obtain db' where "schema_add_version demo_env ''v1'' ''ulpf'' demo_version ?a db = (db', Inr v)"
    unfolding schema_add_version_def g sum.case w prod.case Let_def using publish_ok [OF demo_env_check] by metis
  from schema_version_roundtrip [OF r this] this show ?thesis by (auto simp: demo_version_def)
qed

definition demo_tenants :: tenant_db where
  "demo_tenants = \<lparr> st_dist = \<lparr> dd_versions = [], dd_targets = [], dd_audit = [] \<rparr>, tdb_identity = ax_identity (demo_dev_access ''a'') \<rparr>"

theorem suspension_locks_out_witness:
  "\<exists>db' t. update_tenant ''a'' \<lparr> tu_name = None, tu_status = Some TS_SUSPENDED \<rparr> ''root'' demo_tenants = (db', Inr t) \<and>
    dep_current_user (\<lambda>_. Some [(''sub'', PStr ''u1'')]) (tdb_identity db') ''jwt'' \<noteq> Inr (demo_dev ''a'')"
proof -
  let ?u = "\<lparr> tu_name = None, tu_status = Some TS_SUSPENDED \<rparr>"
  obtain db' t where t: "update_tenant ''a'' ?u ''root'' demo_tenants = (db', Inr t)" "tn_id t = ''a''"
    by (simp add: update_tenant_def find_tenant_def get_tenant_def demo_tenants_def demo_dev_access_def Let_def)
  have "tu_status ?u = Some TS_SUSPENDED" "TS_SUSPENDED \<noteq> TS_ACTIVE" "tn_id t \<noteq> []" using t(2) by simp_all
  from suspension_locks_out [OF t(1) this] t have "us_tenant_id u \<noteq> Some ''a''" if "dep_current_user decode (tdb_identity db') token = Inr u" for decode token u
    using that by metis
  moreover have "us_tenant_id (demo_dev ''a'') = Some ''a''" by (simp add: demo_dev_def)
  ultimately show ?thesis using t(1) by blast
qed

definition demo_replay_env :: replay_env where
  "demo_replay_env = \<lparr> re_enable_replay = True, re_topic = ''replay'', re_now = ''t'', re_kafka = NoProducer \<rparr>"

definition demo_replays :: replay_db where
  "demo_replays = \<lparr> st_dist = \<lparr> dd_versions = [], dd_targets = [], dd_audit = [] \<rparr>, rpdb_replays = [] \<rparr>"

theorem replay_status_meaning_witness:
  "\<exists>db' sent op. request_replay demo_replay_env ''r1'' ''e1'' None None (user_actor (demo_dev ''a'')) demo_replays = (db', sent, Inr op) \<and>
    rp_status op = RP_QUEUED"
proof -
  have "''r1'' \<notin> rp_id ` set (rpdb_replays demo_replays)" by (simp add: demo_replays_def)
  from replay_status_meaning [OF this, of demo_replay_env "''e1''" None None "user_actor (demo_dev ''a'')"]
  show ?thesis by (auto simp: demo_replay_env_def)
qed

theorem replays_not_scoped_witness:
  "list_replays_api (demo_dev_access ''a'') None 1 20 demo_replays = list_replays_api (demo_dev_access ''b'') None 1 20 demo_replays"
proof -
  have "authorize_user (demo_dev_access t) replay_roles = Inr (demo_dev t)" for t by (rule demo_dev_authorized) (simp add: replay_roles_def)
  from replays_not_scoped [OF this [of "''a''"] this [of "''b''"]] show ?thesis by blast
qed

end
