(* ===== verification/Py_Re.thy ===== *)
theory Py_Re
  imports Py_Str
begin

section \<open>Regular expressions\<close>

text \<open>
  The part of Python's module \<open>re\<close> that M2 uses for its own patterns: a pattern is a tree, and \<open>matches\<close> lists
  the ways in which it matches at a place of the text in the order in which the backtracking matcher finds them, so
  that the first entry is the match that Python returns. A place is what lies before it (reversed), what lies after
  it, and the groups captured so far. Every repetition of these patterns repeats a single character class. \<open>scan\<close> is
  \<open>search\<close>, \<open>finditer\<close> and \<open>re_sub\<close> repeat it; they are for patterns that do not match the empty string.
  The lemmas say that a match consumes a part of the text and that \<open>scan\<close> finds the leftmost one.
\<close>

subsection \<open>Patterns\<close>

datatype re =
    RSet "char \<Rightarrow> bool"
  | REps
  | RSeq re re
  | RAlt re re
  | RRep bool nat "nat option" "char \<Rightarrow> bool"
  | RGroup string re
  | RRef string
  | RAhead re
  | RNotAfter "char \<Rightarrow> bool"
  | RStart
  | REnd
  | RBoundary

type_synonym re_groups = "(string, string) dict"
type_synonym re_state = "string \<times> string \<times> re_groups"

text \<open>Classes: a character of a list, of a range, \<open>\s\<close>, \<open>\d\<close>, \<open>\w\<close>, \<open>.\<close> without and with \<open>DOTALL\<close>.\<close>

definition among :: "string \<Rightarrow> char \<Rightarrow> bool" where
  "among s c \<longleftrightarrow> c \<in> set s"

definition between :: "char \<Rightarrow> char \<Rightarrow> char \<Rightarrow> bool" where
  "between a b c \<longleftrightarrow> code a \<le> code c \<and> code c \<le> code b"

definition ascii_alnum :: "char \<Rightarrow> bool" where
  "ascii_alnum c \<longleftrightarrow> between CHR ''a'' CHR ''z'' c \<or> between CHR ''A'' CHR ''Z'' c \<or> is_digit c"

definition word_char :: "char \<Rightarrow> bool" where
  "word_char c \<longleftrightarrow> ascii_alnum c \<or> c = CHR ''_'' \<or>
     (let n = code c in n \<in> {170, 178, 179, 181, 185, 186, 188, 189, 190} \<or> (192 \<le> n \<and> n \<noteq> 215 \<and> n \<noteq> 247))"

definition not_newline :: "char \<Rightarrow> bool" where
  "not_newline c \<longleftrightarrow> code c \<noteq> 10"

definition any_char :: "char \<Rightarrow> bool" where
  "any_char c = True"

text \<open>Shorthands: a sequence, a literal, a choice, and \<open>?\<close>, \<open>*\<close>, \<open>+\<close> and \<open>{n}\<close> of a class.\<close>

definition re_seq :: "re list \<Rightarrow> re" where
  "re_seq rs = foldr RSeq rs REps"

definition re_lit :: "string \<Rightarrow> re" where
  "re_lit w = re_seq (map (\<lambda>c. RSet (\<lambda>d. d = c)) w)"

fun re_alts :: "re list \<Rightarrow> re" where
  "re_alts [] = REps"
| "re_alts [r] = r"
| "re_alts (r # rs) = RAlt r (re_alts rs)"

definition re_opt :: "re \<Rightarrow> re" where
  "re_opt r = RAlt r REps"

definition re_maybe :: "(char \<Rightarrow> bool) \<Rightarrow> re" where
  "re_maybe p = RRep True 0 (Some 1) p"

definition re_star :: "(char \<Rightarrow> bool) \<Rightarrow> re" where
  "re_star p = RRep True 0 None p"

definition re_lazy :: "(char \<Rightarrow> bool) \<Rightarrow> re" where
  "re_lazy p = RRep False 0 None p"

definition re_plus :: "(char \<Rightarrow> bool) \<Rightarrow> re" where
  "re_plus p = RRep True 1 None p"

definition re_times :: "nat \<Rightarrow> (char \<Rightarrow> bool) \<Rightarrow> re" where
  "re_times n p = RRep True n (Some n) p"

subsection \<open>Matching\<close>

definition rep_counts :: "bool \<Rightarrow> nat \<Rightarrow> nat option \<Rightarrow> (char \<Rightarrow> bool) \<Rightarrow> string \<Rightarrow> nat list" where
  "rep_counts greedy lo hi p s =
     (let k = length (takeWhile p s); m = (case hi of None \<Rightarrow> k | Some h \<Rightarrow> min h k); ns = [lo..<Suc m]
      in if greedy then rev ns else ns)"

definition at_word :: "string \<Rightarrow> bool" where
  "at_word s = (case s of [] \<Rightarrow> False | c # _ \<Rightarrow> word_char c)"

fun matches :: "re \<Rightarrow> re_state \<Rightarrow> re_state list" where
  "matches (RSet p) (l, s, g) = (case s of [] \<Rightarrow> [] | c # t \<Rightarrow> if p c then [(c # l, t, g)] else [])"
| "matches REps st = [st]"
| "matches (RSeq a b) st = concat (map (matches b) (matches a st))"
| "matches (RAlt a b) st = matches a st @ matches b st"
| "matches (RRep greedy lo hi p) (l, s, g) =
     map (\<lambda>n. (rev (take n s) @ l, drop n s, g)) (rep_counts greedy lo hi p s)"
| "matches (RGroup n r) (l, s, g) =
     map (\<lambda>(l', s', g'). (l', s', dict_set n (take (length s - length s') s) g')) (matches r (l, s, g))"
| "matches (RRef n) (l, s, g) =
     (case map_of g n of None \<Rightarrow> []
      | Some w \<Rightarrow> if starts_with s w then [(rev w @ l, drop (length w) s, g)] else [])"
| "matches (RAhead r) (l, s, g) = (case matches r (l, s, g) of [] \<Rightarrow> [] | (_, _, g') # _ \<Rightarrow> [(l, s, g')])"
| "matches (RNotAfter p) (l, s, g) = (if l \<noteq> [] \<and> p (hd l) then [] else [(l, s, g)])"
| "matches RStart (l, s, g) = (if l = [] then [(l, s, g)] else [])"
| "matches REnd (l, s, g) = (if s = [] \<or> s = [CHR 0x0A] then [(l, s, g)] else [])"
| "matches RBoundary (l, s, g) = (if at_word l \<noteq> at_word s then [(l, s, g)] else [])"

text \<open>\<open>r.match(s)\<close> with its groups, and \<open>r.search(s)\<close> from a place on: the text that is skipped and the place
  after the match.\<close>

definition re_match :: "re \<Rightarrow> string \<Rightarrow> re_groups option" where
  "re_match r s = (case matches r ([], s, []) of [] \<Rightarrow> None | (_, _, g) # _ \<Rightarrow> Some g)"

fun scan :: "re \<Rightarrow> string \<Rightarrow> string \<Rightarrow> (string \<times> re_state) option" where
  "scan r l [] = (case matches r (l, [], []) of [] \<Rightarrow> None | st # _ \<Rightarrow> Some ([], st))"
| "scan r l (c # s) =
     (case matches r (l, c # s, []) of
        [] \<Rightarrow> map_option (\<lambda>(pre, st). (c # pre, st)) (scan r (c # l) s)
      | st # _ \<Rightarrow> Some ([], st))"

definition re_search :: "re \<Rightarrow> string \<Rightarrow> bool" where
  "re_search r s \<longleftrightarrow> scan r [] s \<noteq> None"

lemma rep_counts_le: "n \<in> set (rep_counts greedy lo hi p s) \<Longrightarrow> n \<le> length (takeWhile p s) \<and> lo \<le> n"
  by (auto simp: rep_counts_def Let_def split: if_splits option.splits)

lemma matches_text:
  "(l', s', g') \<in> set (matches r (l, s, g)) \<Longrightarrow> \<exists>u. s = u @ s' \<and> l' = rev u @ l"
proof (induction r arbitrary: l s g l' s' g')
  case (RSet p)
  then show ?case by (auto split: list.splits if_splits)
next
  case (RSeq a b)
  then obtain m t h where ab: "(m, t, h) \<in> set (matches a (l, s, g))" "(l', s', g') \<in> set (matches b (m, t, h))"
    by auto
  from RSeq.IH(1) [OF ab(1)] RSeq.IH(2) [OF ab(2)] show ?case by auto
next
  case (RRep greedy lo hi p)
  then show ?case by (auto intro: exI [of _ "take _ s"])
next
  case (RGroup n r)
  then show ?case by auto
next
  case (RRef n)
  then show ?case
    by (auto simp: starts_with_def split: option.splits if_splits) (metis append_take_drop_id)
next
  case (RAhead r)
  then show ?case by (auto split: list.splits prod.splits)
qed (auto split: if_splits)

lemma scan_text:
  "scan r l s = Some (pre, l', s', g') \<Longrightarrow>
     \<exists>u. s = pre @ u @ s' \<and> l' = rev (pre @ u) @ l \<and> (l', s', g') = hd (matches r (rev pre @ l, u @ s', []))
       \<and> matches r (rev pre @ l, u @ s', []) \<noteq> []"
proof (induction s arbitrary: l pre)
  case Nil
  then show ?case using matches_text [of l' s' g' r l "[]" "[]"] by (auto split: list.splits)
next
  case (Cons c s)
  show ?case
  proof (cases "matches r (l, c # s, [])")
    case Nil
    with Cons.prems obtain q where q: "pre = c # q" "scan r (c # l) s = Some (q, l', s', g')" by auto
    from Cons.IH [OF q(2)] q(1) show ?thesis by auto
  next
    case (Cons st sts)
    with Cons.prems have "pre = []" "st = (l', s', g')" by auto
    with Cons matches_text [of l' s' g' r l "c # s" "[]"] show ?thesis by auto
  qed
qed

lemma scan_length: "scan r l s = Some (pre, l', s', g') \<Longrightarrow> length s' \<le> length s"
  using scan_text by fastforce

text \<open>\<open>r.finditer(s)\<close> as the groups of the matches, and \<open>re.sub(r, f, s)\<close>.\<close>

function finditer :: "re \<Rightarrow> string \<Rightarrow> string \<Rightarrow> re_groups list" where
  "finditer r l s =
     (case scan r l s of
        None \<Rightarrow> []
      | Some (pre, l', s', g) \<Rightarrow> if length s' < length s then g # finditer r l' s' else [])"
  by pat_completeness auto
termination by (relation "measure (\<lambda>(r, l, s). length s)") auto

function re_sub :: "re \<Rightarrow> (re_groups \<Rightarrow> string) \<Rightarrow> string \<Rightarrow> string \<Rightarrow> string" where
  "re_sub r f l s =
     (case scan r l s of
        None \<Rightarrow> s
      | Some (pre, l', s', g) \<Rightarrow> if length s' < length s then pre @ f g @ re_sub r f l' s' else s)"
  by pat_completeness auto
termination by (relation "measure (\<lambda>(r, f, l, s). length s)") auto

declare finditer.simps [simp del] re_sub.simps [simp del]

subsection \<open>The first match\<close>

text \<open>\<open>first r st st'\<close>: the matcher finds a match of \<open>r\<close> at \<open>st\<close>, and the first one ends at \<open>st'\<close>.\<close>

definition first :: "re \<Rightarrow> re_state \<Rightarrow> re_state \<Rightarrow> bool" where
  "first r st st' \<longleftrightarrow> (\<exists>sts. matches r st = st' # sts)"

named_theorems first_intros \<open>rules for the first match of a pattern\<close>

lemma first_match: "first r ([], s, []) (l, t, g) \<Longrightarrow> re_match r s = Some g"
  by (auto simp: first_def re_match_def)

lemma scan_first: "first r (l, s, []) st \<Longrightarrow> scan r l s = Some ([], st)"
  by (cases s) (auto simp: first_def)

lemma scan_skip: "matches r (l, c # s, []) = [] \<Longrightarrow> scan r l (c # s) = map_option (\<lambda>(pre, st). (c # pre, st)) (scan r (c # l) s)"
  by simp

lemma finditer_first:
  assumes "first r (l, u @ t, []) (rev u @ l, t, g)" "u \<noteq> []"
  shows "finditer r l (u @ t) = g # finditer r (rev u @ l) t"
  using assms by (subst finditer.simps) (simp add: scan_first)

lemma finditer_skip:
  assumes none: "matches r (l, c # s, []) = []" and some: "first r (c # l, u @ t, []) (rev u @ c # l, t, g)" "u \<noteq> []"
    and s: "s = u @ t"
  shows "finditer r l (c # s) = g # finditer r (rev u @ c # l) t"
  using none some unfolding s by (subst finditer.simps) (simp add: scan_first scan_skip)

lemma finditer_Nil: "matches r (l, [], []) = [] \<Longrightarrow> finditer r l [] = []"
  by (subst finditer.simps) simp

lemma matches_seq [simp]:
  "matches (re_seq []) st = [st]"
  "matches (re_seq (r # rs)) st = concat (map (matches (re_seq rs)) (matches r st))"
  by (simp_all add: re_seq_def)

lemma concat_seq_Nil [simp]: "concat (map (matches (re_seq [])) sts) = sts"
  by (induction sts) auto

lemma concat_map_concat: "concat (map f (concat (map h xs))) = concat (map (\<lambda>x. concat (map f (h x))) xs)"
  by (induction xs) auto

lemma first_seq_Nil [first_intros]: "first (re_seq []) st st"
  by (simp add: first_def)

lemma first_seq_Cons [first_intros]: "first r st st' \<Longrightarrow> first (re_seq rs) st' st'' \<Longrightarrow> first (re_seq (r # rs)) st st''"
  by (auto simp: first_def)

lemma concat_map_skip: "(\<And>x. x \<in> set xs \<Longrightarrow> f x = []) \<Longrightarrow> concat (map f (xs @ y # ys)) = f y @ concat (map f ys)"
  by (induction xs) auto

lemma first_one: "matches r st = [st'] \<Longrightarrow> first r st st'"
  by (simp add: first_def)

lemma matches_lit: "matches (re_lit w) (l, s, g) = (if starts_with s w then [(rev w @ l, drop (length w) s, g)] else [])"
proof (induction w arbitrary: l s)
  case (Cons c w)
  have "matches (re_lit (c # w)) (l, s, g)
      = (case s of [] \<Rightarrow> [] | d # t \<Rightarrow> if d = c then matches (re_lit w) (d # l, t, g) else [])"
    by (simp add: re_lit_def split: list.splits)
  then show ?case by (auto simp: Cons.IH starts_with_def split: list.splits)
qed (simp add: re_lit_def starts_with_def)

lemma first_lit [first_intros]: "first (re_lit w) (l, w @ s, g) (rev w @ l, s, g)"
  by (simp add: first_def matches_lit starts_with_append)

lemma first_alt_left: "first a st st' \<Longrightarrow> first (RAlt a b) st st'"
  by (auto simp: first_def)

lemma first_alt_right: "matches a st = [] \<Longrightarrow> first b st st' \<Longrightarrow> first (RAlt a b) st st'"
  by (auto simp: first_def)

lemma first_group: "first r (l, u @ s, g) (l', s, g') \<Longrightarrow> first (RGroup n r) (l, u @ s, g) (l', s, dict_set n u g')"
  by (auto simp: first_def)

text \<open>A greedy repetition takes the longest run.\<close>

lemma takeWhile_run: "list_all p u \<Longrightarrow> s = [] \<or> \<not> p (hd s) \<Longrightarrow> takeWhile p (u @ s) = u"
  by (cases s) (auto simp: list_all_iff takeWhile_append2 [of u p])

lemma matches_greedy:
  assumes "list_all p u" "s = [] \<or> \<not> p (hd s)"
  shows "matches (RRep True lo None p) (l, u @ s, g)
    = map (\<lambda>n. (rev (take n u) @ l, drop n u @ s, g)) (rev [lo..<Suc (length u)])"
  using takeWhile_run [OF assms] by (auto simp: rep_counts_def Let_def)

lemma first_greedy:
  assumes "list_all p u" "s = [] \<or> \<not> p (hd s)" "lo \<le> length u"
  shows "first (RRep True lo None p) (l, u @ s, g) (rev u @ l, s, g)"
  using assms(3) unfolding first_def matches_greedy [OF assms(1,2)] by simp

lemma first_plus [first_intros]:
  "list_all p u \<Longrightarrow> u \<noteq> [] \<Longrightarrow> s = [] \<or> \<not> p (hd s) \<Longrightarrow> first (re_plus p) (l, u @ s, g) (rev u @ l, s, g)"
  unfolding re_plus_def by (rule first_greedy) (auto simp: Suc_le_eq)

lemma first_star [first_intros]:
  "list_all p u \<Longrightarrow> s = [] \<or> \<not> p (hd s) \<Longrightarrow> first (re_star p) (l, u @ s, g) (rev u @ l, s, g)"
  unfolding re_star_def by (rule first_greedy) auto

text \<open>A lazy repetition stops at the first place where the rest of the pattern matches.\<close>

lemma matches_lazy_group:
  "matches (RGroup nm (re_lazy any_char)) (l, t, g)
     = map (\<lambda>n. (rev (take n t) @ l, drop n t, dict_set nm (take n t) g)) [0..<Suc (length t)]"
proof -
  have w: "takeWhile any_char t = t" by (simp add: any_char_def takeWhile_eq_all_conv)
  have "matches (re_lazy any_char) (l, t, g)
      = map (\<lambda>n. (rev (take n t) @ l, drop n t, g)) [0..<Suc (length t)]"
    unfolding re_lazy_def by (simp add: rep_counts_def w Let_def del: upt_Suc takeWhile_eq_all_conv)
  then show ?thesis by (auto simp del: upt_Suc)
qed

lemma first_lazy_group:
  assumes stop: "\<And>n. n < length u \<Longrightarrow>
      matches (re_seq rs) (rev (take n u) @ l, drop n u @ s, dict_set nm (take n u) g) = []"
    and rest: "first (re_seq rs) (rev u @ l, s, dict_set nm u g) st"
  shows "first (re_seq (RGroup nm (re_lazy any_char) # rs)) (l, u @ s, g) st"
proof -
  let ?f = "\<lambda>n. (rev (take n (u @ s)) @ l, drop n (u @ s), dict_set nm (take n (u @ s)) g)"
  have m: "matches (RGroup nm (re_lazy any_char)) (l, u @ s, g) = map ?f [0..<Suc (length (u @ s))]"
    by (rule matches_lazy_group)
  have split: "[0..<Suc (length (u @ s))] = [0..<length u] @ length u # [Suc (length u)..<Suc (length (u @ s))]"
    using upt_add_eq_append [of 0 "length u" "Suc (length s)"] by (simp add: upt_conv_Cons del: upt_Suc)
  have "matches (re_seq (RGroup nm (re_lazy any_char) # rs)) (l, u @ s, g)
      = concat (map (\<lambda>n. matches (re_seq rs) (?f n)) ([0..<length u] @ length u # [Suc (length u)..<Suc (length (u @ s))]))"
    by (simp only: matches_seq m split map_map o_def)
  also have "\<dots> = matches (re_seq rs) (?f (length u)) @
      concat (map (\<lambda>n. matches (re_seq rs) (?f n)) [Suc (length u)..<Suc (length (u @ s))])"
    by (rule concat_map_skip) (use stop in auto)
  finally show ?thesis using rest by (auto simp: first_def)
qed

text \<open>A pattern without groups keeps the groups.\<close>

fun group_free :: "re \<Rightarrow> bool" where
  "group_free (RSeq a b) = (group_free a \<and> group_free b)"
| "group_free (RAlt a b) = (group_free a \<and> group_free b)"
| "group_free (RGroup n r) = False"
| "group_free (RAhead r) = group_free r"
| "group_free _ = True"

lemma group_free_keeps: "group_free r \<Longrightarrow> (l', s', g') \<in> set (matches r (l, s, g)) \<Longrightarrow> g' = g"
proof (induction r arbitrary: l s g l' s' g')
  case (RSeq a b)
  then show ?case by fastforce
next
  case (RAlt a b)
  then show ?case by auto
next
  case (RAhead r)
  show ?case
  proof (cases "matches r (l, s, g)")
    case Nil
    with RAhead.prems show ?thesis by simp
  next
    case (Cons st sts)
    obtain m t h where "st = (m, t, h)" by (cases st)
    with Cons RAhead.prems RAhead.IH [of m t h l s g] show ?thesis by simp
  qed
qed (auto split: list.splits if_splits option.splits)

lemma first_ahead:
  assumes "group_free r" "matches r (l, s, g) \<noteq> []"
  shows "first (RAhead r) (l, s, g) (l, s, g)"
proof -
  obtain l' s' g' sts where m: "matches r (l, s, g) = (l', s', g') # sts"
    using assms(2) by (cases "matches r (l, s, g)") auto
  then have "g' = g" using group_free_keeps [OF assms(1), of l' s' g' l s g] by simp
  with m show ?thesis by (simp add: first_def)
qed

end
