(* ===== verification/M2_Engine.thy ===== *)
theory M2_Engine
  imports Py_Re Py_Value Py_Bytes
begin

section \<open>M2: the parsers\<close>

text \<open>
  The execution engine of M2 (\<open>src/M2/abcd-main/app/engine\<close>): the generic parsers for key-value text, JSON, CEF and
  LEEF and the configurable Grok and regular expression parsers. The patterns of the source are trees of \<open>Py_Re\<close>.
  Parameters: \<open>loads\<close> is \<open>orjson.loads\<close> (or \<open>json.loads\<close>), \<open>compile\<close> is \<open>re.compile\<close> on the patterns of a
  configuration; a compiled pattern searches a text and takes some time.
\<close>

subsection \<open>Key-value text\<close>

text \<open>A letter or digit, \<open>_\<close>, \<open>.\<close> or \<open>-\<close>.\<close>

definition key_char :: "char \<Rightarrow> bool" where
  "key_char c \<longleftrightarrow> ascii_alnum c \<or> among ''_.-'' c"

definition quote_char :: "char \<Rightarrow> bool" where
  "quote_char c = among [CHR 0x22, CHR 0x27] c"

definition is_backslash :: "char \<Rightarrow> bool" where
  "is_backslash c \<longleftrightarrow> c = CHR 0x5C"

definition kv_ahead :: re where
  "kv_ahead = re_alts
     [re_seq [re_plus is_space, re_plus (\<lambda>c. c = CHR ''$'' \<or> key_char c), re_lit ''=''],
      RSet (\<lambda>c. among '',;'' c \<or> is_space c),
      REnd]"

definition KV_REGEX :: re where
  "KV_REGEX = re_seq
     [RGroup ''key'' (re_plus key_char), re_lit ''='', RGroup ''quote'' (re_maybe quote_char),
      RGroup ''val'' (re_lazy any_char), RNotAfter is_backslash, RRef ''quote'', RAhead kv_ahead]"

text \<open>\<open>match.group(name)\<close> of a group that takes part in every match.\<close>

definition grp :: "re_groups \<Rightarrow> string \<Rightarrow> string" where
  "grp g n = (case map_of g n of None \<Rightarrow> [] | Some w \<Rightarrow> w)"

text \<open>\<open>int(val)\<close>, which since Python 3.11 refuses more than 4300 digits.\<close>

definition str_to_int :: "string \<Rightarrow> pyval result" where
  "str_to_int val =
     (if 4300 < length val then Inl (ValueError ''Exceeds the limit (4300 digits) for integer string conversion'')
      else rbind (py_int (PStr val)) (\<lambda>i. Inr (PInt i)))"

definition unquote :: "string \<Rightarrow> string" where
  "unquote val =
     (if starts_with val [CHR 0x22] \<and> ends_with val [CHR 0x22] then butlast (tl val)
      else if starts_with val [CHR 0x27] \<and> ends_with val [CHR 0x27] then butlast (tl val)
      else val)"

definition unescape :: "string \<Rightarrow> string" where
  "unescape val =
     str_replace [CHR 0x5C, CHR 0x27] [CHR 0x27] (str_replace [CHR 0x5C, CHR 0x22] [CHR 0x22] val)"

definition kv_value :: "string \<Rightarrow> pyval result" where
  "kv_value raw =
     (let val = unescape (unquote raw) in
      if isdigit val then str_to_int val
      else if lower val = ''true'' then Inr (PBool True)
      else if lower val = ''false'' then Inr (PBool False)
      else Inr (PStr val))"

fun kv_fields :: "re_groups list \<Rightarrow> pydict \<Rightarrow> pydict result" where
  "kv_fields [] fields = Inr fields"
| "kv_fields (g # gs) fields =
     rbind (kv_value (grp g ''val'')) (\<lambda>v. kv_fields gs (dict_set (grp g ''key'') v fields))"

definition parse_kv_string :: "string \<Rightarrow> pydict result" where
  "parse_kv_string text = kv_fields (finditer KV_REGEX [] text) []"

subsection \<open>JSON\<close>

text \<open>\<open>new_key\<close> of a nested key, and the pairs of a dictionary with nested dictionaries replaced by theirs.\<close>

definition nested_key :: "string \<Rightarrow> string \<Rightarrow> string" where
  "nested_key parent_key k = (if parent_key = [] then k else parent_key @ ''.'' @ k)"

function flatten_items :: "string \<Rightarrow> pydict \<Rightarrow> pydict" where
  "flatten_items parent_key [] = []"
| "flatten_items parent_key ((k, v) # d) =
     (case v of
        PDict e \<Rightarrow> dict_update [] (flatten_items (nested_key parent_key k) e)
      | _ \<Rightarrow> [(nested_key parent_key k, v)]) @ flatten_items parent_key d"
  by pat_completeness auto
termination
  by (relation "measure (\<lambda>(p, d). size_list (size_prod (\<lambda>_. 0) size) d)") auto

definition flatten_dict :: "pydict \<Rightarrow> string \<Rightarrow> pydict" where
  "flatten_dict d parent_key = dict_update [] (flatten_items parent_key d)"

type_synonym json_loads = "string \<Rightarrow> pyval result"

text \<open>The text from the first brace on, if there is one (\<open>payload.find\<close>).\<close>

definition from_brace :: "string \<Rightarrow> string option" where
  "from_brace payload =
     (case dropWhile (\<lambda>c. c \<noteq> CHR 0x7B) payload of [] \<Rightarrow> None | s \<Rightarrow> Some s)"

definition json_can_parse :: "json_loads \<Rightarrow> string \<Rightarrow> bool" where
  "json_can_parse loads raw =
     (let payload = strip raw in
      if payload = [] then False
      else case from_brace payload of
             None \<Rightarrow> False
           | Some candidate \<Rightarrow> (case loads candidate of Inl _ \<Rightarrow> False | Inr v \<Rightarrow> is_dict v))"

definition json_parse :: "json_loads \<Rightarrow> string \<Rightarrow> pydict result" where
  "json_parse loads raw =
     (case from_brace (strip raw) of
        None \<Rightarrow> Inr []
      | Some candidate \<Rightarrow> rbind (loads candidate) (\<lambda>data. case data of PDict d \<Rightarrow> Inr (flatten_dict d []) | _ \<Rightarrow> Inr []))"

subsection \<open>CEF\<close>

definition bar_field :: "string \<Rightarrow> re" where
  "bar_field n = re_seq [RGroup n (re_star (\<lambda>c. c \<noteq> CHR ''|'')), RSet (\<lambda>c. c = CHR ''|'')]"

definition header_prefix :: re where
  "header_prefix = re_seq [RStart, re_opt (re_seq [re_lazy any_char, RSet is_space])]"

definition CEF_PREFIX_REGEX :: re where
  "CEF_PREFIX_REGEX = re_seq
     [header_prefix, re_lit ''CEF:'', RGroup ''version'' (re_plus is_digit), re_lit ''|'',
      bar_field ''vendor'', bar_field ''product'', bar_field ''dev_version'', bar_field ''signature_id'',
      bar_field ''name'', bar_field ''severity'', re_opt (RGroup ''extension'' (re_star any_char)), REnd]"

definition cef_header :: "re_groups \<Rightarrow> pydict result" where
  "cef_header groups =
     rbind (str_to_int (grp groups ''version'')) (\<lambda>version. Inr
       [(''cef_version'', version), (''device_vendor'', PStr (grp groups ''vendor'')),
        (''device_product'', PStr (grp groups ''product'')), (''device_version'', PStr (grp groups ''dev_version'')),
        (''signature_id'', PStr (grp groups ''signature_id'')), (''name'', PStr (grp groups ''name'')),
        (''severity'', PStr (grp groups ''severity''))])"

definition parse_cef_string :: "string \<Rightarrow> pydict result" where
  "parse_cef_string payload =
     (case re_match CEF_PREFIX_REGEX (strip payload) of
        None \<Rightarrow> Inl (ValueError ''Invalid CEF payload header format'')
      | Some groups \<Rightarrow>
          rbind (cef_header groups) (\<lambda>fields.
            let ext_text = grp groups ''extension'' in
            if ext_text = [] then Inr fields
            else rbind (parse_kv_string ext_text) (\<lambda>ext_fields. Inr (dict_update fields ext_fields))))"

subsection \<open>LEEF\<close>

definition LEEF_PREFIX_REGEX :: re where
  "LEEF_PREFIX_REGEX = re_seq
     [header_prefix, re_lit ''LEEF:'', RGroup ''version'' (re_alts [re_lit ''1.0'', re_lit ''2.0'']), re_lit ''|'',
      bar_field ''vendor'', bar_field ''product'', bar_field ''dev_version'', bar_field ''event_id'',
      re_opt (RGroup ''remainder'' (re_star any_char)), REnd]"

text \<open>\<open>item.split("=", 1)\<close> for the items that contain the sign.\<close>

primrec leef_items :: "string list \<Rightarrow> pydict \<Rightarrow> pydict" where
  "leef_items [] ext = ext"
| "leef_items (item # items) ext =
     (case dropWhile (\<lambda>c. c \<noteq> CHR ''='') item of
        [] \<Rightarrow> leef_items items ext
      | _ # v \<Rightarrow> leef_items items
          (dict_set (strip (takeWhile (\<lambda>c. c \<noteq> CHR ''='') item)) (PStr (strip v)) ext))"

text \<open>The delimiter and the text of the extension.\<close>

definition leef_delimiter :: "string \<Rightarrow> string \<Rightarrow> char \<times> string" where
  "leef_delimiter version remainder =
     (if version = ''2.0'' \<and> 2 < length remainder \<and> remainder ! 1 = CHR ''|'' then (remainder ! 0, drop 2 remainder)
      else (if version = ''2.0'' then CHR 0x09 else CHR '' '', remainder))"

definition leef_header :: "re_groups \<Rightarrow> pydict" where
  "leef_header groups =
     [(''leef_version'', PStr (grp groups ''version'')), (''vendor'', PStr (grp groups ''vendor'')),
      (''product'', PStr (grp groups ''product'')), (''device_version'', PStr (grp groups ''dev_version'')),
      (''event_id'', PStr (grp groups ''event_id''))]"

definition leef_extension :: "string \<Rightarrow> string \<Rightarrow> pydict result" where
  "leef_extension version remainder =
     (case leef_delimiter version remainder of
        (delimiter, ext_text) \<Rightarrow>
          if delimiter = CHR 0x09 \<or> delimiter = CHR '' '' then parse_kv_string ext_text
          else Inr (leef_items (split_on delimiter ext_text) []))"

definition parse_leef_string :: "string \<Rightarrow> pydict result" where
  "parse_leef_string payload =
     (case re_match LEEF_PREFIX_REGEX (strip payload) of
        None \<Rightarrow> Inl (ValueError ''Invalid LEEF payload header format'')
      | Some groups \<Rightarrow>
          (let fields = leef_header groups; remainder = grp groups ''remainder'' in
           if remainder = [] then Inr fields
           else rbind (leef_extension (grp groups ''version'') remainder)
                  (\<lambda>ext_fields. Inr (dict_update fields ext_fields))))"

subsection \<open>The built-in parsers\<close>

datatype built_in = CEFParser | LEEFParser | GenericJSONParser | GenericKVParser

fun bp_parser_id :: "built_in \<Rightarrow> string" where
  "bp_parser_id CEFParser = ''parser-cef''"
| "bp_parser_id LEEFParser = ''parser-leef''"
| "bp_parser_id GenericJSONParser = ''parser-generic-json''"
| "bp_parser_id GenericKVParser = ''parser-generic-kv''"

fun bp_name :: "built_in \<Rightarrow> string" where
  "bp_name CEFParser = ''Common Event Format (CEF) Parser''"
| "bp_name LEEFParser = ''Log Event Extended Format (LEEF) Parser''"
| "bp_name GenericJSONParser = ''Generic JSON Parser''"
| "bp_name GenericKVParser = ''Generic Key-Value Parser''"

fun bp_format :: "built_in \<Rightarrow> string" where
  "bp_format CEFParser = ''cef''"
| "bp_format LEEFParser = ''leef''"
| "bp_format GenericJSONParser = ''json''"
| "bp_format GenericKVParser = ''kv''"

fun bp_priority :: "built_in \<Rightarrow> int" where
  "bp_priority CEFParser = 50"
| "bp_priority LEEFParser = 50"
| "bp_priority GenericJSONParser = 1000"
| "bp_priority GenericKVParser = 20"

definition kv_can_parse :: "string \<Rightarrow> bool result" where
  "kv_can_parse payload =
     (if CHR ''='' \<in> set payload then rbind (parse_kv_string payload) (\<lambda>fields. Inr (2 \<le> length fields))
      else Inr False)"

fun built_in_can_parse :: "json_loads \<Rightarrow> built_in \<Rightarrow> string \<Rightarrow> bool result" where
  "built_in_can_parse loads CEFParser payload = Inr (contains ''CEF:'' payload)"
| "built_in_can_parse loads LEEFParser payload = Inr (contains ''LEEF:'' payload)"
| "built_in_can_parse loads GenericJSONParser payload = Inr (json_can_parse loads payload)"
| "built_in_can_parse loads GenericKVParser payload = kv_can_parse payload"

fun built_in_parse :: "json_loads \<Rightarrow> built_in \<Rightarrow> string \<Rightarrow> pydict result" where
  "built_in_parse loads CEFParser payload = parse_cef_string payload"
| "built_in_parse loads LEEFParser payload = parse_leef_string payload"
| "built_in_parse loads GenericJSONParser payload = json_parse loads payload"
| "built_in_parse loads GenericKVParser payload = parse_kv_string payload"

end
