(* ===== verification/M2_Grok.thy ===== *)
theory M2_Grok
  imports M2_Engine
begin

section \<open>M2: configurable parsers\<close>

text \<open>
  The Grok and the regular expression parsers (\<open>app/engine/grok.py\<close>, \<open>app/engine/regex.py\<close>): the screening of
  patterns, the expansion of Grok references, and the execution of the compiled patterns within limits of size and
  time. \<open>compile\<close> stands for \<open>re.compile\<close> on patterns that come from a configuration; what it returns searches a
  text, giving the groups of the first match and the seconds this takes. The worker of the executor runs on until
  the search ends also after the limit of time was reported, since leaving the \<open>with\<close> block waits for it.
  In the strings below a backquote stands for a backslash.
\<close>

subsection \<open>Screening\<close>

definition DANGEROUS_REGEX_PATTERNS :: "re list" where
  "DANGEROUS_REGEX_PATTERNS =
     [re_seq [re_lit ''('', re_plus (\<lambda>c. c \<noteq> CHR '')''), RSet (among ''*+''), re_lit '')'', RSet (among ''*+'')],
      re_seq [re_lit ''('', re_plus (\<lambda>c. c \<noteq> CHR '')''), re_lit ''|'', re_plus (\<lambda>c. c \<noteq> CHR '')''), re_lit '')'',
        RSet (among ''*+'')]]"

definition is_safe_regex :: "string \<Rightarrow> bool" where
  "is_safe_regex pat = list_all (\<lambda>dangerous. \<not> re_search dangerous pat) DANGEROUS_REGEX_PATTERNS"

subsection \<open>Grok references\<close>

type_synonym macros = "(string, string) dict"

definition bq :: "string \<Rightarrow> string" where
  "bq s = map (\<lambda>c. if c = CHR 0x60 then CHR 0x5C else c) s"

definition IPV4_TAIL :: string where
  "IPV4_TAIL = bq ''((25[0-5]|2[0-4]`d|1`d`d|[1-9]?`d)(`.(25[0-5]|2[0-4]`d|1`d`d|[1-9]?`d)){3})''"

definition IPV6 :: string where
  "IPV6 =
     ''((([0-9A-Fa-f]{1,4}:){7}([0-9A-Fa-f]{1,4}|:))'' @
     ''|(([0-9A-Fa-f]{1,4}:){6}(:[0-9A-Fa-f]{1,4}|'' @ IPV4_TAIL @ ''|:))'' @
     ''|(([0-9A-Fa-f]{1,4}:){5}(((:[0-9A-Fa-f]{1,4}){1,2})|:'' @ IPV4_TAIL @ ''|:))'' @
     ''|(([0-9A-Fa-f]{1,4}:){4}(((:[0-9A-Fa-f]{1,4}){1,3})|((:[0-9A-Fa-f]{1,4})?:'' @ IPV4_TAIL @ '')|:))'' @
     ''|(([0-9A-Fa-f]{1,4}:){3}(((:[0-9A-Fa-f]{1,4}){1,4})|((:[0-9A-Fa-f]{1,4}){0,2}:'' @ IPV4_TAIL @ '')|:))'' @
     ''|(([0-9A-Fa-f]{1,4}:){2}(((:[0-9A-Fa-f]{1,4}){1,5})|((:[0-9A-Fa-f]{1,4}){0,3}:'' @ IPV4_TAIL @ '')|:))'' @
     ''|(([0-9A-Fa-f]{1,4}:){1}(((:[0-9A-Fa-f]{1,4}){1,6})|((:[0-9A-Fa-f]{1,4}){0,4}:'' @ IPV4_TAIL @ '')|:))'' @
     ''|(:(((:[0-9A-Fa-f]{1,4}){1,7})|((:[0-9A-Fa-f]{1,4}){0,5}:'' @ IPV4_TAIL @ '')|:)))''"

definition COMMON_PATTERNS :: macros where
  "COMMON_PATTERNS =
     [(''USERNAME'', ''[a-zA-Z0-9._-]+''),
      (''USER'', ''%{USERNAME}''),
      (''INT'', ''(?:[+-]?(?:[0-9]+))''),
      (''BASE10NUM'', bq ''(?<![0-9.+-])(?>[+-]?(?:(?:[0-9]+(?:`.[0-9]+)?)|(?:`.[0-9]+)))''),
      (''NUMBER'', ''(?:%{BASE10NUM})''),
      (''POSINT'', bq ''`b(?:[1-9][0-9]*)`b''),
      (''WORD'', bq ''`b`w+`b''),
      (''WORD_OR_EMPTY'', bq ''`w*''),
      (''NOTSPACE'', bq ''`S+''),
      (''SPACE'', bq ''`s*''),
      (''DATA'', ''.*?''),
      (''GREEDYDATA'', ''.*''),
      (''IPV4'', bq (''(?<![0-9])(?:(?:25[0-5]|2[0-4][0-9]|[01]?[0-9][0-9]?)`.){3}'' @
         ''(?:25[0-5]|2[0-4][0-9]|[01]?[0-9][0-9]?)(?![0-9])'')),
      (''IPV6'', IPV6),
      (''IP'', ''(?:%{IPV4}|%{IPV6})''),
      (''SYSLOGTIMESTAMP'', bq (''(?:Jan|Feb|Mar|Apr|May|Jun|Jul|Aug|Sep|Oct|Nov|Dec)`s+(?:(?:[0-9])|(?:[0-9][0-9]))`s+'' @
         ''(?:(?:[01][0-9]|2[0-3]):[0-5][0-9]:[0-5][0-9])'')),
      (''PROG'', bq ''[`w`._/%-]+''),
      (''SYSLOGBASE'', bq (''^(?:<(?P<syslog_pri>`d{1,3})>)?(?P<timestamp>%{SYSLOGTIMESTAMP})`s+'' @
         ''(?P<logsource>%{NOTSPACE})`s+(?P<program>%{PROG})(?:`[(?P<pid>%{POSINT})`])?:`s*'')),
      (''CISCO_ASA_HEADER'', bq ''%{SYSLOGBASE}%ASA-(?P<facility>`d+)-(?P<message_id>`d+):`s*'')]"

definition GROK_REF :: re where
  "GROK_REF = re_seq
     [re_lit ''%{'', RGroup ''1'' (re_plus (\<lambda>c. between CHR ''A'' CHR ''Z'' c \<or> is_digit c \<or> c = CHR ''_'')),
      re_opt (re_seq [re_lit '':'', RGroup ''2'' (re_plus (\<lambda>c. ascii_alnum c \<or> c = CHR ''_''))]), re_lit ''}'']"

definition replancer :: "macros \<Rightarrow> re_groups \<Rightarrow> string" where
  "replancer patterns g =
     (let sub_pat = (case map_of patterns (grp g ''1'') of None \<Rightarrow> bq ''`S+'' | Some p \<Rightarrow> p); field = grp g ''2'' in
      if field \<noteq> [] then ''(?P<'' @ field @ ''>'' @ sub_pat @ '')'' else ''(?:'' @ sub_pat @ '')'')"

fun expand :: "nat \<Rightarrow> macros \<Rightarrow> string \<Rightarrow> string" where
  "expand 0 patterns res = res"
| "expand (Suc n) patterns res =
     (let res_next = re_sub GROK_REF (replancer patterns) [] res in
      if res_next = res then res else expand n patterns res_next)"

definition grok_to_regex :: "string \<Rightarrow> macros \<Rightarrow> string" where
  "grok_to_regex grok_pattern custom_patterns = expand 5 (dict_update COMMON_PATTERNS custom_patterns) grok_pattern"

subsection \<open>Execution\<close>

type_synonym named_groups = "(string, string option) dict"
type_synonym compiled = "string \<Rightarrow> named_groups option \<times> rat"
type_synonym re_compile = "string \<Rightarrow> compiled result"

definition searches :: "compiled \<Rightarrow> string \<Rightarrow> bool" where
  "searches reg payload \<longleftrightarrow> fst (reg payload) \<noteq> None"

record grok_parser =
  gp_parser_id :: string
  gp_name :: string
  gp_version :: string
  gp_fields_map :: "(string, string) dict"
  gp_max_payload_bytes :: int
  gp_timeout_seconds :: rat
  gp_compiled_regexes :: "compiled list"

definition grok_compile :: "re_compile \<Rightarrow> macros \<Rightarrow> string \<Rightarrow> compiled result" where
  "grok_compile compile combined_patterns pat =
     (if \<not> is_safe_regex pat
      then Inl (ValueError (''Potentially unsafe ReDoS regex pattern detected in Grok definition: '' @ pat))
      else let regex_str = grok_to_regex pat combined_patterns in
           if \<not> is_safe_regex regex_str
           then Inl (ValueError (''Transpiled Grok regex is potentially vulnerable to ReDoS: '' @ regex_str))
           else compile regex_str)"

definition new_grok_parser ::
    "re_compile \<Rightarrow> string \<Rightarrow> string \<Rightarrow> string \<Rightarrow> string list \<Rightarrow> macros \<Rightarrow> (string, string) dict \<Rightarrow> int \<Rightarrow> rat \<Rightarrow> grok_parser result" where
  "new_grok_parser compile parser_id name version patterns custom_patterns fields_map max_payload_bytes timeout_seconds =
     rbind (seq_results (map (grok_compile compile (dict_update COMMON_PATTERNS custom_patterns)) patterns)) (\<lambda>regs. Inr
       \<lparr> gp_parser_id = parser_id, gp_name = name, gp_version = version, gp_fields_map = fields_map,
         gp_max_payload_bytes = max_payload_bytes, gp_timeout_seconds = timeout_seconds, gp_compiled_regexes = regs \<rparr>)"

definition payload_size :: "string \<Rightarrow> int" where
  "payload_size payload = int (length (encode_utf8 (map code payload)))"

definition grok_can_parse :: "grok_parser \<Rightarrow> string \<Rightarrow> bool" where
  "grok_can_parse p payload \<longleftrightarrow>
     payload \<noteq> [] \<and> payload_size payload \<le> gp_max_payload_bytes p \<and>
     list_ex (\<lambda>reg. searches reg payload) (gp_compiled_regexes p)"

fun extract_groups :: "(string, string) dict \<Rightarrow> named_groups \<Rightarrow> pydict \<Rightarrow> pydict result" where
  "extract_groups fields_map [] extracted = Inr extracted"
| "extract_groups fields_map ((k, None) # gs) extracted = extract_groups fields_map gs extracted"
| "extract_groups fields_map ((k, Some v) # gs) extracted =
     (let target_key = (case map_of fields_map k of None \<Rightarrow> k | Some t \<Rightarrow> t) in
      rbind (if isdigit v then str_to_int v else Inr (PStr v)) (\<lambda>x.
        extract_groups fields_map gs (dict_set target_key x extracted)))"

text \<open>The fields of the first pattern that matches, and the seconds of all searches.\<close>

fun execute_match :: "(string, string) dict \<Rightarrow> compiled list \<Rightarrow> string \<Rightarrow> pydict result \<times> rat" where
  "execute_match fields_map [] payload = (Inr [], 0)"
| "execute_match fields_map (reg # regs) payload =
     (case reg payload of
        (Some gs, secs) \<Rightarrow> (extract_groups fields_map gs [], secs)
      | (None, secs) \<Rightarrow> (case execute_match fields_map regs payload of (r, rest) \<Rightarrow> (r, secs + rest)))"

text \<open>The result and the seconds after which the caller has it.\<close>

definition bounded_match :: "string \<Rightarrow> rat \<Rightarrow> pydict result \<times> rat \<Rightarrow> pydict result \<times> rat" where
  "bounded_match message timeout_seconds job =
     (case job of (r, secs) \<Rightarrow> (if secs \<le> timeout_seconds then r else Inl (OtherError ''TimeoutError'' message), secs))"

definition grok_parse :: "grok_parser \<Rightarrow> string \<Rightarrow> pydict result \<times> rat" where
  "grok_parse p payload =
     (if payload_size payload > gp_max_payload_bytes p
      then (Inl (ValueError (''Payload size '' @ int_str (payload_size payload) @ '' bytes exceeds maximum allowed '' @
              int_str (gp_max_payload_bytes p) @ '' bytes'')), 0)
      else bounded_match ''GrokParser execution exceeded timeout limit'' (gp_timeout_seconds p)
             (execute_match (gp_fields_map p) (gp_compiled_regexes p) payload))"

subsection \<open>The regular expression parser\<close>

text \<open>\<open>SafeRegexParser\<close> compiles the patterns as they are, with \<open>DOTALL\<close>.\<close>

record regex_parser =
  rp_parser_id :: string
  rp_name :: string
  rp_version :: string
  rp_max_payload_bytes :: int
  rp_timeout_seconds :: rat
  rp_fields_map :: "(string, string) dict"
  rp_compiled_patterns :: "compiled list"

definition regex_compile :: "re_compile \<Rightarrow> string \<Rightarrow> compiled result" where
  "regex_compile compile_dotall pat =
     (if \<not> is_safe_regex pat then Inl (ValueError (''Potentially unsafe ReDoS regex pattern detected: '' @ pat))
      else compile_dotall pat)"

definition new_regex_parser ::
    "re_compile \<Rightarrow> string \<Rightarrow> string \<Rightarrow> string \<Rightarrow> string list \<Rightarrow> (string, string) dict \<Rightarrow> int \<Rightarrow> rat \<Rightarrow> regex_parser result" where
  "new_regex_parser compile_dotall parser_id name version patterns fields_map max_payload_bytes timeout_seconds =
     rbind (seq_results (map (regex_compile compile_dotall) patterns)) (\<lambda>regs. Inr
       \<lparr> rp_parser_id = parser_id, rp_name = name, rp_version = version, rp_max_payload_bytes = max_payload_bytes,
         rp_timeout_seconds = timeout_seconds, rp_fields_map = fields_map, rp_compiled_patterns = regs \<rparr>)"

definition regex_can_parse :: "regex_parser \<Rightarrow> string \<Rightarrow> bool" where
  "regex_can_parse p payload \<longleftrightarrow>
     payload_size payload \<le> rp_max_payload_bytes p \<and> list_ex (\<lambda>reg. searches reg payload) (rp_compiled_patterns p)"

definition regex_parse :: "regex_parser \<Rightarrow> string \<Rightarrow> pydict result \<times> rat" where
  "regex_parse p payload =
     (if payload_size payload > rp_max_payload_bytes p
      then (Inl (ValueError (''Payload size exceeds maximum allowed bytes ('' @ int_str (rp_max_payload_bytes p) @ '')'')), 0)
      else bounded_match ''Parser execution exceeded timeout limit'' (rp_timeout_seconds p)
             (execute_match (rp_fields_map p) (rp_compiled_patterns p) payload))"

subsection \<open>Properties\<close>

text \<open>Text without the sign of a reference is not changed by the expansion.\<close>

lemma scan_none:
  assumes "\<And>l s. s = [] \<or> hd s \<noteq> c \<Longrightarrow> matches r (l, s, []) = []" "c \<notin> set s"
  shows "scan r l s = None"
  using assms(2)
proof (induction s arbitrary: l)
  case (Cons d s)
  then have "matches r (l, d # s, []) = []" by (intro assms(1)) auto
  with Cons show ?case by simp
qed (simp add: assms(1))

lemma grok_plain: "CHR ''%'' \<notin> set pat \<Longrightarrow> grok_to_regex pat macros = pat"
proof -
  assume p: "CHR ''%'' \<notin> set pat"
  have "matches GROK_REF (l, s, []) = []" if "s = [] \<or> hd s \<noteq> CHR ''%''" for l s
    using that unfolding GROK_REF_def by (cases s) (auto simp: matches_lit starts_with_def)
  then have "scan GROK_REF [] pat = None" using p by (intro scan_none [where c = "CHR ''%''"])
  then have "re_sub GROK_REF f [] pat = pat" for f by (subst re_sub.simps) simp
  then show ?thesis by (simp add: grok_to_regex_def numeral_eq_Suc Let_def)
qed

text \<open>The limits of a configured parser: a payload over the limit is refused without a search; within it the fields
  are those of the first pattern that matches, unless the searches took longer than the limit of time. The limit
  decides about the result only: the caller waits for the end of the searches in both cases.\<close>

theorem grok_limits:
  "grok_parse p payload = (r, secs) \<Longrightarrow>
     (gp_max_payload_bytes p < payload_size payload \<longrightarrow> (\<exists>m. r = Inl (ValueError m)) \<and> secs = 0) \<and>
     (payload_size payload \<le> gp_max_payload_bytes p \<longrightarrow>
        secs = sum_list (map (\<lambda>reg. snd (reg payload)) (takeWhile (\<lambda>reg. \<not> searches reg payload) (gp_compiled_regexes p) @
                 take 1 (dropWhile (\<lambda>reg. \<not> searches reg payload) (gp_compiled_regexes p)))) \<and>
        (gp_timeout_seconds p < secs \<longrightarrow> r = Inl (OtherError ''TimeoutError'' ''GrokParser execution exceeded timeout limit'')) \<and>
        (secs \<le> gp_timeout_seconds p \<longrightarrow>
           r = (case find (\<lambda>reg. searches reg payload) (gp_compiled_regexes p) of
                  None \<Rightarrow> Inr [] | Some reg \<Rightarrow> extract_groups (gp_fields_map p) (the (fst (reg payload))) [])))"
proof -
  have run: "execute_match fm regs payload =
      ((case find (\<lambda>reg. searches reg payload) regs of None \<Rightarrow> Inr [] | Some reg \<Rightarrow> extract_groups fm (the (fst (reg payload))) []),
       sum_list (map (\<lambda>reg. snd (reg payload)) (takeWhile (\<lambda>reg. \<not> searches reg payload) regs @
                 take 1 (dropWhile (\<lambda>reg. \<not> searches reg payload) regs))))" for fm regs
    by (induction regs) (auto simp: searches_def split: prod.splits option.splits)
  assume "grok_parse p payload = (r, secs)"
  then show ?thesis by (auto simp: grok_parse_def bounded_match_def run split: if_splits)
qed

text \<open>The screening finds a repeated group that ends in a repetition, but not one inside another group, and not a
  counted repetition; a harmless choice is refused.\<close>

lemma redos_guard_gaps:
  "\<not> is_safe_regex ''(a+)+''" "is_safe_regex ''((a+))+''" "is_safe_regex ''(a+){30}''" "\<not> is_safe_regex ''(a|b)*''"
  by code_simp+

definition demo_grok :: grok_parser where
  "demo_grok = \<lparr> gp_parser_id = ''p'', gp_name = ''P'', gp_version = ''1'', gp_fields_map = [], gp_max_payload_bytes = 100,
     gp_timeout_seconds = 1 / 2, gp_compiled_regexes = [\<lambda>_. (None, 3600)] \<rparr>"

theorem grok_limits_witness:
  "grok_parse demo_grok ''x'' = (Inl (OtherError ''TimeoutError'' ''GrokParser execution exceeded timeout limit''), 3600)"
proof -
  obtain r secs where g: "grok_parse demo_grok ''x'' = (r, secs)" by force
  have s: "payload_size ''x'' = 1" by code_simp
  from grok_limits [OF g] s have "secs = 3600 \<and> r = Inl (OtherError ''TimeoutError'' ''GrokParser execution exceeded timeout limit'')"
    by (simp add: demo_grok_def searches_def)
  with g show ?thesis by simp
qed

end
