(* ===== verification/M2_Classifier.thy ===== *)
theory M2_Classifier
  imports M2_Engine
begin

section \<open>M2: classification\<close>

text \<open>
  The format and source detection of M2 (\<open>src/M2/abcd-main/app/classifier\<close>). The signatures are trees of \<open>Py_Re\<close>,
  the scores are doubles: \<open>fl\<close> rounds after every operation. \<open>csv_row\<close> is the reader of the module \<open>csv\<close> with its
  default dialect on one line. The parameter \<open>loads\<close> is \<open>json.loads\<close>.
\<close>

subsection \<open>Signatures\<close>

definition JSON_PREFIX :: re where
  "JSON_PREFIX = re_seq [RStart, re_star is_space, RSet (among [CHR 0x7B, CHR 0x5B])]"

definition pri_field :: re where
  "pri_field = re_seq [re_lit ''<'', RRep True 1 (Some 3) is_digit, re_lit ''>'']"

definition SYSLOG_PRI :: re where
  "SYSLOG_PRI = re_seq [RStart, re_star is_space, pri_field]"

definition sixty :: re where
  "sixty = re_seq [RSet (between CHR ''0'' CHR ''5''), RSet is_digit]"

definition SYSLOG_BSD :: re where
  "SYSLOG_BSD = re_seq
     [RStart, re_star is_space, re_opt pri_field,
      re_alts (map re_lit [''Jan'', ''Feb'', ''Mar'', ''Apr'', ''May'', ''Jun'', ''Jul'', ''Aug'', ''Sep'', ''Oct'', ''Nov'', ''Dec'']),
      re_plus is_space, re_alts [RSet is_digit, re_times 2 is_digit], re_plus is_space,
      re_alts [re_seq [RSet (among ''01''), RSet is_digit], re_seq [re_lit ''2'', RSet (between CHR ''0'' CHR ''3'')]],
      re_lit '':'', sixty, re_lit '':'', sixty]"

definition SYSLOG_ISO :: re where
  "SYSLOG_ISO = re_seq
     [RStart, re_star is_space, re_opt pri_field, re_times 4 is_digit, re_lit ''-'', re_times 2 is_digit, re_lit ''-'',
      re_times 2 is_digit, re_lit ''T'', re_times 2 is_digit, re_lit '':'', re_times 2 is_digit, re_lit '':'',
      re_times 2 is_digit]"

definition CEF_SIGNATURE :: re where
  "CEF_SIGNATURE = re_seq [re_alts [RStart, RSet is_space], re_lit ''CEF:'', re_plus is_digit, re_lit ''|'']"

definition LEEF_SIGNATURE :: re where
  "LEEF_SIGNATURE = re_seq [re_alts [RStart, RSet is_space], re_lit ''LEEF:'', re_alts [re_lit ''1.0'', re_lit ''2.0''], re_lit ''|'']"

definition tag_char :: "char \<Rightarrow> bool" where
  "tag_char c \<longleftrightarrow> ascii_alnum c \<or> among ''_-'' c"

definition XML_PREFIX :: re where
  "XML_PREFIX = re_alts
     [re_seq [RStart, re_star is_space, re_lit ''<?xml''],
      re_seq [RStart, re_star is_space, re_lit ''<'', re_plus tag_char,
        re_opt (re_seq [re_plus is_space, re_plus (\<lambda>c. c \<noteq> CHR ''>'')]), re_lit ''>'', re_star not_newline,
        re_lit ''</'', re_plus tag_char, re_lit ''>'']]"

definition KEY_VALUE_PATTERN :: re where
  "KEY_VALUE_PATTERN = re_seq
     [re_plus key_char, re_lit ''='',
      re_alts [re_seq [re_lit [CHR 0x22], re_star (\<lambda>c. c \<noteq> CHR 0x22), re_lit [CHR 0x22]],
        re_seq [re_lit [CHR 0x27], re_star (\<lambda>c. c \<noteq> CHR 0x27), re_lit [CHR 0x27]],
        re_plus (\<lambda>c. \<not> is_space c)]]"

record signature =
  sg_vendor :: string
  sg_product :: string
  sg_patterns :: "re list"
  sg_keywords :: "string list"

definition two_numbers :: "string \<Rightarrow> re" where
  "two_numbers w = re_seq [re_lit w, re_plus is_digit, re_lit ''-'', re_plus is_digit, re_lit '':'']"

definition hex_class :: "char \<Rightarrow> bool" where
  "hex_class c \<longleftrightarrow> is_digit c \<or> between CHR ''A'' CHR ''F'' c \<or> between CHR ''a'' CHR ''f'' c"

definition pan_pattern :: re where
  "pan_pattern = re_seq
     [re_lit '',1,'', re_times 4 is_digit, re_lit ''/'', re_times 2 is_digit, re_lit ''/'', re_times 2 is_digit, re_lit '' '',
      re_times 2 is_digit, re_lit '':'', re_times 2 is_digit, re_lit '':'', re_times 2 is_digit, re_lit '','', re_plus hex_class,
      re_lit '','', re_alts (map re_lit [''TRAFFIC'', ''THREAT'', ''SYSTEM'', ''CONFIG'']), re_lit '','']"

definition VENDOR_SIGNATURES :: "signature list" where
  "VENDOR_SIGNATURES =
     [\<lparr> sg_vendor = ''Cisco'', sg_product = ''ASA'',
        sg_patterns = [two_numbers ''%ASA-'', two_numbers ''%FTD-'', two_numbers ''%PIX-''],
        sg_keywords = [''Built inbound TCP connection'', ''Built outbound TCP connection'', ''Teardown TCP connection'',
          ''Deny ip src'', ''Deny tcp src'', ''cisco-asa''] \<rparr>,
      \<lparr> sg_vendor = ''Fortinet'', sg_product = ''FortiGate'',
        sg_patterns =
          [re_seq [re_lit ''devname='', re_maybe (among [CHR 0x22]), re_plus tag_char, re_lit [CHR 0x22]],
           re_seq [re_lit ''devid='', re_maybe (among [CHR 0x22]), re_lit ''FG'', re_plus ascii_alnum, re_lit [CHR 0x22]],
           re_lit ''ftg_''],
        sg_keywords = [''fortigate'', ''type=traffic'', ''type=utm'', ''type=event'', ''logid=''] \<rparr>,
      \<lparr> sg_vendor = ''Palo Alto'', sg_product = ''PAN-OS'',
        sg_patterns = [pan_pattern, re_lit ''PAN-OS''],
        sg_keywords = [''paloalto'', ''PAN-OS'', ''TRAFFIC'', ''THREAT'', ''pan_syslog''] \<rparr>,
      \<lparr> sg_vendor = ''Linux'', sg_product = ''Syslog'',
        sg_patterns =
          [re_seq [RBoundary, re_alts (map re_lit [''sshd'', ''sudo'', ''systemd'', ''cron'', ''kernel'', ''authpriv'', ''pam_unix'']),
             re_maybe (among ''[''), re_star is_digit, re_maybe (among '']''), re_lit '':'']],
        sg_keywords = [''Accepted password for'', ''Failed password for'', ''session opened for user'', ''COMMAND=/bin''] \<rparr>,
      \<lparr> sg_vendor = ''Windows'', sg_product = ''EventLog'',
        sg_patterns =
          [re_seq [RBoundary, re_lit ''EventID'', RSet (among ''=:''), re_star is_space, re_plus is_digit],
           re_lit ''<Event xmlns=''],
        sg_keywords = [''Microsoft-Windows-Security-Auditing'', ''EventID'', ''Security-Auditing''] \<rparr>,
      \<lparr> sg_vendor = ''AWS'', sg_product = ''CloudTrail'',
        sg_patterns =
          [re_seq [re_lit ([CHR 0x22] @ ''eventVersion'' @ [CHR 0x22] @ '':''), re_star is_space,
             re_lit ([CHR 0x22] @ ''1.''), re_plus is_digit, re_lit [CHR 0x22]],
           re_lit ([CHR 0x22] @ ''awsRegion'' @ [CHR 0x22] @ '':'')],
        sg_keywords = [''eventSource'', ''awsRegion'', ''userIdentity''] \<rparr>]"

subsection \<open>Format\<close>

datatype csv_state = StartField | InField | InQuoted | QuoteInQuoted | EatNewline

text \<open>The reader's state, the fields completed and the length of the current one; \<open>None\<close> is \<open>csv.Error\<close>.\<close>

type_synonym csv_reader = "csv_state \<times> nat \<times> nat"

definition csv_add :: "csv_state \<Rightarrow> nat \<Rightarrow> nat \<Rightarrow> csv_reader option" where
  "csv_add st n len = (if 131072 \<le> len then None else Some (st, n, Suc len))"

fun csv_char :: "char \<Rightarrow> csv_reader \<Rightarrow> csv_reader option" where
  "csv_char c (StartField, n, len) =
     (if c = CHR 0x0D \<or> c = CHR 0x0A then Some (EatNewline, Suc n, 0)
      else if c = CHR 0x22 then Some (InQuoted, n, len)
      else if c = CHR '','' then Some (StartField, Suc n, 0)
      else csv_add InField n len)"
| "csv_char c (InField, n, len) =
     (if c = CHR 0x0D \<or> c = CHR 0x0A then Some (EatNewline, Suc n, 0)
      else if c = CHR '','' then Some (StartField, Suc n, 0)
      else csv_add InField n len)"
| "csv_char c (InQuoted, n, len) = (if c = CHR 0x22 then Some (QuoteInQuoted, n, len) else csv_add InQuoted n len)"
| "csv_char c (QuoteInQuoted, n, len) =
     (if c = CHR 0x22 then csv_add InQuoted n len
      else if c = CHR '','' then Some (StartField, Suc n, 0)
      else if c = CHR 0x0D \<or> c = CHR 0x0A then Some (EatNewline, Suc n, 0)
      else csv_add InField n len)"
| "csv_char c (EatNewline, n, len) = (if c = CHR 0x0D \<or> c = CHR 0x0A then Some (EatNewline, n, len) else None)"

fun csv_run :: "string \<Rightarrow> csv_reader \<Rightarrow> csv_reader option" where
  "csv_run [] r = Some r"
| "csv_run (c # s) r = (case csv_char c r of None \<Rightarrow> None | Some r' \<Rightarrow> csv_run s r')"

text \<open>The number of fields of the first row of a text without line feeds.\<close>

definition csv_row :: "string \<Rightarrow> nat option" where
  "csv_row s =
     (case csv_run s (StartField, 0, 0) of
        None \<Rightarrow> None
      | Some (st, n, _) \<Rightarrow> Some (if st = EatNewline then n else Suc n))"

definition detect_format :: "json_loads \<Rightarrow> string \<Rightarrow> string" where
  "detect_format loads payload =
     (let stripped = strip payload in
      if stripped = [] then ''plain_text''
      else if re_search CEF_SIGNATURE stripped then ''cef''
      else if re_search LEEF_SIGNATURE stripped then ''leef''
      else if re_match JSON_PREFIX stripped \<noteq> None \<and> is_ok (loads stripped) then ''json''
      else if re_match XML_PREFIX stripped \<noteq> None then ''xml''
      else if re_match SYSLOG_PRI stripped \<noteq> None \<or> re_match SYSLOG_BSD stripped \<noteq> None \<or> re_match SYSLOG_ISO stripped \<noteq> None
        then ''syslog''
      else if 2 \<le> length (finditer KEY_VALUE_PATTERN [] stripped) then ''kv''
      else if CHR '','' \<in> set stripped \<and> CHR 0x0A \<notin> set stripped \<and>
          (case csv_row stripped of None \<Rightarrow> False | Some n \<Rightarrow> 5 \<le> n) then ''csv''
      else ''plain_text'')"

subsection \<open>Source\<close>

definition fl :: "rat \<Rightarrow> rat" where
  "fl x = (case round_double x of FFin v \<Rightarrow> v | _ \<Rightarrow> x)"

text \<open>\<open>round(x, 2)\<close>\<close>

definition round2 :: "rat \<Rightarrow> rat" where
  "round2 x = fl (of_int (round_half_even (x * 100)) / 100)"

definition keyword_score :: "string list \<Rightarrow> string \<Rightarrow> rat" where
  "keyword_score keywords payload =
     (let kw_hits = length (filter (\<lambda>kw. contains kw payload) keywords) in
      min (fl (4 / 10))
        (fl (fl (fl (of_nat kw_hits / of_nat (length keywords)) * fl (6 / 10)) + (if 0 < kw_hits then fl (2 / 10) else 0))))"

definition signature_score :: "signature \<Rightarrow> string \<Rightarrow> rat" where
  "signature_score sg payload =
     (let score = (if list_ex (\<lambda>p. re_search p payload) (sg_patterns sg) then fl (6 / 10) else 0) in
      if sg_keywords sg = [] then score else fl (score + keyword_score (sg_keywords sg) payload))"

fun best_source :: "signature list \<Rightarrow> string \<Rightarrow> string \<times> string \<times> rat \<Rightarrow> string \<times> string \<times> rat" where
  "best_source [] payload best = best"
| "best_source (sg # sgs) payload (vendor, product, best_score) =
     (let score = signature_score sg payload in
      best_source sgs payload
        (if best_score < score then (sg_vendor sg, sg_product sg, score) else (vendor, product, best_score)))"

definition detect_source :: "string \<Rightarrow> string \<times> string \<times> rat" where
  "detect_source payload =
     (if payload = [] then (''Unknown'', ''Unknown'', 0)
      else case best_source VENDOR_SIGNATURES payload (''Unknown'', ''Unknown'', 0) of
             (vendor, product, best_score) \<Rightarrow>
               if best_score < 1 / 4 then (''Unknown'', ''Unknown'', 0) else (vendor, product, min 1 best_score))"

subsection \<open>Classification\<close>

record classification_result =
  cr_format :: string
  cr_vendor :: string
  cr_product :: string
  cr_confidence :: rat

definition classify :: "json_loads \<Rightarrow> string \<Rightarrow> classification_result" where
  "classify loads payload =
     (let format_type = detect_format loads payload;
          format_confidence =
            (if format_type \<in> {''json'', ''cef'', ''leef'', ''xml''} then fl (95 / 100)
             else if format_type \<in> {''syslog'', ''kv'', ''csv''} then fl (85 / 100) else 1 / 2);
          (vendor, product, source_confidence) = detect_source payload
      in \<lparr> cr_format = format_type, cr_vendor = vendor, cr_product = product,
           cr_confidence =
             (if vendor \<noteq> ''Unknown''
              then round2 (fl (fl (fl (4 / 10) * format_confidence) + fl (fl (6 / 10) * source_confidence)))
              else round2 (fl (format_confidence * fl (8 / 10)))) \<rparr>)"

subsection \<open>Bounds\<close>

lemma fl_unit: "0 \<le> x \<Longrightarrow> x \<le> 1 \<Longrightarrow> 0 \<le> fl x \<and> fl x \<le> 1"
  using round_double_unit [of x] by (auto simp: fl_def)

lemma fl_near: "0 \<le> x \<Longrightarrow> x \<le> 1 \<Longrightarrow> fl x \<le> x + 1 / 1000"
  using round_double_near [of x] by (auto simp: fl_def)

lemma round2_unit: "0 \<le> x \<Longrightarrow> x \<le> 1 \<Longrightarrow> 0 \<le> round2 x \<and> round2 x \<le> 1"
proof -
  assume x: "0 \<le> x" "x \<le> 1"
  then have "0 \<le> round_half_even (x * 100) \<and> round_half_even (x * 100) \<le> 100"
    by (intro round_half_even_bounds) simp_all
  then show ?thesis unfolding round2_def by (intro fl_unit) simp_all
qed

lemma fl_between:
  assumes "0 \<le> x" "x \<le> b" "b + 1 / 1000 \<le> c" "c \<le> 1"
  shows "0 \<le> fl x \<and> fl x \<le> c"
  using fl_unit [of x] fl_near [of x] assms by auto

lemma fl_product:
  assumes "0 \<le> x \<and> x \<le> a" "0 \<le> y \<and> y \<le> b" "a * b + 1 / 1000 \<le> c" "c \<le> 1"
  shows "0 \<le> fl (x * y) \<and> fl (x * y) \<le> c"
  using assms mult_mono [of x a y b] by (intro fl_between [of _ "a * b"]) auto

definition confidence_of :: "rat \<Rightarrow> bool \<Rightarrow> rat \<Rightarrow> rat" where
  "confidence_of format_confidence known source_confidence =
     (if known then round2 (fl (fl (fl (4 / 10) * format_confidence) + fl (fl (6 / 10) * source_confidence)))
      else round2 (fl (format_confidence * fl (8 / 10))))"

lemma confidence_unit:
  assumes fc: "0 \<le> fc \<and> fc \<le> 951 / 1000" and sc: "0 \<le> sc \<and> sc \<le> 1"
  shows "0 \<le> confidence_of fc known sc \<and> confidence_of fc known sc \<le> 1"
proof -
  have l: "0 \<le> fl (4 / 10) \<and> fl (4 / 10) \<le> 401 / 1000" "0 \<le> fl (6 / 10) \<and> fl (6 / 10) \<le> 601 / 1000"
    "0 \<le> fl (8 / 10) \<and> fl (8 / 10) \<le> 801 / 1000"
    using fl_between [of "4 / 10" "4 / 10" "401 / 1000"] fl_between [of "6 / 10" "6 / 10" "601 / 1000"]
      fl_between [of "8 / 10" "8 / 10" "801 / 1000"] by simp_all
  have a: "0 \<le> fl (fl (4 / 10) * fc) \<and> fl (fl (4 / 10) * fc) \<le> 383 / 1000" by (rule fl_product [OF l(1) fc]) simp_all
  have b: "0 \<le> fl (fl (6 / 10) * sc) \<and> fl (fl (6 / 10) * sc) \<le> 602 / 1000" by (rule fl_product [OF l(2) sc]) simp_all
  have c: "0 \<le> fl (fc * fl (8 / 10)) \<and> fl (fc * fl (8 / 10)) \<le> 1" by (rule fl_product [OF fc l(3)]) simp_all
  have d: "0 \<le> fl (fl (fl (4 / 10) * fc) + fl (fl (6 / 10) * sc)) \<and> fl (fl (fl (4 / 10) * fc) + fl (fl (6 / 10) * sc)) \<le> 1"
    using a b by (intro fl_unit) simp_all
  show ?thesis unfolding confidence_of_def using c d round2_unit by simp
qed

text \<open>The formats that M2 knows, and the pairs of vendor and product of its signatures.\<close>

definition known_formats :: "string list" where
  "known_formats = [''json'', ''syslog'', ''cef'', ''leef'', ''csv'', ''xml'', ''kv'', ''plain_text'']"

definition known_sources :: "(string \<times> string) list" where
  "known_sources = (''Unknown'', ''Unknown'') # map (\<lambda>sg. (sg_vendor sg, sg_product sg)) VENDOR_SIGNATURES"

lemma detect_format_known: "detect_format loads payload \<in> set known_formats"
  by (simp add: detect_format_def known_formats_def Let_def)

lemma best_source_from:
  "best_source sgs payload (v, p, b) = (v', p', b') \<Longrightarrow>
     (v', p') \<in> insert (v, p) ((\<lambda>sg. (sg_vendor sg, sg_product sg)) ` set sgs)"
proof (induction sgs arbitrary: v p b)
  case (Cons sg sgs)
  then show ?case by (cases "b < signature_score sg payload") (auto simp: Let_def)
qed simp

lemma detect_source_known: "detect_source payload = (v, p, c) \<Longrightarrow> (v, p) \<in> set known_sources \<and> 0 \<le> c \<and> c \<le> 1"
  using best_source_from [of VENDOR_SIGNATURES payload "''Unknown''" "''Unknown''" 0]
  by (auto simp: detect_source_def known_sources_def split: if_splits prod.splits)

text \<open>(C36) A classification is well-formed for every payload: the format is one of the eight that M2 knows, vendor and
  product are unknown together or belong to one signature, and the confidence lies between 0 and 1.\<close>

theorem classify_wf:
  "cr_format (classify loads payload) \<in> set known_formats \<and>
   (cr_vendor (classify loads payload), cr_product (classify loads payload)) \<in> set known_sources \<and>
   0 \<le> cr_confidence (classify loads payload) \<and> cr_confidence (classify loads payload) \<le> 1"
proof -
  obtain vendor product sc where src: "detect_source payload = (vendor, product, sc)" by (metis prod_cases3)
  define fc where "fc = (if detect_format loads payload \<in> {''json'', ''cef'', ''leef'', ''xml''} then fl (95 / 100)
    else if detect_format loads payload \<in> {''syslog'', ''kv'', ''csv''} then fl (85 / 100) else 1 / 2)"
  have "0 \<le> fc \<and> fc \<le> 951 / 1000"
    using fl_between [of "95 / 100" "95 / 100" "951 / 1000"] fl_between [of "85 / 100" "85 / 100" "951 / 1000"]
    by (simp add: fc_def)
  moreover have "cr_confidence (classify loads payload) = confidence_of fc (vendor \<noteq> ''Unknown'') sc"
    by (simp add: classify_def src confidence_of_def fc_def Let_def)
  moreover have "(vendor, product) \<in> set known_sources" "0 \<le> sc \<and> sc \<le> 1" using detect_source_known [OF src] by auto
  ultimately show ?thesis using confidence_unit detect_format_known
    by (simp add: classify_def src Let_def)
qed

end
