(* ===== verification/M2_Registry.thy ===== *)
theory M2_Registry
  imports M2_Grok M2_Classifier
begin

section \<open>M2: the parser registry\<close>

text \<open>
  Definitions, validation, repository and registry service of M2 (\<open>app/registry\<close>, \<open>app/studio/validation.py\<close>). The
  repository is a dictionary tenant -> parser -> version -> definition. A definition that \<open>get\<close> returns is the
  object in the repository: setting its status and saving it replaces it there.
  Parameters: \<open>parse_version\<close> (module \<open>packaging\<close>; \<open>None\<close> is \<open>InvalidVersion\<close>, the result is ordered),
  \<open>compile\<close> (\<open>re.compile\<close> on configured patterns), \<open>loads\<close> (JSON) and \<open>as_model\<close>, the validation of the model
  \<open>ParserDefinition\<close> by pydantic, on the values of a YAML file.
\<close>

subsection \<open>Definitions\<close>

datatype m2_status = M2_ACTIVE | M2_DISABLED | M2_DEPRECATED

record match_rule =
  mr_format :: "string option"
  mr_vendor :: "string option"
  mr_product :: "string option"
  mr_header_pattern :: "string option"

record parser_definition =
  df_id :: string
  df_name :: string
  df_tenant_id :: string
  df_vendor :: string
  df_product :: string
  df_formats :: "string list"
  df_version :: string
  df_mapping_version :: string
  df_priority :: int
  df_status :: m2_status
  df_max_payload_bytes :: int
  df_match :: "match_rule option"
  df_patterns :: "string list"
  df_custom_patterns :: macros
  df_fields :: "(string, string) dict"
  df_created_at :: string
  df_created_by :: string

definition sanitize_fields :: "pydict \<Rightarrow> pydict" where
  "sanitize_fields data =
     (let d1 = (if pget data ''vendor'' = PNone then dict_set ''vendor'' (PStr ''Generic'') data else data);
          d2 = (if pget d1 ''product'' = PNone then dict_set ''product'' (PStr ''Generic'') d1 else d1)
      in if \<not> py_truthy (pget d2 ''tenant_id'') then dict_set ''tenant_id'' (PStr ''global'') d2 else d2)"

subsection \<open>Validation\<close>

definition PARSER_ID_REGEX :: re where
  "PARSER_ID_REGEX = re_seq [RStart, RRep True 3 (Some 64) (\<lambda>c. ascii_alnum c \<or> among ''_-'' c), REnd]"

definition SUPPORTED_FORMATS :: "string list" where
  "SUPPORTED_FORMATS = [''cef'', ''csv'', ''json'', ''kv'', ''leef'', ''plain_text'', ''syslog'', ''xml'']"

definition check_id :: "pydict \<Rightarrow> string list" where
  "check_id config =
     (let parser_id = pget config ''id'' in
      if \<not> py_truthy parser_id then [''Parser configuration missing required field: '' @ quoted ''id'']
      else case parser_id of
             PStr s \<Rightarrow> if re_match PARSER_ID_REGEX s \<noteq> None then []
               else [''Invalid parser ID format: '' @ quoted s @ ''. Must be 3-64 alphanumeric, dash, or underscore characters'']
           | v \<Rightarrow> [''Invalid parser ID format: '' @ quoted (py_str v) @ ''. Must be 3-64 alphanumeric, dash, or underscore characters''])"

definition check_version :: "(string \<Rightarrow> 'v option) \<Rightarrow> pydict \<Rightarrow> string list" where
  "check_version parse_version config =
     (case pget_default config ''version'' (PStr ''1.0.0'') of
        PStr s \<Rightarrow> if parse_version s = None then [''Invalid semantic version: '' @ quoted s] else []
      | v \<Rightarrow> [''Invalid semantic version: '' @ quoted (py_str v)])"

definition check_name :: "pydict \<Rightarrow> string list" where
  "check_name config =
     (let name = pget config ''name'' in
      if py_truthy name \<and> is_str name then []
      else [''Parser configuration missing or invalid required field: '' @ quoted ''name''])"

definition supported :: string where
  "supported = ''. Supported: '' @ py_repr (PList (map PStr SUPPORTED_FORMATS))"

definition format_error :: "pyval \<Rightarrow> string list" where
  "format_error fmt =
     (case fmt of
        PStr s \<Rightarrow> if lower s \<in> set SUPPORTED_FORMATS then [] else [''Unsupported format '' @ quoted s]
      | v \<Rightarrow> [''Unsupported format '' @ quoted (py_str v) @ supported])"

definition check_formats :: "pydict \<Rightarrow> string list" where
  "check_formats config =
     (let formats = (if pget config ''formats'' = PNone then PList [PStr ''syslog''] else pget config ''formats'') in
      case formats of
        PList (f # fs) \<Rightarrow> concat (map format_error (f # fs))
      | _ \<Rightarrow> [''Parser configuration must specify at least one supported format in '' @ quoted ''formats''])"

definition check_limits :: "pydict \<Rightarrow> string list" where
  "check_limits config =
     (let v = pget_default config ''max_payload_bytes'' (PInt 100000) in
      case v of
        PInt i \<Rightarrow> if 0 < i then [] else [''Invalid max_payload_bytes: '' @ int_str i @ ''. Must be a positive integer'']
      | PBool b \<Rightarrow> if b then [] else [''Invalid max_payload_bytes: False. Must be a positive integer'']
      | _ \<Rightarrow> [''Invalid max_payload_bytes: '' @ py_str v @ ''. Must be a positive integer''])"

text \<open>Custom patterns; a value that is no string is inserted as it prints.\<close>

definition str_macros :: "pydict \<Rightarrow> macros" where
  "str_macros d = map (\<lambda>(k, v). (k, py_str v)) d"

definition combined_macros :: "pydict \<Rightarrow> macros" where
  "combined_macros config =
     (case pget_default config ''custom_patterns'' (PDict []) of
        PDict d \<Rightarrow> dict_update COMMON_PATTERNS (str_macros d)
      | _ \<Rightarrow> COMMON_PATTERNS)"

definition check_pattern :: "re_compile \<Rightarrow> macros \<Rightarrow> nat \<Rightarrow> pyval \<Rightarrow> string list" where
  "check_pattern compile macros i pat =
     (case pat of
        PStr s \<Rightarrow>
          (if is_safe_regex s then [] else [''Pattern index '' @ nat_str i @ '' violates ReDoS safety check: '' @ quoted s]) @
          (let transpiled = grok_to_regex s macros in
           (if is_safe_regex transpiled then []
            else [''Transpiled pattern index '' @ nat_str i @ '' violates ReDoS safety check: '' @ quoted transpiled]) @
           (case compile transpiled of Inl e \<Rightarrow> [''Pattern index '' @ nat_str i @ '' failed regex compilation: '' @ exn_str e]
            | Inr _ \<Rightarrow> []))
      | _ \<Rightarrow> [''Pattern at index '' @ nat_str i @ '' must be a string''])"

text \<open>\<open>enumerate\<close> of the patterns, which raises where they cannot be iterated over.\<close>

definition iterate :: "pyval \<Rightarrow> pyval list result" where
  "iterate v =
     (case v of
        PList xs \<Rightarrow> Inr xs
      | PStr s \<Rightarrow> Inr (map (\<lambda>c. PStr [c]) s)
      | PDict d \<Rightarrow> Inr (map (\<lambda>(k, _). PStr k) d)
      | _ \<Rightarrow> Inl (TypeError ''object is not iterable''))"

definition check_patterns :: "re_compile \<Rightarrow> pydict \<Rightarrow> string list result" where
  "check_patterns compile config =
     rbind (iterate (pget_default config ''patterns'' (PList []))) (\<lambda>patterns.
       Inr (concat (map (\<lambda>(i, pat). check_pattern compile (combined_macros config) i pat) (enumerate 0 patterns))))"

definition check_tenant :: "pydict \<Rightarrow> string list" where
  "check_tenant config =
     (let v = pget_default config ''tenant_id'' (PStr ''global'') in
      if py_truthy v \<and> \<not> is_str v then [''Invalid tenant_id: '' @ quoted (py_str v)] else [])"

definition validate_parser_config ::
    "(string \<Rightarrow> 'v option) \<Rightarrow> re_compile \<Rightarrow> pydict \<Rightarrow> (bool \<times> string list) result" where
  "validate_parser_config parse_version compile config =
     rbind (check_patterns compile config) (\<lambda>pattern_errors.
       let errors = check_id config @ check_version parse_version config @ check_name config @ check_formats config @
             check_limits config @ pattern_errors @ check_tenant config
       in Inr (errors = [], errors))"

definition validate_and_raise :: "(string \<Rightarrow> 'v option) \<Rightarrow> re_compile \<Rightarrow> pydict \<Rightarrow> unit result" where
  "validate_and_raise parse_version compile config =
     rbind (validate_parser_config parse_version compile config) (\<lambda>(is_valid, errors).
       if is_valid then Inr () else Inl (ValueError (''Parser validation failed: '' @ join ''; '' errors)))"

text \<open>\<open>definition.model_dump()\<close>, the keys that the validator reads.\<close>

definition str_dict :: "(string, string) dict \<Rightarrow> pydict" where
  "str_dict d = map (\<lambda>(k, v). (k, PStr v)) d"

definition definition_dump :: "parser_definition \<Rightarrow> pydict" where
  "definition_dump d =
     [(''id'', PStr (df_id d)), (''name'', PStr (df_name d)), (''tenant_id'', PStr (df_tenant_id d)),
      (''vendor'', PStr (df_vendor d)), (''product'', PStr (df_product d)), (''formats'', PList (map PStr (df_formats d))),
      (''version'', PStr (df_version d)), (''mapping_version'', PStr (df_mapping_version d)), (''priority'', PInt (df_priority d)),
      (''max_payload_bytes'', PInt (df_max_payload_bytes d)), (''patterns'', PList (map PStr (df_patterns d))),
      (''custom_patterns'', PDict (str_dict (df_custom_patterns d))), (''fields'', PDict (str_dict (df_fields d))),
      (''created_at'', PStr (df_created_at d)), (''created_by'', PStr (df_created_by d))]"

subsection \<open>Repository\<close>

type_synonym version_store = "(string, parser_definition) dict"
type_synonym tenant_store = "(string, version_store) dict"
type_synonym repository = "(string, tenant_store) dict"

definition inner_dict :: "('a, ('b \<times> 'c) list) dict \<Rightarrow> 'a \<Rightarrow> ('b \<times> 'c) list" where
  "inner_dict d k = (case map_of d k of None \<Rightarrow> [] | Some e \<Rightarrow> e)"

definition store_tenant :: "parser_definition \<Rightarrow> string" where
  "store_tenant p = (if df_tenant_id p = [] then ''global'' else df_tenant_id p)"

definition repo_save :: "parser_definition \<Rightarrow> repository \<Rightarrow> repository" where
  "repo_save p repo =
     (let t = store_tenant p; parsers = inner_dict repo t
      in dict_set t (dict_set (df_id p) (dict_set (df_version p) p (inner_dict parsers (df_id p))) parsers) repo)"

text \<open>\<open>sorted(xs, key=f, reverse=True)\<close>, which keeps the order of equal keys.\<close>

definition sort_desc :: "('a \<Rightarrow> 'k::linorder) \<Rightarrow> 'a list \<Rightarrow> 'a list" where
  "sort_desc f xs = rev (sort_key f (rev xs))"

definition sorted_versions :: "(string \<Rightarrow> 'v::linorder option) \<Rightarrow> string list \<Rightarrow> string list" where
  "sorted_versions parse_version vs =
     (if list_all (\<lambda>v. parse_version v \<noteq> None) vs then sort_desc (\<lambda>v. the (parse_version v)) vs
      else sort_desc (\<lambda>v. v) vs)"

definition get_highest_active_version :: "(string \<Rightarrow> 'v::linorder option) \<Rightarrow> version_store \<Rightarrow> parser_definition option" where
  "get_highest_active_version parse_version versions =
     (let vs = sorted_versions parse_version (map fst versions);
          ds = map (\<lambda>v. the (map_of versions v)) vs
      in case filter (\<lambda>d. df_status d = M2_ACTIVE) ds of
           d # _ \<Rightarrow> Some d
         | [] \<Rightarrow> (case ds of [] \<Rightarrow> None | d # _ \<Rightarrow> Some d))"

definition pick_version :: "(string \<Rightarrow> 'v::linorder option) \<Rightarrow> string option \<Rightarrow> version_store \<Rightarrow> parser_definition option" where
  "pick_version parse_version version versions =
     (case version of
        Some v \<Rightarrow> if v = [] then get_highest_active_version parse_version versions else map_of versions v
      | None \<Rightarrow> get_highest_active_version parse_version versions)"

definition repo_get ::
    "(string \<Rightarrow> 'v::linorder option) \<Rightarrow> repository \<Rightarrow> string \<Rightarrow> string option \<Rightarrow> string \<Rightarrow> parser_definition option" where
  "repo_get parse_version repo parser_id version tenant_id =
     (case if tenant_id \<noteq> [] then map_of (inner_dict repo tenant_id) parser_id else None of
        Some versions \<Rightarrow> pick_version parse_version version versions
      | None \<Rightarrow>
          (case map_of (inner_dict repo ''global'') parser_id of
             Some versions \<Rightarrow> pick_version parse_version version versions
           | None \<Rightarrow> None))"

definition matches_filter :: "parser_definition \<Rightarrow> string option \<Rightarrow> string option \<Rightarrow> bool" where
  "matches_filter p vendor format_type \<longleftrightarrow>
     (case vendor of Some v \<Rightarrow> v = [] \<or> lower (df_vendor p) = lower v | None \<Rightarrow> True) \<and>
     (case format_type of Some f \<Rightarrow> f = [] \<or> lower f \<in> set (map lower (df_formats p)) | None \<Rightarrow> True)"

text \<open>The active parsers of a list of identifiers that pass the filter.\<close>

definition active_of ::
    "(string \<Rightarrow> 'v::linorder option) \<Rightarrow> repository \<Rightarrow> string \<Rightarrow> string option \<Rightarrow> string option \<Rightarrow> string list \<Rightarrow> (string \<times> parser_definition) list" where
  "active_of parse_version repo tenant_id vendor format_type ids =
     concat (map (\<lambda>p_id.
       case repo_get parse_version repo p_id None tenant_id of
         Some p \<Rightarrow> if df_status p = M2_ACTIVE \<and> matches_filter p vendor format_type then [(p_id, p)] else []
       | None \<Rightarrow> []) ids)"

definition list_for_tenant ::
    "(string \<Rightarrow> 'v::linorder option) \<Rightarrow> repository \<Rightarrow> string \<Rightarrow> bool \<Rightarrow> string option \<Rightarrow> string option \<Rightarrow> parser_definition list" where
  "list_for_tenant parse_version repo tenant_id include_global vendor format_type =
     (let own = (if tenant_id \<noteq> [] \<and> tenant_id \<noteq> ''global''
            then active_of parse_version repo tenant_id vendor format_type (map fst (inner_dict repo tenant_id)) else []);
          base = (if include_global
            then active_of parse_version repo ''global'' vendor format_type
                   (filter (\<lambda>p_id. p_id \<notin> set (map fst own)) (map fst (inner_dict repo ''global''))) else [])
      in sort_key df_priority (map snd (own @ base)))"

definition list_all_parsers :: "(string \<Rightarrow> 'v::linorder option) \<Rightarrow> repository \<Rightarrow> string option \<Rightarrow> string option \<Rightarrow> string \<Rightarrow> parser_definition list" where
  "list_all_parsers parse_version repo vendor format_type tenant_id =
     list_for_tenant parse_version repo tenant_id True vendor format_type"

definition versions_for :: "repository \<Rightarrow> string \<Rightarrow> string \<Rightarrow> version_store" where
  "versions_for repo parser_id tenant_id =
     (case map_of (inner_dict repo tenant_id) parser_id of
        Some versions \<Rightarrow> versions
      | None \<Rightarrow> inner_dict (inner_dict repo ''global'') parser_id)"

definition list_versions :: "(string \<Rightarrow> 'v::linorder option) \<Rightarrow> repository \<Rightarrow> string \<Rightarrow> string \<Rightarrow> parser_definition list" where
  "list_versions parse_version repo parser_id tenant_id =
     (let ds = map snd (versions_for repo parser_id tenant_id) in
      if list_all (\<lambda>d. parse_version (df_version d) \<noteq> None) ds then sort_desc (\<lambda>d. the (parse_version (df_version d))) ds
      else sort_desc df_version ds)"

text \<open>Loading a directory: the contents of its files, \<open>Inl\<close> where a file cannot be read or is no YAML.\<close>

definition yaml_config :: "pydict \<Rightarrow> pydict \<Rightarrow> pydict \<Rightarrow> pydict" where
  "yaml_config content p_meta p_match =
     [(''id'', pget p_meta ''id''), (''name'', pget_default p_meta ''name'' (pget p_meta ''id'')),
      (''tenant_id'', pget_default p_meta ''tenant_id'' (PStr ''global'')),
      (''vendor'', pget_default p_match ''vendor'' (pget_default p_meta ''vendor'' (PStr ''Generic''))),
      (''product'', pget_default p_match ''product'' (pget_default p_meta ''product'' (PStr ''Generic''))),
      (''formats'', pget_default p_match ''formats'' (PList [pget_default p_meta ''format'' (PStr ''syslog'')])),
      (''version'', PStr (py_str (pget_default p_meta ''version'' (PStr ''1.0.0'')))),
      (''mapping_version'', PStr (py_str (pget_default p_meta ''mapping_version'' (PStr ''1.0.0'')))),
      (''priority'', pget_default p_meta ''priority'' (PInt 100)), (''status'', pget_default p_meta ''status'' (PStr ''active'')),
      (''patterns'', pget_default content ''patterns'' (PList [])), (''fields'', pget_default content ''fields'' (PDict [])),
      (''created_by'', pget_default p_meta ''created_by'' (PStr ''system''))]"

definition load_file ::
    "(string \<Rightarrow> 'v option) \<Rightarrow> re_compile \<Rightarrow> (pydict \<Rightarrow> parser_definition result) \<Rightarrow> pyval result \<Rightarrow> repository \<Rightarrow> repository" where
  "load_file parse_version compile as_model content repo =
     (case content of
        Inr (PDict c) \<Rightarrow>
          (case (map_of c ''parser'', pget_default c ''match'' (PDict [])) of
             (Some (PDict p_meta), PDict p_match) \<Rightarrow>
               (let config = yaml_config c p_meta p_match in
                case validate_parser_config parse_version compile config of
                  Inr (True, _) \<Rightarrow> (case as_model (sanitize_fields config) of Inr d \<Rightarrow> repo_save d repo | Inl _ \<Rightarrow> repo)
                | _ \<Rightarrow> repo)
           | _ \<Rightarrow> repo)
      | _ \<Rightarrow> repo)"

definition load_from_directory ::
    "(string \<Rightarrow> 'v option) \<Rightarrow> re_compile \<Rightarrow> (pydict \<Rightarrow> parser_definition result) \<Rightarrow> pyval result list \<Rightarrow> repository \<Rightarrow> repository" where
  "load_from_directory parse_version compile as_model contents repo = fold (load_file parse_version compile as_model) contents repo"

subsection \<open>Executable parsers\<close>

datatype executable = Grok grok_parser | BuiltIn built_in

fun exec_can_parse :: "json_loads \<Rightarrow> executable \<Rightarrow> string \<Rightarrow> bool result" where
  "exec_can_parse loads (Grok g) payload = Inr (grok_can_parse g payload)"
| "exec_can_parse loads (BuiltIn b) payload = built_in_can_parse loads b payload"

fun exec_parse :: "json_loads \<Rightarrow> executable \<Rightarrow> string \<Rightarrow> pydict result" where
  "exec_parse loads (Grok g) payload = fst (grok_parse g payload)"
| "exec_parse loads (BuiltIn b) payload = built_in_parse loads b payload"

definition build_executable_parser :: "re_compile \<Rightarrow> parser_definition \<Rightarrow> executable result" where
  "build_executable_parser compile d =
     rbind (new_grok_parser compile (df_id d) (df_name d) (df_version d) (df_patterns d) (df_custom_patterns d)
              (df_fields d) (df_max_payload_bytes d) (1 / 2)) (\<lambda>g. Inr (Grok g))"

subsection \<open>Service\<close>

definition set_status :: "m2_status \<Rightarrow> parser_definition \<Rightarrow> parser_definition" where
  "set_status st d = d\<lparr>df_status := st\<rparr>"

definition check_boundary :: "parser_definition \<Rightarrow> string \<Rightarrow> bool \<Rightarrow> unit result" where
  "check_boundary d caller_tenant_id is_system =
     (if \<not> is_system \<and> caller_tenant_id \<noteq> ''global'' then
        if df_tenant_id d = ''global'' then Inl (ValueError ''Non-system callers cannot register global baseline parsers'')
        else if df_tenant_id d \<noteq> caller_tenant_id
        then Inl (ValueError (''Forbidden: Cannot register parser for tenant '' @ quoted (df_tenant_id d) @ '' with caller tenant '' @
               quoted caller_tenant_id))
        else Inr ()
      else Inr ())"

definition register_parser ::
    "(string \<Rightarrow> 'v option) \<Rightarrow> re_compile \<Rightarrow> parser_definition \<Rightarrow> string \<Rightarrow> bool \<Rightarrow> repository \<Rightarrow> repository \<times> parser_definition result" where
  "register_parser parse_version compile d caller_tenant_id is_system repo =
     (case rbind (check_boundary d caller_tenant_id is_system) (\<lambda>_.
             rbind (validate_and_raise parse_version compile (definition_dump d)) (\<lambda>_. build_executable_parser compile d)) of
        Inl e \<Rightarrow> (repo, Inl e)
      | Inr _ \<Rightarrow> (repo_save (set_status M2_ACTIVE d) repo, Inr (set_status M2_ACTIVE d)))"

definition change_status ::
    "(string \<Rightarrow> 'v::linorder option) \<Rightarrow> m2_status \<Rightarrow> string \<Rightarrow> string option \<Rightarrow> string \<Rightarrow> repository \<Rightarrow> repository \<times> bool" where
  "change_status parse_version st parser_id version tenant_id repo =
     (case repo_get parse_version repo parser_id version tenant_id of
        Some p \<Rightarrow> (repo_save (set_status st p) repo, True)
      | None \<Rightarrow> (repo, False))"

definition disable_parser ::
    "(string \<Rightarrow> 'v::linorder option) \<Rightarrow> string \<Rightarrow> string option \<Rightarrow> string \<Rightarrow> repository \<Rightarrow> repository \<times> bool" where
  "disable_parser parse_version = change_status parse_version M2_DISABLED"

definition enable_parser ::
    "(string \<Rightarrow> 'v::linorder option) \<Rightarrow> string \<Rightarrow> string option \<Rightarrow> string \<Rightarrow> repository \<Rightarrow> repository \<times> bool" where
  "enable_parser parse_version = change_status parse_version M2_ACTIVE"

definition rollback_status :: "string \<Rightarrow> parser_definition \<Rightarrow> parser_definition" where
  "rollback_status target_version v = set_status (if df_version v \<noteq> target_version then M2_DISABLED else M2_ACTIVE) v"

definition rollback_parser ::
    "(string \<Rightarrow> 'v::linorder option) \<Rightarrow> string \<Rightarrow> string \<Rightarrow> string \<Rightarrow> repository \<Rightarrow> repository \<times> parser_definition option" where
  "rollback_parser parse_version parser_id target_version tenant_id repo =
     (let versions = list_versions parse_version repo parser_id tenant_id in
      case find (\<lambda>v. df_version v = target_version) versions of
        None \<Rightarrow> (repo, None)
      | Some target \<Rightarrow>
          (fold (\<lambda>v. repo_save (rollback_status target_version v)) versions repo, Some (rollback_status target_version target)))"

subsection \<open>Resolution\<close>

text \<open>The first definition that passes the test, can be built and can parse the payload.\<close>

fun first_parsing ::
    "re_compile \<Rightarrow> string \<Rightarrow> (parser_definition \<Rightarrow> bool) \<Rightarrow> parser_definition list \<Rightarrow> (executable \<times> parser_definition) option" where
  "first_parsing compile payload test [] = None"
| "first_parsing compile payload test (d # ds) =
     (if df_status d = M2_ACTIVE \<and> test d then
        (case build_executable_parser compile d of
           Inr (Grok g) \<Rightarrow> if grok_can_parse g payload then Some (Grok g, d) else first_parsing compile payload test ds
         | _ \<Rightarrow> first_parsing compile payload test ds)
      else first_parsing compile payload test ds)"

definition lower_formats :: "parser_definition \<Rightarrow> string list" where
  "lower_formats d = map lower (df_formats d)"

definition tenant_test :: "string \<Rightarrow> string \<Rightarrow> string \<Rightarrow> parser_definition \<Rightarrow> bool" where
  "tenant_test target_vendor target_product target_format d \<longleftrightarrow>
     (lower (df_vendor d) = target_vendor \<or> target_vendor \<in> {[], ''unknown''}) \<and>
     (lower (df_product d) = target_product \<or> df_product d = ''Generic'' \<or> target_product \<in> {[], ''unknown''}) \<and>
     (target_format \<in> set (lower_formats d) \<or> ''syslog'' \<in> set (lower_formats d))"

definition baseline_test :: "string \<Rightarrow> string \<Rightarrow> string \<Rightarrow> parser_definition \<Rightarrow> bool" where
  "baseline_test target_vendor target_product target_format d \<longleftrightarrow>
     lower (df_vendor d) = target_vendor \<and>
     (lower (df_product d) = target_product \<or> df_product d = ''Generic'') \<and> target_format \<in> set (lower_formats d)"

definition generic_test :: "string \<Rightarrow> parser_definition \<Rightarrow> bool" where
  "generic_test target_format d \<longleftrightarrow> lower (df_vendor d) = ''generic'' \<and> target_format \<in> set (lower_formats d)"

definition or_generic :: "string \<Rightarrow> string" where
  "or_generic s = (if s = [] then ''Generic'' else s)"

definition built_in_definition :: "string \<Rightarrow> classification_result \<Rightarrow> built_in \<Rightarrow> parser_definition" where
  "built_in_definition now classification b =
     \<lparr> df_id = bp_parser_id b, df_name = bp_name b, df_tenant_id = ''global'', df_vendor = or_generic (cr_vendor classification),
       df_product = or_generic (cr_product classification), df_formats = [bp_format b], df_version = ''1.0.0'',
       df_mapping_version = ''1.0.0'', df_priority = bp_priority b, df_status = M2_ACTIVE, df_max_payload_bytes = 100000,
       df_match = None, df_patterns = [], df_custom_patterns = [], df_fields = [], df_created_at = now, df_created_by = ''system'' \<rparr>"

definition built_in_parsers :: "built_in list" where
  "built_in_parsers = [CEFParser, LEEFParser, GenericJSONParser, GenericKVParser]"

fun first_built_in :: "json_loads \<Rightarrow> string \<Rightarrow> string \<Rightarrow> built_in list \<Rightarrow> built_in option result" where
  "first_built_in loads target_format payload [] = Inr None"
| "first_built_in loads target_format payload (b # bs) =
     (if lower (bp_format b) = target_format then Inr (Some b)
      else rbind (built_in_can_parse loads b payload) (\<lambda>can.
             if can then Inr (Some b) else first_built_in loads target_format payload bs))"

type_synonym resolution = "(executable \<times> parser_definition) option"

definition find_registered ::
    "(string \<Rightarrow> 'v::linorder option) \<Rightarrow> re_compile \<Rightarrow> repository \<Rightarrow> classification_result \<Rightarrow> string \<Rightarrow> string \<Rightarrow> resolution" where
  "find_registered parse_version compile repo classification payload tenant_id =
     (let target_vendor = lower (strip (cr_vendor classification));
          target_product = lower (strip (cr_product classification));
          target_format = lower (strip (cr_format classification));
          step1 = (if tenant_id \<noteq> [] \<and> tenant_id \<noteq> ''global''
            then first_parsing compile payload (tenant_test target_vendor target_product target_format)
                   (list_for_tenant parse_version repo tenant_id False None None) else None);
          step2 = (if target_vendor \<noteq> [] \<and> target_vendor \<noteq> ''unknown''
            then first_parsing compile payload (baseline_test target_vendor target_product target_format)
                   (list_for_tenant parse_version repo ''global'' True None None) else None);
          step3 = first_parsing compile payload (generic_test target_format)
                    (list_for_tenant parse_version repo tenant_id True None None)
      in case step1 of Some r \<Rightarrow> Some r
         | None \<Rightarrow> (case step2 of Some r \<Rightarrow> Some r | None \<Rightarrow> step3))"

definition find_parser ::
    "(string \<Rightarrow> 'v::linorder option) \<Rightarrow> re_compile \<Rightarrow> json_loads \<Rightarrow> string \<Rightarrow> repository \<Rightarrow> classification_result \<Rightarrow> string \<Rightarrow> string \<Rightarrow>
     resolution result" where
  "find_parser parse_version compile loads now repo classification payload tenant_id =
     (case find_registered parse_version compile repo classification payload tenant_id of
        Some r \<Rightarrow> Inr (Some r)
      | None \<Rightarrow>
          rbind (first_built_in loads (lower (strip (cr_format classification))) payload built_in_parsers) (\<lambda>b.
            Inr (map_option (\<lambda>b. (BuiltIn b, built_in_definition now classification b)) b)))"

subsection \<open>What the repository holds\<close>

text \<open>The definition under a tenant, an identifier and a version, and the invariant: every definition is stored
  under its own keys, at every level the keys are distinct, and a parser has a version.\<close>

definition entry :: "repository \<Rightarrow> string \<Rightarrow> string \<Rightarrow> string \<Rightarrow> parser_definition option" where
  "entry repo t i v = map_of (inner_dict (inner_dict repo t) i) v"

definition repo_ok :: "repository \<Rightarrow> bool" where
  "repo_ok repo \<longleftrightarrow>
     (\<forall>t. dict_wf (inner_dict repo t) \<and> (\<forall>i. dict_wf (inner_dict (inner_dict repo t) i) \<and>
        (dict_has i (inner_dict repo t) \<longrightarrow> inner_dict (inner_dict repo t) i \<noteq> []))) \<and>
     (\<forall>t i v d. entry repo t i v = Some d \<longrightarrow> store_tenant d = t \<and> df_id d = i \<and> df_version d = v)"

lemma inner_dict_set [simp]: "inner_dict (dict_set k v d) k' = (if k' = k then v else inner_dict d k')"
  by (simp add: inner_dict_def)

lemma inner_dict_save:
  "inner_dict (repo_save p repo) t =
     (if t = store_tenant p
      then dict_set (df_id p) (dict_set (df_version p) p (inner_dict (inner_dict repo t) (df_id p))) (inner_dict repo t)
      else inner_dict repo t)"
  by (simp add: repo_save_def Let_def)

lemma entry_save:
  "entry (repo_save p repo) t i v =
     (if t = store_tenant p \<and> i = df_id p \<and> v = df_version p then Some p else entry repo t i v)"
  by (simp add: entry_def inner_dict_save)

lemma inner_dict_has: "map_of d k = Some e \<Longrightarrow> inner_dict d k = e"
  by (simp add: inner_dict_def)

lemma dict_set_ne: "dict_set k v d \<noteq> []"
  by (cases d) auto

lemma repo_ok_Nil [inv_intros]: "repo_ok []"
  by (simp add: repo_ok_def inner_dict_def entry_def dict_has_def)

lemma repo_ok_save [inv_intros]:
  assumes "repo_ok repo"
  shows "repo_ok (repo_save p repo)"
  using assms unfolding repo_ok_def entry_save
  by (auto simp: inner_dict_save dict_wf_set dict_set_ne dict_has_def)

lemma store_tenant_status [simp]:
  "store_tenant (set_status st d) = store_tenant d" "df_id (set_status st d) = df_id d"
  "df_version (set_status st d) = df_version d" "df_tenant_id (set_status st d) = df_tenant_id d"
  "df_status (set_status st d) = st"
  by (simp_all add: set_status_def store_tenant_def)

lemma Cons_in_filter: "filter P xs = y # ys \<Longrightarrow> y \<in> set xs"
  using filter_is_subset [of P xs] by auto

lemma highest_entry: "get_highest_active_version pv vs = Some d \<Longrightarrow> \<exists>v. map_of vs v = Some d"
proof -
  assume h: "get_highest_active_version pv vs = Some d"
  let ?vs = "sorted_versions pv (map fst vs)"
  have set: "set ?vs = set (map fst vs)" by (simp add: sorted_versions_def sort_desc_def)
  have "d \<in> set (map (\<lambda>v. the (map_of vs v)) ?vs)"
    using h by (auto simp: get_highest_active_version_def Let_def split: list.splits dest: Cons_in_filter)
  then obtain v where v: "v \<in> set (map fst vs)" "d = the (map_of vs v)" using set by auto
  then obtain e where "map_of vs v = Some e" by (metis map_of_eq_None_iff not_None_eq set_map)
  with v show ?thesis by auto
qed

lemma pick_entry: "pick_version pv ver vs = Some d \<Longrightarrow> \<exists>v. map_of vs v = Some d"
  by (auto simp: pick_version_def split: option.splits if_splits dest: highest_entry)

lemma repo_get_entry:
  assumes "repo_get pv repo i ver t = Some d"
  shows "\<exists>t' v. (t' = t \<or> t' = ''global'') \<and> entry repo t' i v = Some d"
  using assms unfolding repo_get_def entry_def
  by (auto split: option.splits if_splits dest!: pick_entry dest: inner_dict_has)

lemma repo_get_scope:
  assumes "repo_ok repo" "repo_get pv repo i ver t = Some d"
  shows "df_id d = i \<and> (store_tenant d = t \<or> store_tenant d = ''global'')"
  using assms repo_get_entry [OF assms(2)] by (auto simp: repo_ok_def)

lemma active_of_scope:
  assumes "repo_ok repo" "(i, d) \<in> set (active_of pv repo t vendor fmt ids)"
  shows "df_status d = M2_ACTIVE \<and> matches_filter d vendor fmt \<and> (store_tenant d = t \<or> store_tenant d = ''global'') \<and> df_id d = i"
  using assms(2) repo_get_scope [OF assms(1), of pv i None t]
  by (auto simp: active_of_def split: option.splits if_splits)

lemma list_for_tenant_scope:
  assumes "repo_ok repo" "d \<in> set (list_for_tenant pv repo t incl vendor fmt)"
  shows "df_status d = M2_ACTIVE \<and> matches_filter d vendor fmt \<and> (store_tenant d = t \<or> store_tenant d = ''global'')"
  using assms(2) active_of_scope [OF assms(1), of _ d pv _ vendor fmt]
  by (auto simp: list_for_tenant_def Let_def split: if_splits)

lemma list_for_tenant_sorted: "sorted (map df_priority (list_for_tenant pv repo t incl vendor fmt))"
  by (simp add: list_for_tenant_def Let_def)

text \<open>The two stores that decide what a tenant sees.\<close>

lemma repo_get_local:
  assumes "inner_dict repo t = inner_dict repo' t" "inner_dict repo ''global'' = inner_dict repo' ''global''"
  shows "repo_get pv repo i ver t = repo_get pv repo' i ver t"
  unfolding repo_get_def assms by (rule refl)

lemma list_for_tenant_local:
  assumes "inner_dict repo t = inner_dict repo' t" "inner_dict repo ''global'' = inner_dict repo' ''global''"
  shows "list_for_tenant pv repo t incl vendor fmt = list_for_tenant pv repo' t incl vendor fmt"
proof -
  have "active_of pv repo s vendor fmt ids = active_of pv repo' s vendor fmt ids" if "s = t \<or> s = ''global''" for s ids
    using that repo_get_local [OF assms, of pv _ None] repo_get_local [OF assms(2,2), of pv _ None]
    by (auto simp: active_of_def)
  then show ?thesis using assms by (simp add: list_for_tenant_def Let_def)
qed

subsection \<open>Properties\<close>

lemma str_macros_str_dict: "str_macros (str_dict d) = d"
  by (simp add: str_macros_def str_dict_def o_def case_prod_unfold)

lemma check_pattern_ok: "check_pattern compile m i (PStr s) = [] \<longleftrightarrow> is_ok (grok_compile compile m s)"
  by (auto simp: check_pattern_def grok_compile_def Let_def split: sum.splits)

lemma seq_results_ok: "is_ok (seq_results rs) \<longleftrightarrow> list_all is_ok rs"
proof (induction rs)
  case (Cons r rs)
  then show ?case by (cases r; cases "seq_results rs") auto
qed simp

text \<open>The patterns of a definition pass the validation exactly when the parser can be built from it: the check
  that precedes a registration and the construction at every resolution never disagree.\<close>

theorem validated_patterns_build:
  "check_patterns compile (definition_dump d) = Inr [] \<longleftrightarrow> is_ok (build_executable_parser compile d)"
proof -
  let ?m = "dict_update COMMON_PATTERNS (df_custom_patterns d)"
  have m: "combined_macros (definition_dump d) = ?m"
    by (simp add: combined_macros_def definition_dump_def pget_default_def str_macros_str_dict)
  have "check_patterns compile (definition_dump d)
      = Inr (concat (map (\<lambda>(i, pat). check_pattern compile ?m i pat) (enumerate 0 (map PStr (df_patterns d)))))"
    unfolding check_patterns_def m by (simp add: definition_dump_def pget_default_def iterate_def)
  moreover have "concat (map (\<lambda>(i, pat). check_pattern compile ?m i pat) (enumerate n (map PStr ps))) = []
      \<longleftrightarrow> list_all (\<lambda>p. is_ok (grok_compile compile ?m p)) ps" for n ps
    by (induction ps arbitrary: n) (auto simp: check_pattern_ok)
  moreover have "is_ok (build_executable_parser compile d) \<longleftrightarrow> is_ok (seq_results (map (grok_compile compile ?m) (df_patterns d)))"
    by (cases "seq_results (map (grok_compile compile ?m) (df_patterns d))")
      (simp_all add: build_executable_parser_def new_grok_parser_def)
  ultimately show ?thesis by (simp add: seq_results_ok list_all_iff)
qed

text \<open>What a registration that succeeds has passed.\<close>

lemma register_cases:
  assumes "register_parser pv compile d caller sys repo = (repo', r)"
  obtains (refused) e where "r = Inl e" "repo' = repo"
  | (saved) "r = Inr (set_status M2_ACTIVE d)" "repo' = repo_save (set_status M2_ACTIVE d) repo"
      "check_boundary d caller sys = Inr ()"
  using assms by (auto simp: register_parser_def split: sum.splits)

lemma boundary_tenant: "check_boundary d caller False = Inr () \<Longrightarrow> caller \<noteq> ''global'' \<Longrightarrow> df_tenant_id d = caller"
  by (auto simp: check_boundary_def split: if_splits)

lemma change_status_cases:
  assumes "change_status pv st i ver t repo = (repo', b)"
  obtains (none) "repo' = repo" "\<not> b" "repo_get pv repo i ver t = None"
  | (set) p where "repo_get pv repo i ver t = Some p" "repo' = repo_save (set_status st p) repo" "b"
  using assms by (auto simp: change_status_def split: option.splits)

text \<open>Rolling back.\<close>

lemma rollback_key [simp]:
  "store_tenant (rollback_status tv d) = store_tenant d" "df_id (rollback_status tv d) = df_id d"
  "df_version (rollback_status tv d) = df_version d"
  by (simp_all add: rollback_status_def)

lemma entry_fold_save:
  assumes "\<And>d. d \<in> set ds \<Longrightarrow> store_tenant d = t \<and> df_id d = i" "distinct (map df_version ds)"
  shows "entry (fold (\<lambda>v. repo_save (rollback_status tv v)) ds repo) t' i' v' =
    (if t' = t \<and> i' = i \<and> v' \<in> set (map df_version ds)
     then map_option (rollback_status tv) (find (\<lambda>d. df_version d = v') ds) else entry repo t' i' v')"
  using assms
proof (induction ds arbitrary: repo)
  case (Cons d ds)
  have d: "store_tenant d = t" "df_id d = i" using Cons.prems(1) by auto
  have "entry (fold (\<lambda>v. repo_save (rollback_status tv v)) (d # ds) repo) t' i' v'
      = (if t' = t \<and> i' = i \<and> v' \<in> set (map df_version ds)
         then map_option (rollback_status tv) (find (\<lambda>d. df_version d = v') ds)
         else entry (repo_save (rollback_status tv d) repo) t' i' v')"
    using Cons by simp
  then show ?case using d Cons.prems(2) by (auto simp: entry_save)
qed simp

lemma distinct_sort_desc: "distinct (map g xs) \<Longrightarrow> distinct (map g (sort_desc f xs))"
  by (simp add: sort_desc_def distinct_map inj_on_def)

lemma list_versions_set:
  assumes "repo_ok repo"
  shows "set (list_versions pv repo i t) = snd ` set (versions_for repo i t)" "distinct (map df_version (list_versions pv repo i t))"
proof -
  let ?vs = "versions_for repo i t"
  have vs: "?vs = inner_dict (inner_dict repo (if dict_has i (inner_dict repo t) then t else ''global'')) i"
    by (auto simp: versions_for_def dict_has_def inner_dict_def split: option.splits)
  have wf: "dict_wf ?vs" using assms unfolding vs repo_ok_def by simp
  have key: "df_version d = v" if "(v, d) \<in> set ?vs" for v d
    using assms that wf unfolding repo_ok_def entry_def vs dict_wf_def by (auto simp: map_of_eq_Some_iff)
  show "set (list_versions pv repo i t) = snd ` set ?vs"
    by (simp add: list_versions_def sort_desc_def Let_def)
  have "distinct (map df_version (map snd ?vs))"
  proof -
    have "map df_version (map snd ?vs) = map fst ?vs" using key by auto
    then show ?thesis using wf by (simp only: dict_wf_def)
  qed
  then show "distinct (map df_version (list_versions pv repo i t))"
    unfolding list_versions_def Let_def by (auto intro: distinct_sort_desc)
qed

lemma find_version:
  assumes "distinct (map df_version ds)" "d \<in> set ds"
  shows "find (\<lambda>e. df_version e = df_version d) ds = Some d"
  using assms by (induction ds) (auto simp: rev_image_eqI)

text \<open>The store a parser is taken from for a tenant: its own, if it has the parser, else the baseline.\<close>

definition owner :: "repository \<Rightarrow> string \<Rightarrow> string \<Rightarrow> string" where
  "owner repo i t = (if dict_has i (inner_dict repo t) then t else ''global'')"

lemma versions_owner: "versions_for repo i t = inner_dict (inner_dict repo (owner repo i t)) i"
  by (auto simp: versions_for_def owner_def dict_has_def inner_dict_def split: option.splits)

lemma highest_only_active:
  assumes "map_of vs v = Some d" "df_status d = M2_ACTIVE" "\<And>v' d'. map_of vs v' = Some d' \<Longrightarrow> df_status d' = M2_ACTIVE \<Longrightarrow> d' = d"
  shows "get_highest_active_version pv vs = Some d"
proof -
  let ?ds = "map (\<lambda>v. the (map_of vs v)) (sorted_versions pv (map fst vs))"
  have set: "set (sorted_versions pv (map fst vs)) = fst ` set vs" by (simp add: sorted_versions_def sort_desc_def)
  have "d \<in> set ?ds" using assms(1) set by (force intro: rev_image_eqI dest: map_of_SomeD)
  then have ne: "filter (\<lambda>d. df_status d = M2_ACTIVE) ?ds \<noteq> []" using assms(2) by (auto simp: filter_empty_conv)
  have "e = d" if "e \<in> set ?ds" "df_status e = M2_ACTIVE" for e
  proof -
    from that(1) obtain v' where "v' \<in> fst ` set vs" "e = the (map_of vs v')" using set by auto
    then show ?thesis using assms(3) that(2) by (metis map_of_eq_None_iff option.exhaust_sel)
  qed
  moreover obtain e es where f: "filter (\<lambda>d. df_status d = M2_ACTIVE) ?ds = e # es" using ne by (cases "filter (\<lambda>d. df_status d = M2_ACTIVE) ?ds") auto
  then have "e \<in> set (filter (\<lambda>d. df_status d = M2_ACTIVE) ?ds)" by simp
  ultimately have "e = d" by auto
  with f show ?thesis by (simp add: get_highest_active_version_def Let_def)
qed

lemma inner_dict_fold_save:
  "(\<And>d. d \<in> set ds \<Longrightarrow> store_tenant d \<noteq> t) \<Longrightarrow>
     inner_dict (fold (\<lambda>v. repo_save (rollback_status tv v)) ds repo) t = inner_dict repo t"
  by (induction ds arbitrary: repo) (auto simp: inner_dict_save)

lemma entry_has: "entry repo t i v = Some d \<Longrightarrow> map_of (inner_dict repo t) i = Some (inner_dict (inner_dict repo t) i)"
  by (auto simp: entry_def inner_dict_def split: option.splits)

text \<open>A rollback makes the target version the active one and disables every other version of the parser in the
  store it was found in, changes nothing else, and the parser then resolves to the target.\<close>

theorem rollback_exact:
  assumes ok: "repo_ok repo" and rb: "rollback_parser pv i tv t repo = (repo', Some target)" and t: "t \<noteq> []"
  shows "entry repo' t' i' v' =
      (if t' = owner repo i t \<and> i' = i then map_option (rollback_status tv) (entry repo t' i' v') else entry repo t' i' v') \<and>
    df_version target = tv \<and> repo_get pv repo' i None t = Some target"
proof -
  let ?s = "owner repo i t" and ?ds = "list_versions pv repo i t"
  from rb obtain d where d: "find (\<lambda>v. df_version v = tv) ?ds = Some d" "target = rollback_status tv d"
    and repo': "repo' = fold (\<lambda>v. repo_save (rollback_status tv v)) ?ds repo"
    by (auto simp: rollback_parser_def Let_def split: option.splits)
  have dv: "df_version d = tv" "d \<in> set ?ds" using d(1) by (auto simp: find_Some_iff)
  have wf: "dict_wf (inner_dict (inner_dict repo ?s) i)" using ok by (simp add: repo_ok_def)
  have mem: "e \<in> set ?ds \<longleftrightarrow> (\<exists>v. entry repo ?s i v = Some e)" for e
    unfolding list_versions_set(1) [OF ok] versions_owner entry_def
    using wf by (force simp: dict_wf_def map_of_eq_Some_iff image_iff)
  have key: "store_tenant e = ?s \<and> df_id e = i \<and> entry repo ?s i (df_version e) = Some e" if "e \<in> set ?ds" for e
    using ok that unfolding mem repo_ok_def by blast
  have at: "entry repo' a b c = (if a = ?s \<and> b = i then map_option (rollback_status tv) (entry repo a b c) else entry repo a b c)" for a b c
  proof -
    have "entry repo' a b c = (if a = ?s \<and> b = i \<and> c \<in> set (map df_version ?ds)
        then map_option (rollback_status tv) (find (\<lambda>d. df_version d = c) ?ds) else entry repo a b c)"
      unfolding repo' by (rule entry_fold_save) (use key list_versions_set(2) [OF ok] in auto)
    moreover have "find (\<lambda>d. df_version d = c) ?ds = entry repo ?s i c" if "c \<in> set (map df_version ?ds)"
    proof -
      from that obtain e where "e \<in> set ?ds" "c = df_version e" by auto
      with find_version [OF list_versions_set(2) [OF ok], of e pv i t] key show ?thesis by simp
    qed
    moreover have "entry repo ?s i c = None" if "c \<notin> set (map df_version ?ds)"
    proof (rule ccontr)
      assume "entry repo ?s i c \<noteq> None"
      then obtain e where e: "entry repo ?s i c = Some e" by auto
      then have "e \<in> set ?ds" "df_version e = c" using mem ok by (auto simp: repo_ok_def)
      with that show False by auto
    qed
    ultimately show ?thesis by auto
  qed
  have tgt: "entry repo' ?s i tv = Some target" using at key [OF dv(2)] dv d(2) by simp
  have act: "df_status target = M2_ACTIVE" using d(2) dv by (simp add: rollback_status_def)
  have only: "e = target" if "entry repo' ?s i c = Some e" "df_status e = M2_ACTIVE" for c e
  proof -
    from that(1) obtain e0 where e0: "entry repo ?s i c = Some e0" "e = rollback_status tv e0" by (auto simp: at)
    then have "df_version e0 = c" "c = tv" using ok that(2) by (auto simp: repo_ok_def rollback_status_def split: if_splits)
    then show ?thesis using e0 key [OF dv(2)] dv d(2) by simp
  qed
  have high: "get_highest_active_version pv (inner_dict (inner_dict repo' ?s) i) = Some target"
    by (rule highest_only_active [OF tgt [unfolded entry_def] act]) (rule only [unfolded entry_def])
  have has: "map_of (inner_dict repo' ?s) i = Some (inner_dict (inner_dict repo' ?s) i)" by (rule entry_has [OF tgt])
  have "repo_get pv repo' i None t = Some target"
  proof (cases "?s = t")
    case True
    then show ?thesis using t high has by (simp add: repo_get_def pick_version_def)
  next
    case False
    then have s: "?s = ''global''" "\<not> dict_has i (inner_dict repo t)" by (auto simp: owner_def split: if_splits)
    have "inner_dict repo' t = inner_dict repo t" unfolding repo' by (rule inner_dict_fold_save) (use key False in auto)
    with s have "map_of (inner_dict repo' t) i = None" by (simp add: dict_has_def)
    then show ?thesis using high has s(1) by (simp add: repo_get_def pick_version_def)
  qed
  with at dv d(2) show ?thesis by simp
qed

subsection \<open>Which version and which parser is used\<close>

lemma sort_desc_sorted: "sorted_wrt (\<lambda>x y. f y \<le> f x) (sort_desc f xs)"
proof -
  have "sorted_wrt (\<lambda>x y. f x \<le> f y) (sort_key f (rev xs))"
    using sorted_sort_key [of f "rev xs"] by (simp add: sorted_map)
  then show ?thesis by (simp add: sort_desc_def sorted_wrt_rev)
qed

text \<open>The head of the active ones among a descending list, or of the list if none is active.\<close>

lemma highest_spec:
  assumes "get_highest_active_version pv vs = Some d" and all: "\<And>v. v \<in> fst ` set vs \<Longrightarrow> pv v \<noteq> None"
  shows "\<exists>v. map_of vs v = Some d \<and>
    (\<forall>v' e. map_of vs v' = Some e \<and> df_status e = M2_ACTIVE \<longrightarrow> df_status d = M2_ACTIVE \<and> the (pv v') \<le> the (pv v))"
proof -
  let ?vs = "sort_desc (\<lambda>v. the (pv v)) (map fst vs)" and ?f = "\<lambda>v. the (map_of vs v)"
  let ?act = "\<lambda>v. df_status (?f v) = M2_ACTIVE"
  have sv: "sorted_versions pv (map fst vs) = ?vs" using all by (simp add: sorted_versions_def list_all_iff)
  have set: "set ?vs = fst ` set vs" by (simp add: sort_desc_def)
  have fm: "filter (\<lambda>d. df_status d = M2_ACTIVE) (map ?f ?vs) = map ?f (filter ?act ?vs)" by (simp add: filter_map o_def)
  have some: "map_of vs v = Some (?f v)" if "v \<in> set ?vs" for v
    using that set by (metis map_of_eq_None_iff option.exhaust_sel)
  have mem: "v' \<in> set ?vs" "?f v' = e" if "map_of vs v' = Some e" for v' e
    using that set by (auto dest: map_of_SomeD intro: rev_image_eqI)
  show ?thesis
  proof (cases "filter ?act ?vs")
    case Nil
    with assms(1) obtain v rest where "?vs = v # rest" "d = ?f v"
      by (auto simp: get_highest_active_version_def sv fm Let_def split: list.splits)
    then have "map_of vs v = Some d" using some [of v] by simp
    moreover have "df_status e \<noteq> M2_ACTIVE" if "map_of vs v' = Some e" for v' e
      using Nil mem [OF that] unfolding filter_empty_conv by blast
    ultimately show ?thesis by blast
  next
    case (Cons v rest)
    with assms(1) have d: "d = ?f v" by (simp add: get_highest_active_version_def sv fm Let_def)
    have "v \<in> set (filter ?act ?vs)" using Cons by simp
    then have v: "v \<in> set ?vs" "?act v" by simp_all
    have "sorted_wrt (\<lambda>x y. the (pv y) \<le> the (pv x)) (filter ?act ?vs)"
      by (rule sorted_wrt_filter) (rule sort_desc_sorted)
    then have max: "the (pv v') \<le> the (pv v)" if "v' \<in> set (filter ?act ?vs)" for v'
      using that unfolding Cons by auto
    have "df_status d = M2_ACTIVE \<and> the (pv v') \<le> the (pv v)" if "map_of vs v' = Some e" "df_status e = M2_ACTIVE" for v' e
      using max [of v'] mem [OF that(1)] that(2) v(2) d by simp
    then show ?thesis using some [OF v(1)] d by blast
  qed
qed

text \<open>A parser that is asked for without a version is its active version with the greatest version number, taken
  from the tenant if the tenant has the parser and from the baseline otherwise.\<close>

theorem latest_active_version:
  assumes ok: "repo_ok repo" and t: "t \<noteq> []" and get: "repo_get pv repo i None t = Some d"
    and all: "\<And>v e. entry repo (owner repo i t) i v = Some e \<Longrightarrow> pv v \<noteq> None"
  shows "entry repo (owner repo i t) i (df_version d) = Some d \<and>
    (\<forall>v e. entry repo (owner repo i t) i v = Some e \<and> df_status e = M2_ACTIVE \<longrightarrow>
       df_status d = M2_ACTIVE \<and> the (pv v) \<le> the (pv (df_version d)))"
proof -
  let ?vs = "inner_dict (inner_dict repo (owner repo i t)) i"
  have "get_highest_active_version pv ?vs = Some d"
    using get t by (auto simp: repo_get_def pick_version_def owner_def dict_has_def inner_dict_has split: option.splits if_splits)
  moreover have "pv v \<noteq> None" if "v \<in> fst ` set ?vs" for v
    using all that unfolding entry_def by (metis map_of_eq_None_iff not_None_eq)
  ultimately obtain v where v: "map_of ?vs v = Some d"
    and max: "\<forall>v' e. map_of ?vs v' = Some e \<and> df_status e = M2_ACTIVE \<longrightarrow> df_status d = M2_ACTIVE \<and> the (pv v') \<le> the (pv v)"
    using highest_spec [of pv ?vs d] by blast
  have "df_version d = v" using ok v unfolding repo_ok_def entry_def by blast
  with v max show ?thesis by (simp add: entry_def)
qed

lemma first_parsing_Some:
  "first_parsing compile payload test ds = Some (x, d) \<Longrightarrow>
     d \<in> set ds \<and> df_status d = M2_ACTIVE \<and> test d \<and>
     (\<exists>g. x = Grok g \<and> build_executable_parser compile d = Inr (Grok g) \<and> grok_can_parse g payload)"
  by (induction ds) (auto split: if_splits sum.splits executable.splits)

definition usable :: "re_compile \<Rightarrow> string \<Rightarrow> parser_definition \<Rightarrow> bool" where
  "usable compile payload d \<longleftrightarrow> df_status d = M2_ACTIVE \<and>
     (case build_executable_parser compile d of Inr (Grok g) \<Rightarrow> grok_can_parse g payload | _ \<Rightarrow> False)"

lemma first_parsing_None:
  "first_parsing compile payload test ds = None \<longleftrightarrow> (\<forall>d \<in> set ds. \<not> (test d \<and> usable compile payload d))"
  by (induction ds) (auto simp: usable_def split: sum.splits executable.splits)

lemma list_own:
  assumes ok: "repo_ok repo" and d: "d \<in> set (list_for_tenant pv repo t False vendor fmt)"
  shows "store_tenant d = t"
proof -
  from d have t: "t \<noteq> []" "t \<noteq> ''global''" and "d \<in> snd ` set (active_of pv repo t vendor fmt (map fst (inner_dict repo t)))"
    by (auto simp: list_for_tenant_def Let_def split: if_splits)
  then obtain i where i: "i \<in> fst ` set (inner_dict repo t)" "repo_get pv repo i None t = Some d"
    by (fastforce simp: active_of_def split: option.splits if_splits)
  then obtain vs where "map_of (inner_dict repo t) i = Some vs" by (metis map_of_eq_None_iff not_None_eq)
  then have "pick_version pv None vs = Some d" "inner_dict (inner_dict repo t) i = vs"
    using i(2) t by (simp_all add: repo_get_def inner_dict_def)
  then obtain v where "entry repo t i v = Some d" using pick_entry [of pv None vs d] by (auto simp: entry_def)
  then show ?thesis using ok by (auto simp: repo_ok_def)
qed

text \<open>(C21) Who may decode an event: a parser of the tenant or of the baseline that is active, could be built from its
  definition and recognises the payload, or a built-in parser. A suitable parser of the tenant always comes first,
  and an event stays unparsed only if no visible generic parser and no built-in parser recognises it.\<close>

theorem resolution_scope:
  assumes ok: "repo_ok repo" and find: "find_parser pv compile loads now repo cls payload t = Inr res"
  shows "(\<forall>x d. res = Some (x, d) \<longrightarrow>
      ((store_tenant d = t \<or> store_tenant d = ''global'') \<and> usable compile payload d \<and> build_executable_parser compile d = Inr x) \<or>
      (\<exists>b. x = BuiltIn b \<and> d = built_in_definition now cls b)) \<and>
    (t \<noteq> [] \<and> t \<noteq> ''global'' \<and>
       (\<exists>d \<in> set (list_for_tenant pv repo t False None None).
          tenant_test (lower (strip (cr_vendor cls))) (lower (strip (cr_product cls))) (lower (strip (cr_format cls))) d \<and>
          usable compile payload d) \<longrightarrow> (\<exists>x d. res = Some (x, d) \<and> store_tenant d = t)) \<and>
    (res = None \<longrightarrow>
       (\<forall>d \<in> set (list_for_tenant pv repo t True None None).
          \<not> (generic_test (lower (strip (cr_format cls))) d \<and> usable compile payload d)) \<and>
       (\<forall>b \<in> set built_in_parsers. built_in_can_parse loads b payload = Inr False))"
proof -
  let ?f = "lower (strip (cr_format cls))"
  let ?tt = "tenant_test (lower (strip (cr_vendor cls))) (lower (strip (cr_product cls))) ?f"
  let ?own = "first_parsing compile payload ?tt (list_for_tenant pv repo t False None None)"
  have scope: "(store_tenant d = t' \<or> store_tenant d = ''global'') \<and> usable compile payload d \<and> build_executable_parser compile d = Inr x"
    if "first_parsing compile payload test (list_for_tenant pv repo t' incl None None) = Some (x, d)" for test t' incl x d
    using first_parsing_Some [OF that] list_for_tenant_scope [OF ok, of d pv t' incl None None] by (auto simp: usable_def)
  have none: "\<forall>b \<in> set bs. built_in_can_parse loads b payload = Inr False" if "first_built_in loads ?f payload bs = Inr None" for bs
    using that by (induction bs) (auto split: if_splits)
  show ?thesis
  proof (cases "find_registered pv compile repo cls payload t")
    case None
    then have "?own = None \<or> t = [] \<or> t = ''global''"
      and gen: "first_parsing compile payload (generic_test ?f) (list_for_tenant pv repo t True None None) = None"
      by (auto simp: find_registered_def Let_def split: option.splits if_splits)
    moreover from None find obtain b where "first_built_in loads ?f payload built_in_parsers = Inr b"
      "res = map_option (\<lambda>b. (BuiltIn b, built_in_definition now cls b)) b"
      by (auto simp: find_parser_def)
    ultimately show ?thesis using none [of built_in_parsers] by (auto simp: first_parsing_None)
  next
    case (Some r)
    obtain x d where r: "r = (x, d)" by (cases r)
    have res: "res = Some (x, d)" using find Some r by (simp add: find_parser_def)
    have "(store_tenant d = t \<or> store_tenant d = ''global'') \<and> usable compile payload d \<and> build_executable_parser compile d = Inr x"
      using Some unfolding r find_registered_def Let_def
      by (auto split: option.splits if_splits dest!: scope)
    moreover have "store_tenant d = t" if "t \<noteq> []" "t \<noteq> ''global''" "?own \<noteq> None"
    proof -
      have "?own = Some (x, d)" using Some that unfolding r find_registered_def Let_def by (auto split: option.splits)
      then show ?thesis using list_own [OF ok] first_parsing_Some by blast
    qed
    ultimately show ?thesis using res by (auto simp: first_parsing_None)
  qed
qed

end
