(* ===== verification/M2_Formats.thy ===== *)
theory M2_Formats
  imports M2_Engine
begin

section \<open>M2: what the format parsers read\<close>

text \<open>
  The generic parsers of \<open>M2_Engine\<close> against the formats they are for. Text that is written as key-value pairs is
  read back as these pairs (\<open>kv_roundtrip\<close>), a CEF header and its extension are read exactly (\<open>cef_header_exact\<close>),
  a LEEF 2.0 message with its own delimiter is read back (\<open>leef_roundtrip\<close>), and flattening a JSON object keeps
  its leaves (\<open>flatten_lookup\<close>). The proofs follow the backtracking matcher of \<open>Py_Re\<close> by \<open>first\<close>: which
  alternative it takes, where a greedy repetition ends and where a lazy one stops.
\<close>

subsection \<open>Reading what was written\<close>

text \<open>Key-value text as devices write it: pairs separated by a space, with keys of key characters. A value is written bare, without blanks, separators,
  quotes and backslashes, or between two quotes of one kind, without quotes and backslashes. An item is a key, the quote
  (nothing, or one quote character) and the value. \<open>typed\<close> is the value such a text stands for.\<close>

definition plain_char :: "char \<Rightarrow> bool" where
  "plain_char c \<longleftrightarrow> \<not> is_space c \<and> \<not> among '',;'' c \<and> \<not> quote_char c \<and> \<not> is_backslash c"

definition quotable_char :: "char \<Rightarrow> bool" where
  "quotable_char c \<longleftrightarrow> \<not> quote_char c \<and> \<not> is_backslash c"

type_synonym kv_item = "string \<times> string \<times> string"

definition writable_value :: "string \<Rightarrow> string \<Rightarrow> bool" where
  "writable_value q v \<longleftrightarrow> (if q = [] then list_all plain_char v else length q = 1 \<and> quote_char (hd q) \<and> list_all quotable_char v)"

definition writable :: "kv_item \<Rightarrow> bool" where
  "writable it \<longleftrightarrow> (case it of (k, q, v) \<Rightarrow> k \<noteq> [] \<and> list_all key_char k \<and> writable_value q v \<and>
     (isdigit v \<longrightarrow> list_all is_digit v \<and> length v \<le> 4300))"

definition typed :: "string \<Rightarrow> pyval" where
  "typed v = (if isdigit v then PInt (int (digits_val v))
     else if lower v = ''true'' then PBool True else if lower v = ''false'' then PBool False else PStr v)"

definition kv_text :: "kv_item list \<Rightarrow> string" where
  "kv_text its = join '' '' (map (\<lambda>(k, q, v). k @ ''='' @ q @ v @ q) its)"

lemma key_char_not:
  "\<not> key_char CHR ''=''" "\<not> key_char CHR '' ''" "\<not> key_char CHR ''|''"
  by (simp_all add: key_char_def ascii_alnum_def between_def among_def is_digit_def code_def)

lemma space_char: "is_space CHR '' ''"
  by (simp add: is_space_def code_def)

lemma kv_ahead_stops:
  assumes "s = [] \<or> is_space (hd s)"
  shows "matches kv_ahead (l, s, g) \<noteq> []"
  using assms by (cases s) (auto simp: kv_ahead_def)

lemma kv_ahead_none:
  assumes "s \<noteq> []" "plain_char (hd s)"
  shows "matches kv_ahead (l, s, g) = []"
proof -
  obtain c t where s: "s = c # t" using assms(1) by (cases s) auto
  have c: "\<not> is_space c" "\<not> among '',;'' c" using assms(2) by (simp_all add: s plain_char_def)
  have "s \<noteq> [CHR 0x0A]" using c(1) s by (auto simp: is_space_def code_def)
  moreover have "matches (re_plus is_space) (l, s, g) = []"
    using c(1) by (simp add: s re_plus_def rep_counts_def)
  ultimately show ?thesis using c by (simp add: kv_ahead_def s)
qed

lemma kv_ahead_free: "group_free kv_ahead"
  by (simp add: kv_ahead_def re_seq_def re_plus_def re_lit_def)

lemma quote_char_not: "quote_char c \<Longrightarrow> \<not> is_backslash c" "plain_char c \<Longrightarrow> \<not> quote_char c" "is_space c \<Longrightarrow> \<not> quote_char c"
  "plain_char c \<Longrightarrow> quotable_char c"
  by (auto simp: plain_char_def quotable_char_def quote_char_def among_def is_space_def is_backslash_def code_def)

lemma writable_chars: "writable_value q v \<Longrightarrow> list_all quotable_char v"
  by (auto simp: writable_value_def list_all_iff quote_char_not split: if_splits)

text \<open>The group of the quote takes the quote that is there, and the value ends at the first place where the rest of the pattern fits.\<close>

lemma kv_quote_first:
  assumes "writable_value q v" "t = [] \<or> is_space (hd t)"
  shows "first (RGroup ''quote'' (re_maybe quote_char)) (l, q @ v @ q @ t, g) (rev q @ l, v @ q @ t, dict_set ''quote'' q g)"
proof (cases q)
  case Nil
  have "takeWhile quote_char (v @ t) = []"
  proof (cases "v @ t")
    case (Cons c s)
    then have "plain_char c \<or> is_space c" using assms Nil by (cases v) (auto simp: writable_value_def)
    then show ?thesis using Cons by (auto dest: quote_char_not)
  qed simp
  then show ?thesis by (simp add: Nil first_def re_maybe_def rep_counts_def)
next
  case (Cons c q')
  then have c: "q = [c]" "quote_char c" using assms(1) by (auto simp: writable_value_def)
  have "min (Suc 0) (length (takeWhile quote_char (c # v @ c # t))) = Suc 0" using c(2) by simp
  then show ?thesis using c(2) by (simp add: c(1) first_def re_maybe_def rep_counts_def Let_def)
qed

lemma kv_value_stops:
  assumes "writable_value q v" "n < length v" "map_of g ''quote'' = Some q"
  shows "matches (re_seq [RNotAfter is_backslash, RRef ''quote'', RAhead kv_ahead]) (l, drop n v @ q @ t, g) = []"
proof (cases q)
  case Nil
  have "plain_char (hd (drop n v @ t))"
    using assms Nil by (simp add: writable_value_def list_all_length hd_drop_conv_nth)
  then have "matches kv_ahead (m, drop n v @ t, g') = []" for m g'
    using assms(2) by (intro kv_ahead_none) auto
  then show ?thesis using assms(3) by (simp add: Nil starts_with_def)
next
  case (Cons c q')
  then have c: "q = [c]" "quote_char c" "quotable_char (v ! n)" using assms by (auto simp: writable_value_def list_all_length)
  then have "v ! n \<noteq> c" by (auto simp: quotable_char_def)
  then have "\<not> starts_with (drop n v @ q @ t) q" using assms(2) c(1) by (simp add: starts_with_def take_Cons' hd_drop_conv_nth Cons_nth_drop_Suc [symmetric])
  then show ?thesis using assms(3) by simp
qed

lemma kv_value_ends:
  assumes "writable_value q v" "t = [] \<or> is_space (hd t)" "map_of g ''quote'' = Some q" "l \<noteq> []" "\<not> is_backslash (hd l)"
  shows "first (re_seq [RNotAfter is_backslash, RRef ''quote'', RAhead kv_ahead]) (rev v @ l, q @ t, g) (rev q @ rev v @ l, t, g)"
proof -
  have "\<not> is_backslash (hd (rev v @ l))"
    using writable_chars [OF assms(1)] assms(5) by (cases v rule: rev_cases) (auto simp: quotable_char_def)
  then have "first (RNotAfter is_backslash) (rev v @ l, q @ t, g) (rev v @ l, q @ t, g)" by (simp add: first_def)
  moreover have "first (RRef ''quote'') (rev v @ l, q @ t, g) (rev q @ rev v @ l, t, g)"
    using assms(3) by (simp add: first_def)
  moreover have "first (RAhead kv_ahead) (rev q @ rev v @ l, t, g) (rev q @ rev v @ l, t, g)"
    by (intro first_ahead kv_ahead_free kv_ahead_stops assms(2))
  ultimately show ?thesis using first_seq_Nil by (blast intro: first_seq_Cons)
qed

lemma kv_first:
  assumes k: "k \<noteq> []" "list_all key_char k" and v: "writable_value q v" and t: "t = [] \<or> is_space (hd t)"
  shows "first KV_REGEX (l, (k @ ''='' @ q @ v @ q) @ t, []) (rev (k @ ''='' @ q @ v @ q) @ l, t, [(''key'', k), (''quote'', q), (''val'', v)])"
proof -
  let ?rest = "[RNotAfter is_backslash, RRef ''quote'', RAhead kv_ahead]"
  let ?l = "CHR ''='' # rev k @ l"
  let ?g = "[(''key'', k), (''quote'', q)]" and ?g' = "[(''key'', k), (''quote'', q), (''val'', v)]"
  have key: "first (RGroup ''key'' (re_plus key_char)) (l, k @ ''='' @ q @ v @ q @ t, []) (rev k @ l, ''='' @ q @ v @ q @ t, [(''key'', k)])"
    using first_group [OF first_plus [OF k(2,1), of "''='' @ q @ v @ q @ t" l "[]"]] by (simp add: key_char_not)
  have sign: "first (re_lit ''='') (rev k @ l, ''='' @ q @ v @ q @ t, [(''key'', k)]) (?l, q @ v @ q @ t, [(''key'', k)])"
    using first_lit [of "''=''" "rev k @ l" "q @ v @ q @ t" "[(''key'', k)]"] by simp
  have quote: "first (RGroup ''quote'' (re_maybe quote_char)) (?l, q @ v @ q @ t, [(''key'', k)]) (rev q @ ?l, v @ q @ t, ?g)"
    using kv_quote_first [OF v t, of ?l "[(''key'', k)]"] by simp
  have start: "\<not> is_backslash (hd (rev q @ ?l))"
    using v by (cases q) (auto simp: writable_value_def is_backslash_def dest: quote_char_not)
  have stop: "matches (re_seq ?rest) (rev (take n v) @ rev q @ ?l, drop n v @ q @ t, dict_set ''val'' (take n v) ?g) = []" if "n < length v" for n
    by (rule kv_value_stops [OF v that]) simp
  have rest: "first (re_seq ?rest) (rev v @ rev q @ ?l, q @ t, dict_set ''val'' v ?g) (rev q @ rev v @ rev q @ ?l, t, ?g')"
    using kv_value_ends [OF v t, of ?g' "rev q @ ?l"] start by simp
  show ?thesis unfolding KV_REGEX_def
    using first_seq_Cons [OF key first_seq_Cons [OF sign first_seq_Cons [OF quote
        first_lazy_group [where l = "rev q @ ?l" and u = v and s = "q @ t" and nm = "''val''" and g = ?g, OF stop rest]]]]
    by simp
qed

lemma kv_text_Cons: "kv_text ((k, q, v) # its) = (k @ ''='' @ q @ v @ q) @ (if its = [] then [] else '' '' @ kv_text its)"
  by (cases its) (auto simp: kv_text_def)

lemma kv_none_blank: "matches KV_REGEX (l, CHR '' '' # s, []) = []"
  by (simp add: KV_REGEX_def re_plus_def rep_counts_def key_char_not)

lemma kv_none_Nil: "matches KV_REGEX (l, [], []) = []"
  by (simp add: KV_REGEX_def re_plus_def rep_counts_def)

definition kv_groups :: "kv_item \<Rightarrow> re_groups" where
  "kv_groups it = (case it of (k, q, v) \<Rightarrow> [(''key'', k), (''quote'', q), (''val'', v)])"

lemma finditer_kv: "list_all writable its \<Longrightarrow> finditer KV_REGEX l (kv_text its) = map kv_groups its"
proof (induction its arbitrary: l)
  case Nil
  then show ?case by (simp add: kv_text_def finditer_Nil kv_none_Nil)
next
  case (Cons it its)
  obtain k q v where it: "it = (k, q, v)" by (cases it)
  let ?u = "k @ ''='' @ q @ v @ q" and ?t = "if its = [] then [] else '' '' @ kv_text its"
  have one: "first KV_REGEX (m, (k' @ ''='' @ q' @ v' @ q') @ t, []) (rev (k' @ ''='' @ q' @ v' @ q') @ m, t, kv_groups (k', q', v'))"
    if "writable (k', q', v')" "t = [] \<or> is_space (hd t)" for k' q' v' t m
    using kv_first [of k' q' v' t m] that by (simp add: writable_def kv_groups_def)
  have "finditer KV_REGEX l (kv_text (it # its)) = kv_groups it # finditer KV_REGEX (rev ?u @ l) ?t"
    unfolding it kv_text_Cons using Cons.prems
    by (intro finditer_first one) (auto simp: it space_char)
  also have "finditer KV_REGEX (rev ?u @ l) ?t = map kv_groups its"
  proof (cases its)
    case Nil
    then show ?thesis by (simp add: finditer_Nil kv_none_Nil)
  next
    case c: (Cons it' its')
    obtain k' q' v' where it': "it' = (k', q', v')" by (cases it')
    let ?u' = "k' @ ''='' @ q' @ v' @ q'" and ?t' = "if its' = [] then [] else '' '' @ kv_text its'" and ?l = "CHR '' '' # rev ?u @ l"
    have fst: "first KV_REGEX (?l, ?u' @ ?t', []) (rev ?u' @ ?l, ?t', kv_groups (k', q', v'))"
      using Cons.prems by (intro one) (auto simp: c it' space_char)
    have "finditer KV_REGEX (rev ?u @ l) ?t = finditer KV_REGEX ?l (kv_text its)"
      using finditer_skip [OF kv_none_blank fst _ refl] finditer_first [OF fst]
      by (simp add: c it' kv_text_Cons)
    then show ?thesis using Cons by simp
  qed
  finally show ?case by simp
qed

lemma digit_chars: "\<not> is_digit CHR ''_''" "\<not> is_digit CHR ''-''" "\<not> is_digit CHR ''+''"
  by (simp_all add: is_digit_def code_def)

lemma digit_no_space: "is_digit c \<Longrightarrow> \<not> is_space c"
  by (simp add: is_digit_def is_space_def Let_def)

lemma digit_run_digits: "s \<noteq> [] \<Longrightarrow> list_all is_digit s \<Longrightarrow> digit_run s"
proof (induction s rule: digit_run.induct)
  case (3 c d s)
  then have "d \<noteq> CHR ''_''" using digit_chars(1) by auto
  with 3 show ?case by simp
qed simp_all

lemma int_of_digits: "s \<noteq> [] \<Longrightarrow> list_all is_digit s \<Longrightarrow> int_of_str s = Some (int (digits_val s))"
proof -
  assume s: "s \<noteq> []" "list_all is_digit s"
  have d: "\<not> is_space c" if "c \<in> set s" for c using s(2) that by (auto simp: list_all_iff digit_no_space)
  have "strip s = s" using s(1) d by (intro strip_eq) simp
  moreover have "no_underscore s = s" using s(2) digit_chars(1) by (auto simp: no_underscore_def list_all_iff filter_id_conv)
  moreover have "split_sign s = (False, s)"
    using s digit_chars(2,3) by (cases s) (auto simp: split_sign_def)
  ultimately show ?thesis using digit_run_digits [OF s] by (simp add: int_of_str_def)
qed

lemma quotable_chars: "\<not> quotable_char CHR 0x22" "\<not> quotable_char CHR 0x27" "\<not> quotable_char CHR 0x5C"
  by (simp_all add: quotable_char_def quote_char_def among_def is_backslash_def)

lemma unquote_id: "CHR 0x22 \<notin> set v \<Longrightarrow> CHR 0x27 \<notin> set v \<Longrightarrow> unquote v = v"
  by (cases v) (force simp: unquote_def starts_with_def)+

lemma kv_value_written: "writable (k, q, v) \<Longrightarrow> kv_value v = Inr (typed v)"
proof -
  assume p: "writable (k, q, v)"
  then have "quotable_char c" if "c \<in> set v" for c using that writable_chars [of q v] by (simp add: writable_def list_all_iff)
  then have v: "CHR 0x22 \<notin> set v" "CHR 0x27 \<notin> set v" "CHR 0x5C \<notin> set v" using quotable_chars by blast+
  have "unquote v = v" using v(1,2) by (rule unquote_id)
  moreover have "unescape v = v" using v by (simp add: unescape_def str_replace_id)
  moreover have "str_to_int v = Inr (PInt (int (digits_val v)))" if "isdigit v"
  proof -
    from that p have "v \<noteq> []" "list_all is_digit v" "length v \<le> 4300" by (simp_all add: writable_def isdigit_def)
    then show ?thesis by (simp add: str_to_int_def int_of_digits)
  qed
  ultimately show ?thesis by (simp add: kv_value_def typed_def)
qed

lemma kv_fields_written:
  "list_all writable its \<Longrightarrow>
     kv_fields (map kv_groups its) d = Inr (dict_update d (map (\<lambda>(k, q, v). (k, typed v)) its))"
proof (induction its arbitrary: d)
  case (Cons it its)
  then show ?case using kv_value_written [of "fst it" "fst (snd it)" "snd (snd it)"]
    by (cases it) (simp add: kv_groups_def grp_def dict_update_def)
qed (simp add: dict_update_def)


subsection \<open>Headers of CEF and LEEF\<close>

text \<open>A tag is seen behind every blank that it follows; \<open>hidden\<close>: there is no such place in a text.\<close>

definition hidden :: "string \<Rightarrow> string \<Rightarrow> bool" where
  "hidden tag t \<longleftrightarrow> list_all (\<lambda>n. is_space (t ! n) \<longrightarrow> \<not> starts_with (drop (Suc n) t) tag) [0..<length t]"

lemma hidden_no_blank: "list_all (\<lambda>c. \<not> is_space c) t \<Longrightarrow> hidden tag t"
  by (auto simp: hidden_def list_all_iff)

definition after_blank :: "string \<Rightarrow> nat \<Rightarrow> re_state list" where
  "after_blank t n = (if n < length t \<and> is_space (t ! n) then [(rev (take (Suc n) t), drop (Suc n) t, [])] else [])"

lemma prefix_matches:
  "matches header_prefix ([], t, []) = concat (map (after_blank t) [0..<Suc (length t)]) @ [([], t, [])]"
proof -
  have all: "takeWhile any_char t = t" by (simp add: any_char_def takeWhile_eq_all_conv)
  have step: "matches (re_seq [RSet is_space]) (rev (take n t) @ [], drop n t, []) = after_blank t n" for n
    by (cases "n < length t") (auto simp: after_blank_def Cons_nth_drop_Suc [symmetric] take_Suc_conv_app_nth split: list.splits)
  show ?thesis
    unfolding header_prefix_def re_opt_def re_lazy_def
    by (simp add: rep_counts_def all Let_def o_def step [simplified] del: upt_Suc takeWhile_eq_all_conv)
qed

lemma lit_after_blank:
  assumes "\<not> (is_space (t ! n) \<and> starts_with (drop (Suc n) t) tag)"
  shows "concat (map (matches (re_lit tag)) (after_blank t n)) = []"
  using assms by (auto simp: after_blank_def matches_lit)

lemma first_header_plain:
  assumes "hidden tag (tag @ t)" "first (re_seq rs) (rev tag, t, []) st"
  shows "first (re_seq (header_prefix # re_lit tag # rs)) ([], tag @ t, []) st"
proof -
  let ?t = "tag @ t"
  have "concat (map (matches (re_lit tag)) (concat (map (after_blank ?t) [0..<Suc (length ?t)]))) = []"
    using assms(1) by (auto simp: hidden_def list_all_iff after_blank_def matches_lit split: if_splits)
  then have "concat (map (matches (re_seq (re_lit tag # rs))) (concat (map (after_blank ?t) [0..<Suc (length ?t)]))) = []"
    by auto
  then have "matches (re_seq (header_prefix # re_lit tag # rs)) ([], ?t, []) = matches (re_seq (re_lit tag # rs)) ([], ?t, [])"
    unfolding matches_seq(2) [of header_prefix] prefix_matches by (simp del: upt_Suc)
  then show ?thesis using first_seq_Cons [OF first_lit [of tag "[]" t "[]"], of rs st] assms(2)
    by (simp add: first_def del: matches_seq)
qed

lemma first_header_behind:
  assumes "\<And>n. n < length u \<Longrightarrow> is_space (u ! n) \<Longrightarrow> \<not> starts_with (drop (Suc n) (u @ c # tag @ t)) tag"
    and c: "is_space c" and rest: "first (re_seq rs) (rev (u @ c # tag), t, []) st"
  shows "first (re_seq (header_prefix # re_lit tag # rs)) ([], u @ c # tag @ t, []) st"
proof -
  let ?t = "u @ c # tag @ t" and ?m = "\<lambda>n. concat (map (matches (re_seq (re_lit tag # rs))) (after_blank (u @ c # tag @ t) n))"
  have split: "[0..<Suc (length ?t)] = [0..<length u] @ length u # [Suc (length u)..<Suc (length ?t)]"
    using upt_add_eq_append [of 0 "length u" "Suc (length (c # tag @ t))"] by (simp add: upt_conv_Cons del: upt_Suc)
  have "?m n = []" if "n < length u" for n
    using lit_after_blank [of ?t n tag] assms(1) [OF that] that by (auto simp: nth_append)
  then have early: "concat (map ?m [0..<Suc (length ?t)])
      = ?m (length u) @ concat (map ?m [Suc (length u)..<Suc (length ?t)])"
    unfolding split by (intro concat_map_skip) auto
  have "after_blank ?t (length u) = [(rev (u @ [c]), tag @ t, [])]" using c by (simp add: after_blank_def)
  then have "first (re_seq (re_lit tag # rs)) (rev (u @ [c]), tag @ t, []) st \<Longrightarrow> ?thesis"
    using early unfolding first_def matches_seq(2) [of header_prefix] prefix_matches
    by (auto simp: concat_map_concat simp del: upt_Suc matches_seq)
  moreover have "first (re_seq (re_lit tag # rs)) (rev (u @ [c]), tag @ t, []) st"
    using first_seq_Cons [OF first_lit [of tag "rev (u @ [c])" t "[]"], of rs st] rest by simp
  ultimately show ?thesis by blast
qed

lemma first_bar_field:
  assumes "CHR ''|'' \<notin> set v"
  shows "first (bar_field n) (l, (v @ ''|'') @ t, g) (rev (v @ ''|'') @ l, t, dict_set n v g)"
proof -
  have "first (RGroup n (re_star (\<lambda>c. c \<noteq> CHR ''|''))) (l, v @ ''|'' @ t, g) (rev v @ l, ''|'' @ t, dict_set n v g)"
    using assms by (intro first_group first_star) (auto simp: list_all_iff)
  then show ?thesis unfolding bar_field_def
    using first_seq_Cons [OF _ first_seq_Cons [OF first_one first_seq_Nil]] by force
qed

abbreviation bar_text :: "string list \<Rightarrow> string" where
  "bar_text vs \<equiv> concat (map (\<lambda>v. v @ ''|'') vs)"

lemma first_bars:
  assumes "length ns = length vs" "list_all (\<lambda>v. CHR ''|'' \<notin> set v) vs"
    and "first (re_seq rs) (rev (bar_text vs) @ l, t, dict_update g (zip ns vs)) st"
  shows "first (re_seq (map bar_field ns @ rs)) (l, bar_text vs @ t, g) st"
  using assms
proof (induction ns vs arbitrary: l g rule: list_induct2)
  case Nil
  then show ?case by (simp add: dict_update_def)
next
  case (Cons n ns v vs)
  then have "first (re_seq (map bar_field ns @ rs)) (rev (v @ ''|'') @ l, bar_text vs @ t, dict_set n v g) st"
    by (intro Cons.IH) (simp_all add: dict_update_def)
  then show ?case
    using first_seq_Cons [OF first_bar_field [of v n l "bar_text vs @ t" g]] Cons.prems by simp
qed

definition cef_text :: "string \<Rightarrow> string list \<Rightarrow> string \<Rightarrow> string" where
  "cef_text ver vs ext = ''CEF:'' @ ver @ ''|'' @ bar_text vs @ ext"

definition cef_wf :: "string \<Rightarrow> string list \<Rightarrow> string \<Rightarrow> bool" where
  "cef_wf ver vs ext \<longleftrightarrow> ver \<noteq> [] \<and> list_all is_digit ver \<and> length ver \<le> 4300 \<and> length vs = 6 \<and>
     list_all (\<lambda>v. CHR ''|'' \<notin> set v) vs \<and> (ext = [] \<or> \<not> is_space (last ext)) \<and> hidden ''CEF:'' (cef_text ver vs ext)"

definition cef_reading :: "string \<Rightarrow> string list \<Rightarrow> string \<Rightarrow> pydict result" where
  "cef_reading ver vs ext =
     rbind (if ext = [] then Inr [] else parse_kv_string ext) (\<lambda>ext_fields. Inr (dict_update
       ((''cef_version'', PInt (int (digits_val ver))) #
        zip [''device_vendor'', ''device_product'', ''device_version'', ''signature_id'', ''name'', ''severity''] (map PStr vs))
       ext_fields))"

abbreviation "cef_names \<equiv> [''vendor'', ''product'', ''dev_version'', ''signature_id'', ''name'', ''severity'']"

text \<open>What follows the version in both headers.\<close>

lemma first_fields:
  assumes "length ns = length vs" "list_all (\<lambda>v. CHR ''|'' \<notin> set v) vs"
  shows "first (re_seq (re_lit ''|'' # map bar_field ns @ [re_opt (RGroup nm (re_star any_char)), REnd]))
     (l, ''|'' @ bar_text vs @ ext, g)
     (rev (''|'' @ bar_text vs @ ext) @ l, [], dict_set nm ext (dict_update g (zip ns vs)))"
proof -
  let ?g = "dict_update g (zip ns vs)" and ?l = "rev (bar_text vs) @ CHR ''|'' # l"
  have bar: "first (re_lit ''|'') (l, ''|'' @ bar_text vs @ ext, g) (CHR ''|'' # l, bar_text vs @ ext, g)"
    using first_lit [of "''|''" l "bar_text vs @ ext" g] by simp
  have ext: "first (re_opt (RGroup nm (re_star any_char))) (?l, ext @ [], ?g) (rev ext @ ?l, [], dict_set nm ext ?g)"
    unfolding re_opt_def by (intro first_alt_left first_group first_star) (auto simp: any_char_def list_all_iff)
  have fin: "first REnd (rev ext @ ?l, [], h) (rev ext @ ?l, [], h)" for h by (simp add: first_def)
  have "first (re_seq (map bar_field ns @ [re_opt (RGroup nm (re_star any_char)), REnd]))
      (CHR ''|'' # l, bar_text vs @ ext, g) (rev ext @ ?l, [], dict_set nm ext ?g)"
    using first_seq_Cons [OF ext first_seq_Cons [OF fin first_seq_Nil]] by (intro first_bars assms) simp
  with first_seq_Cons [OF bar] show ?thesis by simp
qed

lemma first_cef_rest:
  assumes "cef_wf ver vs ext"
  shows "first (re_seq ([RGroup ''version'' (re_plus is_digit), re_lit ''|''] @ map bar_field cef_names @
       [re_opt (RGroup ''extension'' (re_star any_char)), REnd]))
     (l, ver @ ''|'' @ bar_text vs @ ext, [])
     (rev (ver @ ''|'' @ bar_text vs @ ext) @ l, [], dict_set ''extension'' ext (dict_update [(''version'', ver)] (zip cef_names vs)))"
proof -
  have ver: "first (RGroup ''version'' (re_plus is_digit)) (l, ver @ ''|'' @ bar_text vs @ ext, [])
      (rev ver @ l, ''|'' @ bar_text vs @ ext, dict_set ''version'' ver [])"
    using assms by (intro first_group first_plus) (auto simp: cef_wf_def is_digit_def code_def)
  have "length cef_names = length vs" "list_all (\<lambda>v. CHR ''|'' \<notin> set v) vs" using assms by (simp_all add: cef_wf_def)
  from first_seq_Cons [OF ver first_fields [OF this, where nm = "''extension''"]] show ?thesis by simp
qed

lemma cef_pattern:
  "CEF_PREFIX_REGEX = re_seq (header_prefix # re_lit ''CEF:'' # ([RGroup ''version'' (re_plus is_digit), re_lit ''|''] @
     map bar_field cef_names @ [re_opt (RGroup ''extension'' (re_star any_char)), REnd]))"
  by (simp add: CEF_PREFIX_REGEX_def)

lemma parse_cef_matched:
  assumes "cef_wf ver vs ext" "strip t = t"
    and "re_match CEF_PREFIX_REGEX t = Some (dict_set ''extension'' ext (dict_update [(''version'', ver)] (zip cef_names vs)))"
  shows "parse_cef_string t = cef_reading ver vs ext"
proof -
  from assms(1) obtain a b c d e f where vs: "vs = [a, b, c, d, e, f]"
    by (auto simp: cef_wf_def numeral_eq_Suc length_Suc_conv)
  have "str_to_int ver = Inr (PInt (int (digits_val ver)))"
    using assms(1) by (simp add: cef_wf_def str_to_int_def int_of_digits)
  with assms(2,3) show ?thesis
    by (simp add: parse_cef_string_def cef_header_def cef_reading_def vs grp_def dict_update_def Let_def)
qed

lemma last_cef: "cef_wf ver vs ext \<Longrightarrow> \<not> is_space (last (cef_text ver vs ext))"
proof -
  assume w: "cef_wf ver vs ext"
  then obtain us v where vs: "vs = us @ [v]" by (cases vs rule: rev_cases) (auto simp: cef_wf_def)
  have "\<not> is_space CHR ''|''" by (simp add: is_space_def code_def)
  with w show ?thesis by (auto simp: cef_text_def vs cef_wf_def)
qed

lemma cef_plain:
  assumes "cef_wf ver vs ext"
  shows "parse_cef_string (cef_text ver vs ext) = cef_reading ver vs ext"
proof (rule parse_cef_matched [OF assms])
  let ?t = "cef_text ver vs ext"
  have "\<not> is_space (hd ?t)" by (simp add: cef_text_def is_space_def code_def)
  then show "strip ?t = ?t" using last_cef [OF assms] by (intro strip_eq) simp
  show "re_match CEF_PREFIX_REGEX ?t = Some (dict_set ''extension'' ext (dict_update [(''version'', ver)] (zip cef_names vs)))"
    unfolding cef_pattern cef_text_def
    by (rule first_match, rule first_header_plain, use assms in \<open>simp add: cef_wf_def cef_text_def\<close>)
      (rule first_cef_rest [OF assms])
qed

text \<open>No blank of \<open>u\<close> is followed by the tag, in a text that begins with \<open>u\<close>.\<close>

definition hidden_in :: "string \<Rightarrow> string \<Rightarrow> string \<Rightarrow> bool" where
  "hidden_in tag u t \<longleftrightarrow> list_all (\<lambda>n. is_space (u ! n) \<longrightarrow> \<not> starts_with (drop (Suc n) t) tag) [0..<length u]"

lemma cef_behind:
  assumes w: "cef_wf ver vs ext" and u: "u \<noteq> []" "\<not> is_space (hd u)" and c: "is_space c"
    and early: "hidden_in ''CEF:'' u (u @ c # cef_text ver vs ext)"
  shows "parse_cef_string (u @ c # cef_text ver vs ext) = cef_reading ver vs ext"
proof (rule parse_cef_matched [OF w])
  let ?t = "cef_text ver vs ext"
  show "strip (u @ c # ?t) = u @ c # ?t"
    using u last_cef [OF w] by (intro strip_eq) (simp add: cef_text_def)
  show "re_match CEF_PREFIX_REGEX (u @ c # ?t) = Some (dict_set ''extension'' ext (dict_update [(''version'', ver)] (zip cef_names vs)))"
    unfolding cef_pattern cef_text_def
    by (rule first_match, rule first_header_behind [OF _ c])
      (use early in \<open>simp add: hidden_in_def list_all_iff cef_text_def\<close>, rule first_cef_rest [OF w])
qed

text \<open>The header of a CEF message and its extension are read exactly, and whatever stands before the first blank
  that is followed by a header is ignored: a syslog prefix, but also a complete CEF message whose last field
  contains another header.\<close>

theorem cef_header_exact:
  assumes "cef_wf ver vs ext"
  shows "parse_cef_string (cef_text ver vs ext) = cef_reading ver vs ext \<and>
    (\<forall>u c. u \<noteq> [] \<and> \<not> is_space (hd u) \<and> is_space c \<and> hidden_in ''CEF:'' u (u @ c # cef_text ver vs ext) \<longrightarrow>
       parse_cef_string (u @ c # cef_text ver vs ext) = cef_reading ver vs ext)"
  using cef_plain [OF assms] cef_behind [OF assms] by blast

lemma split_on_join: "ws \<noteq> [] \<Longrightarrow> list_all (\<lambda>w. sep \<notin> set w) ws \<Longrightarrow> split_on sep (join [sep] ws) = ws"
proof (induction ws)
  case (Cons w ws)
  then show ?case by (cases ws) (auto simp: split_on_nosep split_on_append_sep)
qed simp

definition item_text :: "string \<times> string \<Rightarrow> string" where
  "item_text kv = fst kv @ ''='' @ snd kv"

lemma leef_items_pairs:
  "list_all (\<lambda>kv. CHR ''='' \<notin> set (fst kv)) kvs \<Longrightarrow>
     leef_items (map item_text kvs) d = dict_update d (map (\<lambda>(k, v). (strip k, PStr (strip v))) kvs)"
proof (induction kvs arbitrary: d)
  case (Cons kv kvs)
  obtain k v where kv: "kv = (k, v)" by (cases kv)
  with Cons.prems have k: "\<forall>c \<in> set k. c \<noteq> CHR ''=''" by auto
  have "dropWhile (\<lambda>c. c \<noteq> CHR ''='') (k @ ''='' @ v) = ''='' @ v" "takeWhile (\<lambda>c. c \<noteq> CHR ''='') (k @ ''='' @ v) = k"
    using k by (simp_all add: dropWhile_append2 takeWhile_append2)
  then show ?case using Cons by (simp add: kv item_text_def dict_update_def)
qed (simp add: dict_update_def)

definition leef_text :: "string list \<Rightarrow> char \<Rightarrow> (string \<times> string) list \<Rightarrow> string" where
  "leef_text vs delim kvs = ''LEEF:'' @ ''2.0'' @ ''|'' @ bar_text vs @ [delim, CHR ''|''] @ join [delim] (map item_text kvs)"

definition leef_wf :: "string list \<Rightarrow> char \<Rightarrow> (string \<times> string) list \<Rightarrow> bool" where
  "leef_wf vs delim kvs \<longleftrightarrow> length vs = 4 \<and> list_all (\<lambda>v. CHR ''|'' \<notin> set v) vs \<and> kvs \<noteq> [] \<and>
     delim \<noteq> CHR 0x09 \<and> delim \<noteq> CHR '' '' \<and> list_all (\<lambda>kv. delim \<notin> set (item_text kv) \<and> CHR ''='' \<notin> set (fst kv)) kvs \<and>
     \<not> is_space (last (item_text (last kvs))) \<and> hidden ''LEEF:'' (leef_text vs delim kvs)"

abbreviation "leef_names \<equiv> [''vendor'', ''product'', ''dev_version'', ''event_id'']"

lemma last_join: "ws \<noteq> [] \<Longrightarrow> last ws \<noteq> [] \<Longrightarrow> last (join sep ws) = last (last ws) \<and> join sep ws \<noteq> []"
  by (induction sep ws rule: join.induct) auto

lemma leef_pattern:
  "LEEF_PREFIX_REGEX = re_seq (header_prefix # re_lit ''LEEF:'' #
     ([RGroup ''version'' (RAlt (re_lit ''1.0'') (re_lit ''2.0'')), re_lit ''|''] @
     map bar_field leef_names @ [re_opt (RGroup ''remainder'' (re_star any_char)), REnd]))"
  by (simp add: LEEF_PREFIX_REGEX_def)

lemma first_leef_rest:
  assumes "leef_wf vs delim kvs"
  shows "first (re_seq ([RGroup ''version'' (RAlt (re_lit ''1.0'') (re_lit ''2.0'')), re_lit ''|''] @ map bar_field leef_names @
       [re_opt (RGroup ''remainder'' (re_star any_char)), REnd]))
     (l, ''2.0'' @ ''|'' @ bar_text vs @ r, [])
     (rev (''2.0'' @ ''|'' @ bar_text vs @ r) @ l, [], dict_set ''remainder'' r (dict_update [(''version'', ''2.0'')] (zip leef_names vs)))"
proof -
  have "first (RAlt (re_lit ''1.0'') (re_lit ''2.0'')) (l, ''2.0'' @ t, []) (rev ''2.0'' @ l, t, [])" for t
    by (rule first_alt_right [OF _ first_lit]) (simp add: matches_lit starts_with_def)
  then have ver: "first (RGroup ''version'' (RAlt (re_lit ''1.0'') (re_lit ''2.0''))) (l, ''2.0'' @ ''|'' @ bar_text vs @ r, [])
      (rev ''2.0'' @ l, ''|'' @ bar_text vs @ r, dict_set ''version'' ''2.0'' [])"
    by (rule first_group)
  have "length leef_names = length vs" "list_all (\<lambda>v. CHR ''|'' \<notin> set v) vs" using assms by (simp_all add: leef_wf_def)
  from first_seq_Cons [OF ver first_fields [OF this, where nm = "''remainder''"]] show ?thesis by simp
qed

lemma leef_extension_custom:
  assumes "leef_wf vs delim kvs"
  shows "leef_extension ''2.0'' ([delim, CHR ''|''] @ join [delim] (map item_text kvs))
    = Inr (dict_update [] (map (\<lambda>(k, v). (strip k, PStr (strip v))) kvs))"
proof -
  have "join [delim] (map item_text kvs) \<noteq> []"
    using assms last_join [of "map item_text kvs" "[delim]"] by (auto simp: leef_wf_def item_text_def last_map)
  moreover have "split_on delim (join [delim] (map item_text kvs)) = map item_text kvs"
    using assms by (intro split_on_join) (auto simp: leef_wf_def list_all_iff)
  moreover have "list_all (\<lambda>kv. CHR ''='' \<notin> set (fst kv)) kvs" using assms by (auto simp: leef_wf_def list_all_iff)
  ultimately show ?thesis using assms
    by (auto simp: leef_extension_def leef_delimiter_def leef_wf_def leef_items_pairs)
qed

text \<open>A LEEF 2.0 message that names its delimiter is read back: the four fields of the header and then the items,
  without the blanks around keys and values.\<close>

theorem leef_roundtrip:
  assumes w: "leef_wf vs delim kvs"
  shows "parse_leef_string (leef_text vs delim kvs) = Inr (dict_update
    ((''leef_version'', PStr ''2.0'') # zip [''vendor'', ''product'', ''device_version'', ''event_id''] (map PStr vs))
    (dict_update [] (map (\<lambda>(k, v). (strip k, PStr (strip v))) kvs)))"
proof -
  let ?t = "leef_text vs delim kvs" and ?r = "[delim, CHR ''|''] @ join [delim] (map item_text kvs)"
  from w obtain a b c d where vs: "vs = [a, b, c, d]" by (auto simp: leef_wf_def numeral_eq_Suc length_Suc_conv)
  have "last ?t = last (item_text (last kvs))"
    using w last_join [of "map item_text kvs" "[delim]"] by (auto simp: leef_wf_def leef_text_def item_text_def last_map)
  moreover have "\<not> is_space (hd ?t)" by (simp add: leef_text_def is_space_def code_def)
  ultimately have s: "strip ?t = ?t" using w by (intro strip_eq) (auto simp: leef_wf_def)
  have "re_match LEEF_PREFIX_REGEX ?t = Some (dict_set ''remainder'' ?r (dict_update [(''version'', ''2.0'')] (zip leef_names vs)))"
    unfolding leef_pattern leef_text_def
    by (rule first_match, rule first_header_plain, use w in \<open>simp add: leef_wf_def leef_text_def\<close>)
      (rule first_leef_rest [OF w])
  with s leef_extension_custom [OF w] show ?thesis
    by (simp add: parse_leef_string_def leef_header_def vs grp_def dict_update_def Let_def)
qed

subsection \<open>Flattening\<close>

text \<open>The leaves of a nested dictionary with their paths, and the value at a path.\<close>

function leaves :: "pydict \<Rightarrow> (string list \<times> pyval) list" where
  "leaves [] = []"
| "leaves ((k, v) # d) =
     (case v of PDict e \<Rightarrow> map (\<lambda>(ks, w). (k # ks, w)) (leaves e) | _ \<Rightarrow> [([k], v)]) @ leaves d"
  by pat_completeness auto
termination by (relation "measure (size_list (size_prod (\<lambda>_. 0) size))") auto

fun leaf :: "pydict \<Rightarrow> string list \<Rightarrow> pyval option" where
  "leaf d [] = None"
| "leaf d [k] = (case map_of d k of Some v \<Rightarrow> if is_dict v then None else Some v | None \<Rightarrow> None)"
| "leaf d (k # ks) = (case map_of d k of Some (PDict e) \<Rightarrow> leaf e ks | _ \<Rightarrow> None)"

text \<open>At every level the keys are distinct, not empty and without a dot.\<close>

definition plain_key :: "string \<Rightarrow> bool" where
  "plain_key k \<longleftrightarrow> k \<noteq> [] \<and> CHR ''.'' \<notin> set k"

function flat_ok :: "pydict \<Rightarrow> bool" where
  "flat_ok [] = True"
| "flat_ok ((k, v) # d) =
     (plain_key k \<and> k \<notin> fst ` set d \<and> (case v of PDict e \<Rightarrow> flat_ok e | _ \<Rightarrow> True) \<and> flat_ok d)"
  by pat_completeness auto
termination by (relation "measure (size_list (size_prod (\<lambda>_. 0) size))") auto

definition path_key :: "string \<Rightarrow> string list \<Rightarrow> string" where
  "path_key p ks = nested_key p (join ''.'' ks)"

lemma path_key_Cons:
  "k \<noteq> [] \<Longrightarrow> path_key p [k] = nested_key p k"
  "k \<noteq> [] \<Longrightarrow> ks \<noteq> [] \<Longrightarrow> path_key (nested_key p k) ks = path_key p (k # ks)"
  by (cases ks; simp add: path_key_def nested_key_def)+

lemma leaves_paths: "flat_ok d \<Longrightarrow> (ks, v) \<in> set (leaves d) \<Longrightarrow> ks \<noteq> [] \<and> list_all plain_key ks \<and> hd ks \<in> fst ` set d"
proof (induction d arbitrary: ks v rule: leaves.induct)
  case (2 k w d)
  show ?case
  proof (cases "(ks, v) \<in> set (leaves d)")
    case True
    then show ?thesis using 2 by auto
  next
    case new: False
    show ?thesis
    proof (cases w)
      case (PDict e)
      then obtain ks' where ks: "ks = k # ks'" "(ks', v) \<in> set (leaves e)" using 2(4) new by auto
      with 2(1) [OF PDict, of ks' v] 2(3) PDict show ?thesis by simp
    qed (use 2(3,4) new in auto)
  qed
qed simp

lemma split_join_path: "ks \<noteq> [] \<Longrightarrow> list_all plain_key ks \<Longrightarrow> split_on CHR ''.'' (join ''.'' ks) = ks"
  by (rule split_on_join) (auto simp: plain_key_def list_all_iff)

lemma leaves_distinct: "flat_ok d \<Longrightarrow> distinct (map fst (leaves d))"
proof (induction d rule: leaves.induct)
  case (2 k v d)
  have rest: "distinct (map fst (leaves d))" "k \<notin> fst ` set d" using 2 by auto
  then have new: "k # ks \<notin> fst ` set (leaves d)" for ks
    using leaves_paths [of d "k # ks"] 2(3) by force
  show ?case
  proof (cases v)
    case (PDict e)
    then have "distinct (map fst (leaves e))" using 2 by simp
    then have "distinct (map ((#) k) (map fst (leaves e)))" by (simp only: distinct_map) (simp add: inj_on_def)
    then have "distinct (map fst (map (\<lambda>(ks, w). (k # ks, w)) (leaves e)))" by (simp add: o_def case_prod_unfold)
    moreover have "x \<notin> fst ` set (leaves d)" if "x \<in> fst ` set (map (\<lambda>(ks, w). (k # ks, w)) (leaves e))" for x
    proof -
      from that obtain ks where "x = k # ks" by auto
      then show ?thesis using new by simp
    qed
    ultimately show ?thesis using rest(1) by (auto simp: PDict)
  qed (use rest new in auto)
qed simp

lemma path_key_inj: "inj_on (path_key p) {ks. ks \<noteq> [] \<and> list_all plain_key ks}"
proof (rule inj_onI)
  fix ks ks' assume k: "ks \<in> {ks. ks \<noteq> [] \<and> list_all plain_key ks}" "ks' \<in> {ks. ks \<noteq> [] \<and> list_all plain_key ks}"
    and e: "path_key p ks = path_key p ks'"
  from e have "join ''.'' ks = join ''.'' ks'" by (simp add: path_key_def nested_key_def split: if_splits)
  then have "split_on CHR ''.'' (join ''.'' ks) = split_on CHR ''.'' (join ''.'' ks')" by simp
  then show "ks = ks'" using k by (simp add: split_join_path)
qed

lemma dict_update_new: "distinct (map fst (d @ xs)) \<Longrightarrow> dict_update d xs = d @ xs"
proof (induction xs arbitrary: d)
  case (Cons x xs)
  then show ?case by (cases x) (auto simp: dict_update_def dict_set_new dict_has_iff)
qed (simp add: dict_update_def)

lemma distinct_path_keys: "flat_ok d \<Longrightarrow> distinct (map fst (map (\<lambda>(ks, w). (path_key p ks, w)) (leaves d)))"
proof -
  assume f: "flat_ok d"
  have "map fst (map (\<lambda>(ks, w). (path_key p ks, w)) (leaves d)) = map (path_key p) (map fst (leaves d))" by auto
  moreover have "inj_on (path_key p) (set (map fst (leaves d)))"
    by (rule inj_on_subset [OF path_key_inj]) (use leaves_paths [OF f] in auto)
  ultimately show ?thesis using leaves_distinct [OF f] by (simp only: distinct_map simp_thms)
qed

lemma flatten_items_leaves: "flat_ok d \<Longrightarrow> flatten_items p d = map (\<lambda>(ks, w). (path_key p ks, w)) (leaves d)"
proof (induction p d rule: flatten_items.induct)
  case (2 p k v d)
  then have k: "k \<noteq> []" and d: "flat_ok d" by (auto simp: plain_key_def)
  have rest: "flatten_items p d = map (\<lambda>(ks, w). (path_key p ks, w)) (leaves d)" using 2 d by simp
  show ?case
  proof (cases v)
    case (PDict e)
    then have e: "flat_ok e" using 2 by simp
    then have ih: "flatten_items (nested_key p k) e = map (\<lambda>(ks, w). (path_key (nested_key p k) ks, w)) (leaves e)"
      using 2 PDict by simp
    have "\<dots> = map (\<lambda>(ks, w). (path_key p (k # ks), w)) (leaves e)"
      using leaves_paths [OF e] k by (auto simp: path_key_Cons(2))
    then show ?thesis using ih distinct_path_keys [OF e] rest PDict by (simp add: dict_update_new o_def case_prod_unfold)
  qed (use rest k in \<open>simp_all add: path_key_Cons(1)\<close>)
qed simp

lemma leaf_cases:
  obtains (Nil) "ks = []" | (One) k where "ks = [k]" | (More) k k' ks' where "ks = k # k' # ks'"
  by (metis list.exhaust)

lemma leaves_leaf: "flat_ok d \<Longrightarrow> (ks, v) \<in> set (leaves d) \<longleftrightarrow> leaf d ks = Some v"
proof (induction d arbitrary: ks v rule: leaves.induct)
  case 1
  show ?case by (cases ks rule: leaf_cases) auto
next
  case (2 k w d)
  have other: "(k # ks, v) \<notin> set (leaves d)" for ks v
    using leaves_paths [of d "k # ks" v] 2(3) by auto
  have none: "map_of d k = None" using 2(3) by (simp add: map_of_eq_None_iff)
  have nil: "([], v) \<notin> set (leaves e)" if "flat_ok e" for e v using leaves_paths [OF that, of "[]" v] by auto
  show ?case
  proof (cases ks rule: leaf_cases)
    case Nil
    then show ?thesis using nil 2(3) by (auto split: pyval.splits)
  next
    case (One k')
    with 2 other nil none show ?thesis by (cases "k' = k"; cases w) auto
  next
    case (More k' k'' ks')
    with 2 other none show ?thesis by (cases "k' = k"; cases w) auto
  qed
qed

text \<open>A dictionary built from pairs keeps, for every key, the last of its values.\<close>

lemma map_of_dict_update_last: "map_of (dict_update d xs) k = (case map_of (rev xs) k of Some v \<Rightarrow> Some v | None \<Rightarrow> map_of d k)"
proof (induction xs arbitrary: d)
  case (Cons x xs)
  then show ?case by (cases x) (auto simp: dict_update_def split: option.splits)
qed (simp add: dict_update_def)

lemma map_of_rev_distinct: "distinct (map fst xs) \<Longrightarrow> map_of (rev xs) = map_of xs"
  by (rule map_of_eqI) (auto simp: map_of_eq_Some_iff rev_map [symmetric] dest: map_of_SomeD)

text \<open>The key of a path, whatever the keys on it.\<close>

definition dotted :: "string \<Rightarrow> string list \<Rightarrow> string" where
  "dotted p ks = foldl nested_key p ks"

lemma flatten_items_last: "map_of (rev (flatten_items p d)) = map_of (rev (map (\<lambda>(ks, w). (dotted p ks, w)) (leaves d)))"
proof (induction p d rule: flatten_items.induct)
  case (2 p k v d)
  show ?case
  proof (cases v)
    case (PDict e)
    let ?sub = "dict_update [] (flatten_items (nested_key p k) e)"
    have "distinct (map fst ?sub)" using dict_wf_update [of "[]"] by (simp add: dict_wf_def)
    then have "map_of (rev ?sub) = map_of ?sub" by (rule map_of_rev_distinct)
    also have "\<dots> = map_of (rev (flatten_items (nested_key p k) e))" by (rule ext) (simp add: map_of_dict_update_last split: option.splits)
    also have "\<dots> = map_of (rev (map (\<lambda>(ks, w). (dotted p (k # ks), w)) (leaves e)))" using 2 PDict by (simp add: dotted_def)
    finally show ?thesis using 2 PDict by (simp add: o_def case_prod_unfold)
  qed (use 2 in \<open>simp_all add: dotted_def\<close>)
qed simp

lemma flatten_lookup_plain:
  assumes "flat_ok d"
  shows "map_of (flatten_dict d []) key = leaf d (split_on CHR ''.'' key)"
proof -
  let ?xs = "map (\<lambda>(ks, w). (path_key [] ks, w)) (leaves d)"
  have flat: "flatten_dict d [] = ?xs"
    using distinct_path_keys [OF assms, of "[]"]
    by (simp add: flatten_dict_def flatten_items_leaves [OF assms] dict_update_new)
  have "map_of ?xs key = Some v \<longleftrightarrow> leaf d (split_on CHR ''.'' key) = Some v" for v
  proof -
    have "map_of ?xs key = Some v \<longleftrightarrow> (key, v) \<in> set ?xs"
      by (rule map_of_eq_Some_iff [OF distinct_path_keys [OF assms]])
    also have "\<dots> \<longleftrightarrow> (split_on CHR ''.'' key, v) \<in> set (leaves d)"
    proof
      assume "(key, v) \<in> set ?xs"
      then obtain ks where ks: "(ks, v) \<in> set (leaves d)" "key = path_key [] ks" by auto
      then show "(split_on CHR ''.'' key, v) \<in> set (leaves d)"
        using leaves_paths [OF assms ks(1)] by (simp add: path_key_def nested_key_def split_join_path)
    next
      assume "(split_on CHR ''.'' key, v) \<in> set (leaves d)"
      then show "(key, v) \<in> set ?xs"
        by (force simp: path_key_def nested_key_def join_split_on)
    qed
    finally show ?thesis using leaves_leaf [OF assms] by simp
  qed
  then show ?thesis unfolding flat by (metis option.exhaust)
qed


subsection \<open>Examples\<close>

text \<open>Two paths with the same dotted key: the last leaf wins.\<close>

lemma demo_flatten_collision:
  "flatten_dict [(''a'', PDict [(''b'', PInt 1)]), (''a.b'', PInt 2)] [] = [(''a.b'', PInt 2)]"
  by code_simp


text \<open>A value that carries a header replaces the header of the message.\<close>

definition injected :: string where
  "injected = cef_text ''0'' [''Acme'', ''Gate'', ''1'', ''100'', ''login'', ''9''] ''msg=x''"

theorem cef_header_exact_witness:
  "parse_cef_string (injected @ CHR '' '' # cef_text ''0'' [''Evil'', ''Fake'', ''1'', ''1'', ''ok'', ''0''] []) =
     Inr [(''cef_version'', PInt 0), (''device_vendor'', PStr ''Evil''), (''device_product'', PStr ''Fake''),
       (''device_version'', PStr ''1''), (''signature_id'', PStr ''1''), (''name'', PStr ''ok''), (''severity'', PStr ''0'')]"
proof -
  let ?vs = "[''Evil'', ''Fake'', ''1'', ''1'', ''ok'', ''0'']"
  have "cef_wf ''0'' ?vs []" by code_simp
  from cef_header_exact [OF this]
  have "injected \<noteq> [] \<and> \<not> is_space (hd injected) \<and> is_space CHR '' '' \<and>
      hidden_in ''CEF:'' injected (injected @ CHR '' '' # cef_text ''0'' ?vs []) \<Longrightarrow>
      parse_cef_string (injected @ CHR '' '' # cef_text ''0'' ?vs []) = cef_reading ''0'' ?vs []" by blast
  moreover have "injected \<noteq> [] \<and> \<not> is_space (hd injected) \<and> is_space CHR '' ''" by code_simp
  moreover have "hidden_in ''CEF:'' injected (injected @ CHR '' '' # cef_text ''0'' ?vs [])" by code_simp
  moreover have "cef_reading ''0'' ?vs [] =
      Inr [(''cef_version'', PInt 0), (''device_vendor'', PStr ''Evil''), (''device_product'', PStr ''Fake''),
       (''device_version'', PStr ''1''), (''signature_id'', PStr ''1''), (''name'', PStr ''ok''), (''severity'', PStr ''0'')]"
    by code_simp
  ultimately show ?thesis by simp
qed

theorem leef_roundtrip_witness:
  "parse_leef_string (leef_text [''Acme'', ''Gate'', ''1'', ''login''] CHR ''^'' [(''src'', ''10.0.0.1''), (''user'', ''bob'')]) =
     Inr [(''leef_version'', PStr ''2.0''), (''vendor'', PStr ''Acme''), (''product'', PStr ''Gate''),
       (''device_version'', PStr ''1''), (''event_id'', PStr ''login''), (''src'', PStr ''10.0.0.1''), (''user'', PStr ''bob'')]"
proof -
  have "hidden ''LEEF:'' (leef_text [''Acme'', ''Gate'', ''1'', ''login''] CHR ''^'' [(''src'', ''10.0.0.1''), (''user'', ''bob'')])"
    by (rule hidden_no_blank) (simp add: leef_text_def item_text_def is_space_def code_def)
  then have "leef_wf [''Acme'', ''Gate'', ''1'', ''login''] CHR ''^'' [(''src'', ''10.0.0.1''), (''user'', ''bob'')]"
    by (simp add: leef_wf_def item_text_def is_space_def code_def)
  from leef_roundtrip [OF this] show ?thesis by (simp add: dict_update_def) code_simp
qed


end
