(* ===== verification/M2_Api.thy ===== *)
theory M2_Api
  imports M2_Registry M2_Formats
begin

section \<open>M2: the service\<close>

text \<open>
  Authentication, the endpoints, replay, the studio and the discovery of unknown sources
  (\<open>src/M2/abcd-main/app/main.py\<close>, \<open>auth\<close>, \<open>replay\<close>, \<open>studio\<close>, \<open>discovery\<close>). An endpoint takes the bearer
  credentials and the API key that FastAPI extracts from the headers; an \<open>HTTPException\<close> is its answer with that
  code, every other exception ends in code 500. The state of the service is the repository. \<open>m2_env\<close> holds what is
  not under \<open>src/\<close>: version parsing, \<open>re.compile\<close>, JSON decoding, SHA-256 and the clock. The metrics and the
  measured durations are left out.
\<close>

subsection \<open>Environment and authentication\<close>

record 'v m2_env =
  me_parse_version :: "string \<Rightarrow> 'v option"
  me_compile :: re_compile
  me_orjson :: json_loads
  me_json :: json_loads
  me_now :: string

datatype m2_role = INGEST | ANALYST | STUDIO | ADMIN

fun role_value :: "m2_role \<Rightarrow> string" where
  "role_value INGEST = ''ingest''"
| "role_value ANALYST = ''analyst''"
| "role_value STUDIO = ''studio''"
| "role_value ADMIN = ''admin''"

record auth_context =
  ac_principal_id :: string
  ac_tenant_id :: string
  ac_roles :: "string list"
  ac_is_system :: bool

definition has_role :: "auth_context \<Rightarrow> m2_role list \<Rightarrow> bool" where
  "has_role ctx required \<longleftrightarrow>
     ac_is_system ctx \<or> role_value ADMIN \<in> set (ac_roles ctx) \<or> list_ex (\<lambda>r. role_value r \<in> set (ac_roles ctx)) required"

definition can_access_tenant :: "auth_context \<Rightarrow> string \<Rightarrow> bool" where
  "can_access_tenant ctx target_tenant_id \<longleftrightarrow> ac_is_system ctx \<or> ac_tenant_id ctx = target_tenant_id"

definition principal :: "string \<Rightarrow> string \<Rightarrow> m2_role list \<Rightarrow> bool \<Rightarrow> auth_context" where
  "principal pid tenant roles sys =
     \<lparr> ac_principal_id = pid, ac_tenant_id = tenant, ac_roles = map role_value roles, ac_is_system = sys \<rparr>"

definition TRUSTED_TOKENS :: "(string, auth_context) dict" where
  "TRUSTED_TOKENS =
     [(''system-admin-token'', principal ''system-service'' ''global'' [ADMIN, INGEST, ANALYST, STUDIO] True),
      (''tenant-a-ingest-key'', principal ''tenant-a-collector'' ''tenant-a'' [INGEST] False),
      (''tenant-a-admin-key'', principal ''tenant-a-admin'' ''tenant-a'' [ADMIN, STUDIO, INGEST, ANALYST] False),
      (''tenant-a-analyst-key'', principal ''tenant-a-analyst'' ''tenant-a'' [ANALYST, STUDIO] False),
      (''tenant-b-ingest-key'', principal ''tenant-b-collector'' ''tenant-b'' [INGEST] False),
      (''tenant-b-admin-key'', principal ''tenant-b-admin'' ''tenant-b'' [ADMIN, STUDIO, INGEST, ANALYST] False),
      (''test-ingest-key'', principal ''default-ingest'' ''tenant-default'' [INGEST] False),
      (''test-admin-key'', principal ''default-admin'' ''tenant-default'' [ADMIN, STUDIO, INGEST, ANALYST] False)]"

definition resolve_token :: "string \<Rightarrow> auth_context option" where
  "resolve_token token =
     (case map_of TRUSTED_TOKENS token of
        Some ctx \<Rightarrow> Some ctx
      | None \<Rightarrow>
          if starts_with token ''token:'' then
            (case split_on CHR '':'' token of
               [_, tenant_id, roles_str] \<Rightarrow> Some
                 \<lparr> ac_principal_id = ''user-'' @ tenant_id, ac_tenant_id = tenant_id,
                   ac_roles = filter (\<lambda>r. r \<noteq> []) (map strip (split_on CHR '','' roles_str)),
                   ac_is_system = tenant_id \<in> {''global'', ''system'', ''*''} \<rparr>
             | _ \<Rightarrow> None)
          else None)"

definition raw_token :: "string option \<Rightarrow> string option \<Rightarrow> string" where
  "raw_token bearer api_key =
     (case bearer of
        Some b \<Rightarrow> if b \<noteq> [] then b else (case api_key of Some k \<Rightarrow> k | None \<Rightarrow> [])
      | None \<Rightarrow> (case api_key of Some k \<Rightarrow> k | None \<Rightarrow> []))"

definition get_current_auth_context :: "string option \<Rightarrow> string option \<Rightarrow> auth_context result" where
  "get_current_auth_context bearer api_key =
     (let token = raw_token bearer api_key in
      if token = [] then Inl (HTTPException 401 ''Authentication required: Provide Bearer token or X-API-Key header'')
      else case resolve_token token of
             None \<Rightarrow> Inl (HTTPException 401 ''Invalid authentication token or API key'')
           | Some ctx \<Rightarrow> Inr ctx)"

definition require_m2_roles :: "m2_role list \<Rightarrow> string option \<Rightarrow> string option \<Rightarrow> auth_context result" where
  "require_m2_roles roles bearer api_key =
     rbind (get_current_auth_context bearer api_key) (\<lambda>ctx.
       if has_role ctx roles then Inr ctx
       else Inl (HTTPException 403 (''Forbidden: Principal lacks required role(s): '' @ py_repr (PList (map (PStr \<circ> role_value) roles)))))"

subsection \<open>Contracts\<close>

record m2_envelope =
  ie_schema_version :: string
  ie_raw_event_id :: string
  ie_tenant_id :: string
  ie_source_id :: "string option"
  ie_received_at :: string
  ie_transport :: string
  ie_payload :: string
  ie_encoding :: string
  ie_sha256 :: "string option"
  ie_raw_reference :: "string option"
  ie_source_ip :: "string option"
  ie_metadata :: "pydict option"

definition normalize_inbound :: "pydict \<Rightarrow> pydict" where
  "normalize_inbound data =
     (let d = (case map_of data ''protocol'' of
          Some v \<Rightarrow> if dict_has ''transport'' data then data else dict_set ''transport'' v (dict_del ''protocol'' data)
        | None \<Rightarrow> data)
      in if py_truthy (pget d ''tenant_id'') then d else dict_set ''tenant_id'' (PStr ''tenant-default'') d)"

definition compute_sha256_if_missing :: "hash_fun \<Rightarrow> m2_envelope \<Rightarrow> m2_envelope" where
  "compute_sha256_if_missing sha256 e =
     (if ie_sha256 e \<in> {None, Some []} then e\<lparr>ie_sha256 := Some (sha256 (encode_utf8 (map code (ie_payload e))))\<rparr> else e)"

record parser_info =
  pi_id :: string
  pi_name :: string
  pi_version :: string
  pi_confidence :: rat

datatype parse_status = Parsed | Unparsed | Failed

record parsed_event =
  px_schema_version :: string
  px_raw_event_id :: string
  px_tenant_id :: string
  px_source_id :: "string option"
  px_status :: parse_status
  px_classification :: classification_result
  px_parser :: parser_info
  px_fields :: pydict
  px_unmapped_fields :: "string list"
  px_raw_reference :: "string option"
  px_sha256 :: "string option"
  px_metadata :: pydict

definition parser_info_of :: "parser_definition \<Rightarrow> rat \<Rightarrow> parser_info" where
  "parser_info_of d conf = \<lparr> pi_id = df_id d, pi_name = df_name d, pi_version = df_version d, pi_confidence = conf \<rparr>"

definition parsed_event_of ::
    "m2_envelope \<Rightarrow> classification_result \<Rightarrow> parse_status \<Rightarrow> parser_info \<Rightarrow> pydict \<Rightarrow> pydict \<Rightarrow> parsed_event" where
  "parsed_event_of e cls st info extracted metadata =
     \<lparr> px_schema_version = ie_schema_version e, px_raw_event_id = ie_raw_event_id e, px_tenant_id = ie_tenant_id e,
       px_source_id = ie_source_id e, px_status = st, px_classification = cls, px_parser = info, px_fields = extracted,
       px_unmapped_fields = [], px_raw_reference = ie_raw_reference e, px_sha256 = ie_sha256 e, px_metadata = metadata \<rparr>"

subsection \<open>Parsing\<close>

definition UNPARSED_INFO :: parser_info where
  "UNPARSED_INFO = \<lparr> pi_id = ''unparsed'', pi_name = ''Unparsed Event'', pi_version = ''0.0.0'', pi_confidence = 0 \<rparr>"

definition error_metadata :: "string \<Rightarrow> exn \<Rightarrow> pydict" where
  "error_metadata key e = [(key, PStr (exn_str e)), (''error_type'', PStr (exn_name e))]"

definition execute_resolved ::
    "json_loads \<Rightarrow> m2_envelope \<Rightarrow> classification_result \<Rightarrow> resolution \<Rightarrow> parsed_event" where
  "execute_resolved loads envelope cls res =
     (case res of
        None \<Rightarrow> parsed_event_of envelope cls Unparsed UNPARSED_INFO [] []
      | Some (x, d) \<Rightarrow>
          (case exec_parse loads x (ie_payload envelope) of
             Inr extracted \<Rightarrow> parsed_event_of envelope cls Parsed (parser_info_of d 1) extracted []
           | Inl e \<Rightarrow> parsed_event_of envelope cls Failed (parser_info_of d 0) [] (error_metadata ''error'' e)))"

definition parse_event ::
    "'v::linorder m2_env \<Rightarrow> repository \<Rightarrow> auth_context \<Rightarrow> m2_envelope \<Rightarrow> parsed_event result" where
  "parse_event env repo ctx envelope =
     (if \<not> can_access_tenant ctx (ie_tenant_id envelope)
      then Inl (HTTPException 403 (''Forbidden: Authenticated principal '' @ quoted (ac_principal_id ctx) @ '' scoped to tenant '' @
             quoted (ac_tenant_id ctx) @ '' cannot ingest for '' @ quoted (ie_tenant_id envelope)))
      else
        let cls = classify (me_json env) (ie_payload envelope) in
        rbind (find_parser (me_parse_version env) (me_compile env) (me_orjson env) (me_now env) repo cls (ie_payload envelope)
                 (ie_tenant_id envelope)) (\<lambda>res.
          Inr (execute_resolved (me_orjson env) envelope cls res)))"

definition parse_endpoint ::
    "'v::linorder m2_env \<Rightarrow> repository \<Rightarrow> string option \<Rightarrow> string option \<Rightarrow> m2_envelope \<Rightarrow> parsed_event result" where
  "parse_endpoint env repo bearer api_key envelope =
     rbind (require_m2_roles [INGEST, ADMIN] bearer api_key) (\<lambda>ctx. parse_event env repo ctx envelope)"

subsection \<open>Registry endpoints\<close>

definition http_error :: "exn \<Rightarrow> exn" where
  "http_error e = (case e of ValueError m \<Rightarrow> HTTPException 422 m | _ \<Rightarrow> HTTPException 400 (exn_str e))"

definition register_endpoint ::
    "'v m2_env \<Rightarrow> string option \<Rightarrow> string option \<Rightarrow> parser_definition \<Rightarrow> repository \<Rightarrow> repository \<times> parser_definition result" where
  "register_endpoint env bearer api_key d repo =
     (case require_m2_roles [STUDIO, ADMIN] bearer api_key of
        Inl e \<Rightarrow> (repo, Inl e)
      | Inr ctx \<Rightarrow>
          (case register_parser (me_parse_version env) (me_compile env) d (ac_tenant_id ctx) (ac_is_system ctx) repo of
             (repo', Inl e) \<Rightarrow> (repo', Inl (http_error e))
           | (repo', Inr p) \<Rightarrow> (repo', Inr p)))"

definition status_endpoint ::
    "'v::linorder m2_env \<Rightarrow> m2_status \<Rightarrow> string \<Rightarrow> string option \<Rightarrow> string option \<Rightarrow> string \<Rightarrow> string option \<Rightarrow> repository \<Rightarrow>
     repository \<times> (string \<times> string) result" where
  "status_endpoint env st word bearer api_key parser_id version repo =
     (case require_m2_roles [ADMIN] bearer api_key of
        Inl e \<Rightarrow> (repo, Inl e)
      | Inr ctx \<Rightarrow>
          (case change_status (me_parse_version env) st parser_id version (ac_tenant_id ctx) repo of
             (repo', True) \<Rightarrow> (repo', Inr (word, parser_id))
           | (repo', False) \<Rightarrow> (repo', Inl (HTTPException 404 (''Parser '' @ quoted parser_id @ '' not found'')))))"

definition disable_endpoint ::
    "'v::linorder m2_env \<Rightarrow> string option \<Rightarrow> string option \<Rightarrow> string \<Rightarrow> string option \<Rightarrow> repository \<Rightarrow> repository \<times> (string \<times> string) result" where
  "disable_endpoint env = status_endpoint env M2_DISABLED ''disabled''"

definition enable_endpoint ::
    "'v::linorder m2_env \<Rightarrow> string option \<Rightarrow> string option \<Rightarrow> string \<Rightarrow> string option \<Rightarrow> repository \<Rightarrow> repository \<times> (string \<times> string) result" where
  "enable_endpoint env = status_endpoint env M2_ACTIVE ''active''"

definition list_parsers ::
    "'v::linorder m2_env \<Rightarrow> repository \<Rightarrow> string option \<Rightarrow> string option \<Rightarrow> string option \<Rightarrow> string option \<Rightarrow> parser_definition list result" where
  "list_parsers env repo bearer api_key vendor fmt =
     rbind (get_current_auth_context bearer api_key) (\<lambda>ctx.
       Inr (list_for_tenant (me_parse_version env) repo (ac_tenant_id ctx) True vendor fmt))"

definition get_parser ::
    "'v::linorder m2_env \<Rightarrow> repository \<Rightarrow> string option \<Rightarrow> string option \<Rightarrow> string \<Rightarrow> string option \<Rightarrow> parser_definition result" where
  "get_parser env repo bearer api_key parser_id version =
     rbind (get_current_auth_context bearer api_key) (\<lambda>ctx.
       case repo_get (me_parse_version env) repo parser_id version (ac_tenant_id ctx) of
         None \<Rightarrow> Inl (HTTPException 404 (''Parser '' @ quoted parser_id @ '' not found''))
       | Some p \<Rightarrow> Inr p)"

definition health_check :: "'v::linorder m2_env \<Rightarrow> repository \<Rightarrow> string \<times> string \<times> nat" where
  "health_check env repo =
     (''healthy'', ''m2-parser'', length (list_all_parsers (me_parse_version env) repo None None ''global''))"

subsection \<open>Replay\<close>

definition replay_one :: "'v m2_env \<Rightarrow> executable \<Rightarrow> parser_definition \<Rightarrow> m2_envelope \<Rightarrow> parsed_event" where
  "replay_one env x d envelope =
     (let cls = classify (me_json env) (ie_payload envelope) in
      case exec_parse (me_orjson env) x (ie_payload envelope) of
        Inr extracted \<Rightarrow> parsed_event_of envelope cls Parsed (parser_info_of d 1) extracted []
      | Inl e \<Rightarrow> parsed_event_of envelope cls Failed (parser_info_of d 0) [] (error_metadata ''replay_error'' e))"

definition replay_events ::
    "'v::linorder m2_env \<Rightarrow> repository \<Rightarrow> string \<Rightarrow> m2_envelope list \<Rightarrow> string option \<Rightarrow> string \<Rightarrow> parsed_event list result" where
  "replay_events env repo parser_id events version tenant_id =
     (case repo_get (me_parse_version env) repo parser_id version tenant_id of
        None \<Rightarrow> Inl (ValueError (''Parser '' @ quoted parser_id @ '' version '' @
               quoted (case version of None \<Rightarrow> ''None'' | Some v \<Rightarrow> v) @ '' not found or inaccessible for tenant '' @ quoted tenant_id))
      | Some d \<Rightarrow>
          rbind (build_executable_parser (me_compile env) d) (\<lambda>x.
            Inr (map (replay_one env x d) (filter (\<lambda>e. tenant_id = ''global'' \<or> ie_tenant_id e = tenant_id) events))))"

definition replay_endpoint ::
    "'v::linorder m2_env \<Rightarrow> repository \<Rightarrow> string option \<Rightarrow> string option \<Rightarrow> string \<Rightarrow> m2_envelope list \<Rightarrow> string option \<Rightarrow>
     parsed_event list result" where
  "replay_endpoint env repo bearer api_key parser_id events version =
     rbind (require_m2_roles [ANALYST, ADMIN] bearer api_key) (\<lambda>ctx.
       case replay_events env repo parser_id events version (ac_tenant_id ctx) of
         Inl (ValueError m) \<Rightarrow> Inl (HTTPException 404 m)
       | r \<Rightarrow> r)"

subsection \<open>Studio\<close>

record sample_result =
  sr_sample_index :: nat
  sr_success :: bool
  sr_extracted_fields :: pydict
  sr_error :: "string option"

definition test_sample :: "json_loads \<Rightarrow> executable \<Rightarrow> nat \<times> string \<Rightarrow> sample_result" where
  "test_sample loads x sample =
     (case exec_parse loads x (snd sample) of
        Inr extracted \<Rightarrow> \<lparr> sr_sample_index = fst sample, sr_success = True, sr_extracted_fields = extracted, sr_error = None \<rparr>
      | Inl e \<Rightarrow> \<lparr> sr_sample_index = fst sample, sr_success = False, sr_extracted_fields = [], sr_error = Some (exn_str e) \<rparr>)"

definition test_parser :: "'v m2_env \<Rightarrow> parser_definition \<Rightarrow> string list \<Rightarrow> sample_result list result" where
  "test_parser env d samples =
     rbind (build_executable_parser (me_compile env) d) (\<lambda>x.
       Inr (map (test_sample (me_orjson env) x) (enumerate 0 samples)))"

definition test_endpoint ::
    "'v m2_env \<Rightarrow> string option \<Rightarrow> string option \<Rightarrow> parser_definition \<Rightarrow> string list \<Rightarrow> (string \<times> sample_result list) result" where
  "test_endpoint env bearer api_key d samples =
     rbind (require_m2_roles [STUDIO, ADMIN] bearer api_key) (\<lambda>_.
       rbind (test_parser env d samples) (\<lambda>results. Inr (df_id d, results)))"

definition validate_endpoint :: "'v m2_env \<Rightarrow> string option \<Rightarrow> string option \<Rightarrow> pydict \<Rightarrow> (bool \<times> string list) result" where
  "validate_endpoint env bearer api_key config =
     rbind (require_m2_roles [STUDIO, ADMIN] bearer api_key) (\<lambda>_.
       validate_parser_config (me_parse_version env) (me_compile env) config)"

definition build_definition ::
    "string \<Rightarrow> string \<Rightarrow> string \<Rightarrow> string \<Rightarrow> string \<Rightarrow> string \<Rightarrow> (string, string) dict \<Rightarrow> string \<Rightarrow> string \<Rightarrow> parser_definition" where
  "build_definition now parser_id name vendor prd format_type user_mappings version tenant_id =
     \<lparr> df_id = parser_id, df_name = name, df_tenant_id = (if tenant_id = [] then ''global'' else tenant_id), df_vendor = vendor,
       df_product = prd, df_formats = [format_type], df_version = version, df_mapping_version = version, df_priority = 100,
       df_status = M2_ACTIVE, df_max_payload_bytes = 100000, df_match = None,
       df_patterns = (if format_type \<in> {''kv'', ''json'', ''cef'', ''leef''} then [] else [''.*'']), df_custom_patterns = [],
       df_fields = user_mappings, df_created_at = now, df_created_by = ''studio'' \<rparr>"

subsection \<open>Requests that change the registry\<close>

datatype m2_call =
    Register parser_definition
  | Disable string "string option"
  | Enable string "string option"

fun m2_call_step :: "'v::linorder m2_env \<Rightarrow> string option \<Rightarrow> string option \<Rightarrow> m2_call \<Rightarrow> repository \<Rightarrow> repository" where
  "m2_call_step env bearer api_key (Register d) repo = fst (register_endpoint env bearer api_key d repo)"
| "m2_call_step env bearer api_key (Disable i v) repo = fst (disable_endpoint env bearer api_key i v repo)"
| "m2_call_step env bearer api_key (Enable i v) repo = fst (enable_endpoint env bearer api_key i v repo)"

text \<open>A registry as the service makes it: empty, loaded from files, changed by requests.\<close>

inductive m2_reach :: "'v::linorder m2_env \<Rightarrow> repository \<Rightarrow> bool" for env where
  start: "m2_reach env []"
| load: "m2_reach env repo \<Longrightarrow> m2_reach env (load_file (me_parse_version env) (me_compile env) as_model content repo)"
| call: "m2_reach env repo \<Longrightarrow> m2_reach env (m2_call_step env bearer api_key c repo)"

text \<open>What a request does: nothing, or it saves a new definition within the boundary of the caller, or it changes the
  status of a definition that the caller sees.\<close>

lemma status_endpoint_cases:
  obtains (nothing) "fst (status_endpoint env st w bearer api_key i v repo) = repo"
  | (changed) ctx p where "get_current_auth_context bearer api_key = Inr ctx" "has_role ctx [ADMIN]"
      "repo_get (me_parse_version env) repo i v (ac_tenant_id ctx) = Some p"
      "fst (status_endpoint env st w bearer api_key i v repo) = repo_save (set_status st p) repo"
proof (cases "require_m2_roles [ADMIN] bearer api_key")
  case (Inl e)
  show ?thesis by (rule nothing) (simp add: status_endpoint_def Inl)
next
  case (Inr ctx)
  then have ctx: "get_current_auth_context bearer api_key = Inr ctx" "has_role ctx [ADMIN]"
    by (auto simp: require_m2_roles_def split: if_splits)
  obtain repo' b where r: "change_status (me_parse_version env) st i v (ac_tenant_id ctx) repo = (repo', b)" by force
  have e: "fst (status_endpoint env st w bearer api_key i v repo) = repo'"
    using Inr r by (simp add: status_endpoint_def split: bool.splits)
  from r show ?thesis
  proof (cases rule: change_status_cases)
    case none
    show ?thesis by (rule nothing) (simp add: e none)
  next
    case (set p)
    show ?thesis by (rule changed [OF ctx set(1)]) (simp add: e set)
  qed
qed

lemma register_endpoint_cases:
  obtains (nothing) "fst (register_endpoint env bearer api_key d repo) = repo"
  | (registered) ctx where "get_current_auth_context bearer api_key = Inr ctx" "has_role ctx [STUDIO, ADMIN]"
      "check_boundary d (ac_tenant_id ctx) (ac_is_system ctx) = Inr ()"
      "fst (register_endpoint env bearer api_key d repo) = repo_save (set_status M2_ACTIVE d) repo"
proof (cases "require_m2_roles [STUDIO, ADMIN] bearer api_key")
  case (Inl e)
  show ?thesis by (rule nothing) (simp add: register_endpoint_def Inl)
next
  case (Inr ctx)
  then have ctx: "get_current_auth_context bearer api_key = Inr ctx" "has_role ctx [STUDIO, ADMIN]"
    by (auto simp: require_m2_roles_def split: if_splits)
  obtain repo' r where r: "register_parser (me_parse_version env) (me_compile env) d (ac_tenant_id ctx) (ac_is_system ctx) repo = (repo', r)"
    by force
  have e: "fst (register_endpoint env bearer api_key d repo) = repo'"
    using Inr r by (simp add: register_endpoint_def split: sum.splits)
  from r show ?thesis
  proof (cases rule: register_cases)
    case (refused e')
    show ?thesis by (rule nothing) (simp add: e refused)
  next
    case saved
    show ?thesis by (rule registered [OF ctx saved(3)]) (simp add: e saved)
  qed
qed

lemma call_step_cases:
  obtains (nothing) "m2_call_step env bearer api_key c repo = repo"
  | (registered) ctx d where "get_current_auth_context bearer api_key = Inr ctx" "c = Register d"
      "check_boundary d (ac_tenant_id ctx) (ac_is_system ctx) = Inr ()"
      "m2_call_step env bearer api_key c repo = repo_save (set_status M2_ACTIVE d) repo"
  | (changed) ctx i v p st where "get_current_auth_context bearer api_key = Inr ctx"
      "repo_get (me_parse_version env) repo i v (ac_tenant_id ctx) = Some p"
      "m2_call_step env bearer api_key c repo = repo_save (set_status st p) repo"
proof (cases c)
  case (Register d)
  show ?thesis
    by (rule register_endpoint_cases [of env bearer api_key d repo])
      (rule nothing, simp add: Register, rule registered, simp_all add: Register)
next
  case (Disable i v)
  show ?thesis
    by (rule status_endpoint_cases [of env M2_DISABLED "''disabled''" bearer api_key i v repo])
      (rule nothing, simp add: Disable disable_endpoint_def, rule changed, simp_all add: Disable disable_endpoint_def)
next
  case (Enable i v)
  show ?thesis
    by (rule status_endpoint_cases [of env M2_ACTIVE "''active''" bearer api_key i v repo])
      (rule nothing, simp add: Enable enable_endpoint_def, rule changed, simp_all add: Enable enable_endpoint_def)
qed

lemma call_step_ok: "repo_ok repo \<Longrightarrow> repo_ok (m2_call_step env bearer api_key c repo)"
  by (rule call_step_cases [of env bearer api_key c repo]) (auto intro: repo_ok_save)

lemma load_file_ok: "repo_ok repo \<Longrightarrow> repo_ok (load_file pv compile as_model content repo)"
  by (auto simp: load_file_def Let_def intro: repo_ok_save split: sum.splits pyval.splits option.splits prod.splits bool.splits)

lemma m2_reach_ok: "m2_reach env repo \<Longrightarrow> repo_ok repo"
  by (induction rule: m2_reach.induct) (auto intro: repo_ok_Nil load_file_ok call_step_ok)

subsection \<open>Tenant isolation\<close>

text \<open>A store with a part for each tenant and a shared part: a call of a tenant leaves the parts of the others as
  they are, and of the shared part it keeps what \<open>core\<close> shows.\<close>

locale partitioned_store =
  fixes part :: "'s \<Rightarrow> string \<Rightarrow> 'p" and core :: "'s \<Rightarrow> 'q" and inv :: "'s \<Rightarrow> bool"
    and step :: "'c \<Rightarrow> 's \<Rightarrow> 's" and of_tenant :: "string \<Rightarrow> 'c \<Rightarrow> bool" and shared :: string
  assumes step_inv: "inv s \<Longrightarrow> inv (step c s)"
    and step_part: "inv s \<Longrightarrow> of_tenant t c \<Longrightarrow> t \<noteq> shared \<Longrightarrow> u \<noteq> t \<Longrightarrow> u \<noteq> shared \<Longrightarrow> part (step c s) u = part s u"
    and step_core: "inv s \<Longrightarrow> of_tenant t c \<Longrightarrow> t \<noteq> shared \<Longrightarrow> core (step c s) = core s"
begin

lemma run_isolated:
  assumes "inv s" "\<forall>c \<in> set cs. of_tenant t c" "t \<noteq> shared" "u \<noteq> t" "u \<noteq> shared"
  shows "part (fold step cs s) u = part s u \<and> core (fold step cs s) = core s"
  using assms(1,2)
proof (induction cs arbitrary: s)
  case (Cons c cs)
  then have "part (fold step cs (step c s)) u = part (step c s) u \<and> core (fold step cs (step c s)) = core (step c s)"
    by (intro Cons.IH) (auto intro: step_inv)
  moreover have "of_tenant t c" using Cons.prems by simp
  ultimately show ?case using step_part [OF Cons.prems(1) _ assms(3,4,5)] step_core [OF Cons.prems(1) _ assms(3)] by simp
qed simp

end

type_synonym registry_request = "string option \<times> string option \<times> m2_call"

definition m2_step :: "'v::linorder m2_env \<Rightarrow> registry_request \<Rightarrow> repository \<Rightarrow> repository" where
  "m2_step env r repo = (case r of (bearer, api_key, c) \<Rightarrow> m2_call_step env bearer api_key c repo)"

text \<open>The caller is a principal of the tenant without the rights of the system, or not authenticated.\<close>

definition caller_of :: "string \<Rightarrow> registry_request \<Rightarrow> bool" where
  "caller_of t r \<longleftrightarrow> t \<noteq> [] \<and>
     (case get_current_auth_context (fst r) (fst (snd r)) of
        Inl _ \<Rightarrow> True | Inr ctx \<Rightarrow> \<not> ac_is_system ctx \<and> ac_tenant_id ctx = t)"

text \<open>The baseline without the states of its parsers.\<close>

definition baseline :: "repository \<Rightarrow> string \<Rightarrow> string \<Rightarrow> parser_definition option" where
  "baseline repo i v = map_option (set_status M2_ACTIVE) (entry repo ''global'' i v)"

lemma set_status_twice [simp]: "set_status a (set_status b d) = set_status a d"
  by (simp add: set_status_def)

lemma m2_step_part:
  assumes ok: "repo_ok repo" and c: "caller_of t r" "t \<noteq> ''global''" "u \<noteq> t" "u \<noteq> ''global''"
  shows "inner_dict (m2_step env r repo) u = inner_dict repo u"
proof -
  obtain bearer api_key call where r: "r = (bearer, api_key, call)" by (metis prod_cases3)
  show ?thesis
  proof (rule call_step_cases [of env bearer api_key call repo])
    fix ctx d assume s: "get_current_auth_context bearer api_key = Inr ctx" "check_boundary d (ac_tenant_id ctx) (ac_is_system ctx) = Inr ()"
      "m2_call_step env bearer api_key call repo = repo_save (set_status M2_ACTIVE d) repo"
    then have "df_tenant_id d = t" using c by (auto simp: caller_of_def r dest: boundary_tenant)
    then have "store_tenant d = t" using c(1) by (simp add: store_tenant_def caller_of_def)
    then show ?thesis using s(3) c(3) by (simp add: m2_step_def r inner_dict_save)
  next
    fix ctx i v p st assume s: "get_current_auth_context bearer api_key = Inr ctx"
      "repo_get (me_parse_version env) repo i v (ac_tenant_id ctx) = Some p"
      "m2_call_step env bearer api_key call repo = repo_save (set_status st p) repo"
    then have "store_tenant p = t \<or> store_tenant p = ''global''" using c repo_get_scope [OF ok s(2)] by (auto simp: caller_of_def r)
    then show ?thesis using s(3) c by (auto simp: m2_step_def r inner_dict_save)
  qed (simp add: m2_step_def r)
qed

lemma m2_step_baseline:
  assumes ok: "repo_ok repo" and c: "caller_of t r" "t \<noteq> ''global''"
  shows "baseline (m2_step env r repo) = baseline repo"
proof -
  obtain bearer api_key call where r: "r = (bearer, api_key, call)" by (metis prod_cases3)
  show ?thesis
  proof (rule call_step_cases [of env bearer api_key call repo])
    fix ctx d assume s: "get_current_auth_context bearer api_key = Inr ctx" "check_boundary d (ac_tenant_id ctx) (ac_is_system ctx) = Inr ()"
      "m2_call_step env bearer api_key call repo = repo_save (set_status M2_ACTIVE d) repo"
    then have "df_tenant_id d = t" using c by (auto simp: caller_of_def r dest: boundary_tenant)
    then have "store_tenant d \<noteq> ''global''" using c by (simp add: store_tenant_def caller_of_def)
    then show ?thesis using s(3) by (auto simp: m2_step_def r baseline_def entry_save fun_eq_iff)
  next
    fix ctx i v p st assume s: "repo_get (me_parse_version env) repo i v (ac_tenant_id ctx) = Some p"
      "m2_call_step env bearer api_key call repo = repo_save (set_status st p) repo"
    obtain t' w where e: "entry repo t' i w = Some p" using repo_get_entry [OF s(1)] by blast
    then have "store_tenant p = t'" "df_id p = i" "df_version p = w" using ok by (auto simp: repo_ok_def)
    then show ?thesis using s(2) e by (auto simp: m2_step_def r baseline_def entry_save fun_eq_iff)
  qed (simp add: m2_step_def r)
qed

interpretation m2: partitioned_store inner_dict baseline repo_ok "m2_step env" caller_of "''global''" for env
  by unfold_locales
    (simp_all add: m2_step_part m2_step_baseline, simp add: m2_step_def call_step_ok split: prod.splits)

text \<open>(C15) Whatever the principals of one tenant send to the registry, the parsers of every other tenant stay as they are,
  and of the baseline nothing but the states of its parsers can change.\<close>

theorem m2_tenant_isolation:
  assumes "m2_reach env repo" "\<forall>r \<in> set rs. caller_of t r" "t \<noteq> ''global''" "u \<noteq> t" "u \<noteq> ''global''"
  shows "inner_dict (fold (m2_step env) rs repo) u = inner_dict repo u \<and> baseline (fold (m2_step env) rs repo) = baseline repo"
  by (rule m2.run_isolated [OF m2_reach_ok [OF assms(1)] assms(2-5)])

text \<open>The states of the baseline are not protected: an administrator of any tenant that has no parser of its own with
  the identifier disables the baseline parser, and every tenant that relies on it gets the disabled one.\<close>

theorem tenant_disables_baseline:
  assumes "m2_reach env repo" and ctx: "get_current_auth_context bearer api_key = Inr ctx" "role_value ADMIN \<in> set (ac_roles ctx)"
    and own: "\<not> dict_has i (inner_dict repo (ac_tenant_id ctx))" and base: "entry repo ''global'' i v = Some d" and v: "v \<noteq> []"
    and other: "\<not> dict_has i (inner_dict repo u)" "u \<noteq> ''global''"
  shows "\<exists>repo'. disable_endpoint env bearer api_key i (Some v) repo = (repo', Inr (''disabled'', i)) \<and>
    repo_get (me_parse_version env) repo i (Some v) u = Some d \<and>
    repo_get (me_parse_version env) repo' i (Some v) u = Some (set_status M2_DISABLED d)"
proof -
  have ok: "repo_ok repo" by (rule m2_reach_ok [OF assms(1)])
  have d: "store_tenant d = ''global''" "df_id d = i" "df_version d = v" using ok base by (auto simp: repo_ok_def)
  have get: "repo_get (me_parse_version env) repo i (Some v) t = Some d" if "\<not> dict_has i (inner_dict repo t)" for t
    using that entry_has [OF base] base v by (auto simp: repo_get_def dict_has_def pick_version_def entry_def split: option.splits)
  let ?repo' = "repo_save (set_status M2_DISABLED d) repo"
  have "disable_endpoint env bearer api_key i (Some v) repo = (?repo', Inr (''disabled'', i))"
    using ctx get [OF own] by (simp add: disable_endpoint_def status_endpoint_def require_m2_roles_def has_role_def change_status_def)
  moreover have "entry ?repo' ''global'' i v = Some (set_status M2_DISABLED d)" using d by (simp add: entry_save)
  then have "repo_get (me_parse_version env) ?repo' i (Some v) u = Some (set_status M2_DISABLED d)"
    using other entry_has [of ?repo' "''global''" i v] v d
    by (auto simp: repo_get_def dict_has_def pick_version_def entry_def inner_dict_save split: option.splits)
  ultimately show ?thesis using get [OF other(1)] by blast
qed

subsection \<open>Who is believed\<close>

lemma synthetic_split:
  assumes "CHR '':'' \<notin> set tenant" "CHR '':'' \<notin> set roles"
  shows "split_on CHR '':'' (''token:'' @ tenant @ '':'' @ roles) = [''token'', tenant, roles]"
  using assms split_on_append_sep [of "CHR '':''" "''token''" "tenant @ '':'' @ roles"] split_on_append_sep [of "CHR '':''" tenant roles]
  by (simp add: split_on_nosep)

lemma trusted_not_synthetic: "map_of TRUSTED_TOKENS (''token:'' @ s) = None"
  by (simp add: TRUSTED_TOKENS_def)

text \<open>No credential is needed: a text that names a tenant and roles is accepted as such a principal, and the tenant
  \<open>global\<close> gives the rights of the system.\<close>

theorem synthetic_tokens_accepted:
  assumes "CHR '':'' \<notin> set tenant" "CHR '':'' \<notin> set roles"
  shows "\<exists>ctx. get_current_auth_context (Some (''token:'' @ tenant @ '':'' @ roles)) api_key = Inr ctx \<and>
      ac_tenant_id ctx = tenant \<and> ac_roles ctx = filter (\<lambda>r. r \<noteq> []) (map strip (split_on CHR '','' roles)) \<and>
      (tenant = ''global'' \<longrightarrow> (\<forall>rs. has_role ctx rs) \<and> (\<forall>t. can_access_tenant ctx t))"
proof -
  let ?tok = "''token:'' @ tenant @ '':'' @ roles"
  have s: "starts_with ?tok ''token:''" by (simp add: starts_with_def)
  have "resolve_token ?tok = Some
      \<lparr> ac_principal_id = ''user-'' @ tenant, ac_tenant_id = tenant,
        ac_roles = filter (\<lambda>r. r \<noteq> []) (map strip (split_on CHR '','' roles)), ac_is_system = tenant \<in> {''global'', ''system'', ''*''} \<rparr>"
    unfolding resolve_token_def trusted_not_synthetic synthetic_split [OF assms] by (simp add: s [simplified])
  then show ?thesis
    by (simp add: get_current_auth_context_def raw_token_def Let_def has_role_def can_access_tenant_def)
qed

subsection \<open>Parsing\<close>

text \<open>(C19) An answer of the parse endpoint carries the identity of the envelope, which the caller may access, a well-formed
  classification, and fields only if a parser extracted them; the parser it names is one of the tenant, of the
  baseline or built in.\<close>

theorem parse_contract:
  assumes "m2_reach env repo" and "parse_endpoint env repo bearer api_key e = Inr pe"
  shows "(\<exists>ctx. get_current_auth_context bearer api_key = Inr ctx \<and> has_role ctx [INGEST, ADMIN] \<and> can_access_tenant ctx (ie_tenant_id e)) \<and>
    px_raw_event_id pe = ie_raw_event_id e \<and> px_tenant_id pe = ie_tenant_id e \<and> px_source_id pe = ie_source_id e \<and>
    px_sha256 pe = ie_sha256 e \<and> px_raw_reference pe = ie_raw_reference e \<and>
    px_classification pe = classify (me_json env) (ie_payload e) \<and>
    (px_status pe \<noteq> Parsed \<longrightarrow> px_fields pe = []) \<and> (px_status pe = Failed \<longleftrightarrow> px_metadata pe \<noteq> []) \<and>
    (px_status pe = Unparsed \<longrightarrow> px_parser pe = UNPARSED_INFO) \<and>
    (px_status pe \<noteq> Unparsed \<longrightarrow> (\<exists>x d.
       find_parser (me_parse_version env) (me_compile env) (me_orjson env) (me_now env) repo (px_classification pe) (ie_payload e)
         (ie_tenant_id e) = Inr (Some (x, d)) \<and>
       (store_tenant d = ie_tenant_id e \<or> store_tenant d = ''global'') \<and> pi_id (px_parser pe) = df_id d \<and>
       pi_version (px_parser pe) = df_version d \<and>
       (case exec_parse (me_orjson env) x (ie_payload e) of
          Inr f \<Rightarrow> px_status pe = Parsed \<and> px_fields pe = f | Inl _ \<Rightarrow> px_status pe = Failed)))"
proof -
  from assms(2) obtain ctx res where ctx: "get_current_auth_context bearer api_key = Inr ctx" "has_role ctx [INGEST, ADMIN]"
      "can_access_tenant ctx (ie_tenant_id e)"
    and res: "find_parser (me_parse_version env) (me_compile env) (me_orjson env) (me_now env) repo
      (classify (me_json env) (ie_payload e)) (ie_payload e) (ie_tenant_id e) = Inr res"
    and pe: "pe = execute_resolved (me_orjson env) e (classify (me_json env) (ie_payload e)) res"
    by (auto simp: parse_endpoint_def parse_event_def require_m2_roles_def Let_def split: if_splits)
  show ?thesis
  proof (cases res)
    case None
    with pe ctx show ?thesis by (simp add: execute_resolved_def parsed_event_of_def)
  next
    case (Some r)
    obtain x d where r: "r = (x, d)" by (cases r)
    have "store_tenant d = ie_tenant_id e \<or> store_tenant d = ''global''"
      using resolution_scope [OF m2_reach_ok [OF assms(1)] res] by (auto simp: Some r built_in_definition_def store_tenant_def)
    then show ?thesis using ctx res
      by (cases "exec_parse (me_orjson env) x (ie_payload e)")
        (simp_all add: pe Some r execute_resolved_def parsed_event_of_def parser_info_of_def error_metadata_def)
  qed
qed

lemma lower_format: "lower ''cef'' = ''cef''" "lower ''leef'' = ''leef''" "lower ''json'' = ''json''" "lower ''kv'' = ''kv''"
  by (simp_all add: lower_def lower_char_def code_def)

text \<open>The built-in key-value parser is asked outside of any \<open>try\<close>: where it is reached and the conversion of a
  value raises, the request ends in that exception and the event gets no answer.\<close>

theorem kv_exception_escapes:
  assumes "can_access_tenant ctx (ie_tenant_id e)" "cls = classify (me_json env) (ie_payload e)"
    and "find_registered (me_parse_version env) (me_compile env) repo cls (ie_payload e) (ie_tenant_id e) = None"
    and "cr_format cls \<in> {''syslog'', ''csv'', ''xml'', ''plain_text''}"
    and "\<not> contains ''CEF:'' (ie_payload e)" "\<not> contains ''LEEF:'' (ie_payload e)" "\<not> json_can_parse (me_orjson env) (ie_payload e)"
    and "CHR ''='' \<in> set (ie_payload e)" "parse_kv_string (ie_payload e) = Inl x"
  shows "parse_event env repo ctx e = Inl x"
proof -
  have "lower (strip (cr_format cls)) \<notin> {''cef'', ''leef'', ''json'', ''kv''}"
    using assms(4) by (auto simp: strip_def lstrip_by_def rstrip_by_def lower_def lower_char_def is_space_def code_def Let_def)
  then have "first_built_in (me_orjson env) (lower (strip (cr_format cls))) (ie_payload e) built_in_parsers = Inl x"
    using assms(5-9) lower_format by (auto simp: built_in_parsers_def kv_can_parse_def)
  then show ?thesis using assms(1,2,3) by (simp add: parse_event_def find_parser_def Let_def)
qed

text \<open>A replay answers exactly the events of the caller's tenant, in their order, with a parser of the tenant or the
  baseline; the system tenant replays all of them.\<close>

theorem replay_scoped:
  assumes "m2_reach env repo" and "replay_endpoint env repo bearer api_key i events ver = Inr pes"
  shows "\<exists>ctx d x. get_current_auth_context bearer api_key = Inr ctx \<and> has_role ctx [ANALYST, ADMIN] \<and>
    repo_get (me_parse_version env) repo i ver (ac_tenant_id ctx) = Some d \<and>
    (store_tenant d = ac_tenant_id ctx \<or> store_tenant d = ''global'') \<and> build_executable_parser (me_compile env) d = Inr x \<and>
    pes = map (replay_one env x d) (filter (\<lambda>e. ac_tenant_id ctx = ''global'' \<or> ie_tenant_id e = ac_tenant_id ctx) events) \<and>
    map px_raw_event_id pes = map ie_raw_event_id (filter (\<lambda>e. ac_tenant_id ctx = ''global'' \<or> ie_tenant_id e = ac_tenant_id ctx) events)"
proof -
  from assms(2) obtain ctx where ctx: "get_current_auth_context bearer api_key = Inr ctx" "has_role ctx [ANALYST, ADMIN]"
    and r: "replay_events env repo i events ver (ac_tenant_id ctx) = Inr pes"
    by (auto simp: replay_endpoint_def require_m2_roles_def split: if_splits sum.splits exn.splits)
  from r obtain d x where d: "repo_get (me_parse_version env) repo i ver (ac_tenant_id ctx) = Some d"
      "build_executable_parser (me_compile env) d = Inr x"
    and pes: "pes = map (replay_one env x d) (filter (\<lambda>e. ac_tenant_id ctx = ''global'' \<or> ie_tenant_id e = ac_tenant_id ctx) events)"
    by (auto simp: replay_events_def split: option.splits)
  have "px_raw_event_id (replay_one env x d e) = ie_raw_event_id e" for e
    by (simp add: replay_one_def parsed_event_of_def Let_def split: sum.splits)
  with ctx d pes repo_get_scope [OF m2_reach_ok [OF assms(1)] d(1)] show ?thesis by (intro exI [of _ ctx] exI [of _ d] exI [of _ x]) simp
qed

lemma cef_detected: "cef_wf ver vs ext \<Longrightarrow> detect_format loads (cef_text ver vs ext) = ''cef''"
proof -
  assume w: "cef_wf ver vs ext"
  let ?t = "cef_text ver vs ext"
  have ne: "?t \<noteq> []" and strip: "strip ?t = ?t"
    using last_cef [OF w] by (auto intro!: strip_eq simp: cef_text_def is_space_def code_def)
  have "first (re_alts [RStart, RSet is_space]) ([], ?t, []) ([], ?t, [])" by (simp add: first_def)
  moreover have "first (re_lit ''CEF:'') ([], ?t, []) (rev ''CEF:'', ver @ ''|'' @ bar_text vs @ ext, [])"
    unfolding cef_text_def using first_lit [of "''CEF:''" "[]"] by simp
  moreover have "first (re_plus is_digit) (rev ''CEF:'', ver @ ''|'' @ bar_text vs @ ext, []) (rev ver @ rev ''CEF:'', ''|'' @ bar_text vs @ ext, [])"
    using w by (intro first_plus) (auto simp: cef_wf_def is_digit_def code_def)
  moreover have "first (re_lit ''|'') (rev ver @ rev ''CEF:'', ''|'' @ bar_text vs @ ext, []) (rev ''|'' @ rev ver @ rev ''CEF:'', bar_text vs @ ext, [])"
    by (rule first_lit)
  ultimately have "first CEF_SIGNATURE ([], ?t, []) (rev ''|'' @ rev ver @ rev ''CEF:'', bar_text vs @ ext, [])"
    unfolding CEF_SIGNATURE_def by (intro first_seq_Cons) (assumption | rule first_seq_Nil)+
  then have "re_search CEF_SIGNATURE ?t" by (simp add: re_search_def scan_first)
  then show ?thesis using ne by (simp add: detect_format_def strip)
qed

lemma cef_parsed:
  assumes w: "cef_wf ver vs ext" and p: "ie_payload e = cef_text ver vs ext" and acc: "can_access_tenant ctx (ie_tenant_id e)"
    and none: "find_registered (me_parse_version env) (me_compile env) repo (classify (me_json env) (ie_payload e)) (ie_payload e) (ie_tenant_id e) = None"
  shows "\<exists>pe. parse_event env repo ctx e = Inr pe \<and> cr_format (px_classification pe) = ''cef'' \<and> pi_id (px_parser pe) = ''parser-cef'' \<and>
    (case cef_reading ver vs ext of Inr f \<Rightarrow> px_status pe = Parsed \<and> px_fields pe = f | Inl _ \<Rightarrow> px_status pe = Failed \<and> px_fields pe = [])"
proof -
  let ?cls = "classify (me_json env) (ie_payload e)"
  have fmt: "cr_format ?cls = ''cef''" by (simp add: classify_def p cef_detected [OF w] Let_def split: prod.splits)
  have "strip ''cef'' = ''cef''" by (rule strip_eq) (simp add: is_space_def code_def)
  with fmt have "first_built_in (me_orjson env) (lower (strip (cr_format ?cls))) (ie_payload e) built_in_parsers = Inr (Some CEFParser)"
    by (simp add: built_in_parsers_def lower_format)
  then have "parse_event env repo ctx e = Inr (execute_resolved (me_orjson env) e ?cls
      (Some (BuiltIn CEFParser, built_in_definition (me_now env) ?cls CEFParser)))"
    using acc none by (simp add: parse_event_def find_parser_def Let_def)
  then show ?thesis
    by (auto simp: execute_resolved_def p cef_plain [OF w] parsed_event_of_def parser_info_of_def built_in_definition_def fmt [unfolded p] split: sum.splits)
qed

text \<open>A CEF message, which no registered parser claims, is classified as CEF and parsed by the built-in parser into
  the fields of its header and extension.\<close>

theorem cef_event_parsed:
  assumes w: "cef_wf ver vs ext" and p: "ie_payload e = cef_text ver vs ext" and acc: "can_access_tenant ctx (ie_tenant_id e)"
    and none: "find_registered (me_parse_version env) (me_compile env) repo (classify (me_json env) (ie_payload e)) (ie_payload e) (ie_tenant_id e) = None"
  shows "\<exists>pe. parse_event env repo ctx e = Inr pe \<and> cr_format (px_classification pe) = ''cef'' \<and> pi_id (px_parser pe) = ''parser-cef'' \<and>
    (case cef_reading ver vs ext of Inr f \<Rightarrow> px_status pe = Parsed \<and> px_fields pe = f | Inl _ \<Rightarrow> px_status pe = Failed \<and> px_fields pe = [])"
  using assms by (rule cef_parsed)

subsection \<open>Examples\<close>

definition m2_example :: "string m2_env" where
  "m2_example = \<lparr> me_parse_version = Some,
     me_compile = (\<lambda>pat. Inr (\<lambda>text. (if contains pat text then Some [(''line'', Some text)] else None, 1 / 100))),
     me_orjson = (\<lambda>_. Inl (ValueError ''no JSON'')), me_json = (\<lambda>_. Inl (ValueError ''no JSON'')), me_now = ''now'' \<rparr>"

definition demo_definition :: parser_definition where
  "demo_definition = \<lparr> df_id = ''parser-x'', df_name = ''X'', df_tenant_id = ''global'', df_vendor = ''Generic'', df_product = ''Generic'',
     df_formats = [''syslog''], df_version = ''1'', df_mapping_version = ''1'', df_priority = 100, df_status = M2_ACTIVE,
     df_max_payload_bytes = 1000, df_match = None, df_patterns = [''login''], df_custom_patterns = [], df_fields = [],
     df_created_at = ''now'', df_created_by = ''demo'' \<rparr>"

definition demo_repo :: repository where
  "demo_repo = [(''global'', [(''parser-x'', [(''1'', demo_definition)])])]"

definition demo_envelope :: "string \<Rightarrow> m2_envelope" where
  "demo_envelope payload = \<lparr> ie_schema_version = ''1.0.0'', ie_raw_event_id = ''raw-1'', ie_tenant_id = ''tenant-a'', ie_source_id = None,
     ie_received_at = ''now'', ie_transport = ''syslog'', ie_payload = payload, ie_encoding = ''utf-8'', ie_sha256 = Some ''aa'',
     ie_raw_reference = None, ie_source_ip = None, ie_metadata = None \<rparr>"

definition demo_cef :: string where
  "demo_cef = cef_text ''0'' [''Acme'', ''Gate'', ''1'', ''100'', ''login'', ''9''] []"

lemma demo_unregistered: "find_registered (me_parse_version m2_example) (me_compile m2_example) [] cls payload t = None"
  by (simp add: find_registered_def list_for_tenant_def inner_dict_def active_of_def Let_def)

lemma classify_format: "cr_format (classify loads payload) = detect_format loads payload"
  by (simp add: classify_def Let_def split: prod.splits)

lemma demo_repo_reach: "m2_reach m2_example demo_repo"
proof -
  have "m2_call_step m2_example (Some ''system-admin-token'') None (Register demo_definition) [] = demo_repo"
    by code_simp
  then show ?thesis using m2_reach.call [OF m2_reach.start, of m2_example "Some ''system-admin-token''" None "Register demo_definition"] by simp
qed

lemma demo_admin:
  "get_current_auth_context (Some ''tenant-a-admin-key'') None = Inr (principal ''tenant-a-admin'' ''tenant-a'' [ADMIN, STUDIO, INGEST, ANALYST] False)"
  by code_simp

theorem m2_tenant_isolation_witness:
  "inner_dict (fold (m2_step m2_example) [(Some ''tenant-a-admin-key'', None, Disable ''parser-x'' None)] demo_repo) ''tenant-b'' = [] \<and>
   map_option df_status (entry (fold (m2_step m2_example) [(Some ''tenant-a-admin-key'', None, Disable ''parser-x'' None)] demo_repo) ''global'' ''parser-x'' ''1'') = Some M2_DISABLED"
proof -
  have "\<forall>r \<in> set [(Some ''tenant-a-admin-key'', None, Disable ''parser-x'' None)]. caller_of ''tenant-a'' r"
    by (simp add: caller_of_def demo_admin principal_def)
  from m2_tenant_isolation [OF demo_repo_reach this, of "''tenant-b''"]
  have "inner_dict (fold (m2_step m2_example) [(Some ''tenant-a-admin-key'', None, Disable ''parser-x'' None)] demo_repo) ''tenant-b'' = []"
    by (simp add: demo_repo_def inner_dict_def)
  moreover have "map_option df_status (entry (fold (m2_step m2_example) [(Some ''tenant-a-admin-key'', None, Disable ''parser-x'' None)] demo_repo)
      ''global'' ''parser-x'' ''1'') = Some M2_DISABLED" by code_simp
  ultimately show ?thesis by blast
qed

theorem tenant_disables_baseline_witness:
  "\<exists>repo'. disable_endpoint m2_example (Some ''tenant-a-admin-key'') None ''parser-x'' (Some ''1'') demo_repo = (repo', Inr (''disabled'', ''parser-x'')) \<and>
     repo_get (me_parse_version m2_example) repo' ''parser-x'' (Some ''1'') ''tenant-b'' = Some (set_status M2_DISABLED demo_definition)"
proof -
  have base: "entry demo_repo ''global'' ''parser-x'' ''1'' = Some demo_definition"
    by (simp add: demo_repo_def entry_def inner_dict_def)
  have "\<not> dict_has ''parser-x'' (inner_dict demo_repo t)" if "t \<noteq> ''global''" for t
    using that by (simp add: demo_repo_def inner_dict_def dict_has_def)
  then show ?thesis
    using tenant_disables_baseline [OF demo_repo_reach demo_admin _ _ base, of "''tenant-b''"] by (auto simp: principal_def)
qed

theorem synthetic_tokens_accepted_witness:
  "\<exists>ctx. get_current_auth_context (Some ''token:global:'') None = Inr ctx \<and> (\<forall>t. can_access_tenant ctx t)"
  using synthetic_tokens_accepted [of "''global''" "[]" None] by auto

theorem parse_contract_witness:
  "\<exists>pe. parse_endpoint m2_example [] (Some ''tenant-a-ingest-key'') None (demo_envelope demo_cef) = Inr pe \<and>
     px_tenant_id pe = ''tenant-a'' \<and> px_status pe = Parsed"
proof -
  have w: "cef_wf ''0'' [''Acme'', ''Gate'', ''1'', ''100'', ''login'', ''9''] []" by code_simp
  let ?ctx = "principal ''tenant-a-collector'' ''tenant-a'' [INGEST] False"
  have a: "get_current_auth_context (Some ''tenant-a-ingest-key'') None = Inr ?ctx" by code_simp
  obtain pe where pe: "parse_event m2_example [] ?ctx (demo_envelope demo_cef) = Inr pe" "px_status pe = Parsed"
    using cef_parsed [OF w, of "demo_envelope demo_cef" ?ctx m2_example "[]"] demo_unregistered
    by (auto simp: can_access_tenant_def principal_def demo_envelope_def demo_cef_def cef_reading_def)
  have e: "parse_endpoint m2_example [] (Some ''tenant-a-ingest-key'') None (demo_envelope demo_cef) = Inr pe"
    using a pe by (simp add: parse_endpoint_def require_m2_roles_def has_role_def principal_def)
  from parse_contract [OF m2_reach.start e] have "px_tenant_id pe = ''tenant-a''" by (simp add: demo_envelope_def)
  with e pe show ?thesis by blast
qed

text \<open>The value of the field is the superscript two.\<close>

theorem kv_exception_escapes_witness:
  "parse_event m2_example [] (principal ''c'' ''tenant-a'' [INGEST] False) (demo_envelope (''<13>a='' @ [CHR 0xB2]))
     = Inl (ValueError ''invalid literal for int()'')"
proof (rule kv_exception_escapes [OF _ refl])
  let ?e = "demo_envelope (''<13>a='' @ [CHR 0xB2])"
  show "cr_format (classify (me_json m2_example) (ie_payload ?e)) \<in> {''syslog'', ''csv'', ''xml'', ''plain_text''}"
    unfolding classify_format by code_simp
  show "parse_kv_string (ie_payload ?e) = Inl (ValueError ''invalid literal for int()'')" by code_simp
  show "find_registered (me_parse_version m2_example) (me_compile m2_example) [] (classify (me_json m2_example) (ie_payload ?e)) (ie_payload ?e) (ie_tenant_id ?e) = None"
    by (rule demo_unregistered)
qed (simp_all add: can_access_tenant_def principal_def demo_envelope_def starts_with_def json_can_parse_def m2_example_def Let_def split: option.splits)

theorem replay_scoped_witness:
  "\<exists>pes. replay_endpoint m2_example demo_repo (Some ''tenant-b-admin-key'') None ''parser-x'' [demo_envelope ''login''] None = Inr pes \<and> pes = []"
proof -
  let ?r = "replay_endpoint m2_example demo_repo (Some ''tenant-b-admin-key'') None ''parser-x'' [demo_envelope ''login''] None"
  have "map_sum (\<lambda>_. ()) length ?r = Inr 0" by code_simp
  then obtain pes where pes: "?r = Inr pes" by (cases ?r) auto
  have "get_current_auth_context (Some ''tenant-b-admin-key'') None = Inr (principal ''tenant-b-admin'' ''tenant-b'' [ADMIN, STUDIO, INGEST, ANALYST] False)"
    by code_simp
  with replay_scoped [OF demo_repo_reach pes] have "pes = []" by (auto simp: principal_def demo_envelope_def)
  with pes show ?thesis by blast
qed

theorem cef_event_parsed_witness:
  "\<exists>pe. parse_event m2_example [] (principal ''c'' ''tenant-a'' [INGEST] False) (demo_envelope demo_cef) = Inr pe \<and>
     px_status pe = Parsed \<and> pget (px_fields pe) ''device_vendor'' = PStr ''Acme''"
proof -
  have w: "cef_wf ''0'' [''Acme'', ''Gate'', ''1'', ''100'', ''login'', ''9''] []" by code_simp
  show ?thesis
    using cef_event_parsed [OF w, of "demo_envelope demo_cef" "principal ''c'' ''tenant-a'' [INGEST] False" m2_example "[]"] demo_unregistered
    by (auto simp: can_access_tenant_def principal_def demo_envelope_def demo_cef_def cef_reading_def dict_update_def pget_def)
qed

theorem rollback_exact_witness:
  "repo_get (me_parse_version m2_example) (fst (rollback_parser (me_parse_version m2_example) ''parser-x'' ''1'' ''tenant-a'' demo_repo)) ''parser-x'' None ''tenant-a''
     = Some demo_definition"
proof -
  have "rollback_parser (me_parse_version m2_example) ''parser-x'' ''1'' ''tenant-a'' demo_repo = (demo_repo, Some demo_definition)" by code_simp
  from rollback_exact [OF m2_reach_ok [OF demo_repo_reach] this] this show ?thesis by simp
qed

theorem latest_active_version_witness:
  "entry demo_repo ''global'' ''parser-x'' (df_version demo_definition) = Some demo_definition"
proof -
  have g: "repo_get (me_parse_version m2_example) demo_repo ''parser-x'' None ''tenant-a'' = Some demo_definition" by code_simp
  have o: "owner demo_repo ''parser-x'' ''tenant-a'' = ''global''" by code_simp
  from latest_active_version [OF m2_reach_ok [OF demo_repo_reach] _ g] o show ?thesis by (simp add: m2_example_def)
qed

definition demo_class :: classification_result where
  "demo_class = \<lparr> cr_format = ''syslog'', cr_vendor = ''Unknown'', cr_product = ''Unknown'', cr_confidence = 1 / 2 \<rparr>"

theorem resolution_scope_witness:
  "\<exists>x d. find_parser (me_parse_version m2_example) (me_compile m2_example) (me_orjson m2_example) ''now'' demo_repo demo_class ''<13>login ok'' ''tenant-a'' = Inr (Some (x, d)) \<and> usable (me_compile m2_example) ''<13>login ok'' d"
proof -
  let ?r = "find_parser (me_parse_version m2_example) (me_compile m2_example) (me_orjson m2_example) ''now'' demo_repo demo_class ''<13>login ok'' ''tenant-a''"
  have "map_sum (\<lambda>_. ()) (map_option (df_id \<circ> snd)) ?r = Inr (Some ''parser-x'')" by code_simp
  then obtain x d where r: "?r = Inr (Some (x, d))" "df_id d = ''parser-x''" by (cases ?r) auto
  have "df_id (built_in_definition now cls b) \<noteq> ''parser-x''" for now cls b by (cases b) (simp_all add: built_in_definition_def)
  with resolution_scope [OF m2_reach_ok [OF demo_repo_reach] r(1)] r(2) have "usable (me_compile m2_example) ''<13>login ok'' d" by blast
  with r show ?thesis by blast
qed

end
