(* ===== verification/M2_Discovery.thy ===== *)
theory M2_Discovery
  imports M2_Api
begin

section \<open>M2: discovery of unknown sources\<close>

text \<open>
  The advisory analysis of an unknown event (\<open>app/discovery\<close>): profile, candidate fields, suggested mappings and the
  confidence in them. Field detection tries the format parsers in turn; only the key-value and the colon reading can
  raise, where a value consists of digits that \<open>int\<close> refuses.
\<close>

definition COLON_REGEX :: re where
  "COLON_REGEX = re_seq
     [RGroup ''1'' (re_plus key_char), re_star is_space, RSet (among '':=''), re_star is_space,
      RGroup ''2'' (re_alts
        [re_seq [re_lit [CHR 0x22], re_star (\<lambda>c. c \<noteq> CHR 0x22), re_lit [CHR 0x22]],
         re_seq [re_lit [CHR 0x27], re_star (\<lambda>c. c \<noteq> CHR 0x27), re_lit [CHR 0x27]],
         re_plus (\<lambda>c. \<not> is_space c \<and> \<not> among '',;'' c)])]"

fun colon_fields :: "re_groups list \<Rightarrow> pydict \<Rightarrow> pydict result" where
  "colon_fields [] found = Inr found"
| "colon_fields (g # gs) found =
     (let v_clean = rstrip_by quote_char (lstrip_by quote_char (grp g ''2'')) in
      rbind (if isdigit v_clean then str_to_int v_clean else Inr (PStr v_clean)) (\<lambda>v.
        colon_fields gs (dict_set (grp g ''1'') v found)))"

definition token_fields :: "string \<Rightarrow> pydict" where
  "token_fields stripped = map (\<lambda>(i, tok). (''token_'' @ nat_str i, PStr tok)) (enumerate 0 (take 10 (split_ws stripped)))"

definition json_fields :: "json_loads \<Rightarrow> string \<Rightarrow> string \<Rightarrow> pydict option" where
  "json_fields loads format_type stripped =
     (if format_type = ''json'' \<or> starts_with stripped [CHR 0x7B] then
        (case loads stripped of Inr (PDict d) \<Rightarrow> Some (flatten_dict d []) | _ \<Rightarrow> None)
      else None)"

definition header_fields :: "string \<Rightarrow> string \<Rightarrow> (string \<Rightarrow> pydict result) \<Rightarrow> string \<Rightarrow> string \<Rightarrow> pydict option" where
  "header_fields name tag parse format_type stripped =
     (if format_type = name \<or> contains tag stripped then
        (case parse stripped of Inr d \<Rightarrow> Some d | Inl _ \<Rightarrow> None)
      else None)"

definition plain_fields :: "string \<Rightarrow> pydict result" where
  "plain_fields stripped =
     rbind (parse_kv_string stripped) (\<lambda>kv.
       if kv \<noteq> [] then Inr kv
       else rbind (colon_fields (finditer COLON_REGEX [] stripped) []) (\<lambda>colon.
              Inr (if colon \<noteq> [] then colon else token_fields stripped)))"

definition detect_fields :: "json_loads \<Rightarrow> string \<Rightarrow> string \<Rightarrow> pydict result" where
  "detect_fields loads payload format_type =
     (if payload = [] then Inr []
      else let stripped = strip payload in
           case json_fields loads format_type stripped of
             Some d \<Rightarrow> Inr d
           | None \<Rightarrow>
               (case header_fields ''cef'' ''CEF:'' parse_cef_string format_type stripped of
                  Some d \<Rightarrow> Inr d
                | None \<Rightarrow>
                    (case header_fields ''leef'' ''LEEF:'' parse_leef_string format_type stripped of
                       Some d \<Rightarrow> Inr d
                     | None \<Rightarrow> plain_fields stripped)))"

definition TARGET_FIELD_SUGGESTIONS :: "(string, string) dict" where
  "TARGET_FIELD_SUGGESTIONS =
     map (\<lambda>k. (k, ''source.ip''))
       [''src'', ''srcip'', ''src_ip'', ''src_addr'', ''sip'', ''sourceip'', ''source_ip'', ''clientip'', ''c_ip''] @
     map (\<lambda>k. (k, ''destination.ip''))
       [''dst'', ''dstip'', ''dst_ip'', ''dst_addr'', ''dip'', ''destip'', ''destination_ip'', ''serverip'', ''s_ip''] @
     map (\<lambda>k. (k, ''source.port'')) [''spt'', ''srcport'', ''src_port'', ''src_prt'', ''sport''] @
     map (\<lambda>k. (k, ''destination.port'')) [''dpt'', ''dstport'', ''dst_port'', ''dst_prt'', ''dport''] @
     map (\<lambda>k. (k, ''event.action'')) [''act'', ''action'', ''decision'', ''status'', ''outcome''] @
     map (\<lambda>k. (k, ''user.name'')) [''user'', ''username'', ''srcuser'', ''account''] @
     map (\<lambda>k. (k, ''host.hostname'')) [''device'', ''devname'', ''hostname'', ''host'', ''logsource''] @
     map (\<lambda>k. (k, ''timestamp'')) [''time'', ''date'', ''timestamp'', ''event_time'']"

definition normalized_key :: "string \<Rightarrow> string" where
  "normalized_key raw_key = str_replace ''-'' ''_'' (lower raw_key)"

definition suggest_mappings :: "pydict \<Rightarrow> (string, string) dict" where
  "suggest_mappings detected =
     concat (map (\<lambda>(raw_key, _). case map_of TARGET_FIELD_SUGGESTIONS (normalized_key raw_key) of
       Some target \<Rightarrow> [(raw_key, target)] | None \<Rightarrow> []) detected)"

definition calculate_confidence :: "string \<Rightarrow> pydict \<Rightarrow> (string, string) dict \<Rightarrow> rat" where
  "calculate_confidence format_type detected suggestions =
     (if detected = [] then fl (10 / 100)
      else
        let base_score = (if format_type \<noteq> ''plain_text'' then 1 / 2 else fl (20 / 100));
            field_score = min (fl (30 / 100)) (fl (of_nat (length detected) * fl (5 / 100)));
            suggestion_score = min (fl (20 / 100)) (fl (of_nat (length suggestions) * fl (5 / 100)))
        in min (fl (99 / 100)) (round2 (fl (fl (base_score + field_score) + suggestion_score))))"

record event_profile =
  ep_format :: string
  ep_payload_length :: nat
  ep_line_count :: nat
  ep_is_structured :: bool

definition profile :: "json_loads \<Rightarrow> string \<Rightarrow> event_profile" where
  "profile loads payload =
     (let fmt = detect_format loads payload in
      \<lparr> ep_format = fmt, ep_payload_length = length payload,
        ep_line_count = length (filter (\<lambda>c. c = CHR 0x0A) payload) + 1,
        ep_is_structured = fmt \<in> {''json'', ''cef'', ''leef'', ''kv'', ''xml'', ''csv''} \<rparr>)"

record discovery =
  di_format :: string
  di_confidence :: rat
  di_is_structured :: bool
  di_detected_fields :: pydict
  di_suggestions :: "(string, string) dict"

definition discover :: "json_loads \<Rightarrow> json_loads \<Rightarrow> string \<Rightarrow> discovery result" where
  "discover orjson json payload =
     (let pr = profile json payload; fmt = ep_format pr in
      rbind (detect_fields orjson payload fmt) (\<lambda>detected.
        let suggestions = suggest_mappings detected in
        Inr \<lparr> di_format = fmt, di_confidence = calculate_confidence fmt detected suggestions,
              di_is_structured = ep_is_structured pr, di_detected_fields = detected, di_suggestions = suggestions \<rparr>))"

definition discover_endpoint :: "'v m2_env \<Rightarrow> string option \<Rightarrow> string option \<Rightarrow> string \<Rightarrow> discovery result" where
  "discover_endpoint env bearer api_key payload =
     rbind (require_m2_roles [ANALYST, STUDIO, ADMIN] bearer api_key) (\<lambda>_. discover (me_orjson env) (me_json env) payload)"

lemma fl_nonneg: "0 \<le> x \<Longrightarrow> 0 \<le> fl x"
proof -
  assume x: "0 \<le> x"
  have "0 \<le> round_half_even (x / pow2 q) " for q
  proof -
    have "0 \<le> x / pow2 q" using x less_imp_le [OF pow2_pos] by (rule divide_nonneg_nonneg)
    then show ?thesis by (auto simp: round_half_even_def Let_def)
  qed
  then have "0 \<le> of_int (round_half_even (x / pow2 q)) * pow2 q" for q
    by (intro mult_nonneg_nonneg) (simp_all add: less_imp_le [OF pow2_pos])
  then show ?thesis using x by (auto simp: fl_def round_double_def Let_def split: if_splits)
qed

text \<open>The advice stays advice: its confidence lies between 0 and the double next to 0.99, and a mapping is suggested
  only for a detected field, to a target of the table.\<close>

theorem discovery_bounds:
  assumes "discover orjson json payload = Inr d"
  shows "0 \<le> di_confidence d \<and> di_confidence d \<le> fl (99 / 100) \<and> di_format d \<in> set known_formats \<and>
    fst ` set (di_suggestions d) \<subseteq> fst ` set (di_detected_fields d) \<and> snd ` set (di_suggestions d) \<subseteq> snd ` set TARGET_FIELD_SUGGESTIONS"
proof -
  have sug: "fst ` set (suggest_mappings f) \<subseteq> fst ` set f" "snd ` set (suggest_mappings f) \<subseteq> snd ` set TARGET_FIELD_SUGGESTIONS" for f
    by (auto simp: suggest_mappings_def split: option.splits dest!: sym [of "Some _"] map_of_SomeD intro: rev_image_eqI)
  have "0 \<le> round2 x" if "0 \<le> x" for x
  proof -
    have "0 \<le> x * 100" using that by simp
    then have "0 \<le> round_half_even (x * 100)" by (auto simp: round_half_even_def Let_def)
    then show ?thesis unfolding round2_def by (intro fl_nonneg) simp
  qed
  moreover have k: "0 \<le> fl (of_nat n * fl (5 / 100))" for n by (intro fl_nonneg mult_nonneg_nonneg) simp_all
  have lits: "0 \<le> fl (30 / 100)" "0 \<le> fl (20 / 100)" "0 \<le> fl (99 / 100)" "0 \<le> fl (10 / 100)" by (rule fl_nonneg, simp)+
  have "0 \<le> fl (fl (b + min (fl (30 / 100)) (fl (of_nat n * fl (5 / 100)))) + min (fl (20 / 100)) (fl (of_nat m * fl (5 / 100))))"
    if "0 \<le> b" for b n m
    using that k lits by (intro fl_nonneg add_nonneg_nonneg) simp_all
  ultimately have "0 \<le> calculate_confidence fmt f s" for fmt f s
    using lits by (simp add: calculate_confidence_def Let_def)
  moreover have "calculate_confidence fmt f s \<le> fl (99 / 100)" for fmt f s
  proof (cases "f = []")
    case True
    have "fl (10 / 100) \<le> 11 / 100" using fl_between [of "10 / 100" "10 / 100" "11 / 100"] by simp
    moreover have "11 / 100 \<le> fl (99 / 100)" by code_simp
    ultimately show ?thesis using True by (simp add: calculate_confidence_def)
  qed (simp add: calculate_confidence_def Let_def)
  moreover obtain f where "di_format d = detect_format json payload" "di_detected_fields d = f" "di_suggestions d = suggest_mappings f"
    "di_confidence d = calculate_confidence (detect_format json payload) f (suggest_mappings f)"
    using assms by (auto simp: discover_def profile_def Let_def)
  ultimately show ?thesis using sug detect_format_known [of json payload] by simp
qed

theorem discovery_bounds_witness:
  "\<exists>d. discover (\<lambda>_. Inl (ValueError ''x'')) (\<lambda>_. Inl (ValueError ''x'')) [] = Inr d \<and> di_confidence d \<le> fl (99 / 100)"
proof -
  obtain d where d: "discover (\<lambda>_. Inl (ValueError ''x'')) (\<lambda>_. Inl (ValueError ''x'')) [] = Inr d"
    by (simp add: discover_def detect_fields_def Let_def)
  from discovery_bounds [OF d] d show ?thesis by blast
qed

end
