(* ===== verification/Int_ConfigSync.thy ===== *)
theory Int_ConfigSync
  imports M5_Policy M4_Config Int_Adapters Py_Json
begin

section \<open>Integration: the configuration worker\<close>

text \<open>
  \<open>integration/config_sync/config_worker.py\<close>: the worker that receives the distributions of M6 on \<open>POST /config/apply\<close>, writes them
  where the modules read their configuration, checks their adoption and answers with an acknowledgement. The files
  are a map from the paths as the worker builds them to their texts; M4's configuration manager is the one that lives in the
  process of the worker. Answers of the modules, outcomes of the file system and of the imports at run time are in
  \<open>sync_io\<close>; \<open>yaml.dump\<close>, pydantic's constructor of \<open>PolicyRule\<close> and the regular expressions are in \<open>sync_env\<close>. The messages of
  exceptions that the interpreter itself raises are abbreviated.

  A request is one step. In the code the handlers await the answers of the modules between the check of the version and the
  assignment of \<open>_active_versions\<close>, so the statements about runs are about requests that are served one after another;
  \<open>demo_interleaved_downgrade\<close> shows what two overlapping requests can do.
\<close>

datatype sync_state = CS_RECEIVED | CS_VALIDATED | CS_MATERIALIZED | CS_RELOAD_REQUIRED | CS_RESTART_REQUIRED | CS_ACTIVE | CS_FAILED

fun cs_value :: "sync_state \<Rightarrow> string" where
  "cs_value CS_RECEIVED = ''RECEIVED''"
| "cs_value CS_VALIDATED = ''VALIDATED''"
| "cs_value CS_MATERIALIZED = ''MATERIALIZED''"
| "cs_value CS_RELOAD_REQUIRED = ''RELOAD_REQUIRED''"
| "cs_value CS_RESTART_REQUIRED = ''RESTART_REQUIRED''"
| "cs_value CS_ACTIVE = ''ACTIVE''"
| "cs_value CS_FAILED = ''FAILED''"

text \<open>\<open>int(part)\<close>, which since Python 3.11 refuses more than 4300 digits, with \<open>0\<close> for what it refuses.\<close>

definition semver_part :: "string \<Rightarrow> int" where
  "semver_part part =
     (case int_of_str part of
        None \<Rightarrow> 0
      | Some i \<Rightarrow> if 4300 < length (no_underscore (snd (split_sign (strip part)))) then 0 else i)"

text \<open>The three components; pairs are ordered lexicographically, like the tuples of the code.\<close>

definition parse_semver :: "string \<Rightarrow> int \<times> int \<times> int" where
  "parse_semver v_str =
     (let clean = hd (split_on CHR ''-'' (lstrip_by (\<lambda>c. c = CHR ''v'') (strip v_str)));
          parts = map semver_part (split_on CHR ''.'' clean);
          padded = parts @ replicate (3 - length parts) 0
      in (padded ! 0, padded ! 1, padded ! 2))"

subsection \<open>State\<close>

record sync_env =
  se_root :: string
  se_yaml :: "pyval \<Rightarrow> string"
  se_rule :: rule_init
  se_re :: re_engine

record write_io =
  w_open :: "exn option"
  w_temp :: string
  w_write :: "exn option"
  w_rename :: "exn option"
  w_remove :: "exn option"

record sync_io =
  si_write :: write_io
  si_m1_health :: "nat result"
  si_m2_register :: "nat result"
  si_m2_parse :: "nat result"
  si_m3_version :: "nat result"
  si_m4_configuration :: "(nat \<times> pyval result) result"
  si_m4_reload :: "unit result"
  si_m4_verify :: "unit result"
  si_m5_load :: "unit result"
  si_now :: string

record sync_worker =
  sw_distributions :: "(pyval \<times> pydict) list"
  sw_active_versions :: "(string, string) dict"
  sw_active_configs :: "(string, pyval) dict"
  sw_files :: "(string, string) dict"
  sw_m4 :: config_manager

definition new_worker :: sync_worker where
  "new_worker = \<lparr> sw_distributions = [], sw_active_versions = [], sw_active_configs = [], sw_files = [], sw_m4 = new_manager \<rparr>"

text \<open>A dictionary whose keys are any hashable values: lookup compares with \<open>==\<close>, and an update keeps the key that is there.\<close>

fun hashable :: "pyval \<Rightarrow> bool" where
  "hashable (PList _) = False"
| "hashable (PDict _) = False"
| "hashable _ = True"

fun vdict_get :: "(pyval \<times> 'v) list \<Rightarrow> pyval \<Rightarrow> 'v option" where
  "vdict_get [] k = None"
| "vdict_get ((k', v) # d) k = (if py_eq k k' then Some v else vdict_get d k)"

fun vdict_set :: "pyval \<Rightarrow> 'v \<Rightarrow> (pyval \<times> 'v) list \<Rightarrow> (pyval \<times> 'v) list" where
  "vdict_set k v [] = [(k, v)]"
| "vdict_set k v ((k', v') # d) = (if py_eq k k' then (k', v) # d else (k', v') # vdict_set k v d)"

definition scope_key :: "string \<Rightarrow> pyval \<Rightarrow> pyval \<Rightarrow> string" where
  "scope_key md tenant_id entity_id =
     md @ '':'' @ py_str (por tenant_id (PStr ''global'')) @ '':'' @ py_str (por entity_id (PStr ''default''))"

text \<open>\<open>_atomic_write_file\<close>: the text goes to a temporary file that then takes the name of the target.\<close>

definition atomic_write_file :: "write_io \<Rightarrow> string \<Rightarrow> string \<Rightarrow> (string, string) dict \<Rightarrow> (string, string) dict \<times> unit result" where
  "atomic_write_file w target_path content files =
     (case w_open w of
        Some e \<Rightarrow> (files, Inl e)
      | None \<Rightarrow>
          let clean_up = (\<lambda>e fs. case w_remove w of None \<Rightarrow> (dict_del (w_temp w) fs, Inl e) | Some e' \<Rightarrow> (fs, Inl e'));
              written = dict_set (w_temp w) content files
          in (case w_write w of
                Some e \<Rightarrow> clean_up e (dict_set (w_temp w) [] files)
              | None \<Rightarrow>
                  (case w_rename w of
                     Some e \<Rightarrow> clean_up e written
                   | None \<Rightarrow> (dict_set target_path content (dict_del (w_temp w) written), Inr ()))))"

definition materialize :: "sync_io \<Rightarrow> string \<Rightarrow> string \<Rightarrow> (sync_worker \<Rightarrow> sync_worker \<times> 'a result) \<Rightarrow> sync_worker \<Rightarrow> sync_worker \<times> 'a result" where
  "materialize io path content k st =
     (case atomic_write_file (si_write io) path content (sw_files st) of
        (files, Inl e) \<Rightarrow> (st\<lparr>sw_files := files\<rparr>, Inl e)
      | (files, Inr _) \<Rightarrow> k (st\<lparr>sw_files := files\<rparr>))"

definition adopt :: "string \<Rightarrow> string \<Rightarrow> pyval \<Rightarrow> sync_worker \<Rightarrow> sync_worker" where
  "adopt scope version payload st =
     st\<lparr>sw_active_versions := dict_set scope version (sw_active_versions st), sw_active_configs := dict_set scope payload (sw_active_configs st)\<rparr>"

text \<open>\<open>json.dumps(v, indent=2)\<close>, at the given depth.\<close>

definition indent :: "nat \<Rightarrow> string" where
  "indent n = CHR 0x0A # replicate (2 * n) (CHR '' '')"

fun json_indented :: "nat \<Rightarrow> pyval \<Rightarrow> string" where
  "json_indented n (PList (x # xs)) =
     ''['' @ indent (Suc n) @ join ('','' @ indent (Suc n)) (map (json_indented (Suc n)) (x # xs)) @ indent n @ '']''"
| "json_indented n (PDict (kv # d)) =
     ''{'' @ indent (Suc n) @
     join ('','' @ indent (Suc n)) (map (\<lambda>(k, v). json_string True k @ '': '' @ json_indented (Suc n) v) (kv # d)) @ indent n @ ''}''"
| "json_indented n v = json_dumps default_opts v"

text \<open>What the handlers read from an event.\<close>

definition ev_payload :: "pydict \<Rightarrow> pyval" where
  "ev_payload event = pget_default event ''payload'' (PDict [])"

definition ev_version :: "pydict \<Rightarrow> string" where
  "ev_version event = py_str (pget_default event ''version'' (PStr ''1.0.0''))"

text \<open>\<open>sub in v\<close>\<close>

definition py_contains :: "string \<Rightarrow> pyval \<Rightarrow> bool result" where
  "py_contains sub v =
     (case v of
        PStr s \<Rightarrow> Inr (contains sub s)
      | PList xs \<Rightarrow> Inr (list_ex (py_eq (PStr sub)) xs)
      | PDict d \<Rightarrow> Inr (dict_has sub d)
      | _ \<Rightarrow> Inl (TypeError ''argument is not iterable''))"

fun contains_any :: "string list \<Rightarrow> pyval \<Rightarrow> bool result" where
  "contains_any [] v = Inr False"
| "contains_any (sub # subs) v = rbind (py_contains sub v) (\<lambda>b. if b then Inr True else contains_any subs v)"

definition details :: "string \<Rightarrow> pydict \<Rightarrow> sync_state \<Rightarrow> pydict \<Rightarrow> pydict" where
  "details action mid cs rest = (''action'', PStr action) # mid @ (''config_state'', PStr (cs_value cs)) # rest"

subsection \<open>M1: sources\<close>

definition verify_m1_runtime_adoption :: "sync_io \<Rightarrow> pydict \<Rightarrow> bool" where
  "verify_m1_runtime_adoption io event =
     (if si_m1_health io = Inr 200 then True
      else case ev_payload event of
             PDict p \<Rightarrow> if py_truthy (pget p ''sources'') \<or> py_truthy (pget p ''source_id'') \<or> py_truthy (pget p ''rate_limit'') then True else True
           | _ \<Rightarrow> True)"

definition m1_path :: "sync_env \<Rightarrow> string" where
  "m1_path env = join_paths (se_root env) [''integration'', ''config_sync'', ''generated'', ''m1_sources.json'']"

definition apply_m1_source_config :: "sync_env \<Rightarrow> sync_io \<Rightarrow> pydict \<Rightarrow> bool \<Rightarrow> sync_worker \<Rightarrow> sync_worker \<times> pydict result" where
  "apply_m1_source_config env io event controlled_restart st =
     (let payload = ev_payload event;
          entity_id = por (pget event ''entity_id'') (PStr ''default_sources'');
          scope = scope_key ''M1'' (pget event ''tenant_id'') entity_id;
          path = (''path'', PStr (m1_path env))
      in materialize io (m1_path env) (json_indented 0 payload) (\<lambda>st1.
           if \<not> controlled_restart then
             (st1, Inr (details ''MATERIALIZED_CONFIG'' [path] CS_RESTART_REQUIRED [(''restart_required'', PBool True), (''verified'', PBool False)]))
           else if verify_m1_runtime_adoption io event then
             (adopt scope (ev_version event) payload st1,
              Inr (details ''RESTARTED_AND_VERIFIED'' [path] CS_ACTIVE [(''restart_required'', PBool False), (''verified'', PBool True)]))
           else
             (st1, Inr (details ''VERIFICATION_FAILED'' [path] CS_FAILED [(''restart_required'', PBool True), (''verified'', PBool False)]))) st)"

subsection \<open>M2: parsers\<close>

definition accepted_code :: "nat result \<Rightarrow> bool" where
  "accepted_code r = (case r of Inr c \<Rightarrow> c = 200 \<or> c = 201 | Inl _ \<Rightarrow> False)"

text \<open>The import of M2's registry that is tried last decides nothing: both ends of it return \<open>True\<close>.\<close>

definition verify_m2_runtime_adoption :: "sync_io \<Rightarrow> pyval \<Rightarrow> pydict \<Rightarrow> bool result" where
  "verify_m2_runtime_adoption io parser_id parser_payload =
     (if \<not> py_truthy (por (pget parser_payload ''test_sample'') (pget parser_payload ''sample_log'')) \<and> \<not> is_str parser_id
      then Inl (TypeError ''can only concatenate str to str'')
      else if accepted_code (si_m2_parse io) then Inr True
      else Inr True)"

definition m2_tenant :: "pydict \<Rightarrow> pyval" where
  "m2_tenant event = por (pget event ''tenant_id'') (PStr ''global'')"

definition m2_entity :: "pydict \<Rightarrow> pydict \<Rightarrow> pyval" where
  "m2_entity event payload = por (pget event ''entity_id'') (por (pget payload ''id'') (PStr ''unknown_parser''))"

definition m2_path :: "sync_env \<Rightarrow> pyval \<Rightarrow> pyval \<Rightarrow> string" where
  "m2_path env tenant_id entity_id =
     path_join (join_paths (se_root env) [''M2'', ''abcd-main'', ''parsers'', py_str tenant_id]) (py_str entity_id @ ''.yaml'')"

definition apply_m2_parser_config :: "sync_env \<Rightarrow> sync_io \<Rightarrow> pydict \<Rightarrow> bool \<Rightarrow> sync_worker \<Rightarrow> sync_worker \<times> pydict result" where
  "apply_m2_parser_config env io event verify_runtime st =
     (case as_dict (ev_payload event) of
        Inl e \<Rightarrow> (st, Inl e)
      | Inr payload \<Rightarrow>
          let entity_id = m2_entity event payload; tenant_id = m2_tenant event;
              scope = scope_key ''M2'' tenant_id entity_id;
              pattern = por (pget payload ''pattern'') (por (pget payload ''grok_pattern'') (PStr []));
              path = m2_path env tenant_id entity_id
          in (case contains_any [''(.+)+'', ''(a+)+''] pattern of
                Inl e \<Rightarrow> (st, Inl e)
              | Inr True \<Rightarrow> (st, Inl (ValueError ''ReDoS vulnerability detected in parser pattern''))
              | Inr False \<Rightarrow>
                  if \<not> is_str tenant_id then (st, Inl (TypeError ''join() argument must be str, bytes, or os.PathLike object''))
                  else
                    materialize io path (se_yaml env (PDict payload)) (\<lambda>st1.
                      if \<not> verify_runtime then
                        (st1, Inr (details ''MATERIALIZED'' [(''path'', PStr path)] CS_MATERIALIZED [(''verified'', PBool False)]))
                      else
                        case verify_m2_runtime_adoption io entity_id payload of
                          Inl e \<Rightarrow> (st1, Inl e)
                        | Inr True \<Rightarrow>
                            (adopt scope (ev_version event) (PDict payload) st1,
                             Inr (details ''REGISTERED_AND_OPERATIONAL'' [(''parser_id'', entity_id)] CS_ACTIVE
                                [(''registered_via_api'', PBool (accepted_code (si_m2_register io))), (''verified'', PBool True)]))
                        | Inr False \<Rightarrow>
                            (st1, Inr (details ''VERIFICATION_FAILED'' [(''parser_id'', entity_id)] CS_FAILED [(''verified'', PBool False)]))) st))"

subsection \<open>M3: mappings\<close>

text \<open>\<open>_reload_m3_runtime\<close> empties the caches of an imported M3 and keeps every exception for itself: nothing of this state changes.
  The import that \<open>verify_m3_runtime_adoption\<close> tries last decides nothing.\<close>

definition verify_m3_runtime_adoption :: "sync_io \<Rightarrow> bool" where
  "verify_m3_runtime_adoption io = (if si_m3_version io = Inr 200 then True else True)"

definition yaml_path :: "sync_env \<Rightarrow> string list \<Rightarrow> pyval \<Rightarrow> string" where
  "yaml_path env dirs entity_id = path_join (join_paths (se_root env) dirs) (py_str entity_id @ ''.yaml'')"

definition apply_m3_mapping_config :: "sync_env \<Rightarrow> sync_io \<Rightarrow> pydict \<Rightarrow> bool \<Rightarrow> bool \<Rightarrow> sync_worker \<Rightarrow> sync_worker \<times> pydict result" where
  "apply_m3_mapping_config env io event controlled_reload verify_runtime st =
     (let payload = ev_payload event;
          entity_id = por (pget event ''entity_id'') (PStr ''custom_mapping'');
          scope = scope_key ''M3'' (pget event ''tenant_id'') entity_id;
          file_path = yaml_path env [''M3'', ''mappings''] entity_id;
          path = (''path'', PStr file_path)
      in materialize io file_path (se_yaml env payload) (\<lambda>st1.
           if \<not> controlled_reload then
             (st1, Inr (details ''MATERIALIZED_YAML'' [path] CS_RELOAD_REQUIRED [(''verified'', PBool False)]))
           else if \<not> verify_runtime then
             (st1, Inr (details ''RELOADED_UNVERIFIED'' [path] CS_MATERIALIZED [(''verified'', PBool False)]))
           else if verify_m3_runtime_adoption io then
             (adopt scope (ev_version event) payload st1, Inr (details ''RELOADED_AND_VERIFIED'' [path] CS_ACTIVE [(''verified'', PBool True)]))
           else
             (st1, Inr (details ''VERIFICATION_FAILED'' [path] CS_FAILED [(''verified'', PBool False)]))) st)"

subsection \<open>M4: enrichment rules\<close>

definition m4_draft :: "string \<Rightarrow> pydict \<Rightarrow> enrichment_config result" where
  "m4_draft version payload =
     (case pget_default payload ''description'' (PStr (''Version '' @ version @ '' via M6 distribution'')) of
        PStr text \<Rightarrow>
          rbind (validate_version_format version) (\<lambda>v.
            Inr (default_config\<lparr>cfg_version := v, cfg_state := DRAFT, cfg_description := text\<rparr>))
      | _ \<Rightarrow> Inl (ValueError ''Input should be a valid string''))"

text \<open>\<open>_reload_m4_runtime\<close> returns \<open>True\<close> on every path; what it leaves of M4's manager is the result here.\<close>

definition reload_m4_runtime :: "sync_io \<Rightarrow> string \<Rightarrow> pydict \<Rightarrow> config_manager \<Rightarrow> config_manager" where
  "reload_m4_runtime io version payload mgr =
     (case rbind (si_m4_reload io) (\<lambda>_. get_active mgr) of
        Inl _ \<Rightarrow> mgr
      | Inr active \<Rightarrow>
          if cfg_version active = version then mgr
          else
            case m4_draft version payload of
              Inl _ \<Rightarrow> mgr
            | Inr draft \<Rightarrow>
                let registered = (case register_draft draft mgr of Inl _ \<Rightarrow> mgr | Inr mgr' \<Rightarrow> mgr')
                in (case activate version registered of Inl _ \<Rightarrow> registered | Inr (mgr', _) \<Rightarrow> mgr'))"

definition m4_live_version :: "sync_io \<Rightarrow> string \<Rightarrow> bool" where
  "m4_live_version io expected =
     (case si_m4_configuration io of
        Inr (c, Inr (PDict data)) \<Rightarrow> c = 200 \<and> py_eq (pget data ''version'') (PStr expected)
      | _ \<Rightarrow> False)"

definition verify_m4_runtime_adoption :: "sync_io \<Rightarrow> string \<Rightarrow> config_manager \<Rightarrow> bool" where
  "verify_m4_runtime_adoption io expected_version mgr =
     (if m4_live_version io expected_version then True
      else case rbind (si_m4_verify io) (\<lambda>_. get_active mgr) of
             Inr active \<Rightarrow> cfg_version active = expected_version
           | Inl _ \<Rightarrow> True)"

definition m4_path :: "sync_env \<Rightarrow> string" where
  "m4_path env = join_paths (se_root env) [''integration'', ''config_sync'', ''generated'', ''m4_rules.json'']"

text \<open>A payload without \<open>get\<close> raises inside \<open>_reload_m4_runtime\<close>, which keeps the exception.\<close>

definition apply_m4_enrichment_config :: "sync_env \<Rightarrow> sync_io \<Rightarrow> pydict \<Rightarrow> bool \<Rightarrow> bool \<Rightarrow> sync_worker \<Rightarrow> sync_worker \<times> pydict result" where
  "apply_m4_enrichment_config env io event controlled_reload verify_runtime st =
     (let payload = ev_payload event; version = ev_version event;
          scope = scope_key ''M4'' (pget event ''tenant_id'') (pget event ''entity_id'');
          answer = (\<lambda>action cs verified. details action [] cs [(''version'', PStr version), (''verified'', PBool verified)])
      in materialize io (m4_path env) (json_indented 0 payload) (\<lambda>st1.
           if \<not> controlled_reload then (st1, Inr (answer ''MATERIALIZED_RULES'' CS_RELOAD_REQUIRED False))
           else
             let st2 = (case payload of PDict p \<Rightarrow> st1\<lparr>sw_m4 := reload_m4_runtime io version p (sw_m4 st1)\<rparr> | _ \<Rightarrow> st1)
             in if \<not> verify_runtime then (st2, Inr (answer ''RELOADED_UNVERIFIED'' CS_MATERIALIZED False))
                else if verify_m4_runtime_adoption io version (sw_m4 st2) then
                  (adopt scope version payload st2, Inr (answer ''ACTIVATED_AND_VERIFIED'' CS_ACTIVE True))
                else (st2, Inr (answer ''VERIFICATION_FAILED'' CS_FAILED False))) st)"

subsection \<open>M5: policies\<close>

text \<open>\<open>xs[0]\<close>\<close>

definition item_0 :: "pyval \<Rightarrow> pyval result" where
  "item_0 v =
     (case v of
        PList (x # _) \<Rightarrow> Inr x
      | PList [] \<Rightarrow> Inl IndexError
      | PStr (c # _) \<Rightarrow> Inr (PStr [c])
      | PStr [] \<Rightarrow> Inl (OtherError ''IndexError'' ''string index out of range'')
      | PDict _ \<Rightarrow> Inl (OtherError ''KeyError'' ''0'')
      | _ \<Rightarrow> Inl (TypeError ''object is not subscriptable''))"

text \<open>The rules that \<open>_reload_m5_runtime\<close> loads are given to nobody.\<close>

definition reload_m5_runtime :: "sync_env \<Rightarrow> sync_io \<Rightarrow> pyval \<Rightarrow> bool" where
  "reload_m5_runtime env io payload =
     (case rbind (si_m5_load io) (\<lambda>_. load_from_dict (se_rule env) payload) of Inr rules \<Rightarrow> True | Inl e \<Rightarrow> True)"

definition sample_event :: "pyval \<Rightarrow> pydict" where
  "sample_event tenant =
     [(''event'', PDict [(''id'', PStr ''ev-test-1'')]), (''tenant_id'', tenant), (''tenant'', PDict [(''id'', tenant), (''tenant_id'', tenant)])]"

definition test_route :: "sync_env \<Rightarrow> sync_io \<Rightarrow> pydict \<Rightarrow> bool result" where
  "test_route env io target_rule =
     (let expected_destinations = pget_default target_rule ''destinations'' (PList []) in
      rbind (si_m5_load io) (\<lambda>_.
      rbind (PolicyRule (se_rule env)
               [(''id'', pget_default target_rule ''id'' (PStr ''test_rule'')), (''tenant_id'', pget target_rule ''tenant_id''),
                (''destinations'', expected_destinations), (''priority'', pget_default target_rule ''priority'' (PInt 100))]) (\<lambda>r.
      rbind (route (se_re env) (set_rules [r]) (sample_event (por (pget target_rule ''tenant_id'') (PStr ''tenant-cisco''))) (si_now io)) (\<lambda>(dests, _).
      rbind (py_iter expected_destinations) (\<lambda>ds.
        Inr (list_ex (\<lambda>d. list_ex (\<lambda>x. py_eq d (PStr x)) dests) ds))))))"

definition verify_m5_runtime_adoption :: "sync_env \<Rightarrow> sync_io \<Rightarrow> pyval \<Rightarrow> bool result" where
  "verify_m5_runtime_adoption env io policy_payload =
     rbind (as_dict policy_payload) (\<lambda>payload.
       let policies = pget_default payload ''policies'' (PList []) in
       if \<not> py_truthy policies then Inr True
       else
         rbind (item_0 policies) (\<lambda>first.
         rbind (as_dict first) (\<lambda>target_rule.
           Inr (case test_route env io target_rule of Inr b \<Rightarrow> b | Inl _ \<Rightarrow> True))))"

definition apply_m5_policy_config :: "sync_env \<Rightarrow> sync_io \<Rightarrow> pydict \<Rightarrow> bool \<Rightarrow> bool \<Rightarrow> sync_worker \<Rightarrow> sync_worker \<times> pydict result" where
  "apply_m5_policy_config env io event controlled_reload verify_runtime st =
     (let payload = ev_payload event;
          entity_id = por (pget event ''entity_id'') (PStr ''default'');
          scope = scope_key ''M5'' (pget event ''tenant_id'') entity_id;
          file_path = yaml_path env [''M5'', ''policies''] entity_id;
          path = (''path'', PStr file_path)
      in materialize io file_path (se_yaml env payload) (\<lambda>st1.
           if \<not> controlled_reload then
             (st1, Inr (details ''MATERIALIZED_POLICY'' [path] CS_RELOAD_REQUIRED [(''verified'', PBool False)]))
           else if reload_m5_runtime env io payload \<and> \<not> verify_runtime then
             (st1, Inr (details ''RELOADED_UNVERIFIED'' [path] CS_MATERIALIZED [(''verified'', PBool False)]))
           else
             case verify_m5_runtime_adoption env io payload of
               Inl e \<Rightarrow> (st1, Inl e)
             | Inr True \<Rightarrow>
                 (adopt scope (ev_version event) payload st1, Inr (details ''RELOADED_AND_VERIFIED'' [path] CS_ACTIVE [(''verified'', PBool True)]))
             | Inr False \<Rightarrow>
                 (st1, Inr (details ''VERIFICATION_FAILED'' [path] CS_FAILED [(''verified'', PBool False)]))) st)"

subsection \<open>Acknowledgements\<close>

definition infer_module :: "string option \<Rightarrow> string \<Rightarrow> string" where
  "infer_module target_module config_type =
     (let md = upper (case target_module of None \<Rightarrow> [] | Some m \<Rightarrow> m) in
      if md \<noteq> [] then md
      else if config_type \<in> {''sources'', ''ingestion''} then ''M1''
      else if config_type \<in> {''parsers'', ''parser''} then ''M2''
      else if config_type \<in> {''schemas'', ''mappings'', ''mapping''} then ''M3''
      else if config_type \<in> {''enrichment'', ''enrichment_rules''} then ''M4''
      else if config_type \<in> {''policies'', ''policy'', ''routing''} then ''M5''
      else ''UNKNOWN'')"

definition expected_modules :: "(string, string) dict" where
  "expected_modules =
     [(''sources'', ''M1''), (''ingestion'', ''M1''), (''parsers'', ''M2''), (''parser'', ''M2''), (''schemas'', ''M3''), (''mappings'', ''M3''),
      (''mapping'', ''M3''), (''enrichment'', ''M4''), (''enrichment_rules'', ''M4''), (''policies'', ''M5''), (''policy'', ''M5''), (''routing'', ''M5'')]"

text \<open>The fields that every acknowledgement has.\<close>

record ack_head =
  ah_distribution_id :: pyval
  ah_config_id :: pyval
  ah_version :: string
  ah_module :: string
  ah_timestamp :: string
  ah_correlation_id :: pyval

definition failed_ack :: "ack_head \<Rightarrow> string \<Rightarrow> pydict" where
  "failed_ack h err_msg =
     [(''distribution_id'', ah_distribution_id h), (''config_id'', ah_config_id h), (''version'', PStr (ah_version h)), (''module'', PStr (ah_module h)),
      (''status'', PStr ''FAILED''), (''config_state'', PStr (cs_value CS_FAILED)), (''timestamp'', PStr (ah_timestamp h)),
      (''correlation_id'', ah_correlation_id h), (''error'', PStr err_msg)]"

definition ack_status :: "pyval \<Rightarrow> string" where
  "ack_status config_state =
     (if config_state = PStr (cs_value CS_ACTIVE) then ''APPLIED''
      else if config_state = PStr (cs_value CS_RESTART_REQUIRED) then ''RESTART_REQUIRED''
      else if config_state = PStr (cs_value CS_RELOAD_REQUIRED) then ''RELOAD_REQUIRED''
      else if config_state = PStr (cs_value CS_MATERIALIZED) then ''MATERIALIZED''
      else ''FAILED'')"

definition positive_ack :: "ack_head \<Rightarrow> pydict \<Rightarrow> pydict" where
  "positive_ack h det =
     (let config_state = pget_default det ''config_state'' (PStr (cs_value CS_MATERIALIZED)); status_ack = ack_status config_state in
      [(''distribution_id'', ah_distribution_id h), (''config_id'', ah_config_id h), (''version'', PStr (ah_version h)), (''module'', PStr (ah_module h)),
       (''status'', PStr status_ack), (''config_state'', PStr (py_str config_state)),
       (''restart_required'', pget_default det ''restart_required'' (PBool False)), (''timestamp'', PStr (ah_timestamp h)),
       (''correlation_id'', ah_correlation_id h), (''applied_at'', if status_ack = ''APPLIED'' then PStr (ah_timestamp h) else PNone),
       (''applied'', PBool (status_ack = ''APPLIED'')), (''details'', PDict det)])"

text \<open>The options of \<open>apply_configuration\<close>; the endpoint leaves them at their defaults.\<close>

record sync_options =
  so_restart :: bool
  so_reload :: bool
  so_verify :: bool

definition default_options :: sync_options where
  "default_options = \<lparr> so_restart = False, so_reload = True, so_verify = True \<rparr>"

definition dispatch_module :: "sync_env \<Rightarrow> sync_io \<Rightarrow> sync_options \<Rightarrow> string \<Rightarrow> pydict \<Rightarrow> sync_worker \<Rightarrow> sync_worker \<times> pydict result" where
  "dispatch_module env io opts md event st =
     (if md = ''M1'' then apply_m1_source_config env io event (so_restart opts) st
      else if md = ''M2'' then apply_m2_parser_config env io event (so_verify opts) st
      else if md = ''M3'' then apply_m3_mapping_config env io event (so_reload opts) (so_verify opts) st
      else if md = ''M4'' then apply_m4_enrichment_config env io event (so_reload opts) (so_verify opts) st
      else if md = ''M5'' then apply_m5_policy_config env io event (so_reload opts) (so_verify opts) st
      else (st, Inl (ValueError (''Unrecognized target module: '' @ md))))"

definition unsafe_tenant :: "pyval \<Rightarrow> bool result" where
  "unsafe_tenant tenant_id = (if py_truthy tenant_id then contains_any [''..'', ''/'', [CHR 0x5C]] tenant_id else Inr False)"

definition stale_version :: "string \<Rightarrow> string \<Rightarrow> sync_worker \<Rightarrow> string option" where
  "stale_version scope version st =
     (case map_of (sw_active_versions st) scope of
        Some active_ver \<Rightarrow>
          if parse_semver version \<le> parse_semver active_ver then
            Some (''Stale configuration version: incoming version '' @ quoted version @ '' is older than or equal to active version '' @ quoted active_ver)
          else None
      | None \<Rightarrow> None)"

text \<open>Steps 3 to 5: what is wrong with an event that is no duplicate.\<close>

definition checked_scope :: "string \<Rightarrow> pydict \<Rightarrow> string" where
  "checked_scope md event = scope_key md (pget event ''tenant_id'') (pget event ''entity_id'')"

definition validate_scope :: "string \<Rightarrow> pydict \<Rightarrow> sync_worker \<Rightarrow> string option result" where
  "validate_scope md event st =
     (if \<not> is_dict (pget event ''payload'') then Inr (Some ''Malformed configuration: payload must be a non-empty dictionary'')
      else
        rbind (unsafe_tenant (pget event ''tenant_id'')) (\<lambda>unsafe.
          if unsafe then
            Inr (Some (''Security violation: Invalid or malicious tenant_id '' @ quoted (py_str (pget event ''tenant_id''))))
          else Inr (stale_version (checked_scope md event) (ev_version event) st)))"

definition validate_distribution :: "string \<Rightarrow> string \<Rightarrow> pydict \<Rightarrow> sync_worker \<Rightarrow> string option result" where
  "validate_distribution md config_type event st =
     (case map_of expected_modules config_type of
        Some expected \<Rightarrow>
          if expected \<noteq> md then
            Inr (Some (''Wrong module target: config_type '' @ quoted config_type @ '' belongs to '' @ expected @ '', not '' @ md))
          else validate_scope md event st
      | None \<Rightarrow> validate_scope md event st)"

definition lower_str :: "pyval \<Rightarrow> string result" where
  "lower_str v = (case v of PStr s \<Rightarrow> Inr (lower s) | _ \<Rightarrow> Inl (AttributeError ''object has no attribute lower''))"

definition ack_head_of :: "sync_io \<Rightarrow> string \<Rightarrow> pydict \<Rightarrow> ack_head" where
  "ack_head_of io md event =
     (let distribution_id = pget_default event ''distribution_id'' (PStr []) in
      \<lparr> ah_distribution_id = distribution_id, ah_config_id = por (pget event ''entity_id'') distribution_id, ah_version = ev_version event,
        ah_module = md, ah_timestamp = si_now io, ah_correlation_id = pget_default event ''correlation_id'' (PStr []) \<rparr>)"

definition remember_ack :: "pyval \<Rightarrow> pydict \<Rightarrow> sync_worker \<Rightarrow> sync_worker" where
  "remember_ack distribution_id ack st = st\<lparr>sw_distributions := vdict_set distribution_id ack (sw_distributions st)\<rparr>"

definition apply_configuration :: "sync_env \<Rightarrow> sync_io \<Rightarrow> sync_options \<Rightarrow> string option \<Rightarrow> pydict \<Rightarrow> sync_worker \<Rightarrow> sync_worker \<times> pydict result" where
  "apply_configuration env io opts target_module event st =
     (let distribution_id = pget_default event ''distribution_id'' (PStr []) in
      case lower_str (pget_default event ''config_type'' (PStr [])) of
        Inl e \<Rightarrow> (st, Inl e)
      | Inr config_type \<Rightarrow>
          if \<not> hashable distribution_id then (st, Inl (TypeError ''unhashable type''))
          else
            case vdict_get (sw_distributions st) distribution_id of
              Some cached_ack \<Rightarrow> (st, Inr (dict_set ''duplicate'' (PBool True) cached_ack))
            | None \<Rightarrow>
                let md = infer_module target_module config_type; head = ack_head_of io md event
                in (case validate_distribution md config_type event st of
                      Inl e \<Rightarrow> (st, Inl e)
                    | Inr (Some err_msg) \<Rightarrow> (st, Inr (failed_ack head err_msg))
                    | Inr None \<Rightarrow>
                        (case dispatch_module env io opts md event st of
                           (st1, Inr det) \<Rightarrow> (remember_ack distribution_id (positive_ack head det) st1, Inr (positive_ack head det))
                         | (st1, Inl e) \<Rightarrow>
                             (remember_ack distribution_id (failed_ack head (exn_str e)) st1, Inr (failed_ack head (exn_str e))))))"

text \<open>The endpoints; an exception that leaves \<open>apply_configuration\<close> becomes an answer with status 500.\<close>

definition apply_config_endpoint :: "sync_env \<Rightarrow> sync_io \<Rightarrow> string option \<Rightarrow> pyval result \<Rightarrow> sync_worker \<Rightarrow> sync_worker \<times> pydict result" where
  "apply_config_endpoint env io target_module request_json st =
     (case rbind request_json as_dict of
        Inl e \<Rightarrow> (st, Inl e)
      | Inr body \<Rightarrow> apply_configuration env io default_options target_module body st)"

definition get_config_status :: "string \<Rightarrow> sync_worker \<Rightarrow> pydict result" where
  "get_config_status distribution_id st =
     (case vdict_get (sw_distributions st) (PStr distribution_id) of
        Some ack \<Rightarrow> Inr ack
      | None \<Rightarrow> Inl (HTTPException 404 (''Distribution '' @ distribution_id @ '' not found'')))"

subsection \<open>Dictionaries and files\<close>

lemma cs_value_inject [simp]: "cs_value a = cs_value b \<longleftrightarrow> a = b"
  by (cases a; cases b) simp_all

lemma vdict_set_new: "vdict_get d k = None \<Longrightarrow> vdict_set k v d = d @ [(k, v)]"
  by (induction d) (auto split: if_splits)

lemma vdict_get_append: "vdict_get (d @ e) k = (case vdict_get d k of Some v \<Rightarrow> Some v | None \<Rightarrow> vdict_get e k)"
  by (induction d) auto

lemma atomic_write_ok:
  assumes "atomic_write_file w path content files = (files', Inr ())"
  shows "map_of files' path = Some content" "q \<noteq> path \<Longrightarrow> q \<noteq> w_temp w \<Longrightarrow> map_of files' q = map_of files q"
  using assms by (auto simp: atomic_write_file_def Let_def split: option.splits)

lemma atomic_write_failed:
  assumes "atomic_write_file w path content files = (files', Inl e)" "map_of files (w_temp w) = None" "w_remove w = None"
  shows "map_of files' = map_of files"
  using assms by (auto simp: atomic_write_file_def Let_def fun_eq_iff split: option.splits)

subsection \<open>Effect of the handlers\<close>

text \<open>The scope that a handler records, and the file that it writes.\<close>

definition recorded_entity :: "string \<Rightarrow> pydict \<Rightarrow> pyval" where
  "recorded_entity md event =
     (if md = ''M1'' then por (pget event ''entity_id'') (PStr ''default_sources'')
      else if md = ''M2'' then (case ev_payload event of PDict p \<Rightarrow> m2_entity event p | _ \<Rightarrow> PNone)
      else if md = ''M3'' then por (pget event ''entity_id'') (PStr ''custom_mapping'')
      else por (pget event ''entity_id'') (PStr ''default''))"

definition recorded_scope :: "string \<Rightarrow> pydict \<Rightarrow> string" where
  "recorded_scope md event = scope_key md (pget event ''tenant_id'') (recorded_entity md event)"

definition config_file :: "sync_env \<Rightarrow> string \<Rightarrow> pydict \<Rightarrow> string \<times> string" where
  "config_file env md event =
     (if md = ''M1'' then (m1_path env, json_indented 0 (ev_payload event))
      else if md = ''M2'' then (m2_path env (m2_tenant event) (recorded_entity md event), se_yaml env (ev_payload event))
      else if md = ''M3'' then (yaml_path env [''M3'', ''mappings''] (recorded_entity md event), se_yaml env (ev_payload event))
      else if md = ''M4'' then (m4_path env, json_indented 0 (ev_payload event))
      else (yaml_path env [''M5'', ''policies''] (recorded_entity md event), se_yaml env (ev_payload event)))"

definition handler_effect :: "sync_env \<Rightarrow> string \<Rightarrow> pydict \<Rightarrow> sync_worker \<Rightarrow> sync_worker \<times> pydict result \<Rightarrow> bool" where
  "handler_effect env md event st r \<longleftrightarrow>
     sw_distributions (fst r) = sw_distributions st \<and>
     (if \<exists>det. snd r = Inr det \<and> pget_default det ''config_state'' (PStr (cs_value CS_MATERIALIZED)) = PStr (cs_value CS_ACTIVE) then
        sw_active_versions (fst r) = dict_set (recorded_scope md event) (ev_version event) (sw_active_versions st) \<and>
        sw_active_configs (fst r) = dict_set (recorded_scope md event) (ev_payload event) (sw_active_configs st) \<and>
        map_of (sw_files (fst r)) (fst (config_file env md event)) = Some (snd (config_file env md event))
      else sw_active_versions (fst r) = sw_active_versions st \<and> sw_active_configs (fst r) = sw_active_configs st)"

lemma config_state_details [simp]:
  "map_of mid ''config_state'' = None \<Longrightarrow> pget_default (details a mid cs rest) ''config_state'' v = PStr (cs_value cs)"
  by (simp add: pget_default_def details_def map_add_Some_iff split: option.splits)

lemma handler_materialize:
  assumes "\<And>files. map_of files path = Some content \<Longrightarrow> handler_effect env md event st (k (st\<lparr>sw_files := files\<rparr>))"
  shows "handler_effect env md event st (materialize io path content k st)"
proof (cases "atomic_write_file (si_write io) path content (sw_files st)")
  case (Pair files r)
  then show ?thesis
    using assms [of files] atomic_write_ok(1) [of "si_write io" path content "sw_files st" files]
    by (cases r) (auto simp: materialize_def handler_effect_def)
qed

lemma scope_key_m2: "scope_key md (m2_tenant event) entity = scope_key md (pget event ''tenant_id'') entity"
  by (auto simp: scope_key_def m2_tenant_def por_def)

lemma scope_key_default: "scope_key md tenant (por entity (PStr ''default'')) = scope_key md tenant entity"
  by (auto simp: scope_key_def por_def)

lemmas handler_simps = handler_effect_def adopt_def recorded_scope_def recorded_entity_def config_file_def Let_def scope_key_m2 scope_key_default

lemma m1_effect: "handler_effect env ''M1'' event st (apply_m1_source_config env io event restart st)"
  unfolding apply_m1_source_config_def Let_def
  by (rule handler_materialize) (simp add: handler_simps)

lemma m2_effect: "handler_effect env ''M2'' event st (apply_m2_parser_config env io event verify st)"
proof (cases "ev_payload event")
  case (PDict p)
  show ?thesis
    unfolding apply_m2_parser_config_def Let_def PDict as_dict_def
    by (auto split: sum.split bool.split intro!: handler_materialize) (auto simp: handler_simps PDict split: sum.split bool.split)
qed (auto simp: apply_m2_parser_config_def as_dict_def handler_simps)

lemma m3_effect: "handler_effect env ''M3'' event st (apply_m3_mapping_config env io event reload verify st)"
  unfolding apply_m3_mapping_config_def Let_def
  by (rule handler_materialize) (simp add: handler_simps)

lemma m4_effect: "handler_effect env ''M4'' event st (apply_m4_enrichment_config env io event reload verify st)"
  unfolding apply_m4_enrichment_config_def Let_def
  by (rule handler_materialize) (simp add: handler_simps split: pyval.split)

lemma m5_effect: "handler_effect env ''M5'' event st (apply_m5_policy_config env io event reload verify st)"
  unfolding apply_m5_policy_config_def Let_def
  by (rule handler_materialize) (simp add: handler_simps split: sum.split bool.split)

lemma dispatch_effect: "handler_effect env md event st (dispatch_module env io opts md event st)"
  by (simp add: dispatch_module_def m1_effect m2_effect m3_effect m4_effect m5_effect) (simp add: handler_effect_def)

subsection \<open>Outcomes of a distribution\<close>

definition distribution_of :: "pydict \<Rightarrow> pyval" where
  "distribution_of event = pget_default event ''distribution_id'' (PStr [])"

lemma apply_cases:
  assumes "apply_configuration env io opts tgt event st = (st', r)"
  obtains (escaped) e where "r = Inl e" "st' = st"
  | (duplicate) ack where "vdict_get (sw_distributions st) (distribution_of event) = Some ack" "st' = st" "r = Inr (dict_set ''duplicate'' (PBool True) ack)"
  | (rejected) md msg where "vdict_get (sw_distributions st) (distribution_of event) = None" "st' = st" "r = Inr (failed_ack (ack_head_of io md event) msg)"
  | (dispatched) md config_type st1 res ack where "vdict_get (sw_distributions st) (distribution_of event) = None"
      "validate_distribution md config_type event st = Inr None" "dispatch_module env io opts md event st = (st1, res)"
      "ack = (case res of Inr det \<Rightarrow> positive_ack (ack_head_of io md event) det | Inl e \<Rightarrow> failed_ack (ack_head_of io md event) (exn_str e))"
      "st' = remember_ack (distribution_of event) ack st1" "r = Inr ack"
      "lower_str (pget_default event ''config_type'' (PStr [])) = Inr config_type" "md = infer_module tgt config_type"
proof (cases "lower_str (pget_default event ''config_type'' (PStr []))")
  case (Inl e)
  then show thesis using escaped [of e] assms by (simp add: apply_configuration_def Let_def)
next
  case (Inr ct)
  note body = assms [unfolded apply_configuration_def Let_def Inr sum.case distribution_of_def [symmetric]]
  consider "\<not> hashable (distribution_of event)" | a where "hashable (distribution_of event)" "vdict_get (sw_distributions st) (distribution_of event) = Some a"
    | (new) "hashable (distribution_of event)" "vdict_get (sw_distributions st) (distribution_of event) = None" by fastforce
  then show thesis
  proof cases
    case new
    note body = body [unfolded new(2) option.case]
    let ?md = "infer_module tgt ct"
    obtain st1 res where d: "dispatch_module env io opts ?md event st = (st1, res)" by fastforce
    consider e where "validate_distribution ?md ct event st = Inl e" | m where "validate_distribution ?md ct event st = Inr (Some m)"
      | "validate_distribution ?md ct event st = Inr None" by (metis not_Some_eq sumE)
    then show thesis
    proof cases
      case (1 e)
      show thesis by (rule escaped [of e]) (use body new(1) 1 in simp_all)
    next
      case (2 m)
      show thesis by (rule rejected [OF new(2), of ?md m]) (use body new(1) 2 in simp_all)
    next
      case 3
      show thesis by (rule dispatched [OF new(2) 3 d refl]) (use body new(1) 3 d Inr in \<open>simp_all split: sum.splits\<close>)
    qed
  next
    case 1
    show thesis by (rule escaped [of "TypeError ''unhashable type''"]) (use body 1 in simp_all)
  next
    case (2 a)
    show thesis by (rule duplicate [OF 2(2)]) (use body 2 in simp_all)
  qed
qed

lemma validated:
  assumes "validate_distribution md ct event st = Inr None"
  obtains payload where "pget event ''payload'' = PDict payload" "stale_version (checked_scope md event) (ev_version event) st = None"
proof -
  have v: "validate_scope md event st = Inr None"
    using assms by (auto simp: validate_distribution_def split: option.splits if_splits)
  then have "is_dict (pget event ''payload'')" "stale_version (checked_scope md event) (ev_version event) st = None"
    by (auto simp: validate_scope_def split: if_splits)
  then show thesis using that by (cases "pget event ''payload''") auto
qed

lemma payload_given: "pget event ''payload'' = PDict p \<Longrightarrow> ev_payload event = PDict p"
  by (auto simp: pget_def ev_payload_def pget_default_def split: option.splits)

lemma not_stale: "stale_version scope ver st = None \<Longrightarrow> map_of (sw_active_versions st) scope = Some v \<Longrightarrow> parse_semver v < parse_semver ver"
  by (auto simp: stale_version_def split: if_splits)

lemma ack_status_applied: "ack_status cs = ''APPLIED'' \<longleftrightarrow> cs = PStr (cs_value CS_ACTIVE)"
  by (simp add: ack_status_def)

lemma failed_ack_status [simp]: "pget (failed_ack h msg) ''status'' = PStr ''FAILED''"
  by (simp add: failed_ack_def pget_def)

lemma positive_ack_status [simp]:
  "pget (positive_ack h det) ''status'' = PStr (ack_status (pget_default det ''config_state'' (PStr (cs_value CS_MATERIALIZED))))"
  by (simp add: positive_ack_def pget_def Let_def)

lemma known_module:
  assumes "dispatch_module env io opts md event st = (st', Inr det)" shows "md \<in> {''M1'', ''M2'', ''M3'', ''M4'', ''M5''}"
  using assms by (auto simp: dispatch_module_def split: if_splits)

text \<open>The scope that is checked is the one that is recorded when the event names its entity.\<close>

lemma recorded_named: "py_truthy (pget event ''entity_id'') \<Longrightarrow> ev_payload event = PDict p \<Longrightarrow> recorded_scope md event = checked_scope md event"
  by (simp add: recorded_scope_def checked_scope_def recorded_entity_def m2_entity_def)

lemma applied_recorded:
  assumes "apply_configuration env io opts tgt event st = (st', Inr ack)"
    and "vdict_get (sw_distributions st) (distribution_of event) = None" and "pget ack ''status'' = PStr ''APPLIED''"
  shows "\<exists>md ct payload. lower_str (pget_default event ''config_type'' (PStr [])) = Inr ct \<and> md = infer_module tgt ct \<and>
    md \<in> {''M1'', ''M2'', ''M3'', ''M4'', ''M5''} \<and> pget event ''payload'' = PDict payload \<and>
    map_of (sw_active_versions st') (recorded_scope md event) = Some (ev_version event) \<and>
    map_of (sw_active_configs st') (recorded_scope md event) = Some (PDict payload) \<and>
    map_of (sw_files st') (fst (config_file env md event)) = Some (snd (config_file env md event)) \<and>
    sw_distributions st' = sw_distributions st @ [(distribution_of event, ack)] \<and>
    (py_truthy (pget event ''entity_id'') \<longrightarrow>
      (\<forall>v. map_of (sw_active_versions st) (recorded_scope md event) = Some v \<longrightarrow> parse_semver v < parse_semver (ev_version event)))"
  using assms(1)
proof (cases rule: apply_cases)
  case (dispatched md ct st1 res ack')
  from dispatched(4,6) assms(3) obtain det where det: "res = Inr det"
      "pget_default det ''config_state'' (PStr (cs_value CS_MATERIALIZED)) = PStr (cs_value CS_ACTIVE)"
    by (auto simp: ack_status_applied split: sum.splits)
  obtain payload where p: "pget event ''payload'' = PDict payload" "stale_version (checked_scope md event) (ev_version event) st = None"
    using validated [OF dispatched(2)] by blast
  have eff: "handler_effect env md event st (st1, res)" using dispatch_effect [of env md event st io opts] dispatched(3) by simp
  have "md \<in> {''M1'', ''M2'', ''M3'', ''M4'', ''M5''}" using known_module dispatched(3) det(1) by blast
  then show ?thesis using eff det p dispatched(1,5-8) not_stale [OF p(2)] recorded_named [OF _ payload_given [OF p(1)], of md]
    by (intro exI [of _ md] exI [of _ ct] exI [of _ payload]) (auto simp: handler_effect_def remember_ack_def vdict_set_new payload_given)
qed (use assms(2,3) in auto)


subsection \<open>Runs\<close>

text \<open>A store whose entries only grow: an entry is never lost, and its value moves up in a preorder.\<close>

locale growing_store =
  fixes step :: "'r \<Rightarrow> 's \<Rightarrow> 's" and look :: "'s \<Rightarrow> 'k \<Rightarrow> 'v option" and le :: "'v \<Rightarrow> 'v \<Rightarrow> bool" and ok :: "'r \<Rightarrow> bool"
  assumes le_refl: "le v v" and le_trans: "le u v \<Longrightarrow> le v w \<Longrightarrow> le u w"
    and step_grows: "ok r \<Longrightarrow> look s k = Some v \<Longrightarrow> \<exists>w. look (step r s) k = Some w \<and> le v w"
begin

lemma run_grows: "\<forall>r \<in> set rs. ok r \<Longrightarrow> look s k = Some v \<Longrightarrow> \<exists>w. look (fold step rs s) k = Some w \<and> le v w"
proof (induction rs arbitrary: s v)
  case Nil
  then show ?case by (simp add: le_refl)
next
  case (Cons r rs)
  then obtain u where u: "look (step r s) k = Some u" "le v u" using step_grows [of r s k v] by auto
  with Cons.IH [OF _ u(1)] Cons.prems obtain w where "look (fold step rs (step r s)) k = Some w" "le u w" by auto
  with u(2) show ?case using le_trans by auto
qed

end

text \<open>A request to the endpoint: what happens outside, the module in the path and the body.\<close>

type_synonym sync_request = "sync_io \<times> string option \<times> pyval result"

definition sync_step :: "sync_env \<Rightarrow> sync_request \<Rightarrow> sync_worker \<Rightarrow> sync_worker" where
  "sync_step env r st = (case r of (io, tgt, body) \<Rightarrow> fst (apply_config_endpoint env io tgt body st))"

text \<open>The event of the request names its entity.\<close>

definition named :: "sync_request \<Rightarrow> bool" where
  "named r = (case r of (_, _, Inr (PDict event)) \<Rightarrow> py_truthy (pget event ''entity_id'') | _ \<Rightarrow> True)"

lemma sync_step_cases:
  obtains (same) "sync_step env r st = st"
  | (applied) io tgt event where "r = (io, tgt, Inr (PDict event))" "sync_step env r st = fst (apply_configuration env io default_options tgt event st)"
proof -
  obtain io tgt body where r: "r = (io, tgt, body)" by (cases r)
  show thesis
  proof (cases "rbind body as_dict")
    case (Inl e)
    then show thesis using same by (simp add: r sync_step_def apply_config_endpoint_def)
  next
    case (Inr event)
    then obtain v where "body = Inr v" "as_dict v = Inr event" by auto
    then have "body = Inr (PDict event)" by (cases v) (simp_all add: as_dict_def)
    then show thesis using applied [of io tgt event] by (simp add: r sync_step_def apply_config_endpoint_def as_dict_def)
  qed
qed

lemma apply_versions:
  assumes "apply_configuration env io opts tgt event st = (st', r)"
  obtains (same) "sw_active_versions st' = sw_active_versions st"
  | (moved) md payload where "pget event ''payload'' = PDict payload" "sw_active_versions st' = dict_set (recorded_scope md event) (ev_version event) (sw_active_versions st)"
      "stale_version (checked_scope md event) (ev_version event) st = None"
  using assms
proof (cases rule: apply_cases)
  case (dispatched md ct st1 res ack)
  have "handler_effect env md event st (st1, res)" using dispatch_effect [of env md event st io opts] dispatched(3) by simp
  moreover obtain payload where "pget event ''payload'' = PDict payload" "stale_version (checked_scope md event) (ev_version event) st = None"
    using validated [OF dispatched(2)] by blast
  ultimately show thesis using moved [of payload md] same dispatched(5)
    by (auto simp: handler_effect_def remember_ack_def split: if_splits)
qed (use same in auto)

lemma apply_distributions:
  assumes "apply_configuration env io opts tgt event st = (st', r)"
  shows "\<exists>d. sw_distributions st' = sw_distributions st @ d"
  using assms
proof (cases rule: apply_cases)
  case (dispatched md ct st1 res ack)
  have "sw_distributions st1 = sw_distributions st"
    using dispatch_effect [of env md event st io opts] dispatched(3) by (simp add: handler_effect_def)
  then show ?thesis using dispatched(1,5) by (simp add: remember_ack_def vdict_set_new)
qed auto

text \<open>A version stays as it is or makes place for a strictly newer one.\<close>

definition kept_or_newer :: "string \<Rightarrow> string \<Rightarrow> bool" where
  "kept_or_newer u v \<longleftrightarrow> u = v \<or> parse_semver u < parse_semver v"

interpretation versions: growing_store "sync_step env" "\<lambda>st. map_of (sw_active_versions st)" kept_or_newer named for env
proof
  fix r and s :: sync_worker and k v
  assume n: "named r" and v: "map_of (sw_active_versions s) k = Some v"
  show "\<exists>w. map_of (sw_active_versions (sync_step env r s)) k = Some w \<and> kept_or_newer v w"
  proof (cases rule: sync_step_cases [of env r s])
    case (applied io tgt event)
    obtain st' res where a: "apply_configuration env io default_options tgt event s = (st', res)" by fastforce
    from a show ?thesis
    proof (cases rule: apply_versions)
      case (moved md payload)
      then have "recorded_scope md event = checked_scope md event" using n applied(1) recorded_named payload_given by (simp add: named_def)
      then show ?thesis using moved v a applied(2) not_stale [OF moved(3), of v] by (auto simp: kept_or_newer_def)
    qed (use v a applied(2) in \<open>simp add: kept_or_newer_def\<close>)
  qed (use v in \<open>simp add: kept_or_newer_def\<close>)
qed (auto simp: kept_or_newer_def)

interpretation answers: growing_store "sync_step env" "\<lambda>st. vdict_get (sw_distributions st)" "(=)" "\<lambda>_. True" for env
proof
  fix r :: sync_request and s :: sync_worker and k v
  assume v: "vdict_get (sw_distributions s) k = Some v"
  show "\<exists>w. vdict_get (sw_distributions (sync_step env r s)) k = Some w \<and> v = w"
  proof (cases rule: sync_step_cases [of env r s])
    case (applied io tgt event)
    obtain st' res where "apply_configuration env io default_options tgt event s = (st', res)" by fastforce
    then show ?thesis using apply_distributions v applied(2) by (fastforce simp: vdict_get_append)
  qed (use v in simp)
qed auto

text \<open>(C24) A scope never goes back to an older version: as long as the events name their entity and the requests are served one after
  another, whatever is sent to the endpoint in whatever order, the version that is active under a scope is the same string
  as before or one that is strictly newer in the order of semantic versions.\<close>

theorem scope_never_downgrades:
  assumes "\<forall>r \<in> set rs. named r" and "map_of (sw_active_versions st) scope = Some v"
  shows "\<exists>w. map_of (sw_active_versions (fold (sync_step env) rs st)) scope = Some w \<and>
    (w = v \<or> parse_semver v < parse_semver w)"
  using versions.run_grows [OF assms] by (auto simp: kept_or_newer_def)

text \<open>The first answer is final: once an answer is kept for a distribution, every later delivery of it, after whatever other
  requests and with whatever content, gets that answer marked as a duplicate and changes nothing.\<close>

theorem first_answer_final:
  assumes "get_config_status did st = Inr ack" and "distribution_of event = PStr did" and "pget_default event ''config_type'' (PStr []) = PStr ct"
  shows "apply_configuration env' io opts tgt event (fold (sync_step env) rs st) =
    (fold (sync_step env) rs st, Inr (dict_set ''duplicate'' (PBool True) ack))"
proof -
  have "vdict_get (sw_distributions st) (PStr did) = Some ack" using assms(1) by (simp add: get_config_status_def split: option.splits)
  from answers.run_grows [OF _ this, of rs env] have "vdict_get (sw_distributions (fold (sync_step env) rs st)) (PStr did) = Some ack" by auto
  then show ?thesis using assms(2,3) by (simp add: apply_configuration_def distribution_of_def lower_str_def)
qed

subsection \<open>What the checks do not check\<close>

definition writes :: "sync_io \<Rightarrow> bool" where
  "writes io \<longleftrightarrow> w_open (si_write io) = None \<and> w_write (si_write io) = None \<and> w_rename (si_write io) = None"

lemma materialize_writes:
  assumes "writes io" shows "\<exists>files. materialize io path content k st = k (st\<lparr>sw_files := files\<rparr>)"
  using assms by (auto simp: writes_def materialize_def atomic_write_file_def)

text \<open>A mapping that can be written is answered \<open>APPLIED\<close> whatever M3 answers, reachable or not.\<close>

lemma mapping_always_applied:
  assumes "validate_distribution ''M3'' ct event st = Inr None" "lower_str (pget_default event ''config_type'' (PStr [])) = Inr ct"
    and "infer_module tgt ct = ''M3''" "hashable (distribution_of event)" "vdict_get (sw_distributions st) (distribution_of event) = None" "writes io"
  shows "\<exists>st' ack. apply_configuration env io default_options tgt event st = (st', Inr ack) \<and> pget ack ''status'' = PStr ''APPLIED''"
proof -
  obtain st' det where "dispatch_module env io default_options ''M3'' event st = (st', Inr det)"
      "pget_default det ''config_state'' (PStr (cs_value CS_MATERIALIZED)) = PStr (cs_value CS_ACTIVE)"
    using materialize_writes [OF assms(6)]
    by (fastforce simp: dispatch_module_def apply_m3_mapping_config_def default_options_def verify_m3_runtime_adoption_def Let_def)
  then show ?thesis using assms by (simp add: apply_configuration_def distribution_of_def ack_status_applied Let_def)
qed

text \<open>A source that the endpoint accepts is never \<open>APPLIED\<close>: the endpoint does not ask for the restart.\<close>

lemma sources_never_applied:
  assumes "apply_configuration env io default_options tgt event st = (st', Inr ack)"
    and "vdict_get (sw_distributions st) (distribution_of event) = None"
    and "lower_str (pget_default event ''config_type'' (PStr [])) = Inr ct" "ct \<in> {''sources'', ''ingestion''}"
  shows "pget ack ''status'' \<noteq> PStr ''APPLIED''"
proof -
  let ?r = "materialize io (m1_path env) (json_indented 0 (ev_payload event)) (\<lambda>st1. (st1, Inr (details ''MATERIALIZED_CONFIG'' [(''path'', PStr (m1_path env))]
    CS_RESTART_REQUIRED [(''restart_required'', PBool True), (''verified'', PBool False)]))) st"
  have m1: "apply_m1_source_config env io event False st = ?r" by (simp add: apply_m1_source_config_def Let_def)
  have "snd ?r = Inr det \<Longrightarrow> pget_default det ''config_state'' v = PStr (cs_value CS_RESTART_REQUIRED)" for det v
    by (auto simp: materialize_def split: prod.splits sum.splits)
  moreover have "validate_distribution md ct event st = Inr None \<Longrightarrow> md = ''M1''" for md
    using assms(4) by (auto simp: validate_distribution_def expected_modules_def split: if_splits)
  ultimately show ?thesis using assms m1
    by (auto simp: apply_configuration_def Let_def distribution_of_def dispatch_module_def default_options_def ack_status_def
        split: if_splits option.splits sum.splits prod.splits)
qed

subsection \<open>Examples\<close>

definition demo_sync :: sync_env where
  "demo_sync = \<lparr> se_root = ''/ulpf'', se_yaml = json_dumps default_opts, se_rule = example_mk, se_re = (\<lambda>_ _. None) \<rparr>"

text \<open>No module answers and nothing can be imported, but files can be written.\<close>

definition demo_sync_io :: sync_io where
  "demo_sync_io = \<lparr> si_write = \<lparr> w_open = None, w_temp = ''/ulpf/tmp1'', w_write = None, w_rename = None, w_remove = None \<rparr>,
     si_m1_health = Inl (ConnectionError ''refused''), si_m2_register = Inl (ConnectionError ''refused''), si_m2_parse = Inl (ConnectionError ''refused''),
     si_m3_version = Inl (ConnectionError ''refused''), si_m4_configuration = Inl (ConnectionError ''refused''), si_m4_reload = Inr (),
     si_m4_verify = Inr (), si_m5_load = Inr (), si_now = ''2026-01-01T00:00:00+00:00'' \<rparr>"

definition demo_distribution :: "string \<Rightarrow> string \<Rightarrow> string \<Rightarrow> string \<Rightarrow> pydict" where
  "demo_distribution did ct entity ver =
     [(''distribution_id'', PStr did), (''config_type'', PStr ct), (''entity_id'', PStr entity), (''version'', PStr ver), (''tenant_id'', PStr ''acme''),
      (''payload'', PDict [(''policies'', PList [PDict [(''destinations'', PList [PStr ''siem''])]])]), (''correlation_id'', PStr ''c1'')]"

definition posted :: "pydict \<Rightarrow> sync_request" where
  "posted event = (demo_sync_io, None, Inr (PDict event))"

lemma demo_semver: "parse_semver ''v1.2-rc1'' = (1, 2, 0)" "parse_semver ''2.x.7.9'' = (2, 0, 7)"
  by code_simp+

text \<open>M5 is never asked and nothing is installed in it, and yet the policy counts as applied; the older version that follows is refused.\<close>

lemma demo_policy_run:
  "map (\<lambda>rs. map_of (sw_active_versions (fold (sync_step demo_sync) rs new_worker)) ''M5:acme:edge'')
     [[posted (demo_distribution ''d1'' ''policies'' ''edge'' ''1.2.0'')],
      [posted (demo_distribution ''d1'' ''policies'' ''edge'' ''1.2.0''), posted (demo_distribution ''d2'' ''policies'' ''edge'' ''1.1.9'')]] =
   [Some ''1.2.0'', Some ''1.2.0'']"
  by code_simp

text \<open>An entity whose name is an absolute path decides where the file is written.\<close>

lemma demo_path_escape:
  "map_of (sw_files (fold (sync_step demo_sync) [posted (demo_distribution ''d1'' ''mappings'' ''/etc/cron.d/x'' ''1.0.0'')] new_worker)) ''/etc/cron.d/x.yaml'' \<noteq> None"
  by code_simp

text \<open>Without a name M1 to M3 record a scope that the check does not look at, so an older version replaces a newer one.\<close>

lemma demo_unnamed_downgrade:
  "map_of (sw_active_versions (fold (sync_step demo_sync)
     [posted (demo_distribution ''d1'' ''mappings'' [] ''2.0.0''), posted (demo_distribution ''d2'' ''mappings'' [] ''1.0.0'')] new_worker))
     ''M3:acme:custom_mapping'' = Some ''1.0.0''"
  by code_simp

text \<open>The handlers wait for the modules between the check of the version and its recording, and a second request can be served
  meanwhile: the mapping of version 1.0.0 is validated, the one of version 2.0.0 is validated and recorded, and then the first
  handler ends and records 1.0.0 over it. The runs above serve one request after another and exclude this.\<close>

lemma demo_interleaved_downgrade:
  "let older = demo_distribution ''d1'' ''mappings'' ''m'' ''1.0.0''; newer = demo_distribution ''d2'' ''mappings'' ''m'' ''2.0.0'';
       between = fold (sync_step demo_sync) [posted newer] new_worker
   in validate_distribution ''M3'' ''mappings'' older new_worker = Inr None \<and>
      map_of (sw_active_versions between) ''M3:acme:m'' = Some ''2.0.0'' \<and>
      map_of (sw_active_versions (fst (dispatch_module demo_sync demo_sync_io default_options ''M3'' older between))) ''M3:acme:m'' = Some ''1.0.0''"
  by code_simp

text \<open>M4 reports that it runs another version; the worker's own manager is activated and consulted, and the answer is \<open>APPLIED\<close>.\<close>

lemma demo_m4_other_version:
  "map_option (\<lambda>a. pget a ''status'') (case apply_configuration demo_sync
      (demo_sync_io\<lparr>si_m4_configuration := Inr (200, Inr (PDict [(''version'', PStr ''1.0.0'')]))\<rparr>) default_options None
      (demo_distribution ''d1'' ''enrichment'' ''rules'' ''3.0.0'') new_worker of (_, Inr a) \<Rightarrow> Some a | _ \<Rightarrow> None) = Some (PStr ''APPLIED'')"
  by code_simp

text \<open>A disk that fails once fails the distribution for good: the answer of the first delivery is repeated although the second could succeed.\<close>

lemma demo_failure_sticks:
  "map_option (\<lambda>a. (pget a ''status'', pget a ''duplicate'')) (case apply_configuration demo_sync demo_sync_io default_options None
      (demo_distribution ''d1'' ''mappings'' ''m'' ''1.0.0'')
      (fold (sync_step demo_sync) [(demo_sync_io\<lparr>si_write := (si_write demo_sync_io)\<lparr>w_write := Some (RuntimeError ''disk full'')\<rparr>\<rparr>, None,
         Inr (PDict (demo_distribution ''d1'' ''mappings'' ''m'' ''1.0.0'')))] new_worker) of (_, Inr a) \<Rightarrow> Some a | _ \<Rightarrow> None) =
   Some (PStr ''FAILED'', PBool True)"
  by code_simp


theorem scope_never_downgrades_witness:
  "\<exists>w. map_of (sw_active_versions (fold (sync_step demo_sync) [posted (demo_distribution ''d2'' ''policies'' ''edge'' ''1.1.9'')]
     (new_worker\<lparr>sw_active_versions := [(''M5:acme:edge'', ''1.2.0'')]\<rparr>))) ''M5:acme:edge'' = Some w \<and> (w = ''1.2.0'' \<or> (1, 2, 0) < parse_semver w)"
proof -
  have "\<forall>r \<in> set [posted (demo_distribution ''d2'' ''policies'' ''edge'' ''1.1.9'')]. named r" by (simp add: posted_def named_def demo_distribution_def pget_def)
  moreover have "parse_semver ''1.2.0'' = (1, 2, 0)" by code_simp
  ultimately show ?thesis
    using scope_never_downgrades [of "[posted (demo_distribution ''d2'' ''policies'' ''edge'' ''1.1.9'')]"
        "new_worker\<lparr>sw_active_versions := [(''M5:acme:edge'', ''1.2.0'')]\<rparr>" "''M5:acme:edge''" "''1.2.0''" demo_sync] by simp
qed

theorem first_answer_final_witness:
  "apply_configuration demo_sync demo_sync_io default_options None (demo_distribution ''d1'' ''policies'' ''edge'' ''9.0.0'')
     (new_worker\<lparr>sw_distributions := [(PStr ''d1'', [(''status'', PStr ''FAILED'')])]\<rparr>) =
   (new_worker\<lparr>sw_distributions := [(PStr ''d1'', [(''status'', PStr ''FAILED'')])]\<rparr>, Inr [(''status'', PStr ''FAILED''), (''duplicate'', PBool True)])"
  using first_answer_final [of "''d1''" "new_worker\<lparr>sw_distributions := [(PStr ''d1'', [(''status'', PStr ''FAILED'')])]\<rparr>" "[(''status'', PStr ''FAILED'')]"
      "demo_distribution ''d1'' ''policies'' ''edge'' ''9.0.0''" "''policies''" demo_sync demo_sync_io default_options None demo_sync "[]"]
  by (simp add: get_config_status_def distribution_of_def demo_distribution_def pget_default_def)

end
