(* ===== verification/M6_Users.thy ===== *)
theory M6_Users
  imports M6_Registry
begin

section \<open>M6: accounts and log-in\<close>

text \<open>
  \<open>api/auth.py\<close>, \<open>repositories/user_repo.py\<close> and \<open>core/security.py\<close>. An account is a user together with its address and
  its hashed password; the roles of a user are the names in the order of their assignment. The tables of accounts,
  tenants, roles and audit entries are one state, which a request changes in one transaction. bcrypt and the encoding of a JWT are
  arguments. The database refuses an account whose tenant does not exist.
\<close>

record account = user_row +
  um_email :: string
  um_hashed_password :: string

record user_db =
  udb_accounts :: "account list"
  udb_tenants :: "tenant_row list"
  udb_roles :: "string list"
  udb_audit :: "audit_entry list"

definition user_of :: "account \<Rightarrow> user_row" where
  "user_of a = user_row.truncate a"

definition identity_of :: "user_db \<Rightarrow> identity_db" where
  "identity_of db = \<lparr> id_users = map user_of (udb_accounts db), id_tenants = udb_tenants db \<rparr>"

record user_env =
  ue_decode :: "string \<Rightarrow> pydict option"
  ue_encode :: "pydict \<Rightarrow> string"
  ue_hash :: "string \<Rightarrow> string result"
  ue_checkpw :: "string \<Rightarrow> string \<Rightarrow> bool result"
  ue_now :: int
  ue_expire_minutes :: int
  ue_row_id :: string

subsection \<open>Repository\<close>

definition get_by_id :: "string \<Rightarrow> user_db \<Rightarrow> account option" where
  "get_by_id user_id db = find (\<lambda>a. us_id a = user_id) (udb_accounts db)"

definition get_by_id_and_tenant :: "string \<Rightarrow> string \<Rightarrow> user_db \<Rightarrow> account option" where
  "get_by_id_and_tenant user_id tenant_id db = find (\<lambda>a. us_id a = user_id \<and> us_tenant_id a = Some tenant_id) (udb_accounts db)"

definition get_by_username :: "string \<Rightarrow> user_db \<Rightarrow> account option" where
  "get_by_username username db = find (\<lambda>a. us_username a = username) (udb_accounts db)"

definition get_by_email :: "string \<Rightarrow> user_db \<Rightarrow> account option" where
  "get_by_email email db = find (\<lambda>a. um_email a = email) (udb_accounts db)"

definition repo_list_users :: "string option \<Rightarrow> nat \<Rightarrow> nat \<Rightarrow> user_db \<Rightarrow> account list" where
  "repo_list_users tenant_id skip limit db =
     take limit (drop skip (filter (\<lambda>a. tenant_id = None \<or> us_tenant_id a = tenant_id) (udb_accounts db)))"

text \<open>The constraints of the table: unique names and addresses, and the reference to a tenant.\<close>

definition integrity_error :: "string \<Rightarrow> exn" where
  "integrity_error = OtherError ''IntegrityError''"

definition tenant_exists :: "string option \<Rightarrow> user_db \<Rightarrow> bool" where
  "tenant_exists tenant_id db = (case tenant_id of None \<Rightarrow> True | Some t \<Rightarrow> t \<in> tn_id ` set (udb_tenants db))"

definition repo_create :: "account \<Rightarrow> user_db \<Rightarrow> user_db \<times> account result" where
  "repo_create a db =
     (if us_username a \<in> us_username ` set (udb_accounts db) \<or> um_email a \<in> um_email ` set (udb_accounts db) then
        (db, Inl (integrity_error ''UNIQUE constraint failed''))
      else if \<not> tenant_exists (us_tenant_id a) db then (db, Inl (integrity_error ''FOREIGN KEY constraint failed''))
      else
        case insert_row us_id a (udb_accounts db) of
          Inl e \<Rightarrow> (db, Inl e)
        | Inr rows \<Rightarrow> (db\<lparr>udb_accounts := rows\<rparr>, Inr a))"

definition put_account :: "account \<Rightarrow> user_db \<Rightarrow> user_db" where
  "put_account a db = db\<lparr>udb_accounts := put_row us_id a (udb_accounts db)\<rparr>"

definition repo_delete :: "account \<Rightarrow> user_db \<Rightarrow> user_db" where
  "repo_delete a db = db\<lparr>udb_accounts := delete_row us_id (us_id a) (udb_accounts db)\<rparr>"

text \<open>\<open>get_role_by_name\<close>, else \<open>create_role\<close>, then \<open>assign_role\<close>.\<close>

definition ensure_role :: "string \<Rightarrow> user_db \<Rightarrow> user_db" where
  "ensure_role role db = (if role \<in> set (udb_roles db) then db else db\<lparr>udb_roles := udb_roles db @ [role]\<rparr>)"

definition assign_role :: "account \<Rightarrow> string \<Rightarrow> account" where
  "assign_role a role = a\<lparr>us_role_names := us_role_names a @ [role]\<rparr>"

definition clear_roles :: "account \<Rightarrow> account" where
  "clear_roles a = a\<lparr>us_role_names := []\<rparr>"

subsection \<open>Passwords and tokens\<close>

definition verify_password :: "user_env \<Rightarrow> string \<Rightarrow> string \<Rightarrow> bool" where
  "verify_password env plain hashed = (case ue_checkpw env plain hashed of Inr b \<Rightarrow> b | Inl _ \<Rightarrow> False)"

definition access_claims :: "user_env \<Rightarrow> string \<Rightarrow> pydict \<Rightarrow> pydict" where
  "access_claims env subject extra_claims =
     dict_update [(''sub'', PStr subject), (''iat'', PInt (ue_now env)), (''exp'', PInt (ue_now env + 60 * ue_expire_minutes env)), (''type'', PStr ''access'')]
       extra_claims"

definition create_access_token :: "user_env \<Rightarrow> string \<Rightarrow> pydict \<Rightarrow> string" where
  "create_access_token env subject extra_claims = ue_encode env (access_claims env subject extra_claims)"

definition first_role :: "string list \<Rightarrow> string option" where
  "first_role roles = (case roles of [] \<Rightarrow> None | r # _ \<Rightarrow> Some r)"

definition user_audit :: "string \<Rightarrow> string list \<Rightarrow> string \<Rightarrow> string \<Rightarrow> string option \<Rightarrow> audit_entry" where
  "user_audit actor roles action resource tenant_id =
     \<lparr> au_actor = actor, au_actor_role = first_role roles, au_action = action, au_resource_type = ''user'', au_resource_id = Some resource,
       au_tenant_id = tenant_id, au_version = None, au_before_state = None, au_after_state = None, au_reason = None \<rparr>"

definition add_audit :: "audit_entry \<Rightarrow> user_db \<Rightarrow> user_db" where
  "add_audit entry db = db\<lparr>udb_audit := udb_audit db @ [entry]\<rparr>"

subsection \<open>Endpoints\<close>

record token_response =
  tr_access_token :: string
  tr_token_type :: string
  tr_expires_in :: int
  tr_tenant_id :: "string option"
  tr_role :: "string option"

definition login :: "user_env \<Rightarrow> string \<Rightarrow> string \<Rightarrow> user_db \<Rightarrow> user_db \<times> token_response result" where
  "login env username password db =
     (case get_by_username username db of
        None \<Rightarrow> (db, Inl (HTTPException 401 ''Incorrect username or password''))
      | Some user \<Rightarrow>
          if \<not> verify_password env password (um_hashed_password user) then (db, Inl (HTTPException 401 ''Incorrect username or password''))
          else if \<not> us_is_active user then (db, Inl (HTTPException 403 ''User account is disabled''))
          else if given (us_tenant_id user) \<and> \<not> tenant_usable (the (us_tenant_id user)) (identity_of db) then
            (db, Inl (HTTPException 403 ''Tenant account is suspended or disabled''))
          else
            let primary_role = first_role (us_role_names user);
                extra_claims = [(''roles'', PList (map PStr (us_role_names user))), (''tenant_id'', opt_value (us_tenant_id user)), (''role'', opt_value primary_role)]
            in (add_audit (user_audit (us_username user) (us_role_names user) ''USER_LOGIN'' (us_username user) (us_tenant_id user)) db,
                Inr \<lparr> tr_access_token = create_access_token env (us_id user) extra_claims, tr_token_type = ''bearer'',
                   tr_expires_in = 60 * ue_expire_minutes env, tr_tenant_id = us_tenant_id user, tr_role = primary_role \<rparr>))"

definition get_me :: "user_env \<Rightarrow> string \<Rightarrow> user_db \<Rightarrow> user_row result" where
  "get_me env token db = dep_current_user (ue_decode env) (identity_of db) token"

record user_create =
  uc_username :: string
  uc_email :: string
  uc_password :: string
  uc_role :: string
  uc_tenant_id :: "string option"

record user_update =
  uu_email :: "string option"
  uu_password :: "string option"
  uu_role :: "string option"
  uu_is_active :: "bool option"
  uu_tenant_id :: "string option"

definition platform_roles :: "string set" where
  "platform_roles = {''SUPER_ADMIN'', ''ADMINISTRATOR''}"

definition target_tenant :: "user_row \<Rightarrow> user_create \<Rightarrow> user_db \<Rightarrow> string option result" where
  "target_tenant caller data db =
     (if is_super_admin caller \<or> us_is_superuser caller then
        (if given (uc_tenant_id data) then
           (case (case get_tenant (the (uc_tenant_id data)) (identity_of db) of Some t \<Rightarrow> Some t | None \<Rightarrow> get_by_slug (the (uc_tenant_id data)) (identity_of db)) of
              None \<Rightarrow> Inl (HTTPException 404 (''Tenant '' @ quoted (the (uc_tenant_id data)) @ '' not found''))
            | Some t \<Rightarrow> Inr (Some (tn_id t)))
         else Inr (uc_tenant_id data))
      else if \<not> given (us_tenant_id caller) then Inl (HTTPException 403 ''Tenant admin must belong to a tenant'')
      else if given (uc_tenant_id data) \<and> uc_tenant_id data \<noteq> us_tenant_id caller then Inl (HTTPException 403 ''Cannot create user in another tenant'')
      else if uc_role data \<in> platform_roles then Inl (HTTPException 403 ''Tenant admin cannot grant platform admin roles'')
      else Inr (us_tenant_id caller))"

definition create_user :: "user_env \<Rightarrow> user_row \<Rightarrow> user_create \<Rightarrow> user_db \<Rightarrow> user_db \<times> account result" where
  "create_user env caller data db =
     (case target_tenant caller data db of
        Inl e \<Rightarrow> (db, Inl e)
      | Inr tenant_id \<Rightarrow>
          if get_by_username (uc_username data) db \<noteq> None then (db, Inl (HTTPException 409 (''Username '' @ quoted (uc_username data) @ '' is taken'')))
          else if get_by_email (uc_email data) db \<noteq> None then (db, Inl (HTTPException 409 (''Email '' @ quoted (uc_email data) @ '' is registered'')))
          else
            case ue_hash env (uc_password data) of
              Inl e \<Rightarrow> (db, Inl e)
            | Inr hashed \<Rightarrow>
                (case repo_create \<lparr> us_id = ue_row_id env, us_username = uc_username data, us_is_active = True, us_is_superuser = False, us_tenant_id = tenant_id,
                        us_role_names = [], um_email = uc_email data, um_hashed_password = hashed \<rparr> db of
                   (db1, Inl e) \<Rightarrow> (db1, Inl e)
                 | (db1, Inr user) \<Rightarrow>
                     let user' = assign_role user (uc_role data)
                     in (add_audit (user_audit (us_username caller) (us_role_names caller) ''USER_CREATED'' (us_username user) tenant_id)
                           (put_account user' (ensure_role (uc_role data) db1)), Inr user')))"

definition scoped_user :: "request_context \<Rightarrow> string \<Rightarrow> user_db \<Rightarrow> account result" where
  "scoped_user ctx user_id db =
     rbind (if rc_is_super_admin ctx then Inr (get_by_id user_id db)
            else rbind (require_tenant_id ctx) (\<lambda>t. Inr (get_by_id_and_tenant user_id t db)))
       (\<lambda>r. case r of Some a \<Rightarrow> Inr a | None \<Rightarrow> Inl (HTTPException 404 ''User not found''))"

definition list_users :: "request_context \<Rightarrow> nat \<Rightarrow> nat \<Rightarrow> user_db \<Rightarrow> account list" where
  "list_users ctx skip limit db = repo_list_users (rc_tenant_id ctx) skip limit db"

text \<open>The checks of \<open>update_user\<close> in the order of the code, and then the fields that are set.\<close>

definition email_free :: "user_update \<Rightarrow> account \<Rightarrow> user_db \<Rightarrow> unit result" where
  "email_free data user db =
     (case (case uu_email data of Some email \<Rightarrow> get_by_email email db | None \<Rightarrow> None) of
        Some existing \<Rightarrow> if us_id existing \<noteq> us_id user then Inl (HTTPException 409 ''Email already taken'') else Inr ()
      | None \<Rightarrow> Inr ())"

definition check_update :: "user_env \<Rightarrow> request_context \<Rightarrow> user_update \<Rightarrow> account \<Rightarrow> user_db \<Rightarrow> string option result" where
  "check_update env ctx data user db =
     rbind (email_free data user db) (\<lambda>_.
     rbind (case uu_password data of None \<Rightarrow> Inr None | Some p \<Rightarrow> rbind (ue_hash env p) (\<lambda>h. Inr (Some h))) (\<lambda>hashed.
       if uu_tenant_id data \<noteq> None \<and> \<not> rc_is_super_admin ctx then
         Inl (HTTPException 403 ''Tenant reassignment is a privileged platform operation'')
       else if uu_role data \<noteq> None \<and> \<not> rc_is_super_admin ctx \<and> the (uu_role data) \<in> platform_roles then
         Inl (HTTPException 403 ''Tenant admin cannot grant platform admin roles'')
       else if uu_tenant_id data \<noteq> None \<and> \<not> tenant_exists (uu_tenant_id data) db then
         Inl (integrity_error ''FOREIGN KEY constraint failed'')
       else Inr hashed))"

definition set_fields :: "user_update \<Rightarrow> string option \<Rightarrow> account \<Rightarrow> account" where
  "set_fields data hashed user =
     (let a = (case uu_role data of None \<Rightarrow> user | Some role \<Rightarrow> assign_role (clear_roles user) role) in
      a\<lparr>um_email := or_keep (uu_email data) (um_email a), um_hashed_password := or_keep hashed (um_hashed_password a),
        us_is_active := or_keep (uu_is_active data) (us_is_active a), us_tenant_id := or_keep_opt (uu_tenant_id data) (us_tenant_id a)\<rparr>)"

definition update_user :: "user_env \<Rightarrow> request_context \<Rightarrow> string \<Rightarrow> user_update \<Rightarrow> user_db \<Rightarrow> user_db \<times> account result" where
  "update_user env ctx user_id data db =
     (case rbind (scoped_user ctx user_id db) (\<lambda>user. rbind (check_update env ctx data user db) (\<lambda>hashed. Inr (set_fields data hashed user))) of
        Inl e \<Rightarrow> (db, Inl e)
      | Inr user' \<Rightarrow>
          (add_audit (user_audit (us_username (rc_user ctx)) (us_role_names (rc_user ctx)) ''USER_UPDATED'' (us_username user') (us_tenant_id user'))
             (put_account user' (case uu_role data of Some role \<Rightarrow> ensure_role role db | None \<Rightarrow> db)), Inr user'))"

definition delete_user :: "request_context \<Rightarrow> string \<Rightarrow> user_db \<Rightarrow> user_db \<times> account result" where
  "delete_user ctx user_id db =
     (case scoped_user ctx user_id db of
        Inl e \<Rightarrow> (db, Inl e)
      | Inr user \<Rightarrow>
          if us_id user = us_id (rc_user ctx) then (db, Inl (HTTPException 400 ''Cannot delete your own account''))
          else
            (add_audit (user_audit (us_username (rc_user ctx)) (us_role_names (rc_user ctx)) ''USER_DELETED'' (us_username user) (us_tenant_id user))
               (repo_delete user db), Inr user))"

text \<open>The endpoints with their dependencies; the caller is looked up in the tables that the request changes.\<close>

datatype user_request =
    CreateUser user_create
  | ListUsers nat nat
  | GetUser string
  | UpdateUser string user_update
  | DeleteUser string

definition user_context :: "user_env \<Rightarrow> string \<Rightarrow> string option \<Rightarrow> user_db \<Rightarrow> request_context result" where
  "user_context env token tenant_id db = authorize (ue_decode env) (identity_of db) admin_roles token tenant_id"

definition user_caller :: "user_env \<Rightarrow> string \<Rightarrow> user_db \<Rightarrow> user_row result" where
  "user_caller env token db = rbind (dep_current_user (ue_decode env) (identity_of db) token) (require_roles admin_roles)"

definition as_admin :: "user_env \<Rightarrow> string \<Rightarrow> string option \<Rightarrow> (request_context \<Rightarrow> user_db \<times> 'a result) \<Rightarrow> user_db \<Rightarrow> user_db \<times> 'a result" where
  "as_admin env token tenant_id body db = (case user_context env token tenant_id db of Inl e \<Rightarrow> (db, Inl e) | Inr ctx \<Rightarrow> body ctx)"

definition one_user :: "user_db \<times> account result \<Rightarrow> user_db \<times> account list result" where
  "one_user r = (fst r, rbind (snd r) (\<lambda>a. Inr [a]))"

fun user_body :: "user_env \<Rightarrow> string \<Rightarrow> string option \<Rightarrow> user_request \<Rightarrow> user_db \<Rightarrow> user_db \<times> account list result" where
  "user_body env token tenant_id (CreateUser data) db =
     (case user_caller env token db of Inl e \<Rightarrow> (db, Inl e) | Inr caller \<Rightarrow> one_user (create_user env caller data db))"
| "user_body env token tenant_id (ListUsers skip limit) db = as_admin env token tenant_id (\<lambda>ctx. (db, Inr (list_users ctx skip limit db))) db"
| "user_body env token tenant_id (GetUser i) db = as_admin env token tenant_id (\<lambda>ctx. one_user (db, scoped_user ctx i db)) db"
| "user_body env token tenant_id (UpdateUser i data) db = as_admin env token tenant_id (\<lambda>ctx. one_user (update_user env ctx i data db)) db"
| "user_body env token tenant_id (DeleteUser i) db = as_admin env token tenant_id (\<lambda>ctx. one_user (delete_user ctx i db)) db"

definition user_api :: "user_env \<Rightarrow> string \<Rightarrow> string option \<Rightarrow> user_request \<Rightarrow> user_db \<Rightarrow> user_db \<times> account list result" where
  "user_api env token tenant_id req = request (user_body env token tenant_id req)"

subsection \<open>Administrators of a tenant\<close>

definition super :: "account \<Rightarrow> bool" where
  "super a = is_super_admin (user_of a)"

lemma super_iff: "super a \<longleftrightarrow> us_is_superuser a \<or> set (us_role_names a) \<inter> platform_roles \<noteq> {}"
  by (auto simp: super_def is_super_admin_def user_of_def user_row.truncate_def platform_roles_def)

lemma user_of_sel [simp]:
  "us_id (user_of a) = us_id a" "us_username (user_of a) = us_username a" "us_is_active (user_of a) = us_is_active a"
  "us_is_superuser (user_of a) = us_is_superuser a" "us_tenant_id (user_of a) = us_tenant_id a" "us_role_names (user_of a) = us_role_names a"
  by (simp_all add: user_of_def user_row.truncate_def)

text \<open>The token is one of an administrator of the tenant \<open>t\<close>, if it is accepted at all.\<close>

definition tenant_token :: "user_env \<Rightarrow> string \<Rightarrow> string \<Rightarrow> user_db \<Rightarrow> bool" where
  "tenant_token env t token db \<longleftrightarrow>
     (case dep_current_user (ue_decode env) (identity_of db) token of Inr u \<Rightarrow> \<not> is_super_admin u \<and> us_tenant_id u = Some t | Inl _ \<Rightarrow> True)"

lemma tenant_token_caller:
  assumes "tenant_token env t token db" "user_caller env token db = Inr u" shows "\<not> is_super_admin u" "us_tenant_id u = Some t"
  using assms by (auto simp: tenant_token_def user_caller_def require_roles_def split: sum.splits if_splits)

lemma tenant_token_context:
  assumes "tenant_token env t token db" "user_context env token tenant_id db = Inr ctx"
  shows "\<not> rc_is_super_admin ctx" "rc_tenant_id ctx = Some t" "t \<noteq> []"
proof -
  obtain u where u: "dep_current_user (ue_decode env) (identity_of db) token = Inr u" "dep_tenant_context (identity_of db) u tenant_id = Inr ctx"
    using assms(2) by (auto simp: user_context_def authorize_def)
  with assms(1) have n: "\<not> is_super_admin u" "us_tenant_id u = Some t" by (auto simp: tenant_token_def)
  then show "rc_tenant_id ctx = Some t" "t \<noteq> []" using tenant_context_own [OF u(2) n(1)] by (auto simp: given_def)
  show "\<not> rc_is_super_admin ctx" using u(2) n(1) by (auto simp: dep_tenant_context_def split: option.splits if_splits)
qed

lemma scoped_user_tenant:
  assumes "tenant_token env t token db" "user_context env token tenant_id db = Inr ctx" "scoped_user ctx i db = Inr a"
  shows "a \<in> set (udb_accounts db)" "us_tenant_id a = Some t" "us_id a = i"
  using assms(3) tenant_token_context [OF assms(1,2)]
  by (auto simp: scoped_user_def require_tenant_id_def given_def get_by_id_and_tenant_def find_Some_iff split: option.splits if_splits)

lemma one_user_Inr [simp]: "one_user r = (db', Inr out) \<longleftrightarrow> (\<exists>a. r = (db', Inr a) \<and> out = [a])"
  by (cases r) (auto simp: one_user_def)

lemma put_row_new: "idf x \<notin> idf ` set rows \<Longrightarrow> idf r = idf x \<Longrightarrow> put_row idf r (rows @ [x]) = rows @ [r]"
  by (induction rows) (auto simp: put_row_def)

text \<open>What one request of such an administrator does to the table of accounts.\<close>

lemma user_api_cases:
  assumes "user_api env token tenant_id req db = (db', r)" and "tenant_token env t token db"
  obtains (same) "udb_accounts db' = udb_accounts db"
  | (created) a where "udb_accounts db' = udb_accounts db @ [a]" "us_id a \<notin> us_id ` set (udb_accounts db)" "us_tenant_id a = Some t" "\<not> super a"
  | (updated) a a' where "udb_accounts db' = put_row us_id a' (udb_accounts db)" "a \<in> set (udb_accounts db)" "us_id a' = us_id a"
      "us_tenant_id a = Some t" "us_tenant_id a' = Some t" "super a' \<longrightarrow> super a"
  | (deleted) a where "udb_accounts db' = delete_row us_id (us_id a) (udb_accounts db)" "a \<in> set (udb_accounts db)" "us_tenant_id a = Some t"
proof (cases r)
  case (Inl e)
  then have "db' = db" using assms(1) by (auto simp: user_api_def request_def split: prod.splits sum.splits)
  then show thesis using same by simp
next
  case (Inr out)
  then have b: "user_body env token tenant_id req db = (db', Inr out)" using assms(1) by (simp add: user_api_def request_Inr)
  show thesis
  proof (cases req)
    case (CreateUser data)
    obtain caller a0 where c: "user_caller env token db = Inr caller" and a0: "create_user env caller data db = (db', Inr a0)"
      using b CreateUser by (auto split: sum.splits)
    note n = tenant_token_caller [OF assms(2) c]
    obtain tid where tid: "target_tenant caller data db = Inr tid" using a0 by (auto simp: create_user_def split: sum.splits)
    then have tg: "tid = Some t" "uc_role data \<notin> platform_roles"
      using n by (auto simp: target_tenant_def is_super_admin_def split: if_splits)
    then obtain a where "udb_accounts db' = put_row us_id (assign_role a (uc_role data)) (udb_accounts db @ [a])" "us_id a \<notin> us_id ` set (udb_accounts db)"
        "us_tenant_id a = Some t" "us_role_names a = []" "\<not> us_is_superuser a"
      using a0 tid by (auto simp: create_user_def repo_create_def Let_def add_audit_def put_account_def ensure_role_def split: sum.splits if_splits prod.splits)
    moreover from this(2) have "put_row us_id (assign_role a (uc_role data)) (udb_accounts db @ [a]) = udb_accounts db @ [assign_role a (uc_role data)]"
      by (rule put_row_new) (simp add: assign_role_def)
    ultimately show thesis using created [of "assign_role a (uc_role data)"] tg(2) by (simp add: super_iff assign_role_def)
  next
    case (UpdateUser i data)
    obtain ctx a where c: "user_context env token tenant_id db = Inr ctx" and a: "update_user env ctx i data db = (db', Inr a)"
      using b UpdateUser by (auto simp: as_admin_def split: sum.splits)
    then obtain u h where u: "scoped_user ctx i db = Inr u" "check_update env ctx data u db = Inr h" "a = set_fields data h u"
      "udb_accounts db' = put_row us_id a (udb_accounts db)"
      by (auto simp: update_user_def add_audit_def put_account_def ensure_role_def split: sum.splits option.splits if_splits)
    note su = scoped_user_tenant [OF assms(2) c u(1)] and n = tenant_token_context [OF assms(2) c]
    from u(2) n(1) have "uu_tenant_id data = None" "uu_role data = Some role \<Longrightarrow> role \<notin> platform_roles" for role
      by (auto simp: check_update_def split: if_splits)
    then show thesis using updated [of a u] u su
      by (auto simp: set_fields_def super_iff assign_role_def clear_roles_def or_keep_opt_def Let_def split: option.splits)
  next
    case (DeleteUser i)
    obtain ctx a where c: "user_context env token tenant_id db = Inr ctx" and a: "delete_user ctx i db = (db', Inr a)"
      using b DeleteUser by (auto simp: as_admin_def split: sum.splits)
    then have u: "scoped_user ctx i db = Inr a" "udb_accounts db' = delete_row us_id (us_id a) (udb_accounts db)"
      by (auto simp: delete_user_def add_audit_def repo_delete_def split: sum.splits if_splits)
    show thesis using deleted [of a] u(2) scoped_user_tenant [OF assms(2) c u(1)] by simp
  qed (use b same in \<open>auto simp: as_admin_def split: sum.splits\<close>)
qed

text \<open>Requests one after the other, each with a token of an administrator of \<open>t\<close>.\<close>

inductive tenant_run :: "string \<Rightarrow> user_db \<Rightarrow> user_db \<Rightarrow> bool" for t where
  start: "tenant_run t db db"
| request: "tenant_run t db db1 \<Longrightarrow> tenant_token env t token db1 \<Longrightarrow> user_api env token tenant_id req db1 = (db2, r) \<Longrightarrow> tenant_run t db db2"

definition account_ids :: "user_db \<Rightarrow> bool" where
  "account_ids db = distinct (map us_id (udb_accounts db))"

definition tenant_kept :: "string \<Rightarrow> user_db \<Rightarrow> user_db \<Rightarrow> bool" where
  "tenant_kept t db db' \<longleftrightarrow> account_ids db' \<and>
     filter (\<lambda>a. us_tenant_id a \<noteq> Some t) (udb_accounts db') = filter (\<lambda>a. us_tenant_id a \<noteq> Some t) (udb_accounts db) \<and>
     us_id ` {a \<in> set (udb_accounts db'). super a} \<subseteq> us_id ` {a \<in> set (udb_accounts db). super a}"

lemma tenant_step:
  assumes "user_api env token tenant_id req db = (db', r)" "tenant_token env t token db" "account_ids db"
  shows "tenant_kept t db db'"
  using assms(1,2)
proof (cases rule: user_api_cases)
  case (created b)
  then show ?thesis using assms(3) by (auto simp: tenant_kept_def account_ids_def)
next
  case (updated b b')
  have "a \<in> set (put_row us_id b' (udb_accounts db)) \<Longrightarrow> super a \<Longrightarrow> us_id a \<in> us_id ` {a \<in> set (udb_accounts db). super a}" for a
    using set_put_row [of a us_id b' "udb_accounts db"] updated(2,3,6) by auto
  then show ?thesis using updated assms(3) filter_put_row [of us_id "udb_accounts db" b b' "\<lambda>a. us_tenant_id a \<noteq> Some t"]
    by (auto simp: tenant_kept_def account_ids_def)
next
  case (deleted b)
  then show ?thesis using assms(3) filter_delete_row [of us_id "udb_accounts db" b "\<lambda>a. us_tenant_id a \<noteq> Some t"]
    by (auto simp: tenant_kept_def account_ids_def distinct_delete_row) (auto simp: delete_row_def)
qed (use assms(3) in \<open>simp add: tenant_kept_def account_ids_def\<close>)

text \<open>(C23) An administrator of a tenant cannot leave the tenant and cannot make a platform administrator: whatever accounts such administrators
  create, change and delete, with whatever data and however many requests, the accounts of all other tenants and those without a
  tenant stay as they were, and no account is a super administrator that was none.\<close>

theorem no_escalation:
  assumes "tenant_run t db db'" and "account_ids db"
  shows "filter (\<lambda>a. us_tenant_id a \<noteq> Some t) (udb_accounts db') = filter (\<lambda>a. us_tenant_id a \<noteq> Some t) (udb_accounts db) \<and>
    us_id ` {a \<in> set (udb_accounts db'). super a} \<subseteq> us_id ` {a \<in> set (udb_accounts db). super a}"
proof -
  from assms have "tenant_kept t db db'"
  proof induction
    case (start db)
    then show ?case by (simp add: tenant_kept_def)
  next
    case (request db db1 env token tenant_id req db2 r)
    then have "tenant_kept t db db1" "tenant_kept t db1 db2" using tenant_step by (auto simp: tenant_kept_def)
    then show ?case unfolding tenant_kept_def by (metis (no_types, lifting) subset_trans)
  qed
  then show ?thesis by (simp add: tenant_kept_def)
qed

lemma find_account: "a \<in> set xs \<Longrightarrow> distinct (map us_id xs) \<Longrightarrow> find (\<lambda>u. us_id u = us_id a) (map user_of xs) = Some (user_of a)"
  by (induction xs) auto

text \<open>A token from the log-in is accepted: under an encoding whose decoding keeps the subject, \<open>login\<close> answers only for the right password of an active
  account of an active tenant or of none, with a token that the dependencies of every endpoint accept as that user.\<close>

theorem login_authenticates:
  assumes "login env username password db = (db', Inr resp)" and "\<forall>claims s. pget claims ''sub'' = PStr s \<longrightarrow> (\<exists>c. ue_decode env (ue_encode env claims) = Some c \<and> pget c ''sub'' = PStr s)"
    and "account_ids db" and "\<forall>a \<in> set (udb_accounts db). us_id a \<noteq> []"
  shows "\<exists>a \<in> set (udb_accounts db). us_username a = username \<and> verify_password env password (um_hashed_password a) \<and> us_is_active a \<and>
    get_me env (tr_access_token resp) db' = Inr (user_of a) \<and> udb_accounts db' = udb_accounts db \<and> length (udb_audit db') = Suc (length (udb_audit db))"
proof -
  obtain a where g: "get_by_username username db = Some a" using assms(1) by (auto simp: login_def split: option.splits)
  then have a: "a \<in> set (udb_accounts db)" "us_username a = username" by (auto simp: get_by_username_def find_Some_iff)
  define extra where "extra = [(''roles'', PList (map PStr (us_role_names a))), (''tenant_id'', opt_value (us_tenant_id a)), (''role'', opt_value (first_role (us_role_names a)))]"
  have l: "verify_password env password (um_hashed_password a)" "us_is_active a" "given (us_tenant_id a) \<longrightarrow> tenant_usable (the (us_tenant_id a)) (identity_of db)"
    and e: "tr_access_token resp = create_access_token env (us_id a) extra"
    and db': "db' = add_audit (user_audit (us_username a) (us_role_names a) ''USER_LOGIN'' (us_username a) (us_tenant_id a)) db"
    using assms(1) g by (auto simp: login_def Let_def extra_def split: if_splits)
  have id: "identity_of db' = identity_of db" using db' by (simp add: identity_of_def add_audit_def)
  have "pget (access_claims env (us_id a) extra) ''sub'' = PStr (us_id a)"
    by (simp add: pget_def access_claims_def map_of_dict_update_notin extra_def)
  with assms(2) obtain c where c: "ue_decode env (tr_access_token resp) = Some c" "pget c ''sub'' = PStr (us_id a)"
    unfolding e create_access_token_def by blast
  have sub: "pget_default c ''sub'' (PStr []) = PStr (us_id a)" using c(2) by (auto simp: pget_def pget_default_def split: option.splits)
  have find: "get_user (us_id a) (identity_of db) = Some (user_of a)"
    using a(1) assms(3) by (simp add: get_user_def identity_of_def account_ids_def find_account)
  obtain x xs where "us_id a = x # xs" using assms(4) a(1) by (cases "us_id a") auto
  then have "get_me env (tr_access_token resp) db' = Inr (user_of a)"
    using sub find l(2,3) c(1) by (auto simp: get_me_def dep_current_user_def id Let_def)
  then show ?thesis using a l db' by (auto simp: add_audit_def)
qed

subsection \<open>Examples\<close>

text \<open>A platform administrator and an administrator of the tenant \<open>a\<close>, both assigned to it. The token is the subject.\<close>

definition demo_account :: "string \<Rightarrow> string \<Rightarrow> account" where
  "demo_account i role = \<lparr> us_id = i, us_username = i, us_is_active = True, us_is_superuser = False, us_tenant_id = Some ''a'', us_role_names = [role],
     um_email = i @ ''@a'', um_hashed_password = ''secret'' \<rparr>"

definition demo_users :: user_db where
  "demo_users = \<lparr> udb_accounts = [demo_account ''root'' ''SUPER_ADMIN'', demo_account ''adm'' ''TENANT_ADMIN''],
     udb_tenants = [\<lparr> tn_id = ''a'', tn_name = ''A'', tn_slug = ''alpha'', tn_status = TS_ACTIVE \<rparr>], udb_roles = [''SUPER_ADMIN'', ''TENANT_ADMIN''], udb_audit = [] \<rparr>"

definition demo_user_env :: user_env where
  "demo_user_env = \<lparr> ue_decode = (\<lambda>token. Some [(''sub'', PStr token)]), ue_encode = (\<lambda>claims. py_str (pget claims ''sub'')), ue_hash = Inr, ue_checkpw = (\<lambda>p h. Inr (p = h)),
     ue_now = 0, ue_expire_minutes = 60, ue_row_id = ''u3'' \<rparr>"

definition demo_new_user :: "string \<Rightarrow> user_create" where
  "demo_new_user role = \<lparr> uc_username = ''eve'', uc_email = ''eve@a'', uc_password = ''password'', uc_role = role, uc_tenant_id = None \<rparr>"

definition demo_takeover :: user_update where
  "demo_takeover = \<lparr> uu_email = None, uu_password = Some ''mine'', uu_role = None, uu_is_active = None, uu_tenant_id = None \<rparr>"

lemma demo_adm_token: "tenant_token demo_user_env ''a'' ''adm'' demo_users"
  by code_simp

text \<open>The administrator of the tenant sets the password of a platform administrator who is assigned to the tenant, and logs in with it.\<close>

lemma tenant_admin_takes_over:
  "map_option (\<lambda>r. tr_role r) (case user_api demo_user_env ''adm'' None (UpdateUser ''root'' demo_takeover) demo_users of
     (db, _) \<Rightarrow> (case login demo_user_env ''root'' ''mine'' db of (_, Inr r) \<Rightarrow> Some r | _ \<Rightarrow> None)) = Some (Some ''SUPER_ADMIN'')"
  by code_simp

lemma demo_no_platform_role: "snd (user_api demo_user_env ''adm'' None (CreateUser (demo_new_user ''ADMINISTRATOR'')) demo_users) =
  Inl (HTTPException 403 ''Tenant admin cannot grant platform admin roles'')"
  by code_simp

theorem no_escalation_witness:
  "\<exists>db'. tenant_run ''a'' demo_users db' \<and> length (udb_accounts db') = 3 \<and> us_id ` {a \<in> set (udb_accounts db'). super a} \<subseteq> {''root''}"
proof -
  obtain db' r where a: "user_api demo_user_env ''adm'' None (CreateUser (demo_new_user ''VIEWER'')) demo_users = (db', r)" by fastforce
  have "length (udb_accounts (fst (user_api demo_user_env ''adm'' None (CreateUser (demo_new_user ''VIEWER'')) demo_users))) = 3" by code_simp
  moreover have run: "tenant_run ''a'' demo_users db'" by (rule tenant_run.request [OF tenant_run.start demo_adm_token a])
  moreover have "account_ids demo_users" by code_simp
  from no_escalation [OF run this] have "us_id ` {a \<in> set (udb_accounts db'). super a} \<subseteq> {''root''}"
    by (auto simp: demo_users_def demo_account_def super_iff platform_roles_def)
  ultimately show ?thesis using a by auto
qed

theorem login_authenticates_witness:
  "\<exists>db' resp. login demo_user_env ''root'' ''secret'' demo_users = (db', Inr resp) \<and> get_me demo_user_env (tr_access_token resp) db' = Inr (user_of (demo_account ''root'' ''SUPER_ADMIN''))"
proof -
  have "(case login demo_user_env ''root'' ''secret'' demo_users of (_, Inr _) \<Rightarrow> True | _ \<Rightarrow> False)" by code_simp
  then obtain db' resp where l: "login demo_user_env ''root'' ''secret'' demo_users = (db', Inr resp)" by (auto split: prod.splits sum.splits)
  have "\<forall>claims s. pget claims ''sub'' = PStr s \<longrightarrow> (\<exists>c. ue_decode demo_user_env (ue_encode demo_user_env claims) = Some c \<and> pget c ''sub'' = PStr s)"
    by (simp add: demo_user_env_def pget_def)
  moreover have "account_ids demo_users" by code_simp
  moreover have "\<forall>a \<in> set (udb_accounts demo_users). us_id a \<noteq> []" by code_simp
  ultimately have "\<exists>a \<in> set (udb_accounts demo_users). us_username a = ''root'' \<and> get_me demo_user_env (tr_access_token resp) db' = Inr (user_of a)"
    using login_authenticates [OF l] by blast
  then show ?thesis using l by (auto simp: demo_users_def demo_account_def)
qed

end
