(* ===== verification/M6_Clients.thy ===== *)
theory M6_Clients
  imports M6_Distribution
begin

section \<open>M6: clients of the modules and platform health\<close>

text \<open>
  \<open>integrations/module_client.py\<close>, \<open>http_module_client.py\<close>, \<open>mock_module_client.py\<close>, the five \<open>get_m*_client\<close> and \<open>health_client.py\<close> of the M6
  backend. What a request over HTTP comes to is a value of \<open>http_outcome\<close>; the latency is an argument.
  A Python dictionary made from a list of pairs keeps the pairs whose key is a string; a long dash in a message is a hyphen.
\<close>

datatype health_status = HS_HEALTHY | HS_DEGRADED | HS_UNHEALTHY | HS_UNAVAILABLE | HS_UNKNOWN

fun hs_value :: "health_status \<Rightarrow> string" where
  "hs_value HS_HEALTHY = ''HEALTHY''"
| "hs_value HS_DEGRADED = ''DEGRADED''"
| "hs_value HS_UNHEALTHY = ''UNHEALTHY''"
| "hs_value HS_UNAVAILABLE = ''UNAVAILABLE''"
| "hs_value HS_UNKNOWN = ''UNKNOWN''"

record service_health =
  sh_service :: string
  sh_status :: health_status
  sh_latency_ms :: pyval
  sh_checked_at :: string
  sh_details :: pyval
  sh_is_mock :: bool

definition health_as_dict :: "service_health \<Rightarrow> pydict" where
  "health_as_dict h =
     [(''service'', PStr (sh_service h)), (''status'', PStr (hs_value (sh_status h))), (''latency_ms'', sh_latency_ms h),
      (''checked_at'', PStr (sh_checked_at h)), (''details'', sh_details h), (''is_mock'', PBool (sh_is_mock h))]"

definition health_result :: "string \<Rightarrow> string \<Rightarrow> health_status \<Rightarrow> pyval \<Rightarrow> pydict \<Rightarrow> service_health" where
  "health_result now service status latency dets =
     \<lparr> sh_service = service, sh_status = status, sh_latency_ms = latency, sh_checked_at = now, sh_details = PDict dets, sh_is_mock = False \<rparr>"

definition reason :: "string \<Rightarrow> pydict" where
  "reason r = [(''reason'', PStr r)]"

record http_response =
  hp_status :: nat
  hp_json :: "pyval result"
  hp_text :: string

datatype http_outcome = Responded http_response | ConnectFailed string | TimedOut string | RequestFailed exn

subsection \<open>The HTTP client\<close>

record http_client =
  hc_service_name :: string
  hc_base_url :: "string option"
  hc_timeout :: string

definition HttpModuleClient :: "string \<Rightarrow> string option \<Rightarrow> string \<Rightarrow> http_client" where
  "HttpModuleClient service_name base_url timeout =
     \<lparr> hc_service_name = service_name, hc_base_url = (case base_url of Some (c # cs) \<Rightarrow> Some (rstrip_by (\<lambda>x. x = CHR ''/'') (c # cs)) | _ \<Rightarrow> None), hc_timeout = timeout \<rparr>"

text \<open>\<open>if not self._base_url\<close>: also the address that is nothing but slashes.\<close>

definition has_url :: "http_client \<Rightarrow> bool" where
  "has_url c = (case hc_base_url c of Some (_ # _) \<Rightarrow> True | _ \<Rightarrow> False)"

definition check_endpoint :: "http_client \<Rightarrow> string \<Rightarrow> pyval \<Rightarrow> http_outcome \<Rightarrow> service_health" where
  "check_endpoint c now latency_ms outcome =
     (let unavailable = (\<lambda>r. health_result now (hc_service_name c) HS_UNAVAILABLE PNone (reason r)) in
      if \<not> has_url c then unavailable ''No base URL configured''
      else
        case outcome of
          Responded resp \<Rightarrow>
            \<lparr> sh_service = hc_service_name c,
              sh_status = (if hp_status resp = 200 then HS_HEALTHY else if hp_status resp < 500 then HS_DEGRADED else HS_UNHEALTHY),
              sh_latency_ms = latency_ms, sh_checked_at = now,
              sh_details = (case hp_json resp of Inr body \<Rightarrow> body | Inl _ \<Rightarrow> PDict [(''raw'', PStr (take 200 (hp_text resp)))]), sh_is_mock = False \<rparr>
        | ConnectFailed _ \<Rightarrow> unavailable ''Connection refused''
        | TimedOut _ \<Rightarrow> unavailable (''Timeout after '' @ hc_timeout c @ ''s'')
        | RequestFailed e \<Rightarrow> unavailable (exn_str e))"

definition get_metrics :: "http_client \<Rightarrow> http_outcome \<Rightarrow> string" where
  "get_metrics c outcome =
     (if \<not> has_url c then []
      else case outcome of Responded resp \<Rightarrow> if hp_status resp = 200 then hp_text resp else [] | _ \<Rightarrow> [])"

text \<open>\<open>dict(v)\<close>\<close>

definition pair_of :: "pyval \<Rightarrow> (string \<times> pyval) option result" where
  "pair_of v =
     (case v of
        PList [k, x] \<Rightarrow> (case k of PStr s \<Rightarrow> Inr (Some (s, x)) | PList _ \<Rightarrow> Inl (TypeError ''unhashable type'') | PDict _ \<Rightarrow> Inl (TypeError ''unhashable type'') | _ \<Rightarrow> Inr None)
      | PStr [a, b] \<Rightarrow> Inr (Some ([a], PStr [b]))
      | PDict [(a, _), (b, _)] \<Rightarrow> Inr (Some (a, PStr b))
      | PList _ \<Rightarrow> Inl (ValueError ''dictionary update sequence element has the wrong length'')
      | PStr _ \<Rightarrow> Inl (ValueError ''dictionary update sequence element has the wrong length'')
      | PDict _ \<Rightarrow> Inl (ValueError ''dictionary update sequence element has the wrong length'')
      | _ \<Rightarrow> Inl (TypeError ''cannot convert dictionary update sequence element to a sequence''))"

definition dict_of :: "pyval \<Rightarrow> pydict result" where
  "dict_of v =
     (case v of
        PDict d \<Rightarrow> Inr d
      | PList xs \<Rightarrow> rbind (seq_results (map pair_of xs)) (\<lambda>ps. Inr (dict_update [] (List.map_filter id ps)))
      | PStr [] \<Rightarrow> Inr []
      | PStr _ \<Rightarrow> Inl (ValueError ''dictionary update sequence element has the wrong length'')
      | _ \<Rightarrow> Inl (TypeError ''object is not iterable''))"

definition client_ack :: "string \<Rightarrow> string \<Rightarrow> string \<Rightarrow> pyval \<Rightarrow> pydict \<Rightarrow> pydict" where
  "client_ack md status now err event =
     [(''distribution_id'', pget_default event ''distribution_id'' (PStr [])),
      (''config_id'', por (pget_default event ''entity_id'' (PStr [])) (pget_default event ''distribution_id'' (PStr []))),
      (''version'', PStr (py_str (pget_default event ''version'' (PStr ''1.0.0'')))), (''module'', PStr md), (''status'', PStr status),
      (''timestamp'', PStr now), (''correlation_id'', pget_default event ''correlation_id'' (PStr [])), (''error'', err)]"

definition outcome_str :: "http_outcome \<Rightarrow> string" where
  "outcome_str r = (case r of RequestFailed e \<Rightarrow> exn_str e | ConnectFailed m \<Rightarrow> m | TimedOut m \<Rightarrow> m | Responded _ \<Rightarrow> [])"

definition push_configuration :: "http_client \<Rightarrow> string \<Rightarrow> http_outcome \<Rightarrow> pydict \<Rightarrow> pydict" where
  "push_configuration c now outcome event =
     (let failed = (\<lambda>err. client_ack (hc_service_name c) ''FAILED'' now (PStr err) event) in
      if \<not> has_url c then failed ''No base URL configured for module''
      else
        case outcome of
          Responded resp \<Rightarrow>
            if hp_status resp = 200 then
              (case rbind (hp_json resp) dict_of of Inr d \<Rightarrow> d | Inl e \<Rightarrow> failed (exn_str e))
            else failed (''Module returned status '' @ nat_str (hp_status resp) @ '': '' @ take 200 (hp_text resp))
        | r \<Rightarrow> failed (outcome_str r))"

subsection \<open>The mock client\<close>

record mock_client =
  mc_service_name :: string
  mc_should_fail :: bool
  mc_failure_reason :: string
  mc_rejection_status :: "string option"

definition MockModuleClient :: "string \<Rightarrow> mock_client" where
  "MockModuleClient service_name =
     \<lparr> mc_service_name = service_name, mc_should_fail = False, mc_failure_reason = ''Simulated mock network failure'', mc_rejection_status = None \<rparr>"

definition mock_get_health :: "mock_client \<Rightarrow> string \<Rightarrow> service_health" where
  "mock_get_health c now =
     \<lparr> sh_service = mc_service_name c, sh_status = HS_UNAVAILABLE, sh_latency_ms = PNone, sh_checked_at = now,
       sh_details = PDict [(''reason'', PStr ''Mock adapter - service not connected''), (''mock'', PBool True)], sh_is_mock = True \<rparr>"

definition mock_module :: "mock_client \<Rightarrow> pydict \<Rightarrow> pyval" where
  "mock_module c event =
     (if py_truthy (pget event ''target_module'') then pget event ''target_module''
      else PStr (case find (\<lambda>m. contains m (upper (mc_service_name c))) [''M1'', ''M2'', ''M3'', ''M4'', ''M5''] of Some m \<Rightarrow> m | None \<Rightarrow> ''M1''))"

definition mock_push_configuration :: "mock_client \<Rightarrow> string \<Rightarrow> pydict \<Rightarrow> pydict result" where
  "mock_push_configuration c now event =
     (if mc_should_fail c then Inl (RuntimeError (mc_failure_reason c))
      else
        let status = (case mc_rejection_status c of Some (x # xs) \<Rightarrow> x # xs | _ \<Rightarrow> ''APPLIED'');
            err = (if status = ''REJECTED'' then PStr ''Configuration rejected by module'' else PNone)
        in Inr (dict_set ''module'' (mock_module c event) (client_ack [] status now err event)))"

subsection \<open>The client of a module\<close>

datatype module_client = Http http_client | Mock mock_client

record client_settings =
  cs_use_mock_adapters :: bool
  cs_base_urls :: "string \<Rightarrow> string"
  cs_timeout :: string
  cs_kafka_enabled :: bool
  cs_prometheus_enabled :: bool

definition service_names :: "(string, string) dict" where
  "service_names = [(''M1'', ''m1-ingestion''), (''M2'', ''m2-parser''), (''M3'', ''m3-normalizer''), (''M4'', ''m4-enrichment''), (''M5'', ''m5-delivery'')]"

definition get_client :: "client_settings \<Rightarrow> string \<Rightarrow> module_client" where
  "get_client s md =
     (let name = (case map_of service_names md of Some n \<Rightarrow> n | None \<Rightarrow> []) in
      if cs_use_mock_adapters s then Mock (MockModuleClient name)
      else Http (HttpModuleClient name (if cs_base_urls s md = [] then None else Some (cs_base_urls s md)) (cs_timeout s)))"

definition client_push :: "client_settings \<Rightarrow> string \<Rightarrow> (nat \<Rightarrow> http_outcome) \<Rightarrow> pydict \<Rightarrow> string \<Rightarrow> nat \<Rightarrow> pyval result" where
  "client_push s now outcomes event md attempt =
     (case get_client s md of
        Http c \<Rightarrow> Inr (PDict (push_configuration c now (outcomes attempt) event))
      | Mock c \<Rightarrow> rbind (mock_push_configuration c now event) (\<lambda>d. Inr (PDict d)))"

definition client_health :: "client_settings \<Rightarrow> string \<Rightarrow> string \<Rightarrow> pyval \<Rightarrow> http_outcome \<Rightarrow> service_health" where
  "client_health s md now latency outcome =
     (case get_client s md of Http c \<Rightarrow> check_endpoint c now latency outcome | Mock c \<Rightarrow> mock_get_health c now)"

subsection \<open>Health of the platform\<close>

text \<open>What the twelve checks find; each one runs on its own, and an exception that a check lets through is a result.\<close>

record platform_io =
  pf_now :: string
  pf_latency :: "string \<Rightarrow> pyval"
  pf_postgres :: "unit result"
  pf_redis :: "unit result"
  pf_kafka :: "bool result"
  pf_opensearch :: "unit result"
  pf_opensearch_http :: "nat result"
  pf_minio :: "nat result"
  pf_prometheus :: "nat result"
  pf_grafana :: "nat result"
  pf_modules :: "string \<Rightarrow> http_outcome"

definition unavailable_service :: "platform_io \<Rightarrow> string \<Rightarrow> exn \<Rightarrow> service_health" where
  "unavailable_service io service e = health_result (pf_now io) service HS_UNAVAILABLE PNone (reason (exn_str e))"

definition check_connection :: "platform_io \<Rightarrow> string \<Rightarrow> unit result \<Rightarrow> service_health" where
  "check_connection io service r =
     (case r of Inr _ \<Rightarrow> health_result (pf_now io) service HS_HEALTHY (pf_latency io service) [] | Inl e \<Rightarrow> unavailable_service io service e)"

definition check_postgres :: "platform_io \<Rightarrow> service_health" where
  "check_postgres io = check_connection io ''postgres'' (pf_postgres io)"

definition check_redis :: "platform_io \<Rightarrow> service_health" where
  "check_redis io = check_connection io ''redis'' (pf_redis io)"

definition check_kafka :: "client_settings \<Rightarrow> platform_io \<Rightarrow> service_health" where
  "check_kafka s io =
     (if \<not> cs_kafka_enabled s then health_result (pf_now io) ''kafka'' HS_UNKNOWN PNone (reason ''Kafka disabled in config'')
      else
        case pf_kafka io of
          Inr True \<Rightarrow> health_result (pf_now io) ''kafka'' HS_HEALTHY (pf_latency io ''kafka'') []
        | Inr False \<Rightarrow> health_result (pf_now io) ''kafka'' HS_UNAVAILABLE PNone (reason ''Producer ping failed'')
        | Inl e \<Rightarrow> unavailable_service io ''kafka'' e)"

definition check_opensearch :: "platform_io \<Rightarrow> service_health" where
  "check_opensearch io =
     check_connection io ''opensearch''
       (case pf_opensearch io of
          Inr _ \<Rightarrow> Inr ()
        | Inl _ \<Rightarrow> rbind (pf_opensearch_http io) (\<lambda>c. if c = 200 \<or> c = 201 then Inr () else Inl (RuntimeError (''OpenSearch HTTP '' @ nat_str c))))"

definition check_http :: "platform_io \<Rightarrow> string \<Rightarrow> nat result \<Rightarrow> service_health" where
  "check_http io service r =
     (case r of
        Inr c \<Rightarrow> health_result (pf_now io) service (if c = 200 then HS_HEALTHY else HS_UNHEALTHY) (pf_latency io service) []
      | Inl e \<Rightarrow> unavailable_service io service e)"

definition check_minio :: "platform_io \<Rightarrow> service_health" where
  "check_minio io = check_http io ''minio'' (pf_minio io)"

definition check_prometheus :: "client_settings \<Rightarrow> platform_io \<Rightarrow> service_health" where
  "check_prometheus s io =
     (if \<not> cs_prometheus_enabled s then health_result (pf_now io) ''prometheus'' HS_UNKNOWN PNone [] else check_http io ''prometheus'' (pf_prometheus io))"

definition check_grafana :: "platform_io \<Rightarrow> service_health" where
  "check_grafana io = check_http io ''grafana'' (pf_grafana io)"

definition all_checks :: "client_settings \<Rightarrow> platform_io \<Rightarrow> service_health result list" where
  "all_checks s io =
     map Inr ([check_postgres io, check_redis io, check_kafka s io, check_opensearch io, check_minio io, check_prometheus s io, check_grafana io] @
       map (\<lambda>md. client_health s md (pf_now io) (pf_latency io md) (pf_modules io md)) [''M1'', ''M2'', ''M3'', ''M4'', ''M5''])"

definition collect_result :: "service_health result \<Rightarrow> (string, pydict) dict \<Rightarrow> (string, pydict) dict" where
  "collect_result check results =
     (case check of
        Inr h \<Rightarrow> dict_set (sh_service h) (health_as_dict h) results
      | Inl e \<Rightarrow> dict_set ''unknown'' [(''service'', PStr ''unknown''), (''status'', PStr (hs_value HS_UNKNOWN)), (''details'', PDict [(''error'', PStr (exn_str e))])] results)"

definition platform_health :: "service_health result list \<Rightarrow> string \<times> (string, pydict) dict" where
  "platform_health checks =
     (let results = fold collect_result checks []; statuses = map (\<lambda>(_, r). pget r ''status'') results
      in (if list_all (\<lambda>s. s = PStr (hs_value HS_HEALTHY)) statuses then ''HEALTHY''
          else if list_ex (\<lambda>s. s = PStr (hs_value HS_UNHEALTHY)) statuses then ''DEGRADED''
          else ''DEGRADED'', results))"

definition get_all_service_health :: "client_settings \<Rightarrow> platform_io \<Rightarrow> pydict" where
  "get_all_service_health s io =
     (case platform_health (all_checks s io) of
        (overall, results) \<Rightarrow>
          [(''overall'', PStr overall), (''services'', PDict (map (\<lambda>(k, r). (k, PDict r)) results)), (''m6_control_plane'', PStr ''HEALTHY'')])"

subsection \<open>Properties\<close>

lemma http_push_answers:
  assumes "\<not> cs_use_mock_adapters s" shows "answered (client_push s now outcomes event md) k"
  using assms by (simp add: answered_def client_push_def get_client_def Let_def)

text \<open>The HTTP client answers every push with a dictionary, so that M6 never tries a second time: whatever happens to the requests, the first
  attempt decides, no pause is made and the two remaining attempts are left.\<close>

theorem http_dispatch_once:
  assumes "\<not> cs_use_mock_adapters s" "tg_target_module t \<in> {''M1'', ''M2'', ''M3'', ''M4'', ''M5''}" "0 < tg_max_retries t"
    and "de_push env = client_push s now outcomes event"
  shows "\<exists>t' es. dispatch_single_target env actor role t = (t', es, []) \<and> tg_retry_count t' = 1 \<and>
    tg_status t' = (if applied (de_push env (tg_target_module t)) 1 then DS_ACKNOWLEDGED else DS_FAILED)"
proof -
  obtain n where n: "nat (tg_max_retries t) = Suc n" using assms(3) by (cases "nat (tg_max_retries t)") auto
  have "answered (de_push env (tg_target_module t)) 1" using http_push_answers [OF assms(1)] assms(4) by simp
  from dispatch_step_answered [OF this, of "de_now env" actor role n "''None''" "t\<lparr>tg_status := DS_SENT, tg_sent_at := Some (de_now env)\<rparr>" "[]"]
  show ?thesis using assms(2) n by (auto simp: dispatch_single_target_def)
qed

lemma collect_results:
  "distinct (map sh_service hs) \<Longrightarrow> set (map sh_service hs) \<inter> fst ` set acc = {} \<Longrightarrow>
     fold collect_result (map Inr hs) acc = acc @ map (\<lambda>h. (sh_service h, health_as_dict h)) hs"
proof (induction hs arbitrary: acc)
  case (Cons h hs)
  have "\<not> dict_has (sh_service h) acc" using Cons.prems(2) by (auto simp: dict_has_iff)
  then have "collect_result (Inr h) acc = acc @ [(sh_service h, health_as_dict h)]" by (simp add: collect_result_def dict_set_new)
  then show ?case using Cons by auto
qed simp

lemma health_status_pget [simp]: "pget (health_as_dict h) ''status'' = PStr (hs_value (sh_status h))"
  by (simp add: health_as_dict_def pget_def)

lemma hs_value_inject [simp]: "hs_value a = hs_value b \<longleftrightarrow> a = b"
  by (cases a; cases b) simp_all

lemma service_of_checks [simp]:
  "sh_service (health_result now service st l d) = service" "sh_service (unavailable_service io service e) = service"
  "sh_service (check_connection io service r) = service" "sh_service (check_http io service n) = service"
  "sh_service (client_health s md now l out) = (case map_of service_names md of Some n \<Rightarrow> n | None \<Rightarrow> [])"
  by (simp_all add: health_result_def unavailable_service_def check_connection_def check_http_def client_health_def get_client_def Let_def check_endpoint_def
      HttpModuleClient_def MockModuleClient_def mock_get_health_def split: sum.split http_outcome.split)

text \<open>The platform counts as healthy exactly when each of the twelve services answered that it is: nothing that is down, unknown or switched
  off is taken for healthy.\<close>

theorem platform_healthy_exact:
  "pget (get_all_service_health s io) ''overall'' = PStr ''HEALTHY'' \<longleftrightarrow>
     list_all (\<lambda>check. case check of Inr h \<Rightarrow> sh_status h = HS_HEALTHY | Inl _ \<Rightarrow> False) (all_checks s io)"
proof -
  define hs where "hs = [check_postgres io, check_redis io, check_kafka s io, check_opensearch io, check_minio io, check_prometheus s io, check_grafana io] @
       map (\<lambda>md. client_health s md (pf_now io) (pf_latency io md) (pf_modules io md)) [''M1'', ''M2'', ''M3'', ''M4'', ''M5'']"
  have names: "map sh_service hs = [''postgres'', ''redis'', ''kafka'', ''opensearch'', ''minio'', ''prometheus'', ''grafana'', ''m1-ingestion'', ''m2-parser'',
      ''m3-normalizer'', ''m4-enrichment'', ''m5-delivery'']"
    by (simp add: hs_def check_postgres_def check_redis_def check_kafka_def check_opensearch_def check_minio_def check_prometheus_def check_grafana_def
        service_names_def split: sum.split bool.split)
  have "fold collect_result (map Inr hs) [] = map (\<lambda>h. (sh_service h, health_as_dict h)) hs"
    using collect_results [of hs "[]"] by (simp add: names)
  then have "fst (platform_health (map Inr hs)) = ''HEALTHY'' \<longleftrightarrow> list_all (\<lambda>h. sh_status h = HS_HEALTHY) hs"
    by (simp add: platform_health_def Let_def list.pred_map comp_def del: hs_value.simps)
  moreover have "pget (get_all_service_health s io) ''overall'' = PStr (fst (platform_health (map Inr hs)))"
    by (simp add: get_all_service_health_def all_checks_def hs_def pget_def split: prod.split)
  ultimately have "pget (get_all_service_health s io) ''overall'' = PStr ''HEALTHY'' \<longleftrightarrow> list_all (\<lambda>h. sh_status h = HS_HEALTHY) hs" by simp
  then show ?thesis by (simp add: all_checks_def hs_def)
qed

definition demo_clients :: client_settings where
  "demo_clients = \<lparr> cs_use_mock_adapters = False, cs_base_urls = (\<lambda>_. ''http://worker''), cs_timeout = ''5'', cs_kafka_enabled = True, cs_prometheus_enabled = True \<rparr>"

definition demo_dist :: dist_env where
  "demo_dist = \<lparr> de_distribution_id = ''d1'', de_correlation_id = ''c1'', de_version_row_id = ''v1'', de_time_ms = 1, de_now = ''t'', de_check_event = (\<lambda>_. None),
     de_check_ack = (\<lambda>_. None), de_push = client_push demo_clients ''t'' (\<lambda>_. ConnectFailed ''All connection attempts failed'') [] \<rparr>"

definition demo_change :: change where
  "demo_change = \<lparr> ch_config_type = ''mappings'', ch_entity_id = Some ''fw'', ch_version = ''1.0.0'', ch_tenant_id = Some ''acme'', ch_operation = ''CREATE'',
     ch_payload = [], ch_actor = ''root'', ch_actor_role = None \<rparr>"

text \<open>A module that is not reachable at the moment of the first attempt fails the distribution.\<close>

theorem http_dispatch_once_witness:
  "\<exists>t' es. dispatch_single_target demo_dist ''root'' None (new_target demo_dist demo_change ''M3'') = (t', es, []) \<and> tg_retry_count t' = 1 \<and> tg_status t' = DS_FAILED"
proof -
  have "\<not> cs_use_mock_adapters demo_clients" "tg_target_module (new_target demo_dist demo_change ''M3'') \<in> {''M1'', ''M2'', ''M3'', ''M4'', ''M5''}"
    "0 < tg_max_retries (new_target demo_dist demo_change ''M3'')" by (simp_all add: demo_clients_def new_target_def)
  moreover have "de_push demo_dist = client_push demo_clients ''t'' (\<lambda>_. ConnectFailed ''All connection attempts failed'') []" by (simp add: demo_dist_def)
  moreover have "\<not> applied (de_push demo_dist (tg_target_module (new_target demo_dist demo_change ''M3''))) 1"
    by (auto simp: applied_def demo_dist_def client_push_def get_client_def demo_clients_def Let_def push_configuration_def has_url_def HttpModuleClient_def
        rstrip_by_def client_ack_def pget_def)
  ultimately show ?thesis using http_dispatch_once [of demo_clients "new_target demo_dist demo_change ''M3''" demo_dist "''t''" "\<lambda>_. ConnectFailed ''All connection attempts failed''" "[]" "''root''" None] by fastforce
qed

end
