(* ===== verification/M6_Snapshot.thy ===== *)
theory M6_Snapshot
  imports M6_Sources M6_Parsers M6_Mappings M6_Policies M6_Platform M6_Clients
begin

section \<open>M6: the published configuration and the audit log\<close>

text \<open>
  The copy of the active configuration that \<open>services/config_service.py\<close> keeps in Redis, the endpoints of \<open>api/configuration.py\<close>,
  \<open>api/audit.py\<close> and \<open>api/services.py\<close>, the search of \<open>repositories/audit_repo.py\<close> and the rest of
  \<open>repositories/distribution_repo.py\<close>. Redis is a dictionary; the text that \<open>json.dumps\<close> writes there is represented by the value that
  \<open>json.loads\<close> reads back. Whether Redis can be reached is an argument. A row of the audit log is an entry with its time.
\<close>

subsection \<open>Snapshots\<close>

record config_tables =
  ct_sources :: "source_row list"
  ct_parsers :: "parser_row list"
  ct_schemas :: "schema_row list"
  ct_schema_versions :: "schema_version_row list"
  ct_mappings :: "mapping_row list"
  ct_policies :: "policy_row list"

definition build_sources :: "config_tables \<Rightarrow> pyval" where
  "build_sources ct = PList (map (\<lambda>s. PDict
     [(''source_id'', PStr (so_source_id s)), (''tenant_id'', PStr (so_tenant_id s)), (''name'', PStr (so_name s)), (''vendor'', PStr (so_vendor s)),
      (''product'', PStr (so_product s)), (''type'', PStr (so_source_type s)), (''protocol'', PStr (so_protocol s)), (''transport'', PStr (so_transport s)),
      (''port'', (case so_port s of Some n \<Rightarrow> PInt n | None \<Rightarrow> PNone)), (''zone'', opt_value (so_zone s)), (''parser_id'', opt_value (so_parser_id s))])
     (filter (\<lambda>s. so_status s = SS_ACTIVE) (ct_sources ct)))"

definition build_parsers :: "config_tables \<Rightarrow> pyval" where
  "build_parsers ct = PList (map (\<lambda>p. PDict
     [(''parser_id'', PStr (pa_parser_id p)), (''tenant_id'', opt_value (pa_tenant_id p)), (''name'', PStr (pa_name p)), (''vendor'', PStr (pa_vendor p)),
      (''product'', PStr (pa_product p)), (''format'', PStr (pa_format p)), (''version'', PStr (pa_version p))])
     (filter (\<lambda>p. pa_status p = PS_ACTIVE) (ct_parsers ct)))"

text \<open>The versions of a schema, the latest first.\<close>

definition active_versions :: "schema_row \<Rightarrow> config_tables \<Rightarrow> pydict" where
  "active_versions s ct = fold (\<lambda>v. dict_set (sv_version v) (PDict (sv_json_schema v)))
     (filter (\<lambda>v. sv_schema_id v = sch_id s \<and> sv_status v = SCH_ACTIVE) (rev (ct_schema_versions ct))) []"

definition build_schemas :: "config_tables \<Rightarrow> pyval" where
  "build_schemas ct = PDict (fold (\<lambda>s. dict_set (sch_name s) (PDict (active_versions s ct))) (ct_schemas ct) [])"

definition build_mappings :: "config_tables \<Rightarrow> pyval" where
  "build_mappings ct = PList (map (\<lambda>m. PDict
     [(''mapping_id'', PStr (mp_mapping_id m)), (''tenant_id'', opt_value (mp_tenant_id m)), (''source_format'', PStr (mp_source_format m)),
      (''target_schema'', PStr (mp_target_schema m)), (''target_version'', PStr (mp_target_version m)), (''version'', PStr (mp_version m)),
      (''fields'', PDict (map (\<lambda>(k, v). (k, PStr v)) (mp_fields m)))])
     (filter mp_is_active (ct_mappings ct)))"

definition build_policies :: "config_tables \<Rightarrow> pyval" where
  "build_policies ct = PList (map (\<lambda>p. PDict
     [(''policy_id'', PStr (po_policy_id p)), (''tenant_id'', PStr (po_tenant_id p)), (''name'', PStr (po_name p)), (''version'', PStr (po_version p)),
      (''priority'', PInt (po_priority p)), (''conditions'', PList (map PDict (po_conditions p))), (''destinations'', PList (map PStr (po_destinations p)))])
     (sort_key (\<lambda>p. - po_priority p) (filter po_is_enabled (ct_policies ct))))"

definition builder :: "string \<Rightarrow> (config_tables \<Rightarrow> pyval) option" where
  "builder config_type = map_of
     [(''sources'', build_sources), (''parsers'', build_parsers), (''schemas'', build_schemas), (''mappings'', build_mappings), (''policies'', build_policies)] config_type"

definition redis_key :: "string \<Rightarrow> string" where
  "redis_key name = ''config:'' @ name"

definition sync_redis_snapshot :: "bool \<Rightarrow> string \<Rightarrow> config_tables \<Rightarrow> pydict \<Rightarrow> pydict" where
  "sync_redis_snapshot reachable config_type ct redis =
     (if \<not> reachable then redis
      else case builder config_type of None \<Rightarrow> redis | Some build \<Rightarrow> dict_set (redis_key config_type) (build ct) redis)"

text \<open>A change with its copy: the tables are those that the change leaves.\<close>

definition propagate_and_sync :: "dist_env \<Rightarrow> bool \<Rightarrow> config_tables \<Rightarrow> change \<Rightarrow> dist_db \<times> pydict \<Rightarrow> (dist_db \<times> pydict) \<times> target_state list result" where
  "propagate_and_sync env reachable ct c st =
     (case trigger_propagation env c (fst st) of
        (db, Inl e) \<Rightarrow> ((db, snd st), Inl e)
      | (db, Inr ts) \<Rightarrow> ((db, sync_redis_snapshot reachable (ch_config_type c) ct (snd st)), Inr ts))"

definition get_current_config :: "exn option \<Rightarrow> pydict \<Rightarrow> pydict" where
  "get_current_config failure redis =
     (case failure of
        Some e \<Rightarrow> [(''error'', PStr (exn_str e)), (''available'', PBool False)]
      | None \<Rightarrow>
          map (\<lambda>key. (key, pget redis (redis_key key))) [''sources'', ''parsers'', ''schemas'', ''mappings'', ''policies''] @
          [(''version'', pget redis (redis_key ''version'')), (''updated_at'', pget redis (redis_key ''updated_at''))])"

definition get_config_version :: "exn option \<Rightarrow> pydict \<Rightarrow> int" where
  "get_config_version failure redis =
     (if failure \<noteq> None then 0
      else case pget redis (redis_key ''version'') of
             v \<Rightarrow> if py_truthy v then (case py_int v of Inr n \<Rightarrow> n | Inl _ \<Rightarrow> 0) else 0)"

subsection \<open>Endpoints of the configuration\<close>

definition config_readers :: "string list" where
  "config_readers = [''SUPER_ADMIN'', ''ADMINISTRATOR'', ''SECURITY_ANALYST'', ''VIEWER'']"

definition get_configuration_api :: "access \<Rightarrow> exn option \<Rightarrow> pydict \<Rightarrow> pydict \<times> pydict result" where
  "get_configuration_api ax failure = user_endpoint ax config_readers (\<lambda>_ redis. (redis, Inr (get_current_config failure redis)))"

definition get_config_version_api :: "access \<Rightarrow> exn option \<Rightarrow> pydict \<Rightarrow> pydict \<times> pydict result" where
  "get_config_version_api ax failure =
     user_endpoint ax config_readers (\<lambda>_ redis. (redis, Inr [(''version'', PInt (get_config_version failure redis))]))"

definition target_status_item :: "target_state \<Rightarrow> pydict" where
  "target_status_item t =
     [(''module'', PStr (tg_target_module t)), (''status'', PStr (ds_value (tg_status t))), (''version'', PStr (tg_version t)), (''sent_at'', opt_value (tg_sent_at t)),
      (''ack_at'', opt_value (tg_ack_at t)), (''retry_count'', PInt (tg_retry_count t)), (''error'', tg_error_message t)]"

text \<open>\<open>DistributionStatusResponse\<close> requires the status that the dictionary for an unknown distribution does not have.\<close>

definition distribution_status_api :: "access \<Rightarrow> string \<Rightarrow> dist_db \<Rightarrow> dist_db \<times> pydict result" where
  "distribution_status_api ax config_id = user_endpoint ax config_readers (\<lambda>_ db.
     (db, case get_distribution_status config_id db of
            None \<Rightarrow> Inl (ValueError ''overall_status: Field required'')
          | Some (overall, ts) \<Rightarrow>
              Inr [(''distribution_id'', PStr config_id), (''found'', PBool True), (''overall_status'', PStr overall), (''targets'', PList (map (PDict \<circ> target_status_item) ts))]))"

definition list_by_config_version :: "string \<Rightarrow> dist_db \<Rightarrow> target_state list" where
  "list_by_config_version config_version_id db = filter (\<lambda>t. tg_config_version_id t = config_version_id) (dd_targets db)"

definition list_by_config_key :: "string \<Rightarrow> dist_db \<Rightarrow> target_state list" where
  "list_by_config_key config_key db = rev (filter (\<lambda>t. tg_config_type t = config_key) (dd_targets db))"

definition record_target_ack :: "string \<Rightarrow> string \<Rightarrow> string \<Rightarrow> string \<Rightarrow> distribution_status \<Rightarrow> string option \<Rightarrow> dist_db \<Rightarrow> dist_db \<times> target_state option result" where
  "record_target_ack now distribution_id md version st err db =
     (case get_by_distribution_and_module distribution_id md db of
        Inl e \<Rightarrow> (db, Inl e)
      | Inr None \<Rightarrow> (db, Inr None)
      | Inr (Some t) \<Rightarrow>
          if tg_version t \<noteq> version then (db, Inr None)
          else
            let t' = t\<lparr>tg_status := st, tg_ack_at := Some now, tg_error_message := (case err of Some (c # cs) \<Rightarrow> PStr (c # cs) | _ \<Rightarrow> tg_error_message t)\<rparr>
            in (put_target t' db, Inr (Some t')))"

subsection \<open>Services\<close>

definition service_roles :: "string list" where
  "service_roles = [''ADMINISTRATOR'', ''PARSER_DEVELOPER'', ''SECURITY_ANALYST'', ''VIEWER'']"

definition list_services_health :: "client_settings \<Rightarrow> platform_io \<Rightarrow> access \<Rightarrow> pydict result" where
  "list_services_health s io ax = rbind (authorize_user ax service_roles) (\<lambda>_. Inr (get_all_service_health s io))"

definition get_service_health :: "client_settings \<Rightarrow> platform_io \<Rightarrow> access \<Rightarrow> string \<Rightarrow> pyval result" where
  "get_service_health s io ax service =
     rbind (authorize_user ax service_roles) (\<lambda>_.
       let services = (case pget (get_all_service_health s io) ''services'' of PDict d \<Rightarrow> d | _ \<Rightarrow> []) in
       case map_of services service of
         Some r \<Rightarrow> Inr r
       | None \<Rightarrow> Inl (HTTPException 404 (''Service '' @ quoted service @ '' not found. Available: '' @ list_repr (map fst services))))"

subsection \<open>Audit log\<close>

record audit_row = audit_entry +
  ar_timestamp :: rat

record audit_query =
  aq_actor :: "string option"
  aq_action :: "string option"
  aq_resource_type :: "string option"
  aq_resource_id :: "string option"
  aq_since :: "rat option"
  aq_until :: "rat option"

definition audit_matches :: "audit_query \<Rightarrow> string option \<Rightarrow> audit_row \<Rightarrow> bool" where
  "audit_matches q tenant_id r =
     ((given tenant_id \<longrightarrow> au_tenant_id r = tenant_id) \<and> (given (aq_actor q) \<longrightarrow> Some (au_actor r) = aq_actor q) \<and>
      (given (aq_action q) \<longrightarrow> Some (au_action r) = aq_action q) \<and> (given (aq_resource_type q) \<longrightarrow> Some (au_resource_type r) = aq_resource_type q) \<and>
      (given (aq_resource_id q) \<longrightarrow> au_resource_id r = aq_resource_id q) \<and>
      (case aq_since q of None \<Rightarrow> True | Some t \<Rightarrow> t \<le> ar_timestamp r) \<and> (case aq_until q of None \<Rightarrow> True | Some t \<Rightarrow> ar_timestamp r \<le> t))"

text \<open>The rows of a query, the latest first. Rows of the same time keep one order here, on every page; the query orders by the time alone,
  and the database is free to order such rows differently from page to page.\<close>

definition audit_selected :: "audit_query \<Rightarrow> string option \<Rightarrow> audit_row list \<Rightarrow> audit_row list" where
  "audit_selected q tenant_id rows = sort_key (\<lambda>r. - ar_timestamp r) (filter (audit_matches q tenant_id) rows)"

definition audit_search :: "audit_query \<Rightarrow> string option \<Rightarrow> nat \<Rightarrow> nat \<Rightarrow> audit_row list \<Rightarrow> audit_row list \<times> nat" where
  "audit_search q tenant_id skip limit rows = page_of skip limit (audit_selected q tenant_id rows)"

definition list_audit_logs :: "access \<Rightarrow> audit_query \<Rightarrow> nat \<Rightarrow> nat \<Rightarrow> audit_row list \<Rightarrow> audit_row list \<times> (audit_row list \<times> nat \<times> nat) result" where
  "list_audit_logs ax q page page_size =
     tenant_endpoint ax all_roles (\<lambda>ctx rows.
       (rows, Inr (PaginatedResponse page page_size (audit_search q (rc_tenant_id ctx) ((page - 1) * page_size) page_size rows))))"

subsection \<open>What is served\<close>

text \<open>The changes of the configuration, each with the tables it leaves and whether Redis was reached.\<close>

type_synonym sync_event = "bool \<times> string \<times> config_tables"

definition snapshot_step :: "sync_event \<Rightarrow> pydict \<Rightarrow> pydict" where
  "snapshot_step ev = (case ev of (reachable, config_type, ct) \<Rightarrow> sync_redis_snapshot reachable config_type ct)"

fun last_synced :: "string \<Rightarrow> sync_event list \<Rightarrow> config_tables option" where
  "last_synced ty [] = None"
| "last_synced ty ((reachable, ty', ct) # evs) =
     (case last_synced ty evs of Some ct' \<Rightarrow> Some ct' | None \<Rightarrow> if reachable \<and> ty' = ty then Some ct else None)"

lemma snapshot_step_other: "builder ty = None \<Longrightarrow> map_of (snapshot_step ev redis) (redis_key ty) = map_of redis (redis_key ty)"
  by (auto simp: snapshot_step_def sync_redis_snapshot_def redis_key_def split: prod.splits option.splits)

lemma sync_run_other: "builder ty = None \<Longrightarrow> map_of (fold snapshot_step evs redis) (redis_key ty) = map_of redis (redis_key ty)"
  by (induction evs arbitrary: redis) (simp_all add: snapshot_step_other)

lemma sync_run:
  assumes "builder ty = Some build"
  shows "map_of (fold snapshot_step evs redis) (redis_key ty) = (case last_synced ty evs of Some ct \<Rightarrow> Some (build ct) | None \<Rightarrow> map_of redis (redis_key ty))"
proof (induction evs arbitrary: redis)
  case (Cons ev evs)
  obtain reachable ty' ct where ev: "ev = (reachable, ty', ct)" by (cases ev)
  have "map_of (snapshot_step ev redis) (redis_key ty) = (if reachable \<and> ty' = ty then Some (build ct) else map_of redis (redis_key ty))"
    using assms by (auto simp: ev snapshot_step_def sync_redis_snapshot_def redis_key_def split: option.splits)
  then show ?case using Cons.IH [of "snapshot_step ev redis"] by (auto simp: ev split: option.splits)
qed simp


text \<open>Nothing writes the key of the version that the documentation promises to be current and monotonic.\<close>

lemma config_version_never_moves: "get_config_version None (fold snapshot_step evs []) = 0"
proof -
  have "builder ''version'' = None" by (simp add: builder_def)
  from sync_run_other [OF this, of evs "[]"] show ?thesis by (simp add: get_config_version_def pget_def pget_default_def)
qed

text \<open>The snapshot of a user does not depend on the tenant of the user.\<close>

lemma configuration_not_scoped:
  assumes "authorize_user ax config_readers = Inr u" "authorize_user ax' config_readers = Inr u'"
  shows "get_configuration_api ax failure redis = get_configuration_api ax' failure redis"
  using assms by (simp add: get_configuration_api_def user_endpoint_def request_def)

lemma unknown_distribution_fails:
  assumes "authorize_user ax config_readers = Inr u" "list_by_distribution_id did db = []"
  shows "distribution_status_api ax did db = (db, Inl (ValueError ''overall_status: Field required''))"
  using assms by (simp add: distribution_status_api_def user_endpoint_def request_def get_distribution_status_def)

subsection \<open>What the audit log shows\<close>

lemma audit_selected_tenant:
  assumes "t \<noteq> []"
  shows "audit_selected q (Some t) rows = audit_selected q (Some t) (filter (\<lambda>r. au_tenant_id r = Some t) rows)"
proof -
  have "filter (audit_matches q (Some t)) rows = filter (audit_matches q (Some t)) (filter (\<lambda>r. au_tenant_id r = Some t) rows)"
    unfolding filter_filter by (rule filter_cong) (use assms in \<open>auto simp: audit_matches_def given_def split: list.splits\<close>)
  then show ?thesis by (simp add: audit_selected_def)
qed

lemma list_audit_logs_Inr:
  assumes "list_audit_logs ax q page n rows = (rows', Inr res)"
  obtains ctx where "rows' = rows" "authorize (ax_decode ax) (ax_identity ax) all_roles (ax_token ax) (ax_tenant_id ax) = Inr ctx"
    "res = PaginatedResponse page n (audit_search q (rc_tenant_id ctx) ((page - 1) * n) n rows)"
  using assms that by (auto simp: list_audit_logs_def tenant_endpoint_def request_def split: sum.splits)

text \<open>(C39) The audit log that a user of a tenant reads is that of the tenant: the answer is the one on the log without the rows of others, every row of it
  belongs to the tenant, and the pages in order hold every row that the query selects exactly once, the latest first.\<close>

theorem audit_log_scoped:
  assumes "tenant_caller t ax" "0 < n"
    and ok: "list_audit_logs ax q page n rows = (rows', Inr (items, count, pages))"
  shows "(\<forall>page. list_audit_logs ax q page n rows = (rows, snd (list_audit_logs ax q page n (filter (\<lambda>r. au_tenant_id r = Some t) rows)))) \<and>
    concat (map (\<lambda>page. case list_audit_logs ax q page n rows of (_, Inr (items, _, _)) \<Rightarrow> items | _ \<Rightarrow> []) [1..<Suc pages]) =
      audit_selected q (Some t) (filter (\<lambda>r. au_tenant_id r = Some t) rows) \<and>
    count = length (audit_selected q (Some t) (filter (\<lambda>r. au_tenant_id r = Some t) rows))"
proof -
  let ?own = "filter (\<lambda>r. au_tenant_id r = Some t) rows"
  let ?xs = "audit_selected q (Some t) ?own"
  from list_audit_logs_Inr [OF ok] obtain ctx where
    c: "authorize (ax_decode ax) (ax_identity ax) all_roles (ax_token ax) (ax_tenant_id ax) = Inr ctx"
    and r: "(items, count, pages) = PaginatedResponse page n (audit_search q (rc_tenant_id ctx) ((page - 1) * n) n rows)" by metis
  have t: "rc_tenant_id ctx = Some t" "t \<noteq> []" using tenant_caller_context [OF assms(1) c] by simp_all
  have sel: "audit_selected q (Some t) rows = ?xs" using audit_selected_tenant [OF t(2)] .
  have answer: "list_audit_logs ax q page n rs =
      (rs, Inr (PaginatedResponse page n (page_of ((page - 1) * n) n (audit_selected q (Some t) rs))))" for page rs
    using c t by (simp add: list_audit_logs_def tenant_endpoint_def request_def audit_search_def)
  have tot: "count = length ?xs" "pages = max 1 ((length ?xs + n - 1) div n)"
    using r t sel by (simp_all add: PaginatedResponse_def audit_search_def page_of_def)
  have "concat (map (\<lambda>page. case list_audit_logs ax q page n rows of (_, Inr (items, _, _)) \<Rightarrow> items | _ \<Rightarrow> []) [1..<Suc pages])
      = concat (map (\<lambda>k. take n (drop (k * n) ?xs)) [0..<pages])"
    unfolding answer sel by (simp add: PaginatedResponse_def page_of_def map_Suc_upt [symmetric] comp_def del: upt_Suc)
  also have "\<dots> = take (pages * n) ?xs" by (rule pages_concat [OF assms(2)])
  also have "\<dots> = ?xs"
  proof -
    have "length ?xs \<le> (length ?xs + n - 1) div n * n" using assms(2)
      using div_mult_mod_eq [of "length ?xs + n - 1" n] mod_less_divisor [OF assms(2), of "length ?xs + n - 1"] by linarith
    also have "\<dots> \<le> pages * n" unfolding tot(2) by (intro mult_le_mono1) simp
    finally show ?thesis by simp
  qed
  finally show ?thesis using answer sel tot by simp
qed

definition audit_demo_row :: "string \<Rightarrow> string \<Rightarrow> rat \<Rightarrow> audit_row" where
  "audit_demo_row tenant action time = \<lparr> au_actor = ''ann'', au_actor_role = None, au_action = action, au_resource_type = ''source'', au_resource_id = Some ''s1'',
     au_tenant_id = Some tenant, au_version = None, au_before_state = None, au_after_state = None, au_reason = None, ar_timestamp = time \<rparr>"

definition demo_log :: "audit_row list" where
  "demo_log = [audit_demo_row ''a'' ''SOURCE_CREATED'' 1, audit_demo_row ''b'' ''SOURCE_CREATED'' 2, audit_demo_row ''a'' ''SOURCE_DELETED'' 3]"

definition demo_query :: audit_query where
  "demo_query = \<lparr> aq_actor = None, aq_action = None, aq_resource_type = Some ''source'', aq_resource_id = None, aq_since = None, aq_until = None \<rparr>"

lemma demo_selected:
  "audit_selected demo_query (Some ''a'') demo_log = [audit_demo_row ''a'' ''SOURCE_DELETED'' 3, audit_demo_row ''a'' ''SOURCE_CREATED'' 1]"
  "audit_selected demo_query (Some ''a'') (filter (\<lambda>r. au_tenant_id r = Some ''a'') demo_log) =
     [audit_demo_row ''a'' ''SOURCE_DELETED'' 3, audit_demo_row ''a'' ''SOURCE_CREATED'' 1]"
  by (simp_all add: audit_selected_def demo_query_def demo_log_def audit_matches_def given_def audit_demo_row_def)

theorem audit_log_scoped_witness:
  "concat (map (\<lambda>page. case list_audit_logs demo_access demo_query page 1 demo_log of (_, Inr (items, _, _)) \<Rightarrow> items | _ \<Rightarrow> []) [1..<Suc 2]) =
     [audit_demo_row ''a'' ''SOURCE_DELETED'' 3, audit_demo_row ''a'' ''SOURCE_CREATED'' 1]"
proof -
  have "list_audit_logs demo_access demo_query 1 1 demo_log = (demo_log, Inr ([audit_demo_row ''a'' ''SOURCE_DELETED'' 3], 2, 2))"
    by (simp add: list_audit_logs_def tenant_endpoint_def request_def demo_access_context PaginatedResponse_def audit_search_def page_of_def demo_selected(1))
  from audit_log_scoped [OF demo_access_caller zero_less_one this] show ?thesis unfolding demo_selected(2) by blast
qed

end
