(* ===== verification/Py_Net.thy ===== *)
theory Py_Net
  imports Py_Value "HOL-Library.Word"
begin

unbundle bit_operations_syntax

section \<open>Addresses and locators\<close>

text \<open>
  What the sources use of \<open>ipaddress\<close> and \<open>urllib.parse\<close>, in the versions of CPython 3.11: parsing of addresses, membership in networks,
  the private ranges, and scheme and host of a URL. An address of version 4 is a word of 32 bits and one of version 6 a word of 128 bits
  with its scope. The check of \<open>urlsplit\<close> for characters that normalise to delimiters concerns characters above 255 only.
\<close>

datatype ip_address = IPv4 "32 word" | IPv6 "128 word" "string option"

datatype ip_network = Net4 "32 word" nat | Net6 "128 word" nat

subsection \<open>Parsing addresses\<close>

text \<open>\<open>s.partition(c)\<close> without the separator, and \<open>s.rpartition(c)[2]\<close>.\<close>

definition before :: "char \<Rightarrow> string \<Rightarrow> string" where
  "before c s = takeWhile (\<lambda>x. x \<noteq> c) s"

definition after :: "char \<Rightarrow> string \<Rightarrow> string" where
  "after c s = tl (dropWhile (\<lambda>x. x \<noteq> c) s)"

definition after_last :: "char \<Rightarrow> string \<Rightarrow> string" where
  "after_last c s = rev (takeWhile (\<lambda>x. x \<noteq> c) (rev s))"

definition ipv4_octet :: "string \<Rightarrow> int option" where
  "ipv4_octet s =
     (if s = [] \<or> \<not> list_all is_digit s \<or> 3 < length s \<or> (s \<noteq> ''0'' \<and> hd s = CHR ''0'') \<or> 255 < digits_val s then None
      else Some (int (digits_val s)))"

definition ipv4_of_str :: "string \<Rightarrow> 32 word option" where
  "ipv4_of_str s =
     (case split_on CHR ''.'' s of
        [a, b, c, d] \<Rightarrow>
          (case (ipv4_octet a, ipv4_octet b, ipv4_octet c, ipv4_octet d) of
             (Some w, Some x, Some y, Some z) \<Rightarrow> Some (word_of_int (((w * 256 + x) * 256 + y) * 256 + z))
           | _ \<Rightarrow> None)
      | _ \<Rightarrow> None)"

definition hex_digit_val :: "char \<Rightarrow> nat option" where
  "hex_digit_val c =
     (if is_digit c then Some (code c - 48)
      else if 97 \<le> code c \<and> code c \<le> 102 then Some (code c - 87)
      else if 65 \<le> code c \<and> code c \<le> 70 then Some (code c - 55)
      else None)"

definition hextet :: "string \<Rightarrow> int option" where
  "hextet s =
     (if s = [] \<or> 4 < length s then None
      else map_option (foldl (\<lambda>acc d. 16 * acc + int d) 0) (those (map hex_digit_val s)))"

text \<open>\<open>'%x' % n\<close> of a number below 65536\<close>

definition hex_str :: "int \<Rightarrow> string" where
  "hex_str n =
     (case dropWhile (\<lambda>c. c = CHR ''0'') (map (\<lambda>d. hex_digit (nat (n div d mod 16))) [4096, 256, 16, 1]) of
        [] \<Rightarrow> ''0''
      | s \<Rightarrow> s)"

text \<open>The suffix in the notation of version 4 becomes two groups.\<close>

definition v4_suffix :: "string list \<Rightarrow> string list option" where
  "v4_suffix parts =
     (if CHR ''.'' \<in> set (last parts) then
        (case ipv4_of_str (last parts) of
           None \<Rightarrow> None
         | Some a \<Rightarrow> Some (butlast parts @ [hex_str (uint a div 65536), hex_str (uint a mod 65536)]))
      else Some parts)"

definition hextets :: "string list \<Rightarrow> nat \<Rightarrow> string list \<Rightarrow> 128 word option" where
  "hextets his skipped los =
     (case (those (map hextet his), those (map hextet los)) of
        (Some hs, Some ls) \<Rightarrow> Some (foldl (\<lambda>acc h. push_bit 16 acc OR word_of_int h) (push_bit (16 * skipped) (foldl (\<lambda>acc h. push_bit 16 acc OR word_of_int h) 0 hs)) ls)
      | _ \<Rightarrow> None)"

definition ipv6_groups :: "string list \<Rightarrow> 128 word option" where
  "ipv6_groups parts =
     (case filter (\<lambda>i. parts ! i = []) [1..<length parts - 1] of
        [] \<Rightarrow> if length parts \<noteq> 8 \<or> hd parts = [] \<or> last parts = [] then None else hextets parts 0 []
      | [k] \<Rightarrow>
          let hi = (if hd parts = [] then k - 1 else k);
              lo = (if last parts = [] then length parts - k - 2 else length parts - k - 1)
          in if (hd parts = [] \<and> 0 < hi) \<or> (last parts = [] \<and> 0 < lo) \<or> 7 < hi + lo then None
             else hextets (take hi parts) (8 - (hi + lo)) (drop (length parts - lo) parts)
      | _ \<Rightarrow> None)"

definition ipv6_of_str :: "string \<Rightarrow> 128 word option" where
  "ipv6_of_str s =
     (let parts = split_on CHR '':'' s in
      if length parts < 3 then None
      else case v4_suffix parts of None \<Rightarrow> None | Some ps \<Rightarrow> if 9 < length ps then None else ipv6_groups ps)"

definition ip_of_str :: "string \<Rightarrow> ip_address result" where
  "ip_of_str s =
     (let invalid = Inl (ValueError (quoted s @ '' does not appear to be an IPv4 or IPv6 address'')) in
      case ipv4_of_str s of
        Some a \<Rightarrow> Inr (IPv4 a)
      | None \<Rightarrow>
          if CHR ''/'' \<in> set s \<or> (CHR ''%'' \<in> set s \<and> (after CHR ''%'' s = [] \<or> CHR ''%'' \<in> set (after CHR ''%'' s))) then invalid
          else
            case ipv6_of_str (before CHR ''%'' s) of
              Some a \<Rightarrow> Inr (IPv6 a (if CHR ''%'' \<in> set s then Some (after CHR ''%'' s) else None))
            | None \<Rightarrow> invalid)"

subsection \<open>Networks\<close>

fun in_network :: "ip_address \<Rightarrow> ip_network \<Rightarrow> bool" where
  "in_network (IPv4 a) (Net4 base n) = (a AND NOT (mask (32 - n)) = base)"
| "in_network (IPv6 a _) (Net6 base n) = (a AND NOT (mask (128 - n)) = base)"
| "in_network _ _ = False"

definition ip4 :: "int \<Rightarrow> int \<Rightarrow> int \<Rightarrow> int \<Rightarrow> 32 word" where
  "ip4 a b c d = word_of_int (((a * 256 + b) * 256 + c) * 256 + d)"

definition net4 :: "int \<Rightarrow> int \<Rightarrow> int \<Rightarrow> int \<Rightarrow> nat \<Rightarrow> ip_network" where
  "net4 a b c d n = Net4 (ip4 a b c d) n"

text \<open>A network of version 6 by its first groups.\<close>

definition net6 :: "int list \<Rightarrow> nat \<Rightarrow> ip_network" where
  "net6 groups n = Net6 (push_bit (16 * (8 - length groups)) (word_of_int (foldl (\<lambda>acc g. 65536 * acc + g) 0 groups))) n"

definition ipv4_str :: "32 word \<Rightarrow> string" where
  "ipv4_str a = join ''.'' (map int_str [uint a div 16777216, uint a div 65536 mod 256, uint a div 256 mod 256, uint a mod 256])"

text \<open>\<open>is_private\<close> and \<open>is_loopback\<close>\<close>

definition v4_private :: "ip_network list" where
  "v4_private = [net4 0 0 0 0 8, net4 10 0 0 0 8, net4 127 0 0 0 8, net4 169 254 0 0 16, net4 172 16 0 0 12, net4 192 0 0 0 24, net4 192 0 0 170 31,
     net4 192 0 2 0 24, net4 192 168 0 0 16, net4 198 18 0 0 15, net4 198 51 100 0 24, net4 203 0 113 0 24, net4 240 0 0 0 4, net4 255 255 255 255 32]"

definition v4_private_exceptions :: "ip_network list" where
  "v4_private_exceptions = [net4 192 0 0 9 32, net4 192 0 0 10 32]"

definition v6_private :: "ip_network list" where
  "v6_private = [net6 [0, 0, 0, 0, 0, 0, 0, 1] 128, net6 [] 128, net6 [0, 0, 0, 0, 0, 0xffff] 96, net6 [0x64, 0xff9b, 1] 48, net6 [0x100] 64, net6 [0x2001] 23,
     net6 [0x2001, 0xdb8] 32, net6 [0x2002] 16, net6 [0xfc00] 7, net6 [0xfe80] 10]"

definition v6_private_exceptions :: "ip_network list" where
  "v6_private_exceptions = [net6 [0x2001, 1, 0, 0, 0, 0, 0, 1] 128, net6 [0x2001, 1, 0, 0, 0, 0, 0, 2] 128, net6 [0x2001, 3] 32, net6 [0x2001, 4, 0x112] 48,
     net6 [0x2001, 0x20] 28, net6 [0x2001, 0x30] 28]"

definition in_some :: "ip_network list \<Rightarrow> ip_address \<Rightarrow> bool" where
  "in_some nets ip = list_ex (in_network ip) nets"

definition v4_is_private :: "32 word \<Rightarrow> bool" where
  "v4_is_private a = (in_some v4_private (IPv4 a) \<and> \<not> in_some v4_private_exceptions (IPv4 a))"

definition ipv4_mapped :: "128 word \<Rightarrow> 32 word option" where
  "ipv4_mapped a = (if drop_bit 32 a = 0xffff then Some (ucast a) else None)"

fun is_private :: "ip_address \<Rightarrow> bool" where
  "is_private (IPv4 a) = v4_is_private a"
| "is_private (IPv6 a sc) =
     (case ipv4_mapped a of
        Some b \<Rightarrow> v4_is_private b
      | None \<Rightarrow> in_some v6_private (IPv6 a sc) \<and> \<not> in_some v6_private_exceptions (IPv6 a sc))"

fun is_loopback :: "ip_address \<Rightarrow> bool" where
  "is_loopback (IPv4 a) = in_network (IPv4 a) (net4 127 0 0 0 8)"
| "is_loopback (IPv6 a _) = (a = 1)"

subsection \<open>URLs\<close>

definition scheme_char :: "char \<Rightarrow> bool" where
  "scheme_char c = (is_digit c \<or> (65 \<le> code c \<and> code c \<le> 90) \<or> (97 \<le> code c \<and> code c \<le> 122) \<or> c = CHR ''+'' \<or> c = CHR ''-'' \<or> c = CHR ''.'')"

definition ascii_letter :: "char \<Rightarrow> bool" where
  "ascii_letter c = ((65 \<le> code c \<and> code c \<le> 90) \<or> (97 \<le> code c \<and> code c \<le> 122))"

definition url_clean :: "string \<Rightarrow> string" where
  "url_clean url = filter (\<lambda>c. code c \<notin> {9, 10, 13}) (lstrip_by (\<lambda>c. code c \<le> 32) url)"

definition split_scheme :: "string \<Rightarrow> string \<times> string" where
  "split_scheme url =
     (if CHR '':'' \<in> set url \<and> before CHR '':'' url \<noteq> [] \<and> ascii_letter (hd url) \<and> list_all scheme_char (before CHR '':'' url)
      then (lower (before CHR '':'' url), after CHR '':'' url) else ([], url))"

definition netloc_of :: "string \<Rightarrow> string" where
  "netloc_of rest = (if starts_with rest ''//'' then takeWhile (\<lambda>c. c \<notin> {CHR ''/'', CHR ''?'', CHR ''#''}) (drop 2 rest) else [])"

text \<open>\<open>\Av[a-fA-F0-9]+\..+\Z\<close>, where the dot stands for anything but a newline.\<close>

definition ip_future :: "string \<Rightarrow> bool" where
  "ip_future s =
     (let v = before CHR ''.'' (tl s); r = after CHR ''.'' (tl s) in
      CHR ''.'' \<in> set (tl s) \<and> v \<noteq> [] \<and> list_all (\<lambda>c. hex_digit_val c \<noteq> None) v \<and> r \<noteq> [] \<and> list_all (\<lambda>c. code c \<noteq> 10) r)"

definition check_bracketed_host :: "string \<Rightarrow> unit result" where
  "check_bracketed_host host =
     (if starts_with host ''v'' then (if ip_future host then Inr () else Inl (ValueError ''IPvFuture address is invalid''))
      else
        rbind (ip_of_str host) (\<lambda>ip.
          case ip of IPv4 _ \<Rightarrow> Inl (ValueError ''An IPv4 address cannot be in brackets'') | IPv6 _ _ \<Rightarrow> Inr ()))"

definition check_netloc :: "string \<Rightarrow> unit result" where
  "check_netloc netloc =
     (if (CHR ''['' \<in> set netloc) \<noteq> (CHR '']'' \<in> set netloc) then Inl (ValueError ''Invalid IPv6 URL'')
      else if CHR ''['' \<in> set netloc then check_bracketed_host (before CHR '']'' (after CHR ''['' netloc))
      else Inr ())"

text \<open>\<open>urlparse(url)\<close>: the scheme and the network location.\<close>

definition urlparse :: "string \<Rightarrow> (string \<times> string) result" where
  "urlparse url =
     (case split_scheme (url_clean url) of
        (scheme, rest) \<Rightarrow> rbind (check_netloc (netloc_of rest)) (\<lambda>_. Inr (scheme, netloc_of rest)))"

text \<open>\<open>parsed.hostname\<close>\<close>

definition url_hostname :: "string \<Rightarrow> string option" where
  "url_hostname netloc =
     (let hostinfo = after_last CHR ''@'' netloc;
          host = (if CHR ''['' \<in> set hostinfo then before CHR '']'' (after CHR ''['' hostinfo) else before CHR '':'' hostinfo)
      in if host = [] then None
         else Some (lower (before CHR ''%'' host) @ (if CHR ''%'' \<in> set host then CHR ''%'' # after CHR ''%'' host else [])))"

subsection \<open>Facts on networks\<close>

text \<open>Membership is membership in an interval.\<close>

lemma drop_bit_word_mono: "a \<le> b \<Longrightarrow> drop_bit k a \<le> drop_bit k (b :: 'a::len word)"
  by (simp only: word_le_nat_alt unat_drop_bit_eq) (simp add: drop_bit_eq_div div_le_mono)

lemma drop_bit_word_mask: "drop_bit k (mask k :: 'a::len word) = 0"
  by (rule bit_word_eqI) (simp add: bit_drop_bit_eq bit_mask_iff)

lemma push_drop_bit: "push_bit k (drop_bit k a) = a AND NOT (mask k)" for a :: "'a::len word"
  by (rule bit_word_eqI) (auto simp: bit_push_bit_iff bit_drop_bit_eq bit_and_iff bit_not_iff bit_mask_iff)

lemma masked_range:
  fixes a base :: "'a::len word"
  assumes "base AND mask k = 0"
  shows "a AND NOT (mask k) = base \<longleftrightarrow> base \<le> a \<and> a \<le> base OR mask k"
proof
  assume b: "a AND NOT (mask k) = base"
  have "base OR mask k = a OR mask k"
    unfolding b [symmetric] by (rule bit_word_eqI) (auto simp: bit_or_iff bit_and_iff bit_not_iff)
  then show "base \<le> a \<and> a \<le> base OR mask k" using word_and_le2 [of a "NOT (mask k)"] b le_word_or2 [of a "mask k"] by simp
next
  assume le: "base \<le> a \<and> a \<le> base OR mask k"
  have "drop_bit k base \<le> drop_bit k a" "drop_bit k a \<le> drop_bit k base"
    using le drop_bit_word_mono [of base a k] drop_bit_word_mono [of a "base OR mask k" k] by (simp_all add: drop_bit_or drop_bit_word_mask)
  then have "a AND NOT (mask k) = base AND NOT (mask k)" by (simp flip: push_drop_bit)
  also have "\<dots> = base"
  proof (rule bit_word_eqI)
    fix n assume "n < LENGTH('a)"
    have "\<not> bit (base AND mask k) n" using assms by simp
    then show "bit (base AND NOT (mask k)) n = bit base n" using \<open>n < LENGTH('a)\<close> by (auto simp: bit_and_iff bit_not_iff)
  qed
  finally show "a AND NOT (mask k) = base" .
qed
lemma in_net4_range:
  assumes "base AND mask (32 - n) = 0"
  shows "in_network (IPv4 a) (Net4 base n) \<longleftrightarrow> base \<le> a \<and> a \<le> base OR mask (32 - n)"
  by (simp add: masked_range [OF assms])

text \<open>The address of version 6 that stands for an address of version 4.\<close>

definition mapped :: "32 word \<Rightarrow> 128 word" where
  "mapped a = push_bit 32 0xffff OR ucast a"

lemma mapped_of_mapped: "ipv4_mapped (mapped a) = Some a"
proof -
  have "drop_bit 32 (mapped a) = 0xffff"
    unfolding mapped_def by (rule bit_word_eqI) (auto simp: bit_simps dest: bit_imp_le_length)
  moreover have u: "ucast (ucast a :: 128 word) = a" by (rule bit_word_eqI) (auto simp: bit_simps)
  have z: "ucast (push_bit 32 0xffff :: 128 word) = (0 :: 32 word)" by code_simp
  have "ucast (mapped a) = a" unfolding mapped_def unsigned_or_eq u z by simp
  ultimately show ?thesis by (simp add: ipv4_mapped_def)
qed

lemma demo_ip:
  "ip_of_str ''10.0.0.1'' = Inr (IPv4 (ip4 10 0 0 1))" "ipv4_of_str ''10.0.0.01'' = None" "ipv4_of_str ''10.0.0.256'' = None"
  "ip_of_str ''fe80::1%eth0'' = Inr (IPv6 (0xfe80 * 2 ^ 112 + 1) (Some ''eth0''))"
  "ip_of_str ''::ffff:169.254.169.254'' = Inr (IPv6 (mapped (ip4 169 254 169 254)) None)"
  "ip_of_str ''::'' = Inr (IPv6 0 None)" "ipv6_of_str ''1::2::3'' = None" "ipv6_of_str '':1:2:3:4:5:6:7'' = None"
  by code_simp+

lemma demo_url:
  "rbind (urlparse ''HTTPS://user:pw@Example.COM:8443/x?y=1'') (\<lambda>(s, n). Inr (s, url_hostname n)) = Inr (''https'', Some ''example.com'')"
  "rbind (urlparse ''https://[::FFFF:10.0.0.1]/lookup'') (\<lambda>(s, n). Inr (s, url_hostname n)) = Inr (''https'', Some ''::ffff:10.0.0.1'')"
  by code_simp+

end
