(* ===== verification/M4_Network.thy ===== *)
theory M4_Network
  imports M4_Providers Py_Net
begin

unbundle bit_operations_syntax

section \<open>M4: providers that look at addresses\<close>

text \<open>
  \<open>M4/app/security/ssrf_guard.py\<close>, \<open>M4/app/providers/http_provider.py\<close> and \<open>M4/app/providers/geoip_provider.py\<close>. The resolver is an argument that
  may answer differently each time it is asked, and the reply of the remote service another. \<open>http_enrich\<close> returns the addresses
  of the requests that were sent beside the output.
\<close>

subsection \<open>The guard\<close>

definition BLOCKED_NETWORKS :: "ip_network list" where
  "BLOCKED_NETWORKS =
     [net4 0 0 0 0 8, net4 127 0 0 0 8, net4 10 0 0 0 8, net4 172 16 0 0 12, net4 192 168 0 0 16, net4 169 254 0 0 16, net4 100 64 0 0 10, net4 192 0 0 0 24,
      net4 192 0 2 0 24, net4 198 18 0 0 15, net4 198 51 100 0 24, net4 203 0 113 0 24, net4 224 0 0 0 4, net4 240 0 0 0 4, net4 255 255 255 255 32,
      net6 [] 128, net6 [0, 0, 0, 0, 0, 0, 0, 1] 128, net6 [0xfc00] 7, net6 [0xfe80] 10, net6 [0xff00] 8]"

definition BLOCKED_HOSTNAMES :: "string list" where
  "BLOCKED_HOSTNAMES = [''localhost'', ''metadata.google.internal'', ''instance-data'']"

record ssrf_guard =
  sg_allowed_domains :: "string list"
  sg_allow_http :: bool

definition SSRFGuard :: "string list \<Rightarrow> bool \<Rightarrow> ssrf_guard" where
  "SSRFGuard allowed_domains allow_http = \<lparr> sg_allowed_domains = map lower allowed_domains, sg_allow_http = allow_http \<rparr>"

definition is_ip_blocked :: "ip_address \<Rightarrow> bool" where
  "is_ip_blocked ip = in_some BLOCKED_NETWORKS ip"

abbreviation ssrf_violation :: "string \<Rightarrow> exn" where
  "ssrf_violation \<equiv> OtherError ''SSRFViolationError''"

type_synonym resolver = "string \<Rightarrow> string list result"

text \<open>The text of an address is part of messages only.\<close>

definition ip_text :: "ip_address \<Rightarrow> string \<Rightarrow> string" where
  "ip_text ip s = (case ip of IPv4 a \<Rightarrow> ipv4_str a | IPv6 _ _ \<Rightarrow> s)"

fun check_resolved :: "string \<Rightarrow> string list \<Rightarrow> unit result" where
  "check_resolved hostname [] = Inr ()"
| "check_resolved hostname (ip_str # rest) =
     rbind (ip_of_str ip_str) (\<lambda>ip.
       if is_ip_blocked ip then
         Inl (ssrf_violation (''Resolved IP '' @ ip_text ip ip_str @ '' for host '' @ quoted hostname @ '' is in a blocked/private range''))
       else check_resolved hostname rest)"

definition check_addresses :: "resolver \<Rightarrow> string \<Rightarrow> string \<Rightarrow> unit result" where
  "check_addresses dns hostname hostname_lower =
     (case ip_of_str hostname_lower of
        Inr direct_ip \<Rightarrow>
          if is_ip_blocked direct_ip then Inl (ssrf_violation (''Target IP '' @ ip_text direct_ip hostname_lower @ '' is in a blocked/private range'')) else Inr ()
      | Inl _ \<Rightarrow>
          (case dns hostname_lower of
             Inr addrs \<Rightarrow> check_resolved hostname addrs
           | Inl e \<Rightarrow>
               if exn_name e = ''gaierror'' then
                 Inl (ssrf_violation (''DNS resolution failed for hostname '' @ quoted hostname @ '': '' @ exn_str e))
               else Inl e))"

definition domain_allowed :: "ssrf_guard \<Rightarrow> string \<Rightarrow> bool" where
  "domain_allowed g host =
     (sg_allowed_domains g = [] \<or> list_ex (\<lambda>allowed. host = allowed \<or> ends_with host (''.'' @ allowed)) (sg_allowed_domains g))"

definition host_blocked :: "string \<Rightarrow> bool" where
  "host_blocked host = (host \<in> set BLOCKED_HOSTNAMES \<or> ends_with host ''.internal'')"

definition validate_url :: "resolver \<Rightarrow> ssrf_guard \<Rightarrow> string \<Rightarrow> string result" where
  "validate_url dns g url =
     (if url = [] \<or> strip url = [] then Inl (ssrf_violation ''URL cannot be empty'')
      else
        rbind (urlparse url) (\<lambda>(parsed_scheme, netloc).
          let scheme = lower parsed_scheme in
          if scheme \<noteq> ''http'' \<and> scheme \<noteq> ''https'' then Inl (ssrf_violation (''Unsupported URL scheme: '' @ scheme))
          else if scheme = ''http'' \<and> \<not> sg_allow_http g then Inl (ssrf_violation ''Insecure HTTP scheme is disallowed; HTTPS required'')
          else
            case url_hostname netloc of
              None \<Rightarrow> Inl (ssrf_violation ''URL is missing a valid hostname'')
            | Some hostname \<Rightarrow>
                let hostname_lower = strip (lower hostname) in
                if host_blocked hostname_lower then Inl (ssrf_violation (''Target hostname is blocked by SSRF policy: '' @ hostname))
                else if \<not> domain_allowed g hostname_lower then
                  Inl (ssrf_violation (''Target hostname '' @ quoted hostname @ '' is not in allowed domain list''))
                else rbind (check_addresses dns hostname hostname_lower) (\<lambda>_. Inr url)))"

subsection \<open>The HTTP provider\<close>

datatype provider_reply = Reply int int "pyval result" | ReplyTimeout string | ReplyUnavailable string | ReplyRaised exn

record http_provider_config =
  hv_id :: string
  hv_version :: string
  hv_namespace :: string
  hv_priority :: int
  hv_timeout :: string
  hv_tenant_sensitive :: bool
  hv_base_url :: string
  hv_guard :: ssrf_guard

record http_provider_io =
  hi_resolve :: "nat \<Rightarrow> resolver"
  hi_reply :: provider_reply

definition MAX_RESPONSE_BYTES :: int where
  "MAX_RESPONSE_BYTES = 1024 * 1024"

definition http_can_enrich :: "canonical_event_rec \<Rightarrow> enrichment_context \<Rightarrow> bool" where
  "http_can_enrich event ctx = truthy (ep_ip (c_source event))"

text \<open>A violation of the policy is an output; another exception of \<open>validate_url\<close> is not caught.\<close>

definition guarded :: "string \<Rightarrow> string result \<Rightarrow> (string \<Rightarrow> string list \<times> provider_output result) \<Rightarrow> string list \<times> provider_output result" where
  "guarded what r body =
     (case r of
        Inr url \<Rightarrow> body url
      | Inl e \<Rightarrow>
          if exn_name e = ''SSRFViolationError'' then
            ([], ProviderOutput FAILED [] (FFin 1) None (Some (''SSRF validation rejected '' @ what @ '': '' @ exn_str e)) (Some ''SSRFViolationError''))
          else ([], Inl e))"

definition response_error :: "string \<Rightarrow> 'a result \<Rightarrow> 'a result" where
  "response_error pid r =
     (case r of
        Inl (ValueError m) \<Rightarrow> Inl (OtherError ''ProviderResponseError'' (''Invalid JSON returned by provider '' @ quoted pid @ '': '' @ m))
      | _ \<Rightarrow> r)"

definition http_output :: "http_provider_config \<Rightarrow> pyval \<Rightarrow> provider_output result" where
  "http_output hv body =
     (case body of
        PDict json_data \<Rightarrow>
          rbind (py_float (pget_default json_data ''confidence'' (PFloat (lit (85 / 100))))) (\<lambda>confidence.
            case pget_default json_data ''data'' (PDict json_data) of
              PDict data \<Rightarrow> ProviderOutput SUCCESS data confidence (Some (''http://'' @ hv_id hv)) None None
            | _ \<Rightarrow> Inl (ValueError ''Input should be a valid dictionary''))
      | _ \<Rightarrow> Inl (OtherError ''ProviderResponseError'' ''Remote HTTP response body is not a JSON object''))"

definition http_reply :: "http_provider_config \<Rightarrow> provider_reply \<Rightarrow> provider_output result" where
  "http_reply hv reply =
     (case reply of
        Reply len status json \<Rightarrow>
          if MAX_RESPONSE_BYTES < len then
            Inl (OtherError ''ProviderResponseError'' (''Provider response size '' @ int_str len @ '' exceeded maximum allowed limit '' @ int_str MAX_RESPONSE_BYTES))
          else if status = 404 then
            ProviderOutput NOT_FOUND [] (FFin 1) None (Some (''Entity not found in remote provider '' @ hv_id hv)) None
          else if status \<noteq> 200 then
            ProviderOutput FAILED [] (FFin 1) None (Some (''Remote HTTP provider returned status code '' @ int_str status)) (Some ''HttpError'')
          else response_error (hv_id hv) (rbind json (http_output hv))
      | ReplyTimeout m \<Rightarrow>
          Inl (OtherError ''ProviderTimeoutError'' (''HTTP provider '' @ quoted (hv_id hv) @ '' timed out after '' @ hv_timeout hv @ ''s: '' @ m))
      | ReplyUnavailable m \<Rightarrow> Inl (OtherError ''ProviderUnavailableError'' (''Failed connecting to provider '' @ quoted (hv_id hv) @ '': '' @ m))
      | ReplyRaised e \<Rightarrow> response_error (hv_id hv) (Inl e))"

definition http_enrich :: "http_provider_config \<Rightarrow> http_provider_io \<Rightarrow> string list \<times> provider_output result" where
  "http_enrich hv io =
     guarded ''URL'' (validate_url (hi_resolve io 0) (hv_guard hv) (hv_base_url hv)) (\<lambda>validated_url.
       let endpoint_url = rstrip_by (\<lambda>c. c = CHR ''/'') validated_url @ ''/lookup'' in
       guarded ''endpoint URL'' (validate_url (hi_resolve io 1) (hv_guard hv) endpoint_url) (\<lambda>_.
         ([endpoint_url], http_reply hv (hi_reply io))))"

definition http_provider :: "http_provider_config \<Rightarrow> http_provider_io \<Rightarrow> provider" where
  "http_provider hv io = \<lparr> p_id = hv_id hv, p_version = hv_version hv, p_namespace = hv_namespace hv, p_priority = hv_priority hv,
     p_tenant_sensitive = hv_tenant_sensitive hv, p_can_enrich = http_can_enrich, p_enrich = (\<lambda>ev _. (ev, snd (http_enrich hv io))) \<rparr>"

subsection \<open>The GeoIP provider\<close>

definition geo_record :: "string \<Rightarrow> string \<Rightarrow> string \<Rightarrow> string \<Rightarrow> rat \<Rightarrow> rat \<Rightarrow> int \<Rightarrow> string \<Rightarrow> pydict" where
  "geo_record cc country region city lat lon number org =
     [(''country_code'', PStr cc), (''country_name'', PStr country), (''region'', PStr region), (''city'', PStr city), (''latitude'', PFloat (lit lat)),
      (''longitude'', PFloat (lit lon)), (''asn'', PDict [(''number'', PInt number), (''organization'', PStr org)])]"

definition GEOIP_ASN_DATABASE :: "(ip_network \<times> pydict) list" where
  "GEOIP_ASN_DATABASE =
     [(net4 8 8 8 0 24, geo_record ''US'' ''United States'' ''CA'' ''Mountain View'' (374223 / 10000) (- 1220848 / 10000) 15169 ''Google LLC''),
      (net4 1 1 1 0 24, geo_record ''AU'' ''Australia'' ''QLD'' ''South Brisbane'' (- 274766 / 10000) (1530166 / 10000) 13335 ''Cloudflare Inc''),
      (net4 93 184 216 0 24, geo_record ''US'' ''United States'' ''MA'' ''Norwell'' (421508 / 10000) (- 707928 / 10000) 15133 ''Edgecast Inc''),
      (net4 185 199 108 0 22, geo_record ''US'' ''United States'' ''CA'' ''San Francisco'' (377749 / 10000) (- 1224194 / 10000) 36459 ''GitHub Inc''),
      (net4 198 51 100 0 24, geo_record ''CH'' ''Switzerland'' ''GE'' ''Geneva'' (462044 / 10000) (61432 / 10000) 64496 ''Example Autonomous System'')]"

definition private_record :: pydict where
  "private_record = geo_record ''PRIVATE'' ''Private Network'' ''LAN'' ''Internal'' 0 0 0 ''Private Network''"

definition net_text :: "ip_network \<Rightarrow> string" where
  "net_text net = (case net of Net4 base n \<Rightarrow> ipv4_str base @ ''/'' @ nat_str n | Net6 _ _ \<Rightarrow> [])"

definition geo_can_enrich :: "canonical_event_rec \<Rightarrow> enrichment_context \<Rightarrow> bool" where
  "geo_can_enrich event ctx = (truthy (ep_ip (c_source event)) \<or> truthy (ep_ip (c_destination event)))"

definition geo_address :: "canonical_event_rec \<Rightarrow> string option" where
  "geo_address event =
     (if truthy (ep_ip (c_source event)) then ep_ip (c_source event)
      else if truthy (ep_ip (c_destination event)) then ep_ip (c_destination event) else None)"

definition geo_lookup :: "(ip_network \<times> pydict) list \<Rightarrow> string \<Rightarrow> provider_output result" where
  "geo_lookup db ip_str =
     (case ip_of_str ip_str of
        Inl _ \<Rightarrow> ProviderOutput FAILED [] (FFin 1) None (Some (''Invalid IP address format: '' @ ip_str)) (Some ''InvalidIPAddress'')
      | Inr ip \<Rightarrow>
          if is_private ip \<or> is_loopback ip then ProviderOutput SUCCESS private_record (FFin 1) (Some ''iana://rfc1918'') None None
          else
            case find (\<lambda>(net, _). in_network ip net) db of
              Some (net, data) \<Rightarrow> ProviderOutput SUCCESS data (lit (92 / 100)) (Some (''geoip-db://v1.0.0/'' @ net_text net)) None None
            | None \<Rightarrow> ProviderOutput NOT_FOUND [] (FFin 0) None (Some (''IP '' @ ip_str @ '' not found in GeoIP database'')) None)"

definition geo_enrich :: "(ip_network \<times> pydict) list \<Rightarrow> canonical_event_rec \<Rightarrow> provider_output result" where
  "geo_enrich db event =
     (case geo_address event of
        None \<Rightarrow> ProviderOutput SKIPPED [] (FFin 1) None (Some ''No IP available for GeoIP lookup'') None
      | Some ip_str \<Rightarrow> geo_lookup db ip_str)"

definition geo_provider :: "(ip_network \<times> pydict) list \<Rightarrow> provider" where
  "geo_provider db = \<lparr> p_id = ''geoip-local-db'', p_version = ''1.0.0'', p_namespace = ''geo'', p_priority = 30, p_tenant_sensitive = False,
     p_can_enrich = geo_can_enrich, p_enrich = (\<lambda>ev _. (ev, geo_enrich db ev)) \<rparr>"

subsection \<open>The providers satisfy the contract\<close>

lemma http_output_range: "http_output hv body = Inr out \<Longrightarrow> 0 \<le> po_confidence out \<and> po_confidence out \<le> 1"
proof (cases body)
  case (PDict d)
  assume "http_output hv body = Inr out"
  then show ?thesis using PDict by (cases "pget_default d ''data'' (PDict d)") (auto simp: http_output_def dest: ProviderOutput_range)
qed (simp_all add: http_output_def)

lemma response_error_Inr [simp]: "response_error pid r = Inr out \<longleftrightarrow> r = Inr out"
  by (auto simp: response_error_def split: sum.splits exn.splits)

lemma http_reply_range: "http_reply hv reply = Inr out \<Longrightarrow> 0 \<le> po_confidence out \<and> po_confidence out \<le> 1"
  by (auto simp: http_reply_def dest: ProviderOutput_range http_output_range split: provider_reply.splits if_splits)

interpretation http: enrichment_provider "http_provider hv io" for hv io
  by unfold_locales
     (auto simp: http_provider_def http_enrich_def guarded_def Let_def dest: ProviderOutput_range http_reply_range split: sum.splits if_splits)

interpretation geo: enrichment_provider "geo_provider db" for db
  by unfold_locales
     (auto simp: geo_provider_def geo_enrich_def geo_lookup_def dest: ProviderOutput_range split: option.splits sum.splits if_splits)

subsection \<open>What the guard lets through\<close>

lemma check_resolved_ok:
  "check_resolved host addrs = Inr () \<Longrightarrow> a \<in> set addrs \<Longrightarrow> \<exists>ip. ip_of_str a = Inr ip \<and> \<not> is_ip_blocked ip"
  by (induction addrs) (auto split: if_splits)

text \<open>The addresses that a host name stands for at the time of the check.\<close>

definition host_addresses :: "resolver \<Rightarrow> string \<Rightarrow> string list" where
  "host_addresses dns host =
     (case ip_of_str host of Inr _ \<Rightarrow> [host] | Inl _ \<Rightarrow> (case dns host of Inr addrs \<Rightarrow> addrs | Inl _ \<Rightarrow> []))"

lemma check_addresses_ok:
  assumes "check_addresses dns hostname host = Inr ()" "a \<in> set (host_addresses dns host)"
  shows "\<exists>ip. ip_of_str a = Inr ip \<and> \<not> is_ip_blocked ip"
  using assms by (auto simp: check_addresses_def host_addresses_def dest: check_resolved_ok split: sum.splits if_splits)

lemma validate_url_ok:
  assumes "validate_url dns g url = Inr u"
  shows "u = url \<and> (\<exists>scheme netloc hostname. urlparse url = Inr (scheme, netloc) \<and> url_hostname netloc = Some hostname \<and>
    (lower scheme = ''https'' \<or> lower scheme = ''http'' \<and> sg_allow_http g) \<and> \<not> host_blocked (strip (lower hostname)) \<and>
    domain_allowed g (strip (lower hostname)) \<and> check_addresses dns hostname (strip (lower hostname)) = Inr ())"
  using assms by (auto simp: validate_url_def Let_def split: if_splits option.splits)

text \<open>Every blocked network of version 4 is an interval of addresses.\<close>

definition blocked_ranges :: "(32 word \<times> 32 word) list" where
  "blocked_ranges =
     [(ip4 0 0 0 0, ip4 0 255 255 255), (ip4 127 0 0 0, ip4 127 255 255 255), (ip4 10 0 0 0, ip4 10 255 255 255), (ip4 172 16 0 0, ip4 172 31 255 255),
      (ip4 192 168 0 0, ip4 192 168 255 255), (ip4 169 254 0 0, ip4 169 254 255 255), (ip4 100 64 0 0, ip4 100 127 255 255), (ip4 192 0 0 0, ip4 192 0 0 255),
      (ip4 192 0 2 0, ip4 192 0 2 255), (ip4 198 18 0 0, ip4 198 19 255 255), (ip4 198 51 100 0, ip4 198 51 100 255), (ip4 203 0 113 0, ip4 203 0 113 255),
      (ip4 224 0 0 0, ip4 239 255 255 255), (ip4 240 0 0 0, ip4 255 255 255 255), (ip4 255 255 255 255, ip4 255 255 255 255)]"

definition net_range :: "ip_network \<Rightarrow> (32 word \<times> 32 word) option" where
  "net_range net = (case net of Net4 base n \<Rightarrow> if base AND mask (32 - n) = 0 then Some (base, base OR mask (32 - n)) else None | Net6 _ _ \<Rightarrow> None)"

lemma net_range_iff: "net_range net = Some (lo, hi) \<Longrightarrow> in_network (IPv4 a) net \<longleftrightarrow> lo \<le> a \<and> a \<le> hi"
  using in_net4_range by (cases net) (auto simp: net_range_def split: if_splits)

lemma blocked_ranges_nets: "map net_range (take 15 BLOCKED_NETWORKS) = map Some blocked_ranges"
  by code_simp

lemma blocked_nets6: "list_all (\<lambda>net. \<not> in_network (IPv4 a) net) (drop 15 BLOCKED_NETWORKS)"
  by (simp add: BLOCKED_NETWORKS_def net6_def)

lemma blocked_iff_range: "is_ip_blocked (IPv4 a) \<longleftrightarrow> list_ex (\<lambda>(lo, hi). lo \<le> a \<and> a \<le> hi) blocked_ranges"
proof -
  have step: "list_ex (in_network (IPv4 a)) nets \<longleftrightarrow> list_ex (\<lambda>(lo, hi). lo \<le> a \<and> a \<le> hi) rs"
    if "map net_range nets = map Some rs" for nets rs
    using that
  proof (induction nets arbitrary: rs)
    case (Cons net nets)
    then obtain lo hi rs' where "rs = (lo, hi) # rs'" "net_range net = Some (lo, hi)" "map net_range nets = map Some rs'" by (cases rs) auto
    then show ?case using Cons.IH [of rs'] net_range_iff [of net lo hi a] by simp
  qed simp
  have "is_ip_blocked (IPv4 a) \<longleftrightarrow> list_ex (in_network (IPv4 a)) (take 15 BLOCKED_NETWORKS @ drop 15 BLOCKED_NETWORKS)"
    by (simp add: is_ip_blocked_def in_some_def)
  also have "\<dots> \<longleftrightarrow> list_ex (in_network (IPv4 a)) (take 15 BLOCKED_NETWORKS)"
    using blocked_nets6 [of a] by (simp only: list_ex_append) (auto simp: list_ex_iff list_all_iff)
  finally show ?thesis using step [OF blocked_ranges_nets] by simp
qed

lemma guarded_sent: "u \<in> set (fst (guarded what r body)) \<Longrightarrow> \<exists>url. r = Inr url \<and> guarded what r body = body url"
  by (auto simp: guarded_def split: sum.splits if_splits)

lemma http_enrich_sent:
  assumes "u \<in> set (fst (http_enrich hv io))"
  shows "\<exists>v. validate_url (hi_resolve io 1) (hv_guard hv) u = Inr v \<and> fst (http_enrich hv io) = [u]"
proof -
  let ?e = "\<lambda>url. rstrip_by (\<lambda>c. c = CHR ''/'') url @ ''/lookup''"
  let ?second = "\<lambda>url. guarded ''endpoint URL'' (validate_url (hi_resolve io 1) (hv_guard hv) (?e url)) (\<lambda>_. ([?e url], http_reply hv (hi_reply io)))"
  from guarded_sent [OF assms [unfolded http_enrich_def]] obtain url where url: "http_enrich hv io = ?second url"
    unfolding http_enrich_def Let_def by blast
  with assms have "u \<in> set (fst (?second url))" by simp
  from guarded_sent [OF this] obtain v where v: "validate_url (hi_resolve io 1) (hv_guard hv) (?e url) = Inr v"
    "?second url = ([?e url], http_reply hv (hi_reply io))" by blast
  with url have "fst (http_enrich hv io) = [?e url]" by simp
  moreover from this assms have "u = ?e url" by simp
  ultimately show ?thesis using v(1) by blast
qed

text \<open>(C25) No request leaves the HTTP provider for a forbidden target: if it sends a request, then to exactly one URL, which uses HTTPS unless plain HTTP
  is allowed, names a host that is neither blocked nor outside of the allowed domains, and at the time of the check the host stands only for
  addresses that can be read and of which none of version 4 lies in a private, local or reserved interval.\<close>

theorem http_requests_guarded:
  assumes "u \<in> set (fst (http_enrich hv io))"
  shows "fst (http_enrich hv io) = [u] \<and>
    (\<exists>scheme netloc hostname. urlparse u = Inr (scheme, netloc) \<and> url_hostname netloc = Some hostname \<and>
       (lower scheme = ''https'' \<or> lower scheme = ''http'' \<and> sg_allow_http (hv_guard hv)) \<and>
       \<not> host_blocked (strip (lower hostname)) \<and> domain_allowed (hv_guard hv) (strip (lower hostname)) \<and>
       (\<forall>a \<in> set (host_addresses (hi_resolve io 1) (strip (lower hostname))). \<exists>ip. ip_of_str a = Inr ip \<and>
          (\<forall>w. ip = IPv4 w \<longrightarrow> \<not> list_ex (\<lambda>(lo, hi). lo \<le> w \<and> w \<le> hi) blocked_ranges)))"
proof -
  from http_enrich_sent [OF assms] obtain v where v: "validate_url (hi_resolve io 1) (hv_guard hv) u = Inr v" and f: "fst (http_enrich hv io) = [u]" by blast
  from validate_url_ok [OF v] obtain scheme netloc hostname where h: "urlparse u = Inr (scheme, netloc)" "url_hostname netloc = Some hostname"
    "lower scheme = ''https'' \<or> lower scheme = ''http'' \<and> sg_allow_http (hv_guard hv)" "\<not> host_blocked (strip (lower hostname))"
    "domain_allowed (hv_guard hv) (strip (lower hostname))" "check_addresses (hi_resolve io 1) hostname (strip (lower hostname)) = Inr ()" by blast
  have "\<exists>ip. ip_of_str a = Inr ip \<and> (\<forall>w. ip = IPv4 w \<longrightarrow> \<not> list_ex (\<lambda>(lo, hi). lo \<le> w \<and> w \<le> hi) blocked_ranges)"
    if "a \<in> set (host_addresses (hi_resolve io 1) (strip (lower hostname)))" for a
    using check_addresses_ok [OF h(6) that] blocked_iff_range by blast
  then show ?thesis using f h by blast
qed

subsection \<open>What the guard misses\<close>

lemma mapped_high_bits: "48 \<le> k \<Longrightarrow> mapped a AND NOT (mask k) = 0"
proof -
  assume k: "48 \<le> k"
  have "(0xffff :: 128 word) = mask 16" by code_simp
  then have "mapped a = push_bit 32 (mask 16) OR ucast a" unfolding mapped_def by (rule arg_cong)
  then show ?thesis using k by - (rule bit_word_eqI, simp add: bit_or_iff bit_and_iff bit_not_iff bit_push_bit_iff bit_mask_iff bit_ucast_iff, auto dest: bit_imp_le_length)
qed

lemma mapped_bit32: "bit (mapped a) 32"
  by (simp add: mapped_def bit_simps)

text \<open>An address of version 4 in the notation of version 6 is never blocked, whatever address it stands for.\<close>

lemma mapped_never_blocked: "\<not> is_ip_blocked (IPv6 (mapped a) sc)"
proof -
  have "mapped a \<noteq> 0" "mapped a \<noteq> 1" using mapped_bit32 [of a] by (auto simp: bit_1_iff)
  moreover have "(0xfc00 * 2 ^ 112 :: 128 word) \<noteq> 0" "(0xfe80 * 2 ^ 112 :: 128 word) \<noteq> 0" "(0xff00 * 2 ^ 112 :: 128 word) \<noteq> 0" by code_simp+
  ultimately show ?thesis
    by (simp add: is_ip_blocked_def in_some_def BLOCKED_NETWORKS_def net4_def net6_def mapped_high_bits push_bit_eq_mult)
qed

lemma metadata_reached:
  "validate_url (\<lambda>_. Inl (ValueError [])) (SSRFGuard [] False) ''https://[::ffff:169.254.169.254]/latest'' = Inr ''https://[::ffff:169.254.169.254]/latest''"
  by code_simp

text \<open>The entry of the database for 198.51.100.0/24 is never used: the documentation range counts as private.\<close>

lemma geo_entry_dead:
  assumes "ip_of_str s = Inr ip" "in_network ip (net4 198 51 100 0 24)"
  shows "geo_lookup db s = ProviderOutput SUCCESS private_record (FFin 1) (Some ''iana://rfc1918'') None None"
proof -
  obtain a where a: "ip = IPv4 a" using assms(2) by (cases ip) (auto simp: net4_def)
  have "\<not> in_some v4_private_exceptions (IPv4 a)"
  proof
    assume "in_some v4_private_exceptions (IPv4 a)"
    then have "a = ip4 192 0 0 9 \<or> a = ip4 192 0 0 10" by (simp add: in_some_def v4_private_exceptions_def net4_def)
    moreover have "\<not> in_network (IPv4 (ip4 192 0 0 9)) (net4 198 51 100 0 24)" "\<not> in_network (IPv4 (ip4 192 0 0 10)) (net4 198 51 100 0 24)" by code_simp+
    ultimately show False using assms(2) a by auto
  qed
  moreover have "in_some v4_private (IPv4 a)" using assms(2) a by (simp add: in_some_def v4_private_def)
  ultimately show ?thesis using assms(1) a by (simp add: geo_lookup_def v4_is_private_def)
qed

definition demo_http :: http_provider_config where
  "demo_http = \<lparr> hv_id = ''rep'', hv_version = ''1.0.0'', hv_namespace = ''external_api'', hv_priority = 80, hv_timeout = ''3.0'', hv_tenant_sensitive = True,
     hv_base_url = ''https://api.example.com/'', hv_guard = SSRFGuard [''example.com''] False \<rparr>"

definition demo_http_io :: http_provider_io where
  "demo_http_io = \<lparr> hi_resolve = (\<lambda>_ _. Inr [''93.184.216.34'']), hi_reply = Reply 100 200 (Inr (PDict [(''score'', PInt 1)])) \<rparr>"

theorem http_requests_guarded_witness:
  "fst (http_enrich demo_http demo_http_io) = [''https://api.example.com/lookup'']"
proof -
  have "validate_url (hi_resolve demo_http_io 0) (hv_guard demo_http) (hv_base_url demo_http) = Inr ''https://api.example.com/''"
    "validate_url (hi_resolve demo_http_io 1) (hv_guard demo_http) ''https://api.example.com/lookup'' = Inr ''https://api.example.com/lookup''"
    "rstrip_by (\<lambda>c. c = CHR ''/'') ''https://api.example.com/'' = ''https://api.example.com''" by code_simp+
  then have "''https://api.example.com/lookup'' \<in> set (fst (http_enrich demo_http demo_http_io))" by (simp add: http_enrich_def guarded_def)
  from http_requests_guarded [OF this] show ?thesis by blast
qed

end
