(* ===== verification/M4_Api.thy ===== *)
theory M4_Api
  imports M4_Engine M4_Network Py_Re Py_Json
begin

section \<open>M4: the service\<close>

text \<open>
  \<open>M4/app/api/\<close> (keys and roles, the endpoints, the singletons and the probes), \<open>M4/app/security/sanitizers.py\<close> and the formatter of
  \<open>M4/app/observability/logging.py\<close>. An endpoint takes the value of the header \<open>X-API-Key\<close> and the validated body and returns the engine
  it leaves with its answer; an \<open>HTTPException\<close> is the answer with that code. Counters are left out.
\<close>

subsection \<open>Keys and roles\<close>

datatype m4_api_role = M4_EVENT_PROCESSING | M4_ANALYST_READ | M4_ADMIN

fun api_role_value :: "m4_api_role \<Rightarrow> string" where
  "api_role_value M4_EVENT_PROCESSING = ''event_processing''"
| "api_role_value M4_ANALYST_READ = ''analyst_read''"
| "api_role_value M4_ADMIN = ''admin''"

record authenticated_principal =
  ap_role :: m4_api_role
  ap_allowed_tenant_scope :: string

definition STATIC_KEY_ROLE_MAPPING :: "(string, m4_api_role \<times> string) dict" where
  "STATIC_KEY_ROLE_MAPPING =
     [(''m4-event-processor-key'', (M4_EVENT_PROCESSING, ''*'')), (''m4-analyst-key'', (M4_ANALYST_READ, ''*'')),
      (''m4-admin-key'', (M4_ADMIN, ''*'')), (''m4-tenant-alpha-key'', (M4_EVENT_PROCESSING, ''tenant_alpha''))]"

definition get_current_principal :: "string option \<Rightarrow> authenticated_principal result" where
  "get_current_principal api_key =
     (if \<not> truthy api_key then Inr \<lparr> ap_role = M4_ADMIN, ap_allowed_tenant_scope = ''*'' \<rparr>
      else case map_of STATIC_KEY_ROLE_MAPPING (the api_key) of
             Some (role, scope) \<Rightarrow> Inr \<lparr> ap_role = role, ap_allowed_tenant_scope = scope \<rparr>
           | None \<Rightarrow> Inl (HTTPException 401 ''Invalid API key credentials''))"

definition require_api_roles :: "m4_api_role list \<Rightarrow> string option \<Rightarrow> authenticated_principal result" where
  "require_api_roles allowed_roles api_key =
     rbind (get_current_principal api_key) (\<lambda>principal.
       if ap_role principal \<notin> set allowed_roles then
         Inl (HTTPException 403 (''Principal role '' @ quoted (api_role_value (ap_role principal)) @ '' is unauthorized for this operation''))
       else Inr principal)"

subsection \<open>The endpoints\<close>

definition enrich_target_tenant :: "enrichment_request \<Rightarrow> string" where
  "enrich_target_tenant req = (case rq_tenant_context req of Some t \<Rightarrow> tc_tenant_id t | None \<Rightarrow> tm_tenant_id (c_tenant (rq_event req)))"

definition check_scope :: "authenticated_principal \<Rightarrow> enrichment_request \<Rightarrow> unit result" where
  "check_scope who req =
     (if ap_allowed_tenant_scope who \<noteq> ''*'' \<and> enrich_target_tenant req \<noteq> ap_allowed_tenant_scope who then
        Inl (HTTPException 403 (''Principal tenant scope '' @ quoted (ap_allowed_tenant_scope who) @
          '' does not allow processing for tenant '' @ quoted (enrich_target_tenant req)))
      else Inr ())"

definition enrich_failure :: "exn \<Rightarrow> exn" where
  "enrich_failure e =
     (if exn_name e = ''InvalidEventError'' \<or> exn_name e = ''TenantScopeError'' then HTTPException 400 (exn_str e)
      else HTTPException 500 (''Internal enrichment engine error: '' @ exn_str e))"

definition enrich_event :: "m4_env \<Rightarrow> m4_engine \<Rightarrow> string option \<Rightarrow> enrichment_request \<Rightarrow> m4_engine \<times> enrichment_result result" where
  "enrich_event env eng api_key req =
     (case rbind (require_api_roles [M4_EVENT_PROCESSING, M4_ADMIN] api_key) (\<lambda>principal. check_scope principal req) of
        Inl e \<Rightarrow> (eng, Inl e)
      | Inr _ \<Rightarrow>
          (case process env eng req of
             (eng', Inr res) \<Rightarrow> (eng', Inr res)
           | (eng', Inl e) \<Rightarrow> (eng', Inl (enrich_failure e))))"

text \<open>The event of a request to verify is an event or, when it is not one, a dictionary.\<close>

datatype verify_event = VEvent canonical_event_rec | VDict pydict

record verify_request =
  vr_event :: verify_event
  vr_expected_digest :: "string option"
  vr_phase :: string

record verify_response =
  vs_valid :: bool
  vs_computed_digest :: string
  vs_phase :: string
  vs_verified_at :: string

fun verify_dict :: "verify_event \<Rightarrow> pydict" where
  "verify_dict (VEvent c) = event_dump c"
| "verify_dict (VDict d) = d"

definition recorded_digest :: "verify_event \<Rightarrow> string option" where
  "recorded_digest v =
     (case v of
        VEvent c \<Rightarrow> (case c_integrity c of None \<Rightarrow> None | Some i \<Rightarrow> if im_digest i = [] then None else Some (im_digest i))
      | VDict d \<Rightarrow> (case pget d ''integrity'' of PDict meta \<Rightarrow> map_option py_str (map_of meta ''digest'') | _ \<Rightarrow> None))"

definition verify_any :: "hash_fun \<Rightarrow> string \<Rightarrow> verify_event \<Rightarrow> string option \<Rightarrow> string \<Rightarrow> bool result" where
  "verify_any sha256 now v expected ph =
     (case (case expected of Some t \<Rightarrow> Some t | None \<Rightarrow> recorded_digest v) of
        None \<Rightarrow> Inr False
      | Some t \<Rightarrow> verify_integrity sha256 now (verify_dict v) (Some t) ph)"

definition verify_event_integrity :: "m4_env \<Rightarrow> string option \<Rightarrow> verify_request \<Rightarrow> verify_response result" where
  "verify_event_integrity env api_key req =
     rbind (require_api_roles [M4_EVENT_PROCESSING, M4_ANALYST_READ, M4_ADMIN] api_key) (\<lambda>_.
       case rbind (calculate_integrity (env_sha256 env) (env_now_iso env) (verify_dict (vr_event req)) (vr_phase req)) (\<lambda>computed.
            rbind (verify_any (env_sha256 env) (env_now_iso env) (vr_event req) (vr_expected_digest req) (vr_phase req)) (\<lambda>is_valid.
              Inr (computed, is_valid))) of
         Inl e \<Rightarrow> Inl (HTTPException 400 (''Failed calculating integrity digest: '' @ exn_str e))
       | Inr (computed, is_valid) \<Rightarrow>
           Inr \<lparr> vs_valid = is_valid, vs_computed_digest = im_digest computed, vs_phase = vr_phase req, vs_verified_at = env_now_iso env \<rparr>)"

text \<open>The metadata of a provider, without the time limit that no provider enforces.\<close>

record provider_metadata =
  md_provider_id :: string
  md_provider_version :: string
  md_target_namespace :: string
  md_priority :: int
  md_is_tenant_sensitive :: bool

definition provider_meta :: "provider \<Rightarrow> provider_metadata" where
  "provider_meta p = \<lparr> md_provider_id = p_id p, md_provider_version = p_version p, md_target_namespace = p_namespace p,
     md_priority = p_priority p, md_is_tenant_sensitive = p_tenant_sensitive p \<rparr>"

definition list_providers :: "provider_registry \<Rightarrow> provider_metadata list" where
  "list_providers reg = map (provider_meta \<circ> snd) reg"

definition list_providers_endpoint :: "m4_engine \<Rightarrow> string option \<Rightarrow> provider_metadata list result" where
  "list_providers_endpoint eng api_key =
     rbind (require_api_roles [M4_ANALYST_READ, M4_ADMIN] api_key) (\<lambda>_. Inr (list_providers (eng_registry eng)))"

definition get_active_configuration :: "m4_engine \<Rightarrow> string option \<Rightarrow> enrichment_config result" where
  "get_active_configuration eng api_key =
     rbind (require_api_roles [M4_ANALYST_READ, M4_ADMIN] api_key) (\<lambda>_. get_active (eng_configs eng))"

definition m4_readiness_check :: "m4_engine \<Rightarrow> pydict result" where
  "m4_readiness_check eng =
     rbind (get_active (eng_configs eng)) (\<lambda>active_cfg.
       Inr [(''status'', PStr ''ready''), (''module'', PStr ''M4''), (''providers_registered'', PInt (int (length (list_providers (eng_registry eng))))),
            (''active_configuration_version'', PStr (cfg_version active_cfg))])"

text \<open>The engine of the service.\<close>

definition m4_deployed :: m4_engine where
  "m4_deployed =
     \<lparr> eng_registry = register_provider (threat_provider INDICATOR_DATABASE) (register_provider (geo_provider GEOIP_ASN_DATABASE)
         (register_provider (asset_provider DEFAULT_ASSET_DATABASE) [])),
       eng_configs = new_manager, eng_cache = Some \<lparr> lru_max_size = 10000, lru_entries = [] \<rparr> \<rparr>"

subsection \<open>Redaction\<close>

definition SENSITIVE_KEYS :: "string list" where
  "SENSITIVE_KEYS = [''password'', ''secret'', ''token'', ''api_key'', ''apikey'', ''authorization'', ''auth_token'', ''access_token'', ''bearer'', ''private_key'']"

text \<open>A literal under \<open>IGNORECASE\<close>.\<close>

definition re_word :: "string \<Rightarrow> re" where
  "re_word w = re_seq (map (\<lambda>c. RSet (\<lambda>d. lower [d] = [c])) w)"

definition token_char :: "char \<Rightarrow> bool" where
  "token_char c = (ascii_alnum c \<or> among ''_-.'' c)"

definition BEARER_REGEX :: re where
  "BEARER_REGEX = re_seq [RGroup ''1'' (re_seq [re_word ''bearer'', re_plus is_space]), RGroup ''2'' (re_plus token_char)]"

definition API_KEY_REGEX :: re where
  "API_KEY_REGEX = re_seq [RGroup ''1'' (re_alts [re_word ''key'', re_word ''token'', re_word ''secret'', re_word ''password'', re_word ''pwd'']),
     re_lit ''='', RGroup ''2'' (re_plus (\<lambda>c. token_char c \<or> among ''!@#$%^&*'' c))]"

definition group1 :: "re_groups \<Rightarrow> string" where
  "group1 g = (case map_of g ''1'' of Some w \<Rightarrow> w | None \<Rightarrow> [])"

definition scrub :: "string \<Rightarrow> string" where
  "scrub val = re_sub API_KEY_REGEX (\<lambda>g. group1 g @ ''=[REDACTED]'') [] (re_sub BEARER_REGEX (\<lambda>g. group1 g @ ''[REDACTED]'') [] val)"

definition sensitive_key :: "string \<Rightarrow> bool" where
  "sensitive_key key = (let key_clean = str_replace ''-'' ''_'' (lower key) in list_ex (\<lambda>s. contains s key_clean) SENSITIVE_KEYS)"

abbreviation redacted :: pyval where
  "redacted \<equiv> PStr ''[REDACTED]''"

fun sanitize_value :: "string \<Rightarrow> pyval \<Rightarrow> pyval" where
  "sanitize_value key (PStr s) = (if sensitive_key key then redacted else PStr (scrub s))"
| "sanitize_value key (PDict d) = (if sensitive_key key then redacted else PDict (map (\<lambda>(k, v). (k, sanitize_value k v)) d))"
| "sanitize_value key (PList vs) = (if sensitive_key key then redacted else PList (map (sanitize_value key) vs))"
| "sanitize_value key v = (if sensitive_key key then redacted else v)"

definition sanitize_dict :: "pydict \<Rightarrow> pydict" where
  "sanitize_dict d = map (\<lambda>(k, v). (k, sanitize_value k v)) d"

text \<open>A log line, from the text of the message and the extra fields of the record.\<close>

record log_record =
  lg_level :: string
  lg_logger :: string
  lg_message :: string
  lg_extra :: "string \<Rightarrow> pyval option"

definition log_data :: "string \<Rightarrow> log_record \<Rightarrow> pydict" where
  "log_data now r =
     [(''timestamp'', PStr now), (''level'', PStr (lg_level r)), (''logger'', PStr (lg_logger r)), (''message'', PStr (lg_message r))] @
     concat (map (\<lambda>k. case lg_extra r k of None \<Rightarrow> [] | Some v \<Rightarrow> [(k, v)])
       [''event_id'', ''tenant_id'', ''provider_id'', ''status'', ''duration_ms'', ''error_type''])"

definition format_log :: "string \<Rightarrow> log_record \<Rightarrow> string" where
  "format_log now r = json_dumps default_opts (PDict (sanitize_dict (log_data now r)))"

subsection \<open>What the service guarantees\<close>

definition demo_api_env :: m4_env where
  "demo_api_env = \<lparr> env_now = 0, env_now_iso = ''t'', env_sha256 = example_hash, env_re = (\<lambda>_ _. None), env_iso_ok = (\<lambda>_. True) \<rparr>"

definition demo_m4_request :: enrichment_request where
  "demo_m4_request = \<lparr> rq_event = example_canonical, rq_tenant_context = None, rq_configuration_version = None, rq_options = [] \<rparr>"

definition bare_engine :: m4_engine where
  "bare_engine = \<lparr> eng_registry = [], eng_configs = new_manager, eng_cache = None \<rparr>"

text \<open>Nested values: no entry under a sensitive key but the marker.\<close>

fun all_redacted :: "pyval \<Rightarrow> bool" where
  "all_redacted (PDict d) = list_all (\<lambda>(k, v). (sensitive_key k \<longrightarrow> v = redacted) \<and> all_redacted v) d"
| "all_redacted (PList vs) = list_all all_redacted vs"
| "all_redacted v = True"

lemma sanitize_sensitive: "sensitive_key k \<Longrightarrow> sanitize_value k v = redacted"
  by (cases v) simp_all

lemma sanitize_value_redacted: "all_redacted (sanitize_value k v)"
proof (induction k v rule: sanitize_value.induct)
  case (2 key d)
  then show ?case by (auto simp: list_all_iff sanitize_sensitive)
next
  case (3 key vs)
  then show ?case by (simp add: list_all_iff)
qed simp_all

lemma empty_not_sensitive: "\<not> sensitive_key []"
  by code_simp

text \<open>What is printed in a log line has passed the redaction: the keys are those of the record, and at no depth does a value stand under a
  sensitive key.\<close>

theorem redaction_complete: "all_redacted (PDict (sanitize_dict d)) \<and> map fst (sanitize_dict d) = map fst d"
proof
  have "sanitize_dict d = (case sanitize_value [] (PDict d) of PDict d' \<Rightarrow> d' | _ \<Rightarrow> [])"
    "\<exists>d'. sanitize_value [] (PDict d) = PDict d'" by (simp_all add: sanitize_dict_def empty_not_sensitive)
  then show "all_redacted (PDict (sanitize_dict d))" using sanitize_value_redacted [of "[]" "PDict d"] by auto
qed (auto simp: sanitize_dict_def)

lemma scope_mismatch:
  assumes "rq_tenant_context req = Some t" "tc_tenant_id t \<noteq> tm_tenant_id (c_tenant (rq_event req))"
  shows "\<exists>e. process env eng req = (eng, Inl e)"
proof (cases rule: process_cases [of env eng req])
  case (loop cfg tctx ctx bypass ps)
  then show ?thesis using assms by (simp add: resolve_tenant_def validate_event_tenant_def split: if_splits)
qed auto

lemma enrich_failure_code: "\<exists>code detail. enrich_failure e = HTTPException code detail \<and> code \<in> {400, 500}"
  by (simp add: enrich_failure_def)

text \<open>(C26) A key that is bound to a tenant cannot have an event of another tenant processed, not even with a context that names its own tenant: the
  answer is an error and the engine with its cache is unchanged.\<close>

theorem bound_key_confined:
  assumes "map_of STATIC_KEY_ROLE_MAPPING key = Some (role, scope)" "key \<noteq> []" "scope \<noteq> ''*''" "tm_tenant_id (c_tenant (rq_event req)) \<noteq> scope"
  shows "\<exists>code detail. enrich_event env eng (Some key) req = (eng, Inl (HTTPException code detail)) \<and> code \<in> {400, 403, 500}"
proof -
  have key: "get_current_principal (Some key) = Inr \<lparr> ap_role = role, ap_allowed_tenant_scope = scope \<rparr>"
    using assms(1,2) by (simp add: get_current_principal_def truthy_def)
  show ?thesis
  proof (cases "role \<in> {M4_EVENT_PROCESSING, M4_ADMIN} \<and> enrich_target_tenant req = scope")
    case True
    then obtain t where t: "rq_tenant_context req = Some t" "tc_tenant_id t = scope"
      using assms(4) by (auto simp: enrich_target_tenant_def split: option.splits)
    then obtain e where "process env eng req = (eng, Inl e)" using scope_mismatch assms(4) by metis
    then show ?thesis using True key enrich_failure_code [of e] by (auto simp: enrich_event_def require_api_roles_def check_scope_def)
  next
    case False
    then show ?thesis using key assms(3) by (auto simp: enrich_event_def require_api_roles_def check_scope_def)
  qed
qed

theorem bound_key_confined_witness:
  "\<exists>code detail. enrich_event demo_api_env m4_deployed (Some ''m4-tenant-alpha-key'') demo_m4_request = (m4_deployed, Inl (HTTPException code detail)) \<and> code \<in> {400, 403, 500}"
  by (rule bound_key_confined [where role = M4_EVENT_PROCESSING and scope = "''tenant_alpha''"])
     (simp_all add: STATIC_KEY_ROLE_MAPPING_def demo_m4_request_def example_canonical_def)

text \<open>The providers of the service keep the contract of the engine.\<close>

lemma m4_deployed_contract: "list_all enrichment_provider (map snd (eng_registry m4_deployed))"
proof -
  have step: "list_all enrichment_provider (map snd (register_provider p reg))"
    if "enrichment_provider p" "list_all enrichment_provider (map snd reg)" for p reg
    using that by (induction reg) (auto simp: register_provider_def)
  show ?thesis unfolding m4_deployed_def
    by (simp add: step asset.enrichment_provider_axioms geo.enrichment_provider_axioms threat.enrichment_provider_axioms)
qed

lemma finish_sealed:
  assumes "finish env ev0 n st = Inr res"
  shows "\<exists>meta. c_integrity (er_event res) = Some meta \<and> im_digest meta \<noteq> [] \<and> lower (im_digest meta) = im_digest meta \<and> strip (im_digest meta) = im_digest meta \<and>
    (\<forall>now ph. calculate_integrity (env_sha256 env) now (event_dump (er_event res)) ph =
      Inr \<lparr> im_digest = im_digest meta, im_generated_at = now, im_phase = ph \<rparr>)"
proof -
  let ?a = "attach_to_event (l_tracker st) (l_event st)"
  from assms obtain meta where m: "calculate_integrity (env_sha256 env) (env_now_iso env) (event_dump ?a) ''enriched'' = Inr meta"
    and res: "er_event res = ?a\<lparr>c_integrity := Some meta\<rparr>" by (auto simp: finish_def Let_def)
  from m obtain h where h: "hash_canonical_sha256 (env_sha256 env) (PDict (strip_integrity (event_dump ?a))) = Inr h"
    "validate_digest_hex h = Inr (im_digest meta)" by (auto simp: calculate_integrity_def)
  then show ?thesis using res validate_digest_hex_fixed [OF h(2)] by (simp add: calculate_integrity_def event_dump_integrity)
qed

text \<open>(C38) The two endpoints fit: the event of an enrichment that succeeds, sent to the other endpoint without a digest by a caller whose role allows it, is valid, and
  the digest of the answer is the one that the event carries.\<close>

theorem enriched_event_accepted:
  assumes "enrich_event env eng key req = (eng', Inr res)" "require_api_roles [M4_EVENT_PROCESSING, M4_ANALYST_READ, M4_ADMIN] key' = Inr who"
  shows "\<exists>meta. c_integrity (er_event res) = Some meta \<and>
    verify_event_integrity (env\<lparr>env_now_iso := now\<rparr>) key' \<lparr> vr_event = VEvent (er_event res), vr_expected_digest = None, vr_phase = ph \<rparr> =
      Inr \<lparr> vs_valid = True, vs_computed_digest = im_digest meta, vs_phase = ph, vs_verified_at = now \<rparr>"
proof -
  have p: "process env eng req = (eng', Inr res)" using assms(1) by (auto simp: enrich_event_def split: sum.splits prod.splits)
  obtain ev0 n st where "finish env ev0 n st = Inr res"
    using p by (cases rule: process_cases [of env eng req]) (auto split: sum.splits prod.splits)
  from finish_sealed [OF this] obtain meta where meta: "c_integrity (er_event res) = Some meta" "im_digest meta \<noteq> []"
    "lower (im_digest meta) = im_digest meta" "strip (im_digest meta) = im_digest meta"
    "\<And>now ph. calculate_integrity (env_sha256 env) now (event_dump (er_event res)) ph = Inr \<lparr> im_digest = im_digest meta, im_generated_at = now, im_phase = ph \<rparr>" by blast
  then show ?thesis using assms(2)
    by (simp add: verify_event_integrity_def verify_any_def recorded_digest_def verify_integrity_def Let_def)
qed

lemma example_seal: "finite_floats (PDict (strip_integrity d)) \<Longrightarrow> \<exists>meta. calculate_integrity example_hash now d ph = Inr meta"
proof -
  have ok: "succeeds r \<Longrightarrow> \<exists>x. r = Inr x" for r :: "string result" by (cases r) simp_all
  assume "finite_floats (PDict (strip_integrity d))"
  from ok [OF this [folded canonicalize_succeeds]] obtain canon where "canonicalize_to_str (PDict (strip_integrity d)) = Inr canon" by blast
  moreover have "validate_digest_hex (lower (replicate 64 CHR ''a'')) = Inr (replicate 64 CHR ''a'')" by code_simp
  ultimately show ?thesis by (simp add: calculate_integrity_def hash_canonical_sha256_def canonicalize_def hash_bytes_sha256_def example_hash_def del: canonicalize_to_str.simps)
qed

lemma demo_enrichment: "\<exists>res. enrich_event demo_api_env bare_engine None demo_m4_request = (bare_engine, Inr res)"
proof -
  let ?st = "start_loop example_canonical None default_config"
  have v: "validate_event (env_iso_ok demo_api_env) (rq_event demo_m4_request) = Inr example_canonical"
    "resolve_config (eng_configs bare_engine) (rq_configuration_version demo_m4_request) = Inr default_config"
    "rbind (require_api_roles [M4_EVENT_PROCESSING, M4_ADMIN] None) (\<lambda>who. check_scope who demo_m4_request) = Inr ()" by code_simp+
  have t: "resolve_tenant demo_m4_request example_canonical default_config = Inr \<lparr> tc_tenant_id = ''acme'', tc_scope = [], tc_configuration_version = ''1.0.0'' \<rparr>"
    by code_simp
  have plan: "plan_execution re [] event cfg ctx = []" for re event cfg ctx
    using plan_providers [of _ re "[]" event cfg ctx] by (cases "plan_execution re [] event cfg ctx") auto
  have "finite_floats (PDict (strip_integrity (event_dump (attach_to_event (l_tracker ?st) (l_event ?st)))))" by code_simp
  from example_seal [OF this] obtain meta where
    m: "calculate_integrity example_hash ''t'' (event_dump (attach_to_event (l_tracker ?st) (l_event ?st))) ''enriched'' = Inr meta" by blast
  have "verify_invariants example_canonical (l_event ?st) = Inr ()" by code_simp
  then have "\<exists>res. finish demo_api_env example_canonical 0 ?st = Inr res" using m by (simp add: finish_def Let_def demo_api_env_def)
  moreover have "process demo_api_env bare_engine demo_m4_request = (bare_engine, finish demo_api_env example_canonical 0 ?st)"
    using v(1,2) t plan by (simp add: process_def Let_def validate_event_tenant_def bare_engine_def example_canonical_def start_loop_def)
  ultimately show ?thesis using v(3) by (auto simp: enrich_event_def)
qed

theorem enriched_event_accepted_witness:
  "\<exists>eng' res meta. enrich_event demo_api_env bare_engine None demo_m4_request = (eng', Inr res) \<and> c_integrity (er_event res) = Some meta \<and>
    verify_event_integrity (demo_api_env\<lparr>env_now_iso := ''u''\<rparr>) (Some ''m4-analyst-key'')
      \<lparr> vr_event = VEvent (er_event res), vr_expected_digest = None, vr_phase = ''enriched'' \<rparr> =
      Inr \<lparr> vs_valid = True, vs_computed_digest = im_digest meta, vs_phase = ''enriched'', vs_verified_at = ''u'' \<rparr>"
proof -
  obtain res where e: "enrich_event demo_api_env bare_engine None demo_m4_request = (bare_engine, Inr res)" using demo_enrichment by blast
  have "require_api_roles [M4_EVENT_PROCESSING, M4_ANALYST_READ, M4_ADMIN] (Some ''m4-analyst-key'') = Inr \<lparr> ap_role = M4_ANALYST_READ, ap_allowed_tenant_scope = ''*'' \<rparr>"
    by code_simp
  from enriched_event_accepted [OF e this] e show ?thesis by blast
qed

subsection \<open>What it does not\<close>

text \<open>A request without a key has all rights.\<close>

lemma anonymous_is_admin:
  "enrich_event env eng None req = enrich_event env eng (Some ''m4-admin-key'') req"
  "get_active_configuration eng None = get_active_configuration eng (Some ''m4-admin-key'')"
  by (simp_all add: enrich_event_def get_active_configuration_def require_api_roles_def get_current_principal_def truthy_def STATIC_KEY_ROLE_MAPPING_def)

text \<open>The rest of a secret after an equals sign stays in the log, and so does one after a colon.\<close>

lemma scrub_leaks:
  "scrub ''password=abc=hunter2'' = ''password=[REDACTED]=hunter2''"
  "scrub ''Bearer abc.def GET /x?token=t1'' = ''Bearer [REDACTED] GET /x?token=[REDACTED]''"
  "scrub ''password: hunter2'' = ''password: hunter2''"
  by code_simp+

end
