(* ===== verification/Spec2Isabelle.thy ===== *)
theory Spec2Isabelle
  imports M5_App M4_Config M4_Engine M1_Transports Int_Consumer Int_Gateway Int_Pipeline
    M6_Parsers M6_Mappings M6_Sources M6_Policies M6_Platform M2_Discovery Int_ConfigSync M6_Users M6_Snapshot M4_Api
begin

text \<open>
  A verification library for ULPF, the Universal Log Processing Framework: a pipeline of services that takes log events of many tenants,
  keeps the raw bytes, parses, enriches and routes the events, and is configured by a control plane. Throughout, one question
  comes back: can the data or the configuration of one tenant reach another, and can an event be lost on its way.

  \<^bold>\<open>The parts of the program.\<close>
  \<^item> M1 (\<open>src/M1/modules/m1-ingestion/app\<close>) receives events over HTTP, TCP, UDP and from files, gives each an identifier and a digest, stores the
    bytes in a vault and publishes an envelope to Kafka, or spools it in an outbox that is drained later.
  \<^item> M2 (\<open>src/M2/abcd-main/app\<close>) classifies the payload of an envelope and parses it with a parser of the tenant, of the baseline or built in; parsers
    are registered, versioned and tested through its API.
  \<^item> M3 normalises parsed events; its code is not part of the repository, so it is a parameter of the models that call it.
  \<^item> M4 (\<open>src/M4/app\<close>) enriches a canonical event with providers under a versioned configuration, caches their answers per tenant and seals
    the result with a digest.
  \<^item> M5 (\<open>src/M5/app\<close>) matches the event against the policies of the tenant, delivers it to the destinations with retries, acknowledgements and a
    dead letter queue, keeps it in a data lake and answers queries.
  \<^item> M6 (\<open>src/M6/M6-SIH-main/backend/app\<close>) is the control plane: accounts, tenants, parsers, mappings, sources, policies, schemas and replays, each
    change written to an outbox and pushed to the module that it concerns.
  \<^item> The integration layer (\<open>src/integration\<close>) joins them: the ingress gateway that binds a client to its tenant, adapters between the contracts, the
    pipeline runner, the consumer that carries raw events from M1 to M2, the tracker of duplicates, and the worker that applies M6's distributions.

  \<^bold>\<open>The theories.\<close> Python comes first. \<open>Prelude\<close> has exceptions as a sum type and dictionaries as association lists with their collections of
  rewrite rules; \<open>Py_Str\<close>, \<open>Py_Float\<close> (doubles as rounded rationals), \<open>Py_Value\<close> (JSON-shaped values, truth, equality, printing), \<open>Py_Json\<close>,
  \<open>Py_Bytes\<close> (UTF-8, base64, hexadecimal), \<open>Py_Net\<close> (\<open>ipaddress\<close> on words of 32 and 128 bits, \<open>urlparse\<close>) and \<open>Py_Re\<close> (a backtracking matcher
  for the regular expressions of the sources) model what
  the sources use of the language. A string is a list of characters with codes below 256. \<open>Bounded_Map\<close> states the contract of a bounded store.
  \<^item> M1: \<open>M1_Envelope\<close> (\<open>integrity\<close>, \<open>envelope\<close>), \<open>M1_Pipeline\<close> (\<open>storage/raw_vault.py\<close>, \<open>kafka/producer.py\<close>, the outbox and
    \<open>ingestion_pipeline\<close>), \<open>M1_Transports\<close> (rate limiter, HTTP handler, probes, TCP, UDP and file collectors).
  \<^item> M2: \<open>M2_Engine\<close> and \<open>M2_Formats\<close> (\<open>engine\<close>: key-value, JSON, CEF, LEEF, and the theorems on them), \<open>M2_Grok\<close> (\<open>grok.py\<close>, \<open>regex.py\<close>),
    \<open>M2_Classifier\<close> (\<open>classifier\<close>), \<open>M2_Registry\<close> (\<open>registry\<close>, \<open>studio/validation.py\<close>), \<open>M2_Api\<close> (\<open>auth\<close>, \<open>main.py\<close>, \<open>replay\<close>,
    \<open>studio\<close>), \<open>M2_Discovery\<close> (\<open>discovery\<close>).
  \<^item> M4: \<open>M4_Cache\<close>, \<open>M4_Config\<close>, \<open>M4_Integrity\<close>, \<open>M4_Event\<close> (contracts, conditions, planner, merger), \<open>M4_Providers\<close>, \<open>M4_Engine\<close>,
    \<open>M4_Network\<close> (\<open>security/ssrf_guard.py\<close>, the HTTP and the GeoIP provider), \<open>M4_Api\<close> (\<open>api\<close>, \<open>security/sanitizers.py\<close>, the log formatter).
  \<^item> M5: \<open>M5_Evaluator\<close> and \<open>M5_Router\<close> (\<open>router\<close>), \<open>M5_Policy\<close> (\<open>policy\<close>), \<open>M5_Delivery\<close> (\<open>delivery\<close>), \<open>M5_Connectors\<close>
    (\<open>connectors\<close>, \<open>datalake\<close>), \<open>M5_Api\<close> (\<open>api\<close>), \<open>M5_App\<close> (\<open>main.py\<close>).
  \<^item> M6: \<open>M6_Distribution\<close> (outbox and acknowledgements), \<open>M6_Clients\<close> (clients of the modules, platform health), \<open>M6_Access\<close> and \<open>M6_Users\<close>
    (tokens, roles, tenant context, accounts), \<open>M6_Registry\<close> (what the registries share), \<open>M6_Parsers\<close>, \<open>M6_Mappings\<close>, \<open>M6_Sources\<close>,
    \<open>M6_Policies\<close>, \<open>M6_Platform\<close> (schemas, tenants, replays), \<open>M6_Snapshot\<close> (the published configuration, the audit log).
  \<^item> Integration: \<open>Int_Gateway\<close>, \<open>Int_Adapters\<close>, \<open>Int_Pipeline\<close>, \<open>Int_Consumer\<close>, \<open>Int_Idempotency\<close>, \<open>Int_ConfigSync\<close>.
  \<^item> This theory joins components: gateway and M1, the chain from the adapters over M4 to M5, and M6 with the configuration worker.

  \<^bold>\<open>How the code is modelled.\<close> The object of a class is a record and an enumeration a datatype; a method that changes its object takes the
  record and returns the new one with its result. Every raise and early return is a branch: \<open>Inl\<close> of an exception, with the state that it leaves.
  A table of a database is the list of its rows, and a request is one transaction. The concurrent deliveries of M5 are explicit schedules
  of steps. Elsewhere a request is one step: the configuration worker, whose handlers await the modules between the check of a version
  and its recording, is modelled for requests that are served one after another, and a lemma shows what an overlap can do. What comes from outside is an argument: clocks, identifiers, random bits, the outcome of every request, file and database
  operation, and the libraries (pydantic's constructors, JWT, bcrypt, SHA-256, \<open>yaml\<close>, \<open>packaging.version\<close>, \<open>re\<close> on configured patterns).
  What a theorem needs of them is a hypothesis of the theorem, and its witness instantiates it.

  \<^bold>\<open>What the lemmas show.\<close>
  \<^item> Nothing is lost: an accepted event is in the vault and published or spooled, the outbox drains, a delivery ends acknowledged or in the dead
    letter queue, under every schedule with the same result and also when the file of the queue cannot be written (then the error is raised); every
    message below the offset that the consumer has committed was handed to the processing, through restarts and deaths of the process.
  \<^item> Tenants stay apart: in the gateway, the caches, the policies, the queries, the registries of M2 and M6, the accounts, and along the whole
    chain from the gateway to a destination.
  \<^item> The edges are guarded: a request of M4's HTTP provider goes only where the guard allows, a key bound to a tenant is confined to it, and no
    value under a sensitive key reaches a log line.
  \<^item> Operations meet their specification: the router implements the policy semantics, conditions are evaluated as they read, parsers read back
    what was written, encodings have inverses, flattened objects are looked up by path.
  \<^item> State machines keep their invariants: configuration versions of M4, parser lifecycles and the outbox of M6, versions and answers of the
    configuration worker; an acknowledgement that M6 holds stands for a recorded configuration.
  \<^item> Where the code falls short of its documentation, a lemma exhibits it.

  \<^bold>\<open>Interfaces.\<close> \<open>bounded_map\<close> (the cache of M4, the tracker of duplicates), \<open>enrichment_provider\<close> (the providers of M4), \<open>tenant_query\<close> (the three
  queries of M5's API), \<open>idempotent_sink\<close> (OpenSearch and the data lake), \<open>local_tasks\<close> (deliveries that touch only their own entry),
  \<open>tenant_keeping\<close> (stages of the pipeline runner), \<open>partitioned_store\<close> (M2's registry), \<open>tenant_registry\<close> and its extension
  \<open>extension_registry\<close> (the registries of M6), \<open>growing_store\<close> (active versions and kept answers of the configuration worker). Each is
  interpreted on the definitions of the component that provides it.

  \<^bold>\<open>Bounds.\<close> Recursion is structural or has a measure; there is no fuel that could run out unnoticed. A delivery with \<open>n\<close> retries takes at most
  \<open>2 n + 1\<close> turns of the schedule, which \<open>deliver_to_all_terminates\<close> shows to be enough; the outbox is drained in batches of 100 rows and
  the number of turns that empties it is part of \<open>outbox_drains\<close>. M6 tries a dispatch three times with pauses of at most ten seconds. Grok references
  are expanded five times, as in the code. Integers with more than 4300 digits are refused like by the interpreter.

  \<^bold>\<open>Not modelled.\<close> M3, whose sources are missing; the metrics, logging and start-up code of all modules, which only wires or counts; the
  wrappers of M6 around the Kafka, Redis, MinIO and OpenSearch libraries, its database migrations and contract generator, which write constant files;
  \<open>run_stack.py\<close> and the demonstration scripts, which start processes. Characters above 255, the caching of the ORM session and the
  rendering of responses are not modelled either. Reachable states of the registries start from empty tables, not from the rows that
  \<open>scripts/seed.py\<close> inserts; where a query of M6 leaves the order of rows open, the model keeps one order.
\<close>

section \<open>Properties across components\<close>

subsection \<open>Gateway and M1\<close>

text \<open>The request of M1's handler that the forwarded one becomes: the parameters of \<open>handle_http_ingest\<close> and the headers
  that it reads from the request.\<close>

definition m1_request_of :: "forwarded \<Rightarrow> http_request" where
  "m1_request_of fw =
     (let h = map_of (fw_headers fw) in
      \<lparr> hr_authorization = h ''Authorization'', hr_content_length = Some (int_str (int (length (fw_body fw)))),
        hr_content_type = h ''Content-Type'', hr_tenant_id = h ''X-Tenant-ID'', hr_source_id = h ''X-Source-ID'',
        hr_source_type = h ''X-Source-Type'', hr_ingest_zone = h ''X-Ingest-Zone'', hr_collector_id = h ''X-Collector-ID'',
        hr_chunks = [fw_body fw] \<rparr>)"

lemma ingest_event_forwards:
  assumes "ingest_event env sa gw uuid m1 req = (Some fw, r)"
  obtains token cred ctx ct where "client_token (cq_authorization req) (cq_api_key req) = Some token"
    "map_of (gw_credentials gw) token = Some cred" "ic_tenant_id ctx = cr_tenant_id cred"
    "fw = forward_request env sa gw (cq_path req) (cq_method req) (cq_body req) ctx ct (cq_source_id req)"
proof -
  obtain ctx where a: "authenticate_client uuid gw (cq_authorization req) (cq_api_key req) (cq_tenant_id req) = Inr ctx"
    and fw: "fw = forward_request env sa gw (cq_path req) (cq_method req) (cq_body req) ctx
      (case cq_content_type req of Some t \<Rightarrow> t | None \<Rightarrow> ''application/json'') (cq_source_id req)"
    using assms by (auto simp: ingest_event_def Let_def split: sum.splits)
  from a obtain token cred where "client_token (cq_authorization req) (cq_api_key req) = Some token"
    "map_of (gw_credentials gw) token = Some cred" "ic_tenant_id ctx = cr_tenant_id cred"
    by (rule authenticate_ok) simp
  then show thesis using that fw by blast
qed

text \<open>(C5) Behind the gateway M1 files an event under the tenant of the client's credential: whatever headers the client sends,
  an event that M1 accepts from the gateway is published with the tenant that the registry binds to the
  presented token, and with the bytes that the client sent.\<close>

theorem gateway_binds_tenant:
  assumes "ingest_event env sa gw uuid m1 creq = (Some fw, r)"
    and "handle_http_ingest menv cfg now io (m1_request_of fw) app = (app', Inr resp)"
    and "\<forall>c \<in> snd ` set (gw_credentials gw). cr_tenant_id c \<noteq> []"
  shows "\<exists>token cred. client_token (cq_authorization creq) (cq_api_key creq) = Some token \<and>
    map_of (gw_credentials gw) token = Some cred \<and> ir_tenant_id resp = cr_tenant_id cred \<and>
    (\<exists>e \<in> published (s_kafka (app_state app')). rv_raw_event_id e = ir_raw_event_id resp \<and> rv_tenant_id e = cr_tenant_id cred \<and>
       payload_bytes (rv_payload e) = cq_body creq)"
proof -
  obtain token cred ctx ct where g: "client_token (cq_authorization creq) (cq_api_key creq) = Some token"
    "map_of (gw_credentials gw) token = Some cred" "ic_tenant_id ctx = cr_tenant_id cred"
    "fw = forward_request env sa gw (cq_path creq) (cq_method creq) (cq_body creq) ctx ct (cq_source_id creq)"
    using ingest_event_forwards [OF assms(1)] by blast
  have ne: "cr_tenant_id cred \<noteq> []" using assms(3) map_of_SomeD [OF g(2)] by force
  obtain e where e: "e \<in> published (s_kafka (app_state app'))" "rv_raw_event_id e = ir_raw_event_id resp" "rv_tenant_id e = ir_tenant_id resp"
    "ir_tenant_id resp = header_or (hr_tenant_id (m1_request_of fw)) (cfg_default_tenant_id cfg)"
    "payload_bytes (rv_payload e) = concat (hr_chunks (m1_request_of fw))"
    using assms(2) by (rule http_accepted)
  have "ir_tenant_id resp = cr_tenant_id cred" "payload_bytes (rv_payload e) = cq_body creq"
    using e(4,5) ne g(3) unfolding g(4) by (auto simp: m1_request_of_def Let_def forward_tenant header_or_def split: list.splits)
  then show ?thesis using g e by auto
qed

text \<open>An example: the gateway with its built-in registry in front of a running M1.\<close>

definition demo_client :: client_request where
  "demo_client = \<lparr> cq_path = ''/v1/events'', cq_method = ''POST'', cq_authorization = Some ''Bearer key-tenant-alpha-prod'', cq_api_key = None,
     cq_tenant_id = None, cq_source_id = None, cq_content_type = None, cq_body = [65] \<rparr>"

definition demo_gateway :: gateway where
  "demo_gateway = \<lparr> gw_m1_internal_url = ''http://m1'', gw_credentials = TENANT_CREDENTIAL_REGISTRY \<rparr>"

definition demo_m1_app :: m1_app where
  "demo_m1_app = \<lparr> app_limiter = new_limiter 1 1 0, app_state = running_m1 \<rparr>"

definition demo_os_env :: os_env where
  "demo_os_env = [''M1_INTERNAL_TOKEN'' \<mapsto> ''secret'']"

definition demo_alpha :: integration_context where
  "demo_alpha = \<lparr> ic_tenant_id = ''tenant-alpha'', ic_source_id = ''external-ingress'', ic_principal = Some ''alpha-agent-01'',
     ic_correlation_id = ''u'', ic_ingested_at = None \<rparr>"

lemma demo_token: "client_token (Some ''Bearer key-tenant-alpha-prod'') None = Some ''key-tenant-alpha-prod''"
  by code_simp

lemma demo_authenticate: "authenticate_client ''u'' demo_gateway (Some ''Bearer key-tenant-alpha-prod'') None None = Inr demo_alpha"
  by (simp add: authenticate_client_def demo_token demo_gateway_def TENANT_CREDENTIAL_REGISTRY_def demo_alpha_def)

lemma demo_bearer: "verify_bearer_token example_settings (Some ''Bearer secret'') = Inr ''secret''"
  by code_simp

lemma demo_length: "length_check 2097152 (Some (int_str 1)) = Inr ()"
  by code_simp

lemma demo_forward:
  "\<exists>fw r. ingest_event demo_os_env (new_service_auth demo_os_env) demo_gateway ''u'' (\<lambda>_. Inr (202, [], [])) demo_client = (Some fw, r) \<and>
     map_of (fw_headers fw) ''Authorization'' = Some ''Bearer secret'' \<and> fw_body fw = [65]"
  by (simp add: ingest_event_def demo_client_def demo_authenticate forward_tenant demo_os_env_def getenv_def Let_def)

lemma demo_accepted:
  assumes "map_of (fw_headers fw) ''Authorization'' = Some ''Bearer secret''" and "fw_body fw = [65]"
  shows "\<exists>app resp. handle_http_ingest example_env example_settings 0 example_ingest (m1_request_of fw) demo_m1_app = (app, Inr resp)"
proof -
  let ?req = "m1_request_of fw"
  have b: "read_body example_settings ?req = Inr [65]"
    using demo_length assms(2) by (simp add: read_body_def m1_request_of_def example_settings_def Let_def)
  have v: "verify_bearer_token example_settings (hr_authorization ?req) = Inr ''secret''"
    using demo_bearer assms(1) by (simp add: m1_request_of_def Let_def)
  obtain rl where l: "check_limit 0 1 (app_limiter demo_m1_app) = (rl, Inr ())"
    by (simp add: check_limit_def consume_def demo_m1_app_def new_limiter_def)
  obtain e s where "process_raw_payload example_env example_ingest [65] (http_metadata example_settings ?req) ''http'' (Some (cfg_http_port example_settings))
      (if contains ''application/json'' (lower (case hr_content_type ?req of Some t \<Rightarrow> t | None \<Rightarrow> [])) then ''json'' else ''syslog'')
      (cfg_minio_bucket_raw example_settings) (app_state demo_m1_app) = (s, Inr e)"
    using running_process by (metis demo_m1_app_def m1_app.select_convs(2))
  then show ?thesis using b v l by (simp add: handle_http_ingest_def Let_def)
qed

theorem gateway_binds_tenant_witness:
  "\<exists>fw app resp. handle_http_ingest example_env example_settings 0 example_ingest (m1_request_of fw) demo_m1_app = (app, Inr resp) \<and>
     ir_tenant_id resp = ''tenant-alpha'' \<and> (\<exists>e \<in> published (s_kafka (app_state app)). rv_tenant_id e = ''tenant-alpha'' \<and>
     payload_bytes (rv_payload e) = [65])"
proof -
  obtain fw r where f: "ingest_event demo_os_env (new_service_auth demo_os_env) demo_gateway ''u'' (\<lambda>_. Inr (202, [], [])) demo_client = (Some fw, r)"
    "map_of (fw_headers fw) ''Authorization'' = Some ''Bearer secret''" "fw_body fw = [65]" using demo_forward by blast
  obtain app resp where a: "handle_http_ingest example_env example_settings 0 example_ingest (m1_request_of fw) demo_m1_app = (app, Inr resp)"
    using demo_accepted [OF f(2,3)] by blast
  have "\<forall>c \<in> snd ` set (gw_credentials demo_gateway). cr_tenant_id c \<noteq> []" by (simp add: demo_gateway_def TENANT_CREDENTIAL_REGISTRY_def)
  from gateway_binds_tenant [OF f(1) a this]
  have "ir_tenant_id resp = ''tenant-alpha'' \<and> (\<exists>e \<in> published (s_kafka (app_state app)). rv_tenant_id e = ''tenant-alpha'' \<and>
     payload_bytes (rv_payload e) = [65])"
    by (auto simp: demo_client_def demo_token demo_gateway_def TENANT_CREDENTIAL_REGISTRY_def)
  with a show ?thesis by blast
qed

subsection \<open>M4 and M5 behind the pipeline runner\<close>

text \<open>The engine of M4 as the enrichment service of the runner. \<open>parse\<close> is the validation of the request by pydantic, and
  \<open>diag\<close> the dump of the diagnostics with their timings.\<close>

definition m4_service :: "m4_env \<Rightarrow> m4_engine \<Rightarrow> (pydict \<Rightarrow> enrichment_request result) \<Rightarrow> (enrichment_diagnostic \<Rightarrow> pyval) \<Rightarrow>
    pydict \<Rightarrow> pydict result" where
  "m4_service menv eng parse diag d =
     rbind (parse d) (\<lambda>req. rbind (snd (process menv eng req)) (\<lambda>res.
       Inr [(''event'', PDict (event_dump (er_event res))), (''status'', PStr (status_value (er_status res))),
            (''provenance'', PList (map provenance_dump (er_provenance res))), (''diagnostics'', diag (er_diagnostics res)),
            (''integrity'', integrity_dump (er_integrity res))]))"

text \<open>A model keeps the value of a string field.\<close>

definition parse_keeps_tenant :: "(pydict \<Rightarrow> enrichment_request result) \<Rightarrow> bool" where
  "parse_keeps_tenant parse \<longleftrightarrow> (\<forall>d req e t s. parse d = Inr req \<and> item (PDict d) ''event'' = Inr (PDict e) \<and> pget e ''tenant'' = PDict t \<and>
     pget t ''tenant_id'' = PStr s \<longrightarrow> tm_tenant_id (c_tenant (rq_event req)) = s)"

definition m5_service :: "re_engine \<Rightarrow> policy_rule list \<Rightarrow> string \<Rightarrow> pydict \<Rightarrow> string list result" where
  "m5_service re rules now event = rbind (route re rules event now) (\<lambda>(ds, dec). Inr ds)"

lemma process_core:
  assumes "process menv eng req = (eng', Inr res)"
  shows "core (er_event res) = core (rq_event req)"
proof (cases rule: process_cases [of menv eng req])
  case (loop cfg tctx ctx bypass ps)
  then show ?thesis using assms finish_ok(1) by (auto split: sum.splits prod.splits)
qed (use assms in simp_all)

lemma m4_service_keeps:
  assumes "parse_keeps_tenant parse"
  shows "tenant_keeping (m4_service menv eng parse diag)"
proof
  fix req out ev t s
  assume a: "m4_service menv eng parse diag req = Inr out" "item (PDict req) ''event'' = Inr (PDict ev)" "pget ev ''tenant'' = PDict t"
    "pget t ''tenant_id'' = PStr s"
  obtain rq res where p: "parse req = Inr rq" "process menv eng rq = (fst (process menv eng rq), Inr res)"
    "pget out ''event'' = PDict (event_dump (er_event res))"
    using a(1) by (auto simp: m4_service_def pget_def) (metis prod.collapse)
  have "tm_tenant_id (c_tenant (er_event res)) = s"
    using process_core [OF p(2)] assms p(1) a unfolding parse_keeps_tenant_def core_def by blast
  then show "\<exists>ev' t'. pget out ''event'' = PDict ev' \<and> ev' \<noteq> [] \<and> pget ev' ''tenant'' = PDict t' \<and> pget t' ''tenant_id'' = PStr s"
    using p(3) by (auto simp: event_dump_def pget_def Let_def)
qed

lemma extract_tenant_adapted:
  assumes "pget e ''tenant'' = PDict t" and "pget t ''id'' = PStr s" and "s \<noteq> []"
  shows "extract_tenant_id e = Some s"
  using assms extract_two [of "''tenant''" "''id''" e] by (simp add: extract_tenant_id_def Let_def)

text \<open>(C1) Tenant isolation from end to end: an event that a client submits through the gateway, and that the runner takes
  through any ingestion, parser and normaliser, the engine of M4 and the router of M5, reaches a destination only
  by an enabled policy that is global or belongs to the tenant of the client's credential.\<close>

theorem end_to_end_tenant_isolation:
  assumes "authenticate_client uuid gw auth api requested = Inr ctx"
    and "sv_m4 sv = Some (m4_service menv eng parse diag)" and "parse_keeps_tenant parse" and "sv_m5 sv = Some (m5_service re rules now)"
    and "px_success (execute_pipeline env sv raw ctx transport)" and "dest \<in> set (px_destinations (execute_pipeline env sv raw ctx transport))"
  shows "\<exists>token cred rule. client_token auth api = Some token \<and> map_of (gw_credentials gw) token = Some cred \<and>
    rule \<in> set rules \<and> enabled rule \<and> dest \<in> set (destinations rule) \<and>
    (\<not> py_truthy (rule_tenant rule) \<or> rule_tenant rule = PStr (cr_tenant_id cred))"
proof -
  obtain token cred where c: "client_token auth api = Some token" "map_of (gw_credentials gw) token = Some cred" "ic_tenant_id ctx = cr_tenant_id cred"
    using authenticate_ok [OF assms(1)] by (metis integration_context.select_convs(1))
  obtain tr tr' ids ev_id digest m5 where run: "run_hops env sv raw ctx transport tr =
      (tr', Inr (ids, ev_id, digest, m5, px_destinations (execute_pipeline env sv raw ctx transport)))"
    using assms(5) by (rule execute_pipeline_success) simp
  let ?ds = "px_destinations (execute_pipeline env sv raw ctx transport)"
  obtain data req m4 where h: "m3_adapt (pe_clock env) data ctx (pi_raw_event_id ids) (pi_raw_hash ids) (pi_storage_ref ids) None = Inr req"
    "m4_service menv eng parse diag req = Inr m4" "m4_adapt m4 = Inr m5" "m5_service re rules now m5 = Inr ?ds"
    using run_hops_m4 [OF run] assms(2,4) by (auto simp: enricher_def router_def)
  note t = tenant_keeping.adapted_tenant [OF m4_service_keeps [OF assms(3)] h(1-3)]
  then have x: "extract_tenant_id m5 = Some (ic_tenant_id ctx)" using extract_tenant_adapted by blast
  obtain dec where r: "route re rules m5 now = Inr (?ds, dec)" using h(4) by (auto simp: m5_service_def)
  obtain rule where "rule \<in> set rules" "applies re m5 rule" "dest \<in> set (destinations rule)"
    using route_spec(1) [OF r] assms(6) by auto
  then show ?thesis using c x by (auto simp: applies_def tenant_skips_def py_eq_opt_str opt_str_def)
qed

text \<open>An example: a parser and a normaliser that name another tenant, and the policies of two tenants.\<close>

definition demo_engine :: m4_engine where
  "demo_engine = \<lparr> eng_registry = [], eng_configs = new_manager, eng_cache = None \<rparr>"

definition demo_m4_env :: m4_env where
  "demo_m4_env = \<lparr> env_now = 0, env_now_iso = ''t'', env_sha256 = example_hash, env_re = (\<lambda>_ _. None), env_iso_ok = (\<lambda>_. True) \<rparr>"

definition demo_request :: enrichment_request where
  "demo_request = \<lparr> rq_event = example_canonical\<lparr>c_tenant := \<lparr> tm_tenant_id = ''tenant-alpha'', tm_scope = [] \<rparr>\<rparr>, 
     rq_tenant_context = Some \<lparr> tc_tenant_id = ''tenant-alpha'', tc_scope = [], tc_configuration_version = ''1.0.0'' \<rparr>, rq_configuration_version = None, rq_options = [] \<rparr>"

text \<open>A validation that accepts the events of the tenant \<open>tenant-alpha\<close>.\<close>

definition demo_parse :: "pydict \<Rightarrow> enrichment_request result" where
  "demo_parse d =
     (case pget d ''event'' of
        PDict e \<Rightarrow> (case pget e ''tenant'' of
          PDict t \<Rightarrow> if pget t ''tenant_id'' = PStr ''tenant-alpha'' then Inr demo_request else Inl (ValueError ''tenant'')
        | _ \<Rightarrow> Inl (ValueError ''tenant''))
      | _ \<Rightarrow> Inl (ValueError ''event''))"

lemma demo_parse_keeps: "parse_keeps_tenant demo_parse"
  by (auto simp: parse_keeps_tenant_def demo_parse_def demo_request_def item_def pget_def split: pyval.splits if_splits option.splits)

lemma example_digest: "validate_digest_hex (lower (example_hash b)) = Inr (replicate 64 CHR ''a'')"
  unfolding example_hash_def by code_simp

lemma demo_valid: "validate_event (\<lambda>_. True) (rq_event demo_request) = Inr (rq_event demo_request)"
proof -
  have "strip ''e1'' \<noteq> []" "strip ''raw1'' \<noteq> []" "strip ''tenant-alpha'' \<noteq> []" by code_simp+
  then show ?thesis by (simp add: validate_event_def demo_request_def example_canonical_def)
qed

lemma demo_tenant: "tm_tenant_id (c_tenant (rq_event demo_request)) = ''tenant-alpha''" "rq_options demo_request = []"
  "rq_configuration_version demo_request = None" "rq_tenant_context demo_request =
     Some \<lparr> tc_tenant_id = ''tenant-alpha'', tc_scope = [], tc_configuration_version = ''1.0.0'' \<rparr>"
  by (simp_all add: demo_request_def)

lemma demo_process: "\<exists>eng res. process demo_m4_env demo_engine demo_request = (eng, Inr res)"
proof -
  have ff: "finite_floats (PDict (strip_integrity (event_dump (attach_to_event tr (rq_event demo_request)))))" if "pt_records tr = []" for tr
    using that by (simp add: attach_to_event_def demo_request_def example_canonical_def event_dump_def strip_integrity_def empty_endpoint_def
        endpoint_dump_def strs_def ostr_def oint_def sub_dict_def)
  have "succeeds (calculate_integrity example_hash ''t'' (event_dump (attach_to_event tr (rq_event demo_request))) ''enriched'')" if "pt_records tr = []" for tr
    using ff [OF that] unfolding canonicalize_succeeds [symmetric]
    by (auto simp: succeeds_def calculate_integrity_def hash_canonical_sha256_def canonicalize_def hash_bytes_sha256_def example_digest split: sum.splits)
  from this [of "\<lparr> pt_configuration_version = ''1.0.0'', pt_records = [] \<rparr>"]
  obtain meta where "calculate_integrity example_hash ''t'' (event_dump (attach_to_event \<lparr> pt_configuration_version = ''1.0.0'', pt_records = [] \<rparr>
      (rq_event demo_request))) ''enriched'' = Inr meta"
    by (auto simp: succeeds_def split: sum.splits)
  then show ?thesis
    by (simp add: process_def demo_valid resolve_config_def get_active_def new_manager_def resolve_tenant_def validate_event_tenant_def
        plan_execution_def default_config_def demo_engine_def demo_m4_env_def finish_def start_loop_def verify_invariants_core map_filter_simps
        sort_providers_def demo_tenant Let_def)
qed

definition demo_chain :: services where
  "demo_chain = demo_services\<lparr>sv_m4 := Some (m4_service demo_m4_env demo_engine demo_parse (\<lambda>_. PNone)),
     sv_m5 := Some (m5_service (\<lambda>_ _. None) [example_rule ''q'' ''tenant-beta'' ''kafka'', example_rule ''r'' ''tenant-alpha'' ''siem''] ''t'')\<rparr>"

lemma demo_route:
  "extract_tenant_id e = Some ''tenant-alpha'' \<Longrightarrow>
   m5_service (\<lambda>_ _. None) [example_rule ''q'' ''tenant-beta'' ''kafka'', example_rule ''r'' ''tenant-alpha'' ''siem''] ''t'' e = Inr [''siem'']"
  by (simp add: m5_service_def route_def example_rule_def tenant_skips_def rule_matches_def opt_str_def Let_def)

lemma demo_chain_run:
  "px_success (execute_pipeline demo_pipe_env demo_chain ''x'' demo_alpha ''http'') \<and>
   px_destinations (execute_pipeline demo_pipe_env demo_chain ''x'' demo_alpha ''http'') = [''siem'']"
proof -
  obtain eng res where p: "process demo_m4_env demo_engine demo_request = (eng, Inr res)" using demo_process by blast
  have t: "tm_tenant_id (c_tenant (er_event res)) = ''tenant-alpha''" using process_core [OF p] demo_tenant(1) by (simp add: core_def)
  let ?out = "[(''event'', PDict (event_dump (er_event res))), (''status'', PStr (status_value (er_status res))),
            (''provenance'', PList (map provenance_dump (er_provenance res))), (''diagnostics'', PNone),
            (''integrity'', integrity_dump (er_integrity res))]"
  obtain m5 where a: "m4_adapt ?out = Inr m5"
    by (simp add: m4_adapt_def attach_all_def harmonize_tenant_def event_dump_def pget_def dict_has_def integrity_dump_def t Let_def)
  have d: "pget ?out ''event'' = PDict (event_dump (er_event res))" "event_dump (er_event res) \<noteq> []"
    "pget (event_dump (er_event res)) ''tenant'' = PDict [(''tenant_id'', PStr ''tenant-alpha''), (''scope'', PDict (tm_scope (c_tenant (er_event res))))]"
    "pget [(''tenant_id'', PStr ''tenant-alpha''), (''scope'', PDict (tm_scope (c_tenant (er_event res))))] ''tenant_id'' = PStr ''tenant-alpha''"
    using t by (simp_all add: event_dump_def pget_def Let_def)
  have "extract_tenant_id m5 = Some ''tenant-alpha''"
    using m4_adapt_tenant(2) [OF a d] extract_tenant_adapted by blast
  note r = demo_route [OF this]
  show ?thesis
    by (simp add: demo_chain_def demo_pipe_env_def demo_services_def demo_alpha_def pipe_hop_defs m4_service_def demo_parse_def p a [unfolded integrity_dump_def] r integrity_dump_def)
qed

theorem end_to_end_tenant_isolation_witness:
  "\<exists>rule \<in> set [example_rule ''q'' ''tenant-beta'' ''kafka'', example_rule ''r'' ''tenant-alpha'' ''siem''].
     enabled rule \<and> ''siem'' \<in> set (destinations rule) \<and> (\<not> py_truthy (rule_tenant rule) \<or> rule_tenant rule = PStr ''tenant-alpha'')"
proof -
  have s: "sv_m4 demo_chain = Some (m4_service demo_m4_env demo_engine demo_parse (\<lambda>_. PNone))"
    "sv_m5 demo_chain = Some (m5_service (\<lambda>_ _. None) [example_rule ''q'' ''tenant-beta'' ''kafka'', example_rule ''r'' ''tenant-alpha'' ''siem''] ''t'')"
    by (simp_all add: demo_chain_def)
  have "''siem'' \<in> set (px_destinations (execute_pipeline demo_pipe_env demo_chain ''x'' demo_alpha ''http''))" using demo_chain_run by simp
  from end_to_end_tenant_isolation [OF demo_authenticate s(1) demo_parse_keeps s(2) conjunct1 [OF demo_chain_run] this]
  show ?thesis by (auto simp: demo_token demo_gateway_def TENANT_CREDENTIAL_REGISTRY_def)
qed

subsection \<open>M6 and the configuration worker\<close>

text \<open>The request that M6's client sends to the worker, \<open>POST /config/apply\<close>, and what it comes to.\<close>

definition worker_answer :: "sync_env \<Rightarrow> sync_io \<Rightarrow> pydict \<Rightarrow> sync_worker \<Rightarrow> sync_worker \<times> http_outcome" where
  "worker_answer env io event st =
     (case apply_config_endpoint env io None (Inr (PDict event)) st of
        (st', Inr ack) \<Rightarrow> (st', Responded \<lparr> hp_status = 200, hp_json = Inr (PDict ack), hp_text = [] \<rparr>)
      | (st', Inl e) \<Rightarrow> (st', Responded \<lparr> hp_status = 500, hp_json = Inl (ValueError ''Expecting value''), hp_text = ''Internal Server Error'' \<rparr>))"

text \<open>The environment of M6 whose modules are reached through the worker in state \<open>st\<close>.\<close>

definition behind_worker :: "client_settings \<Rightarrow> sync_env \<Rightarrow> sync_io \<Rightarrow> sync_worker \<Rightarrow> dist_env \<Rightarrow> change \<Rightarrow> dist_env" where
  "behind_worker s wenv io st denv c =
     denv\<lparr>de_push := client_push s (de_now denv) (\<lambda>_. snd (worker_answer wenv io (config_event denv c) st)) (config_event denv c)\<rparr>"

lemma config_event_behind [simp]: "config_event (behind_worker s wenv io st denv c) c' = config_event denv c'"
  by (simp add: behind_worker_def config_event_def)

lemma config_event_fields:
  "ev_version (config_event denv c) = ch_version c" "ev_payload (config_event denv c) = PDict (ch_payload c)"
  "distribution_of (config_event denv c) = PStr (de_distribution_id denv)" "pget_default (config_event denv c) ''config_type'' v = PStr (ch_config_type c)"
  by (simp_all add: ev_version_def ev_payload_def distribution_of_def config_event_def pget_default_def)

lemma client_push_applied:
  assumes "applied (client_push s now (\<lambda>_. snd (worker_answer wenv io event st)) event md) k" "\<not> cs_use_mock_adapters s"
  obtains st' ack where "apply_configuration wenv io default_options None event st = (st', Inr ack)" "pget ack ''status'' = PStr ''APPLIED''"
proof -
  obtain st' r where r: "apply_configuration wenv io default_options None event st = (st', r)" by fastforce
  have "\<exists>ack. r = Inr ack \<and> pget ack ''status'' = PStr ''APPLIED''"
    using assms r by (cases r) (auto simp: applied_def client_push_def get_client_def Let_def push_configuration_def worker_answer_def
        apply_config_endpoint_def as_dict_def dict_of_def client_ack_def pget_def split: if_splits)
  then show thesis using that r by blast
qed

text \<open>(C22) An acknowledged distribution is recorded: when M6 distributes a change through the HTTP client and the configuration worker, and ends with
  \<open>ACKNOWLEDGED\<close> for a distribution the worker had not seen, the worker holds the version and the payload of the change under the
  scope of one of the modules and has written the file of that module.\<close>

theorem acknowledged_means_recorded:
  assumes "\<not> cs_use_mock_adapters s" "md \<in> {''M1'', ''M2'', ''M3'', ''M4'', ''M5''}"
    and "vdict_get (sw_distributions st) (PStr (de_distribution_id denv)) = None"
    and "dispatch_single_target (behind_worker s wenv io st denv c) actor role (new_target denv c md) = (t', es, sleeps)"
    and "tg_status t' = DS_ACKNOWLEDGED"
  shows "\<exists>owner. owner \<in> {''M1'', ''M2'', ''M3'', ''M4'', ''M5''} \<and>
    map_of (sw_active_versions (fst (worker_answer wenv io (config_event denv c) st))) (recorded_scope owner (config_event denv c)) = Some (ch_version c) \<and>
    map_of (sw_active_configs (fst (worker_answer wenv io (config_event denv c) st))) (recorded_scope owner (config_event denv c)) = Some (PDict (ch_payload c)) \<and>
    map_of (sw_files (fst (worker_answer wenv io (config_event denv c) st))) (fst (config_file wenv owner (config_event denv c))) =
      Some (snd (config_file wenv owner (config_event denv c)))"
proof -
  let ?env = "behind_worker s wenv io st denv c"
  have push: "de_push ?env = client_push s (de_now denv) (\<lambda>_. snd (worker_answer wenv io (config_event denv c) st)) (config_event denv c)"
    by (simp add: behind_worker_def)
  from http_dispatch_once [OF assms(1) _ _ push, of "new_target denv c md" actor role] assms(2,4,5)
  have "applied (client_push s (de_now denv) (\<lambda>_. snd (worker_answer wenv io (config_event denv c) st)) (config_event denv c) md) 1"
    by (auto simp: new_target_def push split: if_splits)
  then obtain st' ack where a: "apply_configuration wenv io default_options None (config_event denv c) st = (st', Inr ack)" "pget ack ''status'' = PStr ''APPLIED''"
    using client_push_applied assms(1) by metis
  have "fst (worker_answer wenv io (config_event denv c) st) = st'" using a by (simp add: worker_answer_def apply_config_endpoint_def as_dict_def)
  moreover have "vdict_get (sw_distributions st) (distribution_of (config_event denv c)) = None" using assms(3) by (simp add: config_event_fields)
  moreover have "pget (config_event denv c) ''payload'' = PDict (ch_payload c)" by (simp add: config_event_def pget_def)
  ultimately show ?thesis using applied_recorded [OF a(1) _ a(2)] by (auto simp: config_event_fields)
qed

theorem acknowledged_means_recorded_witness:
  "\<exists>owner. map_of (sw_active_versions (fst (worker_answer demo_sync demo_sync_io (config_event demo_dist demo_change) new_worker)))
     (recorded_scope owner (config_event demo_dist demo_change)) = Some ''1.0.0''"
proof -
  obtain t' es sl where d: "dispatch_single_target (behind_worker demo_clients demo_sync demo_sync_io new_worker demo_dist demo_change) ''root'' None
      (new_target demo_dist demo_change ''M3'') = (t', es, sl)" by (metis prod.exhaust)
  have "tg_status (fst (dispatch_single_target (behind_worker demo_clients demo_sync demo_sync_io new_worker demo_dist demo_change) ''root'' None
      (new_target demo_dist demo_change ''M3''))) = DS_ACKNOWLEDGED" by code_simp
  then have ack: "tg_status t' = DS_ACKNOWLEDGED" using d by simp
  have "\<not> cs_use_mock_adapters demo_clients" "''M3'' \<in> {''M1'', ''M2'', ''M3'', ''M4'', ''M5''}"
    "vdict_get (sw_distributions new_worker) (PStr (de_distribution_id demo_dist)) = None" by (simp_all add: demo_clients_def new_worker_def)
  from acknowledged_means_recorded [OF this d ack] show ?thesis by (auto simp: demo_change_def)
qed

text \<open>A source is never acknowledged: the worker answers \<open>RESTART_REQUIRED\<close> at best, which M6 takes for a rejection.\<close>

lemma sources_never_acknowledged:
  assumes "\<not> cs_use_mock_adapters s" and "vdict_get (sw_distributions st) (PStr (de_distribution_id denv)) = None" and "ch_config_type c = ''sources''"
  shows "\<exists>t' es. dispatch_single_target (behind_worker s wenv io st denv c) actor role (new_target denv c ''M1'') = (t', es, []) \<and> tg_status t' = DS_FAILED"
proof -
  let ?env = "behind_worker s wenv io st denv c"
  have push: "de_push ?env = client_push s (de_now denv) (\<lambda>_. snd (worker_answer wenv io (config_event denv c) st)) (config_event denv c)"
    by (simp add: behind_worker_def)
  have "\<not> applied (client_push s (de_now denv) (\<lambda>_. snd (worker_answer wenv io (config_event denv c) st)) (config_event denv c) ''M1'') 1"
  proof
    assume "applied (client_push s (de_now denv) (\<lambda>_. snd (worker_answer wenv io (config_event denv c) st)) (config_event denv c) ''M1'') 1"
    then obtain st' ack where a: "apply_configuration wenv io default_options None (config_event denv c) st = (st', Inr ack)" "pget ack ''status'' = PStr ''APPLIED''"
      using client_push_applied assms(1) by metis
    have "lower_str (pget_default (config_event denv c) ''config_type'' (PStr [])) = Inr ''sources''"
      using assms(3) by (simp add: config_event_fields lower_str_def) code_simp
    then show False using sources_never_applied [OF a(1), of "''sources''"] a(2) assms(2) by (simp add: config_event_fields)
  qed
  then show ?thesis using http_dispatch_once [OF assms(1) _ _ push, of "new_target denv c ''M1''" actor role] by (auto simp: new_target_def push)
qed

end
